(* ===== verification/RiscvPrelude.thy ===== *)
theory RiscvPrelude
  imports Main "HOL-Library.Word"
begin

text \<open>
  Shared vocabulary of the development: the C integer types the simulator model uses
  (\<^verbatim>\<open>Uns8\<close> .. \<^verbatim>\<open>Uns64\<close> as fixed-width words, so that arithmetic wraps as it does in C),
  bit fields of a word (\<^verbatim>\<open>struct { Uns64 PPN : 44; ... }\<close>) with the laws that reading a
  field after writing a field obeys, the low-order mask idiom \<^verbatim>\<open>(1ULL<<n)-1\<close>, natural
  alignment, and a few facts on words as numbers that several components need.
\<close>

unbundle bit_operations_syntax

type_synonym uns8 = "8 word"
type_synonym uns16 = "16 word"
type_synonym uns32 = "32 word"
type_synonym uns64 = "64 word"

named_theorems field_simps_rv "reading a bit field after writing one"
named_theorems frame_simps "state components an operation leaves alone"
named_theorems csr_defs "the register access macros, for unfolding"

section \<open>Bit fields\<close>

text \<open>\<open>getf lo w x\<close> is the \<open>w\<close>-bit field of \<open>x\<close> at bit \<open>lo\<close>; \<open>setf lo w v x\<close> is \<open>x\<close>
  with that field replaced by the low \<open>w\<close> bits of \<open>v\<close> (C truncates on assignment).\<close>

definition getf :: "nat \<Rightarrow> nat \<Rightarrow> 'a::len word \<Rightarrow> 'a word" where
  "getf lo w x = take_bit w (drop_bit lo x)"

definition setf :: "nat \<Rightarrow> nat \<Rightarrow> 'a::len word \<Rightarrow> 'a word \<Rightarrow> 'a word" where
  "setf lo w v x = (x AND NOT (push_bit lo (mask w))) OR push_bit lo (take_bit w v)"

lemma bit_getf [bit_simps]: "bit (getf lo w x) n \<longleftrightarrow> n < w \<and> bit x (lo + n)"
  by (simp add: getf_def bit_simps)

lemma bit_setf [bit_simps]: "bit (setf lo w v x) n \<longleftrightarrow>
    (if lo \<le> n \<and> n < lo + w then n < LENGTH('a) \<and> bit v (n - lo) else bit x n)"
  for x :: "'a::len word"
  by (auto simp: setf_def bit_simps dest: bit_imp_le_length)

lemma getf_setf_same [field_simps_rv, simp]:
  "lo + w \<le> LENGTH('a) \<Longrightarrow> getf lo w (setf lo w v x) = take_bit w v"
  for x :: "'a::len word"
  by (rule bit_word_eqI) (auto simp: bit_simps)

lemma getf_setf_other [field_simps_rv, simp]:
  "lo + w \<le> lo' \<or> lo' + w' \<le> lo \<Longrightarrow> getf lo w (setf lo' w' v x) = getf lo w x"
  for x :: "'a::len word"
  by (rule bit_word_eqI) (auto simp: bit_simps)

lemma setf_setf_same [field_simps_rv, simp]: "setf lo w v (setf lo w u x) = setf lo w v x"
  for x :: "'a::len word"
  by (rule bit_word_eqI) (auto simp: bit_simps)

lemma setf_getf [field_simps_rv, simp]: "setf lo w (getf lo w x) x = x"
  for x :: "'a::len word"
  by (rule bit_word_eqI) (auto simp: bit_simps)

lemma setf_full: "setf 0 LENGTH('a) v x = v" for x :: "'a::len word"
  by (rule bit_word_eqI) (auto simp: bit_simps)

lemma setf_64_full [simp]: "setf 0 64 v x = v" for x :: uns64
  using setf_full [where 'a = 64] by simp

lemma getf_64_full [simp]: "getf 0 64 x = x" for x :: uns64
  by (rule bit_word_eqI) (auto simp: bit_simps dest: bit_imp_le_length)

lemma getf_0_take_bit: "getf 0 w x = take_bit w x"
  by (simp add: getf_def)

lemma take_bit_getf [simp]: "w \<le> n \<Longrightarrow> take_bit n (getf lo w x) = getf lo w x"
  for x :: "'a::len word"
  by (rule bit_word_eqI) (auto simp: bit_simps)

lemma getf_take_bit [simp]: "lo + w \<le> n \<Longrightarrow> getf lo w (take_bit n x) = getf lo w x"
  for x :: "'a::len word"
  by (rule bit_word_eqI) (auto simp: bit_simps)

lemma unat_getf_less: "unat (getf lo w x) < 2 ^ w" for x :: "'a::len word"
  by (simp add: getf_def unsigned_take_bit_eq)

text \<open>Evaluation of fields of literals.\<close>

lemmas field_eval = getf_def setf_def mask_eq_exp_minus_1

section \<open>The C idioms for masks and alignment\<close>

text \<open>\<^verbatim>\<open>(1ULL << n) - 1\<close> is \<open>mask n\<close>; for \<open>n < 64\<close> the C shift is defined.\<close>

definition low_mask :: "nat \<Rightarrow> uns64" where
  "low_mask n = push_bit n 1 - 1"

lemma low_mask_eq: "low_mask n = mask n"
  by (simp add: low_mask_def mask_eq_exp_minus_1 push_bit_eq_mult)

lemma bit_low_mask [bit_simps]: "bit (low_mask n) k \<longleftrightarrow> k < n \<and> k < 64"
  by (auto simp: low_mask_eq bit_simps)

section \<open>Order and alignment facts on words\<close>

lemma word_less_le_minus_1: "a < b \<Longrightarrow> a \<le> b - 1" for a b :: "'a::len word"
  by uint_arith

lemma word_less_plus_1_le: "a < b \<Longrightarrow> a + 1 \<le> b" for a b :: "'a::len word"
  by uint_arith

lemma word_le_minus_1_less: "c < b \<Longrightarrow> a \<le> b - 1 \<Longrightarrow> a < b" for a b :: "'a::len word"
  by uint_arith

lemma word_plus_1_le_less: "b < c \<Longrightarrow> b + 1 \<le> a \<Longrightarrow> b < a" for a b :: "'a::len word"
  by uint_arith

lemma unat_bound: "unat x < 2 ^ LENGTH('a)" for x :: "'a::len word"
  by (rule unsigned_less)

lemma unat_plus_1: "a < b \<Longrightarrow> unat (a + 1) = Suc (unat a)" for a b :: "'a::len word"
  by unat_arith

text \<open>A 4-byte region starts at an address whose low two bits are 0 and ends at one whose low
  two bits are 3.\<close>

definition starts4 :: "uns64 \<Rightarrow> bool" where
  "starts4 x \<longleftrightarrow> take_bit 2 x = 0"

definition ends4 :: "uns64 \<Rightarrow> bool" where
  "ends4 x \<longleftrightarrow> take_bit 2 x = 3"

lemma starts4_minus_1 [simp, intro]: "starts4 x \<Longrightarrow> ends4 (x - 1)"
  unfolding starts4_def ends4_def take_bit_eq_mod
  by (simp add: word_uint_eq_iff uint_mod uint_word_ariths mod_mod_cancel) presburger

lemma ends4_plus_1 [simp, intro]: "ends4 x \<Longrightarrow> starts4 (x + 1)"
  unfolding starts4_def ends4_def take_bit_eq_mod
  by (simp add: word_uint_eq_iff uint_mod uint_word_ariths mod_mod_cancel) presburger

lemma starts4_plus_3 [simp, intro]: "starts4 x \<Longrightarrow> ends4 (x + 3)"
  unfolding starts4_def ends4_def take_bit_eq_mod
  by (simp add: word_uint_eq_iff uint_mod uint_word_ariths mod_mod_cancel) presburger

lemma starts4_not_ends4: "starts4 x \<Longrightarrow> ends4 y \<Longrightarrow> x \<noteq> y"
  by (auto simp: starts4_def ends4_def)

lemma starts4_iff: "starts4 x \<longleftrightarrow> \<not> bit x 0 \<and> \<not> bit x 1"
proof
  assume "starts4 x"
  then have "\<not> bit (take_bit 2 x) 0" and "\<not> bit (take_bit 2 x) 1" by (simp_all add: starts4_def)
  then show "\<not> bit x 0 \<and> \<not> bit x 1" by (simp add: bit_take_bit_iff)
next
  assume "\<not> bit x 0 \<and> \<not> bit x 1"
  then show "starts4 x"
    unfolding starts4_def by (intro bit_word_eqI) (auto simp: bit_take_bit_iff less_2_cases_iff intro: gr0I)
qed

lemma ends4_iff: "ends4 x \<longleftrightarrow> bit x 0 \<and> bit x 1"
proof -
  have three: "(3::uns64) = mask 2" by (simp add: mask_eq_exp_minus_1)
  show ?thesis
  proof
    assume "ends4 x"
    then have "bit (take_bit 2 x) 0" and "bit (take_bit 2 x) 1"
      by (simp_all add: ends4_def three bit_mask_iff)
    then show "bit x 0 \<and> bit x 1" by (simp add: bit_take_bit_iff)
  next
    assume "bit x 0 \<and> bit x 1"
    then show "ends4 x" unfolding ends4_def three
      by (intro bit_word_eqI) (auto simp: bit_take_bit_iff bit_mask_iff less_2_cases_iff)
  qed
qed

lemma starts4_push_bit [simp]: "2 \<le> n \<Longrightarrow> starts4 (push_bit n x)"
  by (simp add: starts4_iff bit_simps)

lemma starts4_0 [simp]: "starts4 0"
  by (simp add: starts4_def)

lemma starts4_and [simp]: "starts4 x \<or> starts4 y \<Longrightarrow> starts4 (x AND y)"
  by (auto simp: starts4_iff bit_simps)

lemma ends4_or [simp]: "ends4 x \<or> ends4 y \<Longrightarrow> ends4 (x OR y)"
  by (auto simp: ends4_iff bit_simps)

lemma starts4_not [simp]: "ends4 x \<Longrightarrow> starts4 (NOT x)"
  by (auto simp: starts4_iff ends4_iff bit_simps)

section \<open>The lowest set bit\<close>

lemma and_minus_odd: "odd y \<Longrightarrow> y AND - y = 1" for y :: "'a::len word"
proof (rule bit_word_eqI)
  fix n
  assume odd: "odd y" and "n < LENGTH('a)"
  then show "bit (y AND - y) n \<longleftrightarrow> bit (1 :: 'a word) n"
    using odd_bit_iff_bit_pred [OF odd, of n]
    by (auto simp: bit_simps bit_minus_iff bit_0 dest: bit_imp_le_length)
qed

lemma and_minus_lowest:
  fixes x :: "'a::len word"
  assumes "m < LENGTH('a)" and "bit x m" and "\<And>j. j < m \<Longrightarrow> \<not> bit x j"
  shows "x AND - x = push_bit m 1"
proof -
  define y where "y = drop_bit m x"
  have x: "x = push_bit m y"
    unfolding y_def using assms(3)
    by (intro bit_word_eqI) (metis bit_push_bit_iff bit_drop_bit_eq comp_apply le_add_diff_inverse
        not_le possible_bit_word)
  have "odd y" using assms(2) by (simp add: y_def flip: bit_0 add: bit_simps)
  have "- x = push_bit m (- y)" unfolding x by (simp add: push_bit_eq_mult)
  then have "x AND - x = push_bit m (y AND - y)" by (subst (1) x) simp
  with \<open>odd y\<close> show ?thesis by (simp add: and_minus_odd)
qed

end
