(* ===== verification/RiscvTypes.thy ===== *)
theory RiscvTypes
  imports RiscvPrelude
begin

text \<open>
  The data of the processor model: architecture feature bits (\<^verbatim>\<open>riscvVariant.h\<close>), privilege
  modes (\<^verbatim>\<open>riscvMode.h\<close>), exception codes (\<^verbatim>\<open>riscvExceptionTypes.h\<close>), the control and status
  registers with their 32-bit and 64-bit views and the macros that access them
  (\<^verbatim>\<open>riscvCSR.h\<close>), the configuration (\<^verbatim>\<open>riscvConfig.h\<close>) and the processor structure
  (\<^verbatim>\<open>riscvStructure.h\<close>). The calls the model makes into the simulator kernel (the VMI
  run-time functions, which are not part of the sources) are recorded in order in the field
  \<^verbatim>\<open>calls\<close> of the processor; the values that kernel functions return are a parameter, the
  record \<^verbatim>\<open>vmirt\<close> of functions of the calls made so far.
\<close>

section \<open>Architecture features\<close>

type_synonym riscvArchitecture = uns32

definition RISCV_FEATURE_BIT :: "nat \<Rightarrow> riscvArchitecture" where
  "RISCV_FEATURE_BIT i = push_bit i 1"

abbreviation (input) XLEN_SHIFT :: nat where "XLEN_SHIFT \<equiv> 26"

abbreviation (input) ISA_XLEN_32 :: riscvArchitecture where "ISA_XLEN_32 \<equiv> 0x04000000"
abbreviation (input) ISA_XLEN_64 :: riscvArchitecture where "ISA_XLEN_64 \<equiv> 0x08000000"
abbreviation (input) ISA_and :: riscvArchitecture where "ISA_and \<equiv> 0x10000000"
abbreviation (input) ISA_A :: riscvArchitecture where "ISA_A \<equiv> 0x00000001"
abbreviation (input) ISA_C :: riscvArchitecture where "ISA_C \<equiv> 0x00000004"
abbreviation (input) ISA_D :: riscvArchitecture where "ISA_D \<equiv> 0x00000008"
abbreviation (input) ISA_E :: riscvArchitecture where "ISA_E \<equiv> 0x00000010"
abbreviation (input) ISA_F :: riscvArchitecture where "ISA_F \<equiv> 0x00000020"
abbreviation (input) ISA_I :: riscvArchitecture where "ISA_I \<equiv> 0x00000100"
abbreviation (input) ISA_M :: riscvArchitecture where "ISA_M \<equiv> 0x00001000"
abbreviation (input) ISA_N :: riscvArchitecture where "ISA_N \<equiv> 0x00002000"
abbreviation (input) ISA_S :: riscvArchitecture where "ISA_S \<equiv> 0x00040000"
abbreviation (input) ISA_U :: riscvArchitecture where "ISA_U \<equiv> 0x00100000"
abbreviation (input) ISA_X :: riscvArchitecture where "ISA_X \<equiv> 0x00800000"
abbreviation (input) ISA_DF :: riscvArchitecture where "ISA_DF \<equiv> 0x00000028"
abbreviation (input) ISA_SorU :: riscvArchitecture where "ISA_SorU \<equiv> 0x00140000"
abbreviation (input) ISA_SorN :: riscvArchitecture where "ISA_SorN \<equiv> 0x00042000"
abbreviation (input) ISA_SandN :: riscvArchitecture where "ISA_SandN \<equiv> 0x10042000"

text \<open>The literals are the bits \<^verbatim>\<open>riscvVariant.h\<close> computes from the feature letters.\<close>

lemma isa_feature_bits:
  "ISA_A = RISCV_FEATURE_BIT 0" "ISA_C = RISCV_FEATURE_BIT 2" "ISA_D = RISCV_FEATURE_BIT 3"
  "ISA_E = RISCV_FEATURE_BIT 4" "ISA_F = RISCV_FEATURE_BIT 5" "ISA_I = RISCV_FEATURE_BIT 8"
  "ISA_M = RISCV_FEATURE_BIT 12" "ISA_N = RISCV_FEATURE_BIT 13" "ISA_S = RISCV_FEATURE_BIT 18"
  "ISA_U = RISCV_FEATURE_BIT 20" "ISA_X = RISCV_FEATURE_BIT 23"
  "ISA_XLEN_32 = RISCV_FEATURE_BIT 26" "ISA_XLEN_64 = RISCV_FEATURE_BIT 27"
  "ISA_and = RISCV_FEATURE_BIT 28" "ISA_DF = ISA_D OR ISA_F" "ISA_SorU = ISA_S OR ISA_U"
  "ISA_SorN = ISA_S OR ISA_N" "ISA_SandN = ISA_S OR ISA_N OR ISA_and"
  by (simp_all add: RISCV_FEATURE_BIT_def)

text \<open>C truth of a mask test \<^verbatim>\<open>arch & FEATURE\<close>.\<close>

definition has :: "'a::len word \<Rightarrow> 'a word \<Rightarrow> bool" where
  "has arch feature \<longleftrightarrow> arch AND feature \<noteq> 0"

lemma has_bit [simp]: "has x (2 ^ n) \<longleftrightarrow> bit x n" "has x (push_bit n 1) \<longleftrightarrow> bit x n"
  by (simp_all add: has_def and_exp_eq_0_iff_not_bit)

datatype riscvPrivVer = RVPV_1_10 | RVPV_1_11

section \<open>Modes\<close>

datatype riscvMode = RISCV_MODE_USER | RISCV_MODE_SUPERVISOR | RISCV_MODE_HYPERVISOR
  | RISCV_MODE_MACHINE

fun mode_code :: "riscvMode \<Rightarrow> nat" where
  "mode_code RISCV_MODE_USER = 0"
| "mode_code RISCV_MODE_SUPERVISOR = 1"
| "mode_code RISCV_MODE_HYPERVISOR = 2"
| "mode_code RISCV_MODE_MACHINE = 3"

definition mode_of :: "nat \<Rightarrow> riscvMode" where
  "mode_of n = (if n = 0 then RISCV_MODE_USER else if n = 1 then RISCV_MODE_SUPERVISOR
     else if n = 2 then RISCV_MODE_HYPERVISOR else RISCV_MODE_MACHINE)"

lemma mode_of_code [simp]: "mode_of (mode_code m) = m"
  by (cases m) (simp_all add: mode_of_def)

lemma mode_code_less [simp]: "mode_code m < 4"
  by (cases m) simp_all

lemma mode_code_of [simp]: "n < 4 \<Longrightarrow> mode_code (mode_of n) = n"
  by (auto simp: mode_of_def)

lemma mode_code_inject [simp]: "mode_code a = mode_code b \<longleftrightarrow> a = b"
  by (metis mode_of_code)

instantiation riscvMode :: linorder
begin

definition less_eq_riscvMode :: "riscvMode \<Rightarrow> riscvMode \<Rightarrow> bool" where
  "less_eq_riscvMode a b \<longleftrightarrow> mode_code a \<le> mode_code b"

definition less_riscvMode :: "riscvMode \<Rightarrow> riscvMode \<Rightarrow> bool" where
  "less_riscvMode a b \<longleftrightarrow> mode_code a < mode_code b"

instance
  by standard (auto simp: less_eq_riscvMode_def less_riscvMode_def)

end

lemmas mode_ord = less_eq_riscvMode_def less_riscvMode_def

text \<open>The modes below \<^verbatim>\<open>RISCV_MODE_LAST\<close>, in the order of the loops over them.\<close>

definition all_modes :: "riscvMode list" where
  "all_modes = [RISCV_MODE_USER, RISCV_MODE_SUPERVISOR, RISCV_MODE_HYPERVISOR, RISCV_MODE_MACHINE]"

lemma set_all_modes [simp]: "m \<in> set all_modes"
  by (cases m) (simp_all add: all_modes_def)

abbreviation (input) RISCV_DMODE_VM :: uns32 where "RISCV_DMODE_VM \<equiv> 4"

abbreviation (input) RVD_WFI :: uns32 where "RVD_WFI \<equiv> 1"
abbreviation (input) RVD_NMI :: uns32 where "RVD_NMI \<equiv> 2"
abbreviation (input) RVD_RESET :: uns32 where "RVD_RESET \<equiv> 4"
abbreviation (input) RVD_RESTART_WFI :: uns32 where "RVD_RESTART_WFI \<equiv> 1"
abbreviation (input) RVD_RESTART_NMI :: uns32 where "RVD_RESTART_NMI \<equiv> 3"
abbreviation (input) RVD_RESTART_RESET :: uns32 where "RVD_RESTART_RESET \<equiv> 5"

section \<open>Exceptions\<close>

type_synonym riscvException = nat

abbreviation (input) riscv_E_InstructionAddressMisaligned :: riscvException
  where "riscv_E_InstructionAddressMisaligned \<equiv> 0"
abbreviation (input) riscv_E_InstructionAccessFault :: riscvException
  where "riscv_E_InstructionAccessFault \<equiv> 1"
abbreviation (input) riscv_E_IllegalInstruction :: riscvException where "riscv_E_IllegalInstruction \<equiv> 2"
abbreviation (input) riscv_E_Breakpoint :: riscvException where "riscv_E_Breakpoint \<equiv> 3"
abbreviation (input) riscv_E_LoadAddressMisaligned :: riscvException
  where "riscv_E_LoadAddressMisaligned \<equiv> 4"
abbreviation (input) riscv_E_LoadAccessFault :: riscvException where "riscv_E_LoadAccessFault \<equiv> 5"
abbreviation (input) riscv_E_StoreAMOAddressMisaligned :: riscvException
  where "riscv_E_StoreAMOAddressMisaligned \<equiv> 6"
abbreviation (input) riscv_E_StoreAMOAccessFault :: riscvException where "riscv_E_StoreAMOAccessFault \<equiv> 7"
abbreviation (input) riscv_E_EnvironmentCallFromUMode :: riscvException
  where "riscv_E_EnvironmentCallFromUMode \<equiv> 8"
abbreviation (input) riscv_E_EnvironmentCallFromSMode :: riscvException
  where "riscv_E_EnvironmentCallFromSMode \<equiv> 9"
abbreviation (input) riscv_E_EnvironmentCallFromHMode :: riscvException
  where "riscv_E_EnvironmentCallFromHMode \<equiv> 10"
abbreviation (input) riscv_E_EnvironmentCallFromMMode :: riscvException
  where "riscv_E_EnvironmentCallFromMMode \<equiv> 11"
abbreviation (input) riscv_E_InstructionPageFault :: riscvException where "riscv_E_InstructionPageFault \<equiv> 12"
abbreviation (input) riscv_E_LoadPageFault :: riscvException where "riscv_E_LoadPageFault \<equiv> 13"
abbreviation (input) riscv_E_StoreAMOPageFault :: riscvException where "riscv_E_StoreAMOPageFault \<equiv> 15"
abbreviation (input) riscv_E_Interrupt :: riscvException where "riscv_E_Interrupt \<equiv> 0x40"
abbreviation (input) riscv_E_Local :: riscvException where "riscv_E_Local \<equiv> 0x10"
abbreviation (input) riscv_E_LocalInterrupt :: riscvException where "riscv_E_LocalInterrupt \<equiv> 0x50"

datatype riscvAccessFault = riscv_AFault_None | riscv_AFault_PMP | riscv_AFault_Bus
  | riscv_AFault_Explicit

section \<open>Control and status registers\<close>

text \<open>A register declared with \<^verbatim>\<open>CSR_REG_STRUCT_DECL_32_64\<close> is a struct of two separate
  views; the other declarations are unions, so that the 32-bit view is the low half of the
  64-bit one and one \<^verbatim>\<open>Uns64\<close> holds both.\<close>

record csr_32_64 =
  u32_bits :: uns32
  u64_bits :: uns64

record riscvCSRs =
  fcsr :: uns64
  utvec :: uns64
  uscratch :: uns64
  uepc :: uns64
  ucause :: csr_32_64
  utval :: uns64
  sedeleg :: uns64
  sideleg :: uns64
  stvec :: uns64
  scounteren :: uns64
  sscratch :: uns64
  sepc :: uns64
  scause :: csr_32_64
  stval :: uns64
  satp :: csr_32_64
  mvendorid :: uns64
  marchid :: uns64
  mimpid :: uns64
  mhartid :: uns64
  mstatus :: uns64
  misa :: csr_32_64
  medeleg :: uns64
  mideleg :: uns64
  mie :: uns64
  mtvec :: uns64
  mcounteren :: uns64
  mscratch :: uns64
  mepc :: uns64
  mcause :: csr_32_64
  mtval :: uns64
  mip :: uns64

record riscvCSRMasks =
  utvecM :: uns64
  uepcM :: uns64
  ucauseM :: csr_32_64
  sedelegM :: uns64
  sidelegM :: uns64
  stvecM :: uns64
  scounterenM :: uns64
  sepcM :: uns64
  scauseM :: csr_32_64
  mstatusM :: uns64
  misaM :: csr_32_64
  medelegM :: uns64
  midelegM :: uns64
  mieM :: uns64
  mtvecM :: uns64
  mcounterenM :: uns64
  mepcM :: uns64
  mcauseM :: csr_32_64

text \<open>A field has a position and width in the 32-bit view and in the 64-bit view.\<close>

datatype csrField = CsrField nat nat nat nat

abbreviation (input) status_UIE where "status_UIE \<equiv> CsrField 0 1 0 1"
abbreviation (input) status_SIE where "status_SIE \<equiv> CsrField 1 1 1 1"
abbreviation (input) status_MIE where "status_MIE \<equiv> CsrField 3 1 3 1"
abbreviation (input) status_UPIE where "status_UPIE \<equiv> CsrField 4 1 4 1"
abbreviation (input) status_SPIE where "status_SPIE \<equiv> CsrField 5 1 5 1"
abbreviation (input) status_MPIE where "status_MPIE \<equiv> CsrField 7 1 7 1"
abbreviation (input) status_SPP where "status_SPP \<equiv> CsrField 8 1 8 1"
abbreviation (input) status_MPP where "status_MPP \<equiv> CsrField 11 2 11 2"
abbreviation (input) status_FS where "status_FS \<equiv> CsrField 13 2 13 2"
abbreviation (input) status_XS where "status_XS \<equiv> CsrField 15 2 15 2"
abbreviation (input) status_MPRV where "status_MPRV \<equiv> CsrField 17 1 17 1"
abbreviation (input) status_SUM where "status_SUM \<equiv> CsrField 18 1 18 1"
abbreviation (input) status_MXR where "status_MXR \<equiv> CsrField 19 1 19 1"
abbreviation (input) status_TVM where "status_TVM \<equiv> CsrField 20 1 20 1"
abbreviation (input) status_TW where "status_TW \<equiv> CsrField 21 1 21 1"
abbreviation (input) status_TSR where "status_TSR \<equiv> CsrField 22 1 22 1"
abbreviation (input) status_SD where "status_SD \<equiv> CsrField 31 1 63 1"
abbreviation (input) cause_ExceptionCode where "cause_ExceptionCode \<equiv> CsrField 0 31 0 63"
abbreviation (input) cause_Interrupt where "cause_Interrupt \<equiv> CsrField 31 1 63 1"
abbreviation (input) tvec_MODE where "tvec_MODE \<equiv> CsrField 0 2 0 2"
abbreviation (input) tvec_BASE where "tvec_BASE \<equiv> CsrField 2 30 2 62"
abbreviation (input) atp_PPN where "atp_PPN \<equiv> CsrField 0 22 0 44"
abbreviation (input) atp_ASID where "atp_ASID \<equiv> CsrField 22 9 44 16"
abbreviation (input) atp_MODE where "atp_MODE \<equiv> CsrField 31 1 60 4"
abbreviation (input) isa_Extensions where "isa_Extensions \<equiv> CsrField 0 26 0 26"
abbreviation (input) isa_MXL where "isa_MXL \<equiv> CsrField 30 2 62 2"
abbreviation (input) fcsr_NX where "fcsr_NX \<equiv> CsrField 0 1 0 1"
abbreviation (input) fcsr_UF where "fcsr_UF \<equiv> CsrField 1 1 1 1"
abbreviation (input) fcsr_OF where "fcsr_OF \<equiv> CsrField 2 1 2 1"
abbreviation (input) fcsr_DZ where "fcsr_DZ \<equiv> CsrField 3 1 3 1"
abbreviation (input) fcsr_NV where "fcsr_NV \<equiv> CsrField 4 1 4 1"
abbreviation (input) fcsr_frm where "fcsr_frm \<equiv> CsrField 5 3 5 3"
abbreviation (input) generic_value where "generic_value \<equiv> CsrField 0 64 0 64"

section \<open>Configuration\<close>

text \<open>The variant configuration, with the ranges the parameter table of
  \<^verbatim>\<open>riscvParameters.c\<close> gives its numeric members in \<open>config_ok\<close> below.\<close>

record riscvConfig =
  cfg_arch :: riscvArchitecture
  cfg_archMask :: riscvArchitecture
  priv_version :: riscvPrivVer
  reset_address :: uns64
  nmi_address :: uns64
  local_int_num :: nat
  ASID_bits :: nat
  PMP_grain :: nat
  PMP_registers :: nat
  Sv_modes :: uns32
  tvec_align :: uns32
  cfg_updatePTEA :: bool
  cfg_updatePTED :: bool
  wfi_is_nop :: bool
  mtvec_is_ro :: bool
  cycle_undefined :: bool
  time_undefined :: bool
  instret_undefined :: bool
  d_requires_f :: bool
  fs_always_dirty :: bool
  tval_ii_code :: bool
  cfg_mvendorid :: uns64
  cfg_marchid :: uns64
  cfg_mimpid :: uns64
  cfg_mhartid :: uns64
  cfg_mtvec :: uns64
  cfg_mstatus :: uns64
  cfgMask_mtvec :: uns64
  cfgMask_stvec :: uns64
  cfgMask_utvec :: uns64
  cfgMask_cause :: csr_32_64

section \<open>Memory domains, privileges and the simulator kernel\<close>

text \<open>A memory domain is an opaque handle of the kernel; 0 is the null pointer. Privileges
  are bit masks, in the order \<^verbatim>\<open>privName\<close> of \<^verbatim>\<open>riscvVM.c\<close> prints them.\<close>

type_synonym memDomainP = nat
type_synonym memPriv = uns32

abbreviation (input) MEM_PRIV_NONE :: memPriv where "MEM_PRIV_NONE \<equiv> 0"
abbreviation (input) MEM_PRIV_R :: memPriv where "MEM_PRIV_R \<equiv> 1"
abbreviation (input) MEM_PRIV_W :: memPriv where "MEM_PRIV_W \<equiv> 2"
abbreviation (input) MEM_PRIV_RW :: memPriv where "MEM_PRIV_RW \<equiv> 3"
abbreviation (input) MEM_PRIV_X :: memPriv where "MEM_PRIV_X \<equiv> 4"
abbreviation (input) MEM_PRIV_RWX :: memPriv where "MEM_PRIV_RWX \<equiv> 7"

text \<open>The last argument of \<^verbatim>\<open>vmirtProtectMemory\<close> is an action; \<open>ActionOfPriv\<close> is a privilege
  mask passed in its place.\<close>

datatype memPrivAction = MEM_PRIV_SET | MEM_PRIV_SUB | ActionOfPriv memPriv

datatype vmicall =
    VmirtSetMode uns32
  | VmirtSetBlockMask riscvArchitecture
  | VmirtSetPC uns64
  | VmirtSetPCException uns64
  | VmirtHalt
  | VmirtRestartNext
  | VmirtDoSynchronousInterrupt
  | VmirtSetProcessorASID uns32
  | VmirtSetProcessorDataDomain memDomainP
  | VmirtProtectMemory memDomainP uns64 uns64 memPriv memPrivAction
  | VmirtAliasMemory memDomainP memDomainP uns64 uns64 uns64
  | VmirtAliasMemoryVM memDomainP memDomainP uns64 uns64 uns64 memPriv uns32 uns32
  | VmirtUnaliasMemoryVM memDomainP uns64 uns64 uns32 uns32
  | VmirtNewDomain string nat
  | VmirtWrite4ByteDomain memDomainP uns64 uns32
  | VmirtWrite8ByteDomain memDomainP uns64 uns64
  | VmirtAddWriteCallback memDomainP uns64 uns64
  | VmirtRemoveWriteCallback memDomainP uns64 uns64
  | TrapNotifier riscvMode
  | ERETNotifier riscvMode
  | ResetNotifier

text \<open>A TLB entry; \<open>e_handle\<close> is its address, by which the code holds and updates it.\<close>

record tlbEntry =
  e_handle :: nat
  e_lowVA :: uns64
  e_highVA :: uns64
  e_PA :: uns64
  e_simASID :: uns32
  e_isMapped :: uns8
  e_priv :: memPriv
  e_U :: bool
  e_G :: bool
  e_A :: bool
  e_D :: bool
  e_artifact :: bool

text \<open>What the kernel answers, as functions of the calls made so far. A domain read gives
  the value and whether the access aborts, in which case the kernel calls
  \<^verbatim>\<open>riscvRdAbortExcept\<close>; a domain write likewise tells whether \<^verbatim>\<open>riscvWrAbortExcept\<close> runs. Before
  the access, the kernel calls \<^verbatim>\<open>riscvRdPrivExcept\<close> or \<^verbatim>\<open>riscvWrPrivExcept\<close> when the domain does not
  have the privilege for it (\<open>vmirtReadMisses\<close>, \<open>vmirtWriteMisses\<close>). \<open>vmirtRangeOrder\<close> is the order
  in which the kernel's range table visits entries.\<close>

record vmirt =
  vmirtGetPC :: "vmicall list \<Rightarrow> uns64"
  vmirtGetPCDS :: "vmicall list \<Rightarrow> uns64 \<times> uns8"
  vmirtGetProcessorDataDomain :: "vmicall list \<Rightarrow> memDomainP"
  vmirtGetICount :: "vmicall list \<Rightarrow> uns64"
  vmirtGetExecutedICount :: "vmicall list \<Rightarrow> uns64"
  vmirtTimeMicros :: "vmicall list \<Rightarrow> uns64"
  vmirtIsExecutable :: "vmicall list \<Rightarrow> uns64 \<Rightarrow> bool"
  vmirtRead4ByteDomain :: "vmicall list \<Rightarrow> memDomainP \<Rightarrow> uns64 \<Rightarrow> uns32 \<times> bool"
  vmirtRead8ByteDomain :: "vmicall list \<Rightarrow> memDomainP \<Rightarrow> uns64 \<Rightarrow> uns64 \<times> bool"
  vmirtWriteAborts :: "vmicall list \<Rightarrow> memDomainP \<Rightarrow> uns64 \<Rightarrow> bool"
  vmirtReadMisses :: "vmicall list \<Rightarrow> memDomainP \<Rightarrow> uns64 \<Rightarrow> bool"
  vmirtWriteMisses :: "vmicall list \<Rightarrow> memDomainP \<Rightarrow> uns64 \<Rightarrow> bool"
  vmirtRangeOrder :: "vmicall list \<Rightarrow> tlbEntry list \<Rightarrow> tlbEntry list"
  vmirtNewDomain :: "vmicall list \<Rightarrow> memDomainP"
  vmirtGetDomainAddressBits :: "memDomainP \<Rightarrow> nat"
  vmirtFetch2 :: "vmicall list \<Rightarrow> uns64 \<Rightarrow> uns16"
  vmirtFetch4 :: "vmicall list \<Rightarrow> uns64 \<Rightarrow> uns32"

section \<open>The processor structure\<close>

record riscvNetValue =
  net_ip :: uns64
  net_reset :: bool
  net_nmi :: bool

record vmiFPFlags =
  fp_P :: bool
  fp_U :: bool
  fp_O :: bool
  fp_Z :: bool
  fp_I :: bool

datatype riscvRMDesc = RV_RM_NA | RV_RM_CURRENT | RV_RM_RTE | RV_RM_RTZ | RV_RM_RDN
  | RV_RM_RUP | RV_RM_RMM | RV_RM_BAD5 | RV_RM_BAD6

record riscv =
  csr :: riscvCSRs
  csrMask :: riscvCSRMasks
  currentArch :: riscvArchitecture
  riscv_mode :: uns32
  riscv_disable :: uns32
  artifactAccess :: bool
  inSaveRestore :: bool
  configInfo :: riscvConfig
  fpActiveRM :: riscvRMDesc
  fpFlags :: vmiFPFlags
  jumpBase :: uns64
  swip :: uns32
  exceptionMask :: uns64
  interruptMask :: uns64
  riscv_exception :: riscvException
  MIMode :: uns8
  SIMode :: uns8
  UIMode :: uns8
  AFErrorIn :: riscvAccessFault
  AFErrorOut :: riscvAccessFault
  exclusiveTag :: uns64
  exclusiveTagMask :: uns64
  baseCycles :: uns64
  baseInstructions :: uns64
  netValue :: riscvNetValue
  vmDomains :: "riscvMode \<Rightarrow> bool \<Rightarrow> memDomainP"
  pmpDomains :: "riscvMode \<Rightarrow> bool \<Rightarrow> memDomainP"
  physDomains :: "riscvMode \<Rightarrow> bool \<Rightarrow> memDomainP"
  pmpcfg :: "nat \<Rightarrow> uns8"
  pmpaddr :: "nat \<Rightarrow> uns64"
  tlb :: "tlbEntry list option"
  extBits :: nat
  PTWActive :: bool
  PTWBadAddr :: bool
  cb_trapNotifier :: bool
  cb_ERETNotifier :: bool
  cb_resetNotifier :: bool
  calls :: "vmicall list"

abbreviation (input) NUM_PMPS :: nat where "NUM_PMPS \<equiv> 16"
abbreviation (input) RISCV_NO_TAG :: uns64 where "RISCV_NO_TAG \<equiv> - 1"

definition do_call :: "vmicall \<Rightarrow> riscv \<Rightarrow> riscv" where
  "do_call c s = s\<lparr>calls := calls s @ [c]\<rparr>"

definition getCurrentMode :: "riscv \<Rightarrow> riscvMode" where
  "getCurrentMode s = mode_of (unat (riscv_mode s AND 3))"

definition getASIDMask :: "riscv \<Rightarrow> uns32" where
  "getASIDMask s = push_bit (ASID_bits (configInfo s)) 1 - 1"

text \<open>The numeric ranges of the parameter table, and of the bus ports for \<^verbatim>\<open>extBits\<close>.\<close>

definition config_ok :: "riscv \<Rightarrow> bool" where
  "config_ok s \<longleftrightarrow> local_int_num (configInfo s) \<le> 48 \<and> ASID_bits (configInfo s) \<le> 16
     \<and> PMP_grain (configInfo s) \<le> 29 \<and> PMP_registers (configInfo s) \<le> NUM_PMPS
     \<and> 32 \<le> extBits s \<and> extBits s \<le> 56"

section \<open>The zeroed structure\<close>

text \<open>The processor structure as the simulator allocates it, with a given configuration: the
  starting point of the concrete states on which properties are instantiated.\<close>

definition csr_32_64_zero :: "csr_32_64" where
  "csr_32_64_zero = \<lparr>
     u32_bits = 0, u64_bits = 0\<rparr>"

definition riscvCSRs_zero :: "riscvCSRs" where
  "riscvCSRs_zero = \<lparr>
     fcsr = 0, utvec = 0, uscratch = 0, uepc = 0, ucause = csr_32_64_zero, utval = 0,
     sedeleg = 0, sideleg = 0, stvec = 0, scounteren = 0, sscratch = 0, sepc = 0,
     scause = csr_32_64_zero, stval = 0, satp = csr_32_64_zero, mvendorid = 0, marchid = 0,
     mimpid = 0, mhartid = 0, mstatus = 0, misa = csr_32_64_zero, medeleg = 0, mideleg = 0,
     mie = 0, mtvec = 0, mcounteren = 0, mscratch = 0, mepc = 0, mcause = csr_32_64_zero,
     mtval = 0, mip = 0\<rparr>"

definition riscvCSRMasks_zero :: "riscvCSRMasks" where
  "riscvCSRMasks_zero = \<lparr>
     utvecM = 0, uepcM = 0, ucauseM = csr_32_64_zero, sedelegM = 0, sidelegM = 0, stvecM = 0,
     scounterenM = 0, sepcM = 0, scauseM = csr_32_64_zero, mstatusM = 0, misaM = csr_32_64_zero,
     medelegM = 0, midelegM = 0, mieM = 0, mtvecM = 0, mcounterenM = 0, mepcM = 0,
     mcauseM = csr_32_64_zero\<rparr>"

definition riscvConfig_zero :: "riscvConfig" where
  "riscvConfig_zero = \<lparr>
     cfg_arch = 0, cfg_archMask = 0, priv_version = RVPV_1_10, reset_address = 0,
     nmi_address = 0, local_int_num = 0, ASID_bits = 0, PMP_grain = 0, PMP_registers = 0,
     Sv_modes = 0, tvec_align = 0, cfg_updatePTEA = False, cfg_updatePTED = False,
     wfi_is_nop = False, mtvec_is_ro = False, cycle_undefined = False, time_undefined = False,
     instret_undefined = False, d_requires_f = False, fs_always_dirty = False,
     tval_ii_code = False, cfg_mvendorid = 0, cfg_marchid = 0, cfg_mimpid = 0, cfg_mhartid = 0,
     cfg_mtvec = 0, cfg_mstatus = 0, cfgMask_mtvec = 0, cfgMask_stvec = 0, cfgMask_utvec = 0,
     cfgMask_cause = csr_32_64_zero\<rparr>"

definition riscvNetValue_zero :: "riscvNetValue" where
  "riscvNetValue_zero = \<lparr>
     net_ip = 0, net_reset = False, net_nmi = False\<rparr>"

definition vmiFPFlags_zero :: "vmiFPFlags" where
  "vmiFPFlags_zero = \<lparr>
     fp_P = False, fp_U = False, fp_O = False, fp_Z = False, fp_I = False\<rparr>"

definition riscv_zero :: "riscvConfig \<Rightarrow> riscv" where
  "riscv_zero cfg = \<lparr>
     csr = riscvCSRs_zero, csrMask = riscvCSRMasks_zero, currentArch = 0, riscv_mode = 0,
     riscv_disable = 0, artifactAccess = False, inSaveRestore = False, configInfo = cfg,
     fpActiveRM = RV_RM_NA, fpFlags = vmiFPFlags_zero, jumpBase = 0, swip = 0, exceptionMask = 0,
     interruptMask = 0, riscv_exception = 0, MIMode = 0, SIMode = 0, UIMode = 0,
     AFErrorIn = riscv_AFault_None, AFErrorOut = riscv_AFault_None, exclusiveTag = 0,
     exclusiveTagMask = 0, baseCycles = 0, baseInstructions = 0, netValue = riscvNetValue_zero,
     vmDomains = (\<lambda>_ _. 0), pmpDomains = (\<lambda>_ _. 0),
     physDomains = (\<lambda>_ _. 0), pmpcfg = (\<lambda>_. 0), pmpaddr = (\<lambda>_. 0),
     tlb = None, extBits = 0, PTWActive = False, PTWBadAddr = False, cb_trapNotifier = False,
     cb_ERETNotifier = False, cb_resetNotifier = False, calls = []\<rparr>"

lemmas zero_defs = csr_32_64_zero_def riscvCSRs_zero_def riscvCSRMasks_zero_def riscvConfig_zero_def
  riscvNetValue_zero_def vmiFPFlags_zero_def riscv_zero_def

end
