(* ===== verification/RiscvAccess.thy ===== *)
theory RiscvAccess
  imports RiscvTypes
begin

text \<open>
  The register access macros of \<^verbatim>\<open>riscvCSR.h\<close> (\<^verbatim>\<open>RD_CSR\<close>, \<^verbatim>\<open>WR_CSR\<close>, \<^verbatim>\<open>RD_CSR_FIELD\<close>,
  \<^verbatim>\<open>WR_CSR_FIELD\<close>, \<^verbatim>\<open>RD_CSR_MASK\<close>). Each picks the 32-bit or the 64-bit view by the current
  XLEN. A macro takes the register as its record selector (to read) or its record update
  (to write). The forms with \<^verbatim>\<open>2\<close> are for the registers that are structs of two separate
  views (\<^verbatim>\<open>misa\<close>, \<^verbatim>\<open>satp\<close>, \<^verbatim>\<open>mcause\<close>, \<^verbatim>\<open>scause\<close>, \<^verbatim>\<open>ucause\<close>).
\<close>

definition RISCV_XLEN_IS_32 :: "riscv \<Rightarrow> bool" where
  "RISCV_XLEN_IS_32 s = has (currentArch s) ISA_XLEN_32"

definition RISCV_XLEN_IS_64 :: "riscv \<Rightarrow> bool" where
  "RISCV_XLEN_IS_64 s = has (currentArch s) ISA_XLEN_64"

fun rd_view :: "bool \<Rightarrow> csrField \<Rightarrow> uns64 \<Rightarrow> uns64" where
  "rd_view is32 (CsrField l3 w3 l6 w6) r = (if is32 then getf l3 w3 r else getf l6 w6 r)"

fun wr_view :: "bool \<Rightarrow> csrField \<Rightarrow> uns64 \<Rightarrow> uns64 \<Rightarrow> uns64" where
  "wr_view is32 (CsrField l3 w3 l6 w6) v r = (if is32 then setf l3 w3 v r else setf l6 w6 v r)"

text \<open>The whole register, as \<^verbatim>\<open>bits\<close>: 32 bits of it in the 32-bit view.\<close>

abbreviation csr_bits :: csrField where "csr_bits \<equiv> CsrField 0 32 0 64"

definition RD_CSR_FIELD :: "riscv \<Rightarrow> (riscvCSRs \<Rightarrow> uns64) \<Rightarrow> csrField \<Rightarrow> uns64" where
  "RD_CSR_FIELD s reg f = rd_view (RISCV_XLEN_IS_32 s) f (reg (csr s))"

definition WR_CSR_FIELD ::
  "((uns64 \<Rightarrow> uns64) \<Rightarrow> riscvCSRs \<Rightarrow> riscvCSRs) \<Rightarrow> csrField \<Rightarrow> uns64 \<Rightarrow> riscv \<Rightarrow> riscv" where
  "WR_CSR_FIELD upd f v s = s\<lparr>csr := upd (wr_view (RISCV_XLEN_IS_32 s) f v) (csr s)\<rparr>"

abbreviation RD_CSR :: "riscv \<Rightarrow> (riscvCSRs \<Rightarrow> uns64) \<Rightarrow> uns64" where
  "RD_CSR s reg \<equiv> RD_CSR_FIELD s reg csr_bits"

abbreviation WR_CSR ::
  "((uns64 \<Rightarrow> uns64) \<Rightarrow> riscvCSRs \<Rightarrow> riscvCSRs) \<Rightarrow> uns64 \<Rightarrow> riscv \<Rightarrow> riscv" where
  "WR_CSR upd v s \<equiv> WR_CSR_FIELD upd csr_bits v s"

text \<open>Registers with two separate views: only the view of the current XLEN is accessed.\<close>

fun rd_view2 :: "bool \<Rightarrow> csrField \<Rightarrow> csr_32_64 \<Rightarrow> uns64" where
  "rd_view2 is32 (CsrField l3 w3 l6 w6) r =
     (if is32 then ucast (getf l3 w3 (u32_bits r)) else getf l6 w6 (u64_bits r))"

fun wr_view2 :: "bool \<Rightarrow> csrField \<Rightarrow> uns64 \<Rightarrow> csr_32_64 \<Rightarrow> csr_32_64" where
  "wr_view2 is32 (CsrField l3 w3 l6 w6) v r =
     (if is32 then r\<lparr>u32_bits := setf l3 w3 (ucast v) (u32_bits r)\<rparr>
      else r\<lparr>u64_bits := setf l6 w6 v (u64_bits r)\<rparr>)"

definition RD_CSR2_FIELD :: "riscv \<Rightarrow> (riscvCSRs \<Rightarrow> csr_32_64) \<Rightarrow> csrField \<Rightarrow> uns64" where
  "RD_CSR2_FIELD s reg f = rd_view2 (RISCV_XLEN_IS_32 s) f (reg (csr s))"

definition WR_CSR2_FIELD ::
  "((csr_32_64 \<Rightarrow> csr_32_64) \<Rightarrow> riscvCSRs \<Rightarrow> riscvCSRs) \<Rightarrow> csrField \<Rightarrow> uns64 \<Rightarrow> riscv \<Rightarrow> riscv" where
  "WR_CSR2_FIELD upd f v s = s\<lparr>csr := upd (wr_view2 (RISCV_XLEN_IS_32 s) f v) (csr s)\<rparr>"

abbreviation RD_CSR2 :: "riscv \<Rightarrow> (riscvCSRs \<Rightarrow> csr_32_64) \<Rightarrow> uns64" where
  "RD_CSR2 s reg \<equiv> RD_CSR2_FIELD s reg csr_bits"

abbreviation WR_CSR2 ::
  "((csr_32_64 \<Rightarrow> csr_32_64) \<Rightarrow> riscvCSRs \<Rightarrow> riscvCSRs) \<Rightarrow> uns64 \<Rightarrow> riscv \<Rightarrow> riscv" where
  "WR_CSR2 upd v s \<equiv> WR_CSR2_FIELD upd csr_bits v s"

definition RD_CSR_MASK :: "riscv \<Rightarrow> (riscvCSRMasks \<Rightarrow> uns64) \<Rightarrow> uns64" where
  "RD_CSR_MASK s reg = rd_view (RISCV_XLEN_IS_32 s) csr_bits (reg (csrMask s))"

definition RD_CSR2_MASK :: "riscv \<Rightarrow> (riscvCSRMasks \<Rightarrow> csr_32_64) \<Rightarrow> uns64" where
  "RD_CSR2_MASK s reg = rd_view2 (RISCV_XLEN_IS_32 s) csr_bits (reg (csrMask s))"

declare RD_CSR_FIELD_def [csr_defs] WR_CSR_FIELD_def [csr_defs] RD_CSR2_FIELD_def [csr_defs]
  WR_CSR2_FIELD_def [csr_defs] RD_CSR_MASK_def [csr_defs] RD_CSR2_MASK_def [csr_defs]

section \<open>Laws of the macros\<close>

fun field_ok :: "csrField \<Rightarrow> bool" where
  "field_ok (CsrField l3 w3 l6 w6) \<longleftrightarrow> l3 + w3 \<le> 64 \<and> l6 + w6 \<le> 64"

fun field_ok2 :: "csrField \<Rightarrow> bool" where
  "field_ok2 (CsrField l3 w3 l6 w6) \<longleftrightarrow> l3 + w3 \<le> 32 \<and> l6 + w6 \<le> 64"

fun field_disjoint :: "csrField \<Rightarrow> csrField \<Rightarrow> bool" where
  "field_disjoint (CsrField l3 w3 l6 w6) (CsrField l3' w3' l6' w6') \<longleftrightarrow>
     (l3 + w3 \<le> l3' \<or> l3' + w3' \<le> l3) \<and> (l6 + w6 \<le> l6' \<or> l6' + w6' \<le> l6)"

fun field_trunc :: "bool \<Rightarrow> csrField \<Rightarrow> uns64 \<Rightarrow> uns64" where
  "field_trunc is32 (CsrField l3 w3 l6 w6) v = (if is32 then take_bit w3 v else take_bit w6 v)"

lemma rd_wr_view_same [simp]:
  "field_ok f \<Longrightarrow> rd_view b f (wr_view b f v r) = field_trunc b f v"
  by (cases f) simp

lemma rd_wr_view_other [simp]:
  "field_disjoint f g \<Longrightarrow> rd_view b f (wr_view b g v r) = rd_view b f r"
  by (cases f; cases g) auto

lemma view_generic [simp]: "rd_view b generic_value r = r" "wr_view b generic_value v r = v"
  by simp_all

text \<open>A value that comes from a field no wider than the one it is written to is not truncated.\<close>

fun field_narrower :: "csrField \<Rightarrow> csrField \<Rightarrow> bool" where
  "field_narrower (CsrField l3 w3 l6 w6) (CsrField l3' w3' l6' w6') \<longleftrightarrow> w3 \<le> w3' \<and> w6 \<le> w6'"

lemma field_trunc_rd [simp]: "field_narrower f g \<Longrightarrow> field_trunc b g (rd_view b f r) = rd_view b f r"
  by (cases f; cases g) simp

lemma field_trunc_0 [simp]: "field_trunc b f 0 = 0"
  by (cases f) simp

fun field_min_width :: "csrField \<Rightarrow> nat" where
  "field_min_width (CsrField l3 w3 l6 w6) = min w3 w6"

lemma take_bit_of_nat_small:
  assumes "n < 2 ^ m" and "m \<le> k"
  shows "take_bit k (of_nat n) = (of_nat n :: 'a::len word)"
proof -
  have "n < 2 ^ k" using assms power_increasing [of m k "2::nat"] by linarith
  then show ?thesis by (simp add: take_bit_of_nat take_bit_nat_eq_self)
qed

lemma field_trunc_of_nat:
  "n < 2 ^ field_min_width f \<Longrightarrow> field_trunc b f (of_nat n) = of_nat n"
  by (cases f) (auto intro: take_bit_of_nat_small)

lemma field_trunc_of_bool [simp]:
  "0 < field_min_width f \<Longrightarrow> field_trunc b f (of_bool p) = of_bool p"
  using field_trunc_of_nat [of 0 f b] field_trunc_of_nat [of 1 f b] one_less_power [of "2::nat"]
  by (cases p) simp_all

lemma field_trunc_1 [simp]: "0 < field_min_width f \<Longrightarrow> field_trunc b f 1 = 1"
  using field_trunc_of_bool [of f b True] by simp

lemma rd_wr_view2_same:
  "field_ok2 f \<Longrightarrow> n < 2 ^ field_min_width f \<Longrightarrow> n < 2 ^ 32
    \<Longrightarrow> rd_view2 b f (wr_view2 b f (of_nat n) r) = of_nat n"
proof (cases f)
  case (CsrField l3 w3 l6 w6)
  assume "field_ok2 f" and n: "n < 2 ^ field_min_width f" "n < 2 ^ 32"
  then have "take_bit w3 (of_nat n) = (of_nat n :: uns32)" "take_bit w6 (of_nat n) = (of_nat n :: uns64)"
    using n by (auto simp: CsrField intro: take_bit_of_nat_small)
  moreover have "ucast (of_nat n :: uns64) = (of_nat n :: uns32)" "ucast (of_nat n :: uns32) = (of_nat n :: uns64)"
    using n(2) by (simp_all add: unsigned_of_nat take_bit_nat_eq_self)
  ultimately show ?thesis using \<open>field_ok2 f\<close> by (simp add: CsrField)
qed

lemma rd_wr_view2_other [simp]:
  "field_disjoint f g \<Longrightarrow> rd_view2 b f (wr_view2 b g v r) = rd_view2 b f r"
  by (cases f; cases g) auto

text \<open>From here on a view is taken apart only where a proof asks for it.\<close>

lemmas view_simps = rd_view.simps wr_view.simps rd_view2.simps wr_view2.simps field_trunc.simps

declare view_simps [simp del]

lemma WR_CSR_FIELD_frame [frame_simps, simp]:
  "csrMask (WR_CSR_FIELD u f v s) = csrMask s"
  "currentArch (WR_CSR_FIELD u f v s) = currentArch s"
  "riscv_mode (WR_CSR_FIELD u f v s) = riscv_mode s"
  "riscv_disable (WR_CSR_FIELD u f v s) = riscv_disable s"
  "artifactAccess (WR_CSR_FIELD u f v s) = artifactAccess s"
  "inSaveRestore (WR_CSR_FIELD u f v s) = inSaveRestore s"
  "configInfo (WR_CSR_FIELD u f v s) = configInfo s"
  "fpActiveRM (WR_CSR_FIELD u f v s) = fpActiveRM s" "fpFlags (WR_CSR_FIELD u f v s) = fpFlags s"
  "jumpBase (WR_CSR_FIELD u f v s) = jumpBase s" "swip (WR_CSR_FIELD u f v s) = swip s"
  "exceptionMask (WR_CSR_FIELD u f v s) = exceptionMask s"
  "interruptMask (WR_CSR_FIELD u f v s) = interruptMask s"
  "riscv_exception (WR_CSR_FIELD u f v s) = riscv_exception s"
  "MIMode (WR_CSR_FIELD u f v s) = MIMode s" "SIMode (WR_CSR_FIELD u f v s) = SIMode s"
  "UIMode (WR_CSR_FIELD u f v s) = UIMode s" "AFErrorIn (WR_CSR_FIELD u f v s) = AFErrorIn s"
  "AFErrorOut (WR_CSR_FIELD u f v s) = AFErrorOut s"
  "exclusiveTag (WR_CSR_FIELD u f v s) = exclusiveTag s"
  "exclusiveTagMask (WR_CSR_FIELD u f v s) = exclusiveTagMask s"
  "baseCycles (WR_CSR_FIELD u f v s) = baseCycles s"
  "baseInstructions (WR_CSR_FIELD u f v s) = baseInstructions s"
  "netValue (WR_CSR_FIELD u f v s) = netValue s" "vmDomains (WR_CSR_FIELD u f v s) = vmDomains s"
  "pmpDomains (WR_CSR_FIELD u f v s) = pmpDomains s"
  "physDomains (WR_CSR_FIELD u f v s) = physDomains s" "pmpcfg (WR_CSR_FIELD u f v s) = pmpcfg s"
  "pmpaddr (WR_CSR_FIELD u f v s) = pmpaddr s" "tlb (WR_CSR_FIELD u f v s) = tlb s"
  "extBits (WR_CSR_FIELD u f v s) = extBits s" "PTWActive (WR_CSR_FIELD u f v s) = PTWActive s"
  "PTWBadAddr (WR_CSR_FIELD u f v s) = PTWBadAddr s"
  "cb_trapNotifier (WR_CSR_FIELD u f v s) = cb_trapNotifier s"
  "cb_ERETNotifier (WR_CSR_FIELD u f v s) = cb_ERETNotifier s"
  "cb_resetNotifier (WR_CSR_FIELD u f v s) = cb_resetNotifier s"
  "calls (WR_CSR_FIELD u f v s) = calls s"
  "RISCV_XLEN_IS_32 (WR_CSR_FIELD u f v s) = RISCV_XLEN_IS_32 s"
  by (simp_all add: WR_CSR_FIELD_def RISCV_XLEN_IS_32_def)

lemma WR_CSR2_FIELD_frame [frame_simps, simp]:
  "csrMask (WR_CSR2_FIELD u f v s) = csrMask s"
  "currentArch (WR_CSR2_FIELD u f v s) = currentArch s"
  "riscv_mode (WR_CSR2_FIELD u f v s) = riscv_mode s"
  "riscv_disable (WR_CSR2_FIELD u f v s) = riscv_disable s"
  "artifactAccess (WR_CSR2_FIELD u f v s) = artifactAccess s"
  "inSaveRestore (WR_CSR2_FIELD u f v s) = inSaveRestore s"
  "configInfo (WR_CSR2_FIELD u f v s) = configInfo s"
  "fpActiveRM (WR_CSR2_FIELD u f v s) = fpActiveRM s"
  "fpFlags (WR_CSR2_FIELD u f v s) = fpFlags s" "jumpBase (WR_CSR2_FIELD u f v s) = jumpBase s"
  "swip (WR_CSR2_FIELD u f v s) = swip s"
  "exceptionMask (WR_CSR2_FIELD u f v s) = exceptionMask s"
  "interruptMask (WR_CSR2_FIELD u f v s) = interruptMask s"
  "riscv_exception (WR_CSR2_FIELD u f v s) = riscv_exception s"
  "MIMode (WR_CSR2_FIELD u f v s) = MIMode s" "SIMode (WR_CSR2_FIELD u f v s) = SIMode s"
  "UIMode (WR_CSR2_FIELD u f v s) = UIMode s" "AFErrorIn (WR_CSR2_FIELD u f v s) = AFErrorIn s"
  "AFErrorOut (WR_CSR2_FIELD u f v s) = AFErrorOut s"
  "exclusiveTag (WR_CSR2_FIELD u f v s) = exclusiveTag s"
  "exclusiveTagMask (WR_CSR2_FIELD u f v s) = exclusiveTagMask s"
  "baseCycles (WR_CSR2_FIELD u f v s) = baseCycles s"
  "baseInstructions (WR_CSR2_FIELD u f v s) = baseInstructions s"
  "netValue (WR_CSR2_FIELD u f v s) = netValue s"
  "vmDomains (WR_CSR2_FIELD u f v s) = vmDomains s"
  "pmpDomains (WR_CSR2_FIELD u f v s) = pmpDomains s"
  "physDomains (WR_CSR2_FIELD u f v s) = physDomains s"
  "pmpcfg (WR_CSR2_FIELD u f v s) = pmpcfg s" "pmpaddr (WR_CSR2_FIELD u f v s) = pmpaddr s"
  "tlb (WR_CSR2_FIELD u f v s) = tlb s" "extBits (WR_CSR2_FIELD u f v s) = extBits s"
  "PTWActive (WR_CSR2_FIELD u f v s) = PTWActive s"
  "PTWBadAddr (WR_CSR2_FIELD u f v s) = PTWBadAddr s"
  "cb_trapNotifier (WR_CSR2_FIELD u f v s) = cb_trapNotifier s"
  "cb_ERETNotifier (WR_CSR2_FIELD u f v s) = cb_ERETNotifier s"
  "cb_resetNotifier (WR_CSR2_FIELD u f v s) = cb_resetNotifier s"
  "calls (WR_CSR2_FIELD u f v s) = calls s"
  "RISCV_XLEN_IS_32 (WR_CSR2_FIELD u f v s) = RISCV_XLEN_IS_32 s"
  by (simp_all add: WR_CSR2_FIELD_def RISCV_XLEN_IS_32_def)

lemma do_call_frame [frame_simps, simp]:
  "csr (do_call c s) = csr s" "csrMask (do_call c s) = csrMask s"
  "currentArch (do_call c s) = currentArch s" "riscv_mode (do_call c s) = riscv_mode s"
  "riscv_disable (do_call c s) = riscv_disable s"
  "artifactAccess (do_call c s) = artifactAccess s"
  "inSaveRestore (do_call c s) = inSaveRestore s" "configInfo (do_call c s) = configInfo s"
  "fpActiveRM (do_call c s) = fpActiveRM s" "fpFlags (do_call c s) = fpFlags s"
  "jumpBase (do_call c s) = jumpBase s" "swip (do_call c s) = swip s"
  "exceptionMask (do_call c s) = exceptionMask s" "interruptMask (do_call c s) = interruptMask s"
  "riscv_exception (do_call c s) = riscv_exception s" "MIMode (do_call c s) = MIMode s"
  "SIMode (do_call c s) = SIMode s" "UIMode (do_call c s) = UIMode s"
  "AFErrorIn (do_call c s) = AFErrorIn s" "AFErrorOut (do_call c s) = AFErrorOut s"
  "exclusiveTag (do_call c s) = exclusiveTag s"
  "exclusiveTagMask (do_call c s) = exclusiveTagMask s" "baseCycles (do_call c s) = baseCycles s"
  "baseInstructions (do_call c s) = baseInstructions s" "netValue (do_call c s) = netValue s"
  "vmDomains (do_call c s) = vmDomains s" "pmpDomains (do_call c s) = pmpDomains s"
  "physDomains (do_call c s) = physDomains s" "pmpcfg (do_call c s) = pmpcfg s"
  "pmpaddr (do_call c s) = pmpaddr s" "tlb (do_call c s) = tlb s"
  "extBits (do_call c s) = extBits s" "PTWActive (do_call c s) = PTWActive s"
  "PTWBadAddr (do_call c s) = PTWBadAddr s" "cb_trapNotifier (do_call c s) = cb_trapNotifier s"
  "cb_ERETNotifier (do_call c s) = cb_ERETNotifier s"
  "cb_resetNotifier (do_call c s) = cb_resetNotifier s" "calls (do_call c s) = calls s @ [c]"
  "RISCV_XLEN_IS_32 (do_call c s) = RISCV_XLEN_IS_32 s"
  by (simp_all add: do_call_def RISCV_XLEN_IS_32_def)

end
