(* ===== verification/RiscvUtils.thy ===== *)
theory RiscvUtils
  imports RiscvAccess
begin

text \<open>
  \<^verbatim>\<open>riscvUtils.c\<close>: the current architecture derived from \<^verbatim>\<open>misa\<close> and \<^verbatim>\<open>mstatus.FS\<close>, the
  configured and current XLEN, privilege modes and the switch between them, register and
  feature names, and the exclusive-access (LR/SC) monitor; with them the instruction size
  (\<^verbatim>\<open>riscvDecode.c\<close>) that the next PC needs and the refresh of the data domain under
  \<^verbatim>\<open>mstatus.MPRV\<close> (\<^verbatim>\<open>riscvVM.c\<close>) that every mode switch ends with. Where the code calls
  \<^verbatim>\<open>VMI_ABORT\<close> or fails a \<^verbatim>\<open>VMI_ASSERT\<close> the model returns \<open>None\<close>.
\<close>

section \<open>Current architecture and XLEN\<close>

definition riscvSetCurrentArch :: "riscv \<Rightarrow> riscv" where
  "riscvSetCurrentArch s =
     (let a = ucast (RD_CSR2_FIELD s misa isa_Extensions) OR
              push_bit XLEN_SHIFT (ucast (RD_CSR2_FIELD s misa isa_MXL));
          a = (if RD_CSR_FIELD s mstatus status_FS = 0 then a AND NOT ISA_DF else a)
      in if currentArch s \<noteq> a then (do_call (VmirtSetBlockMask a) s)\<lparr>currentArch := a\<rparr> else s)"

text \<open>The argument of \<^verbatim>\<open>riscvGetXlenArch\<close> is a processor followed by its first child, that
  one's first child, and so on (\<^verbatim>\<open>vmirtGetSMPChild\<close>).\<close>

fun riscvGetXlenArch :: "riscv list \<Rightarrow> nat option" where
  "riscvGetXlenArch [] = None"
| "riscvGetXlenArch (s # children) =
     (if has (cfg_arch (configInfo s)) ISA_XLEN_64 then Some 64
      else if has (cfg_arch (configInfo s)) ISA_XLEN_32 then Some 32
      else riscvGetXlenArch children)"

definition riscvGetFlenArch :: "riscv \<Rightarrow> nat" where
  "riscvGetFlenArch s =
     (if has (cfg_arch (configInfo s)) ISA_D then 64
      else if has (cfg_arch (configInfo s)) ISA_F then 32 else 0)"

definition riscvGetXlenMode :: "riscv \<Rightarrow> nat option" where
  "riscvGetXlenMode s =
     (if has (currentArch s) ISA_XLEN_64 then Some 64
      else if has (currentArch s) ISA_XLEN_32 then Some 32 else None)"

section \<open>Instruction size and next PC\<close>

definition is4ByteInstruction :: "uns32 \<Rightarrow> bool" where
  "is4ByteInstruction i \<longleftrightarrow> i AND 3 = 3"

definition compressedPresent :: "riscv \<Rightarrow> bool" where
  "compressedPresent s = has (cfg_arch (configInfo s)) ISA_C"

definition getInstructionSize :: "vmirt \<Rightarrow> riscv \<Rightarrow> uns64 \<Rightarrow> nat" where
  "getInstructionSize V s thisPC =
     (if \<not> compressedPresent s then 4
      else if is4ByteInstruction (ucast (vmirtFetch2 V (calls s) thisPC)) then 4 else 2)"

definition riscvGetInstruction :: "vmirt \<Rightarrow> riscv \<Rightarrow> uns64 \<Rightarrow> uns32" where
  "riscvGetInstruction V s thisPC =
     (if \<not> compressedPresent s then vmirtFetch4 V (calls s) thisPC
      else let r = ucast (vmirtFetch2 V (calls s) thisPC) in
        if is4ByteInstruction r
        then let highPC = thisPC + 2;
                 highPC = (if riscvGetXlenMode s = Some 32 then highPC AND 0xffffffff else highPC)
             in r OR push_bit 16 (ucast (vmirtFetch2 V (calls s) highPC))
        else r)"

definition riscvNextPC :: "vmirt \<Rightarrow> riscv \<Rightarrow> uns64 \<Rightarrow> uns64" where
  "riscvNextPC V s thisPC =
     (let nextPC = thisPC + of_nat (getInstructionSize V s thisPC)
      in if riscvGetXlenMode s = Some 32 then nextPC AND 0xffffffff else nextPC)"

section \<open>Modes\<close>

definition riscvGetMinMode :: "riscv \<Rightarrow> riscvMode" where
  "riscvGetMinMode s =
     (if has (cfg_arch (configInfo s)) ISA_U then RISCV_MODE_USER
      else if has (cfg_arch (configInfo s)) ISA_S then RISCV_MODE_SUPERVISOR
      else RISCV_MODE_MACHINE)"

fun riscvHasMode :: "riscv \<Rightarrow> riscvMode \<Rightarrow> bool" where
  "riscvHasMode s RISCV_MODE_USER = has (cfg_arch (configInfo s)) ISA_U"
| "riscvHasMode s RISCV_MODE_SUPERVISOR = has (cfg_arch (configInfo s)) ISA_S"
| "riscvHasMode s RISCV_MODE_MACHINE = True"
| "riscvHasMode s RISCV_MODE_HYPERVISOR = False"

fun riscvGetModeName :: "riscvMode \<Rightarrow> string" where
  "riscvGetModeName RISCV_MODE_USER = ''User''"
| "riscvGetModeName RISCV_MODE_SUPERVISOR = ''Supervisor''"
| "riscvGetModeName RISCV_MODE_HYPERVISOR = ''Hypervisor''"
| "riscvGetModeName RISCV_MODE_MACHINE = ''Machine''"

text \<open>The iterator over the mode table: \<open>None\<close> is the null pointer, as argument the start
  of the iteration and as result its end.\<close>

definition riscvModeInfo :: "riscv \<Rightarrow> riscvMode option \<Rightarrow> riscvMode option" where
  "riscvModeInfo s prev =
     (let start = (case prev of None \<Rightarrow> 0 | Some m \<Rightarrow> Suc (mode_code m))
      in case dropWhile (\<lambda>m. \<not> riscvHasMode s m) (drop start all_modes) of
           [] \<Rightarrow> None | m # _ \<Rightarrow> Some m)"

definition mode_bits :: "riscvMode \<Rightarrow> uns32" where
  "mode_bits m = of_nat (mode_code m)"

text \<open>The data domain under \<^verbatim>\<open>mstatus.MPRV\<close> (\<^verbatim>\<open>riscvVM.c\<close>): the message on a suspicious
  setting is output only and left out.\<close>

definition mprv_domain :: "riscv \<Rightarrow> memDomainP" where
  "mprv_domain s =
     (let VM = RD_CSR2_FIELD s satp atp_MODE \<noteq> 0;
          modeMPP = mode_of (unat (RD_CSR_FIELD s mstatus status_MPP));
          modeMPP = (if riscvHasMode s modeMPP then modeMPP else riscvGetMinMode s);
          mode = (if RD_CSR_FIELD s mstatus status_MPRV \<noteq> 0 then modeMPP else getCurrentMode s);
          domain = (if VM then vmDomains s mode False else 0)
      in if domain = 0 then physDomains s mode False else domain)"

definition riscvVMRefreshMPRVDomain :: "vmirt \<Rightarrow> riscv \<Rightarrow> riscv" where
  "riscvVMRefreshMPRVDomain V s =
     (if mprv_domain s \<noteq> 0 \<and> mprv_domain s \<noteq> vmirtGetProcessorDataDomain V (calls s)
      then do_call (VmirtSetProcessorDataDomain (mprv_domain s)) s else s)"

definition riscvSetMode :: "vmirt \<Rightarrow> riscvMode \<Rightarrow> riscv \<Rightarrow> riscv" where
  "riscvSetMode V mode s =
     (let dMode = mode_bits mode;
          dMode = (if mode \<le> RISCV_MODE_SUPERVISOR \<and> RD_CSR2_FIELD s satp atp_MODE \<noteq> 0
                   then dMode OR RISCV_DMODE_VM else dMode AND NOT RISCV_DMODE_VM);
          s = (if riscv_mode s \<noteq> dMode
               then do_call (VmirtSetMode dMode) (s\<lparr>riscv_mode := dMode\<rparr>) else s)
      in riscvVMRefreshMPRVDomain V s)"

section \<open>Register and feature names\<close>

definition riscvGetXRegName :: "nat \<Rightarrow> string option" where
  "riscvGetXRegName index =
     (if index < 32 then Some ([''zero'', ''ra'', ''sp'', ''gp'', ''tp'', ''t0'', ''t1'', ''t2'',
        ''s0'', ''s1'', ''a0'', ''a1'', ''a2'', ''a3'', ''a4'', ''a5'', ''a6'', ''a7'',
        ''s2'', ''s3'', ''s4'', ''s5'', ''s6'', ''s7'', ''s8'', ''s9'', ''s10'', ''s11'',
        ''t3'', ''t4'', ''t5'', ''t6''] ! index) else None)"

definition riscvGetFRegName :: "nat \<Rightarrow> string option" where
  "riscvGetFRegName index =
     (if index < 32 then Some ([''ft0'', ''ft1'', ''ft2'', ''ft3'', ''ft4'', ''ft5'', ''ft6'',
        ''ft7'', ''fs0'', ''fs1'', ''fa0'', ''fa1'', ''fa2'', ''fa3'', ''fa4'', ''fa5'', ''fa6'',
        ''fa7'', ''fs2'', ''fs3'', ''fs4'', ''fs5'', ''fs6'', ''fs7'', ''fs8'', ''fs9'',
        ''fs10'', ''fs11'', ''ft8'', ''ft9'', ''ft10'', ''ft11''] ! index) else None)"

text \<open>The loop \<^verbatim>\<open>while(feature) {feature >>= 1; index++;}\<close>.\<close>

function feature_loop :: "uns32 \<Rightarrow> uns32 \<Rightarrow> uns32" where
  "feature_loop feature index =
     (if feature = 0 then index else feature_loop (drop_bit 1 feature) (index + 1))"
  by pat_completeness auto
termination
proof (relation "measure (\<lambda>(f, i). unat f)")
  fix feature index :: uns32
  assume "feature \<noteq> 0"
  then have "0 < unat feature" by (simp add: unat_gt_0)
  then have "unat feature div 2 < unat feature" by simp
  then show "((drop_bit 1 feature, index + 1), feature, index) \<in> measure (\<lambda>(f, i). unat f)"
    by (simp add: drop_bit_eq_div unat_div)
qed simp

declare feature_loop.simps [simp del]

definition getFeatureIndex :: "riscvArchitecture \<Rightarrow> uns32" where
  "getFeatureIndex feature = feature_loop (feature AND - feature) (- 1)"

definition riscvGetFeatureChar :: "riscvArchitecture \<Rightarrow> uns8" where
  "riscvGetFeatureChar feature = ucast (getFeatureIndex feature + 65)"

section \<open>Exclusive access monitor\<close>

definition updateExclusiveAccessCallback :: "vmirt \<Rightarrow> bool \<Rightarrow> riscv \<Rightarrow> riscv" where
  "updateExclusiveAccessCallback V install s =
     (let domain = vmirtGetProcessorDataDomain V (calls s);
          simLow = exclusiveTag s;
          simHigh = simLow + NOT (exclusiveTagMask s)
      in if install then do_call (VmirtAddWriteCallback domain simLow simHigh) s
         else do_call (VmirtRemoveWriteCallback domain simLow simHigh) s)"

definition riscvAbortExclusiveAccess :: "vmirt \<Rightarrow> riscv \<Rightarrow> riscv" where
  "riscvAbortExclusiveAccess V s =
     (if exclusiveTag s \<noteq> RISCV_NO_TAG
      then (updateExclusiveAccessCallback V False s)\<lparr>exclusiveTag := RISCV_NO_TAG\<rparr> else s)"

definition riscvUpdateExclusiveAccessCallback :: "vmirt \<Rightarrow> bool \<Rightarrow> riscv \<Rightarrow> riscv" where
  "riscvUpdateExclusiveAccessCallback V install s =
     (if exclusiveTag s \<noteq> RISCV_NO_TAG then updateExclusiveAccessCallback V install s else s)"

definition riscvContextSwitchCB :: "vmirt \<Rightarrow> bool \<Rightarrow> riscv \<Rightarrow> riscv" where
  "riscvContextSwitchCB V suspend s = riscvUpdateExclusiveAccessCallback V suspend s"

section \<open>Facts\<close>

lemma riscvVMRefreshMPRVDomain_frame [frame_simps, simp]:
  "csr (riscvVMRefreshMPRVDomain V s) = csr s"
  "csrMask (riscvVMRefreshMPRVDomain V s) = csrMask s"
  "currentArch (riscvVMRefreshMPRVDomain V s) = currentArch s"
  "riscv_mode (riscvVMRefreshMPRVDomain V s) = riscv_mode s"
  "riscv_disable (riscvVMRefreshMPRVDomain V s) = riscv_disable s"
  "artifactAccess (riscvVMRefreshMPRVDomain V s) = artifactAccess s"
  "inSaveRestore (riscvVMRefreshMPRVDomain V s) = inSaveRestore s"
  "configInfo (riscvVMRefreshMPRVDomain V s) = configInfo s"
  "fpActiveRM (riscvVMRefreshMPRVDomain V s) = fpActiveRM s"
  "fpFlags (riscvVMRefreshMPRVDomain V s) = fpFlags s"
  "jumpBase (riscvVMRefreshMPRVDomain V s) = jumpBase s"
  "swip (riscvVMRefreshMPRVDomain V s) = swip s"
  "exceptionMask (riscvVMRefreshMPRVDomain V s) = exceptionMask s"
  "interruptMask (riscvVMRefreshMPRVDomain V s) = interruptMask s"
  "riscv_exception (riscvVMRefreshMPRVDomain V s) = riscv_exception s"
  "MIMode (riscvVMRefreshMPRVDomain V s) = MIMode s"
  "SIMode (riscvVMRefreshMPRVDomain V s) = SIMode s"
  "UIMode (riscvVMRefreshMPRVDomain V s) = UIMode s"
  "AFErrorIn (riscvVMRefreshMPRVDomain V s) = AFErrorIn s"
  "AFErrorOut (riscvVMRefreshMPRVDomain V s) = AFErrorOut s"
  "exclusiveTag (riscvVMRefreshMPRVDomain V s) = exclusiveTag s"
  "exclusiveTagMask (riscvVMRefreshMPRVDomain V s) = exclusiveTagMask s"
  "baseCycles (riscvVMRefreshMPRVDomain V s) = baseCycles s"
  "baseInstructions (riscvVMRefreshMPRVDomain V s) = baseInstructions s"
  "netValue (riscvVMRefreshMPRVDomain V s) = netValue s"
  "vmDomains (riscvVMRefreshMPRVDomain V s) = vmDomains s"
  "pmpDomains (riscvVMRefreshMPRVDomain V s) = pmpDomains s"
  "physDomains (riscvVMRefreshMPRVDomain V s) = physDomains s"
  "pmpcfg (riscvVMRefreshMPRVDomain V s) = pmpcfg s"
  "pmpaddr (riscvVMRefreshMPRVDomain V s) = pmpaddr s"
  "tlb (riscvVMRefreshMPRVDomain V s) = tlb s"
  "extBits (riscvVMRefreshMPRVDomain V s) = extBits s"
  "PTWActive (riscvVMRefreshMPRVDomain V s) = PTWActive s"
  "PTWBadAddr (riscvVMRefreshMPRVDomain V s) = PTWBadAddr s"
  "cb_trapNotifier (riscvVMRefreshMPRVDomain V s) = cb_trapNotifier s"
  "cb_ERETNotifier (riscvVMRefreshMPRVDomain V s) = cb_ERETNotifier s"
  "cb_resetNotifier (riscvVMRefreshMPRVDomain V s) = cb_resetNotifier s"
  by (simp_all add: riscvVMRefreshMPRVDomain_def)

lemma mode_bits_simps [simp]:
  "mode_bits RISCV_MODE_USER = 0" "mode_bits RISCV_MODE_SUPERVISOR = 1"
  "mode_bits RISCV_MODE_HYPERVISOR = 2" "mode_bits RISCV_MODE_MACHINE = 3"
  by (simp_all add: mode_bits_def)

definition dmode_of :: "riscv \<Rightarrow> riscvMode \<Rightarrow> uns32" where
  "dmode_of s mode =
     (if mode \<le> RISCV_MODE_SUPERVISOR \<and> RD_CSR2_FIELD s satp atp_MODE \<noteq> 0
      then mode_bits mode OR RISCV_DMODE_VM else mode_bits mode)"

lemma mode_bits_and_not_VM [simp]: "mode_bits m AND - 5 = mode_bits m"
  by (cases m) simp_all

lemma riscv_mode_riscvSetMode [simp]: "riscv_mode (riscvSetMode V mode s) = dmode_of s mode"
  by (auto simp: riscvSetMode_def dmode_of_def Let_def)

lemma mode_of_dmode_of [simp]: "mode_of (unat (dmode_of s mode AND 3)) = mode"
  by (cases mode) (simp_all add: dmode_of_def mode_of_def)

lemma getCurrentMode_riscvSetMode [simp]: "getCurrentMode (riscvSetMode V mode s) = mode"
  by (simp add: getCurrentMode_def)

lemma riscvSetMode_frame [frame_simps, simp]:
  "csr (riscvSetMode V m s) = csr s" "csrMask (riscvSetMode V m s) = csrMask s"
  "currentArch (riscvSetMode V m s) = currentArch s"
  "riscv_disable (riscvSetMode V m s) = riscv_disable s"
  "artifactAccess (riscvSetMode V m s) = artifactAccess s"
  "inSaveRestore (riscvSetMode V m s) = inSaveRestore s"
  "configInfo (riscvSetMode V m s) = configInfo s"
  "fpActiveRM (riscvSetMode V m s) = fpActiveRM s" "fpFlags (riscvSetMode V m s) = fpFlags s"
  "jumpBase (riscvSetMode V m s) = jumpBase s" "swip (riscvSetMode V m s) = swip s"
  "exceptionMask (riscvSetMode V m s) = exceptionMask s"
  "interruptMask (riscvSetMode V m s) = interruptMask s"
  "riscv_exception (riscvSetMode V m s) = riscv_exception s"
  "MIMode (riscvSetMode V m s) = MIMode s" "SIMode (riscvSetMode V m s) = SIMode s"
  "UIMode (riscvSetMode V m s) = UIMode s" "AFErrorIn (riscvSetMode V m s) = AFErrorIn s"
  "AFErrorOut (riscvSetMode V m s) = AFErrorOut s"
  "exclusiveTag (riscvSetMode V m s) = exclusiveTag s"
  "exclusiveTagMask (riscvSetMode V m s) = exclusiveTagMask s"
  "baseCycles (riscvSetMode V m s) = baseCycles s"
  "baseInstructions (riscvSetMode V m s) = baseInstructions s"
  "netValue (riscvSetMode V m s) = netValue s" "vmDomains (riscvSetMode V m s) = vmDomains s"
  "pmpDomains (riscvSetMode V m s) = pmpDomains s"
  "physDomains (riscvSetMode V m s) = physDomains s" "pmpcfg (riscvSetMode V m s) = pmpcfg s"
  "pmpaddr (riscvSetMode V m s) = pmpaddr s" "tlb (riscvSetMode V m s) = tlb s"
  "extBits (riscvSetMode V m s) = extBits s" "PTWActive (riscvSetMode V m s) = PTWActive s"
  "PTWBadAddr (riscvSetMode V m s) = PTWBadAddr s"
  "cb_trapNotifier (riscvSetMode V m s) = cb_trapNotifier s"
  "cb_ERETNotifier (riscvSetMode V m s) = cb_ERETNotifier s"
  "cb_resetNotifier (riscvSetMode V m s) = cb_resetNotifier s"
  by (simp_all add: riscvSetMode_def Let_def)

lemma RISCV_XLEN_IS_32_cong: "currentArch s = currentArch t \<Longrightarrow> RISCV_XLEN_IS_32 s = RISCV_XLEN_IS_32 t"
  by (simp add: RISCV_XLEN_IS_32_def)

text \<open>The lowest implemented mode is implemented, and no implemented mode is below it.\<close>

lemma riscvHasMode_MinMode: "riscvHasMode s (riscvGetMinMode s)"
  by (simp add: riscvGetMinMode_def)

lemma riscvGetMinMode_least: "riscvHasMode s m \<Longrightarrow> riscvGetMinMode s \<le> m"
  by (cases m) (auto simp: riscvGetMinMode_def mode_ord)

text \<open>The loop of \<^verbatim>\<open>getFeatureIndex\<close> on a power of two counts its exponent.\<close>

lemma feature_loop_power: "n < 32 \<Longrightarrow> feature_loop (push_bit n 1) i = i + of_nat n + 1"
proof (induction n arbitrary: i)
  case 0
  show ?case by (subst feature_loop.simps, subst feature_loop.simps) simp
next
  case (Suc n)
  have "bit (push_bit (Suc n) (1::uns32)) (Suc n)"
    using Suc.prems by (simp add: bit_simps)
  then have ne: "push_bit (Suc n) (1::uns32) \<noteq> 0" by auto
  have "drop_bit 1 (push_bit (Suc n) (1::uns32)) = push_bit n 1"
    using Suc.prems by (intro bit_word_eqI) (auto simp: bit_simps)
  then show ?case
    using Suc ne by (subst feature_loop.simps) (simp add: algebra_simps)
qed

end
