(* ===== verification/RiscvPMP.thy ===== *)
theory RiscvPMP
  imports RiscvUtils
begin

text \<open>
  Physical memory protection (\<^verbatim>\<open>riscvVM.c\<close>, PHYSICAL MEMORY MANAGEMENT): the \<^verbatim>\<open>pmpcfg\<close> and
  \<^verbatim>\<open>pmpaddr\<close> registers with their lock bits and granularity, the bounds of an entry in each
  address-matching mode, and the refresh of the permissions that the kernel keeps for the PMP
  domain of a mode. The kernel's permissions are a cache of what the registers say: a region is
  given its privilege when it is first touched (\<^verbatim>\<open>mapPMP\<close>) and is stripped of it when an entry
  that covers it is written (\<^verbatim>\<open>invalidatePMPEntry\<close>).
\<close>

section \<open>Registers\<close>

datatype pmpcfgMode = PMPM_OFF | PMPM_TOR | PMPM_NA4 | PMPM_NAPOT

definition cfg_priv :: "uns8 \<Rightarrow> memPriv" where
  "cfg_priv e = ucast (getf 0 3 e)"

definition cfg_mode :: "uns8 \<Rightarrow> pmpcfgMode" where
  "cfg_mode e = (let m = getf 3 2 e in if m = 0 then PMPM_OFF else if m = 1 then PMPM_TOR
     else if m = 2 then PMPM_NA4 else PMPM_NAPOT)"

definition cfg_L :: "uns8 \<Rightarrow> bool" where
  "cfg_L e = bit e 7"

text \<open>The views of the \<^verbatim>\<open>riscvPMPCFG\<close> union: \<open>n\<close> bytes from byte \<open>base\<close> as one little-endian
  value, and the assignment of such a value.\<close>

definition pmpcfg_word :: "(nat \<Rightarrow> uns8) \<Rightarrow> nat \<Rightarrow> nat \<Rightarrow> uns64" where
  "pmpcfg_word cfg base n =
     fold (\<lambda>i acc. acc OR push_bit (8 * i) (ucast (cfg (base + i)))) [0..<n] 0"

definition set_pmpcfg_word :: "(nat \<Rightarrow> uns8) \<Rightarrow> nat \<Rightarrow> nat \<Rightarrow> uns64 \<Rightarrow> (nat \<Rightarrow> uns8)" where
  "set_pmpcfg_word cfg base n v =
     (\<lambda>i. if base \<le> i \<and> i < base + n then ucast (drop_bit (8 * (i - base)) v) else cfg i)"

definition readPMPCFGInt :: "riscv \<Rightarrow> nat \<Rightarrow> uns64" where
  "readPMPCFGInt s index =
     (if has (currentArch s) ISA_XLEN_64 then pmpcfg_word (pmpcfg s) (8 * (index div 2)) 8
      else pmpcfg_word (pmpcfg s) (4 * index) 4)"

definition pmpLocked :: "riscv \<Rightarrow> nat \<Rightarrow> bool" where
  "pmpLocked s index \<longleftrightarrow> \<not> artifactAccess s \<and> cfg_L (pmpcfg s index)"

definition getEffectivePMPAddr :: "riscv \<Rightarrow> nat \<Rightarrow> uns64" where
  "getEffectivePMPAddr s index =
     (let e = pmpcfg s index; G = PMP_grain (configInfo s); result = pmpaddr s index
      in if G \<ge> 2 \<and> cfg_mode e = PMPM_NAPOT then result OR (push_bit (G - 1) 1 - 1)
         else if G \<ge> 1 \<and> cfg_mode e \<noteq> PMPM_NAPOT then result AND push_bit G (- 1)
         else result)"

definition getPMPRegionActive :: "riscv \<Rightarrow> uns8 \<Rightarrow> nat \<Rightarrow> bool" where
  "getPMPRegionActive s e index =
     (if cfg_mode e = PMPM_OFF then False
      else if cfg_mode e \<noteq> PMPM_TOR then True
      else getEffectivePMPAddr s index \<noteq> 0)"

definition pmpLockedTOR :: "riscv \<Rightarrow> nat \<Rightarrow> bool" where
  "pmpLockedTOR s index \<longleftrightarrow>
     index < NUM_PMPS \<and> cfg_mode (pmpcfg s index) = PMPM_TOR \<and> pmpLocked s index"

section \<open>Bounds and privileges\<close>

definition getAddressMask :: "nat \<Rightarrow> uns64" where
  "getAddressMask bits = (if bits = 64 then - 1 else push_bit bits 1 - 1)"

definition setPMPPriv :: "riscvMode \<Rightarrow> uns64 \<Rightarrow> uns64 \<Rightarrow> memPriv \<Rightarrow> riscv \<Rightarrow> riscv" where
  "setPMPPriv mode low high priv s =
     (let dataDomain = pmpDomains s mode False; codeDomain = pmpDomains s mode True
      in if dataDomain = codeDomain
         then do_call (VmirtProtectMemory dataDomain low high priv MEM_PRIV_SET) s
         else let s = (if priv = MEM_PRIV_NONE \<or> has priv MEM_PRIV_RW
                       then do_call (VmirtProtectMemory dataDomain low high priv
                              (ActionOfPriv (priv AND MEM_PRIV_RW))) s else s)
              in if priv = MEM_PRIV_NONE \<or> has priv MEM_PRIV_X
                 then do_call (VmirtProtectMemory codeDomain low high priv
                        (ActionOfPriv (priv AND MEM_PRIV_X))) s else s)"

definition getPMPEntryBounds :: "riscv \<Rightarrow> nat \<Rightarrow> uns64 \<times> uns64" where
  "getPMPEntryBounds s index =
     (let e = pmpcfg s index; low = push_bit 2 (getEffectivePMPAddr s index)
      in if cfg_mode e = PMPM_NA4 then (low, low + 3)
         else if cfg_mode e = PMPM_NAPOT
         then let notLow = NOT (low + 3);
                  msk = push_bit 1 (notLow AND - notLow) - 1;
                  low = low AND NOT msk
              in (low, low OR msk)
         else let high = low - 1;
                  low = (if index = 0 then 0 else push_bit 2 (pmpaddr s (index - 1)))
              in (low AND push_bit (PMP_grain (configInfo s)) (- 4), high))"

definition lowerPriorityPMPEntryLocked :: "riscv \<Rightarrow> nat \<Rightarrow> bool" where
  "lowerPriorityPMPEntryLocked s index \<longleftrightarrow>
     list_ex (\<lambda>i. cfg_L (pmpcfg s i) \<and> cfg_mode (pmpcfg s i) \<noteq> PMPM_OFF) [index + 1..<NUM_PMPS]"

definition invalidatePMPEntry :: "nat \<Rightarrow> riscv \<Rightarrow> riscv" where
  "invalidatePMPEntry index s =
     (let e = pmpcfg s index in
      if getPMPRegionActive s e index
      then let (low, high) = getPMPEntryBounds s index in
           if low \<le> high
           then let s' = setPMPPriv RISCV_MODE_SUPERVISOR low high MEM_PRIV_NONE s
                in if cfg_L e \<or> lowerPriorityPMPEntryLocked s index
                   then setPMPPriv RISCV_MODE_MACHINE low high MEM_PRIV_NONE s' else s'
           else s
      else s)"

section \<open>Register access\<close>

definition riscvVMReadPMPCFG :: "riscv \<Rightarrow> nat \<Rightarrow> uns64" where
  "riscvVMReadPMPCFG s index = readPMPCFGInt s index"

definition WM64_pmpcfg :: uns64 where
  "WM64_pmpcfg = 0x9f9f9f9f9f9f9f9f"

text \<open>One round of the loop over the entries: \<open>old\<close> is the register bank before the write.\<close>

definition writePMPCFGEntry :: "(nat \<Rightarrow> uns8) \<Rightarrow> nat \<Rightarrow> riscv \<Rightarrow> riscv" where
  "writePMPCFGEntry old i s =
     (let oldCFG = old i; newCFG = pmpcfg s i;
          na4 = (PMP_grain (configInfo s) \<noteq> 0 \<and> cfg_mode newCFG = PMPM_NA4);
          newCFG = (if na4 then setf 3 2 (getf 3 2 oldCFG) newCFG else newCFG);
          s = (if na4 then s\<lparr>pmpcfg := (pmpcfg s)(i := newCFG)\<rparr> else s)
      in if oldCFG \<noteq> newCFG
         then let s = s\<lparr>pmpcfg := (pmpcfg s)(i := oldCFG)\<rparr>
              in if \<not> pmpLocked s i
                 then let s = invalidatePMPEntry i s;
                          s = s\<lparr>pmpcfg := (pmpcfg s)(i := newCFG)\<rparr>
                      in invalidatePMPEntry i s
                 else s
         else s)"

definition riscvVMWritePMPCFG :: "nat \<Rightarrow> uns64 \<Rightarrow> riscv \<Rightarrow> riscv \<times> uns64" where
  "riscvVMWritePMPCFG index newValue s =
     (let is64 = has (currentArch s) ISA_XLEN_64;
          entriesPerCFG = (if is64 then 8 else 4);
          numPMP = PMP_registers (configInfo s);
          numCFG = (numPMP + entriesPerCFG - 1) div entriesPerCFG;
          offset = (if is64 then index div 2 else index);
          s' = (if offset < numCFG
                then let numBytes = numPMP - offset * entriesPerCFG;
                         msk = (if numBytes \<ge> 8 then - 1 else push_bit (numBytes * 8) 1 - 1);
                         old = pmpcfg s;
                         v = newValue AND (WM64_pmpcfg AND msk);
                         s1 = s\<lparr>pmpcfg := set_pmpcfg_word old (offset * entriesPerCFG) entriesPerCFG v\<rparr>
                     in fold (writePMPCFGEntry old) [0..<NUM_PMPS] s1
                else s)
      in (s', readPMPCFGInt s' index))"

definition riscvVMReadPMPAddr :: "riscv \<Rightarrow> nat \<Rightarrow> uns64" where
  "riscvVMReadPMPAddr s index = getEffectivePMPAddr s index"

definition riscvVMWritePMPAddr :: "nat \<Rightarrow> uns64 \<Rightarrow> riscv \<Rightarrow> riscv \<times> uns64" where
  "riscvVMWritePMPAddr index newValue s =
     (let numRegs = PMP_registers (configInfo s); G = PMP_grain (configInfo s);
          newValue = newValue AND drop_bit 2 (getAddressMask (extBits s));
          newValue = (if G \<noteq> 0 then newValue AND push_bit (G - 1) (- 1) else newValue);
          s' = (if index < numRegs \<and> pmpaddr s index \<noteq> newValue
                then if pmpLocked s index then s
                     else if pmpLockedTOR s (index + 1) then s
                     else let s = invalidatePMPEntry index s;
                              s = s\<lparr>pmpaddr := (pmpaddr s)(index := newValue)\<rparr>
                          in invalidatePMPEntry index s
                else s)
      in (s', getEffectivePMPAddr s' index))"

definition resetPMPEntry :: "nat \<Rightarrow> riscv \<Rightarrow> riscv" where
  "resetPMPEntry i s =
     (if pmpaddr s i \<noteq> 0 \<or> pmpcfg s i \<noteq> 0
      then let s = invalidatePMPEntry i s
           in s\<lparr>pmpaddr := (pmpaddr s)(i := 0), pmpcfg := (pmpcfg s)(i := 0)\<rparr>
      else s)"

definition riscvVMResetPMP :: "riscv \<Rightarrow> riscv" where
  "riscvVMResetPMP s = fold resetPMPEntry [0..<PMP_registers (configInfo s)] s"

section \<open>Mapping a region on access\<close>

definition refinePMPRegionRange ::
  "riscv \<Rightarrow> riscvMode \<Rightarrow> uns64 \<Rightarrow> nat \<Rightarrow> uns64 \<times> uns64 \<times> memPriv \<Rightarrow> uns64 \<times> uns64 \<times> memPriv" where
  "refinePMPRegionRange s mode PA index r =
     (let (lowPA, highPA, priv) = r; e = pmpcfg s index in
      if getPMPRegionActive s e index
      then let (lowPAEntry, highPAEntry) = getPMPEntryBounds s index in
           if lowPAEntry > highPAEntry then r
           else if lowPAEntry \<le> PA \<and> PA \<le> highPAEntry
           then (lowPAEntry, highPAEntry,
                 if mode \<noteq> RISCV_MODE_MACHINE \<or> cfg_L e then cfg_priv e else MEM_PRIV_RWX)
           else if lowPAEntry > PA \<and> lowPAEntry < highPA then (lowPA, lowPAEntry - 1, priv)
           else if highPAEntry < PA \<and> highPAEntry > lowPA then (highPAEntry + 1, highPA, priv)
           else r
      else r)"

definition pmpRegionOf :: "riscv \<Rightarrow> riscvMode \<Rightarrow> uns64 \<Rightarrow> uns64 \<Rightarrow> uns64 \<times> uns64 \<times> memPriv" where
  "pmpRegionOf s mode PA highPA =
     fold (refinePMPRegionRange s mode PA) (rev [0..<PMP_registers (configInfo s)])
       (0, highPA, if mode = RISCV_MODE_MACHINE then MEM_PRIV_RWX else MEM_PRIV_NONE)"

definition mapPMPInt ::
  "riscvMode \<Rightarrow> memPriv \<Rightarrow> uns64 \<Rightarrow> uns64 \<Rightarrow> riscv \<Rightarrow> riscv \<times> uns64 \<times> uns64" where
  "mapPMPInt mode requiredPriv PA highPA s =
     (let (low, high, priv) = pmpRegionOf s mode PA highPA;
          s = (if priv AND requiredPriv \<noteq> requiredPriv
               then s\<lparr>AFErrorIn := riscv_AFault_PMP\<rparr> else s)
      in (setPMPPriv mode low high priv s, low, high))"

text \<open>The region found always contains the address, so that the loop of \<^verbatim>\<open>mapPMP\<close> advances.\<close>

definition region_has :: "uns64 \<Rightarrow> uns64 \<times> uns64 \<times> memPriv \<Rightarrow> bool" where
  "region_has PA r \<longleftrightarrow> fst r \<le> PA \<and> PA \<le> fst (snd r)"

lemma refinePMPRegionRange_has:
  assumes "region_has PA r"
  shows "region_has PA (refinePMPRegionRange s mode PA i r)"
proof -
  obtain lo hi p where r: "r = (lo, hi, p)" by (cases r)
  obtain le he where b: "getPMPEntryBounds s i = (le, he)" by fastforce
  show ?thesis
    using assms word_less_le_minus_1 [of PA le] word_less_plus_1_le [of he PA]
    by (auto simp: refinePMPRegionRange_def r b region_has_def Let_def)
qed

lemma pmpRegionOf_has:
  assumes "PA \<le> highPA"
  shows "region_has PA (pmpRegionOf s mode PA highPA)"
proof -
  have "region_has PA (fold (refinePMPRegionRange s mode PA) is r)" if "region_has PA r" for "is" r
    using that by (induction "is" arbitrary: r) (simp_all add: refinePMPRegionRange_has)
  with assms show ?thesis by (simp add: pmpRegionOf_def region_has_def)
qed

lemma mapPMPInt_high_ge:
  "PA \<le> highPA \<Longrightarrow> mapPMPInt mode req PA highPA s = (s', low, high) \<Longrightarrow> low \<le> PA \<and> PA \<le> high"
  using pmpRegionOf_has [of PA highPA s mode]
  by (auto simp: mapPMPInt_def region_has_def Let_def split: prod.splits)

text \<open>The loop: \<open>lowPA\<close> is the first address not yet processed, \<open>lastPA\<close> the last to process.
  The code's \<^verbatim>\<open>highPA = lowPA-1; do { lowPA = highPA+1; ...\<close> enters with \<open>lowPA\<close> itself.\<close>

function mapPMP_loop ::
  "riscvMode \<Rightarrow> memPriv \<Rightarrow> uns64 \<Rightarrow> uns64 \<Rightarrow> riscv \<Rightarrow> riscv" where
  "mapPMP_loop mode requiredPriv lowPA lastPA s =
     (let msk = getAddressMask (extBits s) in
      if lowPA \<le> msk
      then let (s', low, highPA) = mapPMPInt mode requiredPriv lowPA msk s
           in if highPA < lastPA then mapPMP_loop mode requiredPriv (highPA + 1) lastPA s' else s'
      else s)"
  by pat_completeness auto
termination
proof (relation "measure (\<lambda>(mode, req, lowPA, lastPA, s). 2 ^ 64 - unat lowPA)", goal_cases)
  case 1
  show ?case by simp
next
  case (2 mode req lowPA lastPA s msk x s' y low highPA)
  have "lowPA \<le> highPA"
    using mapPMPInt_high_ge [of lowPA msk mode req s s' low highPA] 2 by simp
  then have "unat lowPA < unat (highPA + 1)"
    using unat_plus_1 [OF \<open>highPA < lastPA\<close>] by (simp add: word_le_nat_alt)
  moreover have "unat (highPA + 1) < 2 ^ 64"
    using unat_bound [of "highPA + 1"] by simp
  ultimately show ?case by simp
qed

declare mapPMP_loop.simps [simp del]

definition mapPMP :: "riscvMode \<Rightarrow> memPriv \<Rightarrow> uns64 \<Rightarrow> uns64 \<Rightarrow> riscv \<Rightarrow> riscv" where
  "mapPMP mode requiredPriv lowPA highPA s =
     (if PMP_registers (configInfo s) \<noteq> 0 then mapPMP_loop mode requiredPriv lowPA highPA s else s)"

section \<open>What the registers mean: the priority rule\<close>

text \<open>The specification: an entry matches an address in its bounds, the lowest-numbered
  matching entry decides, and without one Machine mode has all privileges, other modes none.\<close>

definition pmp_match :: "riscv \<Rightarrow> uns64 \<Rightarrow> nat \<Rightarrow> bool" where
  "pmp_match s a i \<longleftrightarrow> getPMPRegionActive s (pmpcfg s i) i \<and>
     fst (getPMPEntryBounds s i) \<le> a \<and> a \<le> snd (getPMPEntryBounds s i)"

definition pmp_entry_priv :: "riscv \<Rightarrow> riscvMode \<Rightarrow> nat \<Rightarrow> memPriv" where
  "pmp_entry_priv s mode i =
     (if mode \<noteq> RISCV_MODE_MACHINE \<or> cfg_L (pmpcfg s i) then cfg_priv (pmpcfg s i) else MEM_PRIV_RWX)"

definition pmp_default :: "riscvMode \<Rightarrow> memPriv" where
  "pmp_default mode = (if mode = RISCV_MODE_MACHINE then MEM_PRIV_RWX else MEM_PRIV_NONE)"

definition pmp_priv_from :: "riscv \<Rightarrow> riscvMode \<Rightarrow> nat list \<Rightarrow> uns64 \<Rightarrow> memPriv" where
  "pmp_priv_from s mode is a =
     (case find (pmp_match s a) is of None \<Rightarrow> pmp_default mode | Some i \<Rightarrow> pmp_entry_priv s mode i)"

definition pmp_priv :: "riscv \<Rightarrow> riscvMode \<Rightarrow> uns64 \<Rightarrow> memPriv" where
  "pmp_priv s mode a = pmp_priv_from s mode [0..<PMP_registers (configInfo s)] a"

subsection \<open>Entry bounds are 4-byte granular\<close>

lemma starts4_push_bit_minus_4: "starts4 (push_bit n (- 4))"
proof -
  have "(- 4 :: uns64) = push_bit 2 (- 1)" by (simp add: push_bit_eq_mult)
  then have "push_bit n (- 4 :: uns64) = push_bit (n + 2) (- 1)"
    by (simp only: push_bit_push_bit)
  then show ?thesis by (simp only: starts4_push_bit le_add2)
qed

lemma starts4_push_bit_keep: "starts4 x \<Longrightarrow> starts4 (push_bit n x)"
  unfolding starts4_iff by (cases n; cases "n = 1") (simp_all add: bit_push_bit_iff del: push_bit_Suc)

lemma starts4_lowest_bit: "starts4 n \<Longrightarrow> starts4 (push_bit 1 (n AND - n))"
  by (intro starts4_push_bit_keep starts4_and disjI1)

lemma napot_bounds_granular:
  assumes "starts4 low"
  defines "msk \<equiv> push_bit 1 (NOT (low + 3) AND - NOT (low + 3)) - 1"
  shows "starts4 (low AND NOT msk)" "ends4 ((low AND NOT msk) OR msk)"
proof -
  have "ends4 msk" unfolding msk_def using assms(1) by (intro starts4_minus_1 starts4_lowest_bit) simp
  then show "ends4 ((low AND NOT msk) OR msk)" by simp
  from assms(1) show "starts4 (low AND NOT msk)" by simp
qed

lemma getPMPEntryBounds_granular:
  "starts4 (fst (getPMPEntryBounds s i))" "ends4 (snd (getPMPEntryBounds s i))"
  using napot_bounds_granular [of "push_bit 2 (getEffectivePMPAddr s i)"]
  by (auto simp: getPMPEntryBounds_def Let_def starts4_push_bit_minus_4)

subsection \<open>The refined region has one privilege throughout\<close>

definition region_ok :: "riscv \<Rightarrow> riscvMode \<Rightarrow> uns64 \<Rightarrow> nat list \<Rightarrow> uns64 \<times> uns64 \<times> memPriv \<Rightarrow> bool" where
  "region_ok s mode PA is r \<longleftrightarrow> region_has PA r \<and> starts4 (fst r) \<and> ends4 (fst (snd r)) \<and>
     (\<forall>a. fst r \<le> a \<and> a \<le> fst (snd r) \<longrightarrow> pmp_priv_from s mode is a = snd (snd r))"

lemma pmp_priv_from_Cons:
  "pmp_priv_from s mode (i # is) a =
     (if pmp_match s a i then pmp_entry_priv s mode i else pmp_priv_from s mode is a)"
  by (simp add: pmp_priv_from_def)

text \<open>A part of a good region that the entry does not touch is a good region.\<close>

lemma region_ok_narrow:
  assumes "region_ok s mode PA is (lo, hi, p)" and "region_has PA (lo', hi', p)"
    and "starts4 lo'" and "ends4 hi'" and "lo \<le> lo'" and "hi' \<le> hi"
    and "\<And>a. lo' \<le> a \<Longrightarrow> a \<le> hi' \<Longrightarrow> \<not> pmp_match s a i"
  shows "region_ok s mode PA (i # is) (lo', hi', p)"
  using assms by (auto simp: region_ok_def pmp_priv_from_Cons) (meson order_trans)

lemma refine_region_ok:
  assumes ok: "region_ok s mode PA is r"
  shows "region_ok s mode PA (i # is) (refinePMPRegionRange s mode PA i r)"
proof -
  obtain lo hi p where r: "r = (lo, hi, p)" by (cases r)
  obtain le he where b: "getPMPEntryBounds s i = (le, he)" by fastforce
  note refine = refinePMPRegionRange_def r b Let_def pmp_entry_priv_def
  note narrow = region_ok_narrow [OF ok [unfolded r]]
  have g: "starts4 le" "ends4 he"
    using getPMPEntryBounds_granular [of s i] by (simp_all add: b)
  have lohi: "lo \<le> PA" "PA \<le> hi" "starts4 lo" "ends4 hi"
    using ok by (auto simp: region_ok_def region_has_def r)
  have ne: "le \<noteq> hi" "lo \<noteq> he" using g lohi starts4_not_ends4 by blast+
  have match: "pmp_match s a i \<longleftrightarrow> getPMPRegionActive s (pmpcfg s i) i \<and> le \<le> a \<and> a \<le> he" for a
    by (simp add: pmp_match_def b)
  have has: "region_has PA (refinePMPRegionRange s mode PA i r)"
    using ok refinePMPRegionRange_has by (simp add: region_ok_def)
  consider (skip) "\<not> getPMPRegionActive s (pmpcfg s i) i \<or> he < le"
    | (inside) "getPMPRegionActive s (pmpcfg s i) i" "le \<le> PA" "PA \<le> he"
    | (above) "getPMPRegionActive s (pmpcfg s i) i" "le \<le> he" "PA < le"
    | (below) "getPMPRegionActive s (pmpcfg s i) i" "le \<le> he" "he < PA"
    by force
  then show ?thesis
  proof cases
    case skip
    then have "refinePMPRegionRange s mode PA i r = r" and "\<And>a. \<not> pmp_match s a i"
      by (auto simp: refine match)
    with ok show ?thesis by (simp add: region_ok_def pmp_priv_from_Cons)
  next
    case inside
    then have "refinePMPRegionRange s mode PA i r = (le, he, pmp_entry_priv s mode i)"
      by (auto simp: refine)
    with inside has g show ?thesis by (simp add: region_ok_def pmp_priv_from_Cons match)
  next
    case above
    then have eq: "refinePMPRegionRange s mode PA i r = (lo, if le < hi then le - 1 else hi, p)"
      by (auto simp: refine)
    have hi': "a < le \<and> a \<le> hi" if "a \<le> (if le < hi then le - 1 else hi)" for a
      using that word_le_minus_1_less [OF \<open>PA < le\<close>, of a] ne by (auto split: if_splits)
    show ?thesis unfolding eq
      by (rule narrow) (use has g lohi hi' in \<open>auto simp: eq match not_le\<close>)
  next
    case below
    then have eq: "refinePMPRegionRange s mode PA i r = (if lo < he then he + 1 else lo, hi, p)"
      by (auto simp: refine)
    have lo': "he < a \<and> lo \<le> a" if "(if lo < he then he + 1 else lo) \<le> a" for a
      using that word_plus_1_le_less [OF \<open>he < PA\<close>, of a] ne by (auto split: if_splits)
    show ?thesis unfolding eq
      by (rule narrow) (use has g lohi lo' in \<open>auto simp: eq match not_le\<close>)
  qed
qed

lemma pmpRegionOf_ok:
  assumes "PA \<le> highPA" and "ends4 highPA"
  shows "region_ok s mode PA [0..<PMP_registers (configInfo s)] (pmpRegionOf s mode PA highPA)"
proof -
  let ?r = "(0, highPA, pmp_default mode)"
  have "region_ok s mode PA is (foldr (refinePMPRegionRange s mode PA) is ?r)" for "is"
  proof (induction "is")
    case Nil
    from assms show ?case by (simp add: region_ok_def region_has_def pmp_priv_from_def)
  next
    case (Cons i "is")
    then show ?case by (simp add: refine_region_ok)
  qed
  then show ?thesis by (simp add: pmpRegionOf_def foldr_conv_fold pmp_default_def)
qed

section \<open>The kernel's permissions as a cache of the registers\<close>

text \<open>What the development relies on of \<^verbatim>\<open>vmirtProtectMemory\<close> with action \<^verbatim>\<open>MEM_PRIV_SET\<close>:
  the permissions of the range become the given ones, all others stay.\<close>

locale protect_memory =
  fixes perm :: "vmicall list \<Rightarrow> memDomainP \<Rightarrow> uns64 \<Rightarrow> memPriv"
  assumes perm_set: "perm (cs @ [VmirtProtectMemory d lo hi p MEM_PRIV_SET]) d' a =
    (if d' = d \<and> lo \<le> a \<and> a \<le> hi then p else perm cs d' a)"

text \<open>The domains as \<^verbatim>\<open>riscvVMInit\<close> sets them up on a unified bus: code and data share a domain,
  and Machine mode shares its domain with no other mode.\<close>

definition pmp_domains_ok :: "riscv \<Rightarrow> bool" where
  "pmp_domains_ok s \<longleftrightarrow>
     list_all (\<lambda>m. pmpDomains s m True = pmpDomains s m False \<and>
       (m \<noteq> RISCV_MODE_MACHINE \<longrightarrow> pmpDomains s m False \<noteq> pmpDomains s RISCV_MODE_MACHINE False))
     all_modes"

definition pmp_cached :: "(vmicall list \<Rightarrow> memDomainP \<Rightarrow> uns64 \<Rightarrow> memPriv) \<Rightarrow> riscv \<Rightarrow> riscvMode
    \<Rightarrow> uns64 \<Rightarrow> memPriv" where
  "pmp_cached perm s mode a = perm (calls s) (pmpDomains s mode False) a"

definition pmp_coherent :: "(vmicall list \<Rightarrow> memDomainP \<Rightarrow> uns64 \<Rightarrow> memPriv) \<Rightarrow> riscv \<Rightarrow> riscvMode
    \<Rightarrow> bool" where
  "pmp_coherent perm s mode \<longleftrightarrow>
     (\<forall>a. pmp_cached perm s mode a = MEM_PRIV_NONE \<or> pmp_cached perm s mode a = pmp_priv s mode a)"

lemma pmp_domains_unified: "pmp_domains_ok s \<Longrightarrow> pmpDomains s m True = pmpDomains s m False"
  by (cases m) (simp_all add: pmp_domains_ok_def all_modes_def)

lemma pmp_domains_machine:
  "pmp_domains_ok s \<Longrightarrow> pmpDomains s m False = pmpDomains s m' False
    \<Longrightarrow> m = RISCV_MODE_MACHINE \<longleftrightarrow> m' = RISCV_MODE_MACHINE"
  by (cases m; cases m') (auto simp: pmp_domains_ok_def all_modes_def)

text \<open>The priority rule reads only the registers and the number of entries.\<close>

definition same_pmp :: "riscv \<Rightarrow> riscv \<Rightarrow> bool" where
  "same_pmp s t \<longleftrightarrow> pmpcfg s = pmpcfg t \<and> pmpaddr s = pmpaddr t \<and> configInfo s = configInfo t"

lemma same_pmp_priv:
  assumes "same_pmp s t"
  shows "getPMPRegionActive s e i = getPMPRegionActive t e i"
    and "getPMPEntryBounds s i = getPMPEntryBounds t i"
    and "pmp_match s a i = pmp_match t a i"
    and "pmp_entry_priv s mode i = pmp_entry_priv t mode i"
    and "pmp_priv s mode a = pmp_priv t mode a"
proof -
  have eff: "getEffectivePMPAddr s i = getEffectivePMPAddr t i" for i
    using assms by (simp add: getEffectivePMPAddr_def same_pmp_def)
  show act: "getPMPRegionActive s e i = getPMPRegionActive t e i" for e i
    by (simp add: getPMPRegionActive_def eff)
  show bnd: "getPMPEntryBounds s i = getPMPEntryBounds t i" for i
    using assms by (simp add: getPMPEntryBounds_def eff same_pmp_def Let_def)
  show match: "pmp_match s a i = pmp_match t a i" for a i
    using assms by (simp add: pmp_match_def act bnd same_pmp_def)
  show priv: "pmp_entry_priv s mode i = pmp_entry_priv t mode i" for mode i
    using assms by (simp add: pmp_entry_priv_def same_pmp_def)
  have "pmp_match s a = pmp_match t a" by (rule ext) (rule match)
  then show "pmp_priv s mode a = pmp_priv t mode a"
    using assms by (simp add: pmp_priv_def pmp_priv_from_def priv same_pmp_def cong: option.case_cong)
qed

lemma pmp_priv_same_class:
  "(m = RISCV_MODE_MACHINE \<longleftrightarrow> m' = RISCV_MODE_MACHINE) \<Longrightarrow> pmp_priv s m a = pmp_priv s m' a"
  by (simp add: pmp_priv_def pmp_priv_from_def pmp_entry_priv_def pmp_default_def
      cong: option.case_cong)

lemma setPMPPriv_frame [simp]:
  "pmpcfg (setPMPPriv m lo hi p s) = pmpcfg s" "pmpaddr (setPMPPriv m lo hi p s) = pmpaddr s"
  "configInfo (setPMPPriv m lo hi p s) = configInfo s"
  "pmpDomains (setPMPPriv m lo hi p s) = pmpDomains s"
  "artifactAccess (setPMPPriv m lo hi p s) = artifactAccess s"
  "extBits (setPMPPriv m lo hi p s) = extBits s"
  "currentArch (setPMPPriv m lo hi p s) = currentArch s"
  by (simp_all add: setPMPPriv_def Let_def)

lemma mapPMPInt_frame:
  assumes "mapPMPInt mode req PA hi s = (s', lo', hi')"
  shows "same_pmp s s'" "pmpDomains s' = pmpDomains s" "extBits s' = extBits s"
  using assms by (auto simp: mapPMPInt_def same_pmp_def Let_def split: prod.splits if_splits)

lemma pmp_domains_ok_cong: "pmpDomains s' = pmpDomains s \<Longrightarrow> pmp_domains_ok s' = pmp_domains_ok s"
  by (simp add: pmp_domains_ok_def)

lemma same_pmp_sym: "same_pmp s t \<Longrightarrow> same_pmp t s"
  by (simp add: same_pmp_def)

lemma same_pmp_trans: "same_pmp s t \<Longrightarrow> same_pmp t u \<Longrightarrow> same_pmp s u"
  by (simp add: same_pmp_def)

lemma ends4_getAddressMask: "32 \<le> n \<Longrightarrow> n \<le> 56 \<Longrightarrow> ends4 (getAddressMask n)"
  by (simp add: getAddressMask_def del: push_bit_of_1)

lemma ends4_config: "config_ok s \<Longrightarrow> ends4 (getAddressMask (extBits s))"
  by (rule ends4_getAddressMask) (simp_all add: config_ok_def)

lemma mapPMPInt_ok:
  assumes "mapPMPInt mode req PA hi s = (s', lo', hi')"
  shows "pmp_domains_ok s' = pmp_domains_ok s" "config_ok s' = config_ok s"
  using mapPMPInt_frame [OF assms] by (auto simp: pmp_domains_ok_def config_ok_def same_pmp_def)

lemma mapPMP_loop_rule [case_names beyond last step]:
  assumes "\<And>lowPA s. \<not> lowPA \<le> getAddressMask (extBits s) \<Longrightarrow> P lowPA s s"
    and "\<And>lowPA s t lo hi. lowPA \<le> getAddressMask (extBits s)
      \<Longrightarrow> mapPMPInt mode req lowPA (getAddressMask (extBits s)) s = (t, lo, hi)
      \<Longrightarrow> lo \<le> lowPA \<Longrightarrow> lowPA \<le> hi \<Longrightarrow> \<not> hi < lastPA \<Longrightarrow> P lowPA s t"
    and "\<And>lowPA s t lo hi s'. lowPA \<le> getAddressMask (extBits s)
      \<Longrightarrow> mapPMPInt mode req lowPA (getAddressMask (extBits s)) s = (t, lo, hi)
      \<Longrightarrow> lo \<le> lowPA \<Longrightarrow> lowPA \<le> hi \<Longrightarrow> hi < lastPA \<Longrightarrow> P (hi + 1) t s' \<Longrightarrow> P lowPA s s'"
  shows "P lowPA s (mapPMP_loop mode req lowPA lastPA s)"
  using assms
proof (induction mode req lowPA lastPA s rule: mapPMP_loop.induct)
  case (1 mode req lowPA lastPA s)
  let ?msk = "getAddressMask (extBits s)"
  show ?case
  proof (cases "lowPA \<le> ?msk")
    case False
    with "1.prems"(1) show ?thesis by (subst mapPMP_loop.simps) simp
  next
    case True
    obtain t lo hi where t: "mapPMPInt mode req lowPA ?msk s = (t, lo, hi)" by (metis prod_cases3)
    note in_region = mapPMPInt_high_ge [OF True t]
    show ?thesis
    proof (cases "hi < lastPA")
      case False
      with in_region "1.prems"(2) [OF True t] show ?thesis
        by (subst mapPMP_loop.simps) (simp add: True t)
    next
      case rec: True
      have "P (hi + 1) t (mapPMP_loop mode req (hi + 1) lastPA t)"
        by (rule "1.IH" [OF refl True refl t [symmetric] refl rec]) (use "1.prems" in blast)+
      with in_region "1.prems"(3) [OF True t] rec show ?thesis
        by (subst mapPMP_loop.simps) (simp add: True t)
    qed
  qed
qed

lemma mapPMP_same:
  "same_pmp s (mapPMP mode req lowPA highPA s) \<and>
   pmpDomains (mapPMP mode req lowPA highPA s) = pmpDomains s \<and>
   extBits (mapPMP mode req lowPA highPA s) = extBits s"
proof -
  let ?P = "\<lambda>(lowPA::uns64) s t. same_pmp s t \<and> pmpDomains t = pmpDomains s \<and> extBits t = extBits s"
  have "?P lowPA s (mapPMP_loop mode req lowPA highPA s)"
    by (rule mapPMP_loop_rule [where P = ?P])
      (use mapPMPInt_frame in \<open>(force simp: same_pmp_def)+\<close>)
  then show ?thesis by (simp add: mapPMP_def same_pmp_def)
qed

context protect_memory
begin

lemma setPMPPriv_cached:
  assumes "pmp_domains_ok s"
  shows "pmp_cached perm (setPMPPriv m lo hi p s) m' a =
    (if pmpDomains s m' False = pmpDomains s m False \<and> lo \<le> a \<and> a \<le> hi then p
     else pmp_cached perm s m' a)"
  using pmp_domains_unified [OF assms, of m]
  by (simp add: pmp_cached_def setPMPPriv_def perm_set)

lemma mapPMPInt_cached:
  assumes "pmp_domains_ok s" and "PA \<le> hi" and "ends4 hi"
    and eq: "mapPMPInt mode req PA hi s = (s', lo', hi')"
  shows "pmp_cached perm s' m a =
    (if pmpDomains s m False = pmpDomains s mode False \<and> lo' \<le> a \<and> a \<le> hi' then pmp_priv s m a
     else pmp_cached perm s m a)"
proof -
  obtain p where r: "pmpRegionOf s mode PA hi = (lo', hi', p)"
    using eq by (auto simp: mapPMPInt_def Let_def split: prod.splits)
  define t where "t = (if p AND req \<noteq> req then s\<lparr>AFErrorIn := riscv_AFault_PMP\<rparr> else s)"
  have s': "s' = setPMPPriv mode lo' hi' p t"
    using eq by (auto simp: mapPMPInt_def r t_def)
  have t: "pmpDomains t = pmpDomains s" "calls t = calls s" by (simp_all add: t_def)
  have "pmp_priv s mode a = p" if "lo' \<le> a" "a \<le> hi'" for a
    using pmpRegionOf_ok [OF assms(2,3), of s mode] that by (simp add: region_ok_def r pmp_priv_def)
  moreover have "pmp_priv s m a = pmp_priv s mode a" if "pmpDomains s m False = pmpDomains s mode False"
    using pmp_domains_machine [OF assms(1) that] by (rule pmp_priv_same_class)
  moreover have "pmp_domains_ok t" using assms(1) by (simp add: pmp_domains_ok_def t)
  ultimately show ?thesis
    unfolding s' using setPMPPriv_cached [of t mode lo' hi' p m a]
    by (simp add: t pmp_cached_def)
qed

lemma mapPMPInt_coherent:
  assumes "pmp_domains_ok s" and "PA \<le> hi" and "ends4 hi"
    and "mapPMPInt mode req PA hi s = (s', lo', hi')" and "pmp_coherent perm s m"
  shows "pmp_coherent perm s' m"
  using mapPMPInt_cached [OF assms(1-4), of m] assms(5)
    same_pmp_priv(5) [OF mapPMPInt_frame(1) [OF assms(4)], of m]
  by (simp add: pmp_coherent_def)

lemma mapPMP_loop_coherent:
  assumes "pmp_domains_ok s" and "config_ok s" and "pmp_coherent perm s m"
  shows "pmp_coherent perm (mapPMP_loop mode req lowPA lastPA s) m"
proof -
  let ?P = "\<lambda>(lowPA::uns64) s s'. pmp_domains_ok s \<longrightarrow> config_ok s \<longrightarrow> pmp_coherent perm s m
      \<longrightarrow> pmp_coherent perm s' m"
  have "?P lowPA s (mapPMP_loop mode req lowPA lastPA s)"
    by (rule mapPMP_loop_rule [where P = ?P]) (auto simp: mapPMPInt_coherent mapPMPInt_ok ends4_config)
  with assms show ?thesis by simp
qed

lemma mapPMP_loop_exact:
  assumes "pmp_domains_ok s" and "config_ok s"
    and "lowPA \<le> a \<and> a \<le> lastPA \<and> a \<le> getAddressMask (extBits s)
      \<or> pmp_cached perm s mode a = pmp_priv s mode a"
  shows "pmp_cached perm (mapPMP_loop mode req lowPA lastPA s) mode a = pmp_priv s mode a"
proof -
  let ?todo = "\<lambda>lowPA s. lowPA \<le> a \<and> a \<le> lastPA \<and> a \<le> getAddressMask (extBits s)
      \<or> pmp_cached perm s mode a = pmp_priv s mode a"
  let ?P = "\<lambda>lowPA s s'. pmp_domains_ok s \<longrightarrow> config_ok s \<longrightarrow> ?todo lowPA s
      \<longrightarrow> pmp_cached perm s' mode a = pmp_priv s mode a"
  have "?P lowPA s (mapPMP_loop mode req lowPA lastPA s)"
  proof (rule mapPMP_loop_rule [where P = ?P], goal_cases beyond last step)
    case (last lowPA s t lo hi)
    then show ?case by (auto simp: mapPMPInt_cached [OF _ _ _ last(2)] ends4_config)
  next
    case (step lowPA s t lo hi s')
    note priv = same_pmp_priv(5) [OF mapPMPInt_frame(1) [OF step(2)]]
    note cached = mapPMPInt_cached [OF _ step(1) _ step(2), of mode a]
    have "a \<le> hi \<or> hi + 1 \<le> a" using word_less_plus_1_le [of hi a] by (meson not_le)
    then have "?todo (hi + 1) t" if "pmp_domains_ok s" "config_ok s" "?todo lowPA s"
      using that step(3) cached by (auto simp: ends4_config mapPMPInt_frame(3) [OF step(2)] priv)
    with step(6) show ?case by (simp add: mapPMPInt_ok [OF step(2)] priv) blast
  qed auto
  with assms show ?thesis by simp
qed

end

text \<open>An executable reading of the call log that obeys the law.\<close>

fun perm_of_calls_rev :: "vmicall list \<Rightarrow> memDomainP \<Rightarrow> uns64 \<Rightarrow> memPriv" where
  "perm_of_calls_rev [] d a = MEM_PRIV_NONE"
| "perm_of_calls_rev (VmirtProtectMemory d' lo hi p MEM_PRIV_SET # cs) d a =
     (if d = d' \<and> lo \<le> a \<and> a \<le> hi then p else perm_of_calls_rev cs d a)"
| "perm_of_calls_rev (c # cs) d a = perm_of_calls_rev cs d a"

definition perm_of_calls :: "vmicall list \<Rightarrow> memDomainP \<Rightarrow> uns64 \<Rightarrow> memPriv" where
  "perm_of_calls cs = perm_of_calls_rev (rev cs)"

interpretation call_log: protect_memory perm_of_calls
  by unfold_locales (simp add: perm_of_calls_def)

subsection \<open>Writing an entry keeps the cache coherent\<close>

text \<open>\<open>pmp_strips\<close>: invalidating entry \<open>i\<close> of \<open>s\<close> removes the entry's range from the domain of the
  mode: always for Supervisor mode, for Machine mode when the entry or a later one is locked.\<close>

definition pmp_strips :: "riscv \<Rightarrow> riscvMode \<Rightarrow> nat \<Rightarrow> bool" where
  "pmp_strips s mode i \<longleftrightarrow>
     mode = RISCV_MODE_SUPERVISOR \<or>
     mode = RISCV_MODE_MACHINE \<and> (cfg_L (pmpcfg s i) \<or> lowerPriorityPMPEntryLocked s i)"

lemma invalidatePMPEntry_frame [simp]:
  "pmpcfg (invalidatePMPEntry i s) = pmpcfg s" "pmpaddr (invalidatePMPEntry i s) = pmpaddr s"
  "configInfo (invalidatePMPEntry i s) = configInfo s"
  "pmpDomains (invalidatePMPEntry i s) = pmpDomains s"
  "artifactAccess (invalidatePMPEntry i s) = artifactAccess s"
  "currentArch (invalidatePMPEntry i s) = currentArch s"
  "extBits (invalidatePMPEntry i s) = extBits s"
  by (simp_all add: invalidatePMPEntry_def Let_def split: prod.splits)

context protect_memory
begin

lemma invalidatePMPEntry_cached:
  assumes "pmp_domains_ok s"
    and "mode = RISCV_MODE_SUPERVISOR \<or> mode = RISCV_MODE_MACHINE"
  shows "pmp_cached perm (invalidatePMPEntry i s) mode a =
    (if pmp_match s a i \<and> pmp_strips s mode i then MEM_PRIV_NONE else pmp_cached perm s mode a)"
proof -
  obtain lo hi where b: "getPMPEntryBounds s i = (lo, hi)" by fastforce
  have ne: "pmpDomains s RISCV_MODE_SUPERVISOR False \<noteq> pmpDomains s RISCV_MODE_MACHINE False"
    using pmp_domains_machine [OF assms(1)] by blast
  have ok: "pmp_domains_ok (setPMPPriv RISCV_MODE_SUPERVISOR lo hi MEM_PRIV_NONE s)"
    using assms(1) by (simp add: pmp_domains_ok_def)
  show ?thesis
    using assms(2) ne ne [symmetric]
    by (auto simp: invalidatePMPEntry_def b Let_def pmp_match_def pmp_strips_def
        setPMPPriv_cached [OF assms(1)] setPMPPriv_cached [OF ok])
qed

end

text \<open>Which state an entry's match depends on.\<close>

lemma pmp_match_cong:
  assumes "configInfo t = configInfo s" and "pmpcfg t j = pmpcfg s j" and "pmpaddr t j = pmpaddr s j"
    and "cfg_mode (pmpcfg s j) = PMPM_TOR \<Longrightarrow> j \<noteq> 0 \<Longrightarrow> pmpaddr t (j - 1) = pmpaddr s (j - 1)"
  shows "pmp_match t a j = pmp_match s a j"
proof -
  have eff: "getEffectivePMPAddr t j = getEffectivePMPAddr s j"
    using assms by (simp add: getEffectivePMPAddr_def)
  show ?thesis
  proof (cases "cfg_mode (pmpcfg s j)")
    case PMPM_TOR
    with assms eff show ?thesis
      by (simp add: pmp_match_def getPMPRegionActive_def getPMPEntryBounds_def Let_def)
  qed (use assms eff in \<open>simp_all add: pmp_match_def getPMPRegionActive_def getPMPEntryBounds_def Let_def\<close>)
qed

lemma pmp_priv_from_cong:
  assumes "\<And>j. j \<in> set js \<Longrightarrow> pmp_match t a j = pmp_match s a j \<and> pmpcfg t j = pmpcfg s j"
  shows "pmp_priv_from t mode js a = pmp_priv_from s mode js a"
  using assms by (induction js) (simp_all add: pmp_priv_from_Cons pmp_entry_priv_def,
      simp add: pmp_priv_from_def)

lemma pmp_priv_from_append:
  "pmp_priv_from s mode (xs @ ys) a =
     (if list_ex (pmp_match s a) xs then pmp_priv_from s mode xs a else pmp_priv_from s mode ys a)"
  by (induction xs) (simp_all add: pmp_priv_from_Cons)

lemma pmp_priv_from_unlocked:
  assumes "\<And>j. j \<in> set js \<Longrightarrow> pmp_match s a j \<Longrightarrow> \<not> cfg_L (pmpcfg s j)"
  shows "pmp_priv_from s RISCV_MODE_MACHINE js a = MEM_PRIV_RWX"
  using assms by (induction js) (simp_all add: pmp_priv_from_Cons pmp_entry_priv_def,
      simp add: pmp_priv_from_def pmp_default_def)

text \<open>Rewriting one entry changes the privilege of an address only where the old or the new
  entry matches it and its invalidation strips the mode.\<close>

lemma pmp_priv_change:
  assumes "PMP_registers (configInfo s) \<le> NUM_PMPS" and "configInfo t = configInfo s"
    and other: "\<And>j. j \<noteq> i \<Longrightarrow> pmp_match t a j = pmp_match s a j \<and> pmpcfg t j = pmpcfg s j"
    and mode: "mode = RISCV_MODE_SUPERVISOR \<or> mode = RISCV_MODE_MACHINE"
    and s: "\<not> (pmp_match s a i \<and> pmp_strips s mode i)"
    and t: "\<not> (pmp_match t a i \<and> pmp_strips t mode i)"
  shows "pmp_priv t mode a = pmp_priv s mode a"
proof (cases "pmp_match s a i \<or> pmp_match t a i")
  case False
  then have "pmp_match t a j = pmp_match s a j \<and> (pmp_match s a j \<longrightarrow> pmpcfg t j = pmpcfg s j)" for j
    using other by (cases "j = i") auto
  then have "pmp_priv_from t mode js a = pmp_priv_from s mode js a" for js
    by (induction js) (simp_all add: pmp_priv_from_Cons pmp_entry_priv_def,
      simp add: pmp_priv_from_def)
  then show ?thesis using assms(2) by (simp add: pmp_priv_def)
next
  case True
  let ?n = "PMP_registers (configInfo s)"
  have M: "mode = RISCV_MODE_MACHINE" using True s t mode by (auto simp: pmp_strips_def)
  have low: "lowerPriorityPMPEntryLocked t i = lowerPriorityPMPEntryLocked s i"
    using other by (auto simp: lowerPriorityPMPEntryLocked_def list_ex_iff)
  then have nl: "\<not> lowerPriorityPMPEntryLocked s i"
    and si: "pmp_match s a i \<Longrightarrow> \<not> cfg_L (pmpcfg s i)" and ti: "pmp_match t a i \<Longrightarrow> \<not> cfg_L (pmpcfg t i)"
    using True s t by (auto simp: pmp_strips_def M)
  have later: "\<not> cfg_L (pmpcfg s j)" if "i < j" "j < ?n" "pmp_match s a j" for j
  proof -
    have "cfg_mode (pmpcfg s j) \<noteq> PMPM_OFF"
      using that(3) by (auto simp: pmp_match_def getPMPRegionActive_def)
    with nl that assms(1) show ?thesis by (auto simp: lowerPriorityPMPEntryLocked_def list_ex_iff)
  qed
  show ?thesis
  proof (cases "i < ?n")
    case False
    then have "pmp_priv_from t mode [0..<?n] a = pmp_priv_from s mode [0..<?n] a"
      by (intro pmp_priv_from_cong other) auto
    then show ?thesis using assms(2) by (simp add: pmp_priv_def)
  next
    case True
    then have split: "[0..<?n] = [0..<i] @ [i..<?n]" using upt_add_eq_append [of 0 i "?n - i"] by simp
    have early: "pmp_priv_from t mode [0..<i] a = pmp_priv_from s mode [0..<i] a"
      by (intro pmp_priv_from_cong other) auto
    have ex: "list_ex (pmp_match t a) [0..<i] = list_ex (pmp_match s a) [0..<i]"
      using other by (auto simp: list_ex_iff)
    have "pmp_priv_from s mode [i..<?n] a = MEM_PRIV_RWX" unfolding M
      by (rule pmp_priv_from_unlocked) (metis si later atLeastLessThan_iff le_neq_implies_less set_upt)
    moreover have "pmp_priv_from t mode [i..<?n] a = MEM_PRIV_RWX" unfolding M
      by (rule pmp_priv_from_unlocked)
        (metis ti later other atLeastLessThan_iff le_neq_implies_less set_upt)
    ultimately show ?thesis
      using early ex assms(2) by (simp add: pmp_priv_def split pmp_priv_from_append)
  qed
qed

lemma pmp_match_pmpaddr_update:
  assumes "cfg_mode (pmpcfg s (Suc i)) \<noteq> PMPM_TOR" and "j \<noteq> i"
  shows "pmp_match (s\<lparr>pmpaddr := (pmpaddr s)(i := v)\<rparr>) a j = pmp_match s a j"
  by (rule pmp_match_cong) (use assms in \<open>auto simp: nat_neq_iff intro: gr0I\<close>)

text \<open>The effect of one round of the \<^verbatim>\<open>pmpcfg\<close> loop on the registers.\<close>

lemma writePMPCFGEntry_frame [simp]:
  "pmpaddr (writePMPCFGEntry old i s) = pmpaddr s"
  "configInfo (writePMPCFGEntry old i s) = configInfo s"
  "pmpDomains (writePMPCFGEntry old i s) = pmpDomains s"
  "artifactAccess (writePMPCFGEntry old i s) = artifactAccess s"
  "currentArch (writePMPCFGEntry old i s) = currentArch s"
  "extBits (writePMPCFGEntry old i s) = extBits s"
  by (simp_all add: writePMPCFGEntry_def Let_def)

lemma writePMPCFGEntry_other: "j \<noteq> i \<Longrightarrow> pmpcfg (writePMPCFGEntry old i s) j = pmpcfg s j"
  by (simp add: writePMPCFGEntry_def Let_def)

lemma writePMPCFGEntry_locked:
  "cfg_L (old i) \<Longrightarrow> \<not> artifactAccess s \<Longrightarrow> pmpcfg (writePMPCFGEntry old i s) i = old i"
  by (simp add: writePMPCFGEntry_def Let_def pmpLocked_def)

definition pmpcfg_done :: "(nat \<Rightarrow> uns8) \<Rightarrow> nat \<Rightarrow> riscv \<Rightarrow> nat \<Rightarrow> uns8" where
  "pmpcfg_done old i s = (\<lambda>j. if j < i then pmpcfg s j else old j)"

lemma writePMPCFGEntry_cases:
  obtains (kept) "pmpcfg (writePMPCFGEntry old i s) i = old i" "calls (writePMPCFGEntry old i s) = calls s"
  | (written) c u where "u = invalidatePMPEntry i (s\<lparr>pmpcfg := (pmpcfg s)(i := old i)\<rparr>)"
      "writePMPCFGEntry old i s = invalidatePMPEntry i (u\<lparr>pmpcfg := (pmpcfg s)(i := c)\<rparr>)"
proof -
  define c where "c = (let n = pmpcfg s i in if PMP_grain (configInfo s) \<noteq> 0 \<and> cfg_mode n = PMPM_NA4
    then setf 3 2 (getf 3 2 (old i)) n else n)"
  show ?thesis
  proof (cases "old i = c \<or> pmpLocked (s\<lparr>pmpcfg := (pmpcfg s)(i := old i)\<rparr>) i")
    case True
    then have "pmpcfg (writePMPCFGEntry old i s) i = old i \<and> calls (writePMPCFGEntry old i s) = calls s"
      by (auto simp: writePMPCFGEntry_def Let_def c_def)
    then show ?thesis using kept by blast
  next
    case False
    show ?thesis
      by (rule written [OF refl, of c]) (use False in \<open>simp add: writePMPCFGEntry_def Let_def c_def\<close>)
  qed
qed

definition pmp_reset_priv :: "riscvMode \<Rightarrow> memPriv \<Rightarrow> bool" where
  "pmp_reset_priv mode p \<longleftrightarrow> p = MEM_PRIV_NONE \<or> p = pmp_default mode"

lemma cfg_mode_0 [simp]: "cfg_mode 0 = PMPM_OFF"
  by (simp add: cfg_mode_def getf_def)

lemma pmp_match_cfg_nonzero: "pmp_match s a j \<Longrightarrow> pmpcfg s j \<noteq> 0"
  by (auto simp: pmp_match_def getPMPRegionActive_def)

lemma resetPMPEntry_frame [simp]:
  "configInfo (resetPMPEntry i s) = configInfo s" "pmpDomains (resetPMPEntry i s) = pmpDomains s"
  "pmpcfg (resetPMPEntry i s) = (pmpcfg s)(i := 0)" "pmpaddr (resetPMPEntry i s) = (pmpaddr s)(i := 0)"
  by (auto simp: resetPMPEntry_def Let_def fun_upd_idem)

text \<open>Clearing an entry widens the next one when that is a TOR entry, and leaves the rest.\<close>

lemma pmp_match_resetPMPEntry:
  assumes "pmp_match s a j" and "j \<noteq> i"
  shows "pmp_match (resetPMPEntry i s) a j"
proof -
  have eff: "getEffectivePMPAddr (resetPMPEntry i s) j = getEffectivePMPAddr s j"
    using assms by (simp add: getEffectivePMPAddr_def)
  show ?thesis
  proof (cases "cfg_mode (pmpcfg s j)")
    case PMPM_TOR
    with assms eff show ?thesis
      by (auto simp: pmp_match_def getPMPRegionActive_def getPMPEntryBounds_def Let_def)
  qed (use assms eff in \<open>simp_all add: pmp_match_def getPMPRegionActive_def getPMPEntryBounds_def Let_def\<close>)
qed

context protect_memory
begin

lemma writePMPAddr_coherent:
  assumes "pmp_domains_ok s" and "PMP_registers (configInfo s) \<le> NUM_PMPS"
    and "mode = RISCV_MODE_SUPERVISOR \<or> mode = RISCV_MODE_MACHINE"
    and "cfg_mode (pmpcfg s (Suc index)) \<noteq> PMPM_TOR"
    and coh: "pmp_coherent perm s mode"
  shows "pmp_coherent perm (fst (riscvVMWritePMPAddr index v s)) mode"
proof -
  define t where "t w = (invalidatePMPEntry index s)\<lparr>pmpaddr := (pmpaddr s)(index := w)\<rparr>" for w
  have ok: "pmp_domains_ok (t w)" for w using assms(1) by (simp add: pmp_domains_ok_def t_def)
  have inv: "pmp_coherent perm (invalidatePMPEntry index (t w)) mode" for w
    unfolding pmp_coherent_def
  proof
    fix a
    define t' where "t' = s\<lparr>pmpaddr := (pmpaddr s)(index := w)\<rparr>"
    have st: "same_pmp (invalidatePMPEntry index (t w)) t'" "same_pmp (t w) t'"
      by (simp_all add: same_pmp_def t_def t'_def)
    have strips: "pmp_strips (t w) mode index = pmp_strips t' mode index"
      by (simp add: pmp_strips_def t_def t'_def lowerPriorityPMPEntryLocked_def)
    have cached: "pmp_cached perm (t w) mode a = pmp_cached perm (invalidatePMPEntry index s) mode a"
      by (simp add: pmp_cached_def t_def)
    have "pmp_priv t' mode a = pmp_priv s mode a"
      if "\<not> (pmp_match s a index \<and> pmp_strips s mode index)"
        "\<not> (pmp_match t' a index \<and> pmp_strips t' mode index)"
      by (rule pmp_priv_change [OF assms(2) _ _ assms(3) that])
        (simp_all add: t'_def pmp_match_pmpaddr_update [OF assms(4)])
    then show "pmp_cached perm (invalidatePMPEntry index (t w)) mode a = MEM_PRIV_NONE \<or>
      pmp_cached perm (invalidatePMPEntry index (t w)) mode a
        = pmp_priv (invalidatePMPEntry index (t w)) mode a"
      using coh unfolding same_pmp_priv(5) [OF st(1)] invalidatePMPEntry_cached [OF ok assms(3)]
        cached strips same_pmp_priv(3) [OF st(2)] invalidatePMPEntry_cached [OF assms(1,3)]
      by (auto simp: pmp_coherent_def)
  qed
  show ?thesis
    using coh inv by (simp add: riscvVMWritePMPAddr_def Let_def t_def)
qed

text \<open>The \<^verbatim>\<open>pmpcfg\<close> loop runs on a bank that already holds the new bytes of the entries it has
  not reached. The permissions follow the bank \<open>pmpcfg_done\<close>, in which those are still old.\<close>

lemma writePMPCFGEntry_coherent:
  assumes dom: "pmp_domains_ok s" and regs: "PMP_registers (configInfo s) \<le> NUM_PMPS"
    and coh: "pmp_coherent perm (s\<lparr>pmpcfg := pmpcfg_done old i s\<rparr>) RISCV_MODE_SUPERVISOR"
  defines "s' \<equiv> writePMPCFGEntry old i s"
  shows "pmp_coherent perm (s'\<lparr>pmpcfg := pmpcfg_done old (Suc i) s'\<rparr>) RISCV_MODE_SUPERVISOR"
  unfolding pmp_coherent_def
proof
  fix a
  let ?S = RISCV_MODE_SUPERVISOR
  let ?t = "s\<lparr>pmpcfg := pmpcfg_done old i s\<rparr>" and ?t' = "s'\<lparr>pmpcfg := pmpcfg_done old (Suc i) s'\<rparr>"
  have frame: "pmpaddr s' = pmpaddr s" "configInfo s' = configInfo s" "pmpDomains s' = pmpDomains s"
    by (simp_all add: s'_def)
  have other: "pmpcfg_done old (Suc i) s' j = pmpcfg_done old i s j" if "j \<noteq> i" for j
    using that by (auto simp: pmpcfg_done_def s'_def writePMPCFGEntry_other)
  show "pmp_cached perm ?t' ?S a = MEM_PRIV_NONE \<or> pmp_cached perm ?t' ?S a = pmp_priv ?t' ?S a"
  proof (cases rule: writePMPCFGEntry_cases [of old i s])
    case kept
    then have "pmpcfg_done old (Suc i) s' j = pmpcfg_done old i s j" for j
      using other [of j] by (cases "j = i") (auto simp: pmpcfg_done_def s'_def)
    then have "same_pmp ?t' ?t" by (simp add: same_pmp_def frame ext)
    moreover have "pmp_cached perm ?t' ?S a = pmp_cached perm ?t ?S a"
      using kept by (simp add: pmp_cached_def frame) (simp add: s'_def)
    ultimately show ?thesis using coh same_pmp_priv(5) by (simp add: pmp_coherent_def)
  next
    case (written c u)
    let ?w = "s\<lparr>pmpcfg := (pmpcfg s)(i := old i)\<rparr>" and ?w' = "u\<lparr>pmpcfg := (pmpcfg s)(i := c)\<rparr>"
    note s' = written(2) [folded s'_def]
    have m: "pmp_match ?w a i = pmp_match ?t a i"
      by (rule pmp_match_cong) (simp_all add: pmpcfg_done_def)
    have m': "pmp_match ?w' a i = pmp_match ?t' a i"
      by (rule pmp_match_cong) (simp_all add: pmpcfg_done_def s' written(1))
    have ok: "pmp_domains_ok ?w" "pmp_domains_ok ?w'"
      using dom by (simp_all add: pmp_domains_ok_def written(1))
    have "pmp_cached perm u ?S a = (if pmp_match ?t a i then MEM_PRIV_NONE else pmp_cached perm s ?S a)"
      unfolding written(1) using invalidatePMPEntry_cached [OF ok(1), of ?S i a]
      by (simp add: pmp_strips_def m) (simp add: pmp_cached_def)
    moreover have "pmp_cached perm s' ?S a =
        (if pmp_match ?t' a i then MEM_PRIV_NONE else pmp_cached perm u ?S a)"
      using invalidatePMPEntry_cached [OF ok(2), of ?S i a, folded s']
      by (simp add: pmp_strips_def m') (simp add: pmp_cached_def)
    moreover have "pmp_priv ?t' ?S a = pmp_priv ?t ?S a" if "\<not> pmp_match ?t a i" "\<not> pmp_match ?t' a i"
      by (rule pmp_priv_change [of _ _ i]) (use that regs other in
          \<open>simp_all add: frame pmp_strips_def pmp_match_cong [of ?t' ?t]\<close>)
    ultimately show ?thesis using coh by (auto simp: pmp_coherent_def pmp_cached_def)
  qed
qed

lemma writePMPCFG_loop_coherent:
  assumes "pmp_domains_ok s" and "PMP_registers (configInfo s) \<le> NUM_PMPS"
    and "pmp_coherent perm (s\<lparr>pmpcfg := old\<rparr>) RISCV_MODE_SUPERVISOR"
  defines "s' n \<equiv> fold (writePMPCFGEntry old) [0..<n] s"
  shows "pmp_coherent perm ((s' n)\<lparr>pmpcfg := pmpcfg_done old n (s' n)\<rparr>) RISCV_MODE_SUPERVISOR"
    and "configInfo (s' n) = configInfo s \<and> pmpDomains (s' n) = pmpDomains s"
proof (induction n)
  case 0
  case 1
  then show ?case using assms(3) by (simp add: s'_def pmpcfg_done_def)
  case 2
  then show ?case by (simp add: s'_def)
next
  case (Suc n)
  have step: "s' (Suc n) = writePMPCFGEntry old n (s' n)" by (simp add: s'_def)
  case 1
  have "pmp_domains_ok (s' n)" using Suc(2) assms(1) by (simp add: pmp_domains_ok_def)
  then show ?case unfolding step using Suc assms(2) by (intro writePMPCFGEntry_coherent) auto
  case 2
  then show ?case unfolding step using Suc by simp
qed

lemma writePMPCFG_coherent:
  assumes "pmp_domains_ok s" and "PMP_registers (configInfo s) \<le> NUM_PMPS"
    and "pmp_coherent perm s RISCV_MODE_SUPERVISOR"
  shows "pmp_coherent perm (fst (riscvVMWritePMPCFG index v s)) RISCV_MODE_SUPERVISOR"
proof -
  have "pmp_coherent perm (fold (writePMPCFGEntry (pmpcfg s)) [0..<NUM_PMPS] (s\<lparr>pmpcfg := new\<rparr>))
      RISCV_MODE_SUPERVISOR" for new
  proof -
    let ?s1 = "s\<lparr>pmpcfg := new\<rparr>"
    let ?s' = "fold (writePMPCFGEntry (pmpcfg s)) [0..<NUM_PMPS] ?s1"
    let ?t = "?s'\<lparr>pmpcfg := pmpcfg_done (pmpcfg s) NUM_PMPS ?s'\<rparr>"
    have "pmp_domains_ok ?s1" using assms(1) by (simp add: pmp_domains_ok_def)
    then have loop: "pmp_coherent perm ?t RISCV_MODE_SUPERVISOR" "configInfo ?s' = configInfo s"
      using writePMPCFG_loop_coherent [of ?s1 "pmpcfg s" NUM_PMPS] assms(2,3) by simp_all
    have "pmp_priv ?t m a = pmp_priv ?s' m a" for m a
      unfolding pmp_priv_def using assms(2) loop(2)
      by (simp, intro pmp_priv_from_cong conjI pmp_match_cong) (auto simp: pmpcfg_done_def)
    with loop(1) show ?thesis by (simp add: pmp_coherent_def pmp_cached_def)
  qed
  with assms(3) show ?thesis by (simp add: riscvVMWritePMPCFG_def Let_def)
qed

text \<open>Reset: an address whose permission the reset state does not justify is still in the range
  of an entry that the loop has yet to strip.\<close>

lemma resetPMPEntry_pending:
  assumes "pmp_domains_ok s" and mode: "mode = RISCV_MODE_SUPERVISOR \<or> mode = RISCV_MODE_MACHINE"
    and pending: "\<And>a. \<not> pmp_reset_priv mode (pmp_cached perm s mode a) \<Longrightarrow>
      \<exists>j. i \<le> j \<and> j < n \<and> pmp_match s a j \<and> (mode = RISCV_MODE_MACHINE \<longrightarrow> cfg_L (pmpcfg s j))"
    and bad: "\<not> pmp_reset_priv mode (pmp_cached perm (resetPMPEntry i s) mode a)"
  shows "\<exists>j. Suc i \<le> j \<and> j < n \<and> pmp_match (resetPMPEntry i s) a j
    \<and> (mode = RISCV_MODE_MACHINE \<longrightarrow> cfg_L (pmpcfg (resetPMPEntry i s) j))"
proof -
  let ?s' = "resetPMPEntry i s"
  have cached: "pmp_cached perm ?s' mode a = (if (pmpaddr s i \<noteq> 0 \<or> pmpcfg s i \<noteq> 0)
      \<and> pmp_match s a i \<and> pmp_strips s mode i then MEM_PRIV_NONE else pmp_cached perm s mode a)"
    using invalidatePMPEntry_cached [OF assms(1,2), of i a]
    by (auto simp: resetPMPEntry_def Let_def pmp_cached_def)
  with bad have "\<not> pmp_reset_priv mode (pmp_cached perm s mode a)"
    by (auto simp: pmp_reset_priv_def split: if_splits)
  then obtain j where j: "i \<le> j" "j < n" "pmp_match s a j" "mode = RISCV_MODE_MACHINE \<longrightarrow> cfg_L (pmpcfg s j)"
    using pending by blast
  have "j \<noteq> i"
  proof
    assume "j = i"
    then have "pmp_strips s mode i" using j mode by (auto simp: pmp_strips_def)
    moreover have "pmpcfg s i \<noteq> 0" using pmp_match_cfg_nonzero j \<open>j = i\<close> by blast
    ultimately show False using bad cached j \<open>j = i\<close> by (simp add: pmp_reset_priv_def)
  qed
  then show ?thesis using j pmp_match_resetPMPEntry [OF j(3)] by (intro exI [of _ j]) simp
qed

lemma resetPMP_coherent:
  assumes dom: "pmp_domains_ok s" and mode: "mode = RISCV_MODE_SUPERVISOR \<or> mode = RISCV_MODE_MACHINE"
    and coh: "pmp_coherent perm s mode"
  shows "pmp_reset_priv mode (pmp_cached perm (riscvVMResetPMP s) mode a)"
proof -
  let ?n = "PMP_registers (configInfo s)"
  let ?pending = "\<lambda>t i a. \<exists>j. i \<le> j \<and> j < ?n \<and> pmp_match t a j
    \<and> (mode = RISCV_MODE_MACHINE \<longrightarrow> cfg_L (pmpcfg t j))"
  let ?t = "\<lambda>m. fold resetPMPEntry [0..<m] s"
  have "(\<forall>a. \<not> pmp_reset_priv mode (pmp_cached perm (?t m) mode a) \<longrightarrow> ?pending (?t m) m a)
      \<and> pmpDomains (?t m) = pmpDomains s" if "m \<le> ?n" for m
    using that
  proof (induction m)
    case 0
    have "?pending s 0 a" if "\<not> pmp_reset_priv mode (pmp_cached perm s mode a)" for a
    proof -
      have "pmp_priv s mode a \<noteq> pmp_default mode"
        using that coh by (auto simp: pmp_coherent_def pmp_reset_priv_def)
      then obtain j where "find (pmp_match s a) [0..<?n] = Some j" "pmp_entry_priv s mode j \<noteq> pmp_default mode"
        by (auto simp: pmp_priv_def pmp_priv_from_def split: option.splits)
      then show ?thesis
        by (auto simp: find_Some_iff pmp_entry_priv_def pmp_default_def split: if_splits)
    qed
    then show ?case by simp
  next
    case (Suc m)
    then have "pmp_domains_ok (?t m)" using dom by (simp add: pmp_domains_ok_def)
    from resetPMPEntry_pending [OF this mode, of m ?n] Suc show ?case by auto
  qed
  from this [of ?n] show ?thesis by (auto simp: riscvVMResetPMP_def)
qed

end

section \<open>Naturally aligned power-of-two entries\<close>

lemma napot_not_low:
  fixes e :: uns64
  assumes "k \<le> 60" and "\<And>j. j < k \<Longrightarrow> bit e j" and "\<not> bit e k"
  defines "n \<equiv> NOT (push_bit 2 e + 3)"
  shows "n AND - n = push_bit (k + 2) 1"
proof (rule and_minus_lowest)
  have "(3 :: uns64) = mask 2" by (simp add: mask_eq_exp_minus_1)
  moreover have "push_bit 2 e AND mask 2 = 0" by (rule bit_word_eqI) (simp add: bit_simps)
  ultimately have "push_bit 2 e + 3 = push_bit 2 e OR mask 2" by (simp add: disjunctive_add_eq_or)
  then have bit: "bit n j \<longleftrightarrow> j < 64 \<and> 2 \<le> j \<and> \<not> bit e (j - 2)" for j
    by (auto simp: n_def bit_simps)
  show "k + 2 < LENGTH(64)" "bit n (k + 2)" using assms(1,3) by (simp_all add: bit)
  show "\<not> bit n j" if "j < k + 2" for j using that assms(2) [of "j - 2"] by (auto simp: bit)
qed

lemma napot_bounds:
  assumes napot: "cfg_mode (pmpcfg s i) = PMPM_NAPOT" and k: "k \<le> 60"
    and e: "e = getEffectivePMPAddr s i" "\<And>j. j < k \<Longrightarrow> bit e j" "\<not> bit e k"
  shows "getPMPEntryBounds s i =
    (push_bit (k + 3) (drop_bit (k + 1) e), push_bit (k + 3) (drop_bit (k + 1) e) OR mask (k + 3))"
proof -
  define msk where "msk = push_bit 1 (NOT (push_bit 2 e + 3) AND - NOT (push_bit 2 e + 3)) - 1"
  have bounds: "getPMPEntryBounds s i = (push_bit 2 e AND NOT msk, (push_bit 2 e AND NOT msk) OR msk)"
    unfolding getPMPEntryBounds_def msk_def e(1) using napot by (simp only: Let_def) simp
  have msk: "msk = mask (k + 3)"
  proof -
    have "msk = push_bit 1 (push_bit (k + 2) 1) - 1"
      unfolding msk_def by (subst napot_not_low [OF k e(2,3)]) simp_all
    then show ?thesis by (simp add: mask_eq_exp_minus_1 push_bit_eq_mult power_add)
  qed
  have "push_bit 2 e AND NOT (mask (k + 3)) = push_bit (k + 3) (drop_bit (k + 1) e)"
  proof (rule bit_word_eqI)
    fix n
    have "k + 3 \<le> n \<Longrightarrow> Suc (n - 3) = n - 2" by simp
    then show "bit (push_bit 2 e AND NOT (mask (k + 3))) n = bit (push_bit (k + 3) (drop_bit (k + 1) e)) n"
      by (auto simp: bit_simps)
  qed
  then show ?thesis unfolding bounds msk by simp
qed

section \<open>Locked entries\<close>

text \<open>The steps that touch the PMP unit between two resets.\<close>

inductive pmp_step :: "riscv \<Rightarrow> riscv \<Rightarrow> bool" where
  write_cfg: "pmp_step s (fst (riscvVMWritePMPCFG index v s))"
| write_addr: "pmp_step s (fst (riscvVMWritePMPAddr index v s))"
| map_region: "pmp_step s (mapPMP mode requiredPriv lowPA highPA s)"

definition pmp_entry_kept :: "nat \<Rightarrow> riscv \<Rightarrow> riscv \<Rightarrow> bool" where
  "pmp_entry_kept i s t \<longleftrightarrow> pmpcfg t i = pmpcfg s i \<and> pmpaddr t i = pmpaddr s i
     \<and> (cfg_mode (pmpcfg s i) = PMPM_TOR \<and> i \<noteq> 0 \<longrightarrow> pmpaddr t (i - 1) = pmpaddr s (i - 1))
     \<and> artifactAccess t = artifactAccess s \<and> configInfo t = configInfo s"

lemma writePMPCFG_loop_locked:
  assumes "cfg_L (old i)" and "\<not> artifactAccess s" and "i \<notin> set js \<longrightarrow> pmpcfg s i = old i"
  shows "pmpcfg (fold (writePMPCFGEntry old) js s) i = old i"
  using assms
proof (induction js arbitrary: s)
  case (Cons j js)
  then show ?case
    by (cases "j = i") (auto simp: writePMPCFGEntry_locked writePMPCFGEntry_other)
qed simp

lemma writePMPCFG_loop_frame [simp]:
  "pmpaddr (fold (writePMPCFGEntry old) js s) = pmpaddr s"
  "configInfo (fold (writePMPCFGEntry old) js s) = configInfo s"
  "artifactAccess (fold (writePMPCFGEntry old) js s) = artifactAccess s"
  by (induction js arbitrary: s) simp_all

lemma mapPMP_loop_kept: "pmp_entry_kept i s (mapPMP_loop mode req lowPA lastPA s)"
proof -
  have one: "pmp_entry_kept i s t"
    if "mapPMPInt mode req lowPA hi s = (t, lo', hi')" for s t lo' hi' lowPA hi
    using that by (auto simp: mapPMPInt_def pmp_entry_kept_def Let_def split: prod.splits if_splits)
  show ?thesis
    by (rule mapPMP_loop_rule [where P = "\<lambda>_ s t. pmp_entry_kept i s t"])
      (use one in \<open>(force simp: pmp_entry_kept_def)+\<close>)
qed

lemma pmp_step_kept:
  assumes "pmp_step s t" and "\<not> artifactAccess s" and "cfg_L (pmpcfg s i)" and "i < NUM_PMPS"
  shows "pmp_entry_kept i s t"
  using assms(1)
proof cases
  case (write_cfg index v)
  with assms show ?thesis
    by (auto simp: riscvVMWritePMPCFG_def pmp_entry_kept_def Let_def writePMPCFG_loop_locked)
next
  case (write_addr index v)
  have "t = s" if "index = i \<or> Suc index = i \<and> cfg_mode (pmpcfg s i) = PMPM_TOR"
    using that assms write_addr
    by (auto simp: riscvVMWritePMPAddr_def Let_def pmpLocked_def pmpLockedTOR_def)
  moreover have "pmp_entry_kept i s t" if "index \<noteq> i" "Suc index \<noteq> i \<or> cfg_mode (pmpcfg s i) \<noteq> PMPM_TOR"
    using that by (auto simp: write_addr riscvVMWritePMPAddr_def Let_def pmp_entry_kept_def)
  ultimately show ?thesis by (auto simp: pmp_entry_kept_def)
next
  case map_region
  then show ?thesis using mapPMP_loop_kept by (auto simp: mapPMP_def pmp_entry_kept_def)
qed

lemma pmp_steps_kept:
  assumes "pmp_step\<^sup>*\<^sup>* s t" and "\<not> artifactAccess s" and "cfg_L (pmpcfg s i)" and "i < NUM_PMPS"
  shows "pmp_entry_kept i s t"
  using assms(1)
proof (induction rule: rtranclp_induct)
  case base
  show ?case by (simp add: pmp_entry_kept_def)
next
  case (step t u)
  with assms(2-4) have "pmp_entry_kept i t u"
    by (intro pmp_step_kept) (simp_all add: pmp_entry_kept_def)
  with step.IH show ?case by (simp add: pmp_entry_kept_def)
qed

section \<open>Properties\<close>

text \<open>A 64-bit core with two PMP entries: entry 0 a locked execute-only NAPOT region of 32 bytes at
  \<^verbatim>\<open>0x80000000\<close>, entry 1 a read/write TOR region up to \<^verbatim>\<open>0x90000000\<close>.\<close>

definition pmp_example :: riscv where
  "pmp_example = (riscv_zero (riscvConfig_zero\<lparr>PMP_registers := 2\<rparr>))\<lparr>currentArch := ISA_XLEN_64,
     extBits := 56, pmpcfg := (\<lambda>_. 0)(0 := 0x9C, 1 := 0x0B),
     pmpaddr := (\<lambda>_. 0)(0 := 0x20000003, 1 := 0x24000000),
     pmpDomains := (\<lambda>m _. if m = RISCV_MODE_MACHINE then 2 else 1)\<rparr>"

lemma pmp_example_ok:
  "pmp_domains_ok pmp_example" "config_ok pmp_example" "PMP_registers (configInfo pmp_example) = 2"
  "\<not> artifactAccess pmp_example" "cfg_L (pmpcfg pmp_example 0)" "calls pmp_example = []"
  "cfg_mode (pmpcfg pmp_example 2) = PMPM_OFF" "extBits pmp_example = 56"
  "pmpcfg pmp_example 0 = 0x9C" "pmpaddr pmp_example 0 = 0x20000003"
  "PMP_grain (configInfo pmp_example) = 0"
  by (simp_all add: pmp_domains_ok_def config_ok_def pmp_example_def all_modes_def zero_defs
      cfg_L_def bit_iff_odd)

lemma pmp_example_coherent: "pmp_coherent perm_of_calls pmp_example mode"
  by (simp add: pmp_coherent_def pmp_cached_def pmp_example_ok perm_of_calls_def)

text \<open>C1. Mapping a physical range on demand (\<^verbatim>\<open>mapPMP\<close>) leaves every implemented address of the
  range with exactly the privilege that the PMP priority rule gives it in the mode: the
  lowest-numbered active entry whose bounds contain the address decides, with Machine mode
  subject to locked entries only, and without a match Machine mode has all privileges and the
  other modes none.\<close>

theorem mapPMP_exact:
  assumes "protect_memory perm" and "pmp_domains_ok s" and "config_ok s"
    and "PMP_registers (configInfo s) \<noteq> 0"
    and "lowPA \<le> a" and "a \<le> highPA" and "a \<le> getAddressMask (extBits s)"
  shows "pmp_cached perm (mapPMP mode requiredPriv lowPA highPA s) mode a = pmp_priv s mode a"
  using protect_memory.mapPMP_loop_exact [OF assms(1-3)] assms by (simp add: mapPMP_def)

theorem mapPMP_exact_witness:
  "pmp_cached perm_of_calls
     (mapPMP RISCV_MODE_USER MEM_PRIV_R 0x7FFFFFFC 0x80000003 pmp_example) RISCV_MODE_USER 0x80000000
   = MEM_PRIV_X"
proof -
  have "pmp_priv pmp_example RISCV_MODE_USER 0x80000000 = MEM_PRIV_X" by code_simp
  then show ?thesis
    using mapPMP_exact [where lowPA = "0x7FFFFFFC" and highPA = "0x80000003" and a = "0x80000000",
        OF call_log.protect_memory_axioms pmp_example_ok(1,2)]
    by (simp add: pmp_example_ok getAddressMask_def)
qed

text \<open>Mapping never makes the kernel's permissions disagree with the registers: whatever mode
  and range is mapped, a cache in which every permission is either absent or the one the
  priority rule gives stays so, for every mode.\<close>

lemma mapPMP_coherent:
  assumes "protect_memory perm" and "pmp_domains_ok s" and "config_ok s" and "pmp_coherent perm s m"
  shows "pmp_coherent perm (mapPMP mode requiredPriv lowPA highPA s) m"
  using protect_memory.mapPMP_loop_coherent [OF assms] assms(4) by (simp add: mapPMP_def)



text \<open>Writing a \<^verbatim>\<open>pmpaddr\<close> register keeps the cached permissions of Supervisor and of Machine
  mode coherent, provided that the next entry is not a TOR entry (whose lower bound the register
  also is).\<close>

lemma riscvVMWritePMPAddr_coherent:
  assumes "protect_memory perm" and "pmp_domains_ok s" and "config_ok s"
    and "mode = RISCV_MODE_SUPERVISOR \<or> mode = RISCV_MODE_MACHINE"
    and "cfg_mode (pmpcfg s (Suc index)) \<noteq> PMPM_TOR" and "pmp_coherent perm s mode"
  shows "pmp_coherent perm (fst (riscvVMWritePMPAddr index newValue s)) mode"
  using protect_memory.writePMPAddr_coherent [OF assms(1,2) _ assms(4-6)] assms(3)
  by (simp add: config_ok_def)

text \<open>Resetting the PMP unit leaves no permission that an entry gave: afterwards Supervisor
  and User mode have no cached permission at all and Machine mode none or all, although the loop
  moves the lower bound of TOR entries while it runs.\<close>

lemma riscvVMResetPMP_strips:
  assumes "protect_memory perm" and "pmp_domains_ok s"
    and "mode = RISCV_MODE_SUPERVISOR \<or> mode = RISCV_MODE_MACHINE" and "pmp_coherent perm s mode"
  shows "pmp_reset_priv mode (pmp_cached perm (riscvVMResetPMP s) mode a)"
  by (rule protect_memory.resetPMP_coherent [OF assms])

text \<open>C31. A locked entry stays as it is until reset: no sequence of \<^verbatim>\<open>pmpcfg\<close> writes, \<^verbatim>\<open>pmpaddr\<close>
  writes and region mappings changes its configuration, its address register or the set of
  addresses it matches, which for a TOR entry depends on the address register of the entry below.\<close>

theorem pmp_lock_sticky:
  assumes "pmp_step\<^sup>*\<^sup>* s t" and "\<not> artifactAccess s" and "cfg_L (pmpcfg s i)" and "i < NUM_PMPS"
  shows "pmpcfg t i = pmpcfg s i \<and> pmpaddr t i = pmpaddr s i \<and> (\<forall>a. pmp_match t a i = pmp_match s a i)"
proof -
  have "pmp_entry_kept i s t" by (rule pmp_steps_kept [OF assms])
  then show ?thesis by (intro conjI allI pmp_match_cong) (simp_all add: pmp_entry_kept_def)
qed

theorem pmp_lock_sticky_witness:
  "pmpcfg (fst (riscvVMWritePMPAddr 0 0 (fst (riscvVMWritePMPCFG 0 0 pmp_example)))) 0 = 0x9C"
proof -
  let ?t = "fst (riscvVMWritePMPAddr 0 0 (fst (riscvVMWritePMPCFG 0 0 pmp_example)))"
  have "pmp_step\<^sup>*\<^sup>* pmp_example ?t"
    by (meson pmp_step.write_cfg pmp_step.write_addr r_into_rtranclp rtranclp.rtrancl_into_rtrancl)
  from pmp_lock_sticky [OF this pmp_example_ok(4,5)] show ?thesis by (simp add: pmp_example_ok)
qed

text \<open>C36. A NAPOT entry whose effective address ends in exactly \<open>k\<close> one bits covers the naturally
  aligned block of \<open>2 ^ (k + 3)\<close> bytes that the remaining address bits name.\<close>

theorem getPMPEntryBounds_napot:
  assumes "cfg_mode (pmpcfg s i) = PMPM_NAPOT" and "k \<le> 60"
    and "\<forall>j<k. bit (getEffectivePMPAddr s i) j" and "\<not> bit (getEffectivePMPAddr s i) k"
  shows "getPMPEntryBounds s i =
    (let base = push_bit (k + 3) (drop_bit (k + 1) (getEffectivePMPAddr s i))
     in (base, base OR mask (k + 3)))"
  using napot_bounds [OF assms(1,2) refl _ assms(4)] assms(3) by (simp add: Let_def)

theorem getPMPEntryBounds_napot_witness:
  "getPMPEntryBounds pmp_example 0 = (0x80000000, 0x8000001F)"
proof -
  have "\<forall>j<2. bit (0x20000003 :: uns64) j" by (auto simp: less_2_cases_iff bit_iff_odd)
  then show ?thesis
    using getPMPEntryBounds_napot [of pmp_example 0 2]
    by (simp add: pmp_example_ok getEffectivePMPAddr_def cfg_mode_def getf_def bit_iff_odd
        mask_eq_exp_minus_1)
qed

section \<open>Where the cache goes stale\<close>

text \<open>Entry 1 is a TOR region from \<^verbatim>\<open>pmpaddr0\<close>, mapped for Supervisor mode.\<close>

definition pmp_tor_state :: riscv where
  "pmp_tor_state = mapPMP RISCV_MODE_SUPERVISOR MEM_PRIV_R 0x80000000 0x80000003
     (pmp_example\<lparr>pmpcfg := (\<lambda>_. 0)(1 := 0x0B),
       pmpaddr := (\<lambda>_. 0)(0 := 0x20000000, 1 := 0x24000000)\<rparr>)"


text \<open>Entry 0 is an unlocked NAPOT region over a part of a locked read-only entry 1.\<close>

definition pmp_unlock_state :: riscv where
  "pmp_unlock_state = mapPMP RISCV_MODE_MACHINE MEM_PRIV_R 0x80000000 0x80000003
     (pmp_example\<lparr>pmpcfg := (\<lambda>_. 0)(0 := 0x1F, 1 := 0x99),
       pmpaddr := (\<lambda>_. 0)(0 := 0x20000003, 1 := 0x2000FFFF)\<rparr>)"


end
