(* ===== verification/RiscvException.thy ===== *)
theory RiscvException
  imports RiscvUtils
begin

text \<open>
  \<^verbatim>\<open>riscvExceptions.c\<close> up to the instruction fetch: entry to a trap and return from it, the
  choice of the pending interrupt to take, halting in and waking from WFI, NMI, the interrupt
  input ports, and the table of implemented exceptions. The exceptions that page table walks
  and instruction fetches raise, and reset, are in the theories that follow.
\<close>

section \<open>Taking exceptions\<close>

definition getPC :: "vmirt \<Rightarrow> riscv \<Rightarrow> uns64" where
  "getPC V s = vmirtGetPC V (calls s)"

definition setPC :: "uns64 \<Rightarrow> riscv \<Rightarrow> riscv" where
  "setPC newPC s = do_call (VmirtSetPC newPC) s"

definition clearEA :: "riscv \<Rightarrow> riscv" where
  "clearEA s = s\<lparr>exclusiveTag := RISCV_NO_TAG\<rparr>"

definition getEPC :: "vmirt \<Rightarrow> riscv \<Rightarrow> uns64" where
  "getEPC V s =
     (let (eretPC, dsOffset) = vmirtGetPCDS V (calls s)
      in if dsOffset \<noteq> 0 then jumpBase s else eretPC)"

text \<open>The C shift \<^verbatim>\<open>1<<ecode\<close> is defined for codes below 32; the statements below about the
  target mode of an exception are about those.\<close>

definition getModeX :: "riscv \<Rightarrow> uns32 \<Rightarrow> uns32 \<Rightarrow> nat \<Rightarrow> riscvMode" where
  "getModeX s mMask sMask ecode =
     (let modeY = getCurrentMode s;
          modeX = (if \<not> has mMask (push_bit ecode 1) then RISCV_MODE_MACHINE
                   else if \<not> has sMask (push_bit ecode 1) then RISCV_MODE_SUPERVISOR
                   else RISCV_MODE_USER)
      in if modeX > modeY then modeX else modeY)"

definition getInterruptModeX :: "riscv \<Rightarrow> nat \<Rightarrow> riscvMode" where
  "getInterruptModeX s ecode = getModeX s (ucast (RD_CSR s mideleg)) (ucast (RD_CSR s sideleg)) ecode"

definition getExceptionModeX :: "riscv \<Rightarrow> nat \<Rightarrow> riscvMode" where
  "getExceptionModeX s ecode = getModeX s (ucast (RD_CSR s medeleg)) (ucast (RD_CSR s sedeleg)) ecode"

definition IS_INTERRUPT :: "riscvException \<Rightarrow> bool" where
  "IS_INTERRUPT exception \<longleftrightarrow> exception AND riscv_E_Interrupt \<noteq> 0"

definition GET_ECODE :: "riscvException \<Rightarrow> nat" where
  "GET_ECODE exception = unset_bit 6 exception"

definition getIMode :: "uns8 \<Rightarrow> uns8 \<Rightarrow> uns8" where
  "getIMode customMode tvecMode = (if tvecMode \<noteq> 0 then tvecMode else customMode)"

text \<open>The registers and fields that the macro \<^verbatim>\<open>TARGET_MODE_X\<close> composes from a mode letter.\<close>

record modeRegs =
  xIE :: csrField
  xPIE :: csrField
  xcause_update :: "(csr_32_64 \<Rightarrow> csr_32_64) \<Rightarrow> riscvCSRs \<Rightarrow> riscvCSRs"
  xepcM :: "riscvCSRMasks \<Rightarrow> uns64"
  xepc_update :: "(uns64 \<Rightarrow> uns64) \<Rightarrow> riscvCSRs \<Rightarrow> riscvCSRs"
  xtval_update :: "(uns64 \<Rightarrow> uns64) \<Rightarrow> riscvCSRs \<Rightarrow> riscvCSRs"
  xtvec :: "riscvCSRs \<Rightarrow> uns64"
  xIMode :: "riscv \<Rightarrow> uns8"

definition regs_U :: modeRegs where
  "regs_U = \<lparr>xIE = status_UIE, xPIE = status_UPIE, xcause_update = ucause_update, xepcM = uepcM,
     xepc_update = uepc_update, xtval_update = utval_update, xtvec = utvec, xIMode = UIMode\<rparr>"

definition regs_S :: modeRegs where
  "regs_S = \<lparr>xIE = status_SIE, xPIE = status_SPIE, xcause_update = scause_update, xepcM = sepcM,
     xepc_update = sepc_update, xtval_update = stval_update, xtvec = stvec, xIMode = SIMode\<rparr>"

definition regs_M :: modeRegs where
  "regs_M = \<lparr>xIE = status_MIE, xPIE = status_MPIE, xcause_update = mcause_update, xepcM = mepcM,
     xepc_update = mepc_update, xtval_update = mtval_update, xtvec = mtvec, xIMode = MIMode\<rparr>"

definition TARGET_MODE_X ::
  "modeRegs \<Rightarrow> bool \<Rightarrow> nat \<Rightarrow> uns64 \<Rightarrow> uns64 \<Rightarrow> riscv \<Rightarrow> riscv \<times> uns64 \<times> uns8" where
  "TARGET_MODE_X X isInt ecode EPC tval s =
     (let IE = RD_CSR_FIELD s mstatus (xIE X);
          s = WR_CSR_FIELD mstatus_update (xPIE X) IE s;
          s = WR_CSR_FIELD mstatus_update (xIE X) 0 s;
          s = WR_CSR2_FIELD (xcause_update X) cause_ExceptionCode (of_nat ecode) s;
          s = WR_CSR2_FIELD (xcause_update X) cause_Interrupt (of_bool isInt) s;
          epcMask = RD_CSR_MASK s (xepcM X);
          s = WR_CSR_FIELD (xepc_update X) generic_value (EPC AND epcMask) s;
          s = WR_CSR_FIELD (xtval_update X) generic_value tval s
      in (s, push_bit 2 (RD_CSR_FIELD s (xtvec X) tvec_BASE),
          getIMode (xIMode X s) (ucast (RD_CSR_FIELD s (xtvec X) tvec_MODE))))"

definition retiredCode :: "riscvException \<Rightarrow> bool" where
  "retiredCode exception \<longleftrightarrow> exception \<in> {riscv_E_Breakpoint, riscv_E_EnvironmentCallFromUMode,
     riscv_E_EnvironmentCallFromSMode, riscv_E_EnvironmentCallFromHMode,
     riscv_E_EnvironmentCallFromMMode}"

definition accessFaultCode :: "riscvException \<Rightarrow> bool" where
  "accessFaultCode exception \<longleftrightarrow> exception \<in> {riscv_E_InstructionAccessFault,
     riscv_E_LoadAccessFault, riscv_E_StoreAMOAccessFault}"

definition notifyTrapDerived :: "riscvMode \<Rightarrow> riscv \<Rightarrow> riscv" where
  "notifyTrapDerived mode s = (if cb_trapNotifier s then do_call (TrapNotifier mode) s else s)"

definition notifyERETDerived :: "riscvMode \<Rightarrow> riscv \<Rightarrow> riscv" where
  "notifyERETDerived mode s = (if cb_ERETNotifier s then do_call (ERETNotifier mode) s else s)"

definition riscvTakeException :: "vmirt \<Rightarrow> riscvException \<Rightarrow> uns64 \<Rightarrow> riscv \<Rightarrow> riscv" where
  "riscvTakeException V exception tval s =
     (let isInterrupt = IS_INTERRUPT exception;
          ecode = GET_ECODE exception;
          EPC = getEPC V s;
          modeY = getCurrentMode s;
          s = (if \<not> retiredCode exception
               then s\<lparr>baseInstructions := baseInstructions s + 1\<rparr> else s);
          s = s\<lparr>AFErrorOut := if accessFaultCode exception then AFErrorIn s else riscv_AFault_None\<rparr>;
          s = clearEA s;
          modeX = (if isInterrupt then getInterruptModeX s ecode else getExceptionModeX s ecode);
          (s, base, mode) =
            (if modeX = RISCV_MODE_USER then TARGET_MODE_X regs_U isInterrupt ecode EPC tval s
             else if modeX = RISCV_MODE_SUPERVISOR
             then let (s, base, mode) = TARGET_MODE_X regs_S isInterrupt ecode EPC tval s
                  in (WR_CSR_FIELD mstatus_update status_SPP (of_nat (mode_code modeY)) s, base, mode)
             else let (s, base, mode) = TARGET_MODE_X regs_M isInterrupt ecode EPC tval s
                  in (WR_CSR_FIELD mstatus_update status_MPP (of_nat (mode_code modeY)) s, base, mode));
          handlerPC = (if mode = 0 \<or> \<not> isInterrupt then base else base + of_nat (4 * ecode));
          s = riscvSetMode V modeX s;
          s = s\<lparr>riscv_exception := exception\<rparr>;
          s = do_call (VmirtSetPCException handlerPC) s
      in notifyTrapDerived modeX s)"

definition riscvIllegalInstruction :: "vmirt \<Rightarrow> riscv \<Rightarrow> riscv" where
  "riscvIllegalInstruction V s =
     (let tval = (if tval_ii_code (configInfo s) then ucast (riscvGetInstruction V s (getPC V s)) else 0)
      in riscvTakeException V riscv_E_IllegalInstruction tval s)"

definition riscvInstructionAddressMisaligned :: "vmirt \<Rightarrow> uns64 \<Rightarrow> riscv \<Rightarrow> riscv" where
  "riscvInstructionAddressMisaligned V tval s =
     riscvTakeException V riscv_E_InstructionAddressMisaligned (tval AND - 2) s"

definition riscvECALL :: "vmirt \<Rightarrow> riscv \<Rightarrow> riscv" where
  "riscvECALL V s =
     riscvTakeException V (riscv_E_EnvironmentCallFromUMode + mode_code (getCurrentMode s)) 0 s"

definition riscvEBREAK :: "vmirt \<Rightarrow> riscv \<Rightarrow> riscv" where
  "riscvEBREAK V s = riscvTakeException V riscv_E_Breakpoint (getPC V s) s"

section \<open>Pending interrupts\<close>

definition getIE :: "riscv \<Rightarrow> bool \<Rightarrow> riscvMode \<Rightarrow> bool" where
  "getIE s IE modeIE =
     (let mode = getCurrentMode s
      in if mode < modeIE then True else if mode > modeIE then False else IE)"

definition getPendingInterrupts :: "riscv \<Rightarrow> uns64" where
  "getPendingInterrupts s = RD_CSR s mie AND RD_CSR s mip"

definition getPendingAndEnabledInterrupts :: "riscv \<Rightarrow> uns64" where
  "getPendingAndEnabledInterrupts s =
     (let result = getPendingInterrupts s in
      if result \<noteq> 0
      then let MIE = getIE s (RD_CSR_FIELD s mstatus status_MIE \<noteq> 0) RISCV_MODE_MACHINE;
               SIE = getIE s (RD_CSR_FIELD s mstatus status_SIE \<noteq> 0) RISCV_MODE_SUPERVISOR;
               UIE = getIE s (RD_CSR_FIELD s mstatus status_UIE \<noteq> 0) RISCV_MODE_USER;
               midelegV = RD_CSR s mideleg;
               sidelegV = RD_CSR s sideleg AND midelegV;
               mMask = NOT midelegV;
               sMask = midelegV AND NOT sidelegV;
               uMask = sidelegV;
               result = (if \<not> MIE then result AND NOT mMask else result);
               result = (if \<not> SIE then result AND NOT sMask else result)
           in if \<not> UIE then result AND NOT uMask else result
      else result)"

text \<open>The loop \<^verbatim>\<open>while(intMask) {intMask >>= 1; ecode++;}\<close>.\<close>

function ecode_loop :: "uns64 \<Rightarrow> uns32 \<Rightarrow> uns32" where
  "ecode_loop intMask ecode =
     (if intMask = 0 then ecode else ecode_loop (drop_bit 1 intMask) (ecode + 1))"
  by pat_completeness auto
termination
proof (relation "measure (\<lambda>(m, e). unat m)")
  fix intMask :: uns64 and ecode :: uns32
  assume "intMask \<noteq> 0"
  then have "unat intMask div 2 < unat intMask" by (simp add: unat_gt_0)
  then show "((drop_bit 1 intMask, ecode + 1), intMask, ecode) \<in> measure (\<lambda>(m, e). unat m)"
    by (simp add: drop_bit_eq_div unat_div)
qed simp

declare ecode_loop.simps [simp del]

text \<open>\<open>None\<close> is the failed assertion.\<close>

definition doInterrupt :: "vmirt \<Rightarrow> uns64 \<Rightarrow> riscv \<Rightarrow> riscv option" where
  "doInterrupt V intMask s =
     (if intMask = 0 then None
      else Some (riscvTakeException V (riscv_E_Interrupt + unat (ecode_loop intMask (- 1))) 0 s))"

section \<open>Halt, restart and WFI\<close>

definition haltProcessor :: "uns32 \<Rightarrow> riscv \<Rightarrow> riscv" where
  "haltProcessor reason s =
     (let s = (if riscv_disable s = 0 then do_call VmirtHalt s else s)
      in s\<lparr>riscv_disable := riscv_disable s OR reason\<rparr>)"

definition restartProcessor :: "uns32 \<Rightarrow> riscv \<Rightarrow> riscv" where
  "restartProcessor reason s =
     (let s = s\<lparr>riscv_disable := riscv_disable s AND NOT reason\<rparr>
      in if riscv_disable s = 0 then do_call VmirtRestartNext s else s)"

definition riscvWFI :: "riscv \<Rightarrow> riscv" where
  "riscvWFI s = (if getPendingInterrupts s = 0 then haltProcessor RVD_WFI s else s)"

definition riscvTestInterrupt :: "riscv \<Rightarrow> riscv" where
  "riscvTestInterrupt s =
     (let pendingEnabled = getPendingAndEnabledInterrupts s;
          s = (if getPendingInterrupts s \<noteq> 0 then restartProcessor RVD_RESTART_WFI s else s)
      in if pendingEnabled \<noteq> 0 then do_call VmirtDoSynchronousInterrupt s else s)"

section \<open>Exception return\<close>

definition getERETMode :: "riscv \<Rightarrow> riscvMode \<Rightarrow> riscvMode \<Rightarrow> riscvMode" where
  "getERETMode s newMode minMode = (if riscvHasMode s newMode then newMode else minMode)"

definition riscvMRET :: "vmirt \<Rightarrow> riscv \<Rightarrow> riscv" where
  "riscvMRET V s =
     (let MPP = mode_of (unat (RD_CSR_FIELD s mstatus status_MPP));
          minMode = riscvGetMinMode s;
          newMode = getERETMode s MPP minMode;
          s = clearEA s;
          s = WR_CSR_FIELD mstatus_update status_MIE (RD_CSR_FIELD s mstatus status_MPIE) s;
          s = WR_CSR_FIELD mstatus_update status_MPIE 1 s;
          s = WR_CSR_FIELD mstatus_update status_MPP (of_nat (mode_code minMode)) s;
          s = riscvSetMode V newMode s;
          s = setPC (RD_CSR_FIELD s mepc generic_value) s;
          s = notifyERETDerived RISCV_MODE_MACHINE s
      in riscvTestInterrupt s)"

definition riscvSRET :: "vmirt \<Rightarrow> riscv \<Rightarrow> riscv" where
  "riscvSRET V s =
     (let SPP = mode_of (unat (RD_CSR_FIELD s mstatus status_SPP));
          minMode = riscvGetMinMode s;
          newMode = getERETMode s SPP minMode;
          s = clearEA s;
          s = WR_CSR_FIELD mstatus_update status_SIE (RD_CSR_FIELD s mstatus status_SPIE) s;
          s = WR_CSR_FIELD mstatus_update status_SPIE 1 s;
          s = WR_CSR_FIELD mstatus_update status_SPP (of_nat (mode_code minMode)) s;
          s = riscvSetMode V newMode s;
          s = setPC (RD_CSR_FIELD s sepc generic_value) s;
          s = notifyERETDerived RISCV_MODE_SUPERVISOR s
      in riscvTestInterrupt s)"

definition riscvURET :: "vmirt \<Rightarrow> riscv \<Rightarrow> riscv" where
  "riscvURET V s =
     (let s = clearEA s;
          s = WR_CSR_FIELD mstatus_update status_UIE (RD_CSR_FIELD s mstatus status_UPIE) s;
          s = WR_CSR_FIELD mstatus_update status_UPIE 1 s;
          s = riscvSetMode V RISCV_MODE_USER s;
          s = setPC (RD_CSR_FIELD s uepc generic_value) s;
          s = notifyERETDerived RISCV_MODE_USER s
      in riscvTestInterrupt s)"

section \<open>Alignment and abort handlers\<close>

definition riscvRdAlignExcept :: "vmirt \<Rightarrow> uns64 \<Rightarrow> riscv \<Rightarrow> riscv" where
  "riscvRdAlignExcept V address s = riscvTakeException V riscv_E_LoadAddressMisaligned address s"

definition riscvWrAlignExcept :: "vmirt \<Rightarrow> uns64 \<Rightarrow> riscv \<Rightarrow> riscv" where
  "riscvWrAlignExcept V address s = riscvTakeException V riscv_E_StoreAMOAddressMisaligned address s"

definition riscvRdAbortExcept :: "vmirt \<Rightarrow> uns64 \<Rightarrow> riscv \<Rightarrow> riscv" where
  "riscvRdAbortExcept V address s =
     (if PTWActive s then s\<lparr>PTWBadAddr := True\<rparr>
      else riscvTakeException V riscv_E_LoadAccessFault address s)"

definition riscvWrAbortExcept :: "vmirt \<Rightarrow> uns64 \<Rightarrow> riscv \<Rightarrow> riscv" where
  "riscvWrAbortExcept V address s =
     (if PTWActive s then s\<lparr>PTWBadAddr := True\<rparr>
      else riscvTakeException V riscv_E_StoreAMOAccessFault address s)"

definition riscvFetchSnap :: "uns64 \<Rightarrow> uns64" where
  "riscvFetchSnap thisPC = thisPC AND - 2"

section \<open>NMI and interrupt ports\<close>

definition posedge :: "bool \<Rightarrow> bool \<Rightarrow> bool" where
  "posedge old new \<longleftrightarrow> \<not> old \<and> new"

definition negedge :: "uns32 \<Rightarrow> uns32 \<Rightarrow> bool" where
  "negedge old new \<longleftrightarrow> old \<noteq> 0 \<and> new = 0"

definition doNMI :: "vmirt \<Rightarrow> riscv \<Rightarrow> riscv" where
  "doNMI V s =
     (let s = restartProcessor RVD_RESTART_NMI s;
          s = riscvSetMode V RISCV_MODE_MACHINE s;
          s = WR_CSR2 mcause_update 0 s;
          s = WR_CSR mepc_update (getEPC V s) s;
          s = s\<lparr>riscv_exception := 0\<rparr>
      in do_call (VmirtSetPCException (nmi_address (configInfo s))) s)"

definition riscvUpdatePending :: "riscv \<Rightarrow> riscv" where
  "riscvUpdatePending s =
     (let oldValue = RD_CSR s mip; newValue = net_ip (netValue s) OR ucast (swip s)
      in if oldValue \<noteq> newValue then riscvTestInterrupt (WR_CSR mip_update newValue s) else s)"

text \<open>A port's new value is an \<^verbatim>\<open>Uns32\<close>; \<^verbatim>\<open>posedge\<close> takes it as a \<^verbatim>\<open>Bool\<close> and the latched value
  is one.\<close>

definition nmiPortCB :: "vmirt \<Rightarrow> uns32 \<Rightarrow> riscv \<Rightarrow> riscv" where
  "nmiPortCB V newValue s =
     (let oldValue = net_nmi (netValue s);
          s = (if posedge oldValue (newValue \<noteq> 0) then haltProcessor RVD_NMI s
               else if negedge (of_bool oldValue) newValue then doNMI V s else s)
      in s\<lparr>netValue := (netValue s)\<lparr>net_nmi := newValue \<noteq> 0\<rparr>\<rparr>)"

definition interruptPortCB :: "nat \<Rightarrow> uns32 \<Rightarrow> riscv \<Rightarrow> riscv option" where
  "interruptPortCB index newValue s =
     (if index < 64
      then let msk = push_bit index 1;
               ip = net_ip (netValue s);
               ip = (if newValue \<noteq> 0 then ip OR msk else ip AND NOT msk)
           in Some (riscvUpdatePending (s\<lparr>netValue := (netValue s)\<lparr>net_ip := ip\<rparr>\<rparr>))
      else None)"

section \<open>The table of exceptions\<close>

record riscvExceptionDesc =
  desc_name :: string
  desc_code :: riscvException
  desc_arch :: riscvArchitecture

definition RISCV_EXCEPTION :: "string \<Rightarrow> riscvException \<Rightarrow> riscvArchitecture \<Rightarrow> riscvExceptionDesc" where
  "RISCV_EXCEPTION name code arch = \<lparr>desc_name = name, desc_code = code, desc_arch = arch\<rparr>"

text \<open>\<^verbatim>\<open>RISCV_EXCEPTIONx8\<close> and \<^verbatim>\<open>RISCV_EXCEPTIONx10\<close>: consecutive codes with a digit appended to the
  name.\<close>

definition RISCV_EXCEPTIONxN :: "nat \<Rightarrow> string \<Rightarrow> riscvException \<Rightarrow> riscvExceptionDesc list" where
  "RISCV_EXCEPTIONxN n name base =
     map (\<lambda>i. RISCV_EXCEPTION (name @ [''0123456789'' ! i]) (base + i) 0) [0..<n]"

definition exceptions :: "riscvExceptionDesc list" where
  "exceptions =
    [RISCV_EXCEPTION ''InstructionAddressMisaligned'' riscv_E_InstructionAddressMisaligned 0,
     RISCV_EXCEPTION ''InstructionAccessFault'' riscv_E_InstructionAccessFault 0,
     RISCV_EXCEPTION ''IllegalInstruction'' riscv_E_IllegalInstruction 0,
     RISCV_EXCEPTION ''Breakpoint'' riscv_E_Breakpoint 0,
     RISCV_EXCEPTION ''LoadAddressMisaligned'' riscv_E_LoadAddressMisaligned 0,
     RISCV_EXCEPTION ''LoadAccessFault'' riscv_E_LoadAccessFault 0,
     RISCV_EXCEPTION ''StoreAMOAddressMisaligned'' riscv_E_StoreAMOAddressMisaligned 0,
     RISCV_EXCEPTION ''StoreAMOAccessFault'' riscv_E_StoreAMOAccessFault 0,
     RISCV_EXCEPTION ''EnvironmentCallFromUMode'' riscv_E_EnvironmentCallFromUMode ISA_U,
     RISCV_EXCEPTION ''EnvironmentCallFromSMode'' riscv_E_EnvironmentCallFromSMode ISA_S,
     RISCV_EXCEPTION ''EnvironmentCallFromMMode'' riscv_E_EnvironmentCallFromMMode 0,
     RISCV_EXCEPTION ''InstructionPageFault'' riscv_E_InstructionPageFault 0,
     RISCV_EXCEPTION ''LoadPageFault'' riscv_E_LoadPageFault 0,
     RISCV_EXCEPTION ''StoreAMOPageFault'' riscv_E_StoreAMOPageFault 0,
     RISCV_EXCEPTION ''USWInterrupt'' 0x40 ISA_N,
     RISCV_EXCEPTION ''SSWInterrupt'' 0x41 ISA_S,
     RISCV_EXCEPTION ''MSWInterrupt'' 0x43 0,
     RISCV_EXCEPTION ''UTimerInterrupt'' 0x44 ISA_N,
     RISCV_EXCEPTION ''STimerInterrupt'' 0x45 ISA_S,
     RISCV_EXCEPTION ''MTimerInterrupt'' 0x47 0,
     RISCV_EXCEPTION ''UExternalInterrupt'' 0x48 ISA_N,
     RISCV_EXCEPTION ''SExternalInterrupt'' 0x49 ISA_S,
     RISCV_EXCEPTION ''MExternalInterrupt'' 0x4b 0]
    @ RISCV_EXCEPTIONxN 10 ''LocalInterrupt'' riscv_E_LocalInterrupt
    @ RISCV_EXCEPTIONxN 10 ''LocalInterrupt1'' (riscv_E_LocalInterrupt + 10)
    @ RISCV_EXCEPTIONxN 10 ''LocalInterrupt2'' (riscv_E_LocalInterrupt + 20)
    @ RISCV_EXCEPTIONxN 10 ''LocalInterrupt3'' (riscv_E_LocalInterrupt + 30)
    @ RISCV_EXCEPTIONxN 8 ''LocalInterrupt4'' (riscv_E_LocalInterrupt + 40)"

text \<open>A derived model may chain its own table (\<^verbatim>\<open>cb.firstException\<close>); \<open>derived\<close> is that table or
  \<open>None\<close> for no callback.\<close>

definition riscvGetException :: "riscvExceptionDesc list option \<Rightarrow> riscv \<Rightarrow> riscvExceptionDesc option" where
  "riscvGetException derived s =
     (let matching = (\<lambda>d. desc_code d = riscv_exception s)
      in case find matching exceptions of Some d \<Rightarrow> Some d
         | None \<Rightarrow> (case derived of None \<Rightarrow> None | Some ds \<Rightarrow> find matching ds))"

definition hasException :: "riscv \<Rightarrow> riscvException \<Rightarrow> bool" where
  "hasException s code =
     (if code < riscv_E_Interrupt then has (exceptionMask s) (push_bit code 1)
      else has (interruptMask s) (push_bit (code - riscv_E_Interrupt) 1))"

text \<open>A descriptor pointer is an index into the model's own table or the derived one.\<close>

datatype descPtr = OwnDesc nat | DerivedDesc nat

definition next_desc :: "riscv \<Rightarrow> riscvExceptionDesc list \<Rightarrow> nat \<Rightarrow> nat option" where
  "next_desc s ds i = find (\<lambda>k. hasException s (desc_code (ds ! k))) [i..<length ds]"

fun riscvExceptionInfo ::
  "riscvExceptionDesc list option \<Rightarrow> riscv \<Rightarrow> descPtr option \<Rightarrow> descPtr option" where
  "riscvExceptionInfo derived s (Some (DerivedDesc k)) =
     (case derived of None \<Rightarrow> None | Some ds \<Rightarrow> map_option DerivedDesc (next_desc s ds (Suc k)))"
| "riscvExceptionInfo derived s prev =
     (let i = (case prev of Some (OwnDesc k) \<Rightarrow> Suc k | _ \<Rightarrow> 0)
      in case next_desc s exceptions i of Some k \<Rightarrow> Some (OwnDesc k)
         | None \<Rightarrow> (case derived of None \<Rightarrow> None | Some ds \<Rightarrow> map_option DerivedDesc (next_desc s ds 0)))"

definition riscvGetLocalIntMask :: "riscv \<Rightarrow> uns64" where
  "riscvGetLocalIntMask s = push_bit riscv_E_Local (push_bit (local_int_num (configInfo s)) 1 - 1)"

text \<open>One round of the loop over the table, on the pair of exception and interrupt mask.\<close>

definition exception_mask_step ::
  "riscvArchitecture \<Rightarrow> riscvExceptionDesc \<Rightarrow> uns64 \<times> uns64 \<Rightarrow> uns64 \<times> uns64" where
  "exception_mask_step arch d masks =
     (let (em, im) = masks; code = desc_code d
      in if arch AND desc_arch d \<noteq> desc_arch d then (em, im)
         else if code < riscv_E_Interrupt then (em OR push_bit code 1, im)
         else if code < riscv_E_LocalInterrupt then (em, im OR push_bit (code - riscv_E_Interrupt) 1)
         else (em, im))"

definition riscvSetExceptionMask :: "riscv \<Rightarrow> riscv" where
  "riscvSetExceptionMask s =
     (let (em, im) = fold (exception_mask_step (cfg_arch (configInfo s))) exceptions (0, 0)
      in s\<lparr>exceptionMask := em, interruptMask := im OR riscvGetLocalIntMask s\<rparr>)"

section \<open>Net ports and their state\<close>

datatype netCallback = ResetPortCB | NmiPortCB | InterruptPortCB

record riscvNetPort =
  port_name :: string
  port_cb :: netCallback
  port_code :: nat

definition newNetPort :: "string \<Rightarrow> netCallback \<Rightarrow> nat \<Rightarrow> riscvNetPort list \<Rightarrow> riscvNetPort list" where
  "newNetPort name cb code ports = ports @ [\<lparr>port_name = name, port_cb = cb, port_code = code\<rparr>]"

definition riscvNewNetPorts :: "riscv \<Rightarrow> riscvNetPort list" where
  "riscvNewNetPorts s =
     fold (\<lambda>d ports. if desc_code d \<ge> riscv_E_Interrupt \<and> hasException s (desc_code d)
             then newNetPort (desc_name d) InterruptPortCB (desc_code d - riscv_E_Interrupt) ports
             else ports)
       exceptions (newNetPort ''nmi'' NmiPortCB 0 (newNetPort ''reset'' ResetPortCB 0 []))"

text \<open>The iterator over the port list; a port is named by its position.\<close>

definition riscvNetPortSpecs :: "riscvNetPort list \<Rightarrow> nat option \<Rightarrow> nat option" where
  "riscvNetPortSpecs ports prev =
     (let i = (case prev of None \<Rightarrow> 0 | Some k \<Rightarrow> Suc k) in if i < length ports then Some i else None)"

text \<open>Save and restore at the end of the core's phase: the latched inputs; the debug copy of the
  interrupt state is not part of the model.\<close>

definition riscvNetSave :: "bool \<Rightarrow> riscv \<Rightarrow> riscvNetValue option" where
  "riscvNetSave endCore s = (if endCore then Some (netValue s) else None)"

definition riscvNetRestore :: "bool \<Rightarrow> riscvNetValue \<Rightarrow> riscv \<Rightarrow> riscv" where
  "riscvNetRestore endCore saved s =
     (if endCore then riscvTestInterrupt (s\<lparr>netValue := saved\<rparr>) else s)"

section \<open>Facts on trap entry and return\<close>

lemma notifyTrapDerived_frame [frame_simps, simp]:
  "csr (notifyTrapDerived m s) = csr s" "csrMask (notifyTrapDerived m s) = csrMask s"
  "currentArch (notifyTrapDerived m s) = currentArch s"
  "riscv_mode (notifyTrapDerived m s) = riscv_mode s"
  "riscv_disable (notifyTrapDerived m s) = riscv_disable s"
  "artifactAccess (notifyTrapDerived m s) = artifactAccess s"
  "inSaveRestore (notifyTrapDerived m s) = inSaveRestore s"
  "configInfo (notifyTrapDerived m s) = configInfo s"
  "fpActiveRM (notifyTrapDerived m s) = fpActiveRM s"
  "fpFlags (notifyTrapDerived m s) = fpFlags s" "jumpBase (notifyTrapDerived m s) = jumpBase s"
  "swip (notifyTrapDerived m s) = swip s"
  "exceptionMask (notifyTrapDerived m s) = exceptionMask s"
  "interruptMask (notifyTrapDerived m s) = interruptMask s"
  "riscv_exception (notifyTrapDerived m s) = riscv_exception s"
  "MIMode (notifyTrapDerived m s) = MIMode s" "SIMode (notifyTrapDerived m s) = SIMode s"
  "UIMode (notifyTrapDerived m s) = UIMode s" "AFErrorIn (notifyTrapDerived m s) = AFErrorIn s"
  "AFErrorOut (notifyTrapDerived m s) = AFErrorOut s"
  "exclusiveTag (notifyTrapDerived m s) = exclusiveTag s"
  "exclusiveTagMask (notifyTrapDerived m s) = exclusiveTagMask s"
  "baseCycles (notifyTrapDerived m s) = baseCycles s"
  "baseInstructions (notifyTrapDerived m s) = baseInstructions s"
  "netValue (notifyTrapDerived m s) = netValue s"
  "vmDomains (notifyTrapDerived m s) = vmDomains s"
  "pmpDomains (notifyTrapDerived m s) = pmpDomains s"
  "physDomains (notifyTrapDerived m s) = physDomains s"
  "pmpcfg (notifyTrapDerived m s) = pmpcfg s" "pmpaddr (notifyTrapDerived m s) = pmpaddr s"
  "tlb (notifyTrapDerived m s) = tlb s" "extBits (notifyTrapDerived m s) = extBits s"
  "PTWActive (notifyTrapDerived m s) = PTWActive s"
  "PTWBadAddr (notifyTrapDerived m s) = PTWBadAddr s"
  "cb_trapNotifier (notifyTrapDerived m s) = cb_trapNotifier s"
  "cb_ERETNotifier (notifyTrapDerived m s) = cb_ERETNotifier s"
  "cb_resetNotifier (notifyTrapDerived m s) = cb_resetNotifier s"
  by (simp_all add: notifyTrapDerived_def)

lemma notifyERETDerived_frame [frame_simps, simp]:
  "csr (notifyERETDerived m s) = csr s" "csrMask (notifyERETDerived m s) = csrMask s"
  "currentArch (notifyERETDerived m s) = currentArch s"
  "riscv_mode (notifyERETDerived m s) = riscv_mode s"
  "riscv_disable (notifyERETDerived m s) = riscv_disable s"
  "artifactAccess (notifyERETDerived m s) = artifactAccess s"
  "inSaveRestore (notifyERETDerived m s) = inSaveRestore s"
  "configInfo (notifyERETDerived m s) = configInfo s"
  "fpActiveRM (notifyERETDerived m s) = fpActiveRM s"
  "fpFlags (notifyERETDerived m s) = fpFlags s" "jumpBase (notifyERETDerived m s) = jumpBase s"
  "swip (notifyERETDerived m s) = swip s"
  "exceptionMask (notifyERETDerived m s) = exceptionMask s"
  "interruptMask (notifyERETDerived m s) = interruptMask s"
  "riscv_exception (notifyERETDerived m s) = riscv_exception s"
  "MIMode (notifyERETDerived m s) = MIMode s" "SIMode (notifyERETDerived m s) = SIMode s"
  "UIMode (notifyERETDerived m s) = UIMode s" "AFErrorIn (notifyERETDerived m s) = AFErrorIn s"
  "AFErrorOut (notifyERETDerived m s) = AFErrorOut s"
  "exclusiveTag (notifyERETDerived m s) = exclusiveTag s"
  "exclusiveTagMask (notifyERETDerived m s) = exclusiveTagMask s"
  "baseCycles (notifyERETDerived m s) = baseCycles s"
  "baseInstructions (notifyERETDerived m s) = baseInstructions s"
  "netValue (notifyERETDerived m s) = netValue s"
  "vmDomains (notifyERETDerived m s) = vmDomains s"
  "pmpDomains (notifyERETDerived m s) = pmpDomains s"
  "physDomains (notifyERETDerived m s) = physDomains s"
  "pmpcfg (notifyERETDerived m s) = pmpcfg s" "pmpaddr (notifyERETDerived m s) = pmpaddr s"
  "tlb (notifyERETDerived m s) = tlb s" "extBits (notifyERETDerived m s) = extBits s"
  "PTWActive (notifyERETDerived m s) = PTWActive s"
  "PTWBadAddr (notifyERETDerived m s) = PTWBadAddr s"
  "cb_trapNotifier (notifyERETDerived m s) = cb_trapNotifier s"
  "cb_ERETNotifier (notifyERETDerived m s) = cb_ERETNotifier s"
  "cb_resetNotifier (notifyERETDerived m s) = cb_resetNotifier s"
  by (simp_all add: notifyERETDerived_def)

lemma haltProcessor_frame [frame_simps, simp]:
  "csr (haltProcessor r s) = csr s" "csrMask (haltProcessor r s) = csrMask s"
  "currentArch (haltProcessor r s) = currentArch s"
  "riscv_mode (haltProcessor r s) = riscv_mode s"
  "artifactAccess (haltProcessor r s) = artifactAccess s"
  "inSaveRestore (haltProcessor r s) = inSaveRestore s"
  "configInfo (haltProcessor r s) = configInfo s" "fpActiveRM (haltProcessor r s) = fpActiveRM s"
  "fpFlags (haltProcessor r s) = fpFlags s" "jumpBase (haltProcessor r s) = jumpBase s"
  "swip (haltProcessor r s) = swip s" "exceptionMask (haltProcessor r s) = exceptionMask s"
  "interruptMask (haltProcessor r s) = interruptMask s"
  "riscv_exception (haltProcessor r s) = riscv_exception s"
  "MIMode (haltProcessor r s) = MIMode s" "SIMode (haltProcessor r s) = SIMode s"
  "UIMode (haltProcessor r s) = UIMode s" "AFErrorIn (haltProcessor r s) = AFErrorIn s"
  "AFErrorOut (haltProcessor r s) = AFErrorOut s"
  "exclusiveTag (haltProcessor r s) = exclusiveTag s"
  "exclusiveTagMask (haltProcessor r s) = exclusiveTagMask s"
  "baseCycles (haltProcessor r s) = baseCycles s"
  "baseInstructions (haltProcessor r s) = baseInstructions s"
  "netValue (haltProcessor r s) = netValue s" "vmDomains (haltProcessor r s) = vmDomains s"
  "pmpDomains (haltProcessor r s) = pmpDomains s"
  "physDomains (haltProcessor r s) = physDomains s" "pmpcfg (haltProcessor r s) = pmpcfg s"
  "pmpaddr (haltProcessor r s) = pmpaddr s" "tlb (haltProcessor r s) = tlb s"
  "extBits (haltProcessor r s) = extBits s" "PTWActive (haltProcessor r s) = PTWActive s"
  "PTWBadAddr (haltProcessor r s) = PTWBadAddr s"
  "cb_trapNotifier (haltProcessor r s) = cb_trapNotifier s"
  "cb_ERETNotifier (haltProcessor r s) = cb_ERETNotifier s"
  "cb_resetNotifier (haltProcessor r s) = cb_resetNotifier s"
  "riscv_disable (haltProcessor r s) = riscv_disable s OR r"
  by (simp_all add: haltProcessor_def Let_def)

lemma restartProcessor_frame [frame_simps, simp]:
  "csr (restartProcessor r s) = csr s" "csrMask (restartProcessor r s) = csrMask s"
  "currentArch (restartProcessor r s) = currentArch s"
  "riscv_mode (restartProcessor r s) = riscv_mode s"
  "artifactAccess (restartProcessor r s) = artifactAccess s"
  "inSaveRestore (restartProcessor r s) = inSaveRestore s"
  "configInfo (restartProcessor r s) = configInfo s"
  "fpActiveRM (restartProcessor r s) = fpActiveRM s" "fpFlags (restartProcessor r s) = fpFlags s"
  "jumpBase (restartProcessor r s) = jumpBase s" "swip (restartProcessor r s) = swip s"
  "exceptionMask (restartProcessor r s) = exceptionMask s"
  "interruptMask (restartProcessor r s) = interruptMask s"
  "riscv_exception (restartProcessor r s) = riscv_exception s"
  "MIMode (restartProcessor r s) = MIMode s" "SIMode (restartProcessor r s) = SIMode s"
  "UIMode (restartProcessor r s) = UIMode s" "AFErrorIn (restartProcessor r s) = AFErrorIn s"
  "AFErrorOut (restartProcessor r s) = AFErrorOut s"
  "exclusiveTag (restartProcessor r s) = exclusiveTag s"
  "exclusiveTagMask (restartProcessor r s) = exclusiveTagMask s"
  "baseCycles (restartProcessor r s) = baseCycles s"
  "baseInstructions (restartProcessor r s) = baseInstructions s"
  "netValue (restartProcessor r s) = netValue s" "vmDomains (restartProcessor r s) = vmDomains s"
  "pmpDomains (restartProcessor r s) = pmpDomains s"
  "physDomains (restartProcessor r s) = physDomains s" "pmpcfg (restartProcessor r s) = pmpcfg s"
  "pmpaddr (restartProcessor r s) = pmpaddr s" "tlb (restartProcessor r s) = tlb s"
  "extBits (restartProcessor r s) = extBits s" "PTWActive (restartProcessor r s) = PTWActive s"
  "PTWBadAddr (restartProcessor r s) = PTWBadAddr s"
  "cb_trapNotifier (restartProcessor r s) = cb_trapNotifier s"
  "cb_ERETNotifier (restartProcessor r s) = cb_ERETNotifier s"
  "cb_resetNotifier (restartProcessor r s) = cb_resetNotifier s"
  "riscv_disable (restartProcessor r s) = riscv_disable s AND NOT r"
  by (simp_all add: restartProcessor_def Let_def)

lemma riscvTestInterrupt_frame [frame_simps, simp]:
  "csr (riscvTestInterrupt s) = csr s" "csrMask (riscvTestInterrupt s) = csrMask s"
  "currentArch (riscvTestInterrupt s) = currentArch s"
  "riscv_mode (riscvTestInterrupt s) = riscv_mode s"
  "artifactAccess (riscvTestInterrupt s) = artifactAccess s"
  "inSaveRestore (riscvTestInterrupt s) = inSaveRestore s"
  "configInfo (riscvTestInterrupt s) = configInfo s"
  "fpActiveRM (riscvTestInterrupt s) = fpActiveRM s" "fpFlags (riscvTestInterrupt s) = fpFlags s"
  "jumpBase (riscvTestInterrupt s) = jumpBase s" "swip (riscvTestInterrupt s) = swip s"
  "exceptionMask (riscvTestInterrupt s) = exceptionMask s"
  "interruptMask (riscvTestInterrupt s) = interruptMask s"
  "riscv_exception (riscvTestInterrupt s) = riscv_exception s"
  "MIMode (riscvTestInterrupt s) = MIMode s" "SIMode (riscvTestInterrupt s) = SIMode s"
  "UIMode (riscvTestInterrupt s) = UIMode s" "AFErrorIn (riscvTestInterrupt s) = AFErrorIn s"
  "AFErrorOut (riscvTestInterrupt s) = AFErrorOut s"
  "exclusiveTag (riscvTestInterrupt s) = exclusiveTag s"
  "exclusiveTagMask (riscvTestInterrupt s) = exclusiveTagMask s"
  "baseCycles (riscvTestInterrupt s) = baseCycles s"
  "baseInstructions (riscvTestInterrupt s) = baseInstructions s"
  "netValue (riscvTestInterrupt s) = netValue s" "vmDomains (riscvTestInterrupt s) = vmDomains s"
  "pmpDomains (riscvTestInterrupt s) = pmpDomains s"
  "physDomains (riscvTestInterrupt s) = physDomains s" "pmpcfg (riscvTestInterrupt s) = pmpcfg s"
  "pmpaddr (riscvTestInterrupt s) = pmpaddr s" "tlb (riscvTestInterrupt s) = tlb s"
  "extBits (riscvTestInterrupt s) = extBits s" "PTWActive (riscvTestInterrupt s) = PTWActive s"
  "PTWBadAddr (riscvTestInterrupt s) = PTWBadAddr s"
  "cb_trapNotifier (riscvTestInterrupt s) = cb_trapNotifier s"
  "cb_ERETNotifier (riscvTestInterrupt s) = cb_ERETNotifier s"
  "cb_resetNotifier (riscvTestInterrupt s) = cb_resetNotifier s"
  by (simp_all add: riscvTestInterrupt_def Let_def)

lemma getCurrentMode_cong: "riscv_mode s = riscv_mode t \<Longrightarrow> getCurrentMode s = getCurrentMode t"
  by (simp add: getCurrentMode_def)

lemma getCurrentMode_frame [simp]:
  "getCurrentMode (notifyTrapDerived m s) = getCurrentMode s"
  "getCurrentMode (notifyERETDerived m s) = getCurrentMode s"
  "getCurrentMode (riscvTestInterrupt s) = getCurrentMode s"
  "getCurrentMode (do_call c s) = getCurrentMode s"
  "getCurrentMode (setPC pc s) = getCurrentMode s"
  "getCurrentMode (clearEA s) = getCurrentMode s"
  "getCurrentMode (s\<lparr>riscv_exception := e\<rparr>) = getCurrentMode s"
  by (simp_all add: getCurrentMode_def setPC_def clearEA_def)

text \<open>The mode to which an exception or interrupt is taken, and the specification of that choice:
  the mode to which it is delegated, or the current mode when that is higher.\<close>

definition trap_mode :: "riscv \<Rightarrow> riscvException \<Rightarrow> riscvMode" where
  "trap_mode s e = (if IS_INTERRUPT e then getInterruptModeX s (GET_ECODE e)
     else getExceptionModeX s (GET_ECODE e))"

definition delegated_mode :: "uns64 \<Rightarrow> uns64 \<Rightarrow> nat \<Rightarrow> riscvMode" where
  "delegated_mode mdeleg sdeleg ecode =
     (if \<not> bit mdeleg ecode then RISCV_MODE_MACHINE
      else if \<not> bit sdeleg ecode then RISCV_MODE_SUPERVISOR else RISCV_MODE_USER)"

lemma getModeX_eq:
  "ecode < 32 \<Longrightarrow> getModeX s (ucast m) (ucast d) ecode = max (getCurrentMode s) (delegated_mode m d ecode)"
  for m d :: uns64
  by (auto simp: getModeX_def Let_def delegated_mode_def max_def bit_simps)

lemma getModeX_ge: "getCurrentMode s \<le> getModeX s m d ecode"
  by (auto simp: getModeX_def Let_def)

lemma trap_mode_ge: "getCurrentMode s \<le> trap_mode s e"
  by (simp add: trap_mode_def getInterruptModeX_def getExceptionModeX_def getModeX_ge)

text \<open>Where execution continues: the last PC that the model gave the kernel.\<close>

fun last_pc_rev :: "vmicall list \<Rightarrow> uns64 option" where
  "last_pc_rev [] = None"
| "last_pc_rev (VmirtSetPC pc # cs) = Some pc"
| "last_pc_rev (VmirtSetPCException pc # cs) = Some pc"
| "last_pc_rev (c # cs) = last_pc_rev cs"

definition last_pc :: "riscv \<Rightarrow> uns64 option" where
  "last_pc s = last_pc_rev (rev (calls s))"

lemma last_pc_do_call [simp]:
  "last_pc (do_call (VmirtSetPC pc) s) = Some pc"
  "last_pc (do_call (VmirtSetPCException pc) s) = Some pc"
  "last_pc (do_call (TrapNotifier m) s) = last_pc s" "last_pc (do_call (ERETNotifier m) s) = last_pc s"
  "last_pc (do_call VmirtHalt s) = last_pc s" "last_pc (do_call VmirtRestartNext s) = last_pc s"
  "last_pc (do_call VmirtDoSynchronousInterrupt s) = last_pc s"
  by (simp_all add: last_pc_def)

lemma last_pc_disable [simp]: "last_pc (s\<lparr>riscv_disable := d\<rparr>) = last_pc s"
  by (simp add: last_pc_def)

lemma last_pc_frame [simp]:
  "last_pc (notifyTrapDerived m s) = last_pc s" "last_pc (notifyERETDerived m s) = last_pc s"
  "last_pc (riscvTestInterrupt s) = last_pc s" "last_pc (setPC pc s) = Some pc"
  by (simp_all add: notifyTrapDerived_def notifyERETDerived_def riscvTestInterrupt_def
      restartProcessor_def setPC_def Let_def)

text \<open>Trap entry, uniformly in the target mode: \<open>trap_regs\<close> gives the registers of the mode, and
  \<open>trap_pp\<close> records the previous mode, which User mode does not have.\<close>

definition trap_regs :: "riscvMode \<Rightarrow> modeRegs" where
  "trap_regs m = (if m = RISCV_MODE_USER then regs_U else if m = RISCV_MODE_SUPERVISOR then regs_S
     else regs_M)"

definition trap_pp :: "riscvMode \<Rightarrow> riscvMode \<Rightarrow> riscv \<Rightarrow> riscv" where
  "trap_pp m modeY s = (if m = RISCV_MODE_USER then s
     else if m = RISCV_MODE_SUPERVISOR
     then WR_CSR_FIELD mstatus_update status_SPP (of_nat (mode_code modeY)) s
     else WR_CSR_FIELD mstatus_update status_MPP (of_nat (mode_code modeY)) s)"

lemma trap_pp_frame [simp]:
  "csrMask (trap_pp m y s) = csrMask s" "currentArch (trap_pp m y s) = currentArch s"
  "riscv_mode (trap_pp m y s) = riscv_mode s" "riscv_disable (trap_pp m y s) = riscv_disable s"
  "artifactAccess (trap_pp m y s) = artifactAccess s"
  "inSaveRestore (trap_pp m y s) = inSaveRestore s" "configInfo (trap_pp m y s) = configInfo s"
  "fpActiveRM (trap_pp m y s) = fpActiveRM s" "fpFlags (trap_pp m y s) = fpFlags s"
  "jumpBase (trap_pp m y s) = jumpBase s" "swip (trap_pp m y s) = swip s"
  "exceptionMask (trap_pp m y s) = exceptionMask s"
  "interruptMask (trap_pp m y s) = interruptMask s"
  "riscv_exception (trap_pp m y s) = riscv_exception s" "MIMode (trap_pp m y s) = MIMode s"
  "SIMode (trap_pp m y s) = SIMode s" "UIMode (trap_pp m y s) = UIMode s"
  "AFErrorIn (trap_pp m y s) = AFErrorIn s" "AFErrorOut (trap_pp m y s) = AFErrorOut s"
  "exclusiveTag (trap_pp m y s) = exclusiveTag s"
  "exclusiveTagMask (trap_pp m y s) = exclusiveTagMask s"
  "baseCycles (trap_pp m y s) = baseCycles s"
  "baseInstructions (trap_pp m y s) = baseInstructions s" "netValue (trap_pp m y s) = netValue s"
  "vmDomains (trap_pp m y s) = vmDomains s" "pmpDomains (trap_pp m y s) = pmpDomains s"
  "physDomains (trap_pp m y s) = physDomains s" "pmpcfg (trap_pp m y s) = pmpcfg s"
  "pmpaddr (trap_pp m y s) = pmpaddr s" "tlb (trap_pp m y s) = tlb s"
  "extBits (trap_pp m y s) = extBits s" "PTWActive (trap_pp m y s) = PTWActive s"
  "PTWBadAddr (trap_pp m y s) = PTWBadAddr s"
  "cb_trapNotifier (trap_pp m y s) = cb_trapNotifier s"
  "cb_ERETNotifier (trap_pp m y s) = cb_ERETNotifier s"
  "cb_resetNotifier (trap_pp m y s) = cb_resetNotifier s" "calls (trap_pp m y s) = calls s"
  by (simp_all add: trap_pp_def)

definition trap_prepare :: "riscvException \<Rightarrow> riscv \<Rightarrow> riscv" where
  "trap_prepare e s =
     (let s = (if \<not> retiredCode e then s\<lparr>baseInstructions := baseInstructions s + 1\<rparr> else s)
      in clearEA (s\<lparr>AFErrorOut := if accessFaultCode e then AFErrorIn s else riscv_AFault_None\<rparr>))"

lemma trap_prepare_frame [simp]:
  "csr (trap_prepare e s) = csr s" "csrMask (trap_prepare e s) = csrMask s"
  "currentArch (trap_prepare e s) = currentArch s" "riscv_mode (trap_prepare e s) = riscv_mode s"
  "riscv_disable (trap_prepare e s) = riscv_disable s"
  "artifactAccess (trap_prepare e s) = artifactAccess s"
  "inSaveRestore (trap_prepare e s) = inSaveRestore s"
  "configInfo (trap_prepare e s) = configInfo s" "fpActiveRM (trap_prepare e s) = fpActiveRM s"
  "fpFlags (trap_prepare e s) = fpFlags s" "jumpBase (trap_prepare e s) = jumpBase s"
  "swip (trap_prepare e s) = swip s" "exceptionMask (trap_prepare e s) = exceptionMask s"
  "interruptMask (trap_prepare e s) = interruptMask s"
  "riscv_exception (trap_prepare e s) = riscv_exception s" "MIMode (trap_prepare e s) = MIMode s"
  "SIMode (trap_prepare e s) = SIMode s" "UIMode (trap_prepare e s) = UIMode s"
  "AFErrorIn (trap_prepare e s) = AFErrorIn s"
  "exclusiveTagMask (trap_prepare e s) = exclusiveTagMask s"
  "baseCycles (trap_prepare e s) = baseCycles s" "netValue (trap_prepare e s) = netValue s"
  "vmDomains (trap_prepare e s) = vmDomains s" "pmpDomains (trap_prepare e s) = pmpDomains s"
  "physDomains (trap_prepare e s) = physDomains s" "pmpcfg (trap_prepare e s) = pmpcfg s"
  "pmpaddr (trap_prepare e s) = pmpaddr s" "tlb (trap_prepare e s) = tlb s"
  "extBits (trap_prepare e s) = extBits s" "PTWActive (trap_prepare e s) = PTWActive s"
  "PTWBadAddr (trap_prepare e s) = PTWBadAddr s"
  "cb_trapNotifier (trap_prepare e s) = cb_trapNotifier s"
  "cb_ERETNotifier (trap_prepare e s) = cb_ERETNotifier s"
  "cb_resetNotifier (trap_prepare e s) = cb_resetNotifier s" "calls (trap_prepare e s) = calls s"
  "exclusiveTag (trap_prepare e s) = RISCV_NO_TAG"
  by (simp_all add: trap_prepare_def clearEA_def Let_def)

lemma trap_mode_cong:
  "csr s = csr t \<Longrightarrow> currentArch s = currentArch t \<Longrightarrow> riscv_mode s = riscv_mode t
    \<Longrightarrow> trap_mode s e = trap_mode t e"
  by (simp add: trap_mode_def getInterruptModeX_def getExceptionModeX_def getModeX_def
      RD_CSR_FIELD_def RISCV_XLEN_IS_32_def getCurrentMode_def)

lemma riscvTakeException_eq:
  "riscvTakeException V e tval s =
     (let m = trap_mode s e;
          (t, base, imode) = TARGET_MODE_X (trap_regs m) (IS_INTERRUPT e) (GET_ECODE e) (getEPC V s) tval
            (trap_prepare e s);
          handlerPC = (if imode = 0 \<or> \<not> IS_INTERRUPT e then base else base + of_nat (4 * GET_ECODE e))
      in notifyTrapDerived m (do_call (VmirtSetPCException handlerPC)
           ((riscvSetMode V m (trap_pp m (getCurrentMode s) t))\<lparr>riscv_exception := e\<rparr>)))"
proof -
  have "trap_mode s e = (if IS_INTERRUPT e then getInterruptModeX (trap_prepare e s) (GET_ECODE e)
      else getExceptionModeX (trap_prepare e s) (GET_ECODE e))"
    using trap_mode_cong [of s "trap_prepare e s" e] by (simp add: trap_mode_def)
  then show ?thesis
    unfolding riscvTakeException_def Let_def trap_prepare_def [unfolded Let_def, symmetric]
      trap_regs_def trap_pp_def
    by (simp split: prod.splits)
qed

lemma TARGET_MODE_X_frame:
  assumes "TARGET_MODE_X X i ecode EPC tval s = (t, base, imode)"
  shows "csrMask t = csrMask s" "currentArch t = currentArch s" "riscv_mode t = riscv_mode s"
    "riscv_disable t = riscv_disable s" "artifactAccess t = artifactAccess s"
    "inSaveRestore t = inSaveRestore s" "configInfo t = configInfo s"
    "fpActiveRM t = fpActiveRM s" "fpFlags t = fpFlags s" "jumpBase t = jumpBase s"
    "swip t = swip s" "exceptionMask t = exceptionMask s" "interruptMask t = interruptMask s"
    "riscv_exception t = riscv_exception s" "MIMode t = MIMode s" "SIMode t = SIMode s"
    "UIMode t = UIMode s" "AFErrorIn t = AFErrorIn s" "AFErrorOut t = AFErrorOut s"
    "exclusiveTag t = exclusiveTag s" "exclusiveTagMask t = exclusiveTagMask s"
    "baseCycles t = baseCycles s" "baseInstructions t = baseInstructions s"
    "netValue t = netValue s" "vmDomains t = vmDomains s" "pmpDomains t = pmpDomains s"
    "physDomains t = physDomains s" "pmpcfg t = pmpcfg s" "pmpaddr t = pmpaddr s"
    "tlb t = tlb s" "extBits t = extBits s" "PTWActive t = PTWActive s"
    "PTWBadAddr t = PTWBadAddr s" "cb_trapNotifier t = cb_trapNotifier s"
    "cb_ERETNotifier t = cb_ERETNotifier s" "cb_resetNotifier t = cb_resetNotifier s"
    "calls t = calls s"
  using assms by (auto simp: TARGET_MODE_X_def Let_def)

lemma getCurrentMode_riscvTakeException [simp]:
  "getCurrentMode (riscvTakeException V e tval s) = trap_mode s e"
  by (simp add: riscvTakeException_eq Let_def split: prod.splits)

text \<open>The registers after trap entry to each mode.\<close>

definition trap_cause :: "bool \<Rightarrow> riscvException \<Rightarrow> csr_32_64 \<Rightarrow> csr_32_64" where
  "trap_cause is32 e c = wr_view2 is32 cause_Interrupt (of_bool (IS_INTERRUPT e))
     (wr_view2 is32 cause_ExceptionCode (of_nat (GET_ECODE e)) c)"

definition trap_handler :: "bool \<Rightarrow> riscvException \<Rightarrow> uns64 \<Rightarrow> uns8 \<Rightarrow> uns64" where
  "trap_handler is32 e tvec customMode =
     (let base = push_bit 2 (rd_view is32 tvec_BASE tvec);
          imode = getIMode customMode (ucast (rd_view is32 tvec_MODE tvec))
      in if imode = 0 \<or> \<not> IS_INTERRUPT e then base else base + of_nat (4 * GET_ECODE e))"

lemma trap_entry_M:
  assumes "trap_mode s e = RISCV_MODE_MACHINE"
  shows "csr (riscvTakeException V e tval s) =
    (let b = RISCV_XLEN_IS_32 s; c = csr s
     in c\<lparr>mstatus := wr_view b status_MPP (of_nat (mode_code (getCurrentMode s)))
             (wr_view b status_MIE 0 (wr_view b status_MPIE (rd_view b status_MIE (mstatus c)) (mstatus c))),
          mcause := trap_cause b e (mcause c), mepc := getEPC V s AND RD_CSR_MASK s mepcM, mtval := tval\<rparr>)"
    and "last_pc (riscvTakeException V e tval s) =
      Some (trap_handler (RISCV_XLEN_IS_32 s) e (mtvec (csr s)) (MIMode s))"
  using assms
  by (simp_all add: riscvTakeException_eq trap_regs_def trap_pp_def regs_M_def TARGET_MODE_X_def
      csr_defs Let_def RISCV_XLEN_IS_32_def trap_cause_def trap_handler_def)

lemma trap_entry_S:
  assumes "trap_mode s e = RISCV_MODE_SUPERVISOR"
  shows "csr (riscvTakeException V e tval s) =
    (let b = RISCV_XLEN_IS_32 s; c = csr s
     in c\<lparr>mstatus := wr_view b status_SPP (of_nat (mode_code (getCurrentMode s)))
             (wr_view b status_SIE 0 (wr_view b status_SPIE (rd_view b status_SIE (mstatus c)) (mstatus c))),
          scause := trap_cause b e (scause c), sepc := getEPC V s AND RD_CSR_MASK s sepcM, stval := tval\<rparr>)"
    and "last_pc (riscvTakeException V e tval s) =
      Some (trap_handler (RISCV_XLEN_IS_32 s) e (stvec (csr s)) (SIMode s))"
  using assms
  by (simp_all add: riscvTakeException_eq trap_regs_def trap_pp_def regs_S_def TARGET_MODE_X_def
      csr_defs Let_def RISCV_XLEN_IS_32_def trap_cause_def trap_handler_def)

lemma trap_entry_U:
  assumes "trap_mode s e = RISCV_MODE_USER"
  shows "csr (riscvTakeException V e tval s) =
    (let b = RISCV_XLEN_IS_32 s; c = csr s
     in c\<lparr>mstatus := wr_view b status_UIE 0 (wr_view b status_UPIE (rd_view b status_UIE (mstatus c)) (mstatus c)),
          ucause := trap_cause b e (ucause c), uepc := getEPC V s AND RD_CSR_MASK s uepcM, utval := tval\<rparr>)"
    and "last_pc (riscvTakeException V e tval s) =
      Some (trap_handler (RISCV_XLEN_IS_32 s) e (utvec (csr s)) (UIMode s))"
  using assms
  by (simp_all add: riscvTakeException_eq trap_regs_def trap_pp_def regs_U_def TARGET_MODE_X_def
      csr_defs Let_def RISCV_XLEN_IS_32_def trap_cause_def trap_handler_def)

lemma riscvTakeException_pre:
  obtains t pc where
    "TARGET_MODE_X (trap_regs (trap_mode s e)) (IS_INTERRUPT e) (GET_ECODE e) (getEPC V s) tval
       (trap_prepare e s) = t"
    "riscvTakeException V e tval s = notifyTrapDerived (trap_mode s e) (do_call (VmirtSetPCException pc)
       ((riscvSetMode V (trap_mode s e) (trap_pp (trap_mode s e) (getCurrentMode s) (fst t)))\<lparr>riscv_exception := e\<rparr>))"
proof -
  obtain t base imode where eq: "TARGET_MODE_X (trap_regs (trap_mode s e)) (IS_INTERRUPT e) (GET_ECODE e)
      (getEPC V s) tval (trap_prepare e s) = (t, base, imode)"
    by (metis prod_cases3)
  show ?thesis by (rule that [OF refl]) (simp add: eq riscvTakeException_eq Let_def)
qed

lemma riscvTakeException_frame [simp]:
  "csrMask (riscvTakeException V e tval s) = csrMask s"
  "currentArch (riscvTakeException V e tval s) = currentArch s"
  "riscv_disable (riscvTakeException V e tval s) = riscv_disable s"
  "artifactAccess (riscvTakeException V e tval s) = artifactAccess s"
  "inSaveRestore (riscvTakeException V e tval s) = inSaveRestore s"
  "configInfo (riscvTakeException V e tval s) = configInfo s"
  "fpActiveRM (riscvTakeException V e tval s) = fpActiveRM s"
  "fpFlags (riscvTakeException V e tval s) = fpFlags s"
  "jumpBase (riscvTakeException V e tval s) = jumpBase s"
  "swip (riscvTakeException V e tval s) = swip s"
  "exceptionMask (riscvTakeException V e tval s) = exceptionMask s"
  "interruptMask (riscvTakeException V e tval s) = interruptMask s"
  "MIMode (riscvTakeException V e tval s) = MIMode s"
  "SIMode (riscvTakeException V e tval s) = SIMode s"
  "UIMode (riscvTakeException V e tval s) = UIMode s"
  "AFErrorIn (riscvTakeException V e tval s) = AFErrorIn s"
  "exclusiveTagMask (riscvTakeException V e tval s) = exclusiveTagMask s"
  "baseCycles (riscvTakeException V e tval s) = baseCycles s"
  "netValue (riscvTakeException V e tval s) = netValue s"
  "vmDomains (riscvTakeException V e tval s) = vmDomains s"
  "pmpDomains (riscvTakeException V e tval s) = pmpDomains s"
  "physDomains (riscvTakeException V e tval s) = physDomains s"
  "pmpcfg (riscvTakeException V e tval s) = pmpcfg s"
  "pmpaddr (riscvTakeException V e tval s) = pmpaddr s"
  "tlb (riscvTakeException V e tval s) = tlb s"
  "extBits (riscvTakeException V e tval s) = extBits s"
  "PTWActive (riscvTakeException V e tval s) = PTWActive s"
  "PTWBadAddr (riscvTakeException V e tval s) = PTWBadAddr s"
  "cb_trapNotifier (riscvTakeException V e tval s) = cb_trapNotifier s"
  "cb_ERETNotifier (riscvTakeException V e tval s) = cb_ERETNotifier s"
  "cb_resetNotifier (riscvTakeException V e tval s) = cb_resetNotifier s"
  "exclusiveTag (riscvTakeException V e tval s) = RISCV_NO_TAG"
  "riscv_exception (riscvTakeException V e tval s) = e"
proof -
  obtain t pc where t: "TARGET_MODE_X (trap_regs (trap_mode s e)) (IS_INTERRUPT e) (GET_ECODE e) (getEPC V s) tval
      (trap_prepare e s) = t" and eq: "riscvTakeException V e tval s = notifyTrapDerived (trap_mode s e)
      (do_call (VmirtSetPCException pc) ((riscvSetMode V (trap_mode s e)
        (trap_pp (trap_mode s e) (getCurrentMode s) (fst t)))\<lparr>riscv_exception := e\<rparr>))"
    by (rule riscvTakeException_pre)
  have "TARGET_MODE_X (trap_regs (trap_mode s e)) (IS_INTERRUPT e) (GET_ECODE e) (getEPC V s) tval
      (trap_prepare e s) = (fst t, fst (snd t), snd (snd t))" using t by simp
  note frame = TARGET_MODE_X_frame [OF this]
  show "csrMask (riscvTakeException V e tval s) = csrMask s"
  "currentArch (riscvTakeException V e tval s) = currentArch s"
  "riscv_disable (riscvTakeException V e tval s) = riscv_disable s"
  "artifactAccess (riscvTakeException V e tval s) = artifactAccess s"
  "inSaveRestore (riscvTakeException V e tval s) = inSaveRestore s"
  "configInfo (riscvTakeException V e tval s) = configInfo s"
  "fpActiveRM (riscvTakeException V e tval s) = fpActiveRM s"
  "fpFlags (riscvTakeException V e tval s) = fpFlags s"
  "jumpBase (riscvTakeException V e tval s) = jumpBase s"
  "swip (riscvTakeException V e tval s) = swip s"
  "exceptionMask (riscvTakeException V e tval s) = exceptionMask s"
  "interruptMask (riscvTakeException V e tval s) = interruptMask s"
  "MIMode (riscvTakeException V e tval s) = MIMode s"
  "SIMode (riscvTakeException V e tval s) = SIMode s"
  "UIMode (riscvTakeException V e tval s) = UIMode s"
  "AFErrorIn (riscvTakeException V e tval s) = AFErrorIn s"
  "exclusiveTagMask (riscvTakeException V e tval s) = exclusiveTagMask s"
  "baseCycles (riscvTakeException V e tval s) = baseCycles s"
  "netValue (riscvTakeException V e tval s) = netValue s"
  "vmDomains (riscvTakeException V e tval s) = vmDomains s"
  "pmpDomains (riscvTakeException V e tval s) = pmpDomains s"
  "physDomains (riscvTakeException V e tval s) = physDomains s"
  "pmpcfg (riscvTakeException V e tval s) = pmpcfg s"
  "pmpaddr (riscvTakeException V e tval s) = pmpaddr s"
  "tlb (riscvTakeException V e tval s) = tlb s"
  "extBits (riscvTakeException V e tval s) = extBits s"
  "PTWActive (riscvTakeException V e tval s) = PTWActive s"
  "PTWBadAddr (riscvTakeException V e tval s) = PTWBadAddr s"
  "cb_trapNotifier (riscvTakeException V e tval s) = cb_trapNotifier s"
  "cb_ERETNotifier (riscvTakeException V e tval s) = cb_ERETNotifier s"
  "cb_resetNotifier (riscvTakeException V e tval s) = cb_resetNotifier s"
  "exclusiveTag (riscvTakeException V e tval s) = RISCV_NO_TAG"
  "riscv_exception (riscvTakeException V e tval s) = e"
    unfolding eq by (simp_all add: frame)
qed

text \<open>The registers after return.\<close>

lemma riscvMRET_eq:
  "csr (riscvMRET V s) =
    (let b = RISCV_XLEN_IS_32 s; c = csr s
     in c\<lparr>mstatus := wr_view b status_MPP (of_nat (mode_code (riscvGetMinMode s)))
          (wr_view b status_MPIE 1 (wr_view b status_MIE (rd_view b status_MPIE (mstatus c)) (mstatus c)))\<rparr>)"
  "getCurrentMode (riscvMRET V s) =
    getERETMode s (mode_of (unat (RD_CSR_FIELD s mstatus status_MPP))) (riscvGetMinMode s)"
  "last_pc (riscvMRET V s) = Some (mepc (csr s))"
  by (simp_all add: riscvMRET_def csr_defs Let_def RISCV_XLEN_IS_32_def clearEA_def setPC_def)

lemma riscvSRET_eq:
  "csr (riscvSRET V s) =
    (let b = RISCV_XLEN_IS_32 s; c = csr s
     in c\<lparr>mstatus := wr_view b status_SPP (of_nat (mode_code (riscvGetMinMode s)))
          (wr_view b status_SPIE 1 (wr_view b status_SIE (rd_view b status_SPIE (mstatus c)) (mstatus c)))\<rparr>)"
  "getCurrentMode (riscvSRET V s) =
    getERETMode s (mode_of (unat (RD_CSR_FIELD s mstatus status_SPP))) (riscvGetMinMode s)"
  "last_pc (riscvSRET V s) = Some (sepc (csr s))"
  by (simp_all add: riscvSRET_def csr_defs Let_def RISCV_XLEN_IS_32_def clearEA_def setPC_def)

lemma ecode_less:
  assumes "e < 128"
  shows "GET_ECODE e < 128"
proof -
  from assms have "take_bit 7 e = e" by (simp add: take_bit_nat_eq_self)
  then have "take_bit 7 (unset_bit 6 e) = unset_bit 6 e" by (simp add: take_bit_unset_bit_eq)
  then show ?thesis by (simp add: take_bit_nat_eq_self_iff GET_ECODE_def)
qed

text \<open>Reading the cause register back.\<close>

lemma trap_code_view:
  assumes "e < 128"
  shows "rd_view2 b cause_ExceptionCode (trap_cause b e c) = of_nat (GET_ECODE e)"
    and "rd_view2 b cause_Interrupt (trap_cause b e c) = of_bool (IS_INTERRUPT e)"
  using ecode_less [OF assms]
    rd_wr_view2_same [of cause_ExceptionCode "GET_ECODE e"]
    rd_wr_view2_same [of cause_Interrupt "of_bool (IS_INTERRUPT e)" b]
  by (simp_all add: trap_cause_def)

section \<open>Facts on interrupts\<close>

text \<open>The global enable of the interrupts that are taken to a mode.\<close>

definition mode_IE :: "riscv \<Rightarrow> riscvMode \<Rightarrow> bool" where
  "mode_IE s m = (if m = RISCV_MODE_USER then RD_CSR_FIELD s mstatus status_UIE \<noteq> 0
     else if m = RISCV_MODE_SUPERVISOR then RD_CSR_FIELD s mstatus status_SIE \<noteq> 0
     else RD_CSR_FIELD s mstatus status_MIE \<noteq> 0)"

definition int_mode :: "riscv \<Rightarrow> nat \<Rightarrow> riscvMode" where
  "int_mode s i = delegated_mode (RD_CSR s mideleg) (RD_CSR s sideleg) i"

definition int_enabled :: "riscv \<Rightarrow> nat \<Rightarrow> bool" where
  "int_enabled s i \<longleftrightarrow>
     getCurrentMode s < int_mode s i \<or> getCurrentMode s = int_mode s i \<and> mode_IE s (int_mode s i)"

lemma getIE_eq: "getIE s IE m \<longleftrightarrow> getCurrentMode s < m \<or> getCurrentMode s = m \<and> IE"
  by (auto simp: getIE_def Let_def)

lemma pending_enabled_bit:
  "bit (getPendingAndEnabledInterrupts s) i \<longleftrightarrow> bit (getPendingInterrupts s) i \<and> int_enabled s i"
proof (cases "bit (getPendingInterrupts s) i")
  case False
  then show ?thesis
    by (auto simp: getPendingAndEnabledInterrupts_def Let_def bit_simps)
next
  case True
  then have "getPendingInterrupts s \<noteq> 0" and "i < 64" by (auto dest: bit_imp_le_length)
  with True show ?thesis
    by (simp add: getPendingAndEnabledInterrupts_def Let_def bit_simps getIE_eq int_enabled_def
        int_mode_def delegated_mode_def mode_IE_def)
qed

lemma ecode_loop_highest:
  assumes "bit x h" and "\<And>j. h < j \<Longrightarrow> \<not> bit x j"
  shows "ecode_loop x e = e + of_nat h + 1"
  using assms
proof (induction h arbitrary: x e)
  case 0
  then have "drop_bit 1 x = 0" by (intro bit_word_eqI) (simp add: bit_simps)
  moreover have "x \<noteq> 0" using 0 by auto
  ultimately show ?case by (subst ecode_loop.simps, subst ecode_loop.simps) simp
next
  case (Suc h)
  have "bit (drop_bit 1 x) h" using Suc.prems(1) by (simp add: bit_simps)
  moreover have "\<not> bit (drop_bit 1 x) j" if "h < j" for j using Suc.prems(2) that by (simp add: bit_simps)
  ultimately have "ecode_loop (drop_bit 1 x) (e + 1) = e + 1 + of_nat h + 1" by (rule Suc.IH)
  moreover have "x \<noteq> 0" using Suc.prems by auto
  ultimately show ?case by (subst ecode_loop.simps) (simp add: algebra_simps)
qed

lemma interrupt_code:
  assumes "i < 64"
  shows "IS_INTERRUPT (riscv_E_Interrupt + i)" "GET_ECODE (riscv_E_Interrupt + i) = i"
proof -
  have "list_all (\<lambda>i. IS_INTERRUPT (riscv_E_Interrupt + i) \<and> GET_ECODE (riscv_E_Interrupt + i) = i) [0..<64]"
    by code_simp
  then show "IS_INTERRUPT (riscv_E_Interrupt + i)" "GET_ECODE (riscv_E_Interrupt + i) = i"
    using assms by (auto simp: list_all_iff)
qed

lemma trap_mode_interrupt:
  "i < 32 \<Longrightarrow> trap_mode s (riscv_E_Interrupt + i) = max (getCurrentMode s) (int_mode s i)"
  by (simp add: trap_mode_def interrupt_code getInterruptModeX_def getModeX_eq int_mode_def)

lemma int_enabled_mode: "int_enabled s i \<Longrightarrow> max (getCurrentMode s) (int_mode s i) = int_mode s i"
  by (auto simp: int_enabled_def max_def)

section \<open>Facts on halting and waking\<close>

definition halt_call :: "vmicall \<Rightarrow> bool" where
  "halt_call c \<longleftrightarrow> c = VmirtHalt \<or> c = VmirtRestartNext"

text \<open>What the development relies on of the kernel's halt state.\<close>

locale kernel_halt =
  fixes halted :: "vmicall list \<Rightarrow> bool"
  assumes halted_halt: "halted (cs @ [VmirtHalt])"
    and halted_restart: "\<not> halted (cs @ [VmirtRestartNext])"
    and halted_other: "\<not> halt_call c \<Longrightarrow> halted (cs @ [c]) = halted cs"

text \<open>Steps that neither halt nor restart.\<close>

definition quiet :: "riscv \<Rightarrow> riscv \<Rightarrow> bool" where
  "quiet s t \<longleftrightarrow> riscv_disable t = riscv_disable s
     \<and> (\<exists>cs. calls t = calls s @ cs \<and> list_all (\<lambda>c. \<not> halt_call c) cs)"

lemma quiet_same: "riscv_disable t = riscv_disable s \<Longrightarrow> calls t = calls s \<Longrightarrow> quiet s t"
  by (auto simp: quiet_def intro: exI [of _ "[]"])

lemma quiet_refl [simp]: "quiet s s"
  by (rule quiet_same) simp_all

lemma quiet_trans [trans]: "quiet s t \<Longrightarrow> quiet t u \<Longrightarrow> quiet s u"
  by (force simp: quiet_def)

lemma quiet_do_call: "\<not> halt_call c \<Longrightarrow> quiet s (do_call c s)"
  by (auto simp: quiet_def intro: exI [of _ "[c]"])

lemma halt_call_simps [simp]:
  "\<not> halt_call (VmirtSetMode d)" "\<not> halt_call (VmirtSetProcessorDataDomain m)"
  "\<not> halt_call (VmirtSetPC pc)" "\<not> halt_call (VmirtSetPCException pc)"
  "\<not> halt_call (TrapNotifier md)" "\<not> halt_call (ERETNotifier md)"
  "\<not> halt_call VmirtDoSynchronousInterrupt" "\<not> halt_call (VmirtSetBlockMask a)"
  "\<not> halt_call ResetNotifier"
  by (simp_all add: halt_call_def)

lemma quiet_riscvVMRefreshMPRVDomain: "quiet s (riscvVMRefreshMPRVDomain V s)"
  by (simp add: riscvVMRefreshMPRVDomain_def quiet_do_call)

lemma quiet_riscvSetMode: "quiet s (riscvSetMode V m s)"
proof -
  have "quiet s (do_call (VmirtSetMode d) (s\<lparr>riscv_mode := d\<rparr>))" for d
    by (rule quiet_trans [OF quiet_same quiet_do_call]) simp_all
  then show ?thesis
    by (auto simp: riscvSetMode_def Let_def intro: quiet_trans quiet_riscvVMRefreshMPRVDomain)
qed

lemma quiet_notify: "quiet s (notifyTrapDerived m s)" "quiet s (notifyERETDerived m s)"
  by (simp_all add: notifyTrapDerived_def notifyERETDerived_def quiet_do_call)

lemma quiet_riscvTakeException: "quiet s (riscvTakeException V e tval s)"
proof -
  let ?m = "trap_mode s e"
  obtain t base imode where eq: "TARGET_MODE_X (trap_regs ?m) (IS_INTERRUPT e) (GET_ECODE e)
      (getEPC V s) tval (trap_prepare e s) = (t, base, imode)"
    by (metis prod_cases3)
  let ?u = "trap_pp ?m (getCurrentMode s) t"
  have "quiet s ?u" by (rule quiet_same) (simp_all add: trap_pp_def TARGET_MODE_X_frame [OF eq])
  also have "quiet ?u (riscvSetMode V ?m ?u)" by (rule quiet_riscvSetMode)
  also have "quiet \<dots> ((riscvSetMode V ?m ?u)\<lparr>riscv_exception := e\<rparr>)" by (rule quiet_same) simp_all
  also have "quiet \<dots> (do_call (VmirtSetPCException pc) \<dots>)" for pc by (rule quiet_do_call) simp
  finally have "quiet s (notifyTrapDerived ?m (do_call (VmirtSetPCException pc)
      ((riscvSetMode V ?m ?u)\<lparr>riscv_exception := e\<rparr>)))" for pc
    by (rule quiet_trans) (rule quiet_notify(1))
  then show ?thesis by (simp add: riscvTakeException_eq eq Let_def)
qed

text \<open>No lost wake-up: a hart that waits in WFI has no pending interrupt.\<close>

definition wfi_ok :: "riscv \<Rightarrow> bool" where
  "wfi_ok s \<longleftrightarrow> (bit (riscv_disable s) 0 \<longrightarrow> getPendingInterrupts s = 0)"

lemma getPendingInterrupts_cong:
  "mie (csr s) = mie (csr t) \<Longrightarrow> mip (csr s) = mip (csr t) \<Longrightarrow> currentArch s = currentArch t
    \<Longrightarrow> getPendingInterrupts s = getPendingInterrupts t"
  by (simp add: getPendingInterrupts_def RD_CSR_FIELD_def RISCV_XLEN_IS_32_def)

lemma wfi_ok_cong:
  "mie (csr t) = mie (csr s) \<Longrightarrow> mip (csr t) = mip (csr s) \<Longrightarrow> currentArch t = currentArch s
    \<Longrightarrow> riscv_disable t = riscv_disable s \<Longrightarrow> wfi_ok s \<Longrightarrow> wfi_ok t"
  using getPendingInterrupts_cong [of t s] by (simp add: wfi_ok_def)

lemma wfi_ok_riscvTestInterrupt: "wfi_ok (riscvTestInterrupt s)"
proof -
  have "getPendingInterrupts (riscvTestInterrupt s) = getPendingInterrupts s"
    by (rule getPendingInterrupts_cong) simp_all
  moreover have "getPendingInterrupts s \<noteq> 0 \<Longrightarrow> \<not> bit (riscv_disable (riscvTestInterrupt s)) 0"
    by (simp add: riscvTestInterrupt_def Let_def bit_simps)
  ultimately show ?thesis by (auto simp: wfi_ok_def)
qed

lemma wfi_ok_riscvWFI: "wfi_ok s \<Longrightarrow> wfi_ok (riscvWFI s)"
  using getPendingInterrupts_cong [of "haltProcessor RVD_WFI s" s]
  by (simp add: wfi_ok_def riscvWFI_def)

lemma wfi_ok_riscvUpdatePending: "wfi_ok s \<Longrightarrow> wfi_ok (riscvUpdatePending s)"
  by (simp add: riscvUpdatePending_def Let_def wfi_ok_riscvTestInterrupt)

lemma wfi_ok_interruptPortCB: "wfi_ok s \<Longrightarrow> interruptPortCB i v s = Some t \<Longrightarrow> wfi_ok t"
  by (auto simp: interruptPortCB_def Let_def split: if_splits
      intro!: wfi_ok_riscvUpdatePending elim: wfi_ok_cong [rotated 4])

lemma wfi_ok_riscvTakeException: "wfi_ok s \<Longrightarrow> wfi_ok (riscvTakeException V e tval s)"
proof (rule wfi_ok_cong)
  show "mie (csr (riscvTakeException V e tval s)) = mie (csr s)"
    "mip (csr (riscvTakeException V e tval s)) = mip (csr s)"
    by (simp_all add: riscvTakeException_eq TARGET_MODE_X_def trap_pp_def trap_regs_def regs_U_def
        regs_S_def regs_M_def WR_CSR_FIELD_def WR_CSR2_FIELD_def Let_def)
qed simp_all

lemma wfi_ok_restart: "wfi_ok (restartProcessor RVD_RESTART_NMI s)" "wfi_ok (restartProcessor RVD_RESTART_RESET s)"
  by (simp_all add: wfi_ok_def bit_simps)

lemma wfi_ok_nmiPortCB: "wfi_ok s \<Longrightarrow> wfi_ok (nmiPortCB V v s)"
proof -
  have halt: "wfi_ok s \<Longrightarrow> wfi_ok (haltProcessor RVD_NMI s)"
    using getPendingInterrupts_cong [of "haltProcessor RVD_NMI s" s] by (simp add: wfi_ok_def bit_simps bit_2_iff)
  have nmi: "wfi_ok (doNMI V s)"
    using wfi_ok_restart(1) [of s] by (rule wfi_ok_cong [rotated 4])
      (simp_all add: doNMI_def Let_def WR_CSR_FIELD_def WR_CSR2_FIELD_def)
  have upd: "wfi_ok t \<Longrightarrow> wfi_ok (t\<lparr>netValue := n\<rparr>)" for t n by (erule wfi_ok_cong [rotated 4]) simp_all
  show "wfi_ok s \<Longrightarrow> wfi_ok (nmiPortCB V v s)"
    using halt nmi by (auto simp: nmiPortCB_def Let_def intro!: upd)
qed

lemma riscvMRET_split: "\<exists>t. riscvMRET V s = riscvTestInterrupt t \<and> quiet s t"
  "\<exists>t. riscvSRET V s = riscvTestInterrupt t \<and> quiet s t"
  "\<exists>t. riscvURET V s = riscvTestInterrupt t \<and> quiet s t"
proof -
  have step: "quiet s t \<Longrightarrow> quiet s (notifyERETDerived m (setPC pc (riscvSetMode V n t)))" for t m pc n
    unfolding setPC_def
    by (rule quiet_trans [OF _ quiet_notify(2)], rule quiet_trans [OF _ quiet_do_call],
        erule quiet_trans, rule quiet_riscvSetMode, simp)
  have wr: "quiet s t \<Longrightarrow> quiet s (WR_CSR_FIELD u f v t)" for t u f v
    by (erule quiet_trans) (rule quiet_same; simp)
  have ea: "quiet s (clearEA s)" by (rule quiet_same) (simp_all add: clearEA_def)
  show "\<exists>t. riscvMRET V s = riscvTestInterrupt t \<and> quiet s t"
    unfolding riscvMRET_def Let_def by (rule exI, rule conjI, rule refl, intro step wr ea)
  show "\<exists>t. riscvSRET V s = riscvTestInterrupt t \<and> quiet s t"
    unfolding riscvSRET_def Let_def by (rule exI, rule conjI, rule refl, intro step wr ea)
  show "\<exists>t. riscvURET V s = riscvTestInterrupt t \<and> quiet s t"
    unfolding riscvURET_def Let_def by (rule exI, rule conjI, rule refl, intro step wr ea)
qed

context kernel_halt
begin

text \<open>The hart is halted in the kernel exactly when it has a reason to be disabled.\<close>

lemma halt_quiet:
  assumes "quiet s t" and "halted (calls s) \<longleftrightarrow> riscv_disable s \<noteq> 0"
  shows "halted (calls t) \<longleftrightarrow> riscv_disable t \<noteq> 0"
proof -
  have "halted (xs @ cs) = halted xs" if "list_all (\<lambda>c. \<not> halt_call c) cs" for xs cs
    using that by (induction cs rule: rev_induct) (simp_all add: halted_other flip: append_assoc)
  with assms show ?thesis by (auto simp: quiet_def)
qed

lemma halt_haltProcessor:
  assumes "reason \<noteq> 0" and "halted (calls s) \<longleftrightarrow> riscv_disable s \<noteq> 0"
  shows "halted (calls (haltProcessor reason s)) \<longleftrightarrow> riscv_disable (haltProcessor reason s) \<noteq> 0"
  using assms by (auto simp: haltProcessor_def Let_def halted_halt or_eq_0_iff)

lemma halt_restartProcessor:
  assumes "halted (calls s) \<longleftrightarrow> riscv_disable s \<noteq> 0"
  shows "halted (calls (restartProcessor reason s)) \<longleftrightarrow> riscv_disable (restartProcessor reason s) \<noteq> 0"
  using assms by (auto simp: restartProcessor_def Let_def halted_restart)

lemma halt_riscvTestInterrupt:
  assumes "halted (calls s) \<longleftrightarrow> riscv_disable s \<noteq> 0"
  shows "halted (calls (riscvTestInterrupt s)) \<longleftrightarrow> riscv_disable (riscvTestInterrupt s) \<noteq> 0"
  using assms halt_restartProcessor [OF assms] halted_other
  by (simp add: riscvTestInterrupt_def Let_def)

lemma halt_riscvUpdatePending:
  assumes "halted (calls s) \<longleftrightarrow> riscv_disable s \<noteq> 0"
  shows "halted (calls (riscvUpdatePending s)) \<longleftrightarrow> riscv_disable (riscvUpdatePending s) \<noteq> 0"
  using assms by (simp add: riscvUpdatePending_def Let_def halt_riscvTestInterrupt)

lemma halt_doNMI:
  assumes "halted (calls s) \<longleftrightarrow> riscv_disable s \<noteq> 0"
  shows "halted (calls (doNMI V s)) \<longleftrightarrow> riscv_disable (doNMI V s) \<noteq> 0"
proof -
  let ?r = "restartProcessor RVD_RESTART_NMI s"
  have "quiet ?r (riscvSetMode V RISCV_MODE_MACHINE ?r)" by (rule quiet_riscvSetMode)
  also have "quiet \<dots> (doNMI V s)"
    unfolding doNMI_def Let_def by (rule quiet_trans [OF quiet_same quiet_do_call]) simp_all
  finally show ?thesis using halt_restartProcessor [OF assms] by (rule halt_quiet)
qed

end

fun halted_of_calls_rev :: "vmicall list \<Rightarrow> bool" where
  "halted_of_calls_rev [] = False"
| "halted_of_calls_rev (VmirtHalt # cs) = True"
| "halted_of_calls_rev (VmirtRestartNext # cs) = False"
| "halted_of_calls_rev (c # cs) = halted_of_calls_rev cs"

definition halted_of_calls :: "vmicall list \<Rightarrow> bool" where
  "halted_of_calls cs = halted_of_calls_rev (rev cs)"

interpretation halt_log: kernel_halt halted_of_calls
proof
  fix c cs assume "\<not> halt_call c"
  then show "halted_of_calls (cs @ [c]) = halted_of_calls cs"
    by (cases c) (simp_all add: halted_of_calls_def halt_call_def)
qed (simp_all add: halted_of_calls_def)

section \<open>Properties\<close>

text \<open>A kernel that answers with a fixed PC and no faults, and a 64-bit core with Machine,
  Supervisor and User mode that runs in User mode with interrupts enabled, with the Machine timer
  interrupt enabled and pending and the page faults delegated to Supervisor mode.\<close>

definition vmirt_example :: vmirt where
  "vmirt_example = \<lparr>vmirtGetPC = (\<lambda>_. 0x80000104), vmirtGetPCDS = (\<lambda>_. (0x80000104, 0)),
     vmirtGetProcessorDataDomain = (\<lambda>_. 0), vmirtGetICount = (\<lambda>_. 0), vmirtGetExecutedICount = (\<lambda>_. 0),
     vmirtTimeMicros = (\<lambda>_. 0), vmirtIsExecutable = (\<lambda>_ _. True), vmirtRead4ByteDomain = (\<lambda>_ _ _. (0, False)),
     vmirtRead8ByteDomain = (\<lambda>_ _ _. (0, False)), vmirtWriteAborts = (\<lambda>_ _ _. False),
     vmirtReadMisses = (\<lambda>_ _ _. False), vmirtWriteMisses = (\<lambda>_ _ _. False),
     vmirtRangeOrder = (\<lambda>_ es. es), vmirtNewDomain = (\<lambda>cs. Suc (length cs)),
     vmirtGetDomainAddressBits = (\<lambda>_. 56), vmirtFetch2 = (\<lambda>_ _. 0), vmirtFetch4 = (\<lambda>_ _. 0x13)\<rparr>"

definition hart_example :: riscv where
  "hart_example =
     (riscv_zero (riscvConfig_zero\<lparr>cfg_arch := ISA_XLEN_64 OR ISA_S OR ISA_U\<rparr>))\<lparr>
        currentArch := ISA_XLEN_64 OR ISA_S OR ISA_U,
        csr := riscvCSRs_zero\<lparr>mstatus := 0xA, mie := 0x80, mip := 0x80, medeleg := 0xB000,
          mtvec := 0x80000001, stvec := 0x80400000\<rparr>,
        csrMask := riscvCSRMasks_zero\<lparr>mepcM := - 2, sepcM := - 2\<rparr>\<rparr>"

text \<open>An exception or interrupt is taken to the mode to which the delegation registers assign
  it, unless the hart already runs in a higher mode; privilege never drops on trap entry.\<close>

lemma riscvTakeException_target:
  assumes "GET_ECODE e < 32"
  shows "getCurrentMode (riscvTakeException V e tval s) = max (getCurrentMode s)
    (if IS_INTERRUPT e then delegated_mode (RD_CSR s mideleg) (RD_CSR s sideleg) (GET_ECODE e)
     else delegated_mode (RD_CSR s medeleg) (RD_CSR s sedeleg) (GET_ECODE e))"
  using assms by (simp add: trap_mode_def getInterruptModeX_def getExceptionModeX_def getModeX_eq)



text \<open>C7. A trap to Machine mode followed by \<^verbatim>\<open>MRET\<close> is transparent: the hart is back in the mode it
  was in, at the (masked) exception PC, with the interrupt enable of every mode as before the trap.\<close>

theorem riscvMRET_returns:
  assumes "trap_mode s e = RISCV_MODE_MACHINE" and "riscvHasMode s (getCurrentMode s)"
  shows "let t = riscvMRET V (riscvTakeException V e tval s)
    in getCurrentMode t = getCurrentMode s
      \<and> last_pc t = Some (getEPC V s AND RD_CSR_MASK s mepcM) \<and> (\<forall>m. mode_IE t m = mode_IE s m)"
proof -
  define u where "u = riscvTakeException V e tval s"
  define t where "t = riscvMRET V u"
  have x: "RISCV_XLEN_IS_32 u = RISCV_XLEN_IS_32 s" "RISCV_XLEN_IS_32 t = RISCV_XLEN_IS_32 s"
    by (simp_all add: u_def t_def riscvMRET_def RISCV_XLEN_IS_32_def setPC_def clearEA_def Let_def)
  have pp: "field_trunc b status_MPP (of_nat (mode_code m)) = of_nat (mode_code m)" for b m
    by (rule field_trunc_of_nat) simp
  have inv: "mode_of (unat (of_nat (mode_code m) :: uns64)) = m" for m by (cases m) (simp_all add: mode_of_def)
  note trap_entry_M [OF assms(1), of V tval, folded u_def]
  moreover have "riscvHasMode u (getCurrentMode s)"
    using assms(2) by (cases "getCurrentMode s") (simp_all add: u_def)
  ultimately show ?thesis
    using riscvMRET_eq [of V u, folded t_def]
    by (simp add: Let_def RD_CSR_FIELD_def mode_IE_def x pp inv getERETMode_def flip: u_def t_def)
qed

theorem riscvMRET_returns_witness:
  "last_pc (riscvMRET vmirt_example (riscvTakeException vmirt_example 0x47 0 hart_example)) = Some 0x80000104"
proof -
  have "trap_mode hart_example 0x47 = RISCV_MODE_MACHINE" "riscvHasMode hart_example (getCurrentMode hart_example)"
    "getEPC vmirt_example hart_example AND RD_CSR_MASK hart_example mepcM = 0x80000104"
    by code_simp+
  then show ?thesis
    using riscvMRET_returns [of hart_example "0x47" vmirt_example 0] by (simp add: Let_def)
qed

text \<open>Likewise for a trap to Supervisor mode followed by \<^verbatim>\<open>SRET\<close>, whose previous-mode field has
  one bit.\<close>

lemma riscvSRET_returns:
  assumes "trap_mode s e = RISCV_MODE_SUPERVISOR" and "riscvHasMode s (getCurrentMode s)"
  shows "let t = riscvSRET V (riscvTakeException V e tval s)
    in getCurrentMode t = getCurrentMode s
      \<and> last_pc t = Some (getEPC V s AND RD_CSR_MASK s sepcM) \<and> (\<forall>m. mode_IE t m = mode_IE s m)"
proof -
  define u where "u = riscvTakeException V e tval s"
  define t where "t = riscvSRET V u"
  have x: "RISCV_XLEN_IS_32 u = RISCV_XLEN_IS_32 s" "RISCV_XLEN_IS_32 t = RISCV_XLEN_IS_32 s"
    by (simp_all add: u_def t_def riscvSRET_def RISCV_XLEN_IS_32_def setPC_def clearEA_def Let_def)
  have "getCurrentMode s \<le> RISCV_MODE_SUPERVISOR"
    using assms(1) trap_mode_ge [of s e] by simp
  then have pp: "field_trunc b status_SPP (of_nat (mode_code (getCurrentMode s)))
      = of_nat (mode_code (getCurrentMode s))" for b
    by (intro field_trunc_of_nat) (simp add: mode_ord)
  have inv: "mode_of (unat (of_nat (mode_code m) :: uns64)) = m" for m by (cases m) (simp_all add: mode_of_def)
  note trap_entry_S [OF assms(1), of V tval, folded u_def]
  moreover have "riscvHasMode u (getCurrentMode s)"
    using assms(2) by (cases "getCurrentMode s") (simp_all add: u_def)
  ultimately show ?thesis
    using riscvSRET_eq [of V u, folded t_def] pp [of "RISCV_XLEN_IS_32 s"]
    by (simp add: Let_def RD_CSR_FIELD_def mode_IE_def x inv getERETMode_def flip: u_def t_def)
qed

text \<open>An interrupt is reported as pending and enabled exactly when it is enabled in \<^verbatim>\<open>mie\<close>, pending
  in \<^verbatim>\<open>mip\<close>, and the mode to which it is delegated is above the current mode, or is the current mode
  with its interrupt enable set.\<close>

lemma getPendingAndEnabledInterrupts_bit:
  "bit (getPendingAndEnabledInterrupts s) i \<longleftrightarrow>
     bit (RD_CSR s mie) i \<and> bit (RD_CSR s mip) i \<and> int_enabled s i"
  by (simp add: pending_enabled_bit getPendingInterrupts_def bit_and_iff)

text \<open>C12. Of the pending and enabled interrupts the one with the highest number is taken, to the mode
  to which it is delegated, and the search for it ends.\<close>

theorem doInterrupt_highest:
  assumes "bit (getPendingAndEnabledInterrupts s) h" and "h < 32"
    and "\<forall>j>h. \<not> bit (getPendingAndEnabledInterrupts s) j"
  shows "\<exists>t. doInterrupt V (getPendingAndEnabledInterrupts s) s = Some t
    \<and> riscv_exception t = riscv_E_Interrupt + h \<and> getCurrentMode t = int_mode s h
    \<and> getCurrentMode s \<le> getCurrentMode t"
proof -
  let ?t = "riscvTakeException V (riscv_E_Interrupt + h) 0 s"
  have "unat (ecode_loop (getPendingAndEnabledInterrupts s) (- 1)) = h"
    using assms by (simp add: ecode_loop_highest [of _ h] unsigned_of_nat take_bit_nat_eq_self)
  moreover have "getPendingAndEnabledInterrupts s \<noteq> 0" using assms(1) by auto
  ultimately have "doInterrupt V (getPendingAndEnabledInterrupts s) s = Some ?t"
    by (simp add: doInterrupt_def)
  moreover have "int_enabled s h" using assms(1) by (simp add: pending_enabled_bit)
  ultimately show ?thesis
    using trap_mode_interrupt [OF assms(2), of s] int_enabled_mode [of s h]
      trap_mode_ge [of s "riscv_E_Interrupt + h"] by simp
qed

theorem doInterrupt_highest_witness:
  "\<exists>t. doInterrupt vmirt_example (getPendingAndEnabledInterrupts hart_example) hart_example = Some t
    \<and> riscv_exception t = 0x47 \<and> getCurrentMode t = int_mode hart_example 7
    \<and> getCurrentMode hart_example \<le> getCurrentMode t"
proof -
  have eq: "getPendingAndEnabledInterrupts hart_example = push_bit 7 1" by code_simp
  have "bit (getPendingAndEnabledInterrupts hart_example) j \<longleftrightarrow> j = 7" for j
    unfolding eq bit_push_bit_iff by (auto simp: bit_1_iff)
  then show ?thesis using doInterrupt_highest [of hart_example 7 vmirt_example] by simp
qed

text \<open>The masks of implemented exceptions collect the entries of the table.\<close>

lemma fold_exception_mask:
  "(bit (fst (fold (exception_mask_step arch) ds (em, im))) i \<longleftrightarrow> i < 64 \<and> (bit em i \<or>
     (\<exists>d\<in>set ds. arch AND desc_arch d = desc_arch d \<and> desc_code d < riscv_E_Interrupt \<and> desc_code d = i)))
   \<and> (bit (snd (fold (exception_mask_step arch) ds (em, im))) i \<longleftrightarrow> i < 64 \<and> (bit im i \<or>
     (\<exists>d\<in>set ds. arch AND desc_arch d = desc_arch d \<and> riscv_E_Interrupt \<le> desc_code d
       \<and> desc_code d < riscv_E_LocalInterrupt \<and> desc_code d = riscv_E_Interrupt + i)))"
proof (induction ds arbitrary: em im)
  case Nil
  show ?case by (auto dest: bit_imp_le_length)
next
  case (Cons d ds)
  obtain em' im' where st: "exception_mask_step arch d (em, im) = (em', im')" by fastforce
  let ?arch = "arch AND desc_arch d = desc_arch d"
  have em': "bit em' i \<longleftrightarrow> bit em i \<or> ?arch \<and> desc_code d < 64 \<and> desc_code d = i"
    and im': "bit im' i \<longleftrightarrow> bit im i \<or> ?arch \<and> 64 \<le> desc_code d \<and> desc_code d < 80 \<and> desc_code d = 64 + i"
    if "i < 64" for i
    using that st by (auto simp: exception_mask_step_def Let_def bit_simps split: if_splits)
  show ?case using Cons.IH [of em' im'] by (auto simp: st em' im')
qed

lemma bit_riscvGetLocalIntMask:
  "config_ok s \<Longrightarrow> bit (riscvGetLocalIntMask s) i \<longleftrightarrow> 16 \<le> i \<and> i < 16 + local_int_num (configInfo s)"
  using bit_low_mask [of "local_int_num (configInfo s)" "i - 16"]
  by (auto simp: riscvGetLocalIntMask_def low_mask_def bit_push_bit_iff config_ok_def
      simp del: push_bit_of_1)

text \<open>After \<^verbatim>\<open>riscvSetExceptionMask\<close> the implemented exceptions are those of the table whose required
  features the variant has, and the implemented local interrupts are exactly the first
  \<^verbatim>\<open>local_int_num\<close>.\<close>

lemma hasException_riscvSetExceptionMask:
  assumes "config_ok s" and "code < 128"
  shows "hasException (riscvSetExceptionMask s) code \<longleftrightarrow>
    (code < riscv_E_LocalInterrupt \<and> (\<exists>d\<in>set exceptions. desc_code d = code
       \<and> cfg_arch (configInfo s) AND desc_arch d = desc_arch d))
    \<or> (riscv_E_LocalInterrupt \<le> code \<and> code < riscv_E_LocalInterrupt + local_int_num (configInfo s))"
proof -
  let ?arch = "cfg_arch (configInfo s)"
  let ?listed = "\<exists>d\<in>set exceptions. desc_code d = code \<and> ?arch AND desc_arch d = desc_arch d"
  obtain em im where eq: "fold (exception_mask_step ?arch) exceptions (0, 0) = (em, im)" by fastforce
  note masks = fold_exception_mask [of ?arch exceptions 0 0, unfolded eq, simplified]
  have "hasException (riscvSetExceptionMask s) code \<longleftrightarrow>
      (if code < 64 then bit em code else bit im (code - 64) \<or> bit (riscvGetLocalIntMask s) (code - 64))"
    by (simp add: hasException_def riscvSetExceptionMask_def eq bit_or_iff)
  moreover have "bit em code \<longleftrightarrow> ?listed" if "code < 64"
    using masks [of code] that by auto
  moreover have "bit im (code - 64) \<longleftrightarrow> ?listed" if "64 \<le> code" "code < 80"
    using masks [of "code - 64"] that by auto
  moreover have "\<not> bit im (code - 64)" if "80 \<le> code"
    using masks [of "code - 64"] that by auto
  moreover have "bit (riscvGetLocalIntMask s) (code - 64) \<longleftrightarrow>
      80 \<le> code \<and> code < 80 + local_int_num (configInfo s)" if "64 \<le> code"
    using that by (auto simp: bit_riscvGetLocalIntMask [OF assms(1)])
  ultimately show ?thesis by (cases "code < 64"; cases "code < 80") simp_all
qed

end
