(* ===== verification/RiscvPTW.thy ===== *)
theory RiscvPTW
  imports RiscvPMP RiscvException "HOL-Library.Sublist"
begin

text \<open>
  Page table walks (\<^verbatim>\<open>riscvVM.c\<close>, from UTILITIES to Sv48 PAGE TABLE WALK): the access rights of an
  entry under \<^verbatim>\<open>MXR\<close> and \<^verbatim>\<open>SUM\<close>, reads and writes of page table entries through the Supervisor PMP
  domain, walk errors and the exceptions they become, and the Sv32, Sv39 and Sv48 walks. The code
  has three copies of the walk that differ in the number of levels and the widths of the fields;
  the model has one, \<open>ptw\<close>, with those numbers as the argument \<open>svMode\<close>.
\<close>

section \<open>Entry attributes and permissions\<close>

definition getMXR :: "riscv \<Rightarrow> bool" where
  "getMXR s \<longleftrightarrow> RD_CSR_FIELD s mstatus status_MXR \<noteq> 0"

definition getSUM :: "riscv \<Rightarrow> bool" where
  "getSUM s \<longleftrightarrow> RD_CSR_FIELD s mstatus status_SUM \<noteq> 0"

definition getActiveASID :: "riscv \<Rightarrow> uns32" where
  "getActiveASID s = ucast (RD_CSR2_FIELD s satp atp_ASID)"

definition getG :: "riscv \<Rightarrow> bool \<Rightarrow> bool" where
  "getG s G \<longleftrightarrow> G \<or> getASIDMask s = 0"

definition updatePTEA :: "riscv \<Rightarrow> bool" where
  "updatePTEA s = cfg_updatePTEA (configInfo s)"

definition updatePTED :: "riscv \<Rightarrow> bool" where
  "updatePTED s = cfg_updatePTED (configInfo s)"

definition isFetch :: "memPriv \<Rightarrow> bool" where
  "isFetch priv = has priv MEM_PRIV_X"

abbreviation (input) RISCV_PAGE_SHIFT :: nat where "RISCV_PAGE_SHIFT \<equiv> 12"

definition getPTETableAddress :: "uns64 \<Rightarrow> uns64" where
  "getPTETableAddress PPN = push_bit RISCV_PAGE_SHIFT PPN"

definition getRootTableAddress :: "riscv \<Rightarrow> uns64" where
  "getRootTableAddress s = getPTETableAddress (RD_CSR2_FIELD s satp atp_PPN)"

definition checkEntryPermission :: "riscv \<Rightarrow> riscvMode \<Rightarrow> tlbEntry \<Rightarrow> memPriv \<Rightarrow> memPriv" where
  "checkEntryPermission s mode entry requiredPriv =
     (let priv = e_priv entry;
          priv = (if has priv MEM_PRIV_X \<and> getMXR s then priv OR MEM_PRIV_R else priv);
          priv = (if mode = RISCV_MODE_USER
                  then if \<not> e_U entry then MEM_PRIV_NONE else priv
                  else if e_U entry
                  then if \<not> getSUM s then MEM_PRIV_NONE
                       else if priv_version (configInfo s) = RVPV_1_11 then priv AND NOT MEM_PRIV_X
                       else priv
                  else priv)
      in if priv AND requiredPriv = requiredPriv then priv else MEM_PRIV_NONE)"

text \<open>\<open>VPN\<close> and \<open>VPNextend\<close> are signed bit fields.\<close>

definition validVA :: "int \<Rightarrow> int \<Rightarrow> bool" where
  "validVA VPN VPNextend \<longleftrightarrow> (if VPN \<ge> 0 then VPNextend = 0 else VPNextend = - 1)"

section \<open>Access to page tables\<close>

definition getPMPDomainPriv :: "riscv \<Rightarrow> riscvMode \<Rightarrow> memPriv \<Rightarrow> memDomainP" where
  "getPMPDomainPriv s mode priv = pmpDomains s mode (isFetch priv)"

definition getPTWDomain :: "riscv \<Rightarrow> memDomainP" where
  "getPTWDomain s = getPMPDomainPriv s RISCV_MODE_SUPERVISOR MEM_PRIV_RW"

text \<open>When the PMP domain lacks the privilege for the access, the kernel calls the privilege
  exception handler, whose \<^verbatim>\<open>riscvVMMiss\<close> on a PMP domain refreshes the PMP mapping.\<close>

definition ptwPrivExcept :: "memPriv \<Rightarrow> uns64 \<Rightarrow> nat \<Rightarrow> riscv \<Rightarrow> riscv" where
  "ptwPrivExcept requiredPriv address bytes s =
     mapPMP RISCV_MODE_SUPERVISOR requiredPriv address (address + of_nat bytes - 1)
       (s\<lparr>AFErrorIn := riscv_AFault_Bus\<rparr>)"

definition readPageTableEntry :: "vmirt \<Rightarrow> memDomainP \<Rightarrow> uns64 \<Rightarrow> nat \<Rightarrow> riscv \<Rightarrow> riscv \<times> uns64" where
  "readPageTableEntry V domain PTEAddr entryBytes s =
     (let s = s\<lparr>PTWActive := True, PTWBadAddr := False\<rparr>;
          s = (if vmirtReadMisses V (calls s) domain PTEAddr
               then ptwPrivExcept MEM_PRIV_R PTEAddr entryBytes s else s);
          (result, aborts) =
            (if entryBytes = 4
             then let (v, bad) = vmirtRead4ByteDomain V (calls s) domain PTEAddr in (ucast v, bad)
             else vmirtRead8ByteDomain V (calls s) domain PTEAddr);
          s = (if aborts then riscvRdAbortExcept V PTEAddr s else s)
      in (s\<lparr>PTWActive := False\<rparr>, result))"

definition writePageTableEntry :: "vmirt \<Rightarrow> memDomainP \<Rightarrow> uns64 \<Rightarrow> nat \<Rightarrow> uns64 \<Rightarrow> riscv \<Rightarrow> riscv" where
  "writePageTableEntry V domain PTEAddr entryBytes value s =
     (let s = s\<lparr>PTWActive := True, PTWBadAddr := False\<rparr>;
          s = (if artifactAccess s then s
               else let s = (if vmirtWriteMisses V (calls s) domain PTEAddr
                             then ptwPrivExcept MEM_PRIV_W PTEAddr entryBytes s else s)
                    in if vmirtWriteAborts V (calls s) domain PTEAddr
                       then riscvWrAbortExcept V PTEAddr s
                       else if entryBytes = 4 then do_call (VmirtWrite4ByteDomain domain PTEAddr (ucast value)) s
                       else do_call (VmirtWrite8ByteDomain domain PTEAddr value) s)
      in s\<lparr>PTWActive := False\<rparr>)"

section \<open>Walk errors\<close>

datatype pteError = PTEE_VAEXTEND | PTEE_READ | PTEE_WRITE | PTEE_V0 | PTEE_R0W1 | PTEE_LEAF
  | PTEE_ALIGN | PTEE_PRIV | PTEE_A0 | PTEE_D0

text \<open>The messages that the code prints for an error are not part of the model.\<close>

definition handlePTWException :: "memPriv \<Rightarrow> pteError \<Rightarrow> riscvException" where
  "handlePTWException requiredPriv err =
     (if err = PTEE_READ then riscv_E_LoadAccessFault
      else if err = PTEE_WRITE then riscv_E_StoreAMOAccessFault
      else if requiredPriv = MEM_PRIV_R then riscv_E_LoadPageFault
      else if requiredPriv = MEM_PRIV_W then riscv_E_StoreAMOPageFault
      else riscv_E_InstructionPageFault)"

section \<open>The walk\<close>

text \<open>Levels, bits of a VPN part, bytes of an entry, bits of the PPN field, and bits of the
  virtual address that are translated.\<close>

record svMode =
  sv_levels :: nat
  sv_shift :: nat
  sv_bytes :: nat
  sv_ppn :: nat
  sv_bits :: nat

definition sv32 :: svMode where
  "sv32 = \<lparr>sv_levels = 2, sv_shift = 10, sv_bytes = 4, sv_ppn = 22, sv_bits = 32\<rparr>"

definition sv39 :: svMode where
  "sv39 = \<lparr>sv_levels = 3, sv_shift = 9, sv_bytes = 8, sv_ppn = 44, sv_bits = 39\<rparr>"

definition sv48 :: svMode where
  "sv48 = \<lparr>sv_levels = 4, sv_shift = 9, sv_bytes = 8, sv_ppn = 44, sv_bits = 48\<rparr>"

definition getVPNi :: "svMode \<Rightarrow> uns64 \<Rightarrow> nat \<Rightarrow> uns64" where
  "getVPNi sv VA level = getf (RISCV_PAGE_SHIFT + level * sv_shift sv) (sv_shift sv) VA"

definition pte_priv :: "uns64 \<Rightarrow> memPriv" where
  "pte_priv PTE = ucast (getf 1 3 PTE)"

definition pte_PPN :: "svMode \<Rightarrow> uns64 \<Rightarrow> uns64" where
  "pte_PPN sv PTE = getf 10 (sv_ppn sv) PTE"

text \<open>The \<^verbatim>\<open>for\<close> loop over the levels: \<open>Suc i\<close> levels are left, with the table at \<open>a\<close>. A leaf is
  reported with its level, its address and its value.\<close>

fun ptw_loop ::
  "vmirt \<Rightarrow> svMode \<Rightarrow> memDomainP \<Rightarrow> uns64 \<Rightarrow> nat \<Rightarrow> uns64 \<Rightarrow> riscv \<Rightarrow> riscv \<times> (pteError + nat \<times> uns64 \<times> uns64)" where
  "ptw_loop V sv domain VA 0 a s = (s, Inl PTEE_LEAF)"
| "ptw_loop V sv domain VA (Suc i) a s =
     (let PTEAddr = a + getVPNi sv VA i * of_nat (sv_bytes sv);
          (s, PTE) = readPageTableEntry V domain PTEAddr (sv_bytes sv) s
      in if PTWBadAddr s then (s, Inl PTEE_READ)
         else if \<not> bit PTE 0 then (s, Inl PTEE_V0)
         else if pte_priv PTE AND MEM_PRIV_RW = MEM_PRIV_W then (s, Inl PTEE_R0W1)
         else if pte_priv PTE \<noteq> 0 then (s, Inr (i, PTEAddr, PTE))
         else ptw_loop V sv domain VA i (getPTETableAddress (pte_PPN sv PTE)) s)"

text \<open>The rest of the lookup on a leaf: alignment, the entry's fields, permissions, and the
  update of the accessed and dirty bits.\<close>

definition ptw_entry :: "riscv \<Rightarrow> svMode \<Rightarrow> uns64 \<Rightarrow> nat \<Rightarrow> uns64 \<Rightarrow> tlbEntry \<Rightarrow> tlbEntry" where
  "ptw_entry s sv VA i PTE entry =
     (let size = push_bit (i * sv_shift sv + RISCV_PAGE_SHIFT) 1; low = VA AND - size
      in entry\<lparr>e_lowVA := low, e_highVA := low + size - 1,
           e_PA := push_bit RISCV_PAGE_SHIFT (pte_PPN sv PTE), e_priv := pte_priv PTE,
           e_U := bit PTE 4, e_G := getG s (bit PTE 5), e_A := bit PTE 6, e_D := bit PTE 7\<rparr>)"

definition ptw_leaf ::
  "vmirt \<Rightarrow> svMode \<Rightarrow> memDomainP \<Rightarrow> riscvMode \<Rightarrow> memPriv \<Rightarrow> uns64 \<Rightarrow> nat \<times> uns64 \<times> uns64 \<Rightarrow> tlbEntry
    \<Rightarrow> riscv \<Rightarrow> riscv \<times> (pteError + tlbEntry)" where
  "ptw_leaf V sv domain mode requiredPriv VA leaf entry s =
     (let (i, PTEAddr, PTE) = leaf;
          size = push_bit (i * sv_shift sv + RISCV_PAGE_SHIFT) 1;
          PA = push_bit RISCV_PAGE_SHIFT (pte_PPN sv PTE);
          entry = ptw_entry s sv VA i PTE entry
      in if PA AND (size - 1) \<noteq> 0 then (s, Inl PTEE_ALIGN)
         else if checkEntryPermission s mode entry requiredPriv = MEM_PRIV_NONE then (s, Inl PTEE_PRIV)
         else if \<not> e_A entry \<and> \<not> updatePTEA s then (s, Inl PTEE_A0)
         else let setA = (\<not> e_A entry);
                  entry = entry\<lparr>e_A := True\<rparr>;
                  PTE = (if setA then set_bit 6 PTE else PTE);
                  needD = (\<not> e_D entry \<and> has requiredPriv MEM_PRIV_W)
              in if needD \<and> \<not> updatePTED s then (s, Inl PTEE_D0)
                 else let entry = (if needD then entry\<lparr>e_D := True\<rparr> else entry);
                          PTE = (if needD then set_bit 7 PTE else PTE)
                      in if setA \<or> needD
                         then let s = writePageTableEntry V domain PTEAddr (sv_bytes sv) PTE s
                              in if PTWBadAddr s then (s, Inl PTEE_WRITE) else (s, Inr entry)
                         else (s, Inr entry))"

definition ptw ::
  "vmirt \<Rightarrow> svMode \<Rightarrow> riscvMode \<Rightarrow> tlbEntry \<Rightarrow> memPriv \<Rightarrow> uns64 \<Rightarrow> riscv \<Rightarrow> riscv \<times> (riscvException + tlbEntry)" where
  "ptw V sv mode entry requiredPriv VA s =
     (let domain = getPTWDomain s;
          VA = VA AND NOT (push_bit RISCV_PAGE_SHIFT 1 - 1);
          (s, leaf) = ptw_loop V sv domain VA (sv_levels sv) (getRootTableAddress s) s
      in case leaf of Inl e \<Rightarrow> (s, Inl (handlePTWException requiredPriv e))
         | Inr l \<Rightarrow> (let (s, r) = ptw_leaf V sv domain mode requiredPriv VA l entry s
             in (s, case r of Inl e \<Rightarrow> Inl (handlePTWException requiredPriv e) | Inr e \<Rightarrow> Inr e)))"

text \<open>\<^verbatim>\<open>Sv32VA\<close> holds the low 32 bits of the address; \<^verbatim>\<open>Sv39VA\<close> and \<^verbatim>\<open>Sv48VA\<close> split it into signed
  fields above the page offset.\<close>

definition sfield :: "nat \<Rightarrow> nat \<Rightarrow> uns64 \<Rightarrow> int" where
  "sfield lo w VA = signed_take_bit (w - 1) (uint (drop_bit lo VA))"

definition tlbLookupSv32 ::
  "vmirt \<Rightarrow> riscvMode \<Rightarrow> tlbEntry \<Rightarrow> memPriv \<Rightarrow> riscv \<Rightarrow> riscv \<times> (riscvException + tlbEntry)" where
  "tlbLookupSv32 V mode entry requiredPriv s = ptw V sv32 mode entry requiredPriv (take_bit 32 (e_lowVA entry)) s"

definition tlbLookupSv39 ::
  "vmirt \<Rightarrow> riscvMode \<Rightarrow> tlbEntry \<Rightarrow> memPriv \<Rightarrow> riscv \<Rightarrow> riscv \<times> (riscvException + tlbEntry)" where
  "tlbLookupSv39 V mode entry requiredPriv s =
     (let VA = e_lowVA entry
      in if \<not> validVA (sfield 12 27 VA) (sfield 39 25 VA)
         then (s, Inl (handlePTWException requiredPriv PTEE_VAEXTEND))
         else ptw V sv39 mode entry requiredPriv VA s)"

definition tlbLookupSv48 ::
  "vmirt \<Rightarrow> riscvMode \<Rightarrow> tlbEntry \<Rightarrow> memPriv \<Rightarrow> riscv \<Rightarrow> riscv \<times> (riscvException + tlbEntry)" where
  "tlbLookupSv48 V mode entry requiredPriv s =
     (let VA = e_lowVA entry
      in if \<not> validVA (sfield 12 36 VA) (sfield 48 16 VA)
         then (s, Inl (handlePTWException requiredPriv PTEE_VAEXTEND))
         else ptw V sv48 mode entry requiredPriv VA s)"

text \<open>The dispatch on the translation mode; any other mode is a \<^verbatim>\<open>VMI_ABORT\<close>.\<close>

abbreviation (input) VAM_Sv32 :: uns64 where "VAM_Sv32 \<equiv> 1"
abbreviation (input) VAM_Sv39 :: uns64 where "VAM_Sv39 \<equiv> 8"
abbreviation (input) VAM_Sv48 :: uns64 where "VAM_Sv48 \<equiv> 9"

definition tlbLookup ::
  "vmirt \<Rightarrow> riscvMode \<Rightarrow> tlbEntry \<Rightarrow> memPriv \<Rightarrow> riscv \<Rightarrow> (riscv \<times> (riscvException + tlbEntry)) option" where
  "tlbLookup V mode entry requiredPriv s =
     (let vaMode = RD_CSR2_FIELD s satp atp_MODE
      in if vaMode = VAM_Sv32 then Some (tlbLookupSv32 V mode entry requiredPriv s)
         else if vaMode = VAM_Sv39 then Some (tlbLookupSv39 V mode entry requiredPriv s)
         else if vaMode = VAM_Sv48 then Some (tlbLookupSv48 V mode entry requiredPriv s)
         else None)"

section \<open>Facts on pages\<close>

lemma page_low: "VA AND - push_bit k 1 = VA AND NOT (mask k)" for VA :: uns64
  by (simp add: minus_exp_eq_not_mask)

lemma page_high: "(VA AND NOT (mask k)) + push_bit k 1 - 1 = (VA AND NOT (mask k)) OR mask k" for VA :: uns64
proof -
  have "(VA AND NOT (mask k)) AND mask k = 0" by (rule bit_word_eqI) (auto simp: bit_simps)
  then have "(VA AND NOT (mask k)) OR mask k = (VA AND NOT (mask k)) + mask k"
    by (simp add: disjunctive_add_eq_or)
  then show ?thesis by (simp add: mask_eq_exp_minus_1)
qed

lemma page_covers:
  "VA AND - push_bit k 1 \<le> VA" "VA \<le> (VA AND - push_bit k 1) + push_bit k 1 - 1" for VA :: uns64
proof -
  show "VA AND - push_bit k 1 \<le> VA" by (rule word_and_le2)
  have "VA AND ((VA AND NOT (mask k)) OR mask k) = VA" by (rule bit_word_eqI) (auto simp: bit_simps)
  then show "VA \<le> (VA AND - push_bit k 1) + push_bit k 1 - 1"
    unfolding page_low page_high by (metis word_and_le1)
qed

lemma page_aligned: "take_bit k (VA AND - push_bit k 1) = 0" for VA :: uns64
  unfolding page_low by (rule bit_word_eqI) (auto simp: bit_simps)

lemma and_minus_1_aligned: "x AND (push_bit k 1 - 1) = 0 \<longleftrightarrow> take_bit k x = 0" for x :: uns64
  by (simp add: take_bit_eq_mask mask_eq_exp_minus_1)

section \<open>Permissions\<close>

text \<open>The specification of access rights, by kind of access.\<close>

definition mode_may_use :: "riscv \<Rightarrow> riscvMode \<Rightarrow> tlbEntry \<Rightarrow> bool" where
  "mode_may_use s mode e \<longleftrightarrow> (if mode = RISCV_MODE_USER then e_U e else e_U e \<longrightarrow> getSUM s)"

definition may_read :: "riscv \<Rightarrow> riscvMode \<Rightarrow> tlbEntry \<Rightarrow> bool" where
  "may_read s mode e \<longleftrightarrow> mode_may_use s mode e \<and> (bit (e_priv e) 0 \<or> bit (e_priv e) 2 \<and> getMXR s)"

definition may_write :: "riscv \<Rightarrow> riscvMode \<Rightarrow> tlbEntry \<Rightarrow> bool" where
  "may_write s mode e \<longleftrightarrow> mode_may_use s mode e \<and> bit (e_priv e) 1"

definition may_fetch :: "riscv \<Rightarrow> riscvMode \<Rightarrow> tlbEntry \<Rightarrow> bool" where
  "may_fetch s mode e \<longleftrightarrow> mode_may_use s mode e \<and> bit (e_priv e) 2
     \<and> \<not> (mode \<noteq> RISCV_MODE_USER \<and> e_U e \<and> priv_version (configInfo s) = RVPV_1_11)"

lemma priv_and_bit:
  "(p :: memPriv) AND MEM_PRIV_R = MEM_PRIV_R \<longleftrightarrow> bit p 0"
  "p AND MEM_PRIV_W = MEM_PRIV_W \<longleftrightarrow> bit p 1" "p AND MEM_PRIV_X = MEM_PRIV_X \<longleftrightarrow> bit p 2"
proof -
  have "p AND push_bit n 1 = push_bit n 1 \<longleftrightarrow> bit p n" if "n < 32" for n
  proof
    assume eq: "p AND push_bit n 1 = push_bit n 1"
    have "bit (push_bit n (1 :: memPriv)) n" using that by (simp add: bit_exp_iff)
    then have "bit (p AND push_bit n 1) n" unfolding eq .
    then show "bit p n" by (simp add: bit_and_iff)
  next
    assume "bit p n"
    then show "p AND push_bit n 1 = push_bit n 1"
      by (intro bit_word_eqI) (auto simp: bit_and_iff bit_exp_iff)
  qed
  from this [of 0] this [of 1] this [of 2]
  show "p AND MEM_PRIV_R = MEM_PRIV_R \<longleftrightarrow> bit p 0"
    "p AND MEM_PRIV_W = MEM_PRIV_W \<longleftrightarrow> bit p 1" "p AND MEM_PRIV_X = MEM_PRIV_X \<longleftrightarrow> bit p 2"
    by simp_all
qed

lemma has_priv_bits: "has (p :: memPriv) MEM_PRIV_X \<longleftrightarrow> bit p 2" "has p MEM_PRIV_W \<longleftrightarrow> bit p 1"
  using has_bit(1) [of p 2] has_bit(1) [of p 1] by simp_all

lemma priv_bits [simp]:
  "bit (MEM_PRIV_R :: memPriv) n \<longleftrightarrow> n = 0" "bit (MEM_PRIV_W :: memPriv) n \<longleftrightarrow> n = 1"
  "bit (MEM_PRIV_X :: memPriv) n \<longleftrightarrow> n = 2"
  using bit_push_bit_iff [of 1 "1 :: memPriv" n] bit_push_bit_iff [of 2 "1 :: memPriv" n]
  by (auto simp: bit_1_iff)

lemma checkEntryPermission_cases:
  "checkEntryPermission s mode e MEM_PRIV_R \<noteq> MEM_PRIV_NONE \<longleftrightarrow> may_read s mode e"
  "checkEntryPermission s mode e MEM_PRIV_W \<noteq> MEM_PRIV_NONE \<longleftrightarrow> may_write s mode e"
  "checkEntryPermission s mode e MEM_PRIV_X \<noteq> MEM_PRIV_NONE \<longleftrightarrow> may_fetch s mode e"
proof -
  define p where "p = (let p = e_priv e;
    p = (if has p MEM_PRIV_X \<and> getMXR s then p OR MEM_PRIV_R else p)
    in if mode = RISCV_MODE_USER then if \<not> e_U e then MEM_PRIV_NONE else p
       else if e_U e then if \<not> getSUM s then MEM_PRIV_NONE
         else if priv_version (configInfo s) = RVPV_1_11 then p AND NOT MEM_PRIV_X else p
       else p)"
  have check: "checkEntryPermission s mode e r = (if p AND r = r then p else MEM_PRIV_NONE)" for r
    by (simp add: checkEntryPermission_def p_def Let_def)
  have p: "bit p 0 \<longleftrightarrow> may_read s mode e" "bit p 1 \<longleftrightarrow> may_write s mode e" "bit p 2 \<longleftrightarrow> may_fetch s mode e"
    by (auto simp: p_def Let_def may_read_def may_write_def may_fetch_def mode_may_use_def bit_and_iff
        bit_or_iff bit_not_iff has_priv_bits)
  have nz: "bit p n \<Longrightarrow> p \<noteq> 0" for n by auto
  show "checkEntryPermission s mode e MEM_PRIV_R \<noteq> MEM_PRIV_NONE \<longleftrightarrow> may_read s mode e"
    "checkEntryPermission s mode e MEM_PRIV_W \<noteq> MEM_PRIV_NONE \<longleftrightarrow> may_write s mode e"
    "checkEntryPermission s mode e MEM_PRIV_X \<noteq> MEM_PRIV_NONE \<longleftrightarrow> may_fetch s mode e"
    using nz [of 0] nz [of 1] nz [of 2] by (simp_all only: check priv_and_bit p split: if_split) auto
qed

section \<open>Soundness of a walk\<close>

text \<open>What a page table entry that the walk returns satisfies.\<close>

definition entry_ok :: "riscv \<Rightarrow> riscvMode \<Rightarrow> memPriv \<Rightarrow> uns64 \<Rightarrow> tlbEntry \<Rightarrow> bool" where
  "entry_ok s mode requiredPriv VA e \<longleftrightarrow>
     e_lowVA e \<le> VA \<and> VA \<le> e_highVA e
     \<and> (\<exists>k. 12 \<le> k \<and> k < 64 \<and> take_bit k (e_lowVA e) = 0 \<and> take_bit k (e_PA e) = 0
          \<and> e_highVA e = e_lowVA e OR mask k)
     \<and> checkEntryPermission s mode e requiredPriv \<noteq> MEM_PRIV_NONE
     \<and> e_A e \<and> (has requiredPriv MEM_PRIV_W \<longrightarrow> e_D e)"

text \<open>A walk does not change what permissions depend on.\<close>

definition walk_frame :: "riscv \<Rightarrow> riscv \<Rightarrow> bool" where
  "walk_frame s t \<longleftrightarrow> csr t = csr s \<and> csrMask t = csrMask s \<and> currentArch t = currentArch s
     \<and> configInfo t = configInfo s \<and> riscv_disable t = riscv_disable s \<and> riscv_mode t = riscv_mode s
     \<and> artifactAccess t = artifactAccess s
     \<and> pmpDomains t = pmpDomains s \<and> vmDomains t = vmDomains s \<and> physDomains t = physDomains s
     \<and> tlb t = tlb s \<and> extBits t = extBits s \<and> pmpcfg t = pmpcfg s \<and> pmpaddr t = pmpaddr s
     \<and> PTWActive t = PTWActive s \<and> prefix (calls s) (calls t)"

lemma walk_frame_refl [simp]: "walk_frame s s"
  by (simp add: walk_frame_def)

lemma walk_frame_trans: "walk_frame s t \<Longrightarrow> walk_frame t u \<Longrightarrow> walk_frame s u"
  by (auto simp: walk_frame_def intro: prefix_order.trans)

lemma walk_frame_do_call [simp]: "walk_frame s (do_call c s)"
  by (simp add: walk_frame_def)

lemma walk_frame_mapPMP: "walk_frame s (mapPMP mode req lowPA highPA s)"
proof -
  have set: "walk_frame s (setPMPPriv m lo hi p s)" for m lo hi p s
    by (simp add: setPMPPriv_def walk_frame_def Let_def)
  have err: "walk_frame s (s\<lparr>AFErrorIn := e\<rparr>)" for s e by (simp add: walk_frame_def)
  have "walk_frame s t" if "mapPMPInt mode req PA hi s = (t, lo, hi')" for s t PA hi lo hi'
    using that set walk_frame_trans [OF err set] by (auto simp: mapPMPInt_def Let_def split: prod.splits)
  then have "walk_frame s (mapPMP_loop mode req lowPA highPA s)"
    by (intro mapPMP_loop_rule [where P = "\<lambda>_ s t. walk_frame s t"])
      (blast intro: walk_frame_refl walk_frame_trans)+
  then show ?thesis by (simp add: mapPMP_def)
qed

lemma checkEntryPermission_cong: "walk_frame s t \<Longrightarrow> checkEntryPermission t = checkEntryPermission s"
  by (intro ext) (simp add: checkEntryPermission_def walk_frame_def getMXR_def getSUM_def
      RD_CSR_FIELD_def RISCV_XLEN_IS_32_def Let_def)

text \<open>The same up to the walk-in-progress flag, which the accesses set and clear.\<close>

definition access_frame :: "riscv \<Rightarrow> riscv \<Rightarrow> bool" where
  "access_frame s t \<longleftrightarrow> walk_frame (s\<lparr>PTWActive := False\<rparr>) (t\<lparr>PTWActive := False\<rparr>)"

lemma access_frame_start: "access_frame s (s\<lparr>PTWActive := True, PTWBadAddr := False\<rparr>)"
  by (simp add: access_frame_def walk_frame_def)

lemma access_frame_trans: "access_frame s t \<Longrightarrow> access_frame t u \<Longrightarrow> access_frame s u"
  by (auto simp: access_frame_def intro: walk_frame_trans)

lemma access_frame_walk: "walk_frame s t \<Longrightarrow> access_frame s t"
  by (simp add: access_frame_def walk_frame_def)

lemma access_frame_ptwPrivExcept: "access_frame s (ptwPrivExcept p a n s)"
proof -
  have "walk_frame s (s\<lparr>AFErrorIn := riscv_AFault_Bus\<rparr>)" by (simp add: walk_frame_def)
  then show ?thesis unfolding ptwPrivExcept_def
    by (intro access_frame_walk) (rule walk_frame_trans, assumption, rule walk_frame_mapPMP)
qed

lemma ptwPrivExcept_active: "PTWActive (ptwPrivExcept p a n s) = PTWActive s"
  using walk_frame_mapPMP [of "s\<lparr>AFErrorIn := riscv_AFault_Bus\<rparr>"]
  by (simp add: ptwPrivExcept_def walk_frame_def)

lemma readPageTableEntry_frame:
  assumes "readPageTableEntry V d a n s = (t, r)" and "\<not> PTWActive s"
  shows "walk_frame s t"
proof -
  let ?s0 = "s\<lparr>PTWActive := True, PTWBadAddr := False\<rparr>"
  define s1 where "s1 = (if vmirtReadMisses V (calls ?s0) d a then ptwPrivExcept MEM_PRIV_R a n ?s0 else ?s0)"
  have s1: "access_frame s s1" "PTWActive s1"
    using access_frame_trans [OF access_frame_start access_frame_ptwPrivExcept] access_frame_start
    by (simp_all add: s1_def ptwPrivExcept_active)
  have "t = s1\<lparr>PTWActive := False\<rparr> \<or> t = s1\<lparr>PTWBadAddr := True, PTWActive := False\<rparr>"
    using assms(1) s1(2)
    by (auto simp: readPageTableEntry_def Let_def riscvRdAbortExcept_def s1_def [simplified, symmetric]
        split: prod.splits if_splits)
  with s1(1) assms(2) show ?thesis by (auto simp: access_frame_def walk_frame_def)
qed

lemma writePageTableEntry_frame:
  assumes "\<not> PTWActive s"
  shows "walk_frame s (writePageTableEntry V d a n v s)"
proof -
  let ?s0 = "s\<lparr>PTWActive := True, PTWBadAddr := False\<rparr>"
  define s1 where "s1 = (if vmirtWriteMisses V (calls ?s0) d a then ptwPrivExcept MEM_PRIV_W a n ?s0 else ?s0)"
  have s1: "access_frame s s1" "PTWActive s1"
    using access_frame_trans [OF access_frame_start access_frame_ptwPrivExcept] access_frame_start
    by (simp_all add: s1_def ptwPrivExcept_active)
  define c where "c = (if n = 4 then VmirtWrite4ByteDomain d a (ucast v) else VmirtWrite8ByteDomain d a v)"
  define u where "u = (if artifactAccess s then ?s0
    else if vmirtWriteAborts V (calls s1) d a then s1\<lparr>PTWBadAddr := True\<rparr> else do_call c s1)"
  have u: "writePageTableEntry V d a n v s = u\<lparr>PTWActive := False\<rparr>"
    using s1(2) by (simp add: writePageTableEntry_def Let_def riscvWrAbortExcept_def u_def c_def
        s1_def [simplified, symmetric])
  have "access_frame s u"
    using s1(1) access_frame_start [of s] by (auto simp: u_def access_frame_def walk_frame_def)
  with assms show ?thesis by (simp add: u access_frame_def walk_frame_def)
qed

lemma ptw_loop_frame:
  "ptw_loop V sv d VA n a s = (t, r) \<Longrightarrow> \<not> PTWActive s \<Longrightarrow> walk_frame s t"
proof (induction V sv d VA n a s rule: ptw_loop.induct)
  case (2 V sv d VA i a s)
  obtain u PTE where u: "readPageTableEntry V d (a + getVPNi sv VA i * of_nat (sv_bytes sv)) (sv_bytes sv) s = (u, PTE)"
    by fastforce
  note frame = readPageTableEntry_frame [OF u "2.prems"(2)]
  then have na: "\<not> PTWActive u" using "2.prems"(2) by (simp add: walk_frame_def)
  show ?case
  proof (cases "t = u")
    case True
    with frame show ?thesis by simp
  next
    case False
    with "2.prems"(1) u have rec: "\<not> PTWBadAddr u" "bit PTE 0" "pte_priv PTE AND MEM_PRIV_RW \<noteq> MEM_PRIV_W"
      "\<not> pte_priv PTE \<noteq> 0" "ptw_loop V sv d VA i (getPTETableAddress (pte_PPN sv PTE)) u = (t, r)"
      by (auto simp: Let_def split: if_splits)
    have "walk_frame u t"
      using "2.IH" [OF refl u [symmetric]] rec na by simp
    with frame show ?thesis by (rule walk_frame_trans)
  qed
qed simp

lemma ptw_loop_level: "ptw_loop V sv d VA n a s = (t, Inr (i, addr, PTE)) \<Longrightarrow> i < n"
  by (induction V sv d VA n a s rule: ptw_loop.induct) (auto simp: Let_def intro: less_SucI split: prod.splits if_splits)

lemma ptw_leaf_walk:
  "ptw_leaf V sv d mode req VA (i, addr, PTE) e s = (t, r) \<Longrightarrow> \<not> PTWActive s \<Longrightarrow> walk_frame s t"
  using writePageTableEntry_frame [of s]
  by (auto simp: ptw_leaf_def Let_def split: if_splits)

lemma ptw_leaf_ok:
  assumes leaf: "ptw_leaf V sv d mode req VA (i, addr, PTE) e s = (t, Inr e')" and "\<not> PTWActive s"
    and "i * sv_shift sv + 12 < 64" and VA: "VA = VA0 AND NOT (mask 12)"
  shows "entry_ok s mode req VA0 e'"
proof -
  let ?k = "i * sv_shift sv + 12"
  let ?e = "ptw_entry s sv VA i PTE e"
  have al: "push_bit 12 (pte_PPN sv PTE) AND (push_bit ?k 1 - 1) = 0"
    and perm: "checkEntryPermission s mode ?e req \<noteq> MEM_PRIV_NONE"
    using leaf by (auto simp: ptw_leaf_def Let_def split: if_splits)
  have e': "e_lowVA e' = e_lowVA ?e" "e_highVA e' = e_highVA ?e" "e_PA e' = e_PA ?e"
      "e_priv e' = e_priv ?e" "e_U e' = e_U ?e" "e_A e'" "has req MEM_PRIV_W \<longrightarrow> e_D e'"
    using leaf by (auto simp: ptw_leaf_def Let_def split: if_splits)
  have same: "checkEntryPermission s mode e' req = checkEntryPermission s mode ?e req"
    by (simp add: e' checkEntryPermission_def Let_def)
  have "take_bit ?k (push_bit 12 (pte_PPN sv PTE)) = 0" using al unfolding and_minus_1_aligned .
  moreover have "VA AND NOT (mask ?k) = VA0 AND NOT (mask ?k)"
    unfolding VA by (rule bit_word_eqI) (auto simp: bit_simps)
  then have "e_lowVA ?e = VA0 AND - push_bit ?k 1" "e_highVA ?e = (VA0 AND - push_bit ?k 1) + push_bit ?k 1 - 1"
    "e_PA ?e = push_bit 12 (pte_PPN sv PTE)" unfolding page_low
    by (simp_all add: ptw_entry_def Let_def minus_exp_eq_not_mask)
  ultimately show "entry_ok s mode req VA0 e'"
    unfolding entry_ok_def same e'
    using perm e'(6,7) assms(3) page_covers [of VA0 ?k] page_aligned [of ?k VA0]
    by (intro conjI exI [of _ ?k]) (simp_all only: page_low page_high, simp_all)
qed

lemma entry_ok_cong: "walk_frame s t \<Longrightarrow> entry_ok t mode req VA e = entry_ok s mode req VA e"
  by (simp add: entry_ok_def checkEntryPermission_cong)

definition sv_ok :: "svMode \<Rightarrow> bool" where
  "sv_ok sv \<longleftrightarrow> sv_levels sv * sv_shift sv + 12 \<le> 64 \<and> sv_levels sv * sv_shift sv + 12 = sv_bits sv
     \<and> 0 < sv_shift sv"

lemma sv_ok [simp]: "sv_ok sv32" "sv_ok sv39" "sv_ok sv48"
  by (simp_all add: sv_ok_def sv32_def sv39_def sv48_def)

lemma sv_ok_level: "sv_ok sv \<Longrightarrow> i < sv_levels sv \<Longrightarrow> i * sv_shift sv + 12 < 64"
proof -
  assume "sv_ok sv" "i < sv_levels sv"
  then have "i * sv_shift sv < sv_levels sv * sv_shift sv" by (simp add: sv_ok_def)
  moreover have "sv_levels sv * sv_shift sv + 12 \<le> 64" using \<open>sv_ok sv\<close> by (simp add: sv_ok_def)
  ultimately show ?thesis by linarith
qed

lemma ptw_ok:
  assumes "ptw V sv mode e req VA s = (t, r)" and "\<not> PTWActive s" and "sv_ok sv"
  shows "walk_frame s t" "r = Inr e' \<Longrightarrow> entry_ok s mode req VA e'"
proof -
  define VA' where "VA' = VA AND NOT (push_bit 12 1 - 1)"
  have VA': "VA' = VA AND NOT (mask 12)" by (simp add: VA'_def mask_eq_exp_minus_1)
  obtain u l where u: "ptw_loop V sv (getPTWDomain s) VA' (sv_levels sv) (getRootTableAddress s) s = (u, l)"
    by fastforce
  note loop = ptw_loop_frame [OF u assms(2)]
  then have na: "\<not> PTWActive u" using assms(2) by (simp add: walk_frame_def)
  have eq: "(t, r) = (case l of Inl e \<Rightarrow> (u, Inl (handlePTWException req e))
      | Inr l \<Rightarrow> (let (s, r) = ptw_leaf V sv (getPTWDomain s) mode req VA' l e u
          in (s, case r of Inl e \<Rightarrow> Inl (handlePTWException req e) | Inr e \<Rightarrow> Inr e)))"
    using assms(1) u unfolding ptw_def VA'_def [symmetric] Let_def by simp
  have "walk_frame s t \<and> (r = Inr e' \<longrightarrow> entry_ok s mode req VA e')"
  proof (cases l)
    case (Inl err)
    with eq loop show ?thesis by simp
  next
    case (Inr leaf)
    obtain i addr PTE where leaf: "leaf = (i, addr, PTE)" by (cases leaf)
    have k: "i * sv_shift sv + 12 < 64"
      using ptw_loop_level u [unfolded Inr leaf] sv_ok_level [OF assms(3)] by blast
    obtain t' r' where r': "ptw_leaf V sv (getPTWDomain s) mode req VA' leaf e u = (t', r')" by fastforce
    then have t': "t = t'" "r = (case r' of Inl e \<Rightarrow> Inl (handlePTWException req e) | Inr e \<Rightarrow> Inr e)"
      using eq Inr by simp_all
    have "walk_frame u t'" using ptw_leaf_walk r' na unfolding leaf by blast
    moreover have "entry_ok u mode req VA e'" if "r' = Inr e'"
      using ptw_leaf_ok [OF r' [unfolded leaf that] na k VA'] .
    ultimately show ?thesis
      using loop t' by (auto simp: entry_ok_cong intro: walk_frame_trans split: sum.splits)
  qed
  then show "walk_frame s t" "r = Inr e' \<Longrightarrow> entry_ok s mode req VA e'" by simp_all
qed

section \<open>What a walk computes\<close>

text \<open>The specification: page tables in a memory, followed by valid pointer entries to a leaf.\<close>

inductive pt_path :: "svMode \<Rightarrow> (uns64 \<Rightarrow> uns64) \<Rightarrow> uns64 \<Rightarrow> nat \<Rightarrow> uns64 \<Rightarrow> nat \<Rightarrow> uns64 \<Rightarrow> uns64 \<Rightarrow> bool"
  for sv mem VA where
  leaf: "addr = a + getVPNi sv VA i * of_nat (sv_bytes sv) \<Longrightarrow> pte = mem addr \<Longrightarrow> bit pte 0
    \<Longrightarrow> pte_priv pte AND MEM_PRIV_RW \<noteq> MEM_PRIV_W \<Longrightarrow> pte_priv pte \<noteq> 0
    \<Longrightarrow> pt_path sv mem VA (Suc i) a i addr pte"
| pointer: "pte' = mem (a + getVPNi sv VA i * of_nat (sv_bytes sv)) \<Longrightarrow> bit pte' 0 \<Longrightarrow> pte_priv pte' = 0
    \<Longrightarrow> pt_path sv mem VA i (getPTETableAddress (pte_PPN sv pte')) j addr pte
    \<Longrightarrow> pt_path sv mem VA (Suc i) a j addr pte"

inductive_cases pt_path_0E: "pt_path sv mem VA 0 a j addr pte"
inductive_cases pt_path_SucE: "pt_path sv mem VA (Suc i) a j addr pte"

text \<open>What the walk relies on of the kernel's memory: reads give its contents and do not abort.\<close>

locale pt_memory =
  fixes V :: vmirt and mem4 :: "uns64 \<Rightarrow> uns32" and mem8 :: "uns64 \<Rightarrow> uns64"
  assumes read4: "vmirtRead4ByteDomain V cs d a = (mem4 a, False)"
    and read8: "vmirtRead8ByteDomain V cs d a = (mem8 a, False)"

definition pt_mem :: "svMode \<Rightarrow> (uns64 \<Rightarrow> uns32) \<Rightarrow> (uns64 \<Rightarrow> uns64) \<Rightarrow> uns64 \<Rightarrow> uns64" where
  "pt_mem sv m4 m8 a = (if sv_bytes sv = 4 then ucast (m4 a) else m8 a)"

lemma mapPMP_bad: "PTWBadAddr (mapPMP mode req lowPA highPA s) = PTWBadAddr s"
proof -
  have set: "PTWBadAddr (setPMPPriv m lo hi p s) = PTWBadAddr s" for m lo hi p s
    by (simp add: setPMPPriv_def Let_def)
  have "PTWBadAddr t = PTWBadAddr s" if "mapPMPInt mode req PA hi s = (t, lo, hi')" for s t PA hi lo hi'
    using that by (auto simp: mapPMPInt_def Let_def set split: prod.splits if_splits)
  then have "PTWBadAddr (mapPMP_loop mode req lowPA highPA s) = PTWBadAddr s"
    by (intro mapPMP_loop_rule [where P = "\<lambda>_ s t. PTWBadAddr t = PTWBadAddr s"]) force+
  then show ?thesis by (simp add: mapPMP_def)
qed

context pt_memory
begin

lemma read_mem:
  assumes "readPageTableEntry V d a (sv_bytes sv) s = (t, r)"
  shows "r = pt_mem sv mem4 mem8 a" "\<not> PTWBadAddr t"
  using assms mapPMP_bad
  by (auto simp: readPageTableEntry_def Let_def read4 read8 pt_mem_def ptwPrivExcept_def split: if_splits)

lemma ptw_loop_path:
  "ptw_loop V sv d VA n a s = (t, Inr (i, addr, PTE)) \<Longrightarrow> pt_path sv (pt_mem sv mem4 mem8) VA n a i addr PTE"
proof (induction n arbitrary: a s)
  case (Suc n)
  obtain u p where u: "readPageTableEntry V d (a + getVPNi sv VA n * of_nat (sv_bytes sv)) (sv_bytes sv) s = (u, p)"
    by fastforce
  note mem = read_mem [OF u]
  show ?case
  proof (cases "pte_priv p = 0")
    case True
    with Suc.prems u mem have "bit p 0" "ptw_loop V sv d VA n (getPTETableAddress (pte_PPN sv p)) u = (t, Inr (i, addr, PTE))"
      by (auto simp: Let_def split: if_splits)
    with True mem(1) show ?thesis by (auto intro!: pt_path.pointer Suc.IH)
  next
    case False
    with Suc.prems u mem show ?thesis by (auto simp: Let_def intro: pt_path.leaf split: if_splits)
  qed
qed simp

lemma path_ptw_loop:
  "pt_path sv (pt_mem sv mem4 mem8) VA n a i addr PTE \<Longrightarrow> \<exists>t. ptw_loop V sv d VA n a s = (t, Inr (i, addr, PTE))"
proof (induction n arbitrary: a s)
  case 0
  then show ?case by (auto elim: pt_path_0E)
next
  case (Suc n)
  obtain u p where u: "readPageTableEntry V d (a + getVPNi sv VA n * of_nat (sv_bytes sv)) (sv_bytes sv) s = (u, p)"
    by fastforce
  note mem = read_mem [OF u]
  from Suc.prems show ?case
  proof (cases rule: pt_path.cases)
    case leaf
    with u mem show ?thesis by (simp add: Let_def)
  next
    case (pointer pte')
    with Suc.IH mem obtain t where "ptw_loop V sv d VA n (getPTETableAddress (pte_PPN sv p)) u = (t, Inr (i, addr, PTE))"
      by blast
    with pointer u mem show ?thesis by (simp add: Let_def)
  qed
qed

end

lemma getVPNi_page: "getVPNi sv (VA AND NOT (mask 12)) i = getVPNi sv VA i"
  unfolding getVPNi_def by (rule bit_word_eqI) (auto simp: bit_simps dest: bit_imp_le_length)

lemma pt_path_page: "pt_path sv mem (VA AND NOT (mask 12)) n a i addr pte = pt_path sv mem VA n a i addr pte"
proof
  show "pt_path sv mem (VA AND NOT (mask 12)) n a i addr pte \<Longrightarrow> pt_path sv mem VA n a i addr pte"
    by (induction rule: pt_path.induct) (auto simp: getVPNi_page intro: pt_path.intros)
  show "pt_path sv mem VA n a i addr pte \<Longrightarrow> pt_path sv mem (VA AND NOT (mask 12)) n a i addr pte"
    by (induction rule: pt_path.induct) (auto simp: getVPNi_page intro: pt_path.intros)
qed

lemma page_offset:
  fixes VA PA :: uns64
  assumes "take_bit k PA = 0"
  shows "PA + (VA - (VA AND NOT (mask k))) = PA OR take_bit k VA"
proof -
  have "VA = (VA AND NOT (mask k)) + take_bit k VA"
  proof -
    have "(VA AND NOT (mask k)) AND take_bit k VA = 0" by (rule bit_word_eqI) (auto simp: bit_simps)
    then have "(VA AND NOT (mask k)) + take_bit k VA = (VA AND NOT (mask k)) OR take_bit k VA"
      by (rule disjunctive_add_eq_or)
    also have "\<dots> = VA" by (rule bit_word_eqI) (auto simp: bit_simps)
    finally show ?thesis by simp
  qed
  then have "VA - (VA AND NOT (mask k)) = take_bit k VA" by (simp add: diff_eq_eq add.commute)
  moreover have "PA AND take_bit k VA = 0"
  proof (rule bit_word_eqI)
    fix n
    have "\<not> bit (take_bit k PA) n" using assms by simp
    then show "bit (PA AND take_bit k VA) n = bit (0 :: uns64) n" by (auto simp: bit_simps)
  qed
  ultimately show ?thesis by (simp add: disjunctive_add_eq_or)
qed

lemma ptw_leaf_entry:
  assumes "ptw_leaf V sv d mode req (VA AND NOT (mask 12)) (i, addr, PTE) e s = (t, Inr e')"
  shows "e_PA e' + (VA - e_lowVA e') = push_bit 12 (pte_PPN sv PTE) OR take_bit (i * sv_shift sv + 12) VA"
proof -
  let ?k = "i * sv_shift sv + 12"
  let ?e = "ptw_entry s sv (VA AND NOT (mask 12)) i PTE e"
  have al: "push_bit 12 (pte_PPN sv PTE) AND (push_bit ?k 1 - 1) = 0"
    and e': "e_lowVA e' = e_lowVA ?e" "e_PA e' = e_PA ?e"
    using assms by (auto simp: ptw_leaf_def Let_def split: if_splits)
  have "(VA AND NOT (mask 12)) AND NOT (mask ?k) = VA AND NOT (mask ?k)"
    by (rule bit_word_eqI) (auto simp: bit_simps)
  then have "e_lowVA ?e = VA AND NOT (mask ?k)" by (simp add: ptw_entry_def Let_def minus_exp_eq_not_mask)
  moreover have "e_PA ?e = push_bit 12 (pte_PPN sv PTE)" by (simp add: ptw_entry_def Let_def)
  ultimately show ?thesis
    unfolding e' using page_offset [OF al [unfolded and_minus_1_aligned], of VA] by simp
qed

context pt_memory
begin

lemma ptw_translates:
  assumes "ptw V sv mode e req VA s = (t, Inr e')"
  shows "\<exists>i addr pte. pt_path sv (pt_mem sv mem4 mem8) VA (sv_levels sv) (getRootTableAddress s) i addr pte
    \<and> e_PA e' + (VA - e_lowVA e') = push_bit 12 (pte_PPN sv pte) OR take_bit (i * sv_shift sv + 12) VA"
proof -
  have msk: "VA AND NOT (push_bit 12 1 - 1) = VA AND NOT (mask 12)" by (simp add: mask_eq_exp_minus_1)
  obtain u i addr pte where u: "ptw_loop V sv (getPTWDomain s) (VA AND NOT (mask 12)) (sv_levels sv)
      (getRootTableAddress s) s = (u, Inr (i, addr, pte))"
    and leaf: "ptw_leaf V sv (getPTWDomain s) mode req (VA AND NOT (mask 12)) (i, addr, pte) e u = (t, Inr e')"
    using assms unfolding ptw_def Let_def msk by (auto split: prod.splits sum.splits)
  from ptw_loop_path [OF u] ptw_leaf_entry [OF leaf] show ?thesis by (auto simp: pt_path_page)
qed

lemma ptw_complete:
  assumes path: "pt_path sv (pt_mem sv mem4 mem8) VA (sv_levels sv) (getRootTableAddress s) i addr pte"
    and "\<not> PTWActive s"
    and "take_bit (i * sv_shift sv + 12) (push_bit 12 (pte_PPN sv pte)) = 0"
    and "checkEntryPermission s mode (ptw_entry s sv VA i pte e) req \<noteq> MEM_PRIV_NONE"
    and "bit pte 6" and "has req MEM_PRIV_W \<longrightarrow> bit pte 7"
  shows "\<exists>t e'. ptw V sv mode e req VA s = (t, Inr e')"
proof -
  let ?VA = "VA AND NOT (mask 12)"
  have msk: "VA AND NOT (push_bit 12 1 - 1) = ?VA" by (simp add: mask_eq_exp_minus_1)
  obtain u where u: "ptw_loop V sv (getPTWDomain s) ?VA (sv_levels sv) (getRootTableAddress s) s
      = (u, Inr (i, addr, pte))"
    using path_ptw_loop path unfolding pt_path_page [of sv _ VA, symmetric] by blast
  have "walk_frame s u" by (rule ptw_loop_frame [OF u assms(2)])
  then have check: "checkEntryPermission u mode (ptw_entry u sv ?VA i pte e) req
      = checkEntryPermission s mode (ptw_entry s sv VA i pte e) req"
    by (simp add: checkEntryPermission_cong) (simp add: checkEntryPermission_def ptw_entry_def Let_def)
  have "\<exists>t e'. ptw_leaf V sv (getPTWDomain s) mode req ?VA (i, addr, pte) e u = (t, Inr e')"
  proof -
    have "push_bit 12 (pte_PPN sv pte) AND (push_bit (i * sv_shift sv + 12) 1 - 1) = 0"
      using assms(3) unfolding and_minus_1_aligned .
    moreover have "e_A (ptw_entry u sv ?VA i pte e)" "has req MEM_PRIV_W \<Longrightarrow> e_D (ptw_entry u sv ?VA i pte e)"
      using assms(5,6) by (simp_all add: ptw_entry_def Let_def)
    ultimately show ?thesis
      using check assms(4) by (auto simp: ptw_leaf_def Let_def simp del: push_bit_of_1)
  qed
  then show ?thesis unfolding ptw_def Let_def msk u by auto
qed

end

definition vmirt_mem :: "(uns64 \<Rightarrow> uns32) \<Rightarrow> (uns64 \<Rightarrow> uns64) \<Rightarrow> vmirt" where
  "vmirt_mem m4 m8 = vmirt_example\<lparr>vmirtRead4ByteDomain := (\<lambda>_ _ a. (m4 a, False)),
     vmirtRead8ByteDomain := (\<lambda>_ _ a. (m8 a, False))\<rparr>"

interpretation fixed_mem: pt_memory "vmirt_mem m4 m8" m4 m8
  by unfold_locales (simp_all add: vmirt_mem_def)

section \<open>Canonical addresses\<close>

lemma bit_sfield: "bit (sfield lo (Suc w) VA) n \<longleftrightarrow> bit VA (lo + min n w)"
  by (auto simp: sfield_def bit_simps min_def dest: bit_imp_le_length)

lemma sfield_sign: "0 \<le> sfield lo (Suc w) VA \<longleftrightarrow> \<not> bit VA (lo + w)"
  by (auto simp: sfield_def bit_simps dest: bit_imp_le_length)

lemma sfield_const:
  "sfield lo (Suc w) VA = 0 \<longleftrightarrow> (\<forall>j. lo \<le> j \<and> j < lo + Suc w \<longrightarrow> \<not> bit VA j)"
  "sfield lo (Suc w) VA = - 1 \<longleftrightarrow> (\<forall>j. lo \<le> j \<and> j < lo + Suc w \<longrightarrow> bit VA j)"
proof -
  have range: "(\<forall>n. P (lo + min n w)) \<longleftrightarrow> (\<forall>j. lo \<le> j \<and> j < lo + Suc w \<longrightarrow> P j)" for P
  proof (intro iffI allI impI)
    fix j assume "\<forall>n. P (lo + min n w)" and "lo \<le> j \<and> j < lo + Suc w"
    then show "P j" by (auto dest: spec [of _ "j - lo"])
  next
    fix n assume "\<forall>j. lo \<le> j \<and> j < lo + Suc w \<longrightarrow> P j"
    then show "P (lo + min n w)" by (simp add: min_def)
  qed
  show "sfield lo (Suc w) VA = 0 \<longleftrightarrow> (\<forall>j. lo \<le> j \<and> j < lo + Suc w \<longrightarrow> \<not> bit VA j)"
    using range [of "\<lambda>j. \<not> bit VA j"] by (simp add: bit_eq_iff bit_sfield)
  show "sfield lo (Suc w) VA = - 1 \<longleftrightarrow> (\<forall>j. lo \<le> j \<and> j < lo + Suc w \<longrightarrow> bit VA j)"
    using range [of "bit VA"] by (simp add: bit_eq_iff bit_sfield)
qed

lemma validVA_canonical:
  "validVA (sfield 12 27 VA) (sfield 39 25 VA) \<longleftrightarrow> (\<forall>j. 39 \<le> j \<and> j < 64 \<longrightarrow> bit VA j = bit VA 38)"
  "validVA (sfield 12 36 VA) (sfield 48 16 VA) \<longleftrightarrow> (\<forall>j. 48 \<le> j \<and> j < 64 \<longrightarrow> bit VA j = bit VA 47)"
  using sfield_sign [of 12 26 VA] sfield_const [of 39 24 VA] sfield_sign [of 12 35 VA] sfield_const [of 48 15 VA]
  by (auto simp: validVA_def)

section \<open>Properties\<close>

text \<open>The walk and the address that the current translation mode selects.\<close>

definition lookup_sv :: "riscv \<Rightarrow> svMode" where
  "lookup_sv s = (if RD_CSR2_FIELD s satp atp_MODE = VAM_Sv32 then sv32
     else if RD_CSR2_FIELD s satp atp_MODE = VAM_Sv39 then sv39 else sv48)"

definition lookup_VA :: "riscv \<Rightarrow> uns64 \<Rightarrow> uns64" where
  "lookup_VA s VA = (if RD_CSR2_FIELD s satp atp_MODE = VAM_Sv32 then take_bit 32 VA else VA)"

lemma tlbLookup_ptw:
  "tlbLookup V mode e req s = Some (t, Inr e') \<Longrightarrow>
    ptw V (lookup_sv s) mode e req (lookup_VA s (e_lowVA e)) s = (t, Inr e')"
  by (auto simp: tlbLookup_def tlbLookupSv32_def tlbLookupSv39_def tlbLookupSv48_def lookup_sv_def
      lookup_VA_def Let_def split: if_splits)

lemma lookup_sv_ok [simp]: "sv_ok (lookup_sv s)"
  by (simp add: lookup_sv_def)

text \<open>A User mode hart under Sv39 whose root table is at \<^verbatim>\<open>0x80000000\<close>, and tables that map the page
  at \<^verbatim>\<open>0x1000\<close> to \<^verbatim>\<open>0x80010000\<close>.\<close>

definition sv39_example :: riscv where
  "sv39_example = hart_example\<lparr>extBits := 56, csr := (csr hart_example)\<lparr>
     satp := \<lparr>u32_bits = 0, u64_bits = 0x8000000000080000\<rparr>\<rparr>\<rparr>"

definition sv39_tables :: "uns64 \<Rightarrow> uns64" where
  "sv39_tables a = (if a = 0x80000000 then 0x20000401 else if a = 0x80001000 then 0x20000801
     else if a = 0x80002008 then 0x200040DF else 0)"

definition entry_at :: "uns64 \<Rightarrow> tlbEntry" where
  "entry_at VA = \<lparr>e_handle = 0, e_lowVA = VA, e_highVA = 0, e_PA = 0, e_simASID = 0, e_isMapped = 0,
     e_priv = 0, e_U = False, e_G = False, e_A = False, e_D = False, e_artifact = False\<rparr>"

lemma sv39_example_lookup:
  "\<exists>t e. tlbLookup (vmirt_mem (\<lambda>_. 0) sv39_tables) RISCV_MODE_USER (entry_at 0x1234) MEM_PRIV_W sv39_example
     = Some (t, Inr e)"
proof -
  let ?r = "tlbLookup (vmirt_mem (\<lambda>_. 0) sv39_tables) RISCV_MODE_USER (entry_at 0x1234) MEM_PRIV_W sv39_example"
  have "(case ?r of None \<Rightarrow> False | Some (t, r) \<Rightarrow> \<not> isl r)" by code_simp
  then show ?thesis by (auto split: option.splits simp: isl_def) (metis obj_sumE)
qed

text \<open>A page table walk that succeeds returns an entry that covers the address, is a naturally
  aligned power-of-two page of at least 4 KiB in both address spaces, allows the access in the mode,
  and has its accessed bit set, and its dirty bit when the access is a write.\<close>

lemma tlbLookup_sound:
  assumes "tlbLookup V mode entry requiredPriv s = Some (t, Inr e)" and "\<not> PTWActive s"
  shows "entry_ok s mode requiredPriv (lookup_VA s (e_lowVA entry)) e"
  using ptw_ok(2) [OF tlbLookup_ptw [OF assms(1)] assms(2)] by simp

text \<open>C2. The physical address of a successful walk is the one the tables define: there is a path of
  valid pointer entries from the root table that \<^verbatim>\<open>satp\<close> names to a leaf, and the translation of the
  address is the leaf's page number with the low bits, as many as the leaf's level spans, taken from
  the virtual address.\<close>

theorem tlbLookup_translates:
  assumes "pt_memory V mem4 mem8" and "tlbLookup V mode entry requiredPriv s = Some (t, Inr e)"
  shows "\<exists>i addr pte. pt_path (lookup_sv s) (pt_mem (lookup_sv s) mem4 mem8) (lookup_VA s (e_lowVA entry))
      (sv_levels (lookup_sv s)) (getRootTableAddress s) i addr pte
    \<and> e_PA e + (lookup_VA s (e_lowVA entry) - e_lowVA e) =
      push_bit 12 (pte_PPN (lookup_sv s) pte)
        OR take_bit (i * sv_shift (lookup_sv s) + 12) (lookup_VA s (e_lowVA entry))"
  by (rule pt_memory.ptw_translates [OF assms(1) tlbLookup_ptw [OF assms(2)]])

theorem tlbLookup_translates_witness:
  "\<exists>t e i addr pte. tlbLookup (vmirt_mem (\<lambda>_. 0) sv39_tables) RISCV_MODE_USER (entry_at 0x1234) MEM_PRIV_W
       sv39_example = Some (t, Inr e)
     \<and> pt_path sv39 sv39_tables 0x1234 3 0x80000000 i addr pte
     \<and> e_PA e + (0x1234 - e_lowVA e) = push_bit 12 (pte_PPN sv39 pte) OR take_bit (i * 9 + 12) 0x1234"
proof -
  obtain t e where r: "tlbLookup (vmirt_mem (\<lambda>_. 0) sv39_tables) RISCV_MODE_USER (entry_at 0x1234)
      MEM_PRIV_W sv39_example = Some (t, Inr e)" using sv39_example_lookup by blast
  have mode: "RD_CSR2_FIELD sv39_example satp atp_MODE = VAM_Sv39"
    and VA: "lookup_VA sv39_example (e_lowVA (entry_at 0x1234)) = 0x1234"
    and root: "getRootTableAddress sv39_example = 0x80000000" by code_simp+
  have "pt_mem sv39 m4 m8 = m8" "sv_levels sv39 = 3" "sv_shift sv39 = 9" for m4 m8
    by (simp_all add: pt_mem_def sv39_def fun_eq_iff)
  then show ?thesis
    using tlbLookup_translates [OF fixed_mem.pt_memory_axioms r] r
    unfolding VA root lookup_sv_def mode by auto
qed

text \<open>C11. Conversely, a walk finds every mapping: when the tables lead to an aligned leaf that allows
  the access and whose accessed bit (and dirty bit, for a write) is set, and the address is canonical
  for the translation mode, the lookup succeeds.\<close>

theorem tlbLookupSv39_complete:
  assumes "pt_memory V mem4 mem8" and "\<not> PTWActive s"
    and "\<forall>j. 39 \<le> j \<and> j < 64 \<longrightarrow> bit (e_lowVA entry) j = bit (e_lowVA entry) 38"
    and "pt_path sv39 mem8 (e_lowVA entry) 3 (getRootTableAddress s) i addr pte"
    and "take_bit (i * 9 + 12) (push_bit 12 (pte_PPN sv39 pte)) = 0"
    and "checkEntryPermission s mode (ptw_entry s sv39 (e_lowVA entry) i pte entry) requiredPriv \<noteq> MEM_PRIV_NONE"
    and "bit pte 6" and "has requiredPriv MEM_PRIV_W \<longrightarrow> bit pte 7"
  shows "\<exists>t e. tlbLookupSv39 V mode entry requiredPriv s = (t, Inr e)"
proof -
  have "pt_mem sv39 mem4 mem8 = mem8" "sv_levels sv39 = 3" "sv_shift sv39 = 9"
    by (simp_all add: pt_mem_def sv39_def fun_eq_iff)
  then show ?thesis
    using pt_memory.ptw_complete [OF assms(1), of sv39 "e_lowVA entry" s i addr pte mode entry requiredPriv]
      assms(2-8) by (simp add: tlbLookupSv39_def Let_def validVA_canonical(1))
qed

theorem tlbLookupSv39_complete_witness:
  "\<exists>t e. tlbLookupSv39 (vmirt_mem (\<lambda>_. 0) sv39_tables) RISCV_MODE_USER (entry_at 0x1234) MEM_PRIV_X sv39_example
     = (t, Inr e)"
proof (rule tlbLookupSv39_complete [OF fixed_mem.pt_memory_axioms, where i = 0 and addr = "0x80002008"
      and pte = "0x200040DF"])
  show "\<not> PTWActive sv39_example" by code_simp
  show "\<forall>j. 39 \<le> j \<and> j < 64 \<longrightarrow> bit (e_lowVA (entry_at 0x1234)) j = bit (e_lowVA (entry_at 0x1234)) 38"
    unfolding validVA_canonical(1) [symmetric] by code_simp
  have root: "getRootTableAddress sv39_example = 0x80000000" by code_simp
  have next2: "getPTETableAddress (pte_PPN sv39 0x20000401) = 0x80001000"
    "getPTETableAddress (pte_PPN sv39 0x20000801) = 0x80002000"
    "bit (0x20000401 :: uns64) 0" "bit (0x20000801 :: uns64) 0" "pte_priv 0x20000401 = 0" "pte_priv 0x20000801 = 0"
    by code_simp+
  have p1: "pt_path sv39 sv39_tables 0x1234 (Suc 0) 0x80002000 0 0x80002008 0x200040DF"
    by (rule pt_path.leaf) code_simp+
  have p2: "pt_path sv39 sv39_tables 0x1234 (Suc (Suc 0)) 0x80001000 0 0x80002008 0x200040DF"
    by (rule pt_path.pointer [where pte' = "0x20000801"], code_simp) (simp_all add: next2 p1)
  have "pt_path sv39 sv39_tables 0x1234 (Suc (Suc (Suc 0))) 0x80000000 0 0x80002008 0x200040DF"
    by (rule pt_path.pointer [where pte' = "0x20000401"], code_simp) (simp_all add: next2 p2)
  then show "pt_path sv39 sv39_tables (e_lowVA (entry_at 0x1234)) 3 (getRootTableAddress sv39_example)
      0 0x80002008 0x200040DF" by (simp add: root entry_at_def numeral_3_eq_3)
qed code_simp+

text \<open>C25. The rights that \<^verbatim>\<open>checkEntryPermission\<close> grants are those of the privileged architecture: a User
  page is usable from Supervisor mode only under \<^verbatim>\<open>SUM\<close>, and from version 1.11 never for fetches; a
  Supervisor page is not usable from User mode; loads need the read bit, or the execute bit under
  \<^verbatim>\<open>MXR\<close>.\<close>

theorem checkEntryPermission_spec:
  "(checkEntryPermission s mode e MEM_PRIV_R \<noteq> MEM_PRIV_NONE \<longleftrightarrow> may_read s mode e)
   \<and> (checkEntryPermission s mode e MEM_PRIV_W \<noteq> MEM_PRIV_NONE \<longleftrightarrow> may_write s mode e)
   \<and> (checkEntryPermission s mode e MEM_PRIV_X \<noteq> MEM_PRIV_NONE \<longleftrightarrow> may_fetch s mode e)"
  by (simp only: checkEntryPermission_cases simp_thms)

lemma tlbLookup_frame:
  assumes "tlbLookup V mode e req s = Some (t, r)" and "\<not> PTWActive s"
  shows "walk_frame s t"
  using assms ptw_ok(1) [OF _ assms(2), of V _ mode e req _ t r]
  by (auto simp: tlbLookup_def tlbLookupSv32_def tlbLookupSv39_def tlbLookupSv48_def Let_def split: if_splits)

definition page_fault :: "memPriv \<Rightarrow> riscvException" where
  "page_fault req = (if req = MEM_PRIV_R then riscv_E_LoadPageFault
     else if req = MEM_PRIV_W then riscv_E_StoreAMOPageFault else riscv_E_InstructionPageFault)"

lemma ptw_error:
  "ptw V sv mode e req VA s = (t, Inl x) \<Longrightarrow>
    x \<in> {riscv_E_LoadAccessFault, riscv_E_StoreAMOAccessFault, page_fault req}"
  by (auto simp: ptw_def Let_def handlePTWException_def page_fault_def split: prod.splits sum.splits if_splits)

lemma tlbLookup_fault:
  "tlbLookup V mode e req s = Some (t, Inl x) \<Longrightarrow>
    x \<in> {riscv_E_LoadAccessFault, riscv_E_StoreAMOAccessFault, page_fault req}"
  using ptw_error [of V _ mode e req _ s t x]
  by (auto simp: tlbLookup_def tlbLookupSv32_def tlbLookupSv39_def tlbLookupSv48_def Let_def
      handlePTWException_def page_fault_def split: if_splits)



end
