(* ===== verification/RiscvTLB.thy ===== *)
theory RiscvTLB
  imports RiscvPTW
begin

text \<open>
  The TLB and the miss handler (\<^verbatim>\<open>riscvVM.c\<close>, GENERAL TLB MANAGEMENT, TLB / PMP UPDATE, PUBLIC
  FUNCTIONS and TLB SAVE/RESTORE SUPPORT): creation, lookup, invalidation and deletion of entries, the
  aliases that an entry makes in the virtual domain of each mode, the miss handler that the kernel
  calls when a domain lacks a privilege, and the creation of the domains. The TLB is the list of its
  entries in the order of their insertion; the kernel's range table visits the entries that overlap a
  range in an order of its own (\<open>vmirtRangeOrder\<close>). Free lists and debug output are not modelled.
\<close>

section \<open>Simulated ASIDs\<close>

definition getEntryASID :: "tlbEntry \<Rightarrow> uns32" where
  "getEntryASID e = take_bit 16 (e_simASID e)"

definition getEntryHighPA :: "tlbEntry \<Rightarrow> uns64" where
  "getEntryHighPA e = e_PA e + e_highVA e - e_lowVA e"

definition getEntryASIDMask :: "tlbEntry \<Rightarrow> riscvMode \<Rightarrow> uns32" where
  "getEntryASIDMask e mode =
     (let m = 0x10000;
          m = (if \<not> e_G e then m OR 0xFFFF else m)
      in if e_U e \<and> mode = RISCV_MODE_SUPERVISOR then m OR 0x20000 else m)"

definition matchASID :: "uns32 \<Rightarrow> tlbEntry \<Rightarrow> bool" where
  "matchASID ASID e \<longleftrightarrow> e_G e \<or> ASID = getEntryASID e"

definition getSimASID :: "riscv \<Rightarrow> uns32" where
  "getSimASID s = take_bit 16 (getActiveASID s) OR (if getMXR s then 0x10000 else 0)
     OR (if getSUM s then 0x20000 else 0)"

section \<open>Removing entries\<close>

definition getModeMask :: "riscvMode \<Rightarrow> uns8" where
  "getModeMask mode = push_bit (mode_code mode) 1"

definition deleteTLBEntryMappingsMode :: "riscvMode \<Rightarrow> tlbEntry \<times> riscv \<Rightarrow> tlbEntry \<times> riscv" where
  "deleteTLBEntryMappingsMode mode es =
     (let (e, s) = es; modeMask = getModeMask mode
      in if has (e_isMapped e) modeMask
         then let dataDomain = vmDomains s mode False; codeDomain = vmDomains s mode True;
                  unalias = (\<lambda>d. VmirtUnaliasMemoryVM d (e_lowVA e) (e_highVA e)
                               (getEntryASIDMask e mode) (e_simASID e));
                  s = (if dataDomain \<noteq> 0 then do_call (unalias dataDomain) s else s);
                  s = (if codeDomain \<noteq> 0 \<and> codeDomain \<noteq> dataDomain
                       then do_call (unalias codeDomain) s else s)
              in (e\<lparr>e_isMapped := e_isMapped e AND NOT modeMask\<rparr>, s)
         else (e, s))"

definition unmapTLBEntry :: "tlbEntry \<times> riscv \<Rightarrow> tlbEntry \<times> riscv" where
  "unmapTLBEntry es = fold deleteTLBEntryMappingsMode all_modes es"

definition unmapTLBEntryNewASID :: "uns32 \<Rightarrow> tlbEntry \<times> riscv \<Rightarrow> tlbEntry \<times> riscv" where
  "unmapTLBEntryNewASID newASID es =
     fold (\<lambda>mode es. let ASIDMask = getEntryASIDMask (fst es) mode
             in if ASIDMask AND e_simASID (fst es) \<noteq> ASIDMask AND newASID
                then deleteTLBEntryMappingsMode mode es else es) all_modes es"

definition deleteTLBEntry :: "tlbEntry \<Rightarrow> riscv \<Rightarrow> riscv" where
  "deleteTLBEntry e s =
     (let s = (if e_isMapped e \<noteq> 0 then snd (unmapTLBEntry (e, s)) else s)
      in s\<lparr>tlb := map_option (filter (\<lambda>x. e_handle x \<noteq> e_handle e)) (tlb s)\<rparr>)"

datatype matchMode = MM_ANY | MM_ASID

definition deleteTLBEntryMode :: "tlbEntry \<Rightarrow> matchMode \<Rightarrow> uns32 \<Rightarrow> riscv \<Rightarrow> riscv" where
  "deleteTLBEntryMode e mode ASID s =
     (let delete = (if mode = MM_ANY then True
                    else if getASIDMask s = 0 then True
                    else \<not> e_G e \<and> matchASID ASID e)
      in if delete then deleteTLBEntry e s else s)"

text \<open>The entries that the iterator \<^verbatim>\<open>ITER_TLB_ENTRY_RANGE\<close> visits.\<close>

definition overlaps :: "uns64 \<Rightarrow> uns64 \<Rightarrow> tlbEntry \<Rightarrow> bool" where
  "overlaps lowVA highVA e \<longleftrightarrow> e_lowVA e \<le> highVA \<and> lowVA \<le> e_highVA e"

definition tlb_range :: "vmirt \<Rightarrow> uns64 \<Rightarrow> uns64 \<Rightarrow> riscv \<Rightarrow> tlbEntry list" where
  "tlb_range V lowVA highVA s =
     (case tlb s of None \<Rightarrow> [] | Some es \<Rightarrow> vmirtRangeOrder V (calls s) (filter (overlaps lowVA highVA) es))"

text \<open>Entries that artifact accesses created are deleted when the iterator meets them.\<close>

definition invalidateTLBEntriesRange ::
  "vmirt \<Rightarrow> uns64 \<Rightarrow> uns64 \<Rightarrow> matchMode \<Rightarrow> uns32 \<Rightarrow> riscv \<Rightarrow> riscv" where
  "invalidateTLBEntriesRange V lowVA highVA mode ASID s =
     fold (\<lambda>e s. if e_artifact e then deleteTLBEntry e s else deleteTLBEntryMode e mode ASID s)
       (tlb_range V lowVA highVA s) s"

abbreviation (input) RISCV_MAX_ADDR :: uns64 where "RISCV_MAX_ADDR \<equiv> - 1"

section \<open>Finding and creating entries\<close>

fun find_entry :: "uns32 \<Rightarrow> tlbEntry list \<Rightarrow> riscv \<Rightarrow> tlbEntry option \<times> riscv" where
  "find_entry ASID [] s = (None, s)"
| "find_entry ASID (e # es) s =
     (if e_artifact e then find_entry ASID es (deleteTLBEntry e s)
      else if matchASID ASID e then (Some e, s) else find_entry ASID es s)"

definition findTLBEntry :: "vmirt \<Rightarrow> uns64 \<Rightarrow> riscv \<Rightarrow> tlbEntry option \<times> riscv" where
  "findTLBEntry V VA s = find_entry (getActiveASID s) (tlb_range V VA VA s) s"

definition initialEntry :: "uns64 \<Rightarrow> tlbEntry" where
  "initialEntry VA = \<lparr>e_handle = 0, e_lowVA = VA, e_highVA = 0, e_PA = 0, e_simASID = 0, e_isMapped = 0,
     e_priv = 0, e_U = False, e_G = False, e_A = False, e_D = False, e_artifact = False\<rparr>"

text \<open>A new entry has an address that no entry of the TLB has.\<close>

definition fresh_handle :: "tlbEntry list \<Rightarrow> nat" where
  "fresh_handle es = Suc (foldr max (map e_handle es) 0)"

definition insertTLBEntry :: "tlbEntry \<Rightarrow> riscv \<Rightarrow> riscv" where
  "insertTLBEntry e s = s\<lparr>tlb := map_option (\<lambda>es. es @ [e]) (tlb s)\<rparr>"

definition allocateTLBEntry :: "tlbEntry \<Rightarrow> riscv \<Rightarrow> tlbEntry \<times> riscv" where
  "allocateTLBEntry base s =
     (let h = fresh_handle (case tlb s of None \<Rightarrow> [] | Some es \<Rightarrow> es);
          e = base\<lparr>e_handle := h, e_artifact := artifactAccess s\<rparr>
      in (e, insertTLBEntry e s))"

record tlbMapInfo =
  mi_lowVA :: uns64
  mi_highVA :: uns64
  mi_priv :: memPriv

text \<open>\<^verbatim>\<open>attrs\<close> is given by whether it marks an artifact access.\<close>

definition handleInvalidAccess :: "vmirt \<Rightarrow> uns64 \<Rightarrow> bool \<Rightarrow> riscvException \<Rightarrow> riscv \<Rightarrow> riscv" where
  "handleInvalidAccess V VA artifact exception s =
     (if \<not> artifact then riscvTakeException V exception VA s else s)"

fun validateTLBEntryPriv ::
  "riscvMode \<Rightarrow> tlbEntry option \<Rightarrow> memPriv \<Rightarrow> tlbMapInfo \<Rightarrow> riscv \<Rightarrow> tlbEntry option \<times> tlbMapInfo \<times> riscv" where
  "validateTLBEntryPriv mode None requiredPriv mi s = (None, mi, s)"
| "validateTLBEntryPriv mode (Some e) requiredPriv mi s =
     (let priv = checkEntryPermission s mode e requiredPriv
      in if priv = MEM_PRIV_NONE then (None, mi, s)
         else if has requiredPriv MEM_PRIV_W \<and> \<not> e_D e then (None, mi, deleteTLBEntry e s)
         else (Some e, mi\<lparr>mi_priv := if \<not> e_D e then priv AND NOT MEM_PRIV_W else priv\<rparr>, s))"

text \<open>\<open>None\<close> is the abort on an invalid translation mode.\<close>

definition findOrCreateTLBEntry ::
  "vmirt \<Rightarrow> riscvMode \<Rightarrow> bool \<Rightarrow> tlbMapInfo \<Rightarrow> riscv \<Rightarrow> (tlbEntry option \<times> tlbMapInfo \<times> riscv) option" where
  "findOrCreateTLBEntry V mode artifact mi s =
     (let VA = mi_lowVA mi;
          requiredPriv = mi_priv mi;
          (entry, s) = findTLBEntry V VA s;
          (entry, mi, s) = validateTLBEntryPriv mode entry requiredPriv mi s
      in case entry of Some e \<Rightarrow> Some (Some e, mi, s)
         | None \<Rightarrow> (case tlbLookup V mode (initialEntry VA) requiredPriv s of None \<Rightarrow> None
             | Some (s, Inl exception) \<Rightarrow>
                 Some (validateTLBEntryPriv mode None requiredPriv mi (handleInvalidAccess V VA artifact exception s))
             | Some (s, Inr tmp) \<Rightarrow>
                 (let (e, s) = allocateTLBEntry tmp s
                  in Some (validateTLBEntryPriv mode (Some e) requiredPriv mi s))))"

section \<open>Mapping\<close>

definition update_entry :: "tlbEntry \<Rightarrow> riscv \<Rightarrow> riscv" where
  "update_entry e s =
     s\<lparr>tlb := map_option (map (\<lambda>x. if e_handle x = e_handle e then e else x)) (tlb s)\<rparr>"

definition mapTLBEntry ::
  "tlbEntry \<Rightarrow> memDomainP \<Rightarrow> riscvMode \<Rightarrow> memPriv \<Rightarrow> tlbMapInfo \<Rightarrow> riscv \<Rightarrow> tlbEntry \<times> tlbMapInfo \<times> riscv" where
  "mapTLBEntry e domainV mode requiredPriv mi s =
     (let domainP = getPMPDomainPriv s mode requiredPriv;
          lowPA = e_PA e; highPA = getEntryHighPA e; lowVA = e_lowVA e;
          size = highPA - lowPA + 1; vmiPageMax = 0x100000000;
          (size, lowVA, lowPA, highPA) =
            (if size > vmiPageMax
             then let VAtoPA = lowPA - lowVA; size = vmiPageMax;
                      lowVA = mi_lowVA mi AND - size; lowPA = lowVA + VAtoPA
                  in (size, lowVA, lowPA, lowPA + size - 1)
             else (size, lowVA, lowPA, highPA));
          s = do_call (VmirtAliasMemoryVM domainP domainV lowPA highPA lowVA (mi_priv mi)
                (getEntryASIDMask e mode) (e_simASID e)) s;
          s = mapPMP mode requiredPriv lowPA highPA s
      in (e\<lparr>e_isMapped := e_isMapped e OR getModeMask mode\<rparr>,
          mi\<lparr>mi_lowVA := lowVA, mi_highVA := lowVA + size - 1\<rparr>, s))"

text \<open>The Boolean result is true when the mapping failed.\<close>

definition tlbMiss ::
  "vmirt \<Rightarrow> memDomainP \<Rightarrow> riscvMode \<Rightarrow> bool \<Rightarrow> tlbMapInfo \<Rightarrow> riscv \<Rightarrow> (bool \<times> tlbMapInfo \<times> riscv) option" where
  "tlbMiss V domain mode artifact mi s =
     (let requiredPriv = mi_priv mi
      in case findOrCreateTLBEntry V mode artifact mi s of None \<Rightarrow> None
         | Some (None, mi, s) \<Rightarrow> Some (True, mi, s)
         | Some (Some e, mi, s) \<Rightarrow>
             (let simASID = getSimASID s;
                  (e, s) = unmapTLBEntryNewASID simASID (e, s);
                  e = e\<lparr>e_simASID := simASID\<rparr>;
                  (e, mi, s) = mapTLBEntry e domain mode requiredPriv mi s
              in Some (False, mi, update_entry e s)))"

section \<open>The miss handler\<close>

datatype domainType = DT_NONE | DT_PHYS | DT_VIRT | DT_PMP

definition getDomainType :: "riscv \<Rightarrow> memDomainP \<Rightarrow> riscvMode \<Rightarrow> bool \<Rightarrow> domainType" where
  "getDomainType s domain mode isCode =
     (if domain = physDomains s mode isCode then DT_PHYS
      else if domain = vmDomains s mode isCode then DT_VIRT
      else if domain = pmpDomains s mode isCode then DT_PMP else DT_NONE)"

text \<open>The loop over the pages of the access. Each round maps at least one more byte, so that as
  many rounds as the access has bytes are enough; \<open>None\<close> is the abort or that bound exceeded.\<close>

fun vmMiss_loop ::
  "nat \<Rightarrow> vmirt \<Rightarrow> memDomainP \<Rightarrow> riscvMode \<Rightarrow> memPriv \<Rightarrow> uns64 \<Rightarrow> bool \<Rightarrow> tlbMapInfo \<Rightarrow> riscv
    \<Rightarrow> (bool \<times> riscv) option" where
  "vmMiss_loop 0 V domain mode requiredPriv lastVA artifact mi s = None"
| "vmMiss_loop (Suc n) V domain mode requiredPriv lastVA artifact mi s =
     (let mi = \<lparr>mi_lowVA = mi_highVA mi + 1, mi_highVA = lastVA, mi_priv = requiredPriv\<rparr>
      in case tlbMiss V domain mode artifact mi s of None \<Rightarrow> None
         | Some (miss, mi, s) \<Rightarrow>
             if \<not> miss \<and> (lastVA < mi_lowVA mi \<or> lastVA > mi_highVA mi)
             then vmMiss_loop n V domain mode requiredPriv lastVA artifact mi s
             else Some (miss, s))"

text \<open>The first mode and code/data type whose domain it is, in the order of the nested loops.\<close>

definition find_domain :: "riscv \<Rightarrow> memDomainP \<Rightarrow> (riscvMode \<times> bool) option" where
  "find_domain s domain =
     find (\<lambda>(mode, isCode). getDomainType s domain mode isCode \<noteq> DT_NONE)
       (map (\<lambda>m. (m, False)) (rev all_modes) @ map (\<lambda>m. (m, True)) (rev all_modes))"

definition riscvVMMiss ::
  "vmirt \<Rightarrow> memDomainP \<Rightarrow> memPriv \<Rightarrow> uns64 \<Rightarrow> nat \<Rightarrow> bool \<Rightarrow> riscv \<Rightarrow> (bool \<times> riscv) option" where
  "riscvVMMiss V domain requiredPriv address bytes artifact s =
     (let s = s\<lparr>AFErrorIn := riscv_AFault_Bus\<rparr>; lastVA = address + of_nat bytes - 1
      in case find_domain s domain of None \<Rightarrow> Some (False, s)
         | Some (mode, isCode) \<Rightarrow>
             if getDomainType s domain mode isCode = DT_VIRT
             then vmMiss_loop bytes V domain mode requiredPriv lastVA artifact
                    \<lparr>mi_lowVA = address, mi_highVA = address - 1, mi_priv = MEM_PRIV_NONE\<rparr> s
             else Some (False, mapPMP mode requiredPriv address lastVA s))"

section \<open>Invalidation by software\<close>

definition riscvVMSetASID :: "riscv \<Rightarrow> riscv" where
  "riscvVMSetASID s = do_call (VmirtSetProcessorASID (getSimASID s)) s"

definition maskASID :: "riscv \<Rightarrow> uns32 \<Rightarrow> uns32" where
  "maskASID s ASID =
     (if riscvGetXlenArch [s] = Some 32 then take_bit 9 ASID else take_bit 16 ASID) AND getASIDMask s"

definition riscvVMInvalidateAll :: "vmirt \<Rightarrow> riscv \<Rightarrow> riscv" where
  "riscvVMInvalidateAll V s = invalidateTLBEntriesRange V 0 RISCV_MAX_ADDR MM_ANY 0 s"

definition riscvVMInvalidateAllASID :: "vmirt \<Rightarrow> uns32 \<Rightarrow> riscv \<Rightarrow> riscv" where
  "riscvVMInvalidateAllASID V ASID s = invalidateTLBEntriesRange V 0 RISCV_MAX_ADDR MM_ASID (maskASID s ASID) s"

definition riscvVMInvalidateVA :: "vmirt \<Rightarrow> uns64 \<Rightarrow> riscv \<Rightarrow> riscv" where
  "riscvVMInvalidateVA V VA s = invalidateTLBEntriesRange V VA VA MM_ANY 0 s"

definition riscvVMInvalidateVAASID :: "vmirt \<Rightarrow> uns64 \<Rightarrow> uns32 \<Rightarrow> riscv \<Rightarrow> riscv" where
  "riscvVMInvalidateVAASID V VA ASID s = invalidateTLBEntriesRange V VA VA MM_ASID (maskASID s ASID) s"

section \<open>Save and restore\<close>

definition saveTLBEntry :: "tlbEntry \<Rightarrow> tlbEntry" where
  "saveTLBEntry e = e\<lparr>e_isMapped := 0\<rparr>"

text \<open>The elements of the save stream, and the state: the iterator deletes artifact entries.\<close>

definition saveTLB :: "vmirt \<Rightarrow> riscv \<Rightarrow> tlbEntry list \<times> riscv" where
  "saveTLB V s =
     fold (\<lambda>e (out, s). if e_artifact e then (out, deleteTLBEntry e s) else (out @ [saveTLBEntry e], s))
       (tlb_range V 0 RISCV_MAX_ADDR s) ([], s)"

definition restoreTLBEntry :: "tlbEntry \<Rightarrow> riscv \<Rightarrow> riscv" where
  "restoreTLBEntry new s =
     insertTLBEntry (new\<lparr>e_handle := fresh_handle (case tlb s of None \<Rightarrow> [] | Some es \<Rightarrow> es)\<rparr>) s"

definition restoreTLB :: "tlbEntry list \<Rightarrow> riscv \<Rightarrow> riscv" where
  "restoreTLB stream s = fold restoreTLBEntry stream s"

definition riscvVMSave :: "vmirt \<Rightarrow> bool \<Rightarrow> riscv \<Rightarrow> tlbEntry list \<times> riscv" where
  "riscvVMSave V endCore s = (if endCore \<and> tlb s \<noteq> None then saveTLB V s else ([], s))"

definition riscvVMRestore :: "vmirt \<Rightarrow> bool \<Rightarrow> tlbEntry list \<Rightarrow> riscv \<Rightarrow> riscv" where
  "riscvVMRestore V endCore stream s =
     (if endCore \<and> tlb s \<noteq> None
      then restoreTLB stream (invalidateTLBEntriesRange V 0 RISCV_MAX_ADDR MM_ANY 0 s) else s)"

section \<open>Creation of the domains\<close>

definition getDomainName :: "riscvMode \<Rightarrow> string \<Rightarrow> bool \<Rightarrow> bool \<Rightarrow> string" where
  "getDomainName mode typ isCode unified =
     riscvGetModeName mode @ '' '' @ typ @ '' '' @
     (if unified then ''unified'' else if isCode then ''code'' else ''data'')"

definition createDomain ::
  "vmirt \<Rightarrow> riscvMode \<Rightarrow> string \<Rightarrow> nat \<Rightarrow> bool \<Rightarrow> bool \<Rightarrow> riscv \<Rightarrow> memDomainP \<times> riscv" where
  "createDomain V mode typ bits isCode unified s =
     (vmirtNewDomain V (calls s), do_call (VmirtNewDomain (getDomainName mode typ isCode unified) bits) s)"

definition set_domain :: "riscvMode \<Rightarrow> bool \<Rightarrow> memDomainP \<Rightarrow> (riscvMode \<Rightarrow> bool \<Rightarrow> memDomainP)
    \<Rightarrow> riscvMode \<Rightarrow> bool \<Rightarrow> memDomainP" where
  "set_domain mode isCode d ds = ds(mode := (ds mode)(isCode := d))"

definition createPMPDomain :: "vmirt \<Rightarrow> riscvMode \<Rightarrow> bool \<Rightarrow> bool \<Rightarrow> memDomainP \<Rightarrow> riscv \<Rightarrow> riscv" where
  "createPMPDomain V mode isCode unified extDomain s =
     (let pmpBits = 64;
          pmpMask = getAddressMask pmpBits;
          extMask = getAddressMask (extBits s);
          (pmpDomain, s) = createDomain V mode ''PMP'' pmpBits isCode unified s;
          s = do_call (VmirtAliasMemory extDomain pmpDomain 0 extMask 0) s;
          s = (if PMP_registers (configInfo s) \<noteq> 0
               then do_call (VmirtProtectMemory pmpDomain 0 pmpMask MEM_PRIV_RWX MEM_PRIV_SUB) s else s)
      in s\<lparr>pmpDomains := set_domain mode isCode pmpDomain (pmpDomains s)\<rparr>)"

text \<open>\<open>xlen\<close> is the result of \<^verbatim>\<open>riscvGetXlenArch\<close> for the processor.\<close>

definition createPhysicalDomain :: "vmirt \<Rightarrow> nat \<Rightarrow> riscvMode \<Rightarrow> bool \<Rightarrow> bool \<Rightarrow> riscv \<Rightarrow> riscv" where
  "createPhysicalDomain V xlen mode isCode unified s =
     (let pmpDomain = pmpDomains s mode isCode;
          physBits = xlen;
          physMask = getAddressMask physBits;
          (physDomain, s) = createDomain V mode ''Physical'' physBits isCode unified s;
          s = do_call (VmirtAliasMemory pmpDomain physDomain 0 physMask 0) s
      in s\<lparr>physDomains := set_domain mode isCode physDomain (physDomains s)\<rparr>)"

definition createVirtualDomain :: "vmirt \<Rightarrow> nat \<Rightarrow> riscvMode \<Rightarrow> bool \<Rightarrow> bool \<Rightarrow> riscv \<Rightarrow> riscv" where
  "createVirtualDomain V xlen mode isCode unified s =
     (let (d, s) = createDomain V mode ''Virtual'' xlen isCode unified s
      in s\<lparr>vmDomains := set_domain mode isCode d (vmDomains s)\<rparr>)"

text \<open>The two domains of a mode: the code domain is the data domain when the bus is unified.\<close>

definition init_physical :: "vmirt \<Rightarrow> nat \<Rightarrow> bool \<Rightarrow> memDomainP \<Rightarrow> memDomainP \<Rightarrow> riscvMode \<Rightarrow> riscv \<Rightarrow> riscv" where
  "init_physical V xlen unified codeDomain dataDomain mode s =
     (let s = createPMPDomain V mode False unified dataDomain s;
          s = (if unified then s\<lparr>pmpDomains := set_domain mode True (pmpDomains s mode False) (pmpDomains s)\<rparr>
               else createPMPDomain V mode True unified codeDomain s);
          s = createPhysicalDomain V xlen mode False unified s
      in if unified then s\<lparr>physDomains := set_domain mode True (physDomains s mode False) (physDomains s)\<rparr>
         else createPhysicalDomain V xlen mode True unified s)"

definition init_virtual :: "vmirt \<Rightarrow> nat \<Rightarrow> bool \<Rightarrow> riscvMode \<Rightarrow> riscv \<Rightarrow> riscv" where
  "init_virtual V xlen unified mode s =
     (let s = createVirtualDomain V xlen mode False unified s
      in if unified then s\<lparr>vmDomains := set_domain mode True (vmDomains s mode False) (vmDomains s)\<rparr>
         else createVirtualDomain V xlen mode True unified s)"

text \<open>The results are the state and the tables \<^verbatim>\<open>codeDomains\<close> and \<^verbatim>\<open>dataDomains\<close>, by dictionary mode
  (an entry not written keeps its value). \<open>None\<close> is the assertion of \<^verbatim>\<open>riscvGetXlenArch\<close>.\<close>

definition riscvVMInit ::
  "vmirt \<Rightarrow> (nat \<Rightarrow> memDomainP) \<Rightarrow> (nat \<Rightarrow> memDomainP) \<Rightarrow> riscv
    \<Rightarrow> ((nat \<Rightarrow> memDomainP) \<times> (nat \<Rightarrow> memDomainP) \<times> riscv) option" where
  "riscvVMInit V codeDomains dataDomains s =
     (case riscvGetXlenArch [s] of None \<Rightarrow> None | Some xlen \<Rightarrow>
       (let codeDomain = codeDomains 0; dataDomain = dataDomains 0;
            unified = (codeDomain = dataDomain);
            codeBits = vmirtGetDomainAddressBits V codeDomain;
            dataBits = vmirtGetDomainAddressBits V dataDomain;
            s = s\<lparr>extBits := if codeBits < dataBits then codeBits else dataBits\<rparr>;
            s = fold (init_physical V xlen unified codeDomain dataDomain) (tl all_modes) s;
            s = s\<lparr>pmpDomains := (pmpDomains s)(RISCV_MODE_USER := pmpDomains s RISCV_MODE_SUPERVISOR),
                  physDomains := (physDomains s)(RISCV_MODE_USER := physDomains s RISCV_MODE_SUPERVISOR)\<rparr>;
            vm_modes = filter (\<lambda>m. mode_code m + 4 < 6) all_modes;
            s = fold (init_virtual V xlen unified) vm_modes s;
            set_all = (\<lambda>isCode ds. fold (\<lambda>m ds. ds(mode_code m + 4 := vmDomains s m isCode)) vm_modes
                        (fold (\<lambda>m ds. ds(mode_code m := physDomains s m isCode)) all_modes ds));
            s = (if riscvHasMode s RISCV_MODE_SUPERVISOR then s\<lparr>tlb := Some []\<rparr> else s)
        in Some (set_all True codeDomains, set_all False dataDomains, s)))"

section \<open>Facts on the list of entries\<close>

definition tlb_entries :: "riscv \<Rightarrow> tlbEntry list" where
  "tlb_entries s = (case tlb s of None \<Rightarrow> [] | Some es \<Rightarrow> es)"

text \<open>Invariant: entries have distinct addresses.\<close>

definition tlb_ok :: "riscv \<Rightarrow> bool" where
  "tlb_ok s \<longleftrightarrow> distinct (map e_handle (tlb_entries s))"

lemma unmap_tlb:
  "tlb (snd (deleteTLBEntryMappingsMode m es)) = tlb (snd es)"
  "tlb (snd (unmapTLBEntry es)) = tlb (snd es)"
  "tlb (snd (unmapTLBEntryNewASID a es)) = tlb (snd es)"
proof -
  show one: "tlb (snd (deleteTLBEntryMappingsMode m es)) = tlb (snd es)" for m es
    by (cases es) (simp add: deleteTLBEntryMappingsMode_def Let_def)
  have "tlb (snd (fold deleteTLBEntryMappingsMode ms es)) = tlb (snd es)" for ms
    by (induction ms arbitrary: es) (simp_all add: one)
  then show "tlb (snd (unmapTLBEntry es)) = tlb (snd es)" by (simp add: unmapTLBEntry_def)
  show "tlb (snd (unmapTLBEntryNewASID a es)) = tlb (snd es)"
    unfolding unmapTLBEntryNewASID_def all_modes_def by (simp add: one Let_def)
qed

lemma unmap_walk_frame:
  "walk_frame (snd es) (snd (deleteTLBEntryMappingsMode m es))"
  "walk_frame (snd es) (snd (unmapTLBEntry es))"
  "walk_frame (snd es) (snd (unmapTLBEntryNewASID a es))"
proof -
  show one: "walk_frame (snd es) (snd (deleteTLBEntryMappingsMode m es))" for m es
    by (cases es) (simp add: deleteTLBEntryMappingsMode_def Let_def walk_frame_def)
  have "walk_frame (snd es) (snd (fold deleteTLBEntryMappingsMode ms es))" for ms
  proof (induction ms arbitrary: es)
    case (Cons m ms)
    from walk_frame_trans [OF one Cons] show ?case by simp
  qed simp
  then show "walk_frame (snd es) (snd (unmapTLBEntry es))" by (simp add: unmapTLBEntry_def)
  have "walk_frame (snd es) (snd (fold (\<lambda>mode es. let ASIDMask = getEntryASIDMask (fst es) mode
      in if ASIDMask AND e_simASID (fst es) \<noteq> ASIDMask AND a then deleteTLBEntryMappingsMode mode es else es) ms es))"
    for ms
  proof (induction ms arbitrary: es)
    case (Cons m ms)
    show ?case using walk_frame_trans [OF one Cons] Cons by (simp add: Let_def)
  qed simp
  then show "walk_frame (snd es) (snd (unmapTLBEntryNewASID a es))" by (simp add: unmapTLBEntryNewASID_def)
qed

lemma tlb_deleteTLBEntry:
  "tlb (deleteTLBEntry e s) = map_option (filter (\<lambda>x. e_handle x \<noteq> e_handle e)) (tlb s)"
  by (simp add: deleteTLBEntry_def Let_def unmap_tlb)

lemma tlb_entries_deleteTLBEntry:
  "tlb_entries (deleteTLBEntry e s) = filter (\<lambda>x. e_handle x \<noteq> e_handle e) (tlb_entries s)"
  by (simp add: tlb_entries_def tlb_deleteTLBEntry split: option.splits)

text \<open>Everything but the TLB and the call log.\<close>

definition tlb_frame :: "riscv \<Rightarrow> riscv \<Rightarrow> bool" where
  "tlb_frame s t \<longleftrightarrow> walk_frame (s\<lparr>tlb := None\<rparr>) (t\<lparr>tlb := None\<rparr>)"

lemma tlb_frame_refl [simp]: "tlb_frame s s"
  by (simp add: tlb_frame_def)

lemma tlb_frame_trans: "tlb_frame s t \<Longrightarrow> tlb_frame t u \<Longrightarrow> tlb_frame s u"
  by (auto simp: tlb_frame_def intro: walk_frame_trans)

lemma tlb_frame_deleteTLBEntry: "tlb_frame s (deleteTLBEntry e s)"
  using unmap_walk_frame(2) [of "(e, s)"]
  by (simp add: tlb_frame_def walk_frame_def deleteTLBEntry_def Let_def)

lemma getASIDMask_frame: "tlb_frame s t \<Longrightarrow> getASIDMask t = getASIDMask s"
  by (simp add: tlb_frame_def walk_frame_def getASIDMask_def)

text \<open>What the iterator relies on of the kernel's range table: it visits the entries, all of them.\<close>

locale range_table =
  fixes V :: vmirt
  assumes order_set: "set (vmirtRangeOrder V cs es) = set es"

definition invalidates :: "riscv \<Rightarrow> uns64 \<Rightarrow> uns64 \<Rightarrow> matchMode \<Rightarrow> uns32 \<Rightarrow> tlbEntry \<Rightarrow> bool" where
  "invalidates s lowVA highVA mode ASID e \<longleftrightarrow> overlaps lowVA highVA e \<and>
     (e_artifact e \<or> mode = MM_ANY \<or> getASIDMask s = 0 \<or> \<not> e_G e \<and> ASID = getEntryASID e)"

lemma deleteTLBEntryMode_eq:
  "deleteTLBEntryMode e mode ASID s =
    (if mode = MM_ANY \<or> getASIDMask s = 0 \<or> \<not> e_G e \<and> ASID = getEntryASID e then deleteTLBEntry e s else s)"
  by (auto simp: deleteTLBEntryMode_def matchASID_def)

lemma invalidate_fold:
  fixes mode ASID
  defines "step \<equiv> \<lambda>e s. if e_artifact e then deleteTLBEntry e s else deleteTLBEntryMode e mode ASID s"
  shows "tlb_frame s (fold step es s)"
    and "tlb_entries (fold step es s) = filter (\<lambda>x. \<not> (\<exists>e\<in>set es. e_handle x = e_handle e \<and>
      (e_artifact e \<or> mode = MM_ANY \<or> getASIDMask s = 0 \<or> \<not> e_G e \<and> ASID = getEntryASID e))) (tlb_entries s)"
proof -
  have one: "tlb_frame s (step e s)" for e s
    by (simp add: step_def deleteTLBEntryMode_eq tlb_frame_deleteTLBEntry)
  have "tlb_frame s (fold step es s) \<and>
    tlb_entries (fold step es s) = filter (\<lambda>x. \<not> (\<exists>e\<in>set es. e_handle x = e_handle e \<and>
      (e_artifact e \<or> mode = MM_ANY \<or> getASIDMask s = 0 \<or> \<not> e_G e \<and> ASID = getEntryASID e))) (tlb_entries s)"
  proof (induction es arbitrary: s)
    case (Cons e es)
    have mask: "getASIDMask (step e s) = getASIDMask s" by (rule getASIDMask_frame [OF one])
    have "tlb_entries (step e s) = filter (\<lambda>x. \<not> (e_handle x = e_handle e \<and>
      (e_artifact e \<or> mode = MM_ANY \<or> getASIDMask s = 0 \<or> \<not> e_G e \<and> ASID = getEntryASID e))) (tlb_entries s)"
      by (auto simp: step_def deleteTLBEntryMode_eq tlb_entries_deleteTLBEntry)
    with Cons [of "step e s"] tlb_frame_trans [OF one] show ?case
      by (auto simp: mask intro!: filter_cong)
  qed simp
  then show "tlb_frame s (fold step es s)"
    and "tlb_entries (fold step es s) = filter (\<lambda>x. \<not> (\<exists>e\<in>set es. e_handle x = e_handle e \<and>
      (e_artifact e \<or> mode = MM_ANY \<or> getASIDMask s = 0 \<or> \<not> e_G e \<and> ASID = getEntryASID e))) (tlb_entries s)"
    by blast+
qed

context range_table
begin

lemma set_tlb_range: "set (tlb_range V lo hi s) = {e \<in> set (tlb_entries s). overlaps lo hi e}"
  by (auto simp: tlb_range_def tlb_entries_def order_set split: option.splits)

lemma invalidate_entries:
  assumes "tlb_ok s"
  shows "tlb_entries (invalidateTLBEntriesRange V lo hi mode ASID s)
    = filter (\<lambda>e. \<not> invalidates s lo hi mode ASID e) (tlb_entries s)"
proof -
  have "x = e" if "x \<in> set (tlb_entries s)" "e \<in> set (tlb_entries s)" "e_handle x = e_handle e" for x e
    using assms that by (auto simp: tlb_ok_def distinct_map inj_on_def)
  then show ?thesis
    unfolding invalidateTLBEntriesRange_def invalidate_fold(2)
    by (intro filter_cong refl) (auto simp: set_tlb_range invalidates_def)
qed

end

interpretation insertion_order: range_table vmirt_example
  by unfold_locales (simp add: vmirt_example_def)

interpretation fixed_mem_order: range_table "vmirt_mem m4 m8"
  by unfold_locales (simp add: vmirt_mem_def vmirt_example_def)

section \<open>The invariant of the TLB\<close>

lemma fresh_handle_less: "e \<in> set es \<Longrightarrow> e_handle e < fresh_handle es"
  unfolding fresh_handle_def by (induction es) (auto simp: less_Suc_eq_le le_max_iff_disj)

lemma tlb_ok_cong: "tlb t = tlb s \<Longrightarrow> tlb_ok t = tlb_ok s"
  by (simp add: tlb_ok_def tlb_entries_def)

lemma tlb_entries_insert:
  "tlb_entries (insertTLBEntry e s) = (if tlb s = None then [] else tlb_entries s @ [e])"
  by (auto simp: insertTLBEntry_def tlb_entries_def)

lemma tlb_ok_insert_fresh:
  assumes "tlb_ok s" and "e_handle e = fresh_handle (tlb_entries s)"
  shows "tlb_ok (insertTLBEntry e s)"
proof -
  have "e_handle e \<notin> e_handle ` set (tlb_entries s)"
    using fresh_handle_less [of _ "tlb_entries s"] unfolding assms(2) by (metis image_iff less_irrefl)
  with assms(1) show ?thesis by (auto simp: tlb_ok_def tlb_entries_insert)
qed

lemma tlb_ok_allocateTLBEntry: "tlb_ok s \<Longrightarrow> tlb_ok (snd (allocateTLBEntry e s))"
  by (auto simp: allocateTLBEntry_def Let_def tlb_entries_def intro: tlb_ok_insert_fresh)

lemma tlb_ok_deleteTLBEntry: "tlb_ok s \<Longrightarrow> tlb_ok (deleteTLBEntry e s)"
  by (simp add: tlb_ok_def tlb_entries_deleteTLBEntry distinct_map_filter)

lemma tlb_entries_update:
  "map e_handle (tlb_entries (update_entry e s)) = map e_handle (tlb_entries s)"
  by (auto simp: update_entry_def tlb_entries_def split: option.splits)

lemma tlb_ok_update_entry: "tlb_ok (update_entry e s) = tlb_ok s"
  by (simp add: tlb_ok_def tlb_entries_update)

lemma tlb_ok_find_entry:
  "find_entry ASID es s = (r, t) \<Longrightarrow> tlb_ok s \<Longrightarrow> tlb_ok t"
  "find_entry ASID es s = (r, t) \<Longrightarrow> tlb_frame s t"
  by (induction ASID es s arbitrary: t rule: find_entry.induct)
    (auto simp: tlb_ok_deleteTLBEntry split: if_splits
      intro: tlb_frame_trans tlb_frame_deleteTLBEntry)

lemma validateTLBEntryPriv_ok:
  assumes "validateTLBEntryPriv mode e req mi s = (e', mi', t)"
  shows "tlb_ok s \<Longrightarrow> tlb_ok t" "tlb_frame s t"
    "e' = Some x \<Longrightarrow> e = Some x \<and> t = s \<and> mi_lowVA mi' = mi_lowVA mi"
    "e' = Some x \<Longrightarrow> mi_priv mi' = (if e_D x then checkEntryPermission s mode x req
       else checkEntryPermission s mode x req AND NOT MEM_PRIV_W)
      \<and> checkEntryPermission s mode x req \<noteq> MEM_PRIV_NONE \<and> (has req MEM_PRIV_W \<longrightarrow> e_D x)"
  using assms
  by (cases e; auto simp: Let_def tlb_ok_deleteTLBEntry tlb_frame_deleteTLBEntry split: if_splits)+

lemma tlb_frame_walk: "walk_frame s t \<Longrightarrow> tlb_frame s t"
  by (simp add: tlb_frame_def walk_frame_def)

lemma tlb_frame_insert: "tlb_frame s (insertTLBEntry e s)" "tlb_frame s (snd (allocateTLBEntry e s))"
  "tlb_frame s (update_entry e s)"
  by (simp_all add: tlb_frame_def walk_frame_def insertTLBEntry_def allocateTLBEntry_def
      update_entry_def Let_def)

lemma tlb_frame_sat:
  assumes "tlb_frame s t"
  shows "RD_CSR2_FIELD t satp f = RD_CSR2_FIELD s satp f" "lookup_VA t VA = lookup_VA s VA"
    "PTWActive t = PTWActive s" "getSimASID t = getSimASID s"
    "checkEntryPermission t = checkEntryPermission s"
    "artifactAccess t = artifactAccess s"
proof -
  have "csr t = csr s \<and> currentArch t = currentArch s \<and> configInfo t = configInfo s"
    using assms by (simp add: tlb_frame_def walk_frame_def)
  then show "RD_CSR2_FIELD t satp f = RD_CSR2_FIELD s satp f" "lookup_VA t VA = lookup_VA s VA"
    "getSimASID t = getSimASID s" "checkEntryPermission t = checkEntryPermission s"
    by (simp_all add: RD_CSR2_FIELD_def RISCV_XLEN_IS_32_def lookup_VA_def getSimASID_def getActiveASID_def
        getMXR_def getSUM_def RD_CSR_FIELD_def checkEntryPermission_def fun_eq_iff Let_def)
  show "PTWActive t = PTWActive s" "artifactAccess t = artifactAccess s"
    using assms by (simp_all add: tlb_frame_def walk_frame_def)
qed

lemma find_entry_mem:
  "find_entry ASID es s = (Some e, t) \<Longrightarrow> e \<in> set es \<and> \<not> e_artifact e \<and> matchASID ASID e"
  by (induction ASID es s rule: find_entry.induct) (auto split: if_splits)

lemma find_entry_keeps:
  assumes "find_entry ASID es s = (Some e, t)" and "e \<in> set (tlb_entries s)"
    and "\<And>x. x \<in> set es \<Longrightarrow> e_handle x = e_handle e \<Longrightarrow> x = e"
  shows "e \<in> set (tlb_entries t)"
  using assms find_entry_mem [OF assms(1)]
  by (induction ASID es s rule: find_entry.induct)
    (auto simp: tlb_entries_deleteTLBEntry split: if_splits, metis)

lemma deleteTLBEntry_mem: "e \<in> set (tlb_entries (deleteTLBEntry x s)) \<Longrightarrow> e \<in> set (tlb_entries s)"
  by (simp add: tlb_entries_deleteTLBEntry)

lemma tlb_None_delete [simp]: "tlb (deleteTLBEntry e s) = None \<longleftrightarrow> tlb s = None"
  by (simp add: tlb_deleteTLBEntry)

lemma find_entry_tlb: "find_entry ASID es s = (r, t) \<Longrightarrow> tlb t = None \<longleftrightarrow> tlb s = None"
  by (induction ASID es s rule: find_entry.induct) (auto split: if_splits)

lemma validateTLBEntryPriv_tlb:
  "validateTLBEntryPriv mode e req mi s = (e', mi', t) \<Longrightarrow> tlb t = None \<longleftrightarrow> tlb s = None"
  by (cases e) (auto simp: Let_def split: if_splits)

lemma validate_None: "validateTLBEntryPriv mode e req mi s = (None, mi', t) \<Longrightarrow> mi' = mi"
  by (cases e) (auto simp: Let_def split: if_splits)

section \<open>Facts on the miss handler\<close>

text \<open>What finding or creating an entry for an address gives.\<close>

definition found_ok :: "riscv \<Rightarrow> riscvMode \<Rightarrow> memPriv \<Rightarrow> uns64 \<Rightarrow> tlbEntry \<Rightarrow> tlbMapInfo \<Rightarrow> bool" where
  "found_ok s mode req VA e mi \<longleftrightarrow> e_lowVA e \<le> VA \<and> VA \<le> e_highVA e \<and> mi_lowVA mi = VA
     \<and> checkEntryPermission s mode e req \<noteq> MEM_PRIV_NONE \<and> (has req MEM_PRIV_W \<longrightarrow> e_D e)
     \<and> mi_priv mi = (if e_D e then checkEntryPermission s mode e req
         else checkEntryPermission s mode e req AND NOT MEM_PRIV_W)"

context range_table
begin

lemma findTLBEntry_ok:
  assumes "findTLBEntry V VA s = (r, t)"
  shows "tlb_ok s \<Longrightarrow> tlb_ok t" "tlb_frame s t"
    "r = Some e \<Longrightarrow> e \<in> set (tlb_entries s) \<and> e_lowVA e \<le> VA \<and> VA \<le> e_highVA e
      \<and> \<not> e_artifact e \<and> matchASID (getActiveASID s) e"
    "r = Some e \<Longrightarrow> tlb_ok s \<Longrightarrow> e \<in> set (tlb_entries t)"
proof -
  have mem: "e \<in> set (tlb_entries s) \<and> e_lowVA e \<le> VA \<and> VA \<le> e_highVA e \<and> \<not> e_artifact e
      \<and> matchASID (getActiveASID s) e" if "r = Some e"
    using that assms find_entry_mem [of "getActiveASID s" "tlb_range V VA VA s" s e t]
    by (auto simp: findTLBEntry_def set_tlb_range overlaps_def)
  then show "r = Some e \<Longrightarrow> e \<in> set (tlb_entries s) \<and> e_lowVA e \<le> VA \<and> VA \<le> e_highVA e
      \<and> \<not> e_artifact e \<and> matchASID (getActiveASID s) e" .
  show "tlb_ok s \<Longrightarrow> tlb_ok t" "tlb_frame s t"
    using assms tlb_ok_find_entry [of "getActiveASID s" "tlb_range V VA VA s" s r t]
    by (simp_all add: findTLBEntry_def)
  assume r: "r = Some e" and "tlb_ok s"
  then have "x = e" if "x \<in> set (tlb_range V VA VA s)" "e_handle x = e_handle e" for x
    using that mem [OF r] by (auto simp: set_tlb_range tlb_ok_def distinct_map inj_on_def)
  then show "e \<in> set (tlb_entries t)"
    using assms r mem find_entry_keeps [of "getActiveASID s" "tlb_range V VA VA s" s e t]
    by (auto simp: findTLBEntry_def)
qed

lemma findOrCreateTLBEntry_ok:
  assumes foc: "findOrCreateTLBEntry V mode art mi s = Some (r, mi', t)"
    and "\<not> PTWActive s" and VA: "lookup_VA s (mi_lowVA mi) = mi_lowVA mi"
  shows "tlb_ok s \<Longrightarrow> tlb_ok t"
    and "r = Some e \<Longrightarrow> tlb_frame s t \<and> found_ok s mode (mi_priv mi) (mi_lowVA mi) e mi'"
    and "r = Some e \<Longrightarrow> tlb_ok s \<Longrightarrow> tlb s \<noteq> None \<Longrightarrow> e \<in> set (tlb_entries t)"
proof -
  let ?VA = "mi_lowVA mi" and ?req = "mi_priv mi"
  obtain r1 s1 where f: "findTLBEntry V ?VA s = (r1, s1)" by fastforce
  obtain r2 mi2 s2 where v: "validateTLBEntryPriv mode r1 ?req mi s1 = (r2, mi2, s2)" by (metis prod_cases3)
  note f' = findTLBEntry_ok [OF f] and v' = validateTLBEntryPriv_ok [OF v]
  have s2: "tlb_frame s s2" by (rule tlb_frame_trans [OF f'(2) v'(2)])
  have na: "\<not> PTWActive s2" using assms(2) by (simp add: tlb_frame_sat(3) [OF s2])
  have main: "(tlb_ok s \<longrightarrow> tlb_ok t)
    \<and> (r = Some e \<longrightarrow> tlb_frame s t \<and> found_ok s mode ?req ?VA e mi'
        \<and> (tlb_ok s \<and> tlb s \<noteq> None \<longrightarrow> e \<in> set (tlb_entries t)))"
  proof (cases r2)
    case (Some x)
    then have eq: "r = Some x" "mi' = mi2" "t = s2"
      using foc by (simp_all add: findOrCreateTLBEntry_def f v Let_def)
    note v3 = v'(3) [OF Some] and v4 = v'(4) [OF Some]
    have "found_ok s mode ?req ?VA x mi2"
      using f'(3) [of x] v3 v4 unfolding found_ok_def tlb_frame_sat(5) [OF f'(2)] by auto
    with s2 f'(1,4) v'(1) v3 show ?thesis by (auto simp: eq)
  next
    case None
    obtain s3 lr where l: "tlbLookup V mode (initialEntry ?VA) ?req s2 = Some (s3, lr)"
      using foc by (auto simp: findOrCreateTLBEntry_def f v Let_def None split: option.splits)
    have fr: "walk_frame s2 s3" by (rule tlbLookup_frame [OF l na])
    show ?thesis
    proof (cases lr)
      case (Inl x)
      then have "r = None" "t = handleInvalidAccess V ?VA art x s3"
        using foc by (simp_all add: findOrCreateTLBEntry_def f v Let_def None l)
      moreover from this have "tlb t = tlb s2" using fr by (simp add: handleInvalidAccess_def walk_frame_def)
      ultimately show ?thesis using f'(1) v'(1) tlb_ok_cong [of t s2] by blast
    next
      case (Inr tmp)
      obtain y s4 where al: "allocateTLBEntry tmp s3 = (y, s4)" by fastforce
      have r: "validateTLBEntryPriv mode (Some y) ?req mi2 s4 = (r, mi', t)"
        using foc by (simp add: findOrCreateTLBEntry_def f v Let_def None l Inr al)
      note w = validateTLBEntryPriv_ok [OF r]
      have s4: "tlb_frame s s4"
        using tlb_frame_trans [OF s2 tlb_frame_trans [OF tlb_frame_walk [OF fr] tlb_frame_insert(2) [of s3 tmp]]]
        by (simp add: al)
      have ok4: "tlb_ok s4" if "tlb_ok s"
        using tlb_ok_allocateTLBEntry [of s3 tmp] that f'(1) v'(1) fr tlb_ok_cong [of s3 s2]
        by (simp add: al walk_frame_def)
      have "entry_ok s2 mode ?req (lookup_VA s2 ?VA) tmp"
        using ptw_ok(2) [OF tlbLookup_ptw [OF l [unfolded Inr]] na] by (simp add: initialEntry_def)
      then have cov: "e_lowVA y \<le> ?VA \<and> ?VA \<le> e_highVA y"
        using al VA by (auto simp: entry_ok_def allocateTLBEntry_def Let_def tlb_frame_sat(2) [OF s2])
      have "tlb s1 = None \<longleftrightarrow> tlb s = None"
        using f unfolding findTLBEntry_def by (rule find_entry_tlb)
      with validateTLBEntryPriv_tlb [OF v] fr have nn: "tlb s3 \<noteq> None" if "tlb s \<noteq> None"
        using that by (simp add: walk_frame_def)
      have mem: "y \<in> set (tlb_entries s4)" if "tlb s \<noteq> None"
        using al nn [OF that] by (auto simp: allocateTLBEntry_def Let_def tlb_entries_insert)
      have "found_ok s mode ?req ?VA e mi'" if "r = Some e"
        using w(3) [OF that] w(4) [OF that] cov validate_None [OF v [unfolded None]]
        unfolding found_ok_def tlb_frame_sat(5) [OF s4] by auto
      then show ?thesis using w(1,2) w(3) [of e] mem ok4 tlb_frame_trans [OF s4] by auto
    qed
  qed
  from main show "tlb_ok s \<Longrightarrow> tlb_ok t"
    and "r = Some e \<Longrightarrow> tlb_frame s t \<and> found_ok s mode (mi_priv mi) (mi_lowVA mi) e mi'"
    and "r = Some e \<Longrightarrow> tlb_ok s \<Longrightarrow> tlb s \<noteq> None \<Longrightarrow> e \<in> set (tlb_entries t)" by simp_all
qed

end

text \<open>Mapping PMP regions makes no call but protections of memory.\<close>

definition protect_calls :: "vmicall list \<Rightarrow> bool" where
  "protect_calls cs \<longleftrightarrow> (\<forall>c \<in> set cs. \<exists>d lo hi p a. c = VmirtProtectMemory d lo hi p a)"

lemma protect_calls_Nil [simp]: "protect_calls []"
  by (simp add: protect_calls_def)

lemma protect_calls_append [simp]: "protect_calls (cs @ ds) \<longleftrightarrow> protect_calls cs \<and> protect_calls ds"
  by (auto simp: protect_calls_def)

lemma mapPMP_calls: "\<exists>ds. calls (mapPMP mode req lowPA highPA s) = calls s @ ds \<and> protect_calls ds"
proof -
  have set: "\<exists>ds. calls (setPMPPriv m lo hi p s) = calls s @ ds \<and> protect_calls ds" for m lo hi p s
    by (auto simp: setPMPPriv_def Let_def protect_calls_def)
  have int: "\<exists>ds. calls t = calls s @ ds \<and> protect_calls ds" if "mapPMPInt mode req PA hi s = (t, lo, hi')"
    for s t PA hi lo hi'
  proof -
    obtain l h p where r: "pmpRegionOf s mode PA hi = (l, h, p)" by (metis prod_cases3)
    let ?s = "if p AND req \<noteq> req then s\<lparr>AFErrorIn := riscv_AFault_PMP\<rparr> else s"
    have "t = setPMPPriv mode l h p ?s" using that by (auto simp: mapPMPInt_def Let_def r)
    with set [of mode l h p ?s] show ?thesis by (simp split: if_splits)
  qed
  have "\<exists>ds. calls (mapPMP_loop mode req lowPA highPA s) = calls s @ ds \<and> protect_calls ds"
  proof (rule mapPMP_loop_rule [where P = "\<lambda>_ s t. \<exists>ds. calls t = calls s @ ds \<and> protect_calls ds"])
    fix s t s' lowPA lo hi
    assume m: "mapPMPInt mode req lowPA (getAddressMask (extBits s)) s = (t, lo, hi)"
    then show "\<exists>ds. calls t = calls s @ ds \<and> protect_calls ds" by (rule int)
    assume "\<exists>ds. calls s' = calls t @ ds \<and> protect_calls ds"
    with int [OF m] show "\<exists>ds. calls s' = calls s @ ds \<and> protect_calls ds"
      by (metis append.assoc protect_calls_append)
  qed simp
  then show ?thesis by (simp add: mapPMP_def)
qed

lemma unmap_entry: "\<exists>m. fst (unmapTLBEntryNewASID a es) = (fst es)\<lparr>e_isMapped := m\<rparr>"
proof -
  have one: "\<exists>m. fst (deleteTLBEntryMappingsMode mode es) = (fst es)\<lparr>e_isMapped := m\<rparr>" for mode es
    by (cases es) (auto simp: deleteTLBEntryMappingsMode_def Let_def
        intro: exI [of _ "e_isMapped (fst es)"])
  have "\<exists>m. fst (fold (\<lambda>mode es. let ASIDMask = getEntryASIDMask (fst es) mode
      in if ASIDMask AND e_simASID (fst es) \<noteq> ASIDMask AND a then deleteTLBEntryMappingsMode mode es else es) ms es)
    = (fst es)\<lparr>e_isMapped := m\<rparr>" for ms
  proof (induction ms arbitrary: es)
    case Nil
    show ?case by (auto intro: exI [of _ "e_isMapped (fst es)"])
  next
    case (Cons mode ms)
    then show ?case using one [of mode es] Cons [of "deleteTLBEntryMappingsMode mode es"] by (fastforce simp: Let_def)
  qed
  then show ?thesis by (simp add: unmapTLBEntryNewASID_def)
qed

text \<open>The alias that mapping an entry makes: it covers the address and translates it as the entry
  does.\<close>

lemma mapTLBEntry_ok:
  assumes "mapTLBEntry e dV mode req mi s = (e', mi', t)" and "e_lowVA e \<le> mi_lowVA mi" "mi_lowVA mi \<le> e_highVA e"
  shows "mi_lowVA mi' \<le> mi_lowVA mi" "mi_lowVA mi \<le> mi_highVA mi'" "walk_frame s t"
    "\<exists>lowPA highPA ds. calls t = calls s @ VmirtAliasMemoryVM (getPMPDomainPriv s mode req) dV lowPA highPA
        (mi_lowVA mi') (mi_priv mi) (getEntryASIDMask e mode) (e_simASID e) # ds \<and> protect_calls ds
      \<and> highPA - lowPA = mi_highVA mi' - mi_lowVA mi'
      \<and> lowPA + (mi_lowVA mi - mi_lowVA mi') = e_PA e + (mi_lowVA mi - e_lowVA e)"
proof -
  let ?big = "getEntryHighPA e - e_PA e + 1 > 0x100000000"
  define lv where "lv = (if ?big then mi_lowVA mi AND - 0x100000000 else e_lowVA e)"
  define size where "size = (if ?big then 0x100000000 else getEntryHighPA e - e_PA e + 1)"
  define lp where "lp = (if ?big then lv + (e_PA e - e_lowVA e) else e_PA e)"
  let ?al = "VmirtAliasMemoryVM (getPMPDomainPriv s mode req) dV lp (lp + size - 1) lv (mi_priv mi)
      (getEntryASIDMask e mode) (e_simASID e)"
  have t: "t = mapPMP mode req lp (lp + size - 1) (do_call ?al s)"
    and mi': "mi_lowVA mi' = lv" "mi_highVA mi' = lv + size - 1"
    using assms(1) by (auto simp: mapTLBEntry_def Let_def lv_def size_def lp_def split: if_splits)
  show "walk_frame s t" unfolding t
    by (rule walk_frame_trans [OF walk_frame_do_call walk_frame_mapPMP])
  have four: "(0x100000000 :: uns64) = push_bit 32 1" by simp
  have "mi_lowVA mi AND - 0x100000000 \<le> mi_lowVA mi"
    "mi_lowVA mi \<le> (mi_lowVA mi AND - 0x100000000) + 0x100000000 - 1"
    unfolding four by (rule page_covers)+
  then show "mi_lowVA mi' \<le> mi_lowVA mi" "mi_lowVA mi \<le> mi_highVA mi'"
    using assms(2,3) unfolding mi' by (simp_all add: lv_def size_def getEntryHighPA_def)
  have "\<exists>ds. calls t = calls s @ ?al # ds \<and> protect_calls ds"
    using mapPMP_calls [of mode req lp "lp + size - 1" "do_call ?al s"] by (simp add: t)
  moreover have "(lp + size - 1) - lp = mi_highVA mi' - mi_lowVA mi'" by (simp add: mi')
  moreover have "lp + (mi_lowVA mi - mi_lowVA mi') = e_PA e + (mi_lowVA mi - e_lowVA e)"
    by (simp add: mi' lp_def lv_def)
  ultimately show "\<exists>lowPA highPA ds. calls t = calls s @ VmirtAliasMemoryVM (getPMPDomainPriv s mode req) dV lowPA highPA
        (mi_lowVA mi') (mi_priv mi) (getEntryASIDMask e mode) (e_simASID e) # ds \<and> protect_calls ds
      \<and> highPA - lowPA = mi_highVA mi' - mi_lowVA mi'
      \<and> lowPA + (mi_lowVA mi - mi_lowVA mi') = e_PA e + (mi_lowVA mi - e_lowVA e)"
    unfolding mi'(1) by blast
qed

section \<open>Correctness of the miss handler\<close>

text \<open>A page made available for an address: an entry covers it, and the last alias that the kernel was
  asked for maps a block with the address in it to where the entry says, with rights that include the
  access but no write while the entry is clean.\<close>

definition page_mapped ::
  "riscv \<Rightarrow> riscv \<Rightarrow> memDomainP \<Rightarrow> riscvMode \<Rightarrow> memPriv \<Rightarrow> uns64 \<Rightarrow> uns64 \<Rightarrow> uns64 \<Rightarrow> tlbEntry \<Rightarrow> bool" where
  "page_mapped s t domain mode req VA lowVA highVA e \<longleftrightarrow> e_lowVA e \<le> VA \<and> VA \<le> e_highVA e
     \<and> lowVA \<le> VA \<and> VA \<le> highVA
     \<and> (\<exists>cs ds lowPA highPA priv. calls t = cs @ VmirtAliasMemoryVM (getPMPDomainPriv s mode req) domain
          lowPA highPA lowVA priv (getEntryASIDMask e mode) (getSimASID s) # ds \<and> protect_calls ds
        \<and> highPA - lowPA = highVA - lowVA \<and> lowPA + (VA - lowVA) = e_PA e + (VA - e_lowVA e)
        \<and> priv AND req = req \<and> (\<not> e_D e \<longrightarrow> priv AND MEM_PRIV_W = 0))"

lemma checkEntryPermission_includes:
  assumes "checkEntryPermission s mode e req \<noteq> MEM_PRIV_NONE"
  shows "checkEntryPermission s mode e req AND req = req"
proof -
  have "\<exists>p. checkEntryPermission s mode e req = (if p AND req = req then p else MEM_PRIV_NONE)"
    unfolding checkEntryPermission_def Let_def by (rule exI, rule refl)
  with assms show ?thesis by auto
qed

lemma found_priv:
  assumes "found_ok s mode req VA e mi"
  shows "mi_priv mi AND req = req" "\<not> e_D e \<Longrightarrow> mi_priv mi AND MEM_PRIV_W = 0"
proof -
  let ?p = "checkEntryPermission s mode e req"
  have p: "?p AND req = req" using assms by (auto simp: found_ok_def intro: checkEntryPermission_includes)
  show "\<not> e_D e \<Longrightarrow> mi_priv mi AND MEM_PRIV_W = 0"
    using assms by (auto simp: found_ok_def intro: bit_word_eqI simp: bit_simps)
  show "mi_priv mi AND req = req"
  proof (cases "e_D e")
    case False
    with assms have "\<not> has req MEM_PRIV_W" "mi_priv mi = ?p AND NOT MEM_PRIV_W" by (auto simp: found_ok_def)
    then have "\<not> bit req 1" by (simp add: has_bit [of req 1, simplified])
    then have "req AND NOT MEM_PRIV_W = req"
      by (intro bit_word_eqI) (auto simp: bit_simps bit_2_iff)
    with p \<open>mi_priv mi = _\<close> show ?thesis by (metis and.assoc and.commute)
  qed (use assms p in \<open>simp add: found_ok_def\<close>)
qed

text \<open>Some alias that the kernel was asked for covers an address with the rights of the access.\<close>

definition alias_covers :: "riscv \<Rightarrow> memDomainP \<Rightarrow> memPriv \<Rightarrow> uns64 \<Rightarrow> bool" where
  "alias_covers t domain req a \<longleftrightarrow> (\<exists>dP lowPA highPA lowVA priv m i.
     VmirtAliasMemoryVM dP domain lowPA highPA lowVA priv m i \<in> set (calls t)
     \<and> lowVA \<le> a \<and> a \<le> lowVA + (highPA - lowPA) \<and> priv AND req = req)"

lemma page_mapped_covers:
  assumes "page_mapped s t domain mode req VA lowVA highVA e" and "VA \<le> a" "a \<le> highVA"
  shows "alias_covers t domain req a"
proof -
  obtain cs ds lowPA highPA priv where c: "calls t = cs @ VmirtAliasMemoryVM (getPMPDomainPriv s mode req) domain
      lowPA highPA lowVA priv (getEntryASIDMask e mode) (getSimASID s) # ds"
    "highPA - lowPA = highVA - lowVA" "priv AND req = req" "lowVA \<le> VA"
    using assms(1) unfolding page_mapped_def by blast
  show ?thesis unfolding alias_covers_def
  proof (intro exI conjI)
    show "VmirtAliasMemoryVM (getPMPDomainPriv s mode req) domain lowPA highPA lowVA priv
        (getEntryASIDMask e mode) (getSimASID s) \<in> set (calls t)" by (simp add: c(1))
    show "lowVA \<le> a" using c(4) assms(2) by simp
    show "a \<le> lowVA + (highPA - lowPA)" using assms(3) by (simp add: c(2))
  qed (rule c(3))
qed

lemma alias_covers_mono: "tlb_frame t u \<Longrightarrow> alias_covers t domain req a \<Longrightarrow> alias_covers u domain req a"
  using set_mono_prefix [of "calls t" "calls u"]
  by (fastforce simp: tlb_frame_def walk_frame_def alias_covers_def)

lemma distance_step:
  fixes VA hi lastVA :: uns64
  assumes "unat (lastVA - VA) < Suc n" "VA \<le> hi" "hi < lastVA"
  shows "unat (lastVA - (hi + 1)) < n"
proof -
  have "unat (lastVA - (hi + 1)) = unat lastVA - (unat hi + 1)"
    using word_less_plus_1_le [OF assms(3)] unat_plus_1 [OF assms(3)] by (simp add: unat_sub)
  moreover have "unat (lastVA - VA) = unat lastVA - unat VA" using assms by (intro unat_sub) simp
  ultimately show ?thesis using assms by (simp add: word_le_nat_alt word_less_nat_alt)
qed

lemma word_bounded_take_bit: "a \<le> b \<Longrightarrow> take_bit k b = b \<Longrightarrow> take_bit k a = a" for a b :: uns64
  by (simp add: word_unat_eq_iff unsigned_take_bit_eq take_bit_nat_eq_self_iff word_le_nat_alt)

context range_table
begin

lemma tlbMiss_ok:
  assumes miss: "tlbMiss V domain mode art mi s = Some (miss, mi', t)"
    and "\<not> PTWActive s" and VA: "lookup_VA s (mi_lowVA mi) = mi_lowVA mi"
  shows "tlb_ok s \<Longrightarrow> tlb_ok t"
    and "\<not> miss \<Longrightarrow> tlb_frame s t \<and> (\<exists>e. page_mapped s t domain mode (mi_priv mi) (mi_lowVA mi)
           (mi_lowVA mi') (mi_highVA mi') e \<and> (tlb_ok s \<and> tlb s \<noteq> None \<longrightarrow> e \<in> set (tlb_entries t)))"
proof -
  let ?VA = "mi_lowVA mi" and ?req = "mi_priv mi"
  obtain r mi1 s1 where f: "findOrCreateTLBEntry V mode art mi s = Some (r, mi1, s1)"
    using miss by (auto simp: tlbMiss_def Let_def split: option.splits)
  note f' = findOrCreateTLBEntry_ok [OF f assms(2,3)]
  have "(tlb_ok s \<longrightarrow> tlb_ok t) \<and> (\<not> miss \<longrightarrow> tlb_frame s t \<and>
      (\<exists>e. page_mapped s t domain mode ?req ?VA (mi_lowVA mi') (mi_highVA mi') e
        \<and> (tlb_ok s \<and> tlb s \<noteq> None \<longrightarrow> e \<in> set (tlb_entries t))))"
  proof (cases r)
    case None
    then have "miss \<and> t = s1" using miss by (simp add: tlbMiss_def Let_def f)
    then show ?thesis using f'(1) by auto
  next
    case (Some x)
    have s1: "tlb_frame s s1" and ok: "found_ok s mode ?req ?VA x mi1" using f'(2) [OF Some] by auto
    define a where "a = getSimASID s"
    obtain y s2 where u: "unmapTLBEntryNewASID a (x, s1) = (y, s2)" by fastforce
    obtain m where y: "y = x\<lparr>e_isMapped := m\<rparr>" using unmap_entry [of a "(x, s1)"] by (auto simp: u)
    let ?z = "x\<lparr>e_isMapped := m, e_simASID := a\<rparr>"
    obtain z mi2 s3 where mp: "mapTLBEntry ?z domain mode ?req mi1 s2 = (z, mi2, s3)" by (metis prod_cases3)
    have sim: "getSimASID s1 = a" using tlb_frame_sat(4) [OF s1] by (simp add: a_def)
    have res: "miss = False" "mi' = mi2" "t = update_entry z s3"
      using miss by (simp_all add: tlbMiss_def Let_def f Some sim u y mp)
    have VA1: "mi_lowVA mi1 = ?VA" "e_lowVA x \<le> ?VA" "?VA \<le> e_highVA x" using ok by (auto simp: found_ok_def)
    note mp' = mapTLBEntry_ok [OF mp, simplified, unfolded VA1(1), OF VA1(2,3)]
    have w2: "walk_frame s1 s2" "tlb s2 = tlb s1"
      using unmap_walk_frame(3) [of "(x, s1)" a] unmap_tlb(3) [of a "(x, s1)"] by (simp_all add: u)
    have s3: "tlb_frame s s3"
      using tlb_frame_trans [OF s1 tlb_frame_walk [OF walk_frame_trans [OF w2(1) mp'(3)]]] .
    have t3: "tlb s3 = tlb s1" using mp'(3) w2(2) by (simp add: walk_frame_def)
    have z: "z = x\<lparr>e_isMapped := e_isMapped z, e_simASID := a\<rparr>"
      using mp by (auto simp: mapTLBEntry_def Let_def split: if_splits)
    have zf: "e_lowVA z = e_lowVA x" "e_highVA z = e_highVA x" "e_PA z = e_PA x" "e_D z = e_D x"
      "e_handle z = e_handle x" "getEntryASIDMask z mode = getEntryASIDMask x mode"
      by (subst z, simp add: getEntryASIDMask_def)+
    have pmp: "getPMPDomainPriv s2 mode ?req = getPMPDomainPriv s mode ?req"
      using s1 w2(1) by (simp add: getPMPDomainPriv_def tlb_frame_def walk_frame_def)
    obtain lowPA highPA ds where al: "calls s3 = calls s2 @ VmirtAliasMemoryVM (getPMPDomainPriv s mode ?req) domain
        lowPA highPA (mi_lowVA mi2) (mi_priv mi1) (getEntryASIDMask x mode) a # ds"
      "protect_calls ds" "highPA - lowPA = mi_highVA mi2 - mi_lowVA mi2"
      "lowPA + (?VA - mi_lowVA mi2) = e_PA x + (?VA - e_lowVA x)"
      using mp'(4) unfolding pmp by (auto simp: getEntryASIDMask_def)
    have "page_mapped s t domain mode ?req ?VA (mi_lowVA mi') (mi_highVA mi') z"
      unfolding page_mapped_def zf res(2)
    proof (intro conjI exI)
      show "calls t = calls s2 @ VmirtAliasMemoryVM (getPMPDomainPriv s mode ?req) domain
          lowPA highPA (mi_lowVA mi2) (mi_priv mi1) (getEntryASIDMask x mode) (getSimASID s) # ds"
        using al(1) by (simp add: res update_entry_def a_def)
    qed (use VA1 mp'(1,2) al(2-4) found_priv [OF ok] in blast)+
    moreover have "tlb_frame s t" unfolding res by (rule tlb_frame_trans [OF s3 tlb_frame_insert(3)])
    moreover have "tlb_ok s \<longrightarrow> tlb_ok t"
      using f'(1) tlb_ok_cong [OF t3] by (simp add: res tlb_ok_update_entry)
    moreover have "z \<in> set (tlb_entries t)" if "tlb_ok s" "tlb s \<noteq> None"
      using f'(3) [OF Some that] by (auto simp: res update_entry_def tlb_entries_def t3 zf split: option.splits)
    ultimately show ?thesis by blast
  qed
  then show "tlb_ok s \<Longrightarrow> tlb_ok t"
    and "\<not> miss \<Longrightarrow> tlb_frame s t \<and> (\<exists>e. page_mapped s t domain mode (mi_priv mi) (mi_lowVA mi)
           (mi_lowVA mi') (mi_highVA mi') e \<and> (tlb_ok s \<and> tlb s \<noteq> None \<longrightarrow> e \<in> set (tlb_entries t)))"
    by blast+
qed

lemma tlbMiss_defined:
  assumes "RD_CSR2_FIELD s satp atp_MODE \<in> {VAM_Sv32, VAM_Sv39, VAM_Sv48}"
  shows "\<exists>miss mi' t. tlbMiss V domain mode art mi s = Some (miss, mi', t)"
proof -
  obtain r1 s1 where f: "findTLBEntry V (mi_lowVA mi) s = (r1, s1)" by fastforce
  obtain r2 mi2 s2 where v: "validateTLBEntryPriv mode r1 (mi_priv mi) mi s1 = (r2, mi2, s2)"
    by (metis prod_cases3)
  have "RD_CSR2_FIELD s2 satp atp_MODE = RD_CSR2_FIELD s satp atp_MODE"
    by (rule tlb_frame_sat(1) [OF tlb_frame_trans [OF findTLBEntry_ok(2) [OF f] validateTLBEntryPriv_ok(2) [OF v]]])
  with assms have "tlbLookup V mode (initialEntry (mi_lowVA mi)) (mi_priv mi) s2 \<noteq> None"
    by (auto simp: tlbLookup_def Let_def)
  then obtain s3 lr where l: "tlbLookup V mode (initialEntry (mi_lowVA mi)) (mi_priv mi) s2 = Some (s3, lr)"
    by auto
  have "findOrCreateTLBEntry V mode art mi s \<noteq> None"
    by (cases r2; cases lr) (simp_all add: findOrCreateTLBEntry_def f v l Let_def split: prod.split)
  then obtain r where "findOrCreateTLBEntry V mode art mi s = Some r" by blast
  then show ?thesis by (cases r) (auto simp: tlbMiss_def Let_def split: option.splits prod.splits)
qed

text \<open>One round, then the loop, by induction on the rounds left.\<close>

lemma vmMiss_loop_ok:
  assumes "RD_CSR2_FIELD s satp atp_MODE \<in> {VAM_Sv32, VAM_Sv39, VAM_Sv48}" and "\<not> PTWActive s"
    and "lookup_VA s lastVA = lastVA" and "mi_highVA mi + 1 \<le> lastVA" "unat (lastVA - (mi_highVA mi + 1)) < n"
  shows "\<exists>miss t. vmMiss_loop n V domain mode req lastVA art mi s = Some (miss, t) \<and> (tlb_ok s \<longrightarrow> tlb_ok t)
    \<and> (\<not> miss \<longrightarrow> tlb_frame s t \<and> (\<forall>a. mi_highVA mi + 1 \<le> a \<longrightarrow> a \<le> lastVA \<longrightarrow> alias_covers t domain req a))"
  using assms
proof (induction n arbitrary: mi s)
  case (Suc n)
  let ?VA = "mi_highVA mi + 1"
  let ?mi = "\<lparr>mi_lowVA = ?VA, mi_highVA = lastVA, mi_priv = req\<rparr>"
  obtain miss mi' t where m: "tlbMiss V domain mode art ?mi s = Some (miss, mi', t)"
    using tlbMiss_defined [OF Suc.prems(1)] by blast
  have VA: "lookup_VA s a = a" if "a \<le> lastVA" for a
    using Suc.prems(3) that word_bounded_take_bit [of a lastVA 32] by (auto simp: lookup_VA_def)
  note m' = tlbMiss_ok [OF m Suc.prems(2), simplified, OF VA [OF Suc.prems(4)]]
  have cov: "alias_covers t domain req a" if "\<not> miss" "?VA \<le> a" "a \<le> mi_highVA mi'" for a
    using m'(2) [OF that(1)] that(2,3) page_mapped_covers by blast
  show ?case
  proof (cases "\<not> miss \<and> (lastVA < mi_lowVA mi' \<or> lastVA > mi_highVA mi')")
    case False
    then have "vmMiss_loop (Suc n) V domain mode req lastVA art mi s = Some (miss, t)"
      using m by (auto simp: Let_def)
    moreover have "alias_covers t domain req a" if "\<not> miss" "?VA \<le> a" "a \<le> lastVA" for a
      using False that cov [OF that(1,2)] by auto
    ultimately show ?thesis using m' by simp
  next
    case True
    then have nm: "\<not> miss" by simp
    have fr: "tlb_frame s t" and in1: "mi_lowVA mi' \<le> ?VA" "?VA \<le> mi_highVA mi'"
      using m'(2) [OF nm] by (auto simp: page_mapped_def)
    with True Suc.prems(4) have lt: "mi_highVA mi' < lastVA" by auto
    then have next1: "mi_highVA mi' + 1 \<le> lastVA" by (rule word_less_plus_1_le)
    moreover have "unat (lastVA - (mi_highVA mi' + 1)) < n"
      using Suc.prems(5) in1(2) lt by (rule distance_step)
    moreover note sat = tlb_frame_sat [OF fr]
    ultimately obtain miss2 u where u: "vmMiss_loop n V domain mode req lastVA art mi' t = Some (miss2, u)"
      "tlb_ok t \<longrightarrow> tlb_ok u" "\<not> miss2 \<longrightarrow> tlb_frame t u \<and>
        (\<forall>a. mi_highVA mi' + 1 \<le> a \<longrightarrow> a \<le> lastVA \<longrightarrow> alias_covers u domain req a)"
      using Suc.IH [of t mi'] Suc.prems(1-3) by (auto simp: sat)
    have "alias_covers u domain req a" if "\<not> miss2" "?VA \<le> a" "a \<le> lastVA" for a
    proof (cases "a \<le> mi_highVA mi'")
      case True
      then show ?thesis using cov [OF nm that(2)] u(3) that(1) alias_covers_mono [of t u] by blast
    next
      case False
      then have "mi_highVA mi' + 1 \<le> a" by (intro word_less_plus_1_le) simp
      then show ?thesis using u(3) that by blast
    qed
    moreover have "vmMiss_loop (Suc n) V domain mode req lastVA art mi s = Some (miss2, u)"
      using m True u(1) by (simp add: Let_def)
    ultimately show ?thesis using m'(1) u(2,3) tlb_frame_trans [OF fr] by auto
  qed
qed simp

end

section \<open>Properties of the miss handler\<close>

lemma find_domain_AFErrorIn:
  "getDomainType (s\<lparr>AFErrorIn := x\<rparr>) = getDomainType s" "find_domain (s\<lparr>AFErrorIn := x\<rparr>) = find_domain s"
proof -
  show "getDomainType (s\<lparr>AFErrorIn := x\<rparr>) = getDomainType s" by (simp add: getDomainType_def fun_eq_iff)
  then show "find_domain (s\<lparr>AFErrorIn := x\<rparr>) = find_domain s" by (simp add: find_domain_def fun_eq_iff)
qed

text \<open>The Sv39 example with an empty TLB and unified domains for each mode.\<close>

definition vm_example :: riscv where
  "vm_example = sv39_example\<lparr>tlb := Some [],
     vmDomains := (\<lambda>m _. if m = RISCV_MODE_USER then 21 else if m = RISCV_MODE_SUPERVISOR then 22 else 0),
     pmpDomains := (\<lambda>m _. if m = RISCV_MODE_MACHINE then 33 else if m = RISCV_MODE_HYPERVISOR then 32 else 31),
     physDomains := (\<lambda>m _. if m = RISCV_MODE_MACHINE then 43 else if m = RISCV_MODE_HYPERVISOR then 42 else 41)\<rparr>"

text \<open>C4. When a miss is resolved, the TLB holds an entry for the address, and the kernel has been asked, as
  the last change of mappings, for an alias of the virtual domain that contains the address, leads to
  the physical address that the entry gives, grants every right the access needs, and grants no write
  while the page is clean, so that the first write misses again and sets the dirty bit.\<close>

theorem tlbMiss_maps:
  assumes "range_table V" and "tlbMiss V domain mode artifact mi s = Some (False, mi', t)"
    and "\<not> PTWActive s" and "lookup_VA s (mi_lowVA mi) = mi_lowVA mi" and "tlb_ok s" and "tlb s \<noteq> None"
  shows "tlb_ok t \<and> (\<exists>e \<in> set (tlb_entries t). page_mapped s t domain mode (mi_priv mi) (mi_lowVA mi)
    (mi_lowVA mi') (mi_highVA mi') e)"
  using range_table.tlbMiss_ok [OF assms(1-4)] assms(5,6) by auto

theorem tlbMiss_maps_witness:
  "\<exists>mi' t. tlbMiss (vmirt_mem (\<lambda>_. 0) sv39_tables) 21 RISCV_MODE_USER False
      \<lparr>mi_lowVA = 0x1234, mi_highVA = 0x1237, mi_priv = MEM_PRIV_R\<rparr> vm_example = Some (False, mi', t)
    \<and> tlb_ok t \<and> (\<exists>e \<in> set (tlb_entries t). page_mapped vm_example t 21 RISCV_MODE_USER MEM_PRIV_R 0x1234
      (mi_lowVA mi') (mi_highVA mi') e)"
proof -
  let ?V = "vmirt_mem (\<lambda>_. 0) sv39_tables" and ?mi = "\<lparr>mi_lowVA = 0x1234, mi_highVA = 0x1237, mi_priv = MEM_PRIV_R\<rparr>"
  have "(case findOrCreateTLBEntry ?V RISCV_MODE_USER False ?mi vm_example of None \<Rightarrow> False
      | Some (r, _) \<Rightarrow> r \<noteq> None)" by code_simp
  then obtain mi' t where m: "tlbMiss ?V 21 RISCV_MODE_USER False ?mi vm_example = Some (False, mi', t)"
    by (auto simp: tlbMiss_def Let_def case_prod_unfold split: option.splits)
  have "\<not> PTWActive vm_example" "lookup_VA vm_example (mi_lowVA ?mi) = mi_lowVA ?mi" "tlb_ok vm_example"
    by code_simp+
  moreover have "tlb vm_example \<noteq> None" by (simp add: vm_example_def)
  ultimately show ?thesis
    using tlbMiss_maps [OF fixed_mem_order.range_table_axioms m] m by auto
qed

text \<open>C8. The miss handler returns on every access to a virtual domain under a valid translation mode: as
  many rounds as the access has bytes are enough. It keeps the TLB well formed, and when it reports no
  miss every byte of the access is covered by an alias with the rights of the access.\<close>

theorem riscvVMMiss_covers:
  assumes "range_table V" and "tlb_ok s" and "\<not> PTWActive s"
    and "RD_CSR2_FIELD s satp atp_MODE \<in> {VAM_Sv32, VAM_Sv39, VAM_Sv48}"
    and "find_domain s domain = Some (mode, isCode)" and "getDomainType s domain mode isCode = DT_VIRT"
    and "0 < bytes" and "unat address + bytes \<le> 2 ^ 64"
    and "lookup_VA s (address + of_nat bytes - 1) = address + of_nat bytes - 1"
  shows "\<exists>miss t. riscvVMMiss V domain requiredPriv address bytes artifact s = Some (miss, t) \<and> tlb_ok t
    \<and> (\<not> miss \<longrightarrow> (\<forall>i < bytes. alias_covers t domain requiredPriv (address + of_nat i)))"
proof -
  let ?s = "s\<lparr>AFErrorIn := riscv_AFault_Bus\<rparr>" and ?last = "address + of_nat bytes - 1"
  let ?mi = "\<lparr>mi_lowVA = address, mi_highVA = address - 1, mi_priv = MEM_PRIV_NONE\<rparr>"
  have fr: "tlb_frame s ?s" "tlb ?s = tlb s" by (simp_all add: tlb_frame_def walk_frame_def)
  have dom: "find_domain ?s domain = Some (mode, isCode)" "getDomainType ?s domain mode isCode = DT_VIRT"
    using assms(5,6) by (simp_all add: find_domain_AFErrorIn)
  have addr: "unat (address + of_nat i) = unat address + i" if "i < bytes" for i
    using that assms(8) by (simp add: unat_word_ariths unsigned_of_nat take_bit_nat_eq_self)
  have last: "?last = address + of_nat (bytes - 1)" using assms(7) by (simp add: of_nat_diff)
  obtain n where n: "bytes = Suc n" using assms(7) gr0_conv_Suc by blast
  have "unat (of_nat n :: uns64) = n" using assms(8) by (simp add: n unsigned_of_nat take_bit_nat_eq_self)
  then have "unat (?last - address) < bytes" by (simp add: n)
  moreover have "address \<le> ?last"
    using addr [of "bytes - 1"] assms(7) unfolding last by (simp add: word_le_nat_alt)
  ultimately obtain miss t where l: "vmMiss_loop bytes V domain mode requiredPriv ?last artifact ?mi ?s = Some (miss, t)"
    "tlb_ok ?s \<longrightarrow> tlb_ok t" "\<not> miss \<longrightarrow> (\<forall>a. address \<le> a \<longrightarrow> a \<le> ?last \<longrightarrow> alias_covers t domain requiredPriv a)"
    using range_table.vmMiss_loop_ok [OF assms(1), of ?s ?last ?mi bytes domain mode requiredPriv artifact]
      assms(3,4,9) by (auto simp: tlb_frame_sat [OF fr(1)])
  have "alias_covers t domain requiredPriv (address + of_nat i)" if "\<not> miss" "i < bytes" for i
  proof -
    have "address \<le> address + of_nat i" "address + of_nat i \<le> ?last"
      using addr [OF that(2)] addr [of "bytes - 1"] that(2) unfolding last by (simp_all add: word_le_nat_alt)
    then show ?thesis using l(3) that(1) by blast
  qed
  then show ?thesis
    using l(1,2) assms(2) tlb_ok_cong [OF fr(2)] by (auto simp: riscvVMMiss_def dom Let_def)
qed

theorem riscvVMMiss_covers_witness:
  "\<exists>miss t. riscvVMMiss (vmirt_mem (\<lambda>_. 0) sv39_tables) 21 MEM_PRIV_R 0x1FFE 4 False vm_example = Some (miss, t)
    \<and> tlb_ok t \<and> (\<not> miss \<longrightarrow> (\<forall>i < 4. alias_covers t 21 MEM_PRIV_R (0x1FFE + of_nat i)))"
proof -
  have "find_domain vm_example 21 = Some (RISCV_MODE_USER, False)"
    "getDomainType vm_example 21 RISCV_MODE_USER False = DT_VIRT"
    "RD_CSR2_FIELD vm_example satp atp_MODE = VAM_Sv39" "\<not> PTWActive vm_example" "tlb_ok vm_example"
    "lookup_VA vm_example (0x1FFE + of_nat 4 - 1) = 0x1FFE + of_nat 4 - 1"
    by code_simp+
  then show ?thesis
    using riscvVMMiss_covers [OF fixed_mem_order.range_table_axioms, of vm_example 21 RISCV_MODE_USER False 4 "0x1FFE"]
    by simp
qed



definition entry_content :: "tlbEntry \<Rightarrow> tlbEntry" where
  "entry_content e = e\<lparr>e_handle := 0, e_isMapped := 0\<rparr>"

lemma saveTLB_fold:
  "fst (fold (\<lambda>e (out, s). if e_artifact e then (out, deleteTLBEntry e s) else (out @ [saveTLBEntry e], s)) es (out, s))
    = out @ map saveTLBEntry (filter (\<lambda>e. \<not> e_artifact e) es)"
  by (induction es arbitrary: out s) auto

lemma tlb_entries_restore:
  "tlb s \<noteq> None \<Longrightarrow> map entry_content (tlb_entries (restoreTLB es s))
    = map entry_content (tlb_entries s) @ map entry_content es"
proof (induction es arbitrary: s)
  case (Cons e es)
  have "tlb (restoreTLBEntry e s) \<noteq> None" using Cons.prems by (auto simp: restoreTLBEntry_def insertTLBEntry_def)
  moreover have "map entry_content (tlb_entries (restoreTLBEntry e s))
      = map entry_content (tlb_entries s) @ [entry_content e]"
    using Cons.prems by (simp add: restoreTLBEntry_def tlb_entries_insert entry_content_def)
  ultimately show ?case using Cons.IH [of "restoreTLBEntry e s"] by (simp add: restoreTLB_def)
qed (simp add: restoreTLB_def)

lemma overlaps_all: "overlaps 0 RISCV_MAX_ADDR e"
  by (simp add: overlaps_def)

lemma invalidate_all_tlb:
  assumes "range_table V" "tlb_ok s"
  shows "tlb_entries (invalidateTLBEntriesRange V 0 RISCV_MAX_ADDR MM_ANY 0 s) = []"
  using range_table.invalidate_entries [OF assms] by (simp add: invalidates_def overlaps_all)

lemma tlb_None_invalidate:
  "tlb (invalidateTLBEntriesRange V lo hi mode ASID s) = None \<longleftrightarrow> tlb s = None"
proof -
  have "tlb (fold (\<lambda>e s. if e_artifact e then deleteTLBEntry e s else deleteTLBEntryMode e mode ASID s) es s) = None
    \<longleftrightarrow> tlb s = None" for es
    by (induction es arbitrary: s) (simp_all add: deleteTLBEntryMode_eq)
  then show ?thesis by (simp add: invalidateTLBEntriesRange_def)
qed



section \<open>Properties of the domains\<close>

text \<open>What domain creation relies on of the kernel: a new domain is not null and not one that the same
  kernel returned before.\<close>

locale domain_alloc =
  fixes V :: vmirt
  assumes new_not_null: "vmirtNewDomain V cs \<noteq> 0"
    and new_fresh: "vmirtNewDomain V (cs @ VmirtNewDomain n b # ds) \<noteq> vmirtNewDomain V cs"

interpretation counted_domains: domain_alloc vmirt_example
  by unfold_locales (simp_all add: vmirt_example_def)

lemma set_domain_same [simp]: "set_domain m c d ds m c = d" "set_domain m c d ds m (\<not> c) = ds m (\<not> c)"
  by (simp_all add: set_domain_def)

lemma set_domain_other [simp]: "m' \<noteq> m \<Longrightarrow> set_domain m c d ds m' = ds m'"
  by (simp add: set_domain_def)

text \<open>The domains of one mode on a unified bus.\<close>

lemma init_physical_unified:
  assumes "t = init_physical V xlen True c d mode s"
  shows "pmpDomains t = (pmpDomains s)(mode := (\<lambda>_. vmirtNewDomain V (calls s)))"
    "\<exists>p. physDomains t = (physDomains s)(mode := (\<lambda>_. p))"
    "\<exists>cs n b. calls t = calls s @ VmirtNewDomain n b # cs"
    "vmDomains t = vmDomains s" "tlb t = tlb s"
  unfolding assms
  by (auto simp: init_physical_def createPMPDomain_def createPhysicalDomain_def createDomain_def Let_def
      set_domain_def fun_eq_iff)

lemma init_virtual_unified:
  assumes "t = init_virtual V xlen True mode s"
  shows "pmpDomains t = pmpDomains s" "physDomains t = physDomains s" "tlb t = tlb s"
    "vmDomains t = (vmDomains s)(mode := (\<lambda>_. vmirtNewDomain V (calls s)))"
    "\<exists>n b. calls t = calls s @ [VmirtNewDomain n b]" "csr t = csr s" "configInfo t = configInfo s"
  unfolding assms
  by (auto simp: init_virtual_def createVirtualDomain_def createDomain_def Let_def set_domain_def fun_eq_iff)

text \<open>C34. Virtual memory initialization on a unified bus gives every mode its domains as the rest of the code
  expects them: code and data share one PMP domain per mode, User mode shares the one of Supervisor mode,
  and none is shared with Machine mode; the dictionary modes of User and Supervisor with translation
  enabled get the virtual domains, distinct and not null, all others the physical ones; Machine mode has no virtual
  domain.\<close>

theorem riscvVMInit_domains:
  assumes "domain_alloc V" and "codeDomains 0 = dataDomains 0"
    and "riscvVMInit V codeDomains dataDomains s = Some (code', data', t)"
  shows "pmp_domains_ok t \<and> pmpDomains t RISCV_MODE_USER = pmpDomains t RISCV_MODE_SUPERVISOR
    \<and> (\<forall>m. data' (mode_code m) = physDomains t m False \<and> code' (mode_code m) = physDomains t m False)
    \<and> (\<forall>m \<in> {RISCV_MODE_USER, RISCV_MODE_SUPERVISOR}. vmDomains t m False \<noteq> 0
        \<and> data' (mode_code m + 4) = vmDomains t m False \<and> code' (mode_code m + 4) = vmDomains t m False)
    \<and> vmDomains t RISCV_MODE_USER False \<noteq> vmDomains t RISCV_MODE_SUPERVISOR False
    \<and> vmDomains t RISCV_MODE_MACHINE = vmDomains s RISCV_MODE_MACHINE"
proof -
  note new = domain_alloc.new_not_null [OF assms(1)] domain_alloc.new_fresh [OF assms(1)]
  obtain xlen where x: "riscvGetXlenArch [s] = Some xlen"
    using assms(3) by (cases "riscvGetXlenArch [s]") (simp_all add: riscvVMInit_def)
  let ?d = "dataDomains 0"
  define s0 where "s0 = s\<lparr>extBits := vmirtGetDomainAddressBits V ?d\<rparr>"
  define s1 where "s1 = init_physical V xlen True ?d ?d RISCV_MODE_SUPERVISOR s0"
  define s2 where "s2 = init_physical V xlen True ?d ?d RISCV_MODE_HYPERVISOR s1"
  define s3 where "s3 = init_physical V xlen True ?d ?d RISCV_MODE_MACHINE s2"
  define s4 where "s4 = s3\<lparr>pmpDomains := (pmpDomains s3)(RISCV_MODE_USER := pmpDomains s3 RISCV_MODE_SUPERVISOR),
    physDomains := (physDomains s3)(RISCV_MODE_USER := physDomains s3 RISCV_MODE_SUPERVISOR)\<rparr>"
  define s5 where "s5 = init_virtual V xlen True RISCV_MODE_USER s4"
  define s6 where "s6 = init_virtual V xlen True RISCV_MODE_SUPERVISOR s5"
  note p = init_physical_unified [OF s1_def] init_physical_unified [OF s2_def] init_physical_unified [OF s3_def]
  note v = init_virtual_unified [OF s5_def] init_virtual_unified [OF s6_def]
  define tab where "tab isCode ds = fold (\<lambda>m ds. ds(mode_code m + 4 := vmDomains s6 m isCode))
      [RISCV_MODE_USER, RISCV_MODE_SUPERVISOR] (fold (\<lambda>m ds. ds(mode_code m := physDomains s6 m isCode)) all_modes ds)"
    for isCode and ds :: "nat \<Rightarrow> memDomainP"
  have "riscvVMInit V codeDomains dataDomains s = Some (tab True codeDomains, tab False dataDomains,
      if riscvHasMode s6 RISCV_MODE_SUPERVISOR then s6\<lparr>tlb := Some []\<rparr> else s6)"
    unfolding riscvVMInit_def x option.case Let_def tab_def s6_def s5_def s4_def s3_def s2_def s1_def s0_def
    by (simp add: assms(2) all_modes_def)
  then have res: "code' = tab True codeDomains" "data' = tab False dataDomains"
    and "t = s6\<lparr>tlb := Some []\<rparr> \<or> t = s6" using assms(3) by (simp_all split: if_splits)
  then have t: "pmpDomains t = pmpDomains s6" "physDomains t = physDomains s6" "vmDomains t = vmDomains s6" by auto
  have tables: "data' (mode_code m) = physDomains s6 m False \<and> code' (mode_code m) = physDomains s6 m True" for m
    by (cases m) (simp_all add: res tab_def all_modes_def)
  have tables4: "data' 4 = vmDomains s6 RISCV_MODE_USER False" "data' 5 = vmDomains s6 RISCV_MODE_SUPERVISOR False"
      "code' 4 = vmDomains s6 RISCV_MODE_USER True" "code' 5 = vmDomains s6 RISCV_MODE_SUPERVISOR True"
    by (simp_all add: res tab_def all_modes_def)
  obtain n b cs where c1: "calls s1 = calls s0 @ VmirtNewDomain n b # cs" using p(3) by blast
  obtain n2 b2 cs2 where c2: "calls s2 = calls s1 @ VmirtNewDomain n2 b2 # cs2" using p(8) by blast
  obtain n5 b5 where c5: "calls s5 = calls s4 @ [VmirtNewDomain n5 b5]" using v(5) by blast
  have "vmirtNewDomain V (calls s2) \<noteq> vmirtNewDomain V (calls s1)" unfolding c2 by (rule new)
  moreover have "vmirtNewDomain V (calls s2) \<noteq> vmirtNewDomain V (calls s0)"
    unfolding c2 c1 append_assoc append_Cons by (rule new)
  moreover have "vmirtNewDomain V (calls s5) \<noteq> vmirtNewDomain V (calls s4)" unfolding c5 by (rule new)
  moreover obtain p1 p2 p3 where "physDomains s1 = (physDomains s0)(RISCV_MODE_SUPERVISOR := (\<lambda>_. p1))"
    "physDomains s2 = (physDomains s1)(RISCV_MODE_HYPERVISOR := (\<lambda>_. p2))"
    "physDomains s3 = (physDomains s2)(RISCV_MODE_MACHINE := (\<lambda>_. p3))" using p(2,7,12) by blast
  moreover have "s4 = s3\<lparr>pmpDomains := (pmpDomains s3)(RISCV_MODE_USER := pmpDomains s3 RISCV_MODE_SUPERVISOR),
    physDomains := (physDomains s3)(RISCV_MODE_USER := physDomains s3 RISCV_MODE_SUPERVISOR)\<rparr>" by (rule s4_def)
  moreover have "m \<in> {RISCV_MODE_USER, RISCV_MODE_SUPERVISOR, RISCV_MODE_HYPERVISOR, RISCV_MODE_MACHINE}" for m
    by (cases m) simp_all
  ultimately show ?thesis
    using new(1) tables tables4 by (auto simp: t v p pmp_domains_ok_def all_modes_def s0_def)
qed

lemma riscvGetXlenArch_hart_example: "riscvGetXlenArch [hart_example] = Some 64"
  by code_simp

theorem riscvVMInit_domains_witness:
  "\<exists>code' data' t. riscvVMInit vmirt_example (\<lambda>_. 0) (\<lambda>_. 0) hart_example = Some (code', data', t) \<and> pmp_domains_ok t"
proof -
  have "riscvVMInit vmirt_example (\<lambda>_. 0) (\<lambda>_. 0) hart_example \<noteq> None"
    using riscvGetXlenArch_hart_example by (simp add: riscvVMInit_def Let_def)
  then obtain code' data' t where "riscvVMInit vmirt_example (\<lambda>_. 0) (\<lambda>_. 0) hart_example = Some (code', data', t)"
    by auto
  with riscvVMInit_domains [OF counted_domains.domain_alloc_axioms _ this] show ?thesis by simp
qed

text \<open>C35. When a page table access finds its domain without the privilege, the miss handler that the kernel
  calls back does exactly what the walk assumes of it: it refreshes the PMP mapping of Supervisor mode
  for the bytes of the entry and reports no miss.\<close>

theorem riscvVMMiss_ptw:
  assumes "\<forall>m. getPTWDomain s \<noteq> physDomains s m False \<and> getPTWDomain s \<noteq> vmDomains s m False"
    and "pmp_domains_ok s" and "getPTWDomain s \<noteq> pmpDomains s RISCV_MODE_HYPERVISOR False"
  shows "riscvVMMiss V (getPTWDomain s) requiredPriv address bytes artifact s
    = Some (False, ptwPrivExcept requiredPriv address bytes s)"
proof -
  have d: "getPTWDomain s = pmpDomains s RISCV_MODE_SUPERVISOR False"
    by (simp add: getPTWDomain_def getPMPDomainPriv_def isFetch_def has_def)
  have ty: "getDomainType s (getPTWDomain s) m False
      = (if m = RISCV_MODE_MACHINE \<or> m = RISCV_MODE_HYPERVISOR then DT_NONE
         else if getPTWDomain s = pmpDomains s m False then DT_PMP else DT_NONE)" for m
    using assms by (cases m) (simp_all add: getDomainType_def d pmp_domains_ok_def all_modes_def)
  have "find_domain s (getPTWDomain s) = Some (RISCV_MODE_SUPERVISOR, False)"
    by (simp add: find_domain_def all_modes_def ty) (simp add: d)
  moreover have "getDomainType s (getPTWDomain s) RISCV_MODE_SUPERVISOR False = DT_PMP"
    by (simp add: ty) (simp add: d)
  ultimately show ?thesis
    by (simp add: riscvVMMiss_def find_domain_AFErrorIn ptwPrivExcept_def Let_def)
qed

theorem riscvVMMiss_ptw_witness:
  "riscvVMMiss vmirt_example 31 MEM_PRIV_R 0x80000000 8 False vm_example
    = Some (False, ptwPrivExcept MEM_PRIV_R 0x80000000 8 vm_example)"
proof -
  have d: "getPTWDomain vm_example = 31" by code_simp
  have "pmp_domains_ok vm_example" by code_simp
  moreover have "\<forall>m. getPTWDomain vm_example \<noteq> physDomains vm_example m False
      \<and> getPTWDomain vm_example \<noteq> vmDomains vm_example m False"
    unfolding d by (simp add: vm_example_def)
  moreover have "getPTWDomain vm_example \<noteq> pmpDomains vm_example RISCV_MODE_HYPERVISOR False" by code_simp
  ultimately show ?thesis using riscvVMMiss_ptw [of vm_example] by (simp add: d)
qed

end
