(* ===== verification/RiscvFetch.thy ===== *)
theory RiscvFetch
  imports RiscvTLB
begin

text \<open>
  Instruction fetch and the privilege exception handlers (\<^verbatim>\<open>riscvExceptions.c\<close>, VMI INTERFACE
  ROUTINES): the handlers that the kernel calls when a domain lacks a privilege, and the check before
  each fetch, which takes a pending interrupt or a fetch exception instead of the instruction. A check
  that is not \<^verbatim>\<open>complete\<close> is a probe by the kernel. \<open>None\<close> is the abort on an invalid
  translation mode in \<^verbatim>\<open>riscvVMMiss\<close>.
\<close>

text \<open>The Boolean result is whether the access continues (\<^verbatim>\<open>VMI_LOAD_STORE_CONTINUE\<close>).\<close>

definition riscvRdPrivExcept ::
  "vmirt \<Rightarrow> memDomainP \<Rightarrow> uns64 \<Rightarrow> nat \<Rightarrow> bool \<Rightarrow> riscv \<Rightarrow> (bool \<times> riscv) option" where
  "riscvRdPrivExcept V domain address bytes artifact s =
     (case riscvVMMiss V domain MEM_PRIV_R address bytes artifact s of None \<Rightarrow> None
      | Some (miss, s) \<Rightarrow> Some (\<not> miss, s))"

definition riscvWrPrivExcept ::
  "vmirt \<Rightarrow> memDomainP \<Rightarrow> uns64 \<Rightarrow> nat \<Rightarrow> bool \<Rightarrow> riscv \<Rightarrow> (bool \<times> riscv) option" where
  "riscvWrPrivExcept V domain address bytes artifact s =
     (case riscvVMMiss V domain MEM_PRIV_W address bytes artifact s of None \<Rightarrow> None
      | Some (miss, s) \<Rightarrow> Some (\<not> miss, s))"

definition validateFetchAddressInt ::
  "vmirt \<Rightarrow> memDomainP \<Rightarrow> uns64 \<Rightarrow> bool \<Rightarrow> riscv \<Rightarrow> (bool \<times> riscv) option" where
  "validateFetchAddressInt V domain thisPC complete s =
     (if vmirtIsExecutable V (calls s) thisPC then Some (True, s)
      else case riscvVMMiss V domain MEM_PRIV_X thisPC 2 (\<not> complete) s of None \<Rightarrow> None
        | Some (miss, s) \<Rightarrow>
            if miss then Some (False, s)
            else if \<not> vmirtIsExecutable V (calls s) thisPC
            then Some (False, if complete then riscvTakeException V riscv_E_InstructionAccessFault thisPC s else s)
            else Some (True, s))"

definition validateFetchAddress ::
  "vmirt \<Rightarrow> memDomainP \<Rightarrow> uns64 \<Rightarrow> bool \<Rightarrow> riscv \<Rightarrow> (bool \<times> riscv) option" where
  "validateFetchAddress V domain thisPC complete s =
     (case validateFetchAddressInt V domain thisPC complete s of None \<Rightarrow> None
      | Some (ok, s) \<Rightarrow>
          if \<not> ok then Some (False, s)
          else if getInstructionSize V s thisPC \<le> 2 then Some (True, s)
          else validateFetchAddressInt V domain (thisPC + 2) complete s)"

datatype vmiFetchAction = VMI_FETCH_NONE | VMI_FETCH_EXCEPTION_COMPLETE | VMI_FETCH_EXCEPTION_PENDING

definition riscvIFetchExcept ::
  "vmirt \<Rightarrow> memDomainP \<Rightarrow> uns64 \<Rightarrow> bool \<Rightarrow> riscv \<Rightarrow> (vmiFetchAction \<times> riscv) option" where
  "riscvIFetchExcept V domain address complete s =
     (let intMask = getPendingAndEnabledInterrupts s;
          action = (\<lambda>ok. if ok then VMI_FETCH_NONE else if complete then VMI_FETCH_EXCEPTION_COMPLETE
                     else VMI_FETCH_EXCEPTION_PENDING)
      in if intMask \<noteq> 0
         then if complete then map_option (\<lambda>s. (action False, s)) (doInterrupt V intMask s)
              else Some (action False, s)
         else map_option (\<lambda>(ok, s). (action ok, s)) (validateFetchAddress V domain address complete s))"

text \<open>An example with no interrupt pending.\<close>

definition fetch_example :: riscv where
  "fetch_example = vm_example\<lparr>csr := (csr vm_example)\<lparr>mip := 0\<rparr>\<rparr>"

lemma fetch_example_none:
  "riscvIFetchExcept vmirt_example 21 0x80000000 complete fetch_example = Some (VMI_FETCH_NONE, fetch_example)"
proof -
  have "getPendingAndEnabledInterrupts fetch_example = 0" by code_simp
  moreover have "vmirtIsExecutable vmirt_example cs a" for cs a by (simp add: vmirt_example_def)
  ultimately show ?thesis
    by (auto simp: riscvIFetchExcept_def Let_def validateFetchAddress_def validateFetchAddressInt_def)
qed

section \<open>Outcomes of a miss\<close>

text \<open>A miss that is resolved changes the TLB, the mappings and the fault bookkeeping only. One that is not
  resolved takes a single exception on top of such a change, unless the access is an artifact one.\<close>

definition miss_faults :: "memPriv \<Rightarrow> riscvException set" where
  "miss_faults req = {riscv_E_LoadAccessFault, riscv_E_StoreAMOAccessFault, page_fault req}"

definition faults :: "vmirt \<Rightarrow> memPriv \<Rightarrow> riscv \<Rightarrow> riscv \<Rightarrow> bool" where
  "faults V req s t \<longleftrightarrow> (\<exists>u e va. tlb_frame s u \<and> t = riscvTakeException V e va u \<and> e \<in> miss_faults req)"

definition miss_outcome :: "vmirt \<Rightarrow> bool \<Rightarrow> memPriv \<Rightarrow> bool \<Rightarrow> riscv \<Rightarrow> riscv \<Rightarrow> bool" where
  "miss_outcome V artifact req miss s t \<longleftrightarrow> (if miss \<and> \<not> artifact then faults V req s t else tlb_frame s t)"

lemma miss_outcome_trans: "tlb_frame s t \<Longrightarrow> miss_outcome V art req miss t u \<Longrightarrow> miss_outcome V art req miss s u"
  using tlb_frame_trans [of s t] by (auto simp: miss_outcome_def faults_def split: if_splits)

lemma findOrCreateTLBEntry_outcome:
  assumes "findOrCreateTLBEntry V mode art mi s = Some (r, mi', t)" and "\<not> PTWActive s"
  shows "miss_outcome V art (mi_priv mi) (r = None) s t"
proof -
  let ?VA = "mi_lowVA mi" and ?req = "mi_priv mi"
  obtain r1 s1 where f: "findTLBEntry V ?VA s = (r1, s1)" by fastforce
  obtain r2 mi2 s2 where v: "validateTLBEntryPriv mode r1 ?req mi s1 = (r2, mi2, s2)" by (metis prod_cases3)
  have "tlb_frame s s1" using f unfolding findTLBEntry_def by (rule tlb_ok_find_entry(2))
  then have s2: "tlb_frame s s2" by (rule tlb_frame_trans) (rule validateTLBEntryPriv_ok(2) [OF v])
  have na: "\<not> PTWActive s2" using assms(2) by (simp add: tlb_frame_sat(3) [OF s2])
  show ?thesis
  proof (cases r2)
    case (Some x)
    then show ?thesis using assms(1) s2 by (auto simp: findOrCreateTLBEntry_def f v Let_def miss_outcome_def)
  next
    case None
    obtain s3 lr where l: "tlbLookup V mode (initialEntry ?VA) ?req s2 = Some (s3, lr)"
      using assms(1) by (auto simp: findOrCreateTLBEntry_def f v Let_def None split: option.splits)
    have s3: "tlb_frame s s3" by (rule tlb_frame_trans [OF s2 tlb_frame_walk [OF tlbLookup_frame [OF l na]]])
    show ?thesis
    proof (cases lr)
      case (Inl x)
      have "x \<in> miss_faults ?req"
        unfolding miss_faults_def by (rule tlbLookup_fault [OF l [unfolded Inl]])
      then show ?thesis
        using assms(1) s3
        by (auto simp: findOrCreateTLBEntry_def f v Let_def None l Inl handleInvalidAccess_def miss_outcome_def faults_def) blast
    next
      case (Inr tmp)
      obtain y s4 where al: "allocateTLBEntry tmp s3 = (y, s4)" by fastforce
      have s4: "tlb_frame s s4" using tlb_frame_trans [OF s3 tlb_frame_insert(2) [of s3 tmp]] by (simp add: al)
      have "entry_ok s2 mode ?req (lookup_VA s2 ?VA) tmp"
        using ptw_ok(2) [OF tlbLookup_ptw [OF l [unfolded Inr]] na] by (simp add: initialEntry_def)
      moreover have "checkEntryPermission s4 mode y ?req = checkEntryPermission s2 mode tmp ?req" "e_D y = e_D tmp"
        using al by (auto simp: allocateTLBEntry_def Let_def checkEntryPermission_def [of s2]
            checkEntryPermission_def [of s] tlb_frame_sat(5) [OF s4] tlb_frame_sat(5) [OF s2])
      ultimately have "validateTLBEntryPriv mode (Some y) ?req mi2 s4 = (r, mi', t) \<Longrightarrow> r \<noteq> None \<and> t = s4"
        by (auto simp: entry_ok_def Let_def split: if_splits)
      then have "r \<noteq> None \<and> t = s4"
        using assms(1) by (simp add: findOrCreateTLBEntry_def f v Let_def None l Inr al)
      then show ?thesis using s4 by (auto simp: miss_outcome_def)
    qed
  qed
qed

lemma tlb_frame_mapTLBEntry:
  assumes "mapTLBEntry e d mode req mi s = (e', mi', t)"
  shows "tlb_frame s t"
proof -
  have "\<exists>c lo hi. t = mapPMP mode req lo hi (do_call c s)"
    using assms by (auto simp: mapTLBEntry_def Let_def split: if_splits)
  then show ?thesis using tlb_frame_walk [OF walk_frame_trans [OF walk_frame_do_call walk_frame_mapPMP]] by auto
qed

lemma tlbMiss_outcome:
  assumes "tlbMiss V domain mode art mi s = Some (miss, mi', t)" and "\<not> PTWActive s"
  shows "miss_outcome V art (mi_priv mi) miss s t"
proof -
  obtain r mi1 s1 where f: "findOrCreateTLBEntry V mode art mi s = Some (r, mi1, s1)"
    using assms(1) by (auto simp: tlbMiss_def Let_def split: option.splits)
  note s1 = findOrCreateTLBEntry_outcome [OF f assms(2)]
  show ?thesis
  proof (cases r)
    case None
    then show ?thesis using assms(1) s1 by (simp add: tlbMiss_def Let_def f)
  next
    case (Some x)
    obtain y s2 where u: "unmapTLBEntryNewASID (getSimASID s1) (x, s1) = (y, s2)" by fastforce
    obtain z mi2 s3 where m: "mapTLBEntry (y\<lparr>e_simASID := getSimASID s1\<rparr>) domain mode (mi_priv mi) mi1 s2 = (z, mi2, s3)"
      by (metis prod_cases3)
    have "t = update_entry z s3" "\<not> miss" using assms(1) by (simp_all add: tlbMiss_def Let_def f Some u m)
    moreover have "tlb_frame s1 s2"
      using unmap_walk_frame(3) [of "(x, s1)" "getSimASID s1"] tlb_frame_walk by (simp add: u)
    moreover have "tlb_frame s s1" using s1 Some by (simp add: miss_outcome_def)
    ultimately show ?thesis
      using tlb_frame_trans [OF _ tlb_frame_mapTLBEntry [OF m]] tlb_frame_trans [OF _ tlb_frame_insert(3)] tlb_frame_trans
      by (simp add: miss_outcome_def)
  qed
qed

lemma vmMiss_loop_outcome:
  "vmMiss_loop n V domain mode req lastVA art mi s = Some (miss, t) \<Longrightarrow> \<not> PTWActive s
    \<Longrightarrow> miss_outcome V art req miss s t"
proof (induction n arbitrary: mi s)
  case (Suc n)
  let ?mi = "\<lparr>mi_lowVA = mi_highVA mi + 1, mi_highVA = lastVA, mi_priv = req\<rparr>"
  obtain m mi' u where m: "tlbMiss V domain mode art ?mi s = Some (m, mi', u)"
    using Suc.prems(1) by (auto simp: Let_def split: option.splits)
  have u: "miss_outcome V art req m s u" using tlbMiss_outcome [OF m Suc.prems(2)] by simp
  show ?case
  proof (cases "\<not> m \<and> (lastVA < mi_lowVA mi' \<or> lastVA > mi_highVA mi')")
    case True
    then have fr: "tlb_frame s u" using u by (simp add: miss_outcome_def)
    have "vmMiss_loop n V domain mode req lastVA art mi' u = Some (miss, t)"
      using Suc.prems(1) True m by (simp add: Let_def)
    then show ?thesis
      using Suc.IH [of mi' u] Suc.prems(2) tlb_frame_sat(3) [OF fr] miss_outcome_trans [OF fr] by simp
  next
    case False
    then have "m = miss" "u = t" using Suc.prems(1) m by (auto simp: Let_def)
    then show ?thesis using u by simp
  qed
qed simp

lemma riscvVMMiss_outcome:
  assumes "riscvVMMiss V domain req address bytes art s = Some (miss, t)" and "\<not> PTWActive s"
  shows "miss_outcome V art req miss s t"
proof -
  let ?s = "s\<lparr>AFErrorIn := riscv_AFault_Bus\<rparr>"
  have s: "tlb_frame s ?s" by (simp add: tlb_frame_def walk_frame_def)
  have "miss_outcome V art req miss ?s t"
    using assms vmMiss_loop_outcome [of bytes V domain _ req "address + of_nat bytes - 1" art _ ?s miss t]
      tlb_frame_walk [OF walk_frame_mapPMP]
    by (auto simp: riscvVMMiss_def Let_def miss_outcome_def split: option.splits prod.splits if_splits)
  then show ?thesis by (rule miss_outcome_trans [OF s])
qed



lemma validateFetchAddressInt_artifact:
  "validateFetchAddressInt V domain thisPC False s = Some (ok, t) \<Longrightarrow> \<not> PTWActive s \<Longrightarrow> tlb_frame s t"
  using riscvVMMiss_outcome [of V domain MEM_PRIV_X thisPC 2 True s]
  by (auto simp: validateFetchAddressInt_def miss_outcome_def split: if_splits option.splits)

lemma validateFetchAddressInt_ok:
  "validateFetchAddressInt V domain thisPC complete s = Some (True, t) \<Longrightarrow> vmirtIsExecutable V (calls t) thisPC"
  by (auto simp: validateFetchAddressInt_def split: if_splits option.splits)



text \<open>A probe of a fetch takes no exception and no interrupt: whatever it finds, it changes no register,
  no mode and no PMP entry, and it reports an exception only as pending.\<close>

lemma riscvIFetchExcept_probe:
  assumes "riscvIFetchExcept V domain address False s = Some (action, t)" and "\<not> PTWActive s"
  shows "tlb_frame s t \<and> csr t = csr s \<and> riscv_mode t = riscv_mode s \<and> pmpcfg t = pmpcfg s
    \<and> pmpaddr t = pmpaddr s \<and> action \<noteq> VMI_FETCH_EXCEPTION_COMPLETE"
proof -
  have "tlb_frame s t"
  proof (cases "getPendingAndEnabledInterrupts s = 0")
    case False
    then show ?thesis using assms by (simp add: riscvIFetchExcept_def Let_def)
  next
    case True
    then obtain v where v: "validateFetchAddress V domain address False s = Some (v, t)"
      using assms(1) by (auto simp: riscvIFetchExcept_def Let_def)
    then obtain ok u where u: "validateFetchAddressInt V domain address False s = Some (ok, u)"
      by (auto simp: validateFetchAddress_def split: option.splits)
    have t: "t = u \<or> validateFetchAddressInt V domain (address + 2) False u = Some (v, t)"
      using v u by (simp add: validateFetchAddress_def split: if_splits)
    note fr = validateFetchAddressInt_artifact [OF u assms(2)]
    have "\<not> PTWActive u" using assms(2) by (simp add: tlb_frame_sat(3) [OF fr])
    then show ?thesis using t fr tlb_frame_trans [OF fr] validateFetchAddressInt_artifact by blast
  qed
  moreover from this have "csr t = csr s \<and> riscv_mode t = riscv_mode s \<and> pmpcfg t = pmpcfg s \<and> pmpaddr t = pmpaddr s"
    by (simp add: tlb_frame_def walk_frame_def)
  moreover have "action \<noteq> VMI_FETCH_EXCEPTION_COMPLETE"
    using assms(1) by (auto simp: riscvIFetchExcept_def Let_def split: if_splits option.splits)
  ultimately show ?thesis by blast
qed

end
