(* ===== verification/RiscvCSR.thy ===== *)
theory RiscvCSR
  imports RiscvFetch
begin

text \<open>
  Control and status registers (\<^verbatim>\<open>riscvCSR.c\<close>): the read and write callbacks of the registers, the
  table that gives each register its number, its required features, its storage, its write mask and its
  callbacks, the check of an access, the effect of the code that is emitted for a read or a write, the
  debug interface, and reset and initialization; with them the processor reset of
  \<^verbatim>\<open>riscvExceptions.c\<close>. Messages are not modelled, and neither is the bus by which a platform may
  implement registers outside the model: it is absent here, so that \<^verbatim>\<open>csrImplementExternal\<close> is false.
  A callback takes the table entry and returns the value it returns with the new state.
\<close>

section \<open>Table entries\<close>

text \<open>The part of \<^verbatim>\<open>riscvCSRAttrs\<close> that callbacks look at; \<open>csr_id\<close> is the index of the entry in the
  table, which \<^verbatim>\<open>getCSRId\<close> computes from its address.\<close>

record csrDesc =
  csr_name :: string
  csr_id :: nat
  csrNum :: nat
  csr_arch :: riscvArchitecture
  wEndBlock :: bool
  wEndRM :: bool
  noTraceChange :: bool
  TVMT :: bool

text \<open>Storage and write masks: a \<^verbatim>\<open>vmiReg\<close> is \<^verbatim>\<open>VMI_NOREG\<close> or a member of the processor structure.\<close>

datatype csrReg = NoReg
  | Reg "riscvCSRs \<Rightarrow> uns64" "(uns64 \<Rightarrow> uns64) \<Rightarrow> riscvCSRs \<Rightarrow> riscvCSRs"
  | Reg2 "riscvCSRs \<Rightarrow> csr_32_64" "(csr_32_64 \<Rightarrow> csr_32_64) \<Rightarrow> riscvCSRs \<Rightarrow> riscvCSRs"

fun VMI_ISNOREG :: "csrReg \<Rightarrow> bool" where
  "VMI_ISNOREG NoReg = True"
| "VMI_ISNOREG _ = False"

datatype csrMaskReg = NoMask | Mask "riscvCSRMasks \<Rightarrow> uns64" | Mask2 "riscvCSRMasks \<Rightarrow> csr_32_64"

type_synonym riscvCSRReadFn = "vmirt \<Rightarrow> csrDesc \<Rightarrow> riscv \<Rightarrow> uns64 \<times> riscv"
type_synonym riscvCSRWriteFn = "vmirt \<Rightarrow> csrDesc \<Rightarrow> uns64 \<Rightarrow> riscv \<Rightarrow> uns64 \<times> riscv"

record riscvCSRAttrs = csrDesc +
  readCB :: "riscvCSRReadFn option"
  readWriteCB :: "riscvCSRReadFn option"
  writeCB :: "riscvCSRWriteFn option"
  csr_reg :: csrReg
  writeMaskV :: csrMaskReg
  writeMaskC32 :: uns32
  writeMaskC64 :: uns64

text \<open>The merge of a new value into the writable bits of an old one.\<close>

definition masked :: "'a::len word \<Rightarrow> 'a word \<Rightarrow> 'a word \<Rightarrow> 'a word" where
  "masked m new old = (new AND m) OR (old AND NOT m)"

section \<open>ISA register\<close>

definition misa_DF :: "riscvConfig \<Rightarrow> uns64 \<Rightarrow> uns64" where
  "misa_DF cfg newValue =
     (let arch = cfg_arch cfg AND ISA_DF; archMask = cfg_archMask cfg AND ISA_DF;
          D = 0x8; F = 0x20
      in if arch \<noteq> ISA_DF then newValue
         else if archMask = ISA_DF
         then if \<not> d_requires_f cfg then newValue
              else if \<not> has newValue F then newValue AND NOT D else newValue
         else if archMask = ISA_D
         then if has newValue D then newValue OR F else newValue AND NOT F
         else if archMask = ISA_F
         then if has newValue F then newValue OR D else newValue AND NOT D
         else newValue)"

definition misaW :: "uns64 \<Rightarrow> riscv \<Rightarrow> uns64 \<times> riscv" where
  "misaW newValue s =
     (let oldValue = RD_CSR2 s misa;
          mask = RD_CSR2_MASK s misaM;
          newValue = misa_DF (configInfo s) (masked mask newValue oldValue);
          s = WR_CSR2 misa_update newValue s;
          s = riscvSetCurrentArch s
      in (RD_CSR2 s misa, s))"

section \<open>Floating point registers\<close>

definition fflags_bits :: "vmiFPFlags \<Rightarrow> uns64" where
  "fflags_bits f = of_bool (fp_P f) OR push_bit 1 (of_bool (fp_U f)) OR push_bit 2 (of_bool (fp_O f))
     OR push_bit 3 (of_bool (fp_Z f)) OR push_bit 4 (of_bool (fp_I f))"

definition flags_of :: "uns64 \<Rightarrow> vmiFPFlags" where
  "flags_of v = \<lparr>fp_P = bit v 0, fp_U = bit v 1, fp_O = bit v 2, fp_Z = bit v 3, fp_I = bit v 4\<rparr>"

definition fflagsR :: "riscv \<Rightarrow> uns64 \<times> riscv" where
  "fflagsR s = (fflags_bits (fpFlags s), s)"

definition fflagsW :: "uns64 \<Rightarrow> riscv \<Rightarrow> uns64 \<times> riscv" where
  "fflagsW newValue s =
     (let fflags = newValue AND 0x1f
      in (fflags, s\<lparr>fpFlags := flags_of fflags\<rparr>))"

definition frmR :: "riscv \<Rightarrow> uns64 \<times> riscv" where
  "frmR s = (RD_CSR_FIELD s fcsr fcsr_frm, s)"

definition refreshFPCR :: "uns64 \<Rightarrow> riscv \<Rightarrow> riscv" where
  "refreshFPCR oldRM s =
     (let newRM = RD_CSR_FIELD s fcsr fcsr_frm
      in if oldRM \<noteq> newRM \<and> fpActiveRM s = RV_RM_CURRENT then s\<lparr>fpActiveRM := RV_RM_NA\<rparr> else s)"

definition frmW :: "uns64 \<Rightarrow> riscv \<Rightarrow> uns64 \<times> riscv" where
  "frmW newValue s =
     (let oldRM = RD_CSR_FIELD s fcsr fcsr_frm;
          frm = newValue AND 0x7;
          s = WR_CSR_FIELD fcsr_update fcsr_frm frm s;
          s = refreshFPCR oldRM s
      in (frm, s))"

definition fcsrR :: "riscv \<Rightarrow> uns64 \<times> riscv" where
  "fcsrR s =
     (let s = WR_CSR_FIELD fcsr_update fcsr_NX (of_bool (fp_P (fpFlags s))) s;
          s = WR_CSR_FIELD fcsr_update fcsr_UF (of_bool (fp_U (fpFlags s))) s;
          s = WR_CSR_FIELD fcsr_update fcsr_OF (of_bool (fp_O (fpFlags s))) s;
          s = WR_CSR_FIELD fcsr_update fcsr_DZ (of_bool (fp_Z (fpFlags s))) s;
          s = WR_CSR_FIELD fcsr_update fcsr_NV (of_bool (fp_I (fpFlags s))) s
      in (RD_CSR s fcsr, s))"

definition fcsrW :: "uns64 \<Rightarrow> riscv \<Rightarrow> uns64 \<times> riscv" where
  "fcsrW newValue s =
     (let oldRM = RD_CSR_FIELD s fcsr fcsr_frm;
          s = WR_CSR fcsr_update (newValue AND 0xff) s;
          s = s\<lparr>fpFlags := \<lparr>fp_P = RD_CSR_FIELD s fcsr fcsr_NX \<noteq> 0, fp_U = RD_CSR_FIELD s fcsr fcsr_UF \<noteq> 0,
                fp_O = RD_CSR_FIELD s fcsr fcsr_OF \<noteq> 0, fp_Z = RD_CSR_FIELD s fcsr fcsr_DZ \<noteq> 0,
                fp_I = RD_CSR_FIELD s fcsr fcsr_NV \<noteq> 0\<rparr>\<rparr>;
          s = refreshFPCR oldRM s
      in (RD_CSR s fcsr, s))"

section \<open>Status registers\<close>

abbreviation (input) sstatus_AMASK :: uns64 where "sstatus_AMASK \<equiv> 0x80000003800de133"
abbreviation (input) ustatus_AMASK :: uns64 where "ustatus_AMASK \<equiv> 0x0000000000000011"
abbreviation (input) WM_mstatus_IE :: uns64 where "WM_mstatus_IE \<equiv> 0xf"

definition statusR :: "riscv \<Rightarrow> uns64 \<times> riscv" where
  "statusR s =
     (let FS = RD_CSR_FIELD s mstatus status_FS;
          XS = RD_CSR_FIELD s mstatus status_XS;
          force = (FS \<noteq> 0 \<and> FS \<noteq> 3 \<and> fs_always_dirty (configInfo s));
          FS = (if force then 3 else FS);
          s = (if force then WR_CSR_FIELD mstatus_update status_FS FS s else s);
          SD = (FS = 3 \<or> XS = 3);
          s = s\<lparr>csr := (csr s)\<lparr>mstatus := unset_bit 63 (unset_bit 31 (mstatus (csr s)))\<rparr>\<rparr>;
          s = WR_CSR_FIELD mstatus_update status_SD (of_bool SD) s
      in (RD_CSR s mstatus, s))"

definition statusW :: "vmirt \<Rightarrow> uns64 \<Rightarrow> uns64 \<Rightarrow> riscv \<Rightarrow> riscv" where
  "statusW V newValue msk s =
     (let oldValue = RD_CSR s mstatus;
          oldIE = oldValue AND WM_mstatus_IE;
          newValue = masked msk newValue oldValue;
          newIE = newValue AND WM_mstatus_IE;
          oldMPP = RD_CSR_FIELD s mstatus status_MPP;
          s = WR_CSR mstatus_update newValue s;
          newMPP = RD_CSR_FIELD s mstatus status_MPP;
          s = (if \<not> riscvHasMode s (mode_of (unat newMPP)) then WR_CSR_FIELD mstatus_update status_MPP oldMPP s
               else s);
          s = riscvSetCurrentArch s;
          s = riscvVMSetASID s;
          s = riscvVMRefreshMPRVDomain V s
      in if newIE AND NOT oldIE \<noteq> 0 then riscvTestInterrupt s else s)"

definition mstatusR :: "riscv \<Rightarrow> uns64 \<times> riscv" where
  "mstatusR s = statusR s"

definition mstatusW :: "vmirt \<Rightarrow> uns64 \<Rightarrow> riscv \<Rightarrow> uns64 \<times> riscv" where
  "mstatusW V newValue s =
     (let s = statusW V newValue (RD_CSR_MASK s mstatusM) s in (RD_CSR s mstatus, s))"

definition sstatusR :: "riscv \<Rightarrow> uns64 \<times> riscv" where
  "sstatusR s = (let (v, s) = statusR s in (v AND sstatus_AMASK, s))"

definition sstatusW :: "vmirt \<Rightarrow> uns64 \<Rightarrow> riscv \<Rightarrow> uns64 \<times> riscv" where
  "sstatusW V newValue s =
     (let s = statusW V newValue (RD_CSR_MASK s mstatusM AND sstatus_AMASK) s
      in (RD_CSR s mstatus AND sstatus_AMASK, s))"

definition ustatusR :: "riscv \<Rightarrow> uns64 \<times> riscv" where
  "ustatusR s = (let (v, s) = statusR s in (v AND ustatus_AMASK, s))"

definition ustatusW :: "vmirt \<Rightarrow> uns64 \<Rightarrow> riscv \<Rightarrow> uns64 \<times> riscv" where
  "ustatusW V newValue s =
     (let s = statusW V newValue (RD_CSR_MASK s mstatusM AND ustatus_AMASK) s
      in (RD_CSR s mstatus AND ustatus_AMASK, s))"

section \<open>Interrupt enable, pending and delegation registers\<close>

definition getSIRMask :: "riscv \<Rightarrow> uns32" where
  "getSIRMask s = ucast (RD_CSR s mideleg)"

definition getUIRMask :: "riscv \<Rightarrow> uns32" where
  "getUIRMask s = ucast (RD_CSR s mideleg AND RD_CSR s sideleg)"

definition ipR :: "riscv \<Rightarrow> uns64 \<Rightarrow> bool \<Rightarrow> uns64" where
  "ipR s rMask isWrite =
     (if \<not> inSaveRestore s then (if isWrite then ucast (swip s) else RD_CSR s mip) AND rMask
      else ucast (swip s))"

definition ipW :: "uns64 \<Rightarrow> uns64 \<Rightarrow> riscv \<Rightarrow> uns64 \<times> riscv" where
  "ipW newValue rMask s =
     (let oldValue = swip s;
          wMask = (ucast (RD_CSR_MASK s mieM AND rMask) :: uns32);
          newValue = (if \<not> inSaveRestore s then (newValue AND ucast wMask) OR ucast (oldValue AND NOT wMask)
                      else newValue);
          s = s\<lparr>swip := ucast newValue\<rparr>;
          s = (if ucast oldValue \<noteq> newValue then riscvUpdatePending s else s)
      in (ipR s rMask True, s))"

abbreviation (input) WM32_mip :: uns64 where "WM32_mip \<equiv> 0x333"
abbreviation (input) WM32_sip :: uns32 where "WM32_sip \<equiv> 0x103"
abbreviation (input) WM32_uip :: uns32 where "WM32_uip \<equiv> 0x001"

definition mipRW :: "riscv \<Rightarrow> uns64 \<times> riscv" where
  "mipRW s = (ipR s WM32_mip True, s)"

definition mipW :: "uns64 \<Rightarrow> riscv \<Rightarrow> uns64 \<times> riscv" where
  "mipW newValue s = ipW newValue WM32_mip s"

definition mipR :: "riscv \<Rightarrow> uns64 \<times> riscv" where
  "mipR s = (ipR s (- 1) False, s)"

definition sipR :: "riscv \<Rightarrow> uns64 \<times> riscv" where
  "sipR s = (ipR s (ucast (getSIRMask s)) False, s)"

definition sipRW :: "riscv \<Rightarrow> uns64 \<times> riscv" where
  "sipRW s = (ipR s (ucast (getSIRMask s AND WM32_sip)) True, s)"

definition sipW :: "uns64 \<Rightarrow> riscv \<Rightarrow> uns64 \<times> riscv" where
  "sipW newValue s = ipW newValue (ucast (getSIRMask s AND WM32_sip)) s"

definition uipR :: "riscv \<Rightarrow> uns64 \<times> riscv" where
  "uipR s = (ipR s (ucast (getUIRMask s)) False, s)"

definition uipRW :: "riscv \<Rightarrow> uns64 \<times> riscv" where
  "uipRW s = (ipR s (ucast (getUIRMask s AND WM32_uip)) True, s)"

definition uipW :: "uns64 \<Rightarrow> riscv \<Rightarrow> uns64 \<times> riscv" where
  "uipW newValue s = ipW newValue (ucast (getUIRMask s AND WM32_uip)) s"

definition ieR :: "riscv \<Rightarrow> uns32 \<Rightarrow> uns32" where
  "ieR s rMask = ucast (RD_CSR s mie) AND rMask"

definition ieW :: "uns32 \<Rightarrow> uns32 \<Rightarrow> riscv \<Rightarrow> uns32 \<times> riscv" where
  "ieW newValue rMask s =
     (let oldValue = (ucast (RD_CSR s mie) :: uns32);
          wMask = ucast (RD_CSR_MASK s mieM) AND rMask;
          newValue = masked wMask newValue oldValue;
          s = WR_CSR mie_update (ucast newValue) s;
          s = (if oldValue \<noteq> newValue then riscvTestInterrupt s else s)
      in (ieR s rMask, s))"

definition mieW :: "uns64 \<Rightarrow> riscv \<Rightarrow> uns64 \<times> riscv" where
  "mieW newValue s = map_prod ucast id (ieW (ucast newValue) (- 1) s)"

definition sieR :: "riscv \<Rightarrow> uns64 \<times> riscv" where
  "sieR s = (ucast (ieR s (getSIRMask s)), s)"

definition sieW :: "uns64 \<Rightarrow> riscv \<Rightarrow> uns64 \<times> riscv" where
  "sieW newValue s = map_prod ucast id (ieW (ucast newValue) (getSIRMask s) s)"

definition uieR :: "riscv \<Rightarrow> uns64 \<times> riscv" where
  "uieR s = (ucast (ieR s (getUIRMask s)), s)"

definition uieW :: "uns64 \<Rightarrow> riscv \<Rightarrow> uns64 \<times> riscv" where
  "uieW newValue s = map_prod ucast id (ieW (ucast newValue) (getUIRMask s) s)"

definition midelegW :: "uns64 \<Rightarrow> riscv \<Rightarrow> uns64 \<times> riscv" where
  "midelegW newValue s =
     (let oldValue = (ucast (RD_CSR s mideleg) :: uns32);
          mask = (ucast (RD_CSR_MASK s midelegM) :: uns32);
          newValue = (newValue AND ucast mask) OR ucast (oldValue AND NOT mask);
          s = WR_CSR mideleg_update newValue s;
          s = (if ucast oldValue \<noteq> newValue then riscvTestInterrupt s else s)
      in (newValue, s))"

definition sidelegW :: "uns64 \<Rightarrow> riscv \<Rightarrow> uns64 \<times> riscv" where
  "sidelegW newValue s =
     (let oldValue = (ucast (RD_CSR s sideleg) :: uns32);
          mask = (ucast (RD_CSR_MASK s sidelegM) :: uns32);
          newValue = (newValue AND ucast mask) OR ucast (oldValue AND NOT mask);
          s = WR_CSR sideleg_update newValue s;
          s = (if ucast oldValue \<noteq> newValue then riscvTestInterrupt s else s)
      in (newValue, s))"

section \<open>Trap vector registers\<close>

definition tvecW :: "riscv \<Rightarrow> uns64 \<Rightarrow> uns64 \<Rightarrow> uns64 \<Rightarrow> uns64" where
  "tvecW s newValue oldValue msk =
     (let align = tvec_align (configInfo s);
          newValue = masked msk newValue oldValue
      in if align \<noteq> 0 \<and> bit newValue 0 then (newValue AND scast (- align)) OR 1 else newValue)"

definition mtvecW :: "uns64 \<Rightarrow> riscv \<Rightarrow> uns64 \<times> riscv" where
  "mtvecW newValue s =
     (let newValue = tvecW s newValue (RD_CSR s mtvec) (RD_CSR_MASK s mtvecM)
      in (newValue, WR_CSR mtvec_update newValue s))"

definition stvecW :: "uns64 \<Rightarrow> riscv \<Rightarrow> uns64 \<times> riscv" where
  "stvecW newValue s =
     (let newValue = tvecW s newValue (RD_CSR s stvec) (RD_CSR_MASK s stvecM)
      in (newValue, WR_CSR stvec_update newValue s))"

definition utvecW :: "uns64 \<Rightarrow> riscv \<Rightarrow> uns64 \<times> riscv" where
  "utvecW newValue s =
     (let newValue = tvecW s newValue (RD_CSR s utvec) (RD_CSR_MASK s utvecM)
      in (newValue, WR_CSR utvec_update newValue s))"

section \<open>Performance monitor registers\<close>

definition getHPMMask :: "riscv \<Rightarrow> uns32" where
  "getHPMMask s =
     (let mode = getCurrentMode s;
          valid = ucast (RD_CSR_MASK s mcounterenM);
          valid = (if mode < RISCV_MODE_MACHINE then valid AND ucast (RD_CSR s mcounteren) else valid)
      in if mode < RISCV_MODE_SUPERVISOR then valid AND ucast (RD_CSR s scounteren) else valid)"

definition hpmAccessValid :: "vmirt \<Rightarrow> nat \<Rightarrow> riscv \<Rightarrow> bool \<times> riscv" where
  "hpmAccessValid V index s =
     (let m = push_bit (index mod 32) 1
      in if artifactAccess s then (True, s)
         else if has m (getHPMMask s) then (True, s)
         else (False, riscvIllegalInstruction V s))"

definition setHalf :: "uns32 \<Rightarrow> uns64 \<Rightarrow> nat \<Rightarrow> uns64" where
  "setHalf newValue oldValue index = setf (32 * index) 32 (ucast newValue) oldValue"

definition setLower :: "uns32 \<Rightarrow> uns64 \<Rightarrow> uns64" where
  "setLower newValue oldValue = setHalf newValue oldValue 0"

definition setUpper :: "uns32 \<Rightarrow> uns64 \<Rightarrow> uns64" where
  "setUpper newValue oldValue = setHalf newValue oldValue 1"

definition getXLENValue :: "riscv \<Rightarrow> uns64 \<Rightarrow> uns64" where
  "getXLENValue s result = (if RISCV_XLEN_IS_32 s then take_bit 32 result else result)"

definition getCycles :: "vmirt \<Rightarrow> riscv \<Rightarrow> uns64" where
  "getCycles V s = vmirtGetICount V (calls s)"

definition getInstructions :: "vmirt \<Rightarrow> riscv \<Rightarrow> uns64" where
  "getInstructions V s = vmirtGetExecutedICount V (calls s)"

definition cycleR :: "vmirt \<Rightarrow> riscv \<Rightarrow> uns64" where
  "cycleR V s = getCycles V s - baseCycles s"

definition cycleW :: "vmirt \<Rightarrow> uns64 \<Rightarrow> riscv \<Rightarrow> riscv" where
  "cycleW V newValue s =
     (let s = s\<lparr>baseCycles := getCycles V s - newValue\<rparr>
      in if \<not> artifactAccess s then s\<lparr>baseCycles := baseCycles s + 1\<rparr> else s)"

text \<open>A counter read or write that the access check guards: a refused read gives 0 and a refused
  write does nothing.\<close>

definition guarded_read :: "vmirt \<Rightarrow> csrDesc \<Rightarrow> (riscv \<Rightarrow> uns64) \<Rightarrow> riscv \<Rightarrow> uns64 \<times> riscv" where
  "guarded_read V attrs f s = (let (ok, s) = hpmAccessValid V (csrNum attrs) s in (if ok then f s else 0, s))"

definition guarded_write :: "vmirt \<Rightarrow> csrDesc \<Rightarrow> (riscv \<Rightarrow> riscv) \<Rightarrow> riscv \<Rightarrow> riscv" where
  "guarded_write V attrs f s = (let (ok, s) = hpmAccessValid V (csrNum attrs) s in if ok then f s else s)"

definition mcycleR :: riscvCSRReadFn where
  "mcycleR V attrs s = guarded_read V attrs (\<lambda>s. getXLENValue s (cycleR V s)) s"

definition mcycleW :: riscvCSRWriteFn where
  "mcycleW V attrs newValue s =
     (newValue, guarded_write V attrs (\<lambda>s. if RISCV_XLEN_IS_32 s
        then cycleW V (setLower (ucast newValue) (cycleR V s)) s else cycleW V newValue s) s)"

definition mcyclehR :: riscvCSRReadFn where
  "mcyclehR V attrs s = guarded_read V attrs (\<lambda>s. drop_bit 32 (cycleR V s)) s"

definition mcyclehW :: riscvCSRWriteFn where
  "mcyclehW V attrs newValue s =
     (newValue, guarded_write V attrs (\<lambda>s. cycleW V (setUpper (ucast newValue) (cycleR V s)) s) s)"

definition timeR :: "vmirt \<Rightarrow> riscv \<Rightarrow> uns64" where
  "timeR V s = vmirtTimeMicros V (calls s)"

definition mtimeR :: riscvCSRReadFn where
  "mtimeR V attrs s = guarded_read V attrs (\<lambda>s. getXLENValue s (timeR V s)) s"

definition mtimehR :: riscvCSRReadFn where
  "mtimehR V attrs s = guarded_read V attrs (\<lambda>s. drop_bit 32 (timeR V s)) s"

definition instretR :: "vmirt \<Rightarrow> riscv \<Rightarrow> uns64" where
  "instretR V s = getInstructions V s - baseInstructions s"

definition instretW :: "vmirt \<Rightarrow> uns64 \<Rightarrow> riscv \<Rightarrow> riscv" where
  "instretW V newValue s = s\<lparr>baseInstructions := getInstructions V s - newValue + 1\<rparr>"

definition minstretR :: riscvCSRReadFn where
  "minstretR V attrs s = guarded_read V attrs (\<lambda>s. getXLENValue s (instretR V s)) s"

definition minstretW :: riscvCSRWriteFn where
  "minstretW V attrs newValue s =
     (newValue, guarded_write V attrs (\<lambda>s. if RISCV_XLEN_IS_32 s
        then instretW V (setLower (ucast newValue) (instretR V s)) s else instretW V newValue s) s)"

definition minstrethR :: riscvCSRReadFn where
  "minstrethR V attrs s = guarded_read V attrs (\<lambda>s. drop_bit 32 (instretR V s)) s"

definition minstrethW :: riscvCSRWriteFn where
  "minstrethW V attrs newValue s =
     (newValue, guarded_write V attrs (\<lambda>s. instretW V (setUpper (ucast newValue) (instretR V s)) s) s)"

definition mhpmR :: riscvCSRReadFn where
  "mhpmR V attrs s = guarded_read V attrs (\<lambda>s. 0) s"

definition mhpmW :: riscvCSRWriteFn where
  "mhpmW V attrs newValue s = (0, guarded_write V attrs (\<lambda>s. s) s)"

section \<open>Virtual and physical memory registers\<close>

definition satpW :: "vmirt \<Rightarrow> uns64 \<Rightarrow> riscv \<Rightarrow> uns64 \<times> riscv" where
  "satpW V newValue s =
     (let old = RD_CSR2 s satp;
          s = WR_CSR2 satp_update newValue s;
          ASID = RD_CSR2_FIELD s satp atp_ASID AND ucast (getASIDMask s);
          s = WR_CSR2_FIELD satp_update atp_ASID ASID s;
          PPNMask = drop_bit 12 (push_bit (extBits s) 1 - 1);
          PPN = RD_CSR2_FIELD s satp atp_PPN AND PPNMask;
          s = WR_CSR2_FIELD satp_update atp_PPN PPN s;
          targetMode = unat (RD_CSR2_FIELD s satp atp_MODE);
          s = (if \<not> bit (Sv_modes (configInfo s)) targetMode then WR_CSR2 satp_update old s
               else riscvVMSetASID (riscvSetMode V (getCurrentMode s) s))
      in (RD_CSR2 s satp, s))"

abbreviation (input) CSR_ID_pmpcfg0 :: nat where "CSR_ID_pmpcfg0 \<equiv> 103"
abbreviation (input) CSR_ID_pmpaddr0 :: nat where "CSR_ID_pmpaddr0 \<equiv> 107"

definition pmpcfgR :: riscvCSRReadFn where
  "pmpcfgR V attrs s = (riscvVMReadPMPCFG s (csr_id attrs - CSR_ID_pmpcfg0), s)"

definition pmpcfgW :: riscvCSRWriteFn where
  "pmpcfgW V attrs newValue s =
     (let (s, v) = riscvVMWritePMPCFG (csr_id attrs - CSR_ID_pmpcfg0) newValue s in (v, s))"

definition pmpaddrR :: riscvCSRReadFn where
  "pmpaddrR V attrs s = (riscvVMReadPMPAddr s (csr_id attrs - CSR_ID_pmpaddr0), s)"

definition pmpaddrW :: riscvCSRWriteFn where
  "pmpaddrW V attrs newValue s =
     (let (s, v) = riscvVMWritePMPAddr (csr_id attrs - CSR_ID_pmpaddr0) newValue s in (v, s))"

section \<open>The register table\<close>

definition CSR_ATTR_P ::
  "string \<Rightarrow> nat \<Rightarrow> riscvArchitecture \<Rightarrow> bool \<Rightarrow> bool \<Rightarrow> bool \<Rightarrow> bool \<Rightarrow> riscvCSRReadFn option
    \<Rightarrow> riscvCSRReadFn option \<Rightarrow> riscvCSRWriteFn option \<Rightarrow> riscvCSRAttrs" where
  "CSR_ATTR_P nm num arch endb endrm notr tvmt rcb rwcb wcb =
     \<lparr>csr_name = nm, csr_id = 0, csrNum = num, csr_arch = arch, wEndBlock = endb, wEndRM = endrm,
      noTraceChange = notr, TVMT = tvmt, readCB = rcb, readWriteCB = rwcb, writeCB = wcb,
      csr_reg = NoReg, writeMaskV = NoMask, writeMaskC32 = 0, writeMaskC64 = 0\<rparr>"

definition CSR_ATTR_NIP ::
  "string \<Rightarrow> nat \<Rightarrow> riscvArchitecture \<Rightarrow> bool \<Rightarrow> bool \<Rightarrow> bool \<Rightarrow> bool \<Rightarrow> riscvCSRAttrs" where
  "CSR_ATTR_NIP nm num arch endb endrm notr tvmt = CSR_ATTR_P nm num arch endb endrm notr tvmt None None None"

definition CSR_ATTR_T ::
  "string \<Rightarrow> nat \<Rightarrow> riscvArchitecture \<Rightarrow> bool \<Rightarrow> bool \<Rightarrow> bool \<Rightarrow> bool \<Rightarrow> riscvCSRReadFn option
    \<Rightarrow> riscvCSRReadFn option \<Rightarrow> riscvCSRWriteFn option \<Rightarrow> csrReg \<Rightarrow> riscvCSRAttrs" where
  "CSR_ATTR_T nm num arch endb endrm notr tvmt rcb rwcb wcb r =
     (CSR_ATTR_P nm num arch endb endrm notr tvmt rcb rwcb wcb)\<lparr>csr_reg := r\<rparr>"

definition CSR_ATTR_TV ::
  "string \<Rightarrow> nat \<Rightarrow> riscvArchitecture \<Rightarrow> bool \<Rightarrow> bool \<Rightarrow> bool \<Rightarrow> bool \<Rightarrow> riscvCSRReadFn option
    \<Rightarrow> riscvCSRReadFn option \<Rightarrow> riscvCSRWriteFn option \<Rightarrow> csrReg \<Rightarrow> csrMaskReg \<Rightarrow> riscvCSRAttrs" where
  "CSR_ATTR_TV nm num arch endb endrm notr tvmt rcb rwcb wcb r m =
     (CSR_ATTR_P nm num arch endb endrm notr tvmt rcb rwcb wcb)\<lparr>csr_reg := r, writeMaskV := m\<rparr>"

text \<open>Registers with a number appended to the name and added to the base number.\<close>

definition num_string :: "nat \<Rightarrow> string" where
  "num_string n = (if n < 10 then [char_of (48 + n)] else [char_of (48 + n div 10), char_of (48 + n mod 10)])"

definition CSR_ATTR_P_NUM ::
  "nat list \<Rightarrow> string \<Rightarrow> nat \<Rightarrow> riscvArchitecture \<Rightarrow> bool \<Rightarrow> bool \<Rightarrow> bool \<Rightarrow> bool \<Rightarrow> riscvCSRReadFn option
    \<Rightarrow> riscvCSRReadFn option \<Rightarrow> riscvCSRWriteFn option \<Rightarrow> riscvCSRAttrs list" where
  "CSR_ATTR_P_NUM ns nm num arch endb endrm notr tvmt rcb rwcb wcb =
     map (\<lambda>i. CSR_ATTR_P (nm @ num_string i) (num + i) arch endb endrm notr tvmt rcb rwcb wcb) ns"

definition csrs_U :: "riscvCSRAttrs list" where
  "csrs_U = concat [
     [CSR_ATTR_P ''ustatus'' 0x000 ISA_N False False False False (Some (\<lambda>_ _. ustatusR)) None (Some (\<lambda>V _. ustatusW V))],
     [CSR_ATTR_P ''fflags'' 0x001 ISA_DF False False False False (Some (\<lambda>_ _. fflagsR)) None (Some (\<lambda>_ _. fflagsW))],
     [CSR_ATTR_P ''frm'' 0x002 ISA_DF False True False False (Some (\<lambda>_ _. frmR)) None (Some (\<lambda>_ _. frmW))],
     [CSR_ATTR_P ''fcsr'' 0x003 ISA_DF False True False False (Some (\<lambda>_ _. fcsrR)) None (Some (\<lambda>_ _. fcsrW))],
     [CSR_ATTR_P ''uie'' 0x004 ISA_N True False False False (Some (\<lambda>_ _. uieR)) None (Some (\<lambda>_ _. uieW))],
     [CSR_ATTR_T ''utvec'' 0x005 ISA_N False False False False None None (Some (\<lambda>_ _. utvecW)) (Reg utvec utvec_update)],
     [CSR_ATTR_T ''uscratch'' 0x040 ISA_N False False False False None None None (Reg uscratch uscratch_update)],
     [CSR_ATTR_TV ''uepc'' 0x041 ISA_N False False False False None None None (Reg uepc uepc_update) (Mask uepcM)],
     [CSR_ATTR_TV ''ucause'' 0x042 ISA_N False False False False None None None (Reg2 ucause ucause_update) (Mask2 ucauseM)],
     [CSR_ATTR_T ''utval'' 0x043 ISA_N False False False False None None None (Reg utval utval_update)],
     [CSR_ATTR_P ''uip'' 0x044 ISA_N False False False False (Some (\<lambda>_ _. uipR)) (Some (\<lambda>_ _. uipRW)) (Some (\<lambda>_ _. uipW))],
     [CSR_ATTR_P ''cycle'' 0xC00 0 False False True False (Some mcycleR) None None],
     [CSR_ATTR_P ''time'' 0xC01 0 False False True False (Some mtimeR) None None],
     [CSR_ATTR_P ''instret'' 0xC02 0 False False True False (Some minstretR) None None],
     CSR_ATTR_P_NUM [3..<32] ''hpmcounter'' 0xC00 0 False False False False (Some mhpmR) None (Some mhpmW),
     [CSR_ATTR_P ''cycleh'' 0xC80 ISA_XLEN_32 False False True False (Some mcyclehR) None None],
     [CSR_ATTR_P ''timeh'' 0xC81 ISA_XLEN_32 False False True False (Some mtimehR) None None],
     [CSR_ATTR_P ''instreth'' 0xC82 ISA_XLEN_32 False False True False (Some minstrethR) None None],
     CSR_ATTR_P_NUM [3..<32] ''hpmcounterh'' 0xC80 ISA_XLEN_32 False False False False (Some mhpmR) None (Some mhpmW)]"

definition csrs_S :: "riscvCSRAttrs list" where
  "csrs_S = concat [
     [CSR_ATTR_P ''sstatus'' 0x100 ISA_S False False False False (Some (\<lambda>_ _. sstatusR)) None (Some (\<lambda>V _. sstatusW V))],
     [CSR_ATTR_TV ''sedeleg'' 0x102 ISA_SandN False False False False None None None (Reg sedeleg sedeleg_update) (Mask sedelegM)],
     [CSR_ATTR_T ''sideleg'' 0x103 ISA_SandN True False False False None None (Some (\<lambda>_ _. sidelegW)) (Reg sideleg sideleg_update)],
     [CSR_ATTR_P ''sie'' 0x104 ISA_S True False False False (Some (\<lambda>_ _. sieR)) None (Some (\<lambda>_ _. sieW))],
     [CSR_ATTR_T ''stvec'' 0x105 ISA_S False False False False None None (Some (\<lambda>_ _. stvecW)) (Reg stvec stvec_update)],
     [CSR_ATTR_TV ''scounteren'' 0x106 ISA_S False False False False None None None (Reg scounteren scounteren_update) (Mask scounterenM)],
     [CSR_ATTR_T ''sscratch'' 0x140 ISA_S False False False False None None None (Reg sscratch sscratch_update)],
     [CSR_ATTR_TV ''sepc'' 0x141 ISA_S False False False False None None None (Reg sepc sepc_update) (Mask sepcM)],
     [CSR_ATTR_TV ''scause'' 0x142 ISA_S False False False False None None None (Reg2 scause scause_update) (Mask2 scauseM)],
     [CSR_ATTR_T ''stval'' 0x143 ISA_S False False False False None None None (Reg stval stval_update)],
     [CSR_ATTR_P ''sip'' 0x144 ISA_S False False False False (Some (\<lambda>_ _. sipR)) (Some (\<lambda>_ _. sipRW)) (Some (\<lambda>_ _. sipW))],
     [CSR_ATTR_T ''satp'' 0x180 ISA_S False False False True None None (Some (\<lambda>V _. satpW V)) (Reg2 satp satp_update)]]"

definition csrs_M :: "riscvCSRAttrs list" where
  "csrs_M = concat [
     [CSR_ATTR_T ''mvendorid'' 0xF11 0 False False False False None None None (Reg mvendorid mvendorid_update)],
     [CSR_ATTR_T ''marchid'' 0xF12 0 False False False False None None None (Reg marchid marchid_update)],
     [CSR_ATTR_T ''mimpid'' 0xF13 0 False False False False None None None (Reg mimpid mimpid_update)],
     [CSR_ATTR_T ''mhartid'' 0xF14 0 False False False False None None None (Reg mhartid mhartid_update)],
     [CSR_ATTR_TV ''mstatus'' 0x300 0 False False False False (Some (\<lambda>_ _. mstatusR)) None (Some (\<lambda>V _. mstatusW V)) (Reg mstatus mstatus_update) (Mask mstatusM)],
     [CSR_ATTR_T ''misa'' 0x301 0 True False False False None None (Some (\<lambda>_ _. misaW)) (Reg2 misa misa_update)],
     [CSR_ATTR_TV ''medeleg'' 0x302 ISA_SorN False False False False None None None (Reg medeleg medeleg_update) (Mask medelegM)],
     [CSR_ATTR_T ''mideleg'' 0x303 ISA_SorN True False False False None None (Some (\<lambda>_ _. midelegW)) (Reg mideleg mideleg_update)],
     [CSR_ATTR_T ''mie'' 0x304 0 True False False False None None (Some (\<lambda>_ _. mieW)) (Reg mie mie_update)],
     [CSR_ATTR_T ''mtvec'' 0x305 0 False False False False None None (Some (\<lambda>_ _. mtvecW)) (Reg mtvec mtvec_update)],
     [CSR_ATTR_TV ''mcounteren'' 0x306 ISA_SorU False False False False None None None (Reg mcounteren mcounteren_update) (Mask mcounterenM)],
     [CSR_ATTR_T ''mscratch'' 0x340 0 False False False False None None None (Reg mscratch mscratch_update)],
     [CSR_ATTR_TV ''mepc'' 0x341 0 False False False False None None None (Reg mepc mepc_update) (Mask mepcM)],
     [CSR_ATTR_TV ''mcause'' 0x342 0 False False False False None None None (Reg2 mcause mcause_update) (Mask2 mcauseM)],
     [CSR_ATTR_T ''mtval'' 0x343 0 False False False False None None None (Reg mtval mtval_update)],
     [CSR_ATTR_T ''mip'' 0x344 0 False False False False (Some (\<lambda>_ _. mipR)) (Some (\<lambda>_ _. mipRW)) (Some (\<lambda>_ _. mipW)) (Reg mip mip_update)]]"

definition csrs_PMP :: "riscvCSRAttrs list" where
  "csrs_PMP = concat [
     [CSR_ATTR_P ''pmpcfg0'' 0x3A0 0 False False False False (Some pmpcfgR) None (Some pmpcfgW)],
     [CSR_ATTR_P ''pmpcfg1'' 0x3A1 ISA_XLEN_32 False False False False (Some pmpcfgR) None (Some pmpcfgW)],
     [CSR_ATTR_P ''pmpcfg2'' 0x3A2 0 False False False False (Some pmpcfgR) None (Some pmpcfgW)],
     [CSR_ATTR_P ''pmpcfg3'' 0x3A3 ISA_XLEN_32 False False False False (Some pmpcfgR) None (Some pmpcfgW)],
     CSR_ATTR_P_NUM [0..<16] ''pmpaddr'' 0x3B0 0 False False False False (Some pmpaddrR) None (Some pmpaddrW)]"

definition csrs_HPM :: "riscvCSRAttrs list" where
  "csrs_HPM = concat [
     [CSR_ATTR_P ''mcycle'' 0xB00 0 False False True False (Some mcycleR) None (Some mcycleW)],
     [CSR_ATTR_P ''minstret'' 0xB02 0 False False True False (Some minstretR) None (Some minstretW)],
     CSR_ATTR_P_NUM [3..<32] ''mhpmcounter'' 0xB00 0 False False False False (Some mhpmR) None (Some mhpmW),
     [CSR_ATTR_P ''mcycleh'' 0xB80 ISA_XLEN_32 False False True False (Some mcyclehR) None (Some mcyclehW)],
     [CSR_ATTR_P ''minstreth'' 0xB82 ISA_XLEN_32 False False True False (Some minstrethR) None (Some minstrethW)],
     CSR_ATTR_P_NUM [3..<32] ''mhpmcounterh'' 0xB80 ISA_XLEN_32 False False False False (Some mhpmR) None (Some mhpmW),
     CSR_ATTR_P_NUM [3..<32] ''mhpmevent'' 0x320 0 False False False False (Some mhpmR) None (Some mhpmW)]"

definition csrs_trigger :: "riscvCSRAttrs list" where
  "csrs_trigger = concat [
     [CSR_ATTR_NIP ''tselect'' 0x7A0 0 False False False False],
     [CSR_ATTR_NIP ''tdata1'' 0x7A1 0 False False False False],
     [CSR_ATTR_NIP ''tdata2'' 0x7A2 0 False False False False],
     [CSR_ATTR_NIP ''tdata3'' 0x7A3 0 False False False False]]"

definition csrs_debug :: "riscvCSRAttrs list" where
  "csrs_debug = concat [
     [CSR_ATTR_NIP ''dcsr'' 0x7B0 0 False False False False],
     [CSR_ATTR_NIP ''dpc'' 0x7B1 0 False False False False],
     [CSR_ATTR_NIP ''dscratch'' 0x7B2 0 False False False False]]"

definition csrs :: "riscvCSRAttrs list" where
  "csrs = map (\<lambda>(i, a). a\<lparr>csr_id := i\<rparr>)
     (enumerate 0 (csrs_U @ csrs_S @ csrs_M @ csrs_PMP @ csrs_HPM @ csrs_trigger @ csrs_debug))"

section \<open>Register access utilities\<close>

text \<open>The fields of a register number: index, lowest mode, and access.\<close>

definition csr_mode_field :: "nat \<Rightarrow> riscvMode" where
  "csr_mode_field num = mode_of (num div 256 mod 4)"

definition csr_access_field :: "nat \<Rightarrow> nat" where
  "csr_access_field num = num div 1024 mod 4"

text \<open>Whether \<^verbatim>\<open>getAccess\<close> allows writes.\<close>

definition getAccess_W :: "csrDesc \<Rightarrow> bool" where
  "getAccess_W attrs \<longleftrightarrow> csr_access_field (csrNum attrs) \<noteq> 3"

definition getMissingCSRFeatures :: "riscvArchitecture \<Rightarrow> riscvArchitecture \<Rightarrow> bool \<Rightarrow> riscvArchitecture" where
  "getMissingCSRFeatures arch actual normal =
     (if \<not> normal then 0
      else let required = arch AND NOT ISA_and
           in if has arch ISA_and then required AND NOT actual
              else if \<not> has actual required then required else 0)"

definition getCSRMode :: "nat \<Rightarrow> riscvArchitecture \<Rightarrow> riscvMode" where
  "getCSRMode num arch =
     (let mode = csr_mode_field num;
          mode = (if mode = RISCV_MODE_USER \<and> \<not> has arch ISA_U then RISCV_MODE_SUPERVISOR else mode)
      in if mode = RISCV_MODE_SUPERVISOR \<and> \<not> has arch ISA_S then RISCV_MODE_MACHINE else mode)"

text \<open>Reads and writes of the storage of a register, in the view that \<open>is32\<close> selects.\<close>

fun raw_read :: "bool \<Rightarrow> csrReg \<Rightarrow> riscv \<Rightarrow> uns64" where
  "raw_read is32 NoReg s = 0"
| "raw_read is32 (Reg get upd) s = rd_view is32 csr_bits (get (csr s))"
| "raw_read is32 (Reg2 get upd) s = rd_view2 is32 csr_bits (get (csr s))"

fun raw_write :: "bool \<Rightarrow> csrReg \<Rightarrow> uns64 \<Rightarrow> riscv \<Rightarrow> riscv" where
  "raw_write is32 NoReg v s = s"
| "raw_write is32 (Reg get upd) v s = s\<lparr>csr := upd (wr_view is32 csr_bits v) (csr s)\<rparr>"
| "raw_write is32 (Reg2 get upd) v s = s\<lparr>csr := upd (wr_view2 is32 csr_bits v) (csr s)\<rparr>"

fun raw_mask :: "bool \<Rightarrow> csrMaskReg \<Rightarrow> riscv \<Rightarrow> uns64 option" where
  "raw_mask is32 NoMask s = None"
| "raw_mask is32 (Mask get) s = Some (rd_view is32 csr_bits (get (csrMask s)))"
| "raw_mask is32 (Mask2 get) s = Some (rd_view2 is32 csr_bits (get (csrMask s)))"

definition getCSRWriteMask32 :: "riscvCSRAttrs \<Rightarrow> riscv \<Rightarrow> uns32" where
  "getCSRWriteMask32 attrs s =
     (case raw_mask True (writeMaskV attrs) s of Some m \<Rightarrow> ucast m
      | None \<Rightarrow> if writeMaskC32 attrs \<noteq> 0 then writeMaskC32 attrs else - 1)"

definition getCSRWriteMask64 :: "riscvCSRAttrs \<Rightarrow> riscv \<Rightarrow> uns64" where
  "getCSRWriteMask64 attrs s =
     (case raw_mask False (writeMaskV attrs) s of Some m \<Rightarrow> m
      | None \<Rightarrow> if writeMaskC64 attrs \<noteq> 0 then writeMaskC64 attrs else - 1)"

definition getCSRWriteMask :: "riscvCSRAttrs \<Rightarrow> riscv \<Rightarrow> uns64" where
  "getCSRWriteMask attrs s =
     (if RISCV_XLEN_IS_32 s then scast (getCSRWriteMask32 attrs s) else getCSRWriteMask64 attrs s)"

text \<open>The lookup table of a processor, to which derived models may add registers.\<close>

type_synonym csrTable = "nat \<Rightarrow> riscvCSRAttrs option"

definition riscvNewCSR :: "riscvCSRAttrs \<Rightarrow> csrTable \<Rightarrow> csrTable" where
  "riscvNewCSR attrs T = T(csrNum attrs \<mapsto> attrs)"

definition standard_csrs :: csrTable where
  "standard_csrs = fold riscvNewCSR csrs Map.empty"

definition getCSRAttrs :: "csrTable \<Rightarrow> nat \<Rightarrow> riscvCSRAttrs option" where
  "getCSRAttrs T num = T num"

definition riscvGetCSRName :: "csrTable \<Rightarrow> nat \<Rightarrow> string option" where
  "riscvGetCSRName T num = map_option csr_name (getCSRAttrs T num)"

text \<open>The next register in the order of the numbers, of which there are 4096.\<close>

definition getNextCSR :: "riscvCSRAttrs option \<Rightarrow> csrTable \<Rightarrow> riscvCSRAttrs option" where
  "getNextCSR prev T =
     (let num = (case prev of None \<Rightarrow> 0 | Some a \<Rightarrow> csrNum a + 1)
      in case find (\<lambda>n. T n \<noteq> None) [num..<4096] of None \<Rightarrow> None | Some n \<Rightarrow> T n)"

definition getCSRReadCB :: "riscvCSRAttrs \<Rightarrow> bool \<Rightarrow> riscvCSRReadFn option" where
  "getCSRReadCB attrs isWrite =
     (case readWriteCB attrs of Some f \<Rightarrow> if isWrite then Some f else readCB attrs
      | None \<Rightarrow> readCB attrs)"

definition getCSRWriteCB :: "riscvCSRAttrs \<Rightarrow> riscvCSRWriteFn option" where
  "getCSRWriteCB attrs = writeCB attrs"

section \<open>Validation of an access\<close>

text \<open>The result is the table entry, or the reason for which an illegal instruction is emitted.\<close>

datatype csrError = CSR_UNIMP | CSR_MISSING riscvArchitecture | CSR_NWA | CSR_MODE

definition riscvValidateCSRAccess :: "csrTable \<Rightarrow> nat \<Rightarrow> bool \<Rightarrow> bool \<Rightarrow> riscv \<Rightarrow> csrError + riscvCSRAttrs" where
  "riscvValidateCSRAccess T num read write s =
     (case getCSRAttrs T num of None \<Rightarrow> Inl CSR_UNIMP
      | Some attrs \<Rightarrow>
          let missing = getMissingCSRFeatures (csr_arch attrs) (currentArch s) True
          in if missing \<noteq> 0 then Inl (CSR_MISSING missing)
             else if write \<and> \<not> getAccess_W (csrDesc.truncate attrs) then Inl CSR_NWA
             else if getCurrentMode s < csr_mode_field num then Inl CSR_MODE
             else Inr attrs)"

section \<open>The effect of emitted reads and writes\<close>

text \<open>What the code that \<^verbatim>\<open>riscvEmitCSRRead\<close> and \<^verbatim>\<open>riscvEmitCSRWrite\<close> emit does when it runs. A result is
  moved in the width of the current XLEN, and so is the value to write.\<close>

definition riscvEmitCSRRead :: "vmirt \<Rightarrow> riscvCSRAttrs \<Rightarrow> bool \<Rightarrow> riscv \<Rightarrow> uns64 \<times> riscv" where
  "riscvEmitCSRRead V attrs isWrite s =
     (case getCSRReadCB attrs isWrite of
        Some f \<Rightarrow> (let (v, s') = f V (csrDesc.truncate attrs) s in (getXLENValue s v, s'))
      | None \<Rightarrow> (raw_read (\<not> RISCV_XLEN_IS_64 s) (csr_reg attrs) s, s))"

definition riscvEmitCSRWrite :: "vmirt \<Rightarrow> riscvCSRAttrs \<Rightarrow> uns64 \<Rightarrow> riscv \<Rightarrow> riscv" where
  "riscvEmitCSRWrite V attrs rs s =
     (let value = getXLENValue s rs; is32 = (\<not> RISCV_XLEN_IS_64 s); msk = getCSRWriteMask attrs s
      in case getCSRWriteCB attrs of
           Some f \<Rightarrow> snd (f V (csrDesc.truncate attrs) value s)
         | None \<Rightarrow>
             if VMI_ISNOREG (csr_reg attrs) then s
             else if msk = - 1 then raw_write is32 (csr_reg attrs) value s
             else if msk \<noteq> 0
             then raw_write is32 (csr_reg attrs) (masked msk value (raw_read is32 (csr_reg attrs) s)) s
             else s)"

section \<open>Debug interface\<close>

text \<open>\<open>None\<close> is a failed assertion: the current XLEN is not the configured one
  (\<^verbatim>\<open>toConfiguredArch\<close>), or a read without a callback.\<close>

definition toConfiguredArch :: "riscv \<Rightarrow> bool" where
  "toConfiguredArch s \<longleftrightarrow> riscvGetXlenMode s = riscvGetXlenArch [s] \<and> riscvGetXlenMode s \<noteq> None"

definition riscvReadCSR :: "vmirt \<Rightarrow> riscvCSRAttrs \<Rightarrow> riscv \<Rightarrow> (bool \<times> uns64 \<times> riscv) option" where
  "riscvReadCSR V attrs s =
     (if getMissingCSRFeatures (csr_arch attrs) (cfg_arch (configInfo s)) True \<noteq> 0 then Some (False, 0, s)
      else if \<not> toConfiguredArch s then None
      else case getCSRReadCB attrs False of None \<Rightarrow> None
        | Some f \<Rightarrow>
            (let (value, t) = f V (csrDesc.truncate attrs) (s\<lparr>artifactAccess := True\<rparr>)
             in Some (True, if riscvGetXlenArch [s] = Some 64 then value else take_bit 32 value,
                  t\<lparr>artifactAccess := False\<rparr>)))"

definition riscvWriteCSR :: "vmirt \<Rightarrow> riscvCSRAttrs \<Rightarrow> uns64 \<Rightarrow> riscv \<Rightarrow> (bool \<times> riscv) option" where
  "riscvWriteCSR V attrs buffer s =
     (if getMissingCSRFeatures (csr_arch attrs) (cfg_arch (configInfo s)) True \<noteq> 0 then Some (False, s)
      else if \<not> toConfiguredArch s then None
      else let is64Bit = (riscvGetXlenArch [s] = Some 64);
               newValue = (if is64Bit then buffer else take_bit 32 buffer)
           in case getCSRWriteCB attrs of
                Some f \<Rightarrow>
                  Some (True, (snd (f V (csrDesc.truncate attrs) newValue (s\<lparr>artifactAccess := True\<rparr>)))
                    \<lparr>artifactAccess := False\<rparr>)
              | None \<Rightarrow>
                  if VMI_ISNOREG (csr_reg attrs) then Some (True, s)
                  else Some (True, raw_write (\<not> is64Bit) (csr_reg attrs)
                    (masked (getCSRWriteMask attrs s) newValue (raw_read (\<not> is64Bit) (csr_reg attrs) s)) s))"

section \<open>Reset and initialization\<close>

text \<open>\<open>None\<close> is the failed assertion of \<^verbatim>\<open>toConfiguredArch\<close>.\<close>

definition riscvCSRReset :: "riscv \<Rightarrow> riscv option" where
  "riscvCSRReset s =
     (let arch = cfg_arch (configInfo s)
      in if \<not> toConfiguredArch s then None
         else let s = WR_CSR2_FIELD misa_update isa_Extensions (ucast arch) s;
                  s = WR_CSR2_FIELD misa_update isa_MXL (ucast (drop_bit XLEN_SHIFT arch)) s;
                  s = WR_CSR mstatus_update (cfg_mstatus (configInfo s)) s;
                  s = WR_CSR2 mcause_update 0 s;
                  s = riscvSetCurrentArch s;
                  s = riscvVMResetPMP s
              in Some (s\<lparr>exclusiveTag := RISCV_NO_TAG\<rparr>))"

text \<open>The reset value of \<^verbatim>\<open>mstatus\<close>, in its 64-bit view.\<close>

definition reset_mstatus :: "riscv \<Rightarrow> uns64" where
  "reset_mstatus s =
     (let arch = cfg_arch (configInfo s);
          MXL = ucast (drop_bit XLEN_SHIFT arch);
          minMode = of_nat (mode_code (riscvGetMinMode s));
          m = cfg_mstatus (configInfo s);
          m = (if getf 11 2 m < minMode then setf 11 2 minMode m else m);
          m = (if \<not> has arch ISA_S then setf 8 1 0 m
               else if getf 8 1 m < minMode then setf 8 1 minMode m else m);
          m = (if has arch ISA_U then setf 32 2 MXL m else m)
      in if has arch ISA_S then setf 34 2 MXL m else m)"

definition riscvCSRInitialReset :: "riscv \<Rightarrow> riscv option" where
  "riscvCSRInitialReset s =
     riscvCSRReset (s\<lparr>configInfo := (configInfo s)\<lparr>cfg_mstatus := reset_mstatus s\<rparr>\<rparr>)"

definition getExceptionMask :: "riscvException \<Rightarrow> uns64" where
  "getExceptionMask code = push_bit code 1"

definition getInterruptMask :: "riscvException \<Rightarrow> uns64" where
  "getInterruptMask code = push_bit (code - riscv_E_Interrupt) 1"

text \<open>\<^verbatim>\<open>SET_CSR_FIELD_MASK_1\<close>: all ones in a field of both views of a mask, which are one union for the
  registers concerned.\<close>

fun mask_1 :: "csrField \<Rightarrow> uns64 \<Rightarrow> uns64" where
  "mask_1 (CsrField l3 w3 l6 w6) m = setf l6 w6 (- 1) (setf l3 w3 (- 1) m)"

definition mstatus_mask :: "riscvArchitecture \<Rightarrow> uns64 \<Rightarrow> uns64" where
  "mstatus_mask arch m =
     (let m = mask_1 status_MPIE (mask_1 status_MIE m);
          m = (if has arch (ISA_U OR ISA_S) then mask_1 status_MPP m else m);
          m = (if has arch ISA_S
               then let m = fold mask_1 [status_SIE, status_SPIE, status_SUM, status_MXR, status_TVM, status_TW,
                              status_TSR] m
                    in if has arch ISA_U then mask_1 status_SPP m else m
               else m);
          m = (if has arch ISA_U then mask_1 status_MPRV m else m);
          m = (if has arch ISA_N then mask_1 status_UPIE (mask_1 status_UIE m) else m)
      in if has arch ISA_DF then mask_1 status_FS m else m)"

abbreviation (input) riscv_E_SSWInterrupt :: riscvException where "riscv_E_SSWInterrupt \<equiv> 0x41"
abbreviation (input) riscv_E_HSWInterrupt :: riscvException where "riscv_E_HSWInterrupt \<equiv> 0x42"
abbreviation (input) riscv_E_MSWInterrupt :: riscvException where "riscv_E_MSWInterrupt \<equiv> 0x43"
abbreviation (input) riscv_E_STimerInterrupt :: riscvException where "riscv_E_STimerInterrupt \<equiv> 0x45"
abbreviation (input) riscv_E_HTimerInterrupt :: riscvException where "riscv_E_HTimerInterrupt \<equiv> 0x46"
abbreviation (input) riscv_E_MTimerInterrupt :: riscvException where "riscv_E_MTimerInterrupt \<equiv> 0x47"
abbreviation (input) riscv_E_SExternalInterrupt :: riscvException where "riscv_E_SExternalInterrupt \<equiv> 0x49"
abbreviation (input) riscv_E_HExternalInterrupt :: riscvException where "riscv_E_HExternalInterrupt \<equiv> 0x4A"
abbreviation (input) riscv_E_MExternalInterrupt :: riscvException where "riscv_E_MExternalInterrupt \<equiv> 0x4B"

text \<open>The exceptions and interrupts visible in each mode.\<close>

definition sExceptions :: "riscv \<Rightarrow> uns64" where
  "sExceptions s = exceptionMask s AND NOT (getExceptionMask riscv_E_EnvironmentCallFromMMode)"

definition sInterrupts :: "riscv \<Rightarrow> uns64" where
  "sInterrupts s = interruptMask s AND NOT (getInterruptMask riscv_E_MSWInterrupt
     OR getInterruptMask riscv_E_MTimerInterrupt OR getInterruptMask riscv_E_MExternalInterrupt
     OR riscvGetLocalIntMask s)"

definition hExceptions :: "riscv \<Rightarrow> uns64" where
  "hExceptions s = sExceptions s AND NOT (getExceptionMask riscv_E_EnvironmentCallFromSMode)"

definition hInterrupts :: "riscv \<Rightarrow> uns64" where
  "hInterrupts s = sInterrupts s AND NOT (getInterruptMask riscv_E_SSWInterrupt
     OR getInterruptMask riscv_E_STimerInterrupt OR getInterruptMask riscv_E_SExternalInterrupt)"

definition uExceptions :: "riscv \<Rightarrow> uns64" where
  "uExceptions s = hExceptions s AND NOT (getExceptionMask riscv_E_EnvironmentCallFromHMode)"

definition uInterrupts :: "riscv \<Rightarrow> uns64" where
  "uInterrupts s = hInterrupts s AND NOT (getInterruptMask riscv_E_HSWInterrupt
     OR getInterruptMask riscv_E_HTimerInterrupt OR getInterruptMask riscv_E_HExternalInterrupt)"

text \<open>A configured mask of 0 stands for all ones; \<^verbatim>\<open>WM64_mtvec\<close> and its likes clear bit 1.\<close>

definition default_mask :: "'a::len word \<Rightarrow> 'a word" where
  "default_mask m = (if m = 0 then - 1 else m)"

definition counteren_mask :: "riscvConfig \<Rightarrow> uns64" where
  "counteren_mask cfg = 0xfffffff8 OR (if cycle_undefined cfg then 0 else 1)
     OR (if time_undefined cfg then 0 else 2) OR (if instret_undefined cfg then 0 else 4)"

text \<open>The write masks of all registers. \<^verbatim>\<open>SET_CSR_MASK_V\<close> writes the low half, then all 64 bits of a union.\<close>

definition csr_masks :: "riscv \<Rightarrow> riscvCSRMasks" where
  "csr_masks s =
     (let cfg = configInfo s; arch = cfg_arch cfg; archMask = cfg_archMask cfg;
          maskEPC = (if has arch ISA_C then - 2 else - 4);
          cause = \<lparr>u32_bits = default_mask (u32_bits (cfgMask_cause cfg)),
                   u64_bits = default_mask (u64_bits (cfgMask_cause cfg))\<rparr>;
          m = csrMask s;
          f = (\<lambda>is32 r. wr_view2 is32 isa_MXL (ucast (drop_bit XLEN_SHIFT archMask))
                (wr_view2 is32 isa_Extensions (ucast archMask) r))
      in m\<lparr>misaM := f False (f True (misaM m)),
           mstatusM := mstatus_mask arch (mstatusM m),
           uepcM := maskEPC, sepcM := maskEPC, mepcM := maskEPC,
           mieM := interruptMask s, medelegM := sExceptions s, sedelegM := uExceptions s,
           midelegM := sInterrupts s, sidelegM := uInterrupts s,
           mtvecM := if mtvec_is_ro cfg then 0 else default_mask (cfgMask_mtvec cfg) AND - 3,
           stvecM := default_mask (cfgMask_stvec cfg) AND - 3,
           utvecM := default_mask (cfgMask_utvec cfg) AND - 3,
           mcauseM := cause, scauseM := cause, ucauseM := cause,
           mcounterenM := counteren_mask cfg, scounterenM := counteren_mask cfg\<rparr>)"

text \<open>The lookup table is filled by \<^verbatim>\<open>standard_csrs\<close>; \<open>index\<close> is the index of the hart.\<close>

definition riscvCSRInit :: "uns32 \<Rightarrow> riscv \<Rightarrow> riscv option" where
  "riscvCSRInit index s =
     (case riscvCSRInitialReset s of None \<Rightarrow> None
      | Some s \<Rightarrow>
         (let cfg = configInfo s; arch = cfg_arch cfg;
              s = WR_CSR mvendorid_update (cfg_mvendorid cfg) s;
              s = WR_CSR marchid_update (cfg_marchid cfg) s;
              s = WR_CSR mimpid_update (cfg_mimpid cfg) s;
              s = WR_CSR mhartid_update (cfg_mhartid cfg + ucast index) s;
              s = s\<lparr>csrMask := csr_masks s\<rparr>;
              s = (if arch AND ISA_SorN = ISA_N
                   then WR_CSR sideleg_update (- 1) (WR_CSR sedeleg_update (- 1) s) else s);
              s = WR_CSR mtvec_update (cfg_mtvec cfg) s
          in Some (if has arch ISA_U \<and> \<not> has arch ISA_S then WR_CSR scounteren_update (- 1) s else s)))"

section \<open>Processor reset\<close>

definition riscvReset :: "vmirt \<Rightarrow> riscv \<Rightarrow> riscv option" where
  "riscvReset V s =
     (let s = restartProcessor RVD_RESTART_RESET s;
          s = riscvSetMode V RISCV_MODE_MACHINE s
      in case riscvCSRReset s of None \<Rightarrow> None
         | Some s \<Rightarrow>
            (let s = (if cb_resetNotifier s then do_call ResetNotifier s else s);
                 s = s\<lparr>riscv_exception := 0\<rparr>
             in Some (do_call (VmirtSetPCException (reset_address (configInfo s))) s)))"

definition resetPortCB :: "vmirt \<Rightarrow> uns32 \<Rightarrow> riscv \<Rightarrow> riscv option" where
  "resetPortCB V newValue s =
     (let oldValue = net_reset (netValue s)
      in map_option (\<lambda>s. s\<lparr>netValue := (netValue s)\<lparr>net_reset := newValue \<noteq> 0\<rparr>\<rparr>)
           (if posedge oldValue (newValue \<noteq> 0) then Some (haltProcessor RVD_RESET s)
            else if negedge (of_bool oldValue) newValue then riscvReset V s else Some s))"

section \<open>Save and restore\<close>

text \<open>At the end of a core: the counter bases.\<close>

definition riscvCSRSave :: "riscv \<Rightarrow> uns64 \<times> uns64" where
  "riscvCSRSave s = (baseCycles s, baseInstructions s)"

definition riscvCSRRestore :: "uns64 \<times> uns64 \<Rightarrow> riscv \<Rightarrow> riscv" where
  "riscvCSRRestore v s = s\<lparr>baseCycles := fst v, baseInstructions := snd v\<rparr>"

end
