(* ===== verification/RiscvHart.thy ===== *)
theory RiscvHart
  imports RiscvCSR
begin

text \<open>
  The hart as a state machine: register writes, traps, returns, WFI and the signals of the net ports as
  one step relation, and the invariant that all of them keep. The invariant relates components that
  are far apart in the code: a hart that waits in WFI has no pending interrupt, the translation mode in
  \<^verbatim>\<open>satp\<close> is one that the configuration implements, only delegable interrupts are delegated, and the
  XLEN that the rest of the code reads from \<^verbatim>\<open>currentArch\<close> is the one in \<^verbatim>\<open>misa\<close>.
\<close>

section \<open>The invariant\<close>

definition xlen_ok :: "riscv \<Rightarrow> bool" where
  "xlen_ok s \<longleftrightarrow> RISCV_XLEN_IS_64 s = (\<not> RISCV_XLEN_IS_32 s)
     \<and> has (cfg_arch (configInfo s)) ISA_XLEN_32 = RISCV_XLEN_IS_32 s
     \<and> has (cfg_arch (configInfo s)) ISA_XLEN_64 = RISCV_XLEN_IS_64 s
     \<and> RD_CSR2_FIELD s misa isa_MXL = (if RISCV_XLEN_IS_32 s then 1 else 2)
     \<and> rd_view2 (RISCV_XLEN_IS_32 s) isa_MXL (misaM (csrMask s)) = 0"

definition satp_ok :: "riscv \<Rightarrow> bool" where
  "satp_ok s \<longleftrightarrow> bit (Sv_modes (configInfo s)) (unat (RD_CSR2_FIELD s satp atp_MODE))"

text \<open>Machine mode software, timer and external interrupt.\<close>

definition machine_interrupts :: uns64 where
  "machine_interrupts = 0x888"

definition deleg_ok :: "riscv \<Rightarrow> bool" where
  "deleg_ok s \<longleftrightarrow> RD_CSR s mideleg AND NOT (RD_CSR_MASK s midelegM) = 0
     \<and> midelegM (csrMask s) AND machine_interrupts = 0"

definition hart_inv :: "riscv \<Rightarrow> bool" where
  "hart_inv s \<longleftrightarrow> wfi_ok s \<and> xlen_ok s \<and> satp_ok s \<and> deleg_ok s"

text \<open>What the invariant depends on.\<close>

definition hart_same :: "riscv \<Rightarrow> riscv \<Rightarrow> bool" where
  "hart_same s t \<longleftrightarrow> mie (csr t) = mie (csr s) \<and> mip (csr t) = mip (csr s) \<and> satp (csr t) = satp (csr s)
     \<and> misa (csr t) = misa (csr s) \<and> mideleg (csr t) = mideleg (csr s) \<and> csrMask t = csrMask s
     \<and> configInfo t = configInfo s \<and> riscv_disable t = riscv_disable s
     \<and> RISCV_XLEN_IS_32 t = RISCV_XLEN_IS_32 s \<and> RISCV_XLEN_IS_64 t = RISCV_XLEN_IS_64 s"

lemma hart_same_refl [simp]: "hart_same s s"
  by (simp add: hart_same_def)

lemma hart_same_trans [trans]: "hart_same s t \<Longrightarrow> hart_same t u \<Longrightarrow> hart_same s u"
  by (simp add: hart_same_def)

lemma hart_inv_same: "hart_same s t \<Longrightarrow> hart_inv t = hart_inv s"
  by (simp add: hart_same_def hart_inv_def wfi_ok_def getPendingInterrupts_def xlen_ok_def satp_ok_def
      deleg_ok_def csr_defs)

lemma xlen_arch: "currentArch t = currentArch s \<Longrightarrow> RISCV_XLEN_IS_32 t = RISCV_XLEN_IS_32 s"
  "currentArch t = currentArch s \<Longrightarrow> RISCV_XLEN_IS_64 t = RISCV_XLEN_IS_64 s"
  by (simp_all add: RISCV_XLEN_IS_32_def RISCV_XLEN_IS_64_def)

lemma xlen_csr [simp]:
  "RISCV_XLEN_IS_32 (s\<lparr>csr := c\<rparr>) = RISCV_XLEN_IS_32 s" "RISCV_XLEN_IS_64 (s\<lparr>csr := c\<rparr>) = RISCV_XLEN_IS_64 s"
  by (simp_all add: RISCV_XLEN_IS_32_def RISCV_XLEN_IS_64_def)

lemma hart_sameI:
  assumes "mie (csr t) = mie (csr s)" "mip (csr t) = mip (csr s)" "satp (csr t) = satp (csr s)"
    "misa (csr t) = misa (csr s)" "mideleg (csr t) = mideleg (csr s)" "csrMask t = csrMask s"
    "configInfo t = configInfo s" "riscv_disable t = riscv_disable s" "currentArch t = currentArch s"
  shows "hart_same s t"
  using assms xlen_arch [OF assms(9)] by (simp add: hart_same_def)

lemma xlen_cases:
  assumes "xlen_ok s"
  obtains (x32) "RISCV_XLEN_IS_32 s" "\<not> RISCV_XLEN_IS_64 s" | (x64) "\<not> RISCV_XLEN_IS_32 s" "RISCV_XLEN_IS_64 s"
  using assms by (auto simp: xlen_ok_def)

section \<open>The current architecture\<close>

lemma has_xlen_bits: "has a ISA_XLEN_32 \<longleftrightarrow> bit a 26" "has a ISA_XLEN_64 \<longleftrightarrow> bit a 27" for a :: uns32
  using has_bit(1) [of a 26] has_bit(1) [of a 27] by simp_all

text \<open>The XLEN bits of the architecture that \<^verbatim>\<open>misa\<close> encodes.\<close>

lemma arch_of_misa_bits:
  fixes ext mxl :: uns64
  defines "a \<equiv> ucast ext OR push_bit XLEN_SHIFT (ucast mxl) :: uns32"
  assumes "take_bit 26 ext = ext"
  shows "bit a 26 = bit mxl 0" "bit a 27 = bit mxl 1"
    "bit (a AND NOT ISA_DF) 26 = bit a 26" "bit (a AND NOT ISA_DF) 27 = bit a 27"
proof -
  have "\<not> bit ext n" if "26 \<le> n" for n using assms(2) that by (metis bit_take_bit_iff not_less)
  from this [of 26] this [of 27] have "\<not> bit ext 26" "\<not> bit ext 27" by simp_all
  then show "bit a 26 = bit mxl 0" "bit a 27 = bit mxl 1"
    unfolding a_def by (simp_all add: bit_simps)
  have "\<not> bit (ISA_DF :: uns32) 26" "\<not> bit (ISA_DF :: uns32) 27" by (simp_all add: bit_iff_odd)
  then show "bit (a AND NOT ISA_DF) 26 = bit a 26" "bit (a AND NOT ISA_DF) 27 = bit a 27"
    by (simp_all add: bit_and_iff bit_not_iff)
qed

lemma isa_Extensions_bound: "take_bit 26 (RD_CSR2_FIELD s misa isa_Extensions) = RD_CSR2_FIELD s misa isa_Extensions"
  by (simp add: RD_CSR2_FIELD_def view_simps getf_def take_bit_take_bit unsigned_take_bit_eq)

lemma hart_same_riscvSetCurrentArch:
  assumes "xlen_ok s"
  shows "hart_same s (riscvSetCurrentArch s)"
proof -
  let ?ext = "RD_CSR2_FIELD s misa isa_Extensions" and ?mxl = "RD_CSR2_FIELD s misa isa_MXL"
  define a where "a = (ucast ?ext OR push_bit XLEN_SHIFT (ucast ?mxl) :: uns32)"
  note bits = arch_of_misa_bits [OF isa_Extensions_bound [of s], of ?mxl, folded a_def]
  define a' where "a' = (if RD_CSR_FIELD s mstatus status_FS = 0 then a AND NOT ISA_DF else a)"
  have a': "bit a' 26 = bit ?mxl 0" "bit a' 27 = bit ?mxl 1" using bits by (simp_all add: a'_def)
  have m: "bit ?mxl 0 = RISCV_XLEN_IS_32 s" "bit ?mxl 1 = RISCV_XLEN_IS_64 s"
    using assms by (auto simp: xlen_ok_def bit_1_iff bit_2_iff)
  have arch: "currentArch (riscvSetCurrentArch s) = a'"
    by (simp add: riscvSetCurrentArch_def Let_def a_def a'_def)
  have "RISCV_XLEN_IS_32 (riscvSetCurrentArch s) = RISCV_XLEN_IS_32 s"
    "RISCV_XLEN_IS_64 (riscvSetCurrentArch s) = RISCV_XLEN_IS_64 s"
    using a' m unfolding RISCV_XLEN_IS_32_def RISCV_XLEN_IS_64_def arch by (simp_all only: has_xlen_bits)
  then show ?thesis by (simp add: hart_same_def) (simp add: riscvSetCurrentArch_def Let_def)
qed

section \<open>Whole registers and their fields\<close>

lemma bit_word_length: "bit (x :: uns64) (l + n) \<Longrightarrow> l + n < 64" "bit (x :: uns64) n \<Longrightarrow> n < 64"
  "bit (y :: uns32) (l + n) \<Longrightarrow> l + n < 32"
  using bit_imp_le_length [of x "l + n"] bit_imp_le_length [of x n] bit_imp_le_length [of y "l + n"] by simp_all

text \<open>A field of a register that has just been written as a whole, and of a masked write.\<close>

lemma rd_view2_write:
  assumes "field_ok2 f"
  shows "rd_view2 b f (wr_view2 b csr_bits v r) = rd_view b f v"
proof (cases f)
  case (CsrField l3 w3 l6 w6)
  with assms have "l3 + w3 \<le> 32" by simp
  then have "ucast (getf l3 w3 (ucast v :: uns32)) = getf l3 w3 v"
    by (intro bit_word_eqI) (auto simp: bit_simps)
  then show ?thesis
    by (cases b) (simp_all add: CsrField view_simps setf_full [where 'a = 32, simplified])
qed

lemma rd_view_read2: "field_ok2 f \<Longrightarrow> rd_view b f (rd_view2 b csr_bits r) = rd_view2 b f r"
proof (cases f)
  case (CsrField l3 w3 l6 w6)
  assume "field_ok2 f"
  with CsrField have "l3 + w3 \<le> 32" by simp
  then show ?thesis
    by (cases b) (auto simp: CsrField view_simps getf_0_take_bit bit_simps intro!: bit_word_eqI dest: bit_word_length)
qed

lemma rd_view_masked:
  "rd_view b f (masked m v u) = masked (rd_view b f m) (rd_view b f v) (rd_view b f u)"
  by (cases f) (auto simp: view_simps masked_def bit_simps intro!: bit_word_eqI dest: bit_word_length)

lemma masked_0 [simp]: "masked 0 v u = u"
  by (simp add: masked_def)

lemma rd_view_misa_DF: "rd_view b isa_MXL (misa_DF cfg v) = rd_view b isa_MXL v"
proof -
  have df: "bit (0x8 :: uns64) n \<longleftrightarrow> n = 3" "bit (0x20 :: uns64) n \<longleftrightarrow> n = 5" for n
    using bit_exp_iff [of 3 n, where 'a = uns64] bit_exp_iff [of 5 n, where 'a = uns64] by auto
  have "bit (misa_DF cfg v) n = bit v n" if "5 < n" for n
    unfolding misa_DF_def Let_def
    by (simp only: bit_and_iff bit_or_iff bit_not_iff df split: if_split)
      (use that in \<open>auto dest: bit_imp_le_length\<close>)
  then show ?thesis by (auto simp: view_simps bit_simps intro!: bit_word_eqI)
qed

section \<open>Register writes\<close>

text \<open>The part of the invariant that does not depend on interrupts, and what it depends on.\<close>

definition static_inv :: "riscv \<Rightarrow> bool" where
  "static_inv s \<longleftrightarrow> xlen_ok s \<and> satp_ok s \<and> deleg_ok s"

lemma static_inv_cong:
  assumes "satp (csr t) = satp (csr s)" "misa (csr t) = misa (csr s)" "mideleg (csr t) = mideleg (csr s)"
    "csrMask t = csrMask s" "configInfo t = configInfo s" "currentArch t = currentArch s"
  shows "static_inv t = static_inv s"
  using assms xlen_arch [OF assms(6)] by (simp add: static_inv_def xlen_ok_def satp_ok_def deleg_ok_def csr_defs)

lemma hart_inv_static: "hart_inv s \<longleftrightarrow> wfi_ok s \<and> static_inv s"
  by (auto simp: hart_inv_def static_inv_def)

lemma hart_inv_riscvTestInterrupt: "static_inv s \<Longrightarrow> hart_inv (riscvTestInterrupt s)"
  using static_inv_cong [of "riscvTestInterrupt s" s] by (simp add: hart_inv_static wfi_ok_riscvTestInterrupt)

lemma hart_inv_riscvUpdatePending: "hart_inv s \<Longrightarrow> hart_inv (riscvUpdatePending s)"
proof -
  have "static_inv (WR_CSR mip_update v s) = static_inv s" for v
    by (rule static_inv_cong) (simp_all add: WR_CSR_FIELD_def)
  then show "hart_inv s \<Longrightarrow> hart_inv (riscvUpdatePending s)"
    by (simp add: riscvUpdatePending_def Let_def hart_inv_riscvTestInterrupt hart_inv_static [of s])
qed

lemma hart_inv_misaW:
  assumes "hart_inv s"
  shows "hart_inv (snd (misaW v s))"
proof -
  have xlen: "xlen_ok s" using assms by (simp add: hart_inv_def)
  let ?new = "misa_DF (configInfo s) (masked (RD_CSR2_MASK s misaM) v (RD_CSR2 s misa))"
  let ?u = "WR_CSR2 misa_update ?new s"
  have "rd_view2 (RISCV_XLEN_IS_32 s) isa_MXL (misaM (csrMask s)) = 0" using xlen unfolding xlen_ok_def by blast
  then have mxl: "RD_CSR2_FIELD ?u misa isa_MXL = RD_CSR2_FIELD s misa isa_MXL"
    by (simp add: csr_defs rd_view2_write rd_view_misa_DF rd_view_masked rd_view_read2)
  have same: "RISCV_XLEN_IS_32 ?u = RISCV_XLEN_IS_32 s" "RISCV_XLEN_IS_64 ?u = RISCV_XLEN_IS_64 s"
    "csrMask ?u = csrMask s" "configInfo ?u = configInfo s" by (simp_all add: csr_defs)
  have x: "xlen_ok ?u" unfolding xlen_ok_def mxl same by (rule xlen [unfolded xlen_ok_def])
  moreover have "wfi_ok ?u" "satp_ok ?u" "deleg_ok ?u"
    using assms
    by (simp_all add: hart_inv_def wfi_ok_def getPendingInterrupts_def satp_ok_def deleg_ok_def csr_defs)
  ultimately have "hart_inv ?u" by (simp add: hart_inv_def)
  with hart_inv_same [OF hart_same_riscvSetCurrentArch [OF x]] show ?thesis by (simp add: misaW_def Let_def)
qed

text \<open>Changes that the invariant does not see.\<close>

lemma hart_same_do_call [simp]: "hart_same s (do_call c s)"
  by (rule hart_sameI) simp_all

lemma hart_same_riscvSetMode [simp]: "hart_same s (riscvSetMode V m s)"
  by (rule hart_sameI) simp_all

lemma hart_same_riscvVMSetASID [simp]: "hart_same s (riscvVMSetASID s)"
  by (simp add: riscvVMSetASID_def)

lemma hart_same_riscvVMRefreshMPRVDomain [simp]: "hart_same s (riscvVMRefreshMPRVDomain V s)"
  by (rule hart_sameI) simp_all

lemma hart_same_mstatus [simp]: "hart_same s (WR_CSR_FIELD mstatus_update f v s)"
  by (rule hart_sameI) (simp_all add: csr_defs)

lemma hart_same_riscvTakeException [simp]: "hart_same s (riscvTakeException V e tval s)"
  by (rule hart_sameI) (simp_all add: riscvTakeException_eq TARGET_MODE_X_def trap_pp_def trap_regs_def regs_U_def
      regs_S_def regs_M_def WR_CSR_FIELD_def WR_CSR2_FIELD_def Let_def)

lemma hart_inv_riscvSetCurrentArch: "hart_inv s \<Longrightarrow> hart_inv (riscvSetCurrentArch s)"
  using hart_inv_same [OF hart_same_riscvSetCurrentArch, of s] by (simp add: hart_inv_def)

lemma hart_inv_TestInterrupt: "hart_inv s \<Longrightarrow> hart_inv (riscvTestInterrupt s)"
  by (rule hart_inv_riscvTestInterrupt) (simp add: hart_inv_static)

lemma hart_inv_statusW:
  assumes "hart_inv s"
  shows "hart_inv (statusW V v m s)"
proof -
  note same = hart_inv_same [OF hart_same_mstatus] hart_inv_same [OF hart_same_riscvVMSetASID]
    hart_inv_same [OF hart_same_riscvVMRefreshMPRVDomain]
  show ?thesis
    using assms by (simp add: statusW_def Let_def same hart_inv_riscvSetCurrentArch hart_inv_TestInterrupt)
qed

lemma hart_inv_status:
  "hart_inv s \<Longrightarrow> hart_inv (snd (mstatusW V v s))" "hart_inv s \<Longrightarrow> hart_inv (snd (sstatusW V v s))"
  "hart_inv s \<Longrightarrow> hart_inv (snd (ustatusW V v s))"
  by (simp_all add: mstatusW_def sstatusW_def ustatusW_def Let_def hart_inv_statusW)

text \<open>Pending interrupts are software settable: a write goes through \<^verbatim>\<open>riscvUpdatePending\<close>.\<close>

lemma hart_inv_ipW: "hart_inv s \<Longrightarrow> hart_inv (snd (ipW v m s))"
proof -
  have "hart_same s (s\<lparr>swip := w\<rparr>)" for w by (rule hart_sameI) simp_all
  from hart_inv_same [OF this] show "hart_inv s \<Longrightarrow> hart_inv (snd (ipW v m s))"
    by (simp add: ipW_def Let_def hart_inv_riscvUpdatePending)
qed

lemma static_inv_mie [simp]: "static_inv (WR_CSR mie_update v s) = static_inv s"
  by (rule static_inv_cong) (simp_all add: csr_defs)

text \<open>A write of \<^verbatim>\<open>mie\<close> that changes none of the low 32 bits clears the others, and so makes nothing pending.\<close>

lemma wfi_ok_mie_shrink:
  assumes "wfi_ok s" and "\<And>n. bit (mie (csr t)) n \<Longrightarrow> bit (mie (csr s)) n"
    and "mip (csr t) = mip (csr s)" "currentArch t = currentArch s" "riscv_disable t = riscv_disable s"
  shows "wfi_ok t"
proof -
  have "bit (getPendingInterrupts s) n" if "bit (getPendingInterrupts t) n" for n
    using that assms(2) by (auto simp: assms(3) xlen_arch(1) [OF assms(4)] getPendingInterrupts_def RD_CSR_FIELD_def
        view_simps bit_simps split: if_splits)
  then have "getPendingInterrupts s = 0 \<Longrightarrow> getPendingInterrupts t = 0"
    by (intro bit_word_eqI) auto
  with assms(1,5) show ?thesis by (simp add: wfi_ok_def)
qed

lemma hart_inv_ieW:
  assumes "hart_inv s"
  shows "hart_inv (snd (ieW v m s))"
proof -
  let ?old = "ucast (RD_CSR s mie) :: uns32"
  have "bit (mie (csr s)) n" if "bit (mie (csr (WR_CSR mie_update (ucast ?old) s))) n" for n
    using that by (cases "RISCV_XLEN_IS_32 s") (simp_all add: csr_defs view_simps bit_simps split: if_splits)
  with assms have "wfi_ok (WR_CSR mie_update (ucast ?old) s)"
    by (intro wfi_ok_mie_shrink [of s "WR_CSR mie_update (ucast ?old) s"]) (simp_all add: hart_inv_def csr_defs)
  moreover have "static_inv s" using assms by (simp add: hart_inv_static)
  ultimately show ?thesis
    by (auto simp: ieW_def Let_def hart_inv_riscvTestInterrupt hart_inv_static [of "WR_CSR mie_update v s" for v])
qed

lemma hart_inv_ie:
  "hart_inv s \<Longrightarrow> hart_inv (snd (mieW v s))" "hart_inv s \<Longrightarrow> hart_inv (snd (sieW v s))"
  "hart_inv s \<Longrightarrow> hart_inv (snd (uieW v s))"
  by (simp_all add: mieW_def sieW_def uieW_def hart_inv_ieW)

text \<open>The delegation register stays within its mask. The written value has 32 bits.\<close>

lemma deleg_ok_bits: "deleg_ok s \<longleftrightarrow> (\<forall>n. bit (RD_CSR s mideleg) n \<longrightarrow> bit (RD_CSR_MASK s midelegM) n)
    \<and> midelegM (csrMask s) AND machine_interrupts = 0"
proof -
  have "x AND NOT y = 0 \<longleftrightarrow> (\<forall>n. bit x n \<longrightarrow> bit y n)" for x y :: uns64
    by (auto simp: bit_eq_iff [of "x AND NOT y"] bit_simps dest: bit_word_length)
  then show ?thesis by (simp add: deleg_ok_def)
qed

lemma hart_inv_midelegW:
  assumes "hart_inv s"
  shows "hart_inv (snd (midelegW v s))"
proof -
  let ?old = "ucast (RD_CSR s mideleg) :: uns32" and ?m = "ucast (RD_CSR_MASK s midelegM) :: uns32"
  let ?new = "(v AND ucast ?m) OR ucast (?old AND NOT ?m)"
  let ?t = "WR_CSR mideleg_update ?new s"
  have deleg: "bit (RD_CSR s mideleg) n \<Longrightarrow> bit (RD_CSR_MASK s midelegM) n" "midelegM (csrMask s) AND machine_interrupts = 0" for n
    using assms by (simp_all add: hart_inv_def deleg_ok_bits)
  have "bit (RD_CSR ?t mideleg) n \<longleftrightarrow> bit ?new n" for n
    by (cases "RISCV_XLEN_IS_32 s") (auto simp: csr_defs view_simps bit_simps)
  moreover have "bit ?new n \<Longrightarrow> bit (RD_CSR_MASK s midelegM) n" for n
    using deleg(1) [of n] by (auto simp: bit_simps)
  moreover have "RD_CSR_MASK ?t midelegM = RD_CSR_MASK s midelegM" by (simp add: csr_defs)
  ultimately have "deleg_ok ?t" using deleg(2) by (simp add: deleg_ok_bits)
  moreover have "wfi_ok ?t" "xlen_ok ?t" "satp_ok ?t"
    using assms by (simp_all add: hart_inv_def wfi_ok_def getPendingInterrupts_def xlen_ok_def satp_ok_def csr_defs)
  ultimately have "hart_inv ?t" by (simp add: hart_inv_def)
  then show ?thesis by (simp add: midelegW_def Let_def hart_inv_TestInterrupt)
qed

lemma hart_inv_sidelegW: "hart_inv s \<Longrightarrow> hart_inv (snd (sidelegW v s))"
proof -
  have "hart_same s (WR_CSR sideleg_update v s)" for v by (rule hart_sameI) (simp_all add: csr_defs)
  from hart_inv_same [OF this] show "hart_inv s \<Longrightarrow> hart_inv (snd (sidelegW v s))"
    by (simp add: sidelegW_def Let_def hart_inv_TestInterrupt)
qed

text \<open>Registers that the invariant does not mention.\<close>

lemma hart_same_tvec:
  "hart_same s (snd (mtvecW v s))" "hart_same s (snd (stvecW v s))" "hart_same s (snd (utvecW v s))"
  by (rule hart_sameI; simp add: mtvecW_def stvecW_def utvecW_def Let_def csr_defs)+

lemma hart_same_fp:
  "hart_same s (snd (fflagsW v s))" "hart_same s (snd (frmW v s))" "hart_same s (snd (fcsrW v s))"
  "hart_same s (snd (fcsrR s))"
  by (rule hart_sameI; simp add: fflagsW_def frmW_def fcsrW_def fcsrR_def refreshFPCR_def Let_def csr_defs)+

lemma hart_same_statusR: "hart_same s (snd (statusR s))"
  by (rule hart_sameI; simp add: statusR_def Let_def csr_defs)

lemma hart_same_hpmAccessValid: "hart_same s (snd (hpmAccessValid V i s))"
  by (simp add: hpmAccessValid_def riscvIllegalInstruction_def Let_def)

lemma hart_same_guarded:
  "hart_same s (snd (guarded_read V d f s))"
  "(\<And>s. hart_same s (g s)) \<Longrightarrow> hart_same s (guarded_write V d g s)"
  using hart_same_hpmAccessValid [of s V "csrNum d"]
  by (auto simp: guarded_read_def guarded_write_def case_prod_unfold Let_def intro: hart_same_trans)

lemma hart_same_counters:
  "hart_same s (snd (mcycleW V d v s))" "hart_same s (snd (mcyclehW V d v s))"
  "hart_same s (snd (minstretW V d v s))" "hart_same s (snd (minstrethW V d v s))" "hart_same s (snd (mhpmW V d v s))"
proof -
  have base: "hart_same s (cycleW V w s)" "hart_same s (instretW V w s)" for w s
    by (rule hart_sameI; simp add: cycleW_def instretW_def Let_def)+
  show "hart_same s (snd (mcycleW V d v s))" "hart_same s (snd (mcyclehW V d v s))"
    "hart_same s (snd (minstretW V d v s))" "hart_same s (snd (minstrethW V d v s))" "hart_same s (snd (mhpmW V d v s))"
    by (simp_all add: mcycleW_def mcyclehW_def minstretW_def minstrethW_def mhpmW_def hart_same_guarded(2) base)
qed

text \<open>A rejected write of \<^verbatim>\<open>satp\<close> restores the register as it reads; an accepted one has an implemented mode.\<close>

lemma hart_inv_satp:
  assumes "hart_inv s" and "satp_ok t" and "mie (csr t) = mie (csr s)" "mip (csr t) = mip (csr s)"
    "misa (csr t) = misa (csr s)" "mideleg (csr t) = mideleg (csr s)" "csrMask t = csrMask s"
    "configInfo t = configInfo s" "riscv_disable t = riscv_disable s" "currentArch t = currentArch s"
  shows "hart_inv t"
  using assms xlen_arch [OF assms(10)]
  by (simp add: hart_inv_def wfi_ok_def getPendingInterrupts_def xlen_ok_def deleg_ok_def csr_defs)

lemma satp_ok_revert:
  assumes "satp_ok s" and "configInfo t = configInfo s" "currentArch t = currentArch s"
  shows "satp_ok (WR_CSR2 satp_update (RD_CSR2 s satp) t)"
  using assms xlen_arch [OF assms(3)]
  by (simp add: satp_ok_def csr_defs rd_view2_write rd_view_read2)

lemma hart_inv_satpW:
  assumes "hart_inv s"
  shows "hart_inv (snd (satpW V v s))"
proof -
  have ok: "satp_ok s" using assms by (simp add: hart_inv_def)
  let ?s1 = "WR_CSR2 satp_update v s"
  let ?s2 = "WR_CSR2_FIELD satp_update atp_ASID (RD_CSR2_FIELD ?s1 satp atp_ASID AND ucast (getASIDMask ?s1)) ?s1"
  let ?s3 = "WR_CSR2_FIELD satp_update atp_PPN
    (RD_CSR2_FIELD ?s2 satp atp_PPN AND drop_bit 12 (push_bit (extBits ?s2) 1 - 1)) ?s2"
  let ?r = "WR_CSR2 satp_update (RD_CSR2 s satp) ?s3"
  have kept: "mie (csr (WR_CSR2_FIELD satp_update f w t)) = mie (csr t)"
    "mip (csr (WR_CSR2_FIELD satp_update f w t)) = mip (csr t)"
    "misa (csr (WR_CSR2_FIELD satp_update f w t)) = misa (csr t)"
    "mideleg (csr (WR_CSR2_FIELD satp_update f w t)) = mideleg (csr t)" for f w t
    by (simp_all add: WR_CSR2_FIELD_def)
  have "hart_inv ?r"
    by (rule hart_inv_satp [OF assms satp_ok_revert [OF ok]]) (simp_all only: kept WR_CSR2_FIELD_frame)
  moreover have "hart_inv ?s3" if "satp_ok ?s3"
    by (rule hart_inv_satp [OF assms that]) (simp_all only: kept WR_CSR2_FIELD_frame)
  then have "hart_inv (riscvVMSetASID (riscvSetMode V m ?s3))" if "satp_ok ?s3" for m
    using that by (simp only: hart_inv_same [OF hart_same_riscvVMSetASID] hart_inv_same [OF hart_same_riscvSetMode])
  moreover have "snd (satpW V v s) =
      (if \<not> satp_ok ?s3 then ?r else riscvVMSetASID (riscvSetMode V (getCurrentMode ?s3) ?s3))"
    by (simp only: satpW_def Let_def snd_conv satp_ok_def)
  ultimately show ?thesis by (cases "satp_ok ?s3") (simp_all only: if_True if_False simp_thms)
qed

text \<open>PMP registers are outside \<^verbatim>\<open>csr\<close>.\<close>

lemma hart_same_setPMPPriv [simp]: "hart_same s (setPMPPriv m lo hi p s)"
  by (rule hart_sameI) (simp_all add: setPMPPriv_def Let_def)

lemma hart_same_invalidatePMPEntry [simp]: "hart_same s (invalidatePMPEntry i s)"
proof -
  have "hart_same s (setPMPPriv m lo hi p (setPMPPriv m' lo hi p s))" for m m' lo hi p
    by (rule hart_same_trans [OF hart_same_setPMPPriv hart_same_setPMPPriv])
  then show ?thesis by (simp add: invalidatePMPEntry_def Let_def split: prod.split)
qed

lemma hart_same_pmp_update [simp]: "hart_same s (s\<lparr>pmpcfg := c\<rparr>)" "hart_same s (s\<lparr>pmpaddr := a\<rparr>)"
  by (rule hart_sameI; simp)+

lemma hart_same_fold: "(\<And>x s. hart_same s (f x s)) \<Longrightarrow> hart_same s (fold f xs s)"
  by (induction xs arbitrary: s) (auto intro: hart_same_trans)

lemma hart_same_writePMPCFGEntry: "hart_same s (writePMPCFGEntry old i s)"
proof -
  have "hart_same s (invalidatePMPEntry i ((invalidatePMPEntry i (t\<lparr>pmpcfg := a\<rparr>))\<lparr>pmpcfg := b\<rparr>))"
    if "hart_same s t" for t a b
    by (rule hart_same_trans [OF _ hart_same_invalidatePMPEntry], rule hart_same_trans [OF _ hart_same_pmp_update(1)],
        rule hart_same_trans [OF _ hart_same_invalidatePMPEntry], rule hart_same_trans [OF that hart_same_pmp_update(1)])
  moreover have "hart_same s (t\<lparr>pmpcfg := a\<rparr>)" if "hart_same s t" for t a
    by (rule hart_same_trans [OF that hart_same_pmp_update(1)])
  ultimately show ?thesis by (simp add: writePMPCFGEntry_def Let_def)
qed

lemma hart_same_pmp:
  "hart_same s (snd (pmpcfgW V d v s))" "hart_same s (snd (pmpaddrW V d v s))" "hart_same s (riscvVMResetPMP s)"
proof -
  have "hart_same s (fst (riscvVMWritePMPCFG i v s))" for i
    by (auto simp: riscvVMWritePMPCFG_def Let_def intro: hart_same_trans [OF hart_same_pmp_update(1)
        hart_same_fold [OF hart_same_writePMPCFGEntry]])
  then show "hart_same s (snd (pmpcfgW V d v s))" by (simp add: pmpcfgW_def case_prod_unfold Let_def)
  have "hart_same s (invalidatePMPEntry i ((invalidatePMPEntry i s)\<lparr>pmpaddr := a\<rparr>))" for i a
    by (rule hart_same_trans [OF _ hart_same_invalidatePMPEntry], rule hart_same_trans [OF _ hart_same_pmp_update(2)]) simp
  then have "hart_same s (fst (riscvVMWritePMPAddr i v s))" for i
    by (simp add: riscvVMWritePMPAddr_def Let_def)
  then show "hart_same s (snd (pmpaddrW V d v s))" by (simp add: pmpaddrW_def case_prod_unfold Let_def)
  have "hart_same s (resetPMPEntry i s)" for i s
    by (auto simp: resetPMPEntry_def Let_def intro!: hart_same_trans [OF _ hart_same_pmp_update(2)]
        hart_same_trans [OF _ hart_same_pmp_update(1)])
  then show "hart_same s (riscvVMResetPMP s)" by (simp add: riscvVMResetPMP_def hart_same_fold)
qed

section \<open>The register table\<close>

text \<open>What a table entry has to promise: its write callback keeps the invariant, or its storage is outside
  of what the invariant mentions; and its read callbacks keep the invariant.\<close>

definition write_keeps :: "riscvCSRAttrs \<Rightarrow> bool" where
  "write_keeps a \<longleftrightarrow> (case writeCB a of Some f \<Rightarrow> \<forall>V d v s. hart_inv s \<longrightarrow> hart_inv (snd (f V d v s))
     | None \<Rightarrow> \<forall>is32 v s. hart_same s (raw_write is32 (csr_reg a) v s))"

definition read_keeps :: "riscvCSRAttrs \<Rightarrow> bool" where
  "read_keeps a \<longleftrightarrow> (\<forall>f. readCB a = Some f \<longrightarrow> (\<forall>V d s. hart_same s (snd (f V d s))))
     \<and> (\<forall>f. readWriteCB a = Some f \<longrightarrow> (\<forall>V d s. hart_same s (snd (f V d s))))"

lemma hart_inv_riscvEmitCSRWrite:
  assumes "write_keeps a" "hart_inv s"
  shows "hart_inv (riscvEmitCSRWrite V a v s)"
proof (cases "writeCB a")
  case None
  with assms(1) have "hart_same s (raw_write is32 (csr_reg a) w s)" for is32 w by (simp add: write_keeps_def)
  from hart_inv_same [OF this] show ?thesis
    using assms(2) None by (simp add: riscvEmitCSRWrite_def getCSRWriteCB_def Let_def)
next
  case (Some f)
  with assms show ?thesis by (simp add: riscvEmitCSRWrite_def getCSRWriteCB_def write_keeps_def Let_def)
qed

lemma hart_same_riscvEmitCSRRead:
  "read_keeps a \<Longrightarrow> hart_same s (snd (riscvEmitCSRRead V a w s))"
  by (auto simp: riscvEmitCSRRead_def getCSRReadCB_def read_keeps_def case_prod_unfold Let_def split: option.splits)

lemmas hart_inv_writes = hart_inv_status hart_inv_ipW hart_inv_ie hart_inv_misaW hart_inv_midelegW hart_inv_sidelegW
  hart_inv_satpW hart_inv_same [OF hart_same_tvec(1)] hart_inv_same [OF hart_same_tvec(2)]
  hart_inv_same [OF hart_same_tvec(3)] hart_inv_same [OF hart_same_fp(1)] hart_inv_same [OF hart_same_fp(2)]
  hart_inv_same [OF hart_same_fp(3)] hart_inv_same [OF hart_same_counters(1)] hart_inv_same [OF hart_same_counters(2)]
  hart_inv_same [OF hart_same_counters(3)] hart_inv_same [OF hart_same_counters(4)]
  hart_inv_same [OF hart_same_counters(5)] hart_inv_same [OF hart_same_pmp(1)] hart_inv_same [OF hart_same_pmp(2)]

lemma attr_fields [simp]:
  "writeCB (CSR_ATTR_P nm num arch a b c d r rw w) = w" "writeCB (CSR_ATTR_T nm num arch a b c d r rw w reg) = w"
  "writeCB (CSR_ATTR_TV nm num arch a b c d r rw w reg m) = w" "writeCB (CSR_ATTR_NIP nm num arch a b c d) = None"
  "readCB (CSR_ATTR_P nm num arch a b c d r rw w) = r" "readCB (CSR_ATTR_T nm num arch a b c d r rw w reg) = r"
  "readCB (CSR_ATTR_TV nm num arch a b c d r rw w reg m) = r" "readCB (CSR_ATTR_NIP nm num arch a b c d) = None"
  "readWriteCB (CSR_ATTR_P nm num arch a b c d r rw w) = rw" "readWriteCB (CSR_ATTR_T nm num arch a b c d r rw w reg) = rw"
  "readWriteCB (CSR_ATTR_TV nm num arch a b c d r rw w reg m) = rw" "readWriteCB (CSR_ATTR_NIP nm num arch a b c d) = None"
  "csr_reg (CSR_ATTR_P nm num arch a b c d r rw w) = NoReg" "csr_reg (CSR_ATTR_T nm num arch a b c d r rw w reg) = reg"
  "csr_reg (CSR_ATTR_TV nm num arch a b c d r rw w reg m) = reg" "csr_reg (CSR_ATTR_NIP nm num arch a b c d) = NoReg"
  by (simp_all add: CSR_ATTR_P_def CSR_ATTR_T_def CSR_ATTR_TV_def CSR_ATTR_NIP_def)

lemma write_keeps_table:
  "list_all write_keeps csrs_U" "list_all write_keeps csrs_S" "list_all write_keeps csrs_M"
  "list_all write_keeps csrs_PMP" "list_all write_keeps csrs_HPM" "list_all write_keeps csrs_trigger"
  "list_all write_keeps csrs_debug"
  by (simp_all add: csrs_U_def csrs_S_def csrs_M_def csrs_PMP_def csrs_HPM_def csrs_trigger_def csrs_debug_def
      CSR_ATTR_P_NUM_def list_all_iff write_keeps_def hart_inv_writes mipW_def sipW_def uipW_def hart_same_def)

lemma hart_same_reads:
  "hart_same s (snd (fflagsR s))" "hart_same s (snd (frmR s))" "hart_same s (snd (mstatusR s))"
  "hart_same s (snd (sstatusR s))" "hart_same s (snd (ustatusR s))" "hart_same s (snd (mipR s))"
  "hart_same s (snd (mipRW s))" "hart_same s (snd (sipR s))" "hart_same s (snd (sipRW s))"
  "hart_same s (snd (uipR s))" "hart_same s (snd (uipRW s))" "hart_same s (snd (sieR s))" "hart_same s (snd (uieR s))"
  "hart_same s (snd (pmpcfgR V d s))" "hart_same s (snd (pmpaddrR V d s))"
  using hart_same_statusR [of s]
  by (simp_all add: fflagsR_def frmR_def mstatusR_def sstatusR_def ustatusR_def mipR_def mipRW_def sipR_def sipRW_def
      uipR_def uipRW_def sieR_def uieR_def pmpcfgR_def pmpaddrR_def case_prod_unfold Let_def)

lemma hart_same_counter_reads:
  "hart_same s (snd (mcycleR V d s))" "hart_same s (snd (mcyclehR V d s))" "hart_same s (snd (mtimeR V d s))"
  "hart_same s (snd (mtimehR V d s))" "hart_same s (snd (minstretR V d s))" "hart_same s (snd (minstrethR V d s))"
  "hart_same s (snd (mhpmR V d s))"
  by (simp_all add: mcycleR_def mcyclehR_def mtimeR_def mtimehR_def minstretR_def minstrethR_def mhpmR_def
      hart_same_guarded(1))

lemma read_keeps_table:
  "list_all read_keeps csrs_U" "list_all read_keeps csrs_S" "list_all read_keeps csrs_M"
  "list_all read_keeps csrs_PMP" "list_all read_keeps csrs_HPM" "list_all read_keeps csrs_trigger"
  "list_all read_keeps csrs_debug"
  by (simp_all add: csrs_U_def csrs_S_def csrs_M_def csrs_PMP_def csrs_HPM_def csrs_trigger_def csrs_debug_def
      CSR_ATTR_P_NUM_def list_all_iff read_keeps_def hart_same_reads hart_same_fp(4) hart_same_counter_reads)

lemma csrs_member:
  assumes "a \<in> set csrs"
  obtains b i where "a = b\<lparr>csr_id := i\<rparr>" "b \<in> set (csrs_U @ csrs_S @ csrs_M @ csrs_PMP @ csrs_HPM @ csrs_trigger @ csrs_debug)"
  using assms by (auto simp: csrs_def enumerate_eq_zip simp del: set_append dest!: set_zip_rightD)

lemma csrs_keep:
  assumes "a \<in> set csrs"
  shows "write_keeps a" "read_keeps a"
proof -
  obtain b i where b: "a = b\<lparr>csr_id := i\<rparr>"
      "b \<in> set (csrs_U @ csrs_S @ csrs_M @ csrs_PMP @ csrs_HPM @ csrs_trigger @ csrs_debug)"
    using assms by (rule csrs_member)
  have "write_keeps b" "read_keeps b"
    using b(2) write_keeps_table read_keeps_table by (auto simp: list_all_iff)
  then show "write_keeps a" "read_keeps a" by (simp_all add: b(1) write_keeps_def read_keeps_def split: option.splits)
qed

lemma fold_riscvNewCSR: "fold riscvNewCSR as T n = Some a \<Longrightarrow> a \<in> set as \<or> T n = Some a"
  by (induction as arbitrary: T) (fastforce simp: riscvNewCSR_def split: if_splits)+

lemma standard_csrs_mem: "standard_csrs n = Some a \<Longrightarrow> a \<in> set csrs"
  using fold_riscvNewCSR [of csrs Map.empty n a] by (simp add: standard_csrs_def)

section \<open>Traps, returns and signals\<close>

lemma hart_inv_riscvWFI: "hart_inv s \<Longrightarrow> hart_inv (riscvWFI s)"
proof -
  have "static_inv (haltProcessor r s) = static_inv s" for r by (rule static_inv_cong) simp_all
  then show "hart_inv s \<Longrightarrow> hart_inv (riscvWFI s)"
    using wfi_ok_riscvWFI [of s] by (simp add: hart_inv_static) (simp add: riscvWFI_def)
qed

lemma hart_same_notifyERETDerived: "hart_same s (notifyERETDerived m s)" "hart_same s (setPC pc s)" "hart_same s (clearEA s)"
  by (rule hart_sameI; simp add: setPC_def clearEA_def)+

lemma hart_inv_returns:
  assumes "hart_inv s"
  shows "hart_inv (riscvMRET V s)" "hart_inv (riscvSRET V s)" "hart_inv (riscvURET V s)"
  using assms
  by (simp_all add: riscvMRET_def riscvSRET_def riscvURET_def Let_def hart_inv_TestInterrupt
      hart_inv_same [OF hart_same_notifyERETDerived(1)] hart_inv_same [OF hart_same_notifyERETDerived(2)]
      hart_inv_same [OF hart_same_notifyERETDerived(3)] hart_inv_same [OF hart_same_riscvSetMode]
      hart_inv_same [OF hart_same_mstatus])

lemma hart_inv_interruptPortCB: "hart_inv s \<Longrightarrow> interruptPortCB i v s = Some t \<Longrightarrow> hart_inv t"
proof -
  have "hart_same s (s\<lparr>netValue := n\<rparr>)" for n by (rule hart_sameI) simp_all
  from hart_inv_same [OF this] show "hart_inv s \<Longrightarrow> interruptPortCB i v s = Some t \<Longrightarrow> hart_inv t"
    by (auto simp: interruptPortCB_def Let_def hart_inv_riscvUpdatePending split: if_splits)
qed

lemma hart_inv_nmiPortCB: "hart_inv s \<Longrightarrow> hart_inv (nmiPortCB V v s)"
proof -
  have "static_inv (nmiPortCB V v s) = static_inv s"
    by (rule static_inv_cong) (simp_all add: nmiPortCB_def doNMI_def Let_def csr_defs)
  then show "hart_inv s \<Longrightarrow> hart_inv (nmiPortCB V v s)" by (simp add: hart_inv_static wfi_ok_nmiPortCB)
qed

section \<open>Reset\<close>

text \<open>What the invariant says before \<^verbatim>\<open>misa\<close> has been set.\<close>

definition xlen_pre :: "riscv \<Rightarrow> bool" where
  "xlen_pre s \<longleftrightarrow> RISCV_XLEN_IS_64 s = (\<not> RISCV_XLEN_IS_32 s)
     \<and> has (cfg_arch (configInfo s)) ISA_XLEN_32 = RISCV_XLEN_IS_32 s
     \<and> has (cfg_arch (configInfo s)) ISA_XLEN_64 = RISCV_XLEN_IS_64 s
     \<and> rd_view2 (RISCV_XLEN_IS_32 s) isa_MXL (misaM (csrMask s)) = 0"

definition hart_pre :: "riscv \<Rightarrow> bool" where
  "hart_pre s \<longleftrightarrow> wfi_ok s \<and> xlen_pre s \<and> satp_ok s \<and> deleg_ok s"

lemma hart_inv_pre: "hart_inv s \<Longrightarrow> hart_pre s"
  by (simp add: hart_inv_def hart_pre_def xlen_ok_def xlen_pre_def)

lemma toConfiguredArch_xlen: "xlen_pre s \<Longrightarrow> toConfiguredArch s"
  by (auto simp: toConfiguredArch_def xlen_pre_def riscvGetXlenMode_def RISCV_XLEN_IS_32_def RISCV_XLEN_IS_64_def)

lemma arch_MXL:
  fixes a :: uns32
  assumes "has a ISA_XLEN_64 = (\<not> has a ISA_XLEN_32)"
  shows "take_bit 2 (ucast (drop_bit XLEN_SHIFT a) :: uns64) = (if has a ISA_XLEN_32 then 1 else 2)"
proof (rule bit_word_eqI)
  fix n assume "n < LENGTH(64)"
  have "n < 2 \<longleftrightarrow> n = 0 \<or> n = 1" by auto
  then show "bit (take_bit 2 (ucast (drop_bit XLEN_SHIFT a) :: uns64)) n = bit (if has a ISA_XLEN_32 then 1 else 2 :: uns64) n"
    using assms unfolding has_xlen_bits by (auto simp: bit_simps bit_1_iff bit_2_iff)
qed

lemma xlen_ok_reset_misa:
  assumes "xlen_pre s"
  defines "a \<equiv> cfg_arch (configInfo s)"
  shows "xlen_ok (WR_CSR2_FIELD misa_update isa_MXL (ucast (drop_bit XLEN_SHIFT a)) (WR_CSR2_FIELD misa_update isa_Extensions e s))"
    (is "xlen_ok ?t")
proof -
  have a: "has a ISA_XLEN_64 = (\<not> has a ISA_XLEN_32)" "has a ISA_XLEN_32 = RISCV_XLEN_IS_32 s"
    using assms by (auto simp: xlen_pre_def)
  have "RD_CSR2_FIELD ?t misa isa_MXL = take_bit 2 (ucast (drop_bit XLEN_SHIFT a))"
    by (cases "RISCV_XLEN_IS_32 s")
      (simp_all add: csr_defs view_simps getf_setf_same unsigned_take_bit_eq, auto simp: bit_simps intro!: bit_word_eqI)
  with arch_MXL [OF a(1)] a(2) assms show ?thesis by (simp add: xlen_ok_def xlen_pre_def csr_defs)
qed

text \<open>Reset always completes on a hart that satisfies the invariant.\<close>

lemma hart_inv_reset_misa:
  assumes "hart_pre s"
  shows "hart_inv (WR_CSR2_FIELD misa_update isa_MXL (ucast (drop_bit XLEN_SHIFT (cfg_arch (configInfo s))))
    (WR_CSR2_FIELD misa_update isa_Extensions e s))" (is "hart_inv ?t")
proof -
  have "xlen_ok ?t" using assms by (intro xlen_ok_reset_misa) (simp add: hart_pre_def)
  moreover have "wfi_ok ?t" "satp_ok ?t" "deleg_ok ?t"
    using assms by (simp_all add: hart_pre_def wfi_ok_def getPendingInterrupts_def satp_ok_def deleg_ok_def csr_defs)
  ultimately show ?thesis by (simp add: hart_inv_def)
qed

lemma hart_same_mcause: "hart_same s (WR_CSR2_FIELD mcause_update f v s)" "hart_same s (s\<lparr>exclusiveTag := x\<rparr>)"
  "hart_same s (s\<lparr>riscv_exception := e\<rparr>)"
  by (rule hart_sameI; simp add: csr_defs)+

lemma hart_inv_riscvCSRReset:
  assumes "hart_pre s"
  shows "\<exists>t. riscvCSRReset s = Some t \<and> hart_inv t"
proof -
  have "toConfiguredArch s" using assms by (simp add: hart_pre_def toConfiguredArch_xlen)
  then show ?thesis
    using hart_inv_reset_misa [OF assms]
    by (auto simp: riscvCSRReset_def Let_def hart_inv_same [OF hart_same_mcause(1)] hart_inv_same [OF hart_same_mcause(2)]
        hart_inv_same [OF hart_same_pmp(3)] hart_inv_same [OF hart_same_mstatus] intro!: hart_inv_riscvSetCurrentArch)
qed

lemma hart_inv_reset_start:
  assumes "hart_inv s"
  shows "hart_inv (riscvSetMode V RISCV_MODE_MACHINE (restartProcessor RVD_RESTART_RESET s))"
proof -
  let ?r = "restartProcessor RVD_RESTART_RESET s"
  have "static_inv ?r = static_inv s" by (rule static_inv_cong) simp_all
  then have "hart_inv ?r" using assms wfi_ok_restart(2) [of s] by (simp add: hart_inv_static)
  then show ?thesis by (simp add: hart_inv_same [OF hart_same_riscvSetMode])
qed

lemma hart_inv_riscvReset:
  assumes "hart_inv s"
  shows "\<exists>t. riscvReset V s = Some t \<and> hart_inv t"
proof -
  let ?r = "restartProcessor RVD_RESTART_RESET s"
  from hart_inv_riscvCSRReset [OF hart_inv_pre [OF hart_inv_reset_start [OF assms]]] obtain t where
    t: "riscvCSRReset (riscvSetMode V RISCV_MODE_MACHINE ?r) = Some t" "hart_inv t" by blast
  then show ?thesis
    by (auto simp: riscvReset_def Let_def hart_inv_same [OF hart_same_do_call] hart_inv_same [OF hart_same_mcause(3)])
qed

lemma hart_inv_resetPortCB:
  assumes "hart_inv s"
  shows "\<exists>t. resetPortCB V v s = Some t \<and> hart_inv t"
proof -
  have net: "hart_same t (t\<lparr>netValue := n\<rparr>)" for t n by (rule hart_sameI) simp_all
  have "static_inv (haltProcessor RVD_RESET s) = static_inv s" by (rule static_inv_cong) simp_all
  moreover have "wfi_ok (haltProcessor RVD_RESET s)"
    using assms getPendingInterrupts_cong [of "haltProcessor RVD_RESET s" s]
    by (simp add: hart_inv_def wfi_ok_def bit_simps)
  ultimately have "hart_inv (haltProcessor RVD_RESET s)" using assms by (simp add: hart_inv_static)
  then show ?thesis
    using assms hart_inv_riscvReset [OF assms, of V] by (auto simp: resetPortCB_def Let_def hart_inv_same [OF net])
qed

section \<open>Memory accesses and fences\<close>

lemma hart_same_tlb_frame: "tlb_frame s t \<Longrightarrow> hart_same s t"
  by (rule hart_sameI) (simp_all add: tlb_frame_def walk_frame_def)

lemma hart_same_miss_outcome: "miss_outcome V art req miss s t \<Longrightarrow> hart_same s t"
  by (auto simp: miss_outcome_def faults_def intro: hart_same_tlb_frame hart_same_trans [OF hart_same_tlb_frame]
      split: if_splits)

lemma hart_same_riscvVMMiss:
  "riscvVMMiss V domain req address bytes art s = Some (miss, t) \<Longrightarrow> \<not> PTWActive s \<Longrightarrow> hart_same s t"
  by (rule hart_same_miss_outcome [OF riscvVMMiss_outcome])

lemma hart_same_access:
  "riscvRdPrivExcept V domain a n art s = Some (ok, t) \<Longrightarrow> \<not> PTWActive s \<Longrightarrow> hart_same s t"
  "riscvWrPrivExcept V domain a n art s = Some (ok, t) \<Longrightarrow> \<not> PTWActive s \<Longrightarrow> hart_same s t"
  by (auto simp: riscvRdPrivExcept_def riscvWrPrivExcept_def split: option.splits intro: hart_same_riscvVMMiss)

lemma validateFetchAddressInt_hart:
  assumes "validateFetchAddressInt V domain a complete s = Some (ok, t)" and "\<not> PTWActive s"
  shows "hart_same s t" "ok \<Longrightarrow> \<not> PTWActive t"
proof -
  consider "t = s" | miss u where "riscvVMMiss V domain MEM_PRIV_X a 2 (\<not> complete) s = Some (miss, u)"
      "if miss then t = u \<and> \<not> ok else ok \<and> t = u \<or> \<not> ok \<and> (t = u \<or> t = riscvTakeException V riscv_E_InstructionAccessFault a u)"
    using assms(1) by (auto simp: validateFetchAddressInt_def split: if_splits option.splits)
  then have "hart_same s t \<and> (ok \<longrightarrow> \<not> PTWActive t)"
  proof cases
    case 2
    note m = riscvVMMiss_outcome [OF 2(1) assms(2)]
    then have "\<not> miss \<Longrightarrow> PTWActive u = PTWActive s" by (simp add: miss_outcome_def tlb_frame_sat(3))
    then show ?thesis
      using 2(2) hart_same_miss_outcome [OF m] hart_same_trans [of s u t] hart_same_riscvTakeException assms(2)
      by (auto split: if_splits)
  qed (use assms(2) in simp)
  then show "hart_same s t" "ok \<Longrightarrow> \<not> PTWActive t" by simp_all
qed

lemma hart_same_riscvIFetchExcept:
  assumes "riscvIFetchExcept V domain a complete s = Some (act, t)" and "\<not> PTWActive s"
  shows "hart_same s t"
proof (cases "getPendingAndEnabledInterrupts s = 0")
  case True
  then obtain v where v: "validateFetchAddress V domain a complete s = Some (v, t)"
    using assms(1) by (auto simp: riscvIFetchExcept_def Let_def)
  then obtain ok u where u: "validateFetchAddressInt V domain a complete s = Some (ok, u)"
    by (auto simp: validateFetchAddress_def split: option.splits)
  have "t = u \<or> ok \<and> validateFetchAddressInt V domain (a + 2) complete u = Some (v, t)"
    using v u by (simp add: validateFetchAddress_def split: if_splits)
  then show ?thesis
    using validateFetchAddressInt_hart [OF u assms(2)] validateFetchAddressInt_hart(1) [of V domain "a + 2" complete u v t]
    by (auto intro: hart_same_trans)
next
  case False
  then show ?thesis using assms(1) by (auto simp: riscvIFetchExcept_def doInterrupt_def Let_def split: if_splits)
qed

lemma hart_same_fence: "hart_same s (invalidateTLBEntriesRange V lo hi mm ASID s)"
  unfolding invalidateTLBEntriesRange_def by (rule hart_same_tlb_frame [OF invalidate_fold(1)])

section \<open>Initialization\<close>

text \<open>The processor structure when \<^verbatim>\<open>riscvConstructor\<close> calls \<^verbatim>\<open>riscvCSRInit\<close>: zeroed registers and masks, one
  XLEN in the configuration and the same in \<^verbatim>\<open>currentArch\<close>, an XLEN that is not writable, and bare
  translation among the modes.\<close>

definition boot_ok :: "riscv \<Rightarrow> bool" where
  "boot_ok s \<longleftrightarrow> csr s = riscvCSRs_zero \<and> csrMask s = riscvCSRMasks_zero \<and> riscv_disable s = 0
     \<and> RISCV_XLEN_IS_64 s = (\<not> RISCV_XLEN_IS_32 s)
     \<and> has (cfg_arch (configInfo s)) ISA_XLEN_32 = RISCV_XLEN_IS_32 s
     \<and> has (cfg_arch (configInfo s)) ISA_XLEN_64 = RISCV_XLEN_IS_64 s
     \<and> drop_bit XLEN_SHIFT (cfg_archMask (configInfo s)) = 0 \<and> bit (Sv_modes (configInfo s)) 0"

lemma view2_zero [simp]: "rd_view2 b f csr_32_64_zero = 0" "rd_view b f 0 = 0"
  by (cases f; simp add: view_simps csr_32_64_zero_def getf_def)+

lemma hart_pre_boot:
  assumes "boot_ok s"
  shows "hart_pre (s\<lparr>configInfo := (configInfo s)\<lparr>cfg_mstatus := m\<rparr>\<rparr>)"
  using assms
  by (simp add: boot_ok_def hart_pre_def wfi_ok_def xlen_pre_def satp_ok_def deleg_ok_def csr_defs riscvCSRs_zero_def
      riscvCSRMasks_zero_def RISCV_XLEN_IS_32_def RISCV_XLEN_IS_64_def)

lemma riscvVMResetPMP_keeps [simp]:
  "csr (riscvVMResetPMP s) = csr s" "configInfo (riscvVMResetPMP s) = configInfo s"
  "interruptMask (riscvVMResetPMP s) = interruptMask s" "exceptionMask (riscvVMResetPMP s) = exceptionMask s"
  "riscv_mode (riscvVMResetPMP s) = riscv_mode s" "currentArch (riscvVMResetPMP s) = currentArch s"
proof -
  have "csr (resetPMPEntry i s) = csr s" "interruptMask (resetPMPEntry i s) = interruptMask s"
    "exceptionMask (resetPMPEntry i s) = exceptionMask s" "riscv_mode (resetPMPEntry i s) = riscv_mode s"
    "currentArch (resetPMPEntry i s) = currentArch s" for i s
    by (simp_all add: resetPMPEntry_def invalidatePMPEntry_def setPMPPriv_def Let_def split: prod.split)
  then have "csr (fold resetPMPEntry is s) = csr s \<and> configInfo (fold resetPMPEntry is s) = configInfo s
      \<and> interruptMask (fold resetPMPEntry is s) = interruptMask s \<and> exceptionMask (fold resetPMPEntry is s) = exceptionMask s
      \<and> riscv_mode (fold resetPMPEntry is s) = riscv_mode s \<and> currentArch (fold resetPMPEntry is s) = currentArch s" for "is"
    by (induction "is" arbitrary: s) simp_all
  then show "csr (riscvVMResetPMP s) = csr s" "configInfo (riscvVMResetPMP s) = configInfo s"
    "interruptMask (riscvVMResetPMP s) = interruptMask s" "exceptionMask (riscvVMResetPMP s) = exceptionMask s"
    "riscv_mode (riscvVMResetPMP s) = riscv_mode s" "currentArch (riscvVMResetPMP s) = currentArch s"
    by (simp_all add: riscvVMResetPMP_def)
qed

lemma riscv_disable_riscvVMResetPMP [simp]: "riscv_disable (riscvVMResetPMP s) = riscv_disable s"
  using hart_same_pmp(3) [of s] by (simp add: hart_same_def)

lemma riscvSetCurrentArch_keeps [simp]:
  "csr (riscvSetCurrentArch s) = csr s" "configInfo (riscvSetCurrentArch s) = configInfo s"
  "interruptMask (riscvSetCurrentArch s) = interruptMask s" "exceptionMask (riscvSetCurrentArch s) = exceptionMask s"
  "riscv_mode (riscvSetCurrentArch s) = riscv_mode s" "riscv_disable (riscvSetCurrentArch s) = riscv_disable s"
  by (simp_all add: riscvSetCurrentArch_def Let_def)

lemma riscvCSRReset_keeps:
  assumes "riscvCSRReset s = Some t"
  shows "mideleg (csr t) = mideleg (csr s)" "configInfo t = configInfo s" "interruptMask t = interruptMask s"
    "exceptionMask t = exceptionMask s"
proof -
  have t: "t = (riscvVMResetPMP (riscvSetCurrentArch (WR_CSR2 mcause_update 0 (WR_CSR mstatus_update
      (cfg_mstatus (configInfo s)) (WR_CSR2_FIELD misa_update isa_MXL (ucast (drop_bit XLEN_SHIFT (cfg_arch (configInfo s))))
        (WR_CSR2_FIELD misa_update isa_Extensions (ucast (cfg_arch (configInfo s))) s))))))\<lparr>exclusiveTag := RISCV_NO_TAG\<rparr>"
    using assms by (simp add: riscvCSRReset_def Let_def split: if_splits)
  show "mideleg (csr t) = mideleg (csr s)" "configInfo t = configInfo s" "interruptMask t = interruptMask s"
    "exceptionMask t = exceptionMask s"
    unfolding t by (simp_all add: WR_CSR_FIELD_def WR_CSR2_FIELD_def)
qed

lemma csr_masks_ok:
  assumes "xlen_ok s" "mideleg (csr s) = 0" "drop_bit XLEN_SHIFT (cfg_archMask (configInfo s)) = 0"
  shows "xlen_ok (s\<lparr>csrMask := csr_masks s\<rparr>)" "deleg_ok (s\<lparr>csrMask := csr_masks s\<rparr>)"
proof -
  let ?t = "s\<lparr>csrMask := csr_masks s\<rparr>"
  have "rd_view2 b isa_MXL (misaM (csr_masks s)) = 0" for b
    using assms(3) by (cases b) (simp_all add: csr_masks_def Let_def view_simps getf_setf_same getf_setf_other)
  then show "xlen_ok ?t" using assms(1) by (simp add: xlen_ok_def csr_defs RISCV_XLEN_IS_32_def RISCV_XLEN_IS_64_def)
  have "(x AND NOT (a OR b OR c OR l)) AND (a OR b OR c) = 0" for x a b c l :: uns64
    by (rule bit_word_eqI) (auto simp: bit_simps)
  moreover have "machine_interrupts = getInterruptMask riscv_E_MSWInterrupt OR getInterruptMask riscv_E_MTimerInterrupt
      OR getInterruptMask riscv_E_MExternalInterrupt" by code_simp
  ultimately have "sInterrupts s AND machine_interrupts = 0" unfolding sInterrupts_def by metis
  then show "deleg_ok ?t" using assms(2) by (simp add: deleg_ok_def csr_defs csr_masks_def Let_def)
qed

lemma hart_same_ids:
  "hart_same s (WR_CSR mvendorid_update v s)" "hart_same s (WR_CSR marchid_update v s)"
  "hart_same s (WR_CSR mimpid_update v s)" "hart_same s (WR_CSR mhartid_update v s)"
  "hart_same s (WR_CSR sideleg_update v s)" "hart_same s (WR_CSR sedeleg_update v s)"
  "hart_same s (WR_CSR mtvec_update v s)" "hart_same s (WR_CSR scounteren_update v s)"
  by (rule hart_sameI; simp add: WR_CSR_FIELD_def)+

lemma hart_inv_riscvCSRInit:
  assumes "boot_ok s"
  shows "\<exists>t. riscvCSRInit index s = Some t \<and> hart_inv t"
proof -
  obtain r where r: "riscvCSRInitialReset s = Some r" "hart_inv r"
    using hart_inv_riscvCSRReset [OF hart_pre_boot [OF assms]] by (auto simp: riscvCSRInitialReset_def)
  note keeps = riscvCSRReset_keeps [OF r(1) [unfolded riscvCSRInitialReset_def]]
  let ?cfg = "configInfo r"
  let ?u = "WR_CSR mhartid_update (cfg_mhartid ?cfg + ucast index) (WR_CSR mimpid_update (cfg_mimpid ?cfg)
    (WR_CSR marchid_update (cfg_marchid ?cfg) (WR_CSR mvendorid_update (cfg_mvendorid ?cfg) r)))"
  let ?v = "?u\<lparr>csrMask := csr_masks ?u\<rparr>"
  have u: "hart_inv ?u" using r(2) by (simp add: hart_inv_same [OF hart_same_ids(1)] hart_inv_same [OF hart_same_ids(2)]
        hart_inv_same [OF hart_same_ids(3)] hart_inv_same [OF hart_same_ids(4)])
  have "mideleg (csr ?u) = 0" "drop_bit XLEN_SHIFT (cfg_archMask (configInfo ?u)) = 0"
    using keeps(1,2) assms by (simp_all add: boot_ok_def WR_CSR_FIELD_def riscvCSRs_zero_def)
  with u have "xlen_ok ?v" "deleg_ok ?v" by (simp_all add: hart_inv_def csr_masks_ok)
  moreover have "wfi_ok ?v" "satp_ok ?v"
    using u by (simp_all add: hart_inv_def wfi_ok_def getPendingInterrupts_def satp_ok_def RD_CSR_FIELD_def RD_CSR2_FIELD_def
        RISCV_XLEN_IS_32_def)
  ultimately have "hart_inv ?v" by (simp add: hart_inv_def)
  then show ?thesis
    by (simp add: riscvCSRInit_def r(1) Let_def hart_inv_same [OF hart_same_ids(5)] hart_inv_same [OF hart_same_ids(6)]
        hart_inv_same [OF hart_same_ids(7)] hart_inv_same [OF hart_same_ids(8)])
qed

section \<open>The hart as a state machine\<close>

text \<open>What can happen to a hart: instructions that access registers, return from a trap, wait, or fence;
  exceptions and interrupts; loads, stores and fetches that the kernel hands to the model; changes of the
  net ports. Accesses come from outside a page table walk.\<close>

inductive hart_step :: "vmirt \<Rightarrow> riscv \<Rightarrow> riscv \<Rightarrow> bool" for V where
  csr_read: "riscvValidateCSRAccess standard_csrs num True w s = Inr a \<Longrightarrow> hart_step V s (snd (riscvEmitCSRRead V a w s))"
| csr_write: "riscvValidateCSRAccess standard_csrs num r True s = Inr a \<Longrightarrow> hart_step V s (riscvEmitCSRWrite V a v s)"
| exception: "hart_step V s (riscvTakeException V e tval s)"
| mret: "hart_step V s (riscvMRET V s)"
| sret: "hart_step V s (riscvSRET V s)"
| uret: "hart_step V s (riscvURET V s)"
| wfi: "hart_step V s (riscvWFI s)"
| fence: "hart_step V s (riscvVMInvalidateAll V s)"
| fence_asid: "hart_step V s (riscvVMInvalidateAllASID V ASID s)"
| fence_va: "hart_step V s (riscvVMInvalidateVA V VA s)"
| fence_va_asid: "hart_step V s (riscvVMInvalidateVAASID V VA ASID s)"
| load: "riscvRdPrivExcept V domain a n art s = Some (ok, t) \<Longrightarrow> \<not> PTWActive s \<Longrightarrow> hart_step V s t"
| store: "riscvWrPrivExcept V domain a n art s = Some (ok, t) \<Longrightarrow> \<not> PTWActive s \<Longrightarrow> hart_step V s t"
| fetch: "riscvIFetchExcept V domain a complete s = Some (act, t) \<Longrightarrow> \<not> PTWActive s \<Longrightarrow> hart_step V s t"
| interrupt_port: "interruptPortCB i v s = Some t \<Longrightarrow> hart_step V s t"
| nmi_port: "hart_step V s (nmiPortCB V v s)"
| reset_port: "resetPortCB V v s = Some t \<Longrightarrow> hart_step V s t"

inductive_cases hart_stepE: "hart_step V s t"

lemma validated_mem: "riscvValidateCSRAccess standard_csrs num r w s = Inr a \<Longrightarrow> a \<in> set csrs"
  by (auto simp: riscvValidateCSRAccess_def getCSRAttrs_def Let_def split: option.splits if_splits intro: standard_csrs_mem)

lemma hart_step_inv: "hart_step V s t \<Longrightarrow> hart_inv s \<Longrightarrow> hart_inv t"
proof (induction rule: hart_step.induct)
  case (csr_read num w s a)
  then show ?case using hart_inv_same [OF hart_same_riscvEmitCSRRead [OF csrs_keep(2) [OF validated_mem]]] by blast
next
  case (csr_write num r s a v)
  then show ?case by (intro hart_inv_riscvEmitCSRWrite csrs_keep(1) [OF validated_mem])
next
  case (exception s e tval)
  then show ?case by (simp add: hart_inv_same [OF hart_same_riscvTakeException])
next
  case (reset_port v s t)
  then show ?case using hart_inv_resetPortCB [of s V v] by auto
next
  case (load domain a n art s ok t)
  then show ?case using hart_inv_same [OF hart_same_access(1)] by blast
next
  case (store domain a n art s ok t)
  then show ?case using hart_inv_same [OF hart_same_access(2)] by blast
next
  case (fetch domain a complete s act t)
  then show ?case using hart_inv_same [OF hart_same_riscvIFetchExcept] by blast
next
  case (interrupt_port i v s t)
  then show ?case using hart_inv_interruptPortCB by blast
qed (simp_all add: hart_inv_returns hart_inv_riscvWFI hart_inv_nmiPortCB riscvVMInvalidateAll_def
    riscvVMInvalidateAllASID_def riscvVMInvalidateVA_def riscvVMInvalidateVAASID_def hart_inv_same [OF hart_same_fence])

lemma hart_steps_inv: "(hart_step V)\<^sup>*\<^sup>* s t \<Longrightarrow> hart_inv s \<Longrightarrow> hart_inv t"
  by (induction rule: rtranclp_induct) (auto intro: hart_step_inv)

lemma hart_reachable_inv:
  assumes "boot_ok s" and "riscvCSRInit index s = Some t" and "(hart_step V)\<^sup>*\<^sup>* t u"
  shows "hart_inv u"
  using hart_steps_inv [OF assms(3)] hart_inv_riscvCSRInit [OF assms(1), of index] assms(2) by simp

section \<open>Facts on reachable states\<close>

text \<open>A hart with Supervisor and User mode before its registers are set up.\<close>

definition boot_example :: riscv where
  "boot_example = (riscv_zero (riscvConfig_zero\<lparr>cfg_arch := ISA_XLEN_64 OR ISA_S OR ISA_U, Sv_modes := 0x101\<rparr>))\<lparr>
     currentArch := ISA_XLEN_64, interruptMask := 0xAAA\<rparr>"

lemma boot_example_ok: "boot_ok boot_example"
  by (simp add: boot_ok_def boot_example_def riscv_zero_def RISCV_XLEN_IS_32_def RISCV_XLEN_IS_64_def riscvConfig_zero_def has_def)

lemma trap_mode_machine_interrupt:
  assumes "hart_inv s" and "e \<in> {riscv_E_MSWInterrupt, riscv_E_MTimerInterrupt, riscv_E_MExternalInterrupt}"
  shows "trap_mode s e = RISCV_MODE_MACHINE"
proof -
  obtain i where i: "e = riscv_E_Interrupt + i" "i \<in> {3, 7, 11}" using assms(2) by auto
  have "\<not> bit (midelegM (csrMask s)) i"
  proof
    assume "bit (midelegM (csrMask s)) i"
    moreover have "bit machine_interrupts i" using i(2) by (auto simp: machine_interrupts_def bit_iff_odd)
    ultimately have "bit (midelegM (csrMask s) AND machine_interrupts) i" by (simp add: bit_simps)
    then show False using assms(1) by (simp add: hart_inv_def deleg_ok_def)
  qed
  then have "\<not> bit (RD_CSR_MASK s midelegM) i" by (cases "RISCV_XLEN_IS_32 s") (auto simp: csr_defs view_simps bit_simps)
  then have "\<not> bit (RD_CSR s mideleg) i" using assms(1) by (auto simp: hart_inv_def deleg_ok_bits)
  then have "int_mode s i = RISCV_MODE_MACHINE" by (simp add: int_mode_def delegated_mode_def)
  then show ?thesis using trap_mode_interrupt [of i s] i by (cases "getCurrentMode s") (auto simp: max_def less_eq_riscvMode_def)
qed


lemma riscvVMResetPMP_clears:
  "i < PMP_registers (configInfo s) \<Longrightarrow> pmpcfg (riscvVMResetPMP s) i = 0 \<and> pmpaddr (riscvVMResetPMP s) i = 0"
proof -
  have "(i \<in> set is \<or> pmpcfg s i = 0 \<and> pmpaddr s i = 0) \<Longrightarrow>
      pmpcfg (fold resetPMPEntry is s) i = 0 \<and> pmpaddr (fold resetPMPEntry is s) i = 0" for "is"
    by (induction "is" arbitrary: s) auto
  then show "i < PMP_registers (configInfo s) \<Longrightarrow> ?thesis" by (simp add: riscvVMResetPMP_def)
qed

lemma riscvReset_state:
  assumes "hart_inv s"
  shows "\<exists>r. riscvReset V s = Some r \<and> getCurrentMode r = RISCV_MODE_MACHINE
    \<and> last_pc r = Some (reset_address (configInfo s)) \<and> riscv_exception r = 0 \<and> exclusiveTag r = RISCV_NO_TAG
    \<and> \<not> bit (riscv_disable r) 0 \<and> RD_CSR2 r mcause = 0
    \<and> RD_CSR r mstatus = (if RISCV_XLEN_IS_32 s then take_bit 32 (cfg_mstatus (configInfo s)) else cfg_mstatus (configInfo s))
    \<and> (\<forall>i < PMP_registers (configInfo s). pmpcfg r i = 0 \<and> pmpaddr r i = 0)"
proof -
  let ?a = "riscvSetMode V RISCV_MODE_MACHINE (restartProcessor RVD_RESTART_RESET s)"
  have inv: "hart_inv ?a" by (rule hart_inv_reset_start [OF assms])
  let ?b = "WR_CSR2 mcause_update 0 (WR_CSR mstatus_update (cfg_mstatus (configInfo s))
      (WR_CSR2_FIELD misa_update isa_MXL (ucast (drop_bit XLEN_SHIFT (cfg_arch (configInfo s))))
        (WR_CSR2_FIELD misa_update isa_Extensions (ucast (cfg_arch (configInfo s))) ?a)))"
  let ?c = "(riscvVMResetPMP (riscvSetCurrentArch ?b))\<lparr>exclusiveTag := RISCV_NO_TAG\<rparr>"
  have reset: "riscvCSRReset ?a = Some ?c"
    using toConfiguredArch_xlen inv hart_inv_pre by (simp add: riscvCSRReset_def Let_def hart_pre_def)
  have "hart_inv ?b"
    using hart_inv_reset_misa [OF hart_inv_pre [OF inv]]
    by (simp add: hart_inv_same [OF hart_same_mcause(1)] hart_inv_same [OF hart_same_mstatus])
  then have "hart_same ?b (riscvSetCurrentArch ?b)" by (simp add: hart_same_riscvSetCurrentArch hart_inv_def)
  then have xlen: "RISCV_XLEN_IS_32 ?c = RISCV_XLEN_IS_32 s"
    using hart_same_pmp(3) [of "riscvSetCurrentArch ?b"]
    by (simp add: hart_same_def RISCV_XLEN_IS_32_def)
  define c where "c = ?c"
  have c: "csr c = csr ?b" "configInfo c = configInfo s" "riscv_mode c = riscv_mode ?a" "riscv_disable c = riscv_disable ?a"
    "exclusiveTag c = RISCV_NO_TAG" "RISCV_XLEN_IS_32 c = RISCV_XLEN_IS_32 s"
    using xlen by (simp_all add: c_def)
  have pmp: "\<forall>i < PMP_registers (configInfo s). pmpcfg c i = 0 \<and> pmpaddr c i = 0"
    using riscvVMResetPMP_clears [of _ "riscvSetCurrentArch ?b"] by (simp add: c_def)
  let ?d = "do_call (VmirtSetPCException (reset_address (configInfo s)))
    ((if cb_resetNotifier c then do_call ResetNotifier c else c)\<lparr>riscv_exception := 0\<rparr>)"
  have ret: "riscvReset V s = Some ?d" using reset c(2) by (simp add: riscvReset_def Let_def c_def)
  have mode: "getCurrentMode ?d = RISCV_MODE_MACHINE" using c(3) by (simp add: getCurrentMode_def)
  have "RISCV_XLEN_IS_32 ?d = RISCV_XLEN_IS_32 s" "csr ?d = csr c"
    using c(6) by (simp_all add: RISCV_XLEN_IS_32_def)
  moreover have "mcause (csr c) = wr_view2 (RISCV_XLEN_IS_32 s) csr_bits 0 (mcause (csr s))"
      "mstatus (csr c) = wr_view (RISCV_XLEN_IS_32 s) csr_bits (cfg_mstatus (configInfo s)) (mstatus (csr s))"
    using xlen_arch(1) [of ?a s] by (simp_all add: c(1) WR_CSR_FIELD_def WR_CSR2_FIELD_def)
  ultimately have "RD_CSR2 ?d mcause = 0" "RD_CSR ?d mstatus =
      (if RISCV_XLEN_IS_32 s then take_bit 32 (cfg_mstatus (configInfo s)) else cfg_mstatus (configInfo s))"
    by (simp_all add: RD_CSR_FIELD_def RD_CSR2_FIELD_def rd_view2_write field_trunc.simps take_bit_word_eq_self)
  note regs = this
  have "\<not> bit (riscv_disable ?d) 0" by (simp add: c(4) bit_simps)
  with ret mode regs pmp c(5) show ?thesis by auto
qed

end
