(* ===== verification/RiscvCSRFacts.thy ===== *)
theory RiscvCSRFacts
  imports RiscvHart
begin

text \<open>
  The register interface (\<^verbatim>\<open>riscvCSR.c\<close>): which accesses are allowed, and what a read returns after a write
  of plain registers, of the status registers, of \<^verbatim>\<open>satp\<close> and of the floating point registers.
\<close>

section \<open>The register table\<close>

lemma attr_num [simp]:
  "csrNum (CSR_ATTR_P nm num arch a b c d r rw w) = num" "csrNum (CSR_ATTR_T nm num arch a b c d r rw w reg) = num"
  "csrNum (CSR_ATTR_TV nm num arch a b c d r rw w reg m) = num" "csrNum (CSR_ATTR_NIP nm num arch a b c d) = num"
  by (simp_all add: CSR_ATTR_P_def CSR_ATTR_T_def CSR_ATTR_TV_def CSR_ATTR_NIP_def)

lemma csr_nums_groups:
  "map csrNum csrs_U = [0..<6] @ [0x40..<0x45] @ [0xC00..<0xC20] @ [0xC80..<0xCA0]"
  "map csrNum csrs_S = [0x100] @ [0x102..<0x107] @ [0x140..<0x145] @ [0x180]"
  "map csrNum csrs_M = [0xF11..<0xF15] @ [0x300..<0x307] @ [0x340..<0x345]"
  "map csrNum csrs_PMP = [0x3A0..<0x3A4] @ [0x3B0..<0x3C0]"
  "map csrNum csrs_HPM = [0xB00] @ [0xB02..<0xB20] @ [0xB80] @ [0xB82..<0xBA0] @ [0x323..<0x340]"
  "map csrNum csrs_trigger = [0x7A0..<0x7A4]" "map csrNum csrs_debug = [0x7B0..<0x7B3]"
  by (simp_all add: csrs_U_def csrs_S_def csrs_M_def csrs_PMP_def csrs_HPM_def csrs_trigger_def csrs_debug_def
    CSR_ATTR_P_NUM_def comp_def upt_rec_numeral upt_rec [of 0] upt_rec [of "Suc 0"] numeral_2_eq_2 [symmetric])

lemma csr_nums: "map csrNum csrs = map csrNum (csrs_U @ csrs_S @ csrs_M @ csrs_PMP @ csrs_HPM @ csrs_trigger @ csrs_debug)"
proof -
  have "map csrNum (map (\<lambda>(i, a). a\<lparr>csr_id := i\<rparr>) (enumerate n xs)) = map csrNum xs" for n xs
    by (induction xs arbitrary: n) simp_all
  from this [of 0] show ?thesis unfolding csrs_def .
qed

lemma csr_nums_distinct: "distinct (map csrNum csrs)"
  unfolding csr_nums map_append csr_nums_groups by auto

lemma getCSRAttrs_standard: "getCSRAttrs standard_csrs n = Some a \<longleftrightarrow> a \<in> set csrs \<and> csrNum a = n"
proof -
  have "fold riscvNewCSR as T n = Some a \<longleftrightarrow> a \<in> set as \<and> csrNum a = n \<or> (\<forall>b \<in> set as. csrNum b \<noteq> n) \<and> T n = Some a"
    if "distinct (map csrNum as)" for as T n a
    using that by (induction as arbitrary: T) (auto simp: riscvNewCSR_def image_iff)
  from this [OF csr_nums_distinct, of Map.empty] show ?thesis by (simp add: getCSRAttrs_def standard_csrs_def)
qed

text \<open>The features that a register needs: all of the listed ones if \<^verbatim>\<open>ISA_and\<close> is set, else one of them.\<close>

definition features_ok :: "riscvArchitecture \<Rightarrow> riscvArchitecture \<Rightarrow> bool" where
  "features_ok req arch \<longleftrightarrow>
     (let need = req AND NOT ISA_and
      in if has req ISA_and then \<forall>n. bit need n \<longrightarrow> bit arch n else need = 0 \<or> (\<exists>n. bit need n \<and> bit arch n))"

lemma features_ok_iff: "getMissingCSRFeatures req arch True = 0 \<longleftrightarrow> features_ok req arch"
proof -
  have "x AND NOT y = 0 \<longleftrightarrow> (\<forall>n. bit x n \<longrightarrow> bit y n)" "has x y \<longleftrightarrow> (\<exists>n. bit y n \<and> bit x n)" for x y :: uns32
    using bit_imp_le_length [of x] bit_imp_le_length [of y]
    by (auto simp: has_def bit_eq_iff [of "x AND NOT y"] bit_eq_iff [of "x AND y"] bit_simps)
  then show ?thesis by (auto simp: getMissingCSRFeatures_def features_ok_def Let_def)
qed

text \<open>C27. A register access is allowed exactly when the register number is in the table, the features it needs
  are present in the current architecture, the current mode is at least the one that bits 9:8 of the
  number give and, for a write, bits 11:10 are not both set. The entry found is the one entry of the
  table with that number.\<close>

theorem riscvValidateCSRAccess_iff:
  "riscvValidateCSRAccess standard_csrs num read write s = Inr a \<longleftrightarrow>
     a \<in> set csrs \<and> csrNum a = num \<and> features_ok (csr_arch a) (currentArch s)
     \<and> mode_of (num div 256 mod 4) \<le> getCurrentMode s \<and> \<not> (write \<and> num div 1024 mod 4 = 3)"
proof (cases "getCSRAttrs standard_csrs num")
  case None
  then have "\<not> (a \<in> set csrs \<and> csrNum a = num)" using getCSRAttrs_standard [of num a] by simp
  then show ?thesis by (auto simp: riscvValidateCSRAccess_def None)
next
  case (Some b)
  then have b: "b \<in> set csrs" "csrNum b = num" by (simp_all add: getCSRAttrs_standard)
  have "a = b" if "a \<in> set csrs" "csrNum a = num"
    using that getCSRAttrs_standard [of num a] Some by simp
  then show ?thesis
    using b by (auto simp: riscvValidateCSRAccess_def Some Let_def features_ok_iff getAccess_W_def csr_access_field_def
        csr_mode_field_def csrDesc.truncate_def not_less)
qed

section \<open>Plain registers\<close>

text \<open>The storage of a table entry is a member of the structure: reading it after an update gives the update.\<close>

fun reg_ok :: "csrReg \<Rightarrow> bool" where
  "reg_ok NoReg = True"
| "reg_ok (Reg get upd) \<longleftrightarrow> (\<forall>f c. get (upd f c) = f (get c))"
| "reg_ok (Reg2 get upd) \<longleftrightarrow> (\<forall>f c. get (upd f c) = f (get c))"

lemma reg_ok_table:
  "list_all (\<lambda>a. reg_ok (csr_reg a)) csrs_U" "list_all (\<lambda>a. reg_ok (csr_reg a)) csrs_S"
  "list_all (\<lambda>a. reg_ok (csr_reg a)) csrs_M" "list_all (\<lambda>a. reg_ok (csr_reg a)) csrs_PMP"
  "list_all (\<lambda>a. reg_ok (csr_reg a)) csrs_HPM" "list_all (\<lambda>a. reg_ok (csr_reg a)) csrs_trigger"
  "list_all (\<lambda>a. reg_ok (csr_reg a)) csrs_debug"
  by (simp_all add: csrs_U_def csrs_S_def csrs_M_def csrs_PMP_def csrs_HPM_def csrs_trigger_def csrs_debug_def
      CSR_ATTR_P_NUM_def list_all_iff)

lemma csrs_intro:
  assumes "b \<in> set (csrs_U @ csrs_S @ csrs_M @ csrs_PMP @ csrs_HPM @ csrs_trigger @ csrs_debug)" (is "b \<in> set ?xs")
  shows "\<exists>i. b\<lparr>csr_id := i\<rparr> \<in> set csrs"
proof -
  obtain i where "i < length ?xs" "?xs ! i = b" using assms by (metis in_set_conv_nth)
  then have "(i, b) \<in> set (enumerate 0 ?xs)" by (simp add: in_set_enumerate_eq)
  then show ?thesis unfolding csrs_def by force
qed

lemma reg_ok_csrs: "a \<in> set csrs \<Longrightarrow> reg_ok (csr_reg a)"
  using reg_ok_table by (elim csrs_member) (auto simp: list_all_iff)

lemma raw_read_write:
  assumes "reg_ok r" and "r \<noteq> NoReg"
  shows "raw_read is32 r (raw_write is32 r v s) = (if is32 then take_bit 32 v else v)"
proof -
  have v: "rd_view is32 csr_bits (wr_view is32 csr_bits v x) = (if is32 then take_bit 32 v else v)"
    "rd_view2 is32 csr_bits (wr_view2 is32 csr_bits v y) = (if is32 then take_bit 32 v else v)" for x y
    by (simp_all add: rd_view2_write field_trunc.simps take_bit_word_eq_self)
      (simp_all add: view_simps getf_0_take_bit take_bit_word_eq_self)
  show ?thesis
    using assms v by (cases r) (simp_all del: rd_wr_view_same)
qed

text \<open>C30. A plain register, one that has storage and no callbacks, reads back as it was written, in the width
  of the current XLEN and with the bits outside its write mask kept.\<close>

theorem csr_read_after_write:
  assumes "a \<in> set csrs" and "readCB a = None" and "readWriteCB a = None" and "writeCB a = None"
    and "csr_reg a \<noteq> NoReg" and "RISCV_XLEN_IS_64 s = (\<not> RISCV_XLEN_IS_32 s)"
  shows "fst (riscvEmitCSRRead V a w (riscvEmitCSRWrite V a v s)) =
    getXLENValue s (masked (getCSRWriteMask a s) v (fst (riscvEmitCSRRead V a w s)))"
proof -
  let ?is32 = "RISCV_XLEN_IS_32 s" and ?r = "csr_reg a"
  have xlen: "RISCV_XLEN_IS_32 (raw_write is32 ?r x s) = ?is32" "RISCV_XLEN_IS_64 (raw_write is32 ?r x s) = (\<not> ?is32)" for is32 x
    using assms(6) by (cases ?r; simp)+
  have read: "fst (riscvEmitCSRRead V a w t) = raw_read (\<not> RISCV_XLEN_IS_64 t) ?r t" for t
    using assms(2,3) by (simp add: riscvEmitCSRRead_def getCSRReadCB_def)
  have trunc: "getXLENValue s (raw_read ?is32 ?r s) = raw_read ?is32 ?r s"
    by (cases ?r; cases ?is32) (simp_all add: getXLENValue_def view_simps getf_0_take_bit take_bit_take_bit
        unsigned_take_bit_eq)
  have isreg: "\<not> VMI_ISNOREG ?r" using assms(5) by (cases ?r) simp_all
  note rw = raw_read_write [OF reg_ok_csrs [OF assms(1)] assms(5)]
  consider "getCSRWriteMask a s = - 1" | "getCSRWriteMask a s = 0" | "getCSRWriteMask a s \<noteq> - 1" "getCSRWriteMask a s \<noteq> 0"
    by blast
  then show ?thesis
  proof cases
    case 1
    then have "riscvEmitCSRWrite V a v s = raw_write ?is32 ?r (getXLENValue s v) s"
      using assms(4,6) isreg by (simp add: riscvEmitCSRWrite_def getCSRWriteCB_def Let_def)
    then show ?thesis using 1 assms(6) xlen rw by (simp add: read masked_def getXLENValue_def)
  next
    case 2
    then have "riscvEmitCSRWrite V a v s = s"
      using assms(4) isreg by (simp add: riscvEmitCSRWrite_def getCSRWriteCB_def Let_def)
    then show ?thesis using 2 assms(6) trunc by (simp add: read)
  next
    case 3
    then have "riscvEmitCSRWrite V a v s = raw_write ?is32 ?r
        (masked (getCSRWriteMask a s) (getXLENValue s v) (raw_read ?is32 ?r s)) s"
      using assms(4,6) isreg by (simp add: riscvEmitCSRWrite_def getCSRWriteCB_def Let_def)
    moreover have "take_bit 32 (masked m (take_bit 32 v) u) = take_bit 32 (masked m v u)" for m u
      by (auto simp: masked_def bit_simps intro!: bit_word_eqI)
    ultimately show ?thesis using assms(6) xlen rw by (simp add: read getXLENValue_def)
  qed
qed

theorem csr_read_after_write_witness:
  "\<exists>a. a \<in> set csrs \<and> csr_name a = ''mscratch'' \<and>
     fst (riscvEmitCSRRead vmirt_example a False (riscvEmitCSRWrite vmirt_example a 0x1234 hart_example)) = 0x1234"
proof -
  let ?m = "CSR_ATTR_T ''mscratch'' 0x340 0 False False False False None None None (Reg mscratch mscratch_update)"
  obtain i where a: "?m\<lparr>csr_id := i\<rparr> \<in> set csrs" (is "?a \<in> _")
    using csrs_intro [of ?m] by (auto simp: csrs_M_def)
  have "RISCV_XLEN_IS_64 hart_example = (\<not> RISCV_XLEN_IS_32 hart_example)"
    "getXLENValue hart_example 0x1234 = 0x1234" "RISCV_XLEN_IS_32 hart_example = False" by code_simp+
  moreover from this have "getCSRWriteMask ?a hart_example = - 1"
    by (simp add: getCSRWriteMask_def getCSRWriteMask64_def CSR_ATTR_T_def CSR_ATTR_P_def)
  ultimately have "fst (riscvEmitCSRRead vmirt_example ?a False (riscvEmitCSRWrite vmirt_example ?a 0x1234 hart_example)) = 0x1234"
    using csr_read_after_write [OF a, of hart_example vmirt_example False "0x1234"] by (simp add: masked_def)
  moreover have "csr_name ?a = ''mscratch''" by (simp add: CSR_ATTR_T_def CSR_ATTR_P_def)
  ultimately show ?thesis using a by blast
qed

section \<open>Status registers\<close>

lemma getf_XLEN: "rd_view b status_MPP (wr_view b csr_bits v r) = getf 11 2 v"
  by (cases b) (auto simp: view_simps bit_simps intro!: bit_word_eqI)

lemma riscvHasMode_config: "configInfo t = configInfo s \<Longrightarrow> riscvHasMode t = riscvHasMode s"
proof
  fix m assume "configInfo t = configInfo s"
  then show "riscvHasMode t m = riscvHasMode s m" by (cases m) simp_all
qed

text \<open>What a status write leaves in \<^verbatim>\<open>mstatus\<close>, for any of the three write masks.\<close>

definition mpp_legal :: "riscv \<Rightarrow> uns64 \<Rightarrow> uns64 \<Rightarrow> uns64" where
  "mpp_legal s old w = (if riscvHasMode s (mode_of (unat (getf 11 2 w))) then w else setf 11 2 (getf 11 2 old) w)"

lemma statusW_csr:
  defines "w \<equiv> \<lambda>s m v. masked m v (RD_CSR s mstatus)"
  shows "mstatus (csr (statusW V v m s)) = wr_view (RISCV_XLEN_IS_32 s) csr_bits (mpp_legal s (RD_CSR s mstatus) (w s m v)) (mstatus (csr s))"
    and "configInfo (statusW V v m s) = configInfo s"
    and "hart_inv s \<Longrightarrow> RISCV_XLEN_IS_32 (statusW V v m s) = RISCV_XLEN_IS_32 s"
proof -
  let ?b = "RISCV_XLEN_IS_32 s" and ?w = "w s m v"
  let ?s1 = "WR_CSR mstatus_update ?w s"
  let ?s2 = "if \<not> riscvHasMode ?s1 (mode_of (unat (RD_CSR_FIELD ?s1 mstatus status_MPP)))
    then WR_CSR_FIELD mstatus_update status_MPP (RD_CSR_FIELD s mstatus status_MPP) ?s1 else ?s1"
  let ?s3 = "riscvVMRefreshMPRVDomain V (riscvVMSetASID (riscvSetCurrentArch ?s2))"
  have t: "statusW V v m s = (if (?w AND WM_mstatus_IE) AND NOT (RD_CSR s mstatus AND WM_mstatus_IE) \<noteq> 0
      then riscvTestInterrupt ?s3 else ?s3)"
    unfolding statusW_def Let_def w_def ..
  have "csr (statusW V v m s) = csr ?s2"
    unfolding t by (simp add: riscvVMSetASID_def)
  moreover have "riscvHasMode ?s1 = riscvHasMode s" by (rule riscvHasMode_config) simp
  moreover have "wr_view ?b status_MPP (rd_view ?b status_MPP x) (wr_view ?b csr_bits ?w x)
      = wr_view ?b csr_bits (setf 11 2 (getf 11 2 (rd_view ?b csr_bits x)) ?w) x" for x
    by (cases ?b) (auto simp: view_simps bit_simps intro!: bit_word_eqI)
  ultimately show "mstatus (csr (statusW V v m s)) = wr_view ?b csr_bits (mpp_legal s (RD_CSR s mstatus) ?w) (mstatus (csr s))"
    by (simp add: RD_CSR_FIELD_def WR_CSR_FIELD_def mpp_legal_def getf_XLEN)
  show "configInfo (statusW V v m s) = configInfo s" unfolding t by (simp add: riscvVMSetASID_def)
  assume "hart_inv s"
  then have "hart_inv ?s2" by (simp add: hart_inv_same [OF hart_same_mstatus])
  then have "hart_same ?s2 (riscvSetCurrentArch ?s2)" by (simp only: hart_same_riscvSetCurrentArch hart_inv_def)
  then have "RISCV_XLEN_IS_32 (riscvSetCurrentArch ?s2) = ?b"
    by (simp add: hart_same_def WR_CSR_FIELD_def split: if_splits)
  then show "RISCV_XLEN_IS_32 (statusW V v m s) = ?b"
    unfolding t by (simp add: RISCV_XLEN_IS_32_def riscvVMSetASID_def)
qed

text \<open>C29. A write of \<^verbatim>\<open>mstatus\<close> takes the writable bits from the new value and keeps the others, except that
  an attempt to set \<^verbatim>\<open>MPP\<close> to a mode that is not implemented leaves \<^verbatim>\<open>MPP\<close> as it was. So \<^verbatim>\<open>MPP\<close> never
  comes to name a mode that is not implemented.\<close>

theorem mstatusW_value:
  assumes "hart_inv s" and "riscvHasMode s (mode_of (unat (RD_CSR_FIELD s mstatus status_MPP)))"
  shows "let t = snd (mstatusW V v s); w = masked (RD_CSR_MASK s mstatusM) v (RD_CSR s mstatus) in
    RD_CSR t mstatus = getXLENValue s (if riscvHasMode s (mode_of (unat (getf 11 2 w))) then w
      else setf 11 2 (RD_CSR_FIELD s mstatus status_MPP) w)
    \<and> riscvHasMode t (mode_of (unat (RD_CSR_FIELD t mstatus status_MPP)))"
proof -
  let ?t = "snd (mstatusW V v s)" and ?b = "RISCV_XLEN_IS_32 s"
  let ?w = "mpp_legal s (RD_CSR s mstatus) (masked (RD_CSR_MASK s mstatusM) v (RD_CSR s mstatus))"
  have t: "mstatus (csr ?t) = wr_view ?b csr_bits ?w (mstatus (csr s))" "configInfo ?t = configInfo s" "RISCV_XLEN_IS_32 ?t = ?b"
    using assms(1) by (simp_all add: mstatusW_def Let_def statusW_csr)
  have old: "RD_CSR_FIELD s mstatus status_MPP = getf 11 2 (RD_CSR s mstatus)"
    by (cases ?b) (auto simp: RD_CSR_FIELD_def view_simps bit_simps intro!: bit_word_eqI)
  have "RD_CSR ?t mstatus = getXLENValue s ?w"
    by (cases ?b) (simp_all add: RD_CSR_FIELD_def t getXLENValue_def field_trunc.simps take_bit_word_eq_self)
  moreover have "RD_CSR_FIELD ?t mstatus status_MPP = getf 11 2 ?w" by (simp add: RD_CSR_FIELD_def t getf_XLEN)
  moreover have "riscvHasMode s (mode_of (unat (getf 11 2 ?w)))"
    using assms(2) by (simp add: mpp_legal_def old getf_setf_same)
  ultimately show ?thesis by (simp add: Let_def mpp_legal_def old riscvHasMode_config [OF t(2)])
qed

theorem mstatusW_value_witness:
  "\<exists>s. riscvCSRInit 0 boot_example = Some s
    \<and> riscvHasMode (snd (mstatusW vmirt_example 0x1000 s)) (mode_of (unat (RD_CSR_FIELD (snd (mstatusW vmirt_example 0x1000 s)) mstatus status_MPP)))"
proof -
  obtain s where s: "riscvCSRInit 0 boot_example = Some s" "hart_inv s"
    using hart_inv_riscvCSRInit [OF boot_example_ok] by blast
  have "case riscvCSRInit 0 boot_example of None \<Rightarrow> False
    | Some s \<Rightarrow> riscvHasMode s (mode_of (unat (RD_CSR_FIELD s mstatus status_MPP)))" by code_simp
  with s mstatusW_value [OF s(2), of vmirt_example "0x1000"] show ?thesis by (simp add: Let_def)
qed

section \<open>Floating point registers\<close>

lemma view_field:
  "l + w \<le> 32 \<Longrightarrow> rd_view b (CsrField l w l w) (wr_view b csr_bits x r) = getf l w x"
  by (cases b; auto simp: view_simps bit_simps intro!: bit_word_eqI)

lemma setf_same_bit: "bit y l = c \<Longrightarrow> setf l (Suc 0) (of_bool c) y = y" for y :: uns64
proof (rule bit_word_eqI)
  fix n assume "bit y l = c"
  then show "bit (setf l (Suc 0) (of_bool c) y) n = bit y n"
    by (cases "n = l") (auto simp: bit_setf dest: bit_word_length)
qed

lemma wr_view_same_bit:
  assumes "l < 32"
  shows "wr_view b (CsrField l (Suc 0) l (Suc 0)) (of_bool (bit x l)) (wr_view b csr_bits x r) = wr_view b csr_bits x r"
  using assms setf_same_bit [of _ l "bit x l"] by (cases b) (simp_all add: view_simps bit_setf)

lemma getf_flag: "getf l (Suc 0) x \<noteq> 0 \<longleftrightarrow> bit x l" for x :: uns64
  by (auto simp: getf_def bit_eq_iff [of _ "0 :: uns64"] bit_simps bit_iff_odd_drop_bit [of x l])

lemma fcsrW_state:
  "fcsr (csr (snd (fcsrW v s))) = wr_view (RISCV_XLEN_IS_32 s) csr_bits (v AND 0xff) (fcsr (csr s))"
  "RISCV_XLEN_IS_32 (snd (fcsrW v s)) = RISCV_XLEN_IS_32 s"
  "fpFlags (snd (fcsrW v s)) = flags_of (v AND 0xff)"
  by (simp_all add: fcsrW_def Let_def refreshFPCR_def RD_CSR_FIELD_def WR_CSR_FIELD_def RISCV_XLEN_IS_32_def
      view_field getf_flag flags_of_def)

lemma fcsrR_value:
  assumes "fcsr (csr t) = wr_view (RISCV_XLEN_IS_32 t) csr_bits x r" and "fpFlags t = flags_of x"
  shows "fst (fcsrR t) = getXLENValue t x"
proof -
  let ?b = "RISCV_XLEN_IS_32 t"
  have keep: "fcsr (csr (WR_CSR_FIELD fcsr_update (CsrField l (Suc 0) l (Suc 0)) (of_bool (bit x l)) u)) = wr_view ?b csr_bits x r
      \<and> RISCV_XLEN_IS_32 (WR_CSR_FIELD fcsr_update (CsrField l (Suc 0) l (Suc 0)) (of_bool (bit x l)) u) = ?b
      \<and> fpFlags (WR_CSR_FIELD fcsr_update (CsrField l (Suc 0) l (Suc 0)) (of_bool (bit x l)) u) = flags_of x"
    if "fcsr (csr u) = wr_view ?b csr_bits x r" "RISCV_XLEN_IS_32 u = ?b" "fpFlags u = flags_of x" "l < 32" for l u
    using that wr_view_same_bit [of l ?b x r] by (simp add: WR_CSR_FIELD_def)
  have "RD_CSR_FIELD u fcsr csr_bits = getXLENValue t x"
    if "fcsr (csr u) = wr_view ?b csr_bits x r" "RISCV_XLEN_IS_32 u = ?b" for u
    using that by (simp add: RD_CSR_FIELD_def getXLENValue_def field_trunc.simps take_bit_word_eq_self)
  then show ?thesis
    using assms by (simp add: fcsrR_def Let_def flags_of_def [of x] keep)
qed

lemma bit_fflags_bits:
  "bit (fflags_bits \<lparr>fp_P = b0, fp_U = b1, fp_O = b2, fp_Z = b3, fp_I = b4\<rparr>) n
    \<longleftrightarrow> (n = 0 \<and> b0) \<or> (n = 1 \<and> b1) \<or> (n = 2 \<and> b2) \<or> (n = 3 \<and> b3) \<or> (n = 4 \<and> b4)"
proof -
  have p: "bit (push_bit k (of_bool b) :: uns64) n \<longleftrightarrow> b \<and> n = k" if "k < 64" for k b
    using that by (cases b; cases "n = k") (simp_all add: bit_exp_iff)
  have "bit (of_bool b0 :: uns64) n \<longleftrightarrow> b0 \<and> n = 0" by (cases b0) (simp_all add: bit_1_iff)
  with p [of 1 b1] p [of 2 b2] p [of 3 b3] p [of 4 b4] show ?thesis
    by (simp only: fflags_bits_def bit_or_iff vmiFPFlags.simps) auto
qed

lemma less_5: "n < 5 \<longleftrightarrow> n = 0 \<or> n = 1 \<or> n = 2 \<or> n = 3 \<or> n = (4 :: nat)"
  by auto

text \<open>C37. The three floating point registers are views of one state: after a write of \<^verbatim>\<open>fcsr\<close> all of them read
  back the value written, each its own bits, and the accumulated exception flags are those bits.\<close>

theorem fcsrW_reads:
  "let t = snd (fcsrW v s) in
     fst (fcsrR t) = v AND 0xff \<and> fst (fflagsR t) = v AND 0x1f \<and> fst (frmR t) = drop_bit 5 v AND 7
     \<and> fpFlags t = \<lparr>fp_P = bit v 0, fp_U = bit v 1, fp_O = bit v 2, fp_Z = bit v 3, fp_I = bit v 4\<rparr>"
proof -
  let ?t = "snd (fcsrW v s)" and ?x = "v AND 0xff"
  have masks: "v AND 0xff = take_bit 8 v" "v AND 0x1f = take_bit 5 v" "w AND 7 = take_bit 3 w" for w :: uns64
    by (simp_all add: take_bit_eq_mask mask_eq_exp_minus_1)
  have "fst (fcsrR ?t) = getXLENValue ?t ?x"
    by (rule fcsrR_value [of _ _ "fcsr (csr s)"]) (simp_all add: fcsrW_state)
  moreover have "getXLENValue ?t ?x = ?x" by (simp add: getXLENValue_def masks take_bit_take_bit)
  moreover have "fst (frmR ?t) = drop_bit 5 v AND 7"
    by (auto simp: frmR_def RD_CSR_FIELD_def fcsrW_state view_field masks bit_simps intro!: bit_word_eqI)
  moreover have flags: "fpFlags ?t = \<lparr>fp_P = bit v 0, fp_U = bit v 1, fp_O = bit v 2, fp_Z = bit v 3, fp_I = bit v 4\<rparr>"
    by (simp add: fcsrW_state flags_of_def masks bit_take_bit_iff)
  moreover have "fst (fflagsR ?t) = v AND 0x1f"
    by (auto simp: fflagsR_def flags bit_fflags_bits masks bit_take_bit_iff less_5 intro!: bit_word_eqI)
  ultimately show ?thesis by (simp add: Let_def)
qed

section \<open>Address translation\<close>

lemma rd_wr_view2_masked:
  assumes "field_ok2 f"
  shows "rd_view2 b f (wr_view2 b f (rd_view2 b f x AND m) r) = rd_view2 b f x AND m"
proof (cases f)
  case (CsrField l3 w3 l6 w6)
  with assms have w: "l3 + w3 \<le> 32" "l6 + w6 \<le> 64" by simp_all
  have "bit (getf l w y) n \<Longrightarrow> n < w" for l w n and y :: "'a::len word" by (simp add: bit_getf)
  with w show ?thesis
    by (cases b) (auto simp: CsrField view_simps bit_simps bit_getf bit_setf intro!: bit_word_eqI)
qed

lemma rd_wr_view2_written:
  "field_ok2 f \<Longrightarrow> rd_view2 b f (wr_view2 b f (rd_view b f v AND m) r) = rd_view b f v AND m"
  using rd_wr_view2_masked [of f b "wr_view2 b csr_bits v r" m r] by (simp add: rd_view2_write)

text \<open>The PPN and ASID fields that the configuration implements.\<close>

definition satp_masked :: "riscv \<Rightarrow> uns64 \<Rightarrow> csrField \<Rightarrow> uns64" where
  "satp_masked s v f =
     (if f = atp_ASID then rd_view (RISCV_XLEN_IS_32 s) f v AND ucast (getASIDMask s)
      else if f = atp_PPN then rd_view (RISCV_XLEN_IS_32 s) f v AND drop_bit 12 (push_bit (extBits s) 1 - 1)
      else rd_view (RISCV_XLEN_IS_32 s) f v)"

text \<open>A write of \<^verbatim>\<open>satp\<close> whose mode is implemented takes effect in all three fields, with the address space
  cut to the ASID bits and the root page number to the physical addresses that the configuration has;
  one whose mode is not implemented is ignored as a whole.\<close>

lemma satpW_value:
  "let t = snd (satpW V v s) in
     if bit (Sv_modes (configInfo s)) (unat (rd_view (RISCV_XLEN_IS_32 s) atp_MODE v))
     then RD_CSR2_FIELD t satp atp_MODE = satp_masked s v atp_MODE
       \<and> RD_CSR2_FIELD t satp atp_ASID = satp_masked s v atp_ASID
       \<and> RD_CSR2_FIELD t satp atp_PPN = satp_masked s v atp_PPN
     else RD_CSR2 t satp = RD_CSR2 s satp"
proof -
  let ?b = "RISCV_XLEN_IS_32 s"
  let ?s1 = "WR_CSR2 satp_update v s"
  let ?A = "RD_CSR2_FIELD ?s1 satp atp_ASID AND ucast (getASIDMask ?s1)"
  let ?s2 = "WR_CSR2_FIELD satp_update atp_ASID ?A ?s1"
  let ?P = "RD_CSR2_FIELD ?s2 satp atp_PPN AND drop_bit 12 (push_bit (extBits ?s2) 1 - 1)"
  let ?s3 = "WR_CSR2_FIELD satp_update atp_PPN ?P ?s2"
  define s3 where "s3 = ?s3"
  have t: "snd (satpW V v s) = (if \<not> bit (Sv_modes (configInfo s3)) (unat (RD_CSR2_FIELD s3 satp atp_MODE))
      then WR_CSR2 satp_update (RD_CSR2 s satp) s3 else riscvVMSetASID (riscvSetMode V (getCurrentMode s3) s3))"
    by (simp only: satpW_def Let_def snd_conv s3_def)
  let ?r1 = "wr_view2 ?b csr_bits v (satp (csr s))"
  let ?r2 = "wr_view2 ?b atp_ASID (rd_view2 ?b atp_ASID ?r1 AND ucast (getASIDMask s)) ?r1"
  let ?r3 = "wr_view2 ?b atp_PPN (rd_view2 ?b atp_PPN ?r2 AND drop_bit 12 (push_bit (extBits s) 1 - 1)) ?r2"
  have s3: "satp (csr s3) = ?r3" "RISCV_XLEN_IS_32 s3 = ?b" "configInfo s3 = configInfo s"
    by (simp_all add: s3_def RD_CSR2_FIELD_def WR_CSR2_FIELD_def getASIDMask_def)
  have mode: "RD_CSR2_FIELD s3 satp atp_MODE = rd_view ?b atp_MODE v"
    by (simp add: RD_CSR2_FIELD_def s3 rd_view2_write)
  have asid: "RD_CSR2_FIELD s3 satp atp_ASID = rd_view ?b atp_ASID v AND ucast (getASIDMask s)"
    by (simp add: RD_CSR2_FIELD_def s3 rd_view2_write rd_wr_view2_written)
  have ppn: "RD_CSR2_FIELD s3 satp atp_PPN = rd_view ?b atp_PPN v AND drop_bit 12 (push_bit (extBits s) 1 - 1)"
    by (simp add: RD_CSR2_FIELD_def s3 rd_view2_write rd_wr_view2_written)
  have acc: "RD_CSR2_FIELD (riscvVMSetASID (riscvSetMode V m s3)) satp f = RD_CSR2_FIELD s3 satp f" for m f
    by (simp add: RD_CSR2_FIELD_def riscvVMSetASID_def RISCV_XLEN_IS_32_def)
  have rej: "RD_CSR2 (WR_CSR2 satp_update (RD_CSR2 s satp) s3) satp = RD_CSR2 s satp"
    using s3(2) by (simp add: RD_CSR2_FIELD_def WR_CSR2_FIELD_def rd_view2_write rd_view_read2)
  show ?thesis
    unfolding Let_def t mode s3(3) using asid ppn mode rej acc by (simp add: satp_masked_def del: WR_CSR2_FIELD_frame)
qed

end
