(* ===== verification/RiscvDecodeTypes.thy ===== *)
theory RiscvDecodeTypes
  imports RiscvUtils
begin

text \<open>
  The vocabulary of the instruction decoder: register descriptors (\<^verbatim>\<open>riscvRegisterTypes.h\<close>),
  generic instruction types and the decoded instruction (\<^verbatim>\<open>riscvDecodeTypes.h\<close>), the format
  strings (\<^verbatim>\<open>riscvDisassembleFormats.h\<close>), the operand specifications and the attribute
  structure of a table entry (\<^verbatim>\<open>riscvDecode.c\<close>), and the attribute macros
  (\<^verbatim>\<open>riscvInstructionInfo.h\<close>). The three large enumerations are numbers, as in C; each is
  listed once in the order of the source and shown to number its members consecutively.
\<close>

named_theorems attr_defs "the attribute macros of table entries"
named_theorems field_macros "the field extraction macros"

section \<open>Register descriptors\<close>

type_synonym riscvRegDesc = uns32

abbreviation (input) RV_RD_NA :: riscvRegDesc where "RV_RD_NA \<equiv> 0"
abbreviation (input) RV_RD_INDEX_MASK :: riscvRegDesc where "RV_RD_INDEX_MASK \<equiv> 0x1f"
abbreviation (input) RV_RD_8 :: riscvRegDesc where "RV_RD_8 \<equiv> 0x20"
abbreviation (input) RV_RD_16 :: riscvRegDesc where "RV_RD_16 \<equiv> 0x40"
abbreviation (input) RV_RD_32 :: riscvRegDesc where "RV_RD_32 \<equiv> 0x80"
abbreviation (input) RV_RD_64 :: riscvRegDesc where "RV_RD_64 \<equiv> 0x100"
abbreviation (input) RV_RD_BITS_MASK :: riscvRegDesc where "RV_RD_BITS_MASK \<equiv> 0x1e0"
abbreviation (input) RV_RD_X :: riscvRegDesc where "RV_RD_X \<equiv> 0x200"
abbreviation (input) RV_RD_F :: riscvRegDesc where "RV_RD_F \<equiv> 0x400"
abbreviation (input) RV_RD_TYPE_MASK :: riscvRegDesc where "RV_RD_TYPE_MASK \<equiv> 0x7e0"
abbreviation (input) RV_RD_Q :: riscvRegDesc where "RV_RD_Q \<equiv> 0x800"
abbreviation (input) RV_RD_WL :: riscvRegDesc where "RV_RD_WL \<equiv> 0x1000"
abbreviation (input) RV_RD_FX :: riscvRegDesc where "RV_RD_FX \<equiv> 0x2000"
abbreviation (input) RV_RD_U :: riscvRegDesc where "RV_RD_U \<equiv> 0x4000"

text \<open>The literals are the values \<^verbatim>\<open>riscvRegisterTypes.h\<close> builds from one another.\<close>

definition riscvRegDescE :: "riscvRegDesc list" where
  "riscvRegDescE =
     [0x0, 0x01f, RV_RD_INDEX_MASK + 1, RV_RD_8 * 2, RV_RD_16 * 2, RV_RD_32 * 2,
      RV_RD_8 OR RV_RD_16 OR RV_RD_32 OR RV_RD_64, RV_RD_64 * 2, RV_RD_X * 2,
      RV_RD_X OR RV_RD_F OR RV_RD_BITS_MASK, RV_RD_F * 2, RV_RD_Q * 2, RV_RD_WL * 2,
      RV_RD_FX * 2]"

lemma riscvRegDescE_values:
  "riscvRegDescE = [RV_RD_NA, RV_RD_INDEX_MASK, RV_RD_8, RV_RD_16, RV_RD_32, RV_RD_64,
     RV_RD_BITS_MASK, RV_RD_X, RV_RD_F, RV_RD_TYPE_MASK, RV_RD_Q, RV_RD_WL, RV_RD_FX, RV_RD_U]"
  by (simp add: riscvRegDescE_def)

definition isXReg :: "riscvRegDesc \<Rightarrow> bool" where
  "isXReg r = has r RV_RD_X"

definition isFReg :: "riscvRegDesc \<Rightarrow> bool" where
  "isFReg r = has r RV_RD_F"

definition isQReg :: "riscvRegDesc \<Rightarrow> bool" where
  "isQReg r = has r RV_RD_Q"

definition isWLReg :: "riscvRegDesc \<Rightarrow> bool" where
  "isWLReg r = has r RV_RD_WL"

definition isFXReg :: "riscvRegDesc \<Rightarrow> bool" where
  "isFXReg r = has r RV_RD_FX"

definition isXWLReg :: "riscvRegDesc \<Rightarrow> bool" where
  "isXWLReg r \<longleftrightarrow> isFXReg r \<or> isWLReg r"

definition isUReg :: "riscvRegDesc \<Rightarrow> bool" where
  "isUReg r = has r RV_RD_U"

definition getRIndex :: "riscvRegDesc \<Rightarrow> uns32" where
  "getRIndex r = r AND RV_RD_INDEX_MASK"

definition getRBits :: "riscvRegDesc \<Rightarrow> uns32" where
  "getRBits r = drop_bit 2 (r AND RV_RD_BITS_MASK)"

definition getRType :: "riscvRegDesc \<Rightarrow> riscvRegDesc" where
  "getRType r = r AND RV_RD_TYPE_MASK"

section \<open>Generic instruction types\<close>

type_synonym riscvIType = nat

abbreviation (input) RV_IT_MV_R :: riscvIType where "RV_IT_MV_R \<equiv> 0"
abbreviation (input) RV_IT_MV_C :: riscvIType where "RV_IT_MV_C \<equiv> 1"
abbreviation (input) RV_IT_ADD_R :: riscvIType where "RV_IT_ADD_R \<equiv> 2"
abbreviation (input) RV_IT_AND_R :: riscvIType where "RV_IT_AND_R \<equiv> 3"
abbreviation (input) RV_IT_OR_R :: riscvIType where "RV_IT_OR_R \<equiv> 4"
abbreviation (input) RV_IT_SLL_R :: riscvIType where "RV_IT_SLL_R \<equiv> 5"
abbreviation (input) RV_IT_SLT_R :: riscvIType where "RV_IT_SLT_R \<equiv> 6"
abbreviation (input) RV_IT_SLTU_R :: riscvIType where "RV_IT_SLTU_R \<equiv> 7"
abbreviation (input) RV_IT_SRA_R :: riscvIType where "RV_IT_SRA_R \<equiv> 8"
abbreviation (input) RV_IT_SRL_R :: riscvIType where "RV_IT_SRL_R \<equiv> 9"
abbreviation (input) RV_IT_SUB_R :: riscvIType where "RV_IT_SUB_R \<equiv> 10"
abbreviation (input) RV_IT_XOR_R :: riscvIType where "RV_IT_XOR_R \<equiv> 11"
abbreviation (input) RV_IT_DIV_R :: riscvIType where "RV_IT_DIV_R \<equiv> 12"
abbreviation (input) RV_IT_DIVU_R :: riscvIType where "RV_IT_DIVU_R \<equiv> 13"
abbreviation (input) RV_IT_MUL_R :: riscvIType where "RV_IT_MUL_R \<equiv> 14"
abbreviation (input) RV_IT_MULH_R :: riscvIType where "RV_IT_MULH_R \<equiv> 15"
abbreviation (input) RV_IT_MULHSU_R :: riscvIType where "RV_IT_MULHSU_R \<equiv> 16"
abbreviation (input) RV_IT_MULHU_R :: riscvIType where "RV_IT_MULHU_R \<equiv> 17"
abbreviation (input) RV_IT_REM_R :: riscvIType where "RV_IT_REM_R \<equiv> 18"
abbreviation (input) RV_IT_REMU_R :: riscvIType where "RV_IT_REMU_R \<equiv> 19"
abbreviation (input) RV_IT_ADDI_I :: riscvIType where "RV_IT_ADDI_I \<equiv> 20"
abbreviation (input) RV_IT_ANDI_I :: riscvIType where "RV_IT_ANDI_I \<equiv> 21"
abbreviation (input) RV_IT_JALR_I :: riscvIType where "RV_IT_JALR_I \<equiv> 22"
abbreviation (input) RV_IT_ORI_I :: riscvIType where "RV_IT_ORI_I \<equiv> 23"
abbreviation (input) RV_IT_SLTI_I :: riscvIType where "RV_IT_SLTI_I \<equiv> 24"
abbreviation (input) RV_IT_SLTIU_I :: riscvIType where "RV_IT_SLTIU_I \<equiv> 25"
abbreviation (input) RV_IT_SLLI_I :: riscvIType where "RV_IT_SLLI_I \<equiv> 26"
abbreviation (input) RV_IT_SRAI_I :: riscvIType where "RV_IT_SRAI_I \<equiv> 27"
abbreviation (input) RV_IT_SRLI_I :: riscvIType where "RV_IT_SRLI_I \<equiv> 28"
abbreviation (input) RV_IT_XORI_I :: riscvIType where "RV_IT_XORI_I \<equiv> 29"
abbreviation (input) RV_IT_L_I :: riscvIType where "RV_IT_L_I \<equiv> 30"
abbreviation (input) RV_IT_S_I :: riscvIType where "RV_IT_S_I \<equiv> 31"
abbreviation (input) RV_IT_CSRR_I :: riscvIType where "RV_IT_CSRR_I \<equiv> 32"
abbreviation (input) RV_IT_CSRRI_I :: riscvIType where "RV_IT_CSRRI_I \<equiv> 33"
abbreviation (input) RV_IT_EBREAK_I :: riscvIType where "RV_IT_EBREAK_I \<equiv> 34"
abbreviation (input) RV_IT_ECALL_I :: riscvIType where "RV_IT_ECALL_I \<equiv> 35"
abbreviation (input) RV_IT_FENCEI_I :: riscvIType where "RV_IT_FENCEI_I \<equiv> 36"
abbreviation (input) RV_IT_MRET_I :: riscvIType where "RV_IT_MRET_I \<equiv> 37"
abbreviation (input) RV_IT_SRET_I :: riscvIType where "RV_IT_SRET_I \<equiv> 38"
abbreviation (input) RV_IT_URET_I :: riscvIType where "RV_IT_URET_I \<equiv> 39"
abbreviation (input) RV_IT_WFI_I :: riscvIType where "RV_IT_WFI_I \<equiv> 40"
abbreviation (input) RV_IT_FENCE_I :: riscvIType where "RV_IT_FENCE_I \<equiv> 41"
abbreviation (input) RV_IT_FENCE_VMA_R :: riscvIType where "RV_IT_FENCE_VMA_R \<equiv> 42"
abbreviation (input) RV_IT_AUIPC_U :: riscvIType where "RV_IT_AUIPC_U \<equiv> 43"
abbreviation (input) RV_IT_LUI_U :: riscvIType where "RV_IT_LUI_U \<equiv> 44"
abbreviation (input) RV_IT_BEQ_B :: riscvIType where "RV_IT_BEQ_B \<equiv> 45"
abbreviation (input) RV_IT_BGE_B :: riscvIType where "RV_IT_BGE_B \<equiv> 46"
abbreviation (input) RV_IT_BGEU_B :: riscvIType where "RV_IT_BGEU_B \<equiv> 47"
abbreviation (input) RV_IT_BLT_B :: riscvIType where "RV_IT_BLT_B \<equiv> 48"
abbreviation (input) RV_IT_BLTU_B :: riscvIType where "RV_IT_BLTU_B \<equiv> 49"
abbreviation (input) RV_IT_BNE_B :: riscvIType where "RV_IT_BNE_B \<equiv> 50"
abbreviation (input) RV_IT_JAL_J :: riscvIType where "RV_IT_JAL_J \<equiv> 51"
abbreviation (input) RV_IT_AMOADD_R :: riscvIType where "RV_IT_AMOADD_R \<equiv> 52"
abbreviation (input) RV_IT_AMOAND_R :: riscvIType where "RV_IT_AMOAND_R \<equiv> 53"
abbreviation (input) RV_IT_AMOMAX_R :: riscvIType where "RV_IT_AMOMAX_R \<equiv> 54"
abbreviation (input) RV_IT_AMOMAXU_R :: riscvIType where "RV_IT_AMOMAXU_R \<equiv> 55"
abbreviation (input) RV_IT_AMOMIN_R :: riscvIType where "RV_IT_AMOMIN_R \<equiv> 56"
abbreviation (input) RV_IT_AMOMINU_R :: riscvIType where "RV_IT_AMOMINU_R \<equiv> 57"
abbreviation (input) RV_IT_AMOOR_R :: riscvIType where "RV_IT_AMOOR_R \<equiv> 58"
abbreviation (input) RV_IT_AMOSWAP_R :: riscvIType where "RV_IT_AMOSWAP_R \<equiv> 59"
abbreviation (input) RV_IT_AMOXOR_R :: riscvIType where "RV_IT_AMOXOR_R \<equiv> 60"
abbreviation (input) RV_IT_LR_R :: riscvIType where "RV_IT_LR_R \<equiv> 61"
abbreviation (input) RV_IT_SC_R :: riscvIType where "RV_IT_SC_R \<equiv> 62"
abbreviation (input) RV_IT_FMV_R :: riscvIType where "RV_IT_FMV_R \<equiv> 63"
abbreviation (input) RV_IT_FABS_R :: riscvIType where "RV_IT_FABS_R \<equiv> 64"
abbreviation (input) RV_IT_FADD_R :: riscvIType where "RV_IT_FADD_R \<equiv> 65"
abbreviation (input) RV_IT_FCLASS_R :: riscvIType where "RV_IT_FCLASS_R \<equiv> 66"
abbreviation (input) RV_IT_FCVT_R :: riscvIType where "RV_IT_FCVT_R \<equiv> 67"
abbreviation (input) RV_IT_FDIV_R :: riscvIType where "RV_IT_FDIV_R \<equiv> 68"
abbreviation (input) RV_IT_FEQ_R :: riscvIType where "RV_IT_FEQ_R \<equiv> 69"
abbreviation (input) RV_IT_FLE_R :: riscvIType where "RV_IT_FLE_R \<equiv> 70"
abbreviation (input) RV_IT_FLT_R :: riscvIType where "RV_IT_FLT_R \<equiv> 71"
abbreviation (input) RV_IT_FMAX_R :: riscvIType where "RV_IT_FMAX_R \<equiv> 72"
abbreviation (input) RV_IT_FMIN_R :: riscvIType where "RV_IT_FMIN_R \<equiv> 73"
abbreviation (input) RV_IT_FMUL_R :: riscvIType where "RV_IT_FMUL_R \<equiv> 74"
abbreviation (input) RV_IT_FNEG_R :: riscvIType where "RV_IT_FNEG_R \<equiv> 75"
abbreviation (input) RV_IT_FSGNJ_R :: riscvIType where "RV_IT_FSGNJ_R \<equiv> 76"
abbreviation (input) RV_IT_FSGNJN_R :: riscvIType where "RV_IT_FSGNJN_R \<equiv> 77"
abbreviation (input) RV_IT_FSGNJX_R :: riscvIType where "RV_IT_FSGNJX_R \<equiv> 78"
abbreviation (input) RV_IT_FSQRT_R :: riscvIType where "RV_IT_FSQRT_R \<equiv> 79"
abbreviation (input) RV_IT_FSUB_R :: riscvIType where "RV_IT_FSUB_R \<equiv> 80"
abbreviation (input) RV_IT_FMADD_R4 :: riscvIType where "RV_IT_FMADD_R4 \<equiv> 81"
abbreviation (input) RV_IT_FMSUB_R4 :: riscvIType where "RV_IT_FMSUB_R4 \<equiv> 82"
abbreviation (input) RV_IT_FNMADD_R4 :: riscvIType where "RV_IT_FNMADD_R4 \<equiv> 83"
abbreviation (input) RV_IT_FNMSUB_R4 :: riscvIType where "RV_IT_FNMSUB_R4 \<equiv> 84"
abbreviation (input) RV_IT_CUSTOM :: riscvIType where "RV_IT_CUSTOM \<equiv> 85"
abbreviation (input) RV_IT_LAST :: riscvIType where "RV_IT_LAST \<equiv> 86"

definition riscvITypeE :: "riscvIType list" where
  "riscvITypeE =
     [RV_IT_MV_R, RV_IT_MV_C, RV_IT_ADD_R, RV_IT_AND_R, RV_IT_OR_R, RV_IT_SLL_R, RV_IT_SLT_R,
      RV_IT_SLTU_R, RV_IT_SRA_R, RV_IT_SRL_R, RV_IT_SUB_R, RV_IT_XOR_R, RV_IT_DIV_R,
      RV_IT_DIVU_R, RV_IT_MUL_R, RV_IT_MULH_R, RV_IT_MULHSU_R, RV_IT_MULHU_R, RV_IT_REM_R,
      RV_IT_REMU_R, RV_IT_ADDI_I, RV_IT_ANDI_I, RV_IT_JALR_I, RV_IT_ORI_I, RV_IT_SLTI_I,
      RV_IT_SLTIU_I, RV_IT_SLLI_I, RV_IT_SRAI_I, RV_IT_SRLI_I, RV_IT_XORI_I, RV_IT_L_I,
      RV_IT_S_I, RV_IT_CSRR_I, RV_IT_CSRRI_I, RV_IT_EBREAK_I, RV_IT_ECALL_I, RV_IT_FENCEI_I,
      RV_IT_MRET_I, RV_IT_SRET_I, RV_IT_URET_I, RV_IT_WFI_I, RV_IT_FENCE_I, RV_IT_FENCE_VMA_R,
      RV_IT_AUIPC_U, RV_IT_LUI_U, RV_IT_BEQ_B, RV_IT_BGE_B, RV_IT_BGEU_B, RV_IT_BLT_B,
      RV_IT_BLTU_B, RV_IT_BNE_B, RV_IT_JAL_J, RV_IT_AMOADD_R, RV_IT_AMOAND_R, RV_IT_AMOMAX_R,
      RV_IT_AMOMAXU_R, RV_IT_AMOMIN_R, RV_IT_AMOMINU_R, RV_IT_AMOOR_R, RV_IT_AMOSWAP_R,
      RV_IT_AMOXOR_R, RV_IT_LR_R, RV_IT_SC_R, RV_IT_FMV_R, RV_IT_FABS_R, RV_IT_FADD_R,
      RV_IT_FCLASS_R, RV_IT_FCVT_R, RV_IT_FDIV_R, RV_IT_FEQ_R, RV_IT_FLE_R, RV_IT_FLT_R,
      RV_IT_FMAX_R, RV_IT_FMIN_R, RV_IT_FMUL_R, RV_IT_FNEG_R, RV_IT_FSGNJ_R, RV_IT_FSGNJN_R,
      RV_IT_FSGNJX_R, RV_IT_FSQRT_R, RV_IT_FSUB_R, RV_IT_FMADD_R4, RV_IT_FMSUB_R4,
      RV_IT_FNMADD_R4, RV_IT_FNMSUB_R4, RV_IT_CUSTOM, RV_IT_LAST]"

lemma riscvITypeE_consecutive: "riscvITypeE = [0..<Suc RV_IT_LAST]"
  by (simp add: riscvITypeE_def upt_conv_Cons)

section \<open>The decoded instruction\<close>

datatype riscvAQRLDesc = RV_AQRL_NA | RV_AQRL_RL | RV_AQRL_AQ | RV_AQRL_AQRL

type_synonym riscvFenceDesc = uns32

abbreviation (input) RV_FENCE_NA :: riscvFenceDesc where "RV_FENCE_NA \<equiv> 0x0"
abbreviation (input) RV_FENCE_W :: riscvFenceDesc where "RV_FENCE_W \<equiv> 0x1"
abbreviation (input) RV_FENCE_R :: riscvFenceDesc where "RV_FENCE_R \<equiv> 0x2"
abbreviation (input) RV_FENCE_O :: riscvFenceDesc where "RV_FENCE_O \<equiv> 0x4"
abbreviation (input) RV_FENCE_I :: riscvFenceDesc where "RV_FENCE_I \<equiv> 0x8"
abbreviation (input) RV_FENCE_IOWR :: riscvFenceDesc where
  "RV_FENCE_IOWR \<equiv> RV_FENCE_I OR RV_FENCE_O OR RV_FENCE_R OR RV_FENCE_W"

datatype riscvCSRUDesc = RV_CSR_NA | RV_CSR_RW | RV_CSR_RS | RV_CSR_RC

text \<open>The members of the two enumerations by their number, for the fields of an instruction
  assigned to them.\<close>

definition aqrl_of :: "uns32 \<Rightarrow> riscvAQRLDesc" where
  "aqrl_of n = [RV_AQRL_NA, RV_AQRL_RL, RV_AQRL_AQ, RV_AQRL_AQRL] ! unat n"

definition csru_of :: "uns32 \<Rightarrow> riscvCSRUDesc" where
  "csru_of n = [RV_CSR_NA, RV_CSR_RW, RV_CSR_RS, RV_CSR_RC] ! unat n"

abbreviation (input) RV_MAX_AREGS :: nat where "RV_MAX_AREGS \<equiv> 4"

record riscvInstrInfo =
  i_opcode :: string
  i_format :: string
  i_thisPC :: uns64
  i_instruction :: uns32
  i_bytes :: nat
  i_type :: riscvIType
  i_arch :: riscvArchitecture
  i_explicitType :: bool
  i_explicitW :: bool
  i_unsExt :: bool
  i_csrInOp :: bool
  i_memBits :: uns32
  i_c :: uns64
  i_r :: "riscvRegDesc list"
  i_aqrl :: riscvAQRLDesc
  i_pred :: riscvFenceDesc
  i_succ :: riscvFenceDesc
  i_rm :: riscvRMDesc
  i_csrUpdate :: riscvCSRUDesc
  i_csr :: uns32

section \<open>Format strings\<close>

abbreviation (input) EMIT_R1 :: char where "EMIT_R1 \<equiv> CHR 0x01"
abbreviation (input) EMIT_R2 :: char where "EMIT_R2 \<equiv> CHR 0x02"
abbreviation (input) EMIT_R3 :: char where "EMIT_R3 \<equiv> CHR 0x03"
abbreviation (input) EMIT_R4 :: char where "EMIT_R4 \<equiv> CHR 0x04"
abbreviation (input) EMIT_CS :: char where "EMIT_CS \<equiv> CHR 0x05"
abbreviation (input) EMIT_CX :: char where "EMIT_CX \<equiv> CHR 0x06"
abbreviation (input) EMIT_UI :: char where "EMIT_UI \<equiv> CHR 0x07"
abbreviation (input) EMIT_TGT :: char where "EMIT_TGT \<equiv> CHR 0x08"
abbreviation (input) EMIT_CSR :: char where "EMIT_CSR \<equiv> CHR 0x09"
abbreviation (input) EMIT_PRED :: char where "EMIT_PRED \<equiv> CHR 0x0A"
abbreviation (input) EMIT_SUCC :: char where "EMIT_SUCC \<equiv> CHR 0x0B"

definition FMT_NONE :: string where [attr_defs]: "FMT_NONE = ''''"
definition FMT_R1 :: string where [attr_defs]: "FMT_R1 = [EMIT_R1]"
definition FMT_R1_R2 :: string where [attr_defs]: "FMT_R1_R2 = [EMIT_R1] @ '','' @ [EMIT_R2]"
definition FMT_R1NZ_R2 :: string where [attr_defs]: "FMT_R1NZ_R2 = ''*'' @ [EMIT_R1] @ '','' @ [EMIT_R2]"
definition FMT_R1_SIMM :: string where [attr_defs]: "FMT_R1_SIMM = [EMIT_R1] @ '','' @ [EMIT_CS]"
definition FMT_R1_R3 :: string where [attr_defs]: "FMT_R1_R3 = [EMIT_R1] @ '','' @ [EMIT_R3]"
definition FMT_R1_R2_R3 :: string where [attr_defs]: "FMT_R1_R2_R3 = [EMIT_R1] @ '','' @ [EMIT_R2] @ '','' @ [EMIT_R3]"
definition FMT_R1_R2_R3_R4 :: string where [attr_defs]: "FMT_R1_R2_R3_R4 = [EMIT_R1] @ '','' @ [EMIT_R2] @ '','' @ [EMIT_R3] @ '','' @ [EMIT_R4]"
definition FMT_R1_R2_SIMM :: string where [attr_defs]: "FMT_R1_R2_SIMM = [EMIT_R1] @ '','' @ [EMIT_R2] @ '','' @ [EMIT_CS]"
definition FMT_R1_R2_XIMM :: string where [attr_defs]: "FMT_R1_R2_XIMM = [EMIT_R1] @ '','' @ [EMIT_R2] @ '','' @ [EMIT_CX]"
definition FMT_R1_R2_TGT :: string where [attr_defs]: "FMT_R1_R2_TGT = [EMIT_R1] @ '','' @ [EMIT_R2] @ '','' @ [EMIT_TGT]"
definition FMT_R1_MEM2 :: string where [attr_defs]: "FMT_R1_MEM2 = [EMIT_R1] @ '',('' @ [EMIT_R2] @ '')''"
definition FMT_R1_R2_MEM3 :: string where [attr_defs]: "FMT_R1_R2_MEM3 = [EMIT_R1] @ '','' @ [EMIT_R2] @ '',('' @ [EMIT_R3] @ '')''"
definition FMT_R1_OFF_R2 :: string where [attr_defs]: "FMT_R1_OFF_R2 = [EMIT_R1] @ '','' @ [EMIT_CS] @ ''('' @ [EMIT_R2] @ '')''"
definition FMT_OFF_R2 :: string where [attr_defs]: "FMT_OFF_R2 = [EMIT_CS] @ ''('' @ [EMIT_R2] @ '')''"
definition FMT_R2 :: string where [attr_defs]: "FMT_R2 = [EMIT_R2]"
definition FMT_R1_UI :: string where [attr_defs]: "FMT_R1_UI = [EMIT_R1] @ '','' @ [EMIT_UI]"
definition FMT_R1_CSR :: string where [attr_defs]: "FMT_R1_CSR = [EMIT_R1] @ '','' @ [EMIT_CSR]"
definition FMT_R1_CSR_R2 :: string where [attr_defs]: "FMT_R1_CSR_R2 = [EMIT_R1] @ '','' @ [EMIT_CSR] @ '','' @ [EMIT_R2]"
definition FMT_R1_CSR_SIMM :: string where [attr_defs]: "FMT_R1_CSR_SIMM = [EMIT_R1] @ '','' @ [EMIT_CSR] @ '','' @ [EMIT_CS]"
definition FMT_CSR_R2 :: string where [attr_defs]: "FMT_CSR_R2 = [EMIT_CSR] @ '','' @ [EMIT_R2]"
definition FMT_CSR_SIMM :: string where [attr_defs]: "FMT_CSR_SIMM = [EMIT_CSR] @ '','' @ [EMIT_CS]"
definition FMT_R1_TGT :: string where [attr_defs]: "FMT_R1_TGT = [EMIT_R1] @ '','' @ [EMIT_TGT]"
definition FMT_R2_TGT :: string where [attr_defs]: "FMT_R2_TGT = [EMIT_R2] @ '','' @ [EMIT_TGT]"
definition FMT_TGT :: string where [attr_defs]: "FMT_TGT = [EMIT_TGT]"
definition FMT_PRED_SUCC :: string where [attr_defs]: "FMT_PRED_SUCC = [EMIT_PRED] @ '','' @ [EMIT_SUCC]"

section \<open>Operand specifications\<close>

datatype csrUpdateSpec =
  CSRUS_NA | CSRUS_13_12

datatype csrSpec =
  CSRS_NA | CSRS_31_20

datatype fenceSpec =
  FENCES_NA | FENCES_23_20 | FENCES_27_24

datatype memBitsSpec =
  MBS_NA | MBS_12 | MBS_13_12 | MBS_W | MBS_D

datatype unsExtSpec =
  USX_NA | USX_14

datatype constSpec =
  CS_NA | CS_U_19_15 | CS_S_31_20 | CS_S_31_25_11_7 | CS_SHAMT_25_20 | CS_AUIPC | CS_J | CS_B |
  CS_C_ADDI | CS_C_SLLI | CS_C_ADDI16SP | CS_C_ADDI4SPN | CS_C_LUI | CS_C_LW | CS_C_LD |
  CS_C_LWSP | CS_C_LDSP | CS_C_SWSP | CS_C_SDSP | CS_C_B | CS_C_J

datatype rSpec =
  R_NA | RS_X_ZERO | RS_X_LR | RS_X_SP | RS_X_4_2_P8 | RS_X_6_2 | RS_X_11_7 | RS_X_19_15 |
  RS_X_24_20 | RS_X_9_7_P8 | RS_XWL_11_7 | RS_XWL_19_15 | RS_XX_11_7 | RS_XX_19_15 |
  RS_F_4_2_P8 | RS_F_6_2 | RS_F_11_7 | RS_F_19_15 | RS_F_24_20 | RS_F_31_27 | RS_S_19_15 |
  RS_D_19_15

datatype wxSpec =
  WX_NA | WX_3 | WX_12 | WX_25 | WX_21_U_20 | WX_W1

datatype wfSpec =
  WF_NA | WF_25 | WF_MEM

datatype aqrlSpec =
  AQRL_NA | AQRL_26_25

datatype rmSpec =
  RM_NA | RM_14_12

section \<open>Attributes of a table entry\<close>

record opAttrs =
  a_opcode :: string
  a_pattern :: string
  a_format :: string
  a_arch :: riscvArchitecture
  a_type :: riscvIType
  a_r1 :: rSpec
  a_r2 :: rSpec
  a_r3 :: rSpec
  a_r4 :: rSpec
  a_cs :: constSpec
  a_csr :: csrSpec
  a_csrUpdate :: csrUpdateSpec
  a_wX :: wxSpec
  a_wF :: wfSpec
  a_aqrl :: aqrlSpec
  a_pred :: fenceSpec
  a_succ :: fenceSpec
  a_memBits :: memBitsSpec
  a_unsExt :: unsExtSpec
  a_rm :: rmSpec
  a_priDelta :: nat
  a_csrInOp :: bool
  a_xQuiet :: bool

text \<open>The members a designated initialiser leaves out are zero: the first member of each
  enumeration, no pattern and no format.\<close>

definition opAttrs_zero :: opAttrs where
  "opAttrs_zero =
     \<lparr>a_opcode = '''', a_pattern = '''', a_format = '''', a_arch = 0, a_type = RV_IT_MV_R,
      a_r1 = R_NA, a_r2 = R_NA, a_r3 = R_NA, a_r4 = R_NA, a_cs = CS_NA, a_csr = CSRS_NA,
      a_csrUpdate = CSRUS_NA, a_wX = WX_NA, a_wF = WF_NA, a_aqrl = AQRL_NA, a_pred = FENCES_NA,
      a_succ = FENCES_NA, a_memBits = MBS_NA, a_unsExt = USX_NA, a_rm = RM_NA, a_priDelta = 0,
      a_csrInOp = False, a_xQuiet = False\<rparr>"

text \<open>An initialiser \<^verbatim>\<open>[index] = { ... }\<close> is a pair; an array of them is read by index.\<close>

definition attrs_at :: "(nat \<times> opAttrs) list \<Rightarrow> nat \<Rightarrow> opAttrs" where
  "attrs_at xs i = (case map_of xs i of Some a \<Rightarrow> a | None \<Rightarrow> opAttrs_zero)"

section \<open>Attribute macros\<close>

definition ATTR32_ADD :: "nat \<Rightarrow> riscvIType \<Rightarrow> riscvArchitecture \<Rightarrow> string \<Rightarrow> string \<Rightarrow> nat \<times> opAttrs" where [attr_defs]:
  "ATTR32_ADD name generic arch opcode pattern =
     (name, opAttrs_zero
       \<lparr>a_opcode := opcode, a_pattern := pattern, a_format := FMT_R1_R2_R3, a_type := generic,
        a_arch := arch, a_r1 := RS_X_11_7, a_r2 := RS_X_19_15, a_r3 := RS_X_24_20, a_wX := WX_3\<rparr>)"

definition ATTR32_ADDI :: "nat \<Rightarrow> riscvIType \<Rightarrow> riscvArchitecture \<Rightarrow> string \<Rightarrow> string \<Rightarrow> nat \<times> opAttrs" where [attr_defs]:
  "ATTR32_ADDI name generic arch opcode pattern =
     (name, opAttrs_zero
       \<lparr>a_opcode := opcode, a_pattern := pattern, a_format := FMT_R1_R2_SIMM, a_type := generic,
        a_arch := arch, a_r1 := RS_X_11_7, a_r2 := RS_X_19_15, a_cs := CS_S_31_20, a_wX := WX_3\<rparr>)"

definition ATTR32_NOPI :: "nat \<Rightarrow> riscvIType \<Rightarrow> riscvArchitecture \<Rightarrow> string \<Rightarrow> string \<Rightarrow> nat \<times> opAttrs" where [attr_defs]:
  "ATTR32_NOPI name generic arch opcode pattern =
     (name, opAttrs_zero
       \<lparr>a_opcode := opcode, a_pattern := pattern, a_format := FMT_NONE, a_type := generic,
        a_r1 := RS_X_11_7, a_r2 := RS_X_19_15, a_cs := CS_S_31_20, a_arch := arch\<rparr>)"

definition ATTR32_NEG :: "nat \<Rightarrow> riscvIType \<Rightarrow> riscvArchitecture \<Rightarrow> string \<Rightarrow> string \<Rightarrow> nat \<times> opAttrs" where [attr_defs]:
  "ATTR32_NEG name generic arch opcode pattern =
     (name, opAttrs_zero
       \<lparr>a_opcode := opcode, a_pattern := pattern, a_format := FMT_R1_R3, a_type := generic,
        a_arch := arch, a_r1 := RS_X_11_7, a_r2 := RS_X_19_15, a_r3 := RS_X_24_20, a_wX := WX_3\<rparr>)"

definition ATTR32_SLTZ :: "nat \<Rightarrow> riscvIType \<Rightarrow> riscvArchitecture \<Rightarrow> string \<Rightarrow> string \<Rightarrow> nat \<times> opAttrs" where [attr_defs]:
  "ATTR32_SLTZ name generic arch opcode pattern =
     (name, opAttrs_zero
       \<lparr>a_opcode := opcode, a_pattern := pattern, a_format := FMT_R1_R2, a_type := generic,
        a_arch := arch, a_r1 := RS_X_11_7, a_r2 := RS_X_19_15, a_r3 := RS_X_24_20, a_wX := WX_3,
        a_priDelta := 1\<rparr>)"

definition ATTR32_NOP :: "nat \<Rightarrow> riscvIType \<Rightarrow> riscvArchitecture \<Rightarrow> string \<Rightarrow> string \<Rightarrow> nat \<times> opAttrs" where [attr_defs]:
  "ATTR32_NOP name generic arch opcode pattern =
     (name, opAttrs_zero
       \<lparr>a_opcode := opcode, a_pattern := pattern, a_format := FMT_NONE, a_type := generic,
        a_arch := arch\<rparr>)"

definition ATTR32_NOT :: "nat \<Rightarrow> riscvIType \<Rightarrow> riscvArchitecture \<Rightarrow> string \<Rightarrow> string \<Rightarrow> nat \<times> opAttrs" where [attr_defs]:
  "ATTR32_NOT name generic arch opcode pattern =
     (name, opAttrs_zero
       \<lparr>a_opcode := opcode, a_pattern := pattern, a_format := FMT_R1_R2, a_type := generic,
        a_arch := arch, a_r1 := RS_X_11_7, a_r2 := RS_X_19_15, a_cs := CS_S_31_20, a_wX := WX_3\<rparr>)"

definition ATTR32_LB :: "nat \<Rightarrow> riscvIType \<Rightarrow> riscvArchitecture \<Rightarrow> string \<Rightarrow> string \<Rightarrow> nat \<times> opAttrs" where [attr_defs]:
  "ATTR32_LB name generic arch opcode pattern =
     (name, opAttrs_zero
       \<lparr>a_opcode := opcode, a_pattern := pattern, a_format := FMT_R1_OFF_R2, a_type := generic,
        a_arch := arch, a_r1 := RS_X_11_7, a_r2 := RS_X_19_15, a_cs := CS_S_31_20,
        a_memBits := MBS_13_12, a_unsExt := USX_14\<rparr>)"

definition ATTR32_SB :: "nat \<Rightarrow> riscvIType \<Rightarrow> riscvArchitecture \<Rightarrow> string \<Rightarrow> string \<Rightarrow> nat \<times> opAttrs" where [attr_defs]:
  "ATTR32_SB name generic arch opcode pattern =
     (name, opAttrs_zero
       \<lparr>a_opcode := opcode, a_pattern := pattern, a_format := FMT_R1_OFF_R2, a_type := generic,
        a_arch := arch, a_r1 := RS_X_24_20, a_r2 := RS_X_19_15, a_cs := CS_S_31_25_11_7,
        a_memBits := MBS_13_12\<rparr>)"

definition ATTR32_JR :: "nat \<Rightarrow> riscvIType \<Rightarrow> riscvArchitecture \<Rightarrow> string \<Rightarrow> string \<Rightarrow> nat \<times> opAttrs" where [attr_defs]:
  "ATTR32_JR name generic arch opcode pattern =
     (name, opAttrs_zero
       \<lparr>a_opcode := opcode, a_pattern := pattern, a_format := FMT_OFF_R2, a_type := generic,
        a_arch := arch, a_r1 := RS_X_11_7, a_r2 := RS_X_19_15, a_cs := CS_S_31_20\<rparr>)"

definition ATTR32_JR0 :: "nat \<Rightarrow> riscvIType \<Rightarrow> riscvArchitecture \<Rightarrow> string \<Rightarrow> string \<Rightarrow> nat \<times> opAttrs" where [attr_defs]:
  "ATTR32_JR0 name generic arch opcode pattern =
     (name, opAttrs_zero
       \<lparr>a_opcode := opcode, a_pattern := pattern, a_format := FMT_R2, a_type := generic,
        a_arch := arch, a_r1 := RS_X_11_7, a_r2 := RS_X_19_15, a_cs := CS_S_31_20\<rparr>)"

definition ATTR32_JALR :: "nat \<Rightarrow> riscvIType \<Rightarrow> riscvArchitecture \<Rightarrow> string \<Rightarrow> string \<Rightarrow> nat \<times> opAttrs" where [attr_defs]:
  "ATTR32_JALR name generic arch opcode pattern =
     (name, opAttrs_zero
       \<lparr>a_opcode := opcode, a_pattern := pattern, a_format := FMT_R1_OFF_R2, a_type := generic,
        a_arch := arch, a_r1 := RS_X_11_7, a_r2 := RS_X_19_15, a_cs := CS_S_31_20\<rparr>)"

definition ATTR32_SLLI :: "nat \<Rightarrow> riscvIType \<Rightarrow> riscvArchitecture \<Rightarrow> string \<Rightarrow> string \<Rightarrow> nat \<times> opAttrs" where [attr_defs]:
  "ATTR32_SLLI name generic arch opcode pattern =
     (name, opAttrs_zero
       \<lparr>a_opcode := opcode, a_pattern := pattern, a_format := FMT_R1_R2_XIMM, a_type := generic,
        a_arch := arch, a_r1 := RS_X_11_7, a_r2 := RS_X_19_15, a_cs := CS_SHAMT_25_20,
        a_wX := WX_3\<rparr>)"

definition ATTR32_CSRRC :: "nat \<Rightarrow> riscvIType \<Rightarrow> riscvArchitecture \<Rightarrow> string \<Rightarrow> string \<Rightarrow> nat \<times> opAttrs" where [attr_defs]:
  "ATTR32_CSRRC name generic arch opcode pattern =
     (name, opAttrs_zero
       \<lparr>a_opcode := opcode, a_pattern := pattern, a_format := FMT_R1_CSR_R2, a_type := generic,
        a_arch := arch, a_r1 := RS_X_11_7, a_csr := CSRS_31_20, a_csrUpdate := CSRUS_13_12,
        a_r2 := RS_X_19_15\<rparr>)"

definition ATTR32_CSRR :: "nat \<Rightarrow> riscvIType \<Rightarrow> riscvArchitecture \<Rightarrow> string \<Rightarrow> string \<Rightarrow> nat \<times> opAttrs" where [attr_defs]:
  "ATTR32_CSRR name generic arch opcode pattern =
     (name, opAttrs_zero
       \<lparr>a_opcode := opcode, a_pattern := pattern, a_format := FMT_R1_CSR, a_type := generic,
        a_arch := arch, a_r1 := RS_X_11_7, a_csr := CSRS_31_20, a_csrUpdate := CSRUS_13_12,
        a_r2 := RS_X_19_15, a_priDelta := 1\<rparr>)"

definition ATTR32_CSRC :: "nat \<Rightarrow> riscvIType \<Rightarrow> riscvArchitecture \<Rightarrow> string \<Rightarrow> string \<Rightarrow> nat \<times> opAttrs" where [attr_defs]:
  "ATTR32_CSRC name generic arch opcode pattern =
     (name, opAttrs_zero
       \<lparr>a_opcode := opcode, a_pattern := pattern, a_format := FMT_CSR_R2, a_type := generic,
        a_arch := arch, a_r1 := RS_X_11_7, a_csr := CSRS_31_20, a_csrUpdate := CSRUS_13_12,
        a_r2 := RS_X_19_15\<rparr>)"

definition ATTR32_CSRRCI :: "nat \<Rightarrow> riscvIType \<Rightarrow> riscvArchitecture \<Rightarrow> string \<Rightarrow> string \<Rightarrow> nat \<times> opAttrs" where [attr_defs]:
  "ATTR32_CSRRCI name generic arch opcode pattern =
     (name, opAttrs_zero
       \<lparr>a_opcode := opcode, a_pattern := pattern, a_format := FMT_R1_CSR_SIMM, a_type := generic,
        a_arch := arch, a_r1 := RS_X_11_7, a_csr := CSRS_31_20, a_csrUpdate := CSRUS_13_12,
        a_cs := CS_U_19_15\<rparr>)"

definition ATTR32_CSRCI :: "nat \<Rightarrow> riscvIType \<Rightarrow> riscvArchitecture \<Rightarrow> string \<Rightarrow> string \<Rightarrow> nat \<times> opAttrs" where [attr_defs]:
  "ATTR32_CSRCI name generic arch opcode pattern =
     (name, opAttrs_zero
       \<lparr>a_opcode := opcode, a_pattern := pattern, a_format := FMT_CSR_SIMM, a_type := generic,
        a_arch := arch, a_r1 := RS_X_11_7, a_csr := CSRS_31_20, a_csrUpdate := CSRUS_13_12,
        a_cs := CS_U_19_15\<rparr>)"

definition ATTR32_RDX1 :: "nat \<Rightarrow> riscvIType \<Rightarrow> riscvArchitecture \<Rightarrow> string \<Rightarrow> string \<Rightarrow> nat \<times> opAttrs" where [attr_defs]:
  "ATTR32_RDX1 name generic arch opcode pattern =
     (name, opAttrs_zero
       \<lparr>a_opcode := opcode, a_pattern := pattern, a_format := FMT_R1, a_type := generic,
        a_arch := arch, a_r1 := RS_X_11_7, a_csr := CSRS_31_20, a_csrUpdate := CSRUS_13_12,
        a_r2 := RS_X_19_15, a_csrInOp := True\<rparr>)"

definition ATTR32_FENCE :: "nat \<Rightarrow> riscvIType \<Rightarrow> riscvArchitecture \<Rightarrow> string \<Rightarrow> string \<Rightarrow> nat \<times> opAttrs" where [attr_defs]:
  "ATTR32_FENCE name generic arch opcode pattern =
     (name, opAttrs_zero
       \<lparr>a_opcode := opcode, a_pattern := pattern, a_format := FMT_PRED_SUCC, a_type := generic,
        a_arch := arch, a_pred := FENCES_27_24, a_succ := FENCES_23_20\<rparr>)"

definition ATTR32_AUIPC :: "nat \<Rightarrow> riscvIType \<Rightarrow> riscvArchitecture \<Rightarrow> string \<Rightarrow> string \<Rightarrow> nat \<times> opAttrs" where [attr_defs]:
  "ATTR32_AUIPC name generic arch opcode pattern =
     (name, opAttrs_zero
       \<lparr>a_opcode := opcode, a_pattern := pattern, a_format := FMT_R1_UI, a_type := generic,
        a_arch := arch, a_r1 := RS_X_11_7, a_cs := CS_AUIPC\<rparr>)"

definition ATTR32_BEQ :: "nat \<Rightarrow> riscvIType \<Rightarrow> riscvArchitecture \<Rightarrow> string \<Rightarrow> string \<Rightarrow> nat \<times> opAttrs" where [attr_defs]:
  "ATTR32_BEQ name generic arch opcode pattern =
     (name, opAttrs_zero
       \<lparr>a_opcode := opcode, a_pattern := pattern, a_format := FMT_R1_R2_TGT, a_type := generic,
        a_arch := arch, a_r1 := RS_X_19_15, a_r2 := RS_X_24_20, a_cs := CS_B\<rparr>)"

definition ATTR32_BEQZ :: "nat \<Rightarrow> riscvIType \<Rightarrow> riscvArchitecture \<Rightarrow> string \<Rightarrow> string \<Rightarrow> nat \<times> opAttrs" where [attr_defs]:
  "ATTR32_BEQZ name generic arch opcode pattern =
     (name, opAttrs_zero
       \<lparr>a_opcode := opcode, a_pattern := pattern, a_format := FMT_R1_TGT, a_type := generic,
        a_arch := arch, a_r1 := RS_X_19_15, a_r2 := RS_X_24_20, a_cs := CS_B\<rparr>)"

definition ATTR32_BGTZ :: "nat \<Rightarrow> riscvIType \<Rightarrow> riscvArchitecture \<Rightarrow> string \<Rightarrow> string \<Rightarrow> nat \<times> opAttrs" where [attr_defs]:
  "ATTR32_BGTZ name generic arch opcode pattern =
     (name, opAttrs_zero
       \<lparr>a_opcode := opcode, a_pattern := pattern, a_format := FMT_R2_TGT, a_type := generic,
        a_arch := arch, a_r1 := RS_X_19_15, a_r2 := RS_X_24_20, a_cs := CS_B, a_priDelta := 1\<rparr>)"

definition ATTR32_J :: "nat \<Rightarrow> riscvIType \<Rightarrow> riscvArchitecture \<Rightarrow> string \<Rightarrow> string \<Rightarrow> nat \<times> opAttrs" where [attr_defs]:
  "ATTR32_J name generic arch opcode pattern =
     (name, opAttrs_zero
       \<lparr>a_opcode := opcode, a_pattern := pattern, a_format := FMT_TGT, a_type := generic,
        a_arch := arch, a_r1 := RS_X_11_7, a_cs := CS_J\<rparr>)"

definition ATTR32_JAL :: "nat \<Rightarrow> riscvIType \<Rightarrow> riscvArchitecture \<Rightarrow> string \<Rightarrow> string \<Rightarrow> nat \<times> opAttrs" where [attr_defs]:
  "ATTR32_JAL name generic arch opcode pattern =
     (name, opAttrs_zero
       \<lparr>a_opcode := opcode, a_pattern := pattern, a_format := FMT_R1_TGT, a_type := generic,
        a_arch := arch, a_r1 := RS_X_11_7, a_cs := CS_J\<rparr>)"

definition ATTR32_AMOADD :: "nat \<Rightarrow> riscvIType \<Rightarrow> riscvArchitecture \<Rightarrow> string \<Rightarrow> string \<Rightarrow> nat \<times> opAttrs" where [attr_defs]:
  "ATTR32_AMOADD name generic arch opcode pattern =
     (name, opAttrs_zero
       \<lparr>a_opcode := opcode, a_pattern := pattern, a_format := FMT_R1_R2_MEM3, a_type := generic,
        a_arch := arch, a_r1 := RS_X_11_7, a_r2 := RS_X_24_20, a_r3 := RS_X_19_15, a_wX := WX_12,
        a_aqrl := AQRL_26_25\<rparr>)"

definition ATTR32_LR :: "nat \<Rightarrow> riscvIType \<Rightarrow> riscvArchitecture \<Rightarrow> string \<Rightarrow> string \<Rightarrow> nat \<times> opAttrs" where [attr_defs]:
  "ATTR32_LR name generic arch opcode pattern =
     (name, opAttrs_zero
       \<lparr>a_opcode := opcode, a_pattern := pattern, a_format := FMT_R1_MEM2, a_type := generic,
        a_arch := arch, a_r1 := RS_X_11_7, a_r2 := RS_X_19_15, a_wX := WX_12,
        a_aqrl := AQRL_26_25\<rparr>)"

definition ATTR32_FENCE_VMA :: "nat \<Rightarrow> riscvIType \<Rightarrow> riscvArchitecture \<Rightarrow> string \<Rightarrow> string \<Rightarrow> nat \<times> opAttrs" where [attr_defs]:
  "ATTR32_FENCE_VMA name generic arch opcode pattern =
     (name, opAttrs_zero
       \<lparr>a_opcode := opcode, a_pattern := pattern, a_format := FMT_R1_R2, a_type := generic,
        a_arch := arch, a_r1 := RS_X_19_15, a_r2 := RS_X_24_20\<rparr>)"

definition ATTR32_FSQRT :: "nat \<Rightarrow> riscvIType \<Rightarrow> riscvArchitecture \<Rightarrow> string \<Rightarrow> string \<Rightarrow> nat \<times> opAttrs" where [attr_defs]:
  "ATTR32_FSQRT name generic arch opcode pattern =
     (name, opAttrs_zero
       \<lparr>a_opcode := opcode, a_pattern := pattern, a_format := FMT_R1_R2, a_type := generic,
        a_arch := arch, a_r1 := RS_F_11_7, a_r2 := RS_F_19_15, a_wF := WF_25, a_rm := RM_14_12\<rparr>)"

definition ATTR32_FADD :: "nat \<Rightarrow> riscvIType \<Rightarrow> riscvArchitecture \<Rightarrow> string \<Rightarrow> string \<Rightarrow> nat \<times> opAttrs" where [attr_defs]:
  "ATTR32_FADD name generic arch opcode pattern =
     (name, opAttrs_zero
       \<lparr>a_opcode := opcode, a_pattern := pattern, a_format := FMT_R1_R2_R3, a_type := generic,
        a_arch := arch, a_r1 := RS_F_11_7, a_r2 := RS_F_19_15, a_r3 := RS_F_24_20, a_wF := WF_25,
        a_rm := RM_14_12\<rparr>)"

definition ATTR32_FMADD :: "nat \<Rightarrow> riscvIType \<Rightarrow> riscvArchitecture \<Rightarrow> string \<Rightarrow> string \<Rightarrow> nat \<times> opAttrs" where [attr_defs]:
  "ATTR32_FMADD name generic arch opcode pattern =
     (name, opAttrs_zero
       \<lparr>a_opcode := opcode, a_pattern := pattern, a_format := FMT_R1_R2_R3_R4, a_type := generic,
        a_arch := arch, a_r1 := RS_F_11_7, a_r2 := RS_F_19_15, a_r3 := RS_F_24_20,
        a_r4 := RS_F_31_27, a_wF := WF_25, a_rm := RM_14_12\<rparr>)"

definition ATTR32_FCLASS :: "nat \<Rightarrow> riscvIType \<Rightarrow> riscvArchitecture \<Rightarrow> string \<Rightarrow> string \<Rightarrow> nat \<times> opAttrs" where [attr_defs]:
  "ATTR32_FCLASS name generic arch opcode pattern =
     (name, opAttrs_zero
       \<lparr>a_opcode := opcode, a_pattern := pattern, a_format := FMT_R1_R2, a_type := generic,
        a_arch := arch, a_r1 := RS_X_11_7, a_r2 := RS_F_19_15, a_wF := WF_25, a_xQuiet := True\<rparr>)"

definition ATTR32_FMAX :: "nat \<Rightarrow> riscvIType \<Rightarrow> riscvArchitecture \<Rightarrow> string \<Rightarrow> string \<Rightarrow> nat \<times> opAttrs" where [attr_defs]:
  "ATTR32_FMAX name generic arch opcode pattern =
     (name, opAttrs_zero
       \<lparr>a_opcode := opcode, a_pattern := pattern, a_format := FMT_R1_R2_R3, a_type := generic,
        a_arch := arch, a_r1 := RS_F_11_7, a_r2 := RS_F_19_15, a_r3 := RS_F_24_20, a_wF := WF_25\<rparr>)"

definition ATTR32_FCVT :: "nat \<Rightarrow> riscvIType \<Rightarrow> riscvArchitecture \<Rightarrow> string \<Rightarrow> string \<Rightarrow>
    rSpec \<Rightarrow> rSpec \<Rightarrow> nat \<times> opAttrs" where [attr_defs]:
  "ATTR32_FCVT name generic arch opcode pattern dst src =
     (name, opAttrs_zero
       \<lparr>a_opcode := opcode, a_pattern := pattern, a_format := FMT_R1_R2, a_type := generic,
        a_arch := arch, a_r1 := dst, a_r2 := src, a_wX := WX_21_U_20, a_wF := WF_25,
        a_rm := RM_14_12\<rparr>)"

definition ATTR32_FEQ :: "nat \<Rightarrow> riscvIType \<Rightarrow> riscvArchitecture \<Rightarrow> string \<Rightarrow> string \<Rightarrow> nat \<times> opAttrs" where [attr_defs]:
  "ATTR32_FEQ name generic arch opcode pattern =
     (name, opAttrs_zero
       \<lparr>a_opcode := opcode, a_pattern := pattern, a_format := FMT_R1_R2_R3, a_type := generic,
        a_arch := arch, a_r1 := RS_X_11_7, a_r2 := RS_F_19_15, a_r3 := RS_F_24_20, a_wF := WF_25,
        a_xQuiet := True\<rparr>)"

definition ATTR32_FL :: "nat \<Rightarrow> riscvIType \<Rightarrow> riscvArchitecture \<Rightarrow> string \<Rightarrow> string \<Rightarrow> nat \<times> opAttrs" where [attr_defs]:
  "ATTR32_FL name generic arch opcode pattern =
     (name, opAttrs_zero
       \<lparr>a_opcode := opcode, a_pattern := pattern, a_format := FMT_R1_OFF_R2, a_type := generic,
        a_arch := arch, a_r1 := RS_F_11_7, a_r2 := RS_X_19_15, a_cs := CS_S_31_20,
        a_memBits := MBS_12, a_wF := WF_MEM, a_xQuiet := True\<rparr>)"

definition ATTR32_FS :: "nat \<Rightarrow> riscvIType \<Rightarrow> riscvArchitecture \<Rightarrow> string \<Rightarrow> string \<Rightarrow> nat \<times> opAttrs" where [attr_defs]:
  "ATTR32_FS name generic arch opcode pattern =
     (name, opAttrs_zero
       \<lparr>a_opcode := opcode, a_pattern := pattern, a_format := FMT_R1_OFF_R2, a_type := generic,
        a_arch := arch, a_r1 := RS_F_24_20, a_r2 := RS_X_19_15, a_cs := CS_S_31_25_11_7,
        a_memBits := MBS_12, a_wF := WF_MEM, a_xQuiet := True\<rparr>)"

definition ATTR32_FMVFX :: "nat \<Rightarrow> riscvIType \<Rightarrow> riscvArchitecture \<Rightarrow> string \<Rightarrow> string \<Rightarrow> nat \<times> opAttrs" where [attr_defs]:
  "ATTR32_FMVFX name generic arch opcode pattern =
     (name, opAttrs_zero
       \<lparr>a_opcode := opcode, a_pattern := pattern, a_format := FMT_R1_R2, a_type := generic,
        a_arch := arch, a_r1 := RS_F_11_7, a_r2 := RS_XX_19_15, a_wF := WF_25, a_wX := WX_25\<rparr>)"

definition ATTR32_FMVXF :: "nat \<Rightarrow> riscvIType \<Rightarrow> riscvArchitecture \<Rightarrow> string \<Rightarrow> string \<Rightarrow> nat \<times> opAttrs" where [attr_defs]:
  "ATTR32_FMVXF name generic arch opcode pattern =
     (name, opAttrs_zero
       \<lparr>a_opcode := opcode, a_pattern := pattern, a_format := FMT_R1_R2, a_type := generic,
        a_arch := arch, a_r1 := RS_XX_11_7, a_r2 := RS_F_19_15, a_wF := WF_25, a_wX := WX_25\<rparr>)"

definition ATTR32_FRSR :: "nat \<Rightarrow> riscvIType \<Rightarrow> riscvArchitecture \<Rightarrow> string \<Rightarrow> string \<Rightarrow> nat \<times> opAttrs" where [attr_defs]:
  "ATTR32_FRSR name generic arch opcode pattern =
     (name, opAttrs_zero
       \<lparr>a_opcode := opcode, a_pattern := pattern, a_format := FMT_R1, a_type := generic,
        a_arch := arch, a_r1 := RS_X_11_7, a_csr := CSRS_31_20, a_csrUpdate := CSRUS_13_12,
        a_r2 := RS_X_19_15\<rparr>)"

definition ATTR32_FSSR :: "nat \<Rightarrow> riscvIType \<Rightarrow> riscvArchitecture \<Rightarrow> string \<Rightarrow> string \<Rightarrow> nat \<times> opAttrs" where [attr_defs]:
  "ATTR32_FSSR name generic arch opcode pattern =
     (name, opAttrs_zero
       \<lparr>a_opcode := opcode, a_pattern := pattern, a_format := FMT_R1NZ_R2, a_type := generic,
        a_arch := arch, a_r1 := RS_X_11_7, a_csr := CSRS_31_20, a_csrUpdate := CSRUS_13_12,
        a_r2 := RS_X_19_15\<rparr>)"

definition ATTR32_CUSTOM :: "nat \<Rightarrow> riscvIType \<Rightarrow> riscvArchitecture \<Rightarrow> string \<Rightarrow> string \<Rightarrow> nat \<times> opAttrs" where [attr_defs]:
  "ATTR32_CUSTOM name generic arch opcode pattern =
     (name, opAttrs_zero
       \<lparr>a_opcode := opcode, a_pattern := pattern, a_format := FMT_NONE, a_type := generic,
        a_arch := arch\<rparr>)"

definition ATTR32_LAST :: "nat \<Rightarrow> riscvIType \<Rightarrow> string \<Rightarrow> nat \<times> opAttrs" where [attr_defs]:
  "ATTR32_LAST name generic opcode =
     (name, opAttrs_zero
       \<lparr>a_opcode := opcode, a_format := FMT_NONE, a_type := generic\<rparr>)"

definition ATTR16_NOP :: "nat \<Rightarrow> riscvIType \<Rightarrow> riscvArchitecture \<Rightarrow> string \<Rightarrow> string \<Rightarrow> nat \<times> opAttrs" where [attr_defs]:
  "ATTR16_NOP name generic arch opcode pattern =
     (name, opAttrs_zero
       \<lparr>a_opcode := opcode, a_pattern := pattern, a_format := FMT_NONE, a_type := generic,
        a_arch := arch\<rparr>)"

definition ATTR16_ADD :: "nat \<Rightarrow> riscvIType \<Rightarrow> riscvArchitecture \<Rightarrow> string \<Rightarrow> string \<Rightarrow> nat \<times> opAttrs" where [attr_defs]:
  "ATTR16_ADD name generic arch opcode pattern =
     (name, opAttrs_zero
       \<lparr>a_opcode := opcode, a_pattern := pattern, a_format := FMT_R1_R2_R3, a_type := generic,
        a_arch := arch, a_r1 := RS_X_11_7, a_r2 := RS_X_11_7, a_r3 := RS_X_6_2\<rparr>)"

definition ATTR16_AND :: "nat \<Rightarrow> riscvIType \<Rightarrow> riscvArchitecture \<Rightarrow> string \<Rightarrow> string \<Rightarrow> nat \<times> opAttrs" where [attr_defs]:
  "ATTR16_AND name generic arch opcode pattern =
     (name, opAttrs_zero
       \<lparr>a_opcode := opcode, a_pattern := pattern, a_format := FMT_R1_R2_R3, a_type := generic,
        a_arch := arch, a_r1 := RS_X_9_7_P8, a_r2 := RS_X_9_7_P8, a_r3 := RS_X_4_2_P8\<rparr>)"

definition ATTR16_ADDW :: "nat \<Rightarrow> riscvIType \<Rightarrow> riscvArchitecture \<Rightarrow> string \<Rightarrow> string \<Rightarrow> nat \<times> opAttrs" where [attr_defs]:
  "ATTR16_ADDW name generic arch opcode pattern =
     (name, opAttrs_zero
       \<lparr>a_opcode := opcode, a_pattern := pattern, a_format := FMT_R1_R2_R3, a_type := generic,
        a_arch := arch, a_r1 := RS_X_9_7_P8, a_r2 := RS_X_9_7_P8, a_r3 := RS_X_4_2_P8,
        a_wX := WX_W1\<rparr>)"

definition ATTR16_MV :: "nat \<Rightarrow> riscvIType \<Rightarrow> riscvArchitecture \<Rightarrow> string \<Rightarrow> string \<Rightarrow> nat \<times> opAttrs" where [attr_defs]:
  "ATTR16_MV name generic arch opcode pattern =
     (name, opAttrs_zero
       \<lparr>a_opcode := opcode, a_pattern := pattern, a_format := FMT_R1_R2, a_type := generic,
        a_arch := arch, a_r1 := RS_X_11_7, a_r2 := RS_X_6_2\<rparr>)"

definition ATTR16_ADDI :: "nat \<Rightarrow> riscvIType \<Rightarrow> riscvArchitecture \<Rightarrow> string \<Rightarrow> string \<Rightarrow> nat \<times> opAttrs" where [attr_defs]:
  "ATTR16_ADDI name generic arch opcode pattern =
     (name, opAttrs_zero
       \<lparr>a_opcode := opcode, a_pattern := pattern, a_format := FMT_R1_R2_SIMM, a_type := generic,
        a_arch := arch, a_r1 := RS_X_11_7, a_r2 := RS_X_11_7, a_cs := CS_C_ADDI\<rparr>)"

definition ATTR16_ADDI16SP :: "nat \<Rightarrow> riscvIType \<Rightarrow> riscvArchitecture \<Rightarrow> string \<Rightarrow> string \<Rightarrow> nat \<times> opAttrs" where [attr_defs]:
  "ATTR16_ADDI16SP name generic arch opcode pattern =
     (name, opAttrs_zero
       \<lparr>a_opcode := opcode, a_pattern := pattern, a_format := FMT_R1_R2_SIMM, a_type := generic,
        a_arch := arch, a_r1 := RS_X_SP, a_r2 := RS_X_SP, a_cs := CS_C_ADDI16SP\<rparr>)"

definition ATTR16_ADDI4SPN :: "nat \<Rightarrow> riscvIType \<Rightarrow> riscvArchitecture \<Rightarrow> string \<Rightarrow> string \<Rightarrow> nat \<times> opAttrs" where [attr_defs]:
  "ATTR16_ADDI4SPN name generic arch opcode pattern =
     (name, opAttrs_zero
       \<lparr>a_opcode := opcode, a_pattern := pattern, a_format := FMT_R1_R2_SIMM, a_type := generic,
        a_arch := arch, a_r1 := RS_X_4_2_P8, a_r2 := RS_X_SP, a_cs := CS_C_ADDI4SPN\<rparr>)"

definition ATTR16_ADDIW :: "nat \<Rightarrow> riscvIType \<Rightarrow> riscvArchitecture \<Rightarrow> string \<Rightarrow> string \<Rightarrow> nat \<times> opAttrs" where [attr_defs]:
  "ATTR16_ADDIW name generic arch opcode pattern =
     (name, opAttrs_zero
       \<lparr>a_opcode := opcode, a_pattern := pattern, a_format := FMT_R1_R2_SIMM, a_type := generic,
        a_arch := arch, a_r1 := RS_X_11_7, a_r2 := RS_X_11_7, a_cs := CS_C_ADDI, a_wX := WX_W1\<rparr>)"

definition ATTR16_ANDI :: "nat \<Rightarrow> riscvIType \<Rightarrow> riscvArchitecture \<Rightarrow> string \<Rightarrow> string \<Rightarrow> nat \<times> opAttrs" where [attr_defs]:
  "ATTR16_ANDI name generic arch opcode pattern =
     (name, opAttrs_zero
       \<lparr>a_opcode := opcode, a_pattern := pattern, a_format := FMT_R1_R2_SIMM, a_type := generic,
        a_arch := arch, a_r1 := RS_X_9_7_P8, a_r2 := RS_X_9_7_P8, a_cs := CS_C_ADDI\<rparr>)"

definition ATTR16_SLLI :: "nat \<Rightarrow> riscvIType \<Rightarrow> riscvArchitecture \<Rightarrow> string \<Rightarrow> string \<Rightarrow> nat \<times> opAttrs" where [attr_defs]:
  "ATTR16_SLLI name generic arch opcode pattern =
     (name, opAttrs_zero
       \<lparr>a_opcode := opcode, a_pattern := pattern, a_format := FMT_R1_R2_XIMM, a_type := generic,
        a_arch := arch, a_r1 := RS_X_11_7, a_r2 := RS_X_11_7, a_cs := CS_C_SLLI\<rparr>)"

definition ATTR16_SRAI :: "nat \<Rightarrow> riscvIType \<Rightarrow> riscvArchitecture \<Rightarrow> string \<Rightarrow> string \<Rightarrow> nat \<times> opAttrs" where [attr_defs]:
  "ATTR16_SRAI name generic arch opcode pattern =
     (name, opAttrs_zero
       \<lparr>a_opcode := opcode, a_pattern := pattern, a_format := FMT_R1_R2_XIMM, a_type := generic,
        a_arch := arch, a_r1 := RS_X_9_7_P8, a_r2 := RS_X_9_7_P8, a_cs := CS_C_SLLI\<rparr>)"

definition ATTR16_BEQZ :: "nat \<Rightarrow> riscvIType \<Rightarrow> riscvArchitecture \<Rightarrow> string \<Rightarrow> string \<Rightarrow> nat \<times> opAttrs" where [attr_defs]:
  "ATTR16_BEQZ name generic arch opcode pattern =
     (name, opAttrs_zero
       \<lparr>a_opcode := opcode, a_pattern := pattern, a_format := FMT_R1_TGT, a_type := generic,
        a_arch := arch, a_r1 := RS_X_9_7_P8, a_r2 := RS_X_ZERO, a_cs := CS_C_B\<rparr>)"

definition ATTR16_J :: "nat \<Rightarrow> riscvIType \<Rightarrow> riscvArchitecture \<Rightarrow> string \<Rightarrow> string \<Rightarrow> nat \<times> opAttrs" where [attr_defs]:
  "ATTR16_J name generic arch opcode pattern =
     (name, opAttrs_zero
       \<lparr>a_opcode := opcode, a_pattern := pattern, a_format := FMT_TGT, a_type := generic,
        a_arch := arch, a_r1 := RS_X_ZERO, a_cs := CS_C_J\<rparr>)"

definition ATTR16_JAL :: "nat \<Rightarrow> riscvIType \<Rightarrow> riscvArchitecture \<Rightarrow> string \<Rightarrow> string \<Rightarrow> nat \<times> opAttrs" where [attr_defs]:
  "ATTR16_JAL name generic arch opcode pattern =
     (name, opAttrs_zero
       \<lparr>a_opcode := opcode, a_pattern := pattern, a_format := FMT_R1_TGT, a_type := generic,
        a_arch := arch, a_r1 := RS_X_LR, a_cs := CS_C_J\<rparr>)"

definition ATTR16_JR :: "nat \<Rightarrow> riscvIType \<Rightarrow> riscvArchitecture \<Rightarrow> string \<Rightarrow> string \<Rightarrow> nat \<times> opAttrs" where [attr_defs]:
  "ATTR16_JR name generic arch opcode pattern =
     (name, opAttrs_zero
       \<lparr>a_opcode := opcode, a_pattern := pattern, a_format := FMT_R2, a_type := generic,
        a_arch := arch, a_r1 := RS_X_ZERO, a_r2 := RS_X_11_7\<rparr>)"

definition ATTR16_JALR :: "nat \<Rightarrow> riscvIType \<Rightarrow> riscvArchitecture \<Rightarrow> string \<Rightarrow> string \<Rightarrow> nat \<times> opAttrs" where [attr_defs]:
  "ATTR16_JALR name generic arch opcode pattern =
     (name, opAttrs_zero
       \<lparr>a_opcode := opcode, a_pattern := pattern, a_format := FMT_R2, a_type := generic,
        a_arch := arch, a_r1 := RS_X_LR, a_r2 := RS_X_11_7\<rparr>)"

definition ATTR16_LI :: "nat \<Rightarrow> riscvIType \<Rightarrow> riscvArchitecture \<Rightarrow> string \<Rightarrow> string \<Rightarrow> nat \<times> opAttrs" where [attr_defs]:
  "ATTR16_LI name generic arch opcode pattern =
     (name, opAttrs_zero
       \<lparr>a_opcode := opcode, a_pattern := pattern, a_format := FMT_R1_SIMM, a_type := generic,
        a_arch := arch, a_r1 := RS_X_11_7, a_r2 := RS_X_ZERO, a_cs := CS_C_ADDI\<rparr>)"

definition ATTR16_LUI :: "nat \<Rightarrow> riscvIType \<Rightarrow> riscvArchitecture \<Rightarrow> string \<Rightarrow> string \<Rightarrow> nat \<times> opAttrs" where [attr_defs]:
  "ATTR16_LUI name generic arch opcode pattern =
     (name, opAttrs_zero
       \<lparr>a_opcode := opcode, a_pattern := pattern, a_format := FMT_R1_UI, a_type := generic,
        a_arch := arch, a_r1 := RS_X_11_7, a_r2 := RS_X_ZERO, a_cs := CS_C_LUI\<rparr>)"

definition ATTR16_LD :: "nat \<Rightarrow> riscvIType \<Rightarrow> riscvArchitecture \<Rightarrow> string \<Rightarrow> string \<Rightarrow> nat \<times> opAttrs" where [attr_defs]:
  "ATTR16_LD name generic arch opcode pattern =
     (name, opAttrs_zero
       \<lparr>a_opcode := opcode, a_pattern := pattern, a_format := FMT_R1_OFF_R2, a_type := generic,
        a_arch := arch, a_r1 := RS_X_4_2_P8, a_r2 := RS_X_9_7_P8, a_cs := CS_C_LD,
        a_memBits := MBS_D\<rparr>)"

definition ATTR16_LDSP :: "nat \<Rightarrow> riscvIType \<Rightarrow> riscvArchitecture \<Rightarrow> string \<Rightarrow> string \<Rightarrow> nat \<times> opAttrs" where [attr_defs]:
  "ATTR16_LDSP name generic arch opcode pattern =
     (name, opAttrs_zero
       \<lparr>a_opcode := opcode, a_pattern := pattern, a_format := FMT_R1_OFF_R2, a_type := generic,
        a_arch := arch, a_r1 := RS_X_11_7, a_r2 := RS_X_SP, a_cs := CS_C_LDSP, a_memBits := MBS_D\<rparr>)"

definition ATTR16_SDSP :: "nat \<Rightarrow> riscvIType \<Rightarrow> riscvArchitecture \<Rightarrow> string \<Rightarrow> string \<Rightarrow> nat \<times> opAttrs" where [attr_defs]:
  "ATTR16_SDSP name generic arch opcode pattern =
     (name, opAttrs_zero
       \<lparr>a_opcode := opcode, a_pattern := pattern, a_format := FMT_R1_OFF_R2, a_type := generic,
        a_arch := arch, a_r1 := RS_X_6_2, a_r2 := RS_X_SP, a_cs := CS_C_SDSP, a_memBits := MBS_D\<rparr>)"

definition ATTR16_LW :: "nat \<Rightarrow> riscvIType \<Rightarrow> riscvArchitecture \<Rightarrow> string \<Rightarrow> string \<Rightarrow> nat \<times> opAttrs" where [attr_defs]:
  "ATTR16_LW name generic arch opcode pattern =
     (name, opAttrs_zero
       \<lparr>a_opcode := opcode, a_pattern := pattern, a_format := FMT_R1_OFF_R2, a_type := generic,
        a_arch := arch, a_r1 := RS_X_4_2_P8, a_r2 := RS_X_9_7_P8, a_cs := CS_C_LW,
        a_memBits := MBS_W, a_wF := WF_MEM, a_xQuiet := True\<rparr>)"

definition ATTR16_LWSP :: "nat \<Rightarrow> riscvIType \<Rightarrow> riscvArchitecture \<Rightarrow> string \<Rightarrow> string \<Rightarrow> nat \<times> opAttrs" where [attr_defs]:
  "ATTR16_LWSP name generic arch opcode pattern =
     (name, opAttrs_zero
       \<lparr>a_opcode := opcode, a_pattern := pattern, a_format := FMT_R1_OFF_R2, a_type := generic,
        a_arch := arch, a_r1 := RS_X_11_7, a_r2 := RS_X_SP, a_cs := CS_C_LWSP,
        a_memBits := MBS_W, a_wF := WF_MEM, a_xQuiet := True\<rparr>)"

definition ATTR16_SWSP :: "nat \<Rightarrow> riscvIType \<Rightarrow> riscvArchitecture \<Rightarrow> string \<Rightarrow> string \<Rightarrow> nat \<times> opAttrs" where [attr_defs]:
  "ATTR16_SWSP name generic arch opcode pattern =
     (name, opAttrs_zero
       \<lparr>a_opcode := opcode, a_pattern := pattern, a_format := FMT_R1_OFF_R2, a_type := generic,
        a_arch := arch, a_r1 := RS_X_6_2, a_r2 := RS_X_SP, a_cs := CS_C_SWSP, a_memBits := MBS_W\<rparr>)"

definition ATTR16_FLD :: "nat \<Rightarrow> riscvIType \<Rightarrow> riscvArchitecture \<Rightarrow> string \<Rightarrow> string \<Rightarrow> nat \<times> opAttrs" where [attr_defs]:
  "ATTR16_FLD name generic arch opcode pattern =
     (name, opAttrs_zero
       \<lparr>a_opcode := opcode, a_pattern := pattern, a_format := FMT_R1_OFF_R2, a_type := generic,
        a_arch := arch, a_r1 := RS_F_4_2_P8, a_r2 := RS_X_9_7_P8, a_cs := CS_C_LD,
        a_memBits := MBS_D, a_wF := WF_MEM, a_xQuiet := True\<rparr>)"

definition ATTR16_FLDSP :: "nat \<Rightarrow> riscvIType \<Rightarrow> riscvArchitecture \<Rightarrow> string \<Rightarrow> string \<Rightarrow> nat \<times> opAttrs" where [attr_defs]:
  "ATTR16_FLDSP name generic arch opcode pattern =
     (name, opAttrs_zero
       \<lparr>a_opcode := opcode, a_pattern := pattern, a_format := FMT_R1_OFF_R2, a_type := generic,
        a_arch := arch, a_r1 := RS_F_11_7, a_r2 := RS_X_SP, a_cs := CS_C_LDSP,
        a_memBits := MBS_D, a_wF := WF_MEM, a_xQuiet := True\<rparr>)"

definition ATTR16_FSDSP :: "nat \<Rightarrow> riscvIType \<Rightarrow> riscvArchitecture \<Rightarrow> string \<Rightarrow> string \<Rightarrow> nat \<times> opAttrs" where [attr_defs]:
  "ATTR16_FSDSP name generic arch opcode pattern =
     (name, opAttrs_zero
       \<lparr>a_opcode := opcode, a_pattern := pattern, a_format := FMT_R1_OFF_R2, a_type := generic,
        a_arch := arch, a_r1 := RS_F_6_2, a_r2 := RS_X_SP, a_cs := CS_C_SDSP, a_memBits := MBS_D,
        a_wF := WF_MEM, a_xQuiet := True\<rparr>)"

definition ATTR16_FLW :: "nat \<Rightarrow> riscvIType \<Rightarrow> riscvArchitecture \<Rightarrow> string \<Rightarrow> string \<Rightarrow> nat \<times> opAttrs" where [attr_defs]:
  "ATTR16_FLW name generic arch opcode pattern =
     (name, opAttrs_zero
       \<lparr>a_opcode := opcode, a_pattern := pattern, a_format := FMT_R1_OFF_R2, a_type := generic,
        a_arch := arch, a_r1 := RS_F_4_2_P8, a_r2 := RS_X_9_7_P8, a_cs := CS_C_LW,
        a_memBits := MBS_W, a_wF := WF_MEM, a_xQuiet := True\<rparr>)"

definition ATTR16_FLWSP :: "nat \<Rightarrow> riscvIType \<Rightarrow> riscvArchitecture \<Rightarrow> string \<Rightarrow> string \<Rightarrow> nat \<times> opAttrs" where [attr_defs]:
  "ATTR16_FLWSP name generic arch opcode pattern =
     (name, opAttrs_zero
       \<lparr>a_opcode := opcode, a_pattern := pattern, a_format := FMT_R1_OFF_R2, a_type := generic,
        a_arch := arch, a_r1 := RS_F_11_7, a_r2 := RS_X_SP, a_cs := CS_C_LWSP,
        a_memBits := MBS_W, a_wF := WF_MEM, a_xQuiet := True\<rparr>)"

definition ATTR16_FSWSP :: "nat \<Rightarrow> riscvIType \<Rightarrow> riscvArchitecture \<Rightarrow> string \<Rightarrow> string \<Rightarrow> nat \<times> opAttrs" where [attr_defs]:
  "ATTR16_FSWSP name generic arch opcode pattern =
     (name, opAttrs_zero
       \<lparr>a_opcode := opcode, a_pattern := pattern, a_format := FMT_R1_OFF_R2, a_type := generic,
        a_arch := arch, a_r1 := RS_F_6_2, a_r2 := RS_X_SP, a_cs := CS_C_SWSP, a_memBits := MBS_W,
        a_wF := WF_MEM, a_xQuiet := True\<rparr>)"

definition ATTR16_LAST :: "nat \<Rightarrow> riscvIType \<Rightarrow> string \<Rightarrow> nat \<times> opAttrs" where [attr_defs]:
  "ATTR16_LAST name generic opcode =
     (name, opAttrs_zero
       \<lparr>a_opcode := opcode, a_format := FMT_NONE, a_type := generic\<rparr>)"

end
