(* ===== verification/RiscvDecode.thy ===== *)
theory RiscvDecode
  imports RiscvDecodeTypes
begin

text \<open>
  \<^verbatim>\<open>riscvDecode.c\<close>: the attribute tables of the 32-bit and the compressed instructions, the
  decode tables built from them, the extraction of every operand field, and \<^verbatim>\<open>riscvDecode\<close>
  itself. The table lookup \<^verbatim>\<open>vmidDecode\<close> belongs to the simulator's VMID library: it is the
  parameter \<open>D\<close> of the definitions here, and \<open>vmid_ok\<close> is what its documentation promises,
  that a table returns the entry of highest priority whose pattern matches the instruction, a
  derived priority being the number of fixed bits of the pattern. The tables are built on first
  use and never change, so the static pointers to them are not part of the state.
\<close>

section \<open>The VMID decode tables\<close>

record vmidEntry =
  ve_name :: string
  ve_id :: nat
  ve_pattern :: string
  ve_priDelta :: nat

record vmidTable =
  vt_bits :: nat
  vt_default :: nat
  vt_entries :: "vmidEntry list"

type_synonym vmidDecoder = "vmidTable \<Rightarrow> uns32 \<Rightarrow> nat"

text \<open>The calls that build a table, as the record of their arguments: \<^verbatim>\<open>vmidNewDecodeTable(bits,
  default)\<close> and \<^verbatim>\<open>vmidNewEntryFmtBin(table, name, id, pattern, VMID_DERIVE_PRIORITY + delta)\<close>.\<close>

definition vmidNewDecodeTable :: "nat \<Rightarrow> nat \<Rightarrow> vmidTable" where
  "vmidNewDecodeTable bits def = \<lparr>vt_bits = bits, vt_default = def, vt_entries = []\<rparr>"

definition vmidNewEntryFmtBin :: "vmidTable \<Rightarrow> string \<Rightarrow> nat \<Rightarrow> string \<Rightarrow> nat \<Rightarrow> vmidTable" where
  "vmidNewEntryFmtBin t name i pattern delta =
     t\<lparr>vt_entries := vt_entries t @
        [\<lparr>ve_name = name, ve_id = i, ve_pattern = pattern, ve_priDelta = delta\<rparr>]\<rparr>"

text \<open>A pattern lists the bits of the instruction from the top: fixed bits, dots for free bits,
  and bars that only separate fields. \<open>pat_bits\<close> lists its bits from bit 0; an instruction
  matches when it agrees with every fixed bit.\<close>

datatype patBit = B0 | B1 | BX

fun pat_scan :: "string \<Rightarrow> patBit list \<Rightarrow> patBit list" where
  "pat_scan [] acc = acc"
| "pat_scan (c # cs) acc =
     pat_scan cs (if c = CHR ''0'' then B0 # acc else if c = CHR ''1'' then B1 # acc
                  else if c = CHR ''.'' then BX # acc else acc)"

definition pat_bits :: "string \<Rightarrow> patBit list" where
  "pat_bits p = pat_scan p []"

fun bits_match :: "patBit list \<Rightarrow> nat \<Rightarrow> uns32 \<Rightarrow> bool" where
  "bits_match [] k i = True"
| "bits_match (B0 # bs) k i \<longleftrightarrow> \<not> bit i k \<and> bits_match bs (Suc k) i"
| "bits_match (B1 # bs) k i \<longleftrightarrow> bit i k \<and> bits_match bs (Suc k) i"
| "bits_match (BX # bs) k i = bits_match bs (Suc k) i"

fun bits_fixed :: "patBit list \<Rightarrow> nat" where
  "bits_fixed [] = 0"
| "bits_fixed (BX # bs) = bits_fixed bs"
| "bits_fixed (b # bs) = 1 + bits_fixed bs"

definition entry_matches :: "uns32 \<Rightarrow> vmidEntry \<Rightarrow> bool" where
  "entry_matches i e = bits_match (pat_bits (ve_pattern e)) 0 i"

definition entry_priority :: "vmidEntry \<Rightarrow> nat" where
  "entry_priority e = bits_fixed (pat_bits (ve_pattern e)) + ve_priDelta e"

definition vmid_ok :: "vmidDecoder \<Rightarrow> bool" where
  "vmid_ok D \<longleftrightarrow> (\<forall>t i.
     (if \<exists>e\<in>set (vt_entries t). entry_matches i e
      then \<exists>e\<in>set (vt_entries t). entry_matches i e \<and> D t i = ve_id e \<and>
             (\<forall>e'\<in>set (vt_entries t). entry_matches i e' \<longrightarrow> entry_priority e' \<le> entry_priority e)
      else D t i = vt_default t))"

section \<open>Instruction types and attribute tables\<close>

type_synonym riscvIType32 = nat

abbreviation (input) IT32_ADD_R :: riscvIType32 where "IT32_ADD_R \<equiv> 0"
abbreviation (input) IT32_AND_R :: riscvIType32 where "IT32_AND_R \<equiv> 1"
abbreviation (input) IT32_OR_R :: riscvIType32 where "IT32_OR_R \<equiv> 2"
abbreviation (input) IT32_NEG_R :: riscvIType32 where "IT32_NEG_R \<equiv> 3"
abbreviation (input) IT32_SGTZ_R :: riscvIType32 where "IT32_SGTZ_R \<equiv> 4"
abbreviation (input) IT32_SLL_R :: riscvIType32 where "IT32_SLL_R \<equiv> 5"
abbreviation (input) IT32_SLT_R :: riscvIType32 where "IT32_SLT_R \<equiv> 6"
abbreviation (input) IT32_SLTU_R :: riscvIType32 where "IT32_SLTU_R \<equiv> 7"
abbreviation (input) IT32_SLTZ_R :: riscvIType32 where "IT32_SLTZ_R \<equiv> 8"
abbreviation (input) IT32_SNEZ_R :: riscvIType32 where "IT32_SNEZ_R \<equiv> 9"
abbreviation (input) IT32_SRA_R :: riscvIType32 where "IT32_SRA_R \<equiv> 10"
abbreviation (input) IT32_SRL_R :: riscvIType32 where "IT32_SRL_R \<equiv> 11"
abbreviation (input) IT32_SUB_R :: riscvIType32 where "IT32_SUB_R \<equiv> 12"
abbreviation (input) IT32_XOR_R :: riscvIType32 where "IT32_XOR_R \<equiv> 13"
abbreviation (input) IT32_DIV_R :: riscvIType32 where "IT32_DIV_R \<equiv> 14"
abbreviation (input) IT32_DIVU_R :: riscvIType32 where "IT32_DIVU_R \<equiv> 15"
abbreviation (input) IT32_MUL_R :: riscvIType32 where "IT32_MUL_R \<equiv> 16"
abbreviation (input) IT32_MULH_R :: riscvIType32 where "IT32_MULH_R \<equiv> 17"
abbreviation (input) IT32_MULHSU_R :: riscvIType32 where "IT32_MULHSU_R \<equiv> 18"
abbreviation (input) IT32_MULHU_R :: riscvIType32 where "IT32_MULHU_R \<equiv> 19"
abbreviation (input) IT32_REM_R :: riscvIType32 where "IT32_REM_R \<equiv> 20"
abbreviation (input) IT32_REMU_R :: riscvIType32 where "IT32_REMU_R \<equiv> 21"
abbreviation (input) IT32_ADDI_I :: riscvIType32 where "IT32_ADDI_I \<equiv> 22"
abbreviation (input) IT32_ANDI_I :: riscvIType32 where "IT32_ANDI_I \<equiv> 23"
abbreviation (input) IT32_JR_I :: riscvIType32 where "IT32_JR_I \<equiv> 24"
abbreviation (input) IT32_JR0_I :: riscvIType32 where "IT32_JR0_I \<equiv> 25"
abbreviation (input) IT32_JALR_I :: riscvIType32 where "IT32_JALR_I \<equiv> 26"
abbreviation (input) IT32_JALR0_I :: riscvIType32 where "IT32_JALR0_I \<equiv> 27"
abbreviation (input) IT32_MV_I :: riscvIType32 where "IT32_MV_I \<equiv> 28"
abbreviation (input) IT32_NOP_I :: riscvIType32 where "IT32_NOP_I \<equiv> 29"
abbreviation (input) IT32_NOT_I :: riscvIType32 where "IT32_NOT_I \<equiv> 30"
abbreviation (input) IT32_ORI_I :: riscvIType32 where "IT32_ORI_I \<equiv> 31"
abbreviation (input) IT32_RET_I :: riscvIType32 where "IT32_RET_I \<equiv> 32"
abbreviation (input) IT32_SEQZ_I :: riscvIType32 where "IT32_SEQZ_I \<equiv> 33"
abbreviation (input) IT32_SEXTW_I :: riscvIType32 where "IT32_SEXTW_I \<equiv> 34"
abbreviation (input) IT32_SLLI_I :: riscvIType32 where "IT32_SLLI_I \<equiv> 35"
abbreviation (input) IT32_SLTI_I :: riscvIType32 where "IT32_SLTI_I \<equiv> 36"
abbreviation (input) IT32_SLTIU_I :: riscvIType32 where "IT32_SLTIU_I \<equiv> 37"
abbreviation (input) IT32_SRAI_I :: riscvIType32 where "IT32_SRAI_I \<equiv> 38"
abbreviation (input) IT32_SRLI_I :: riscvIType32 where "IT32_SRLI_I \<equiv> 39"
abbreviation (input) IT32_XORI_I :: riscvIType32 where "IT32_XORI_I \<equiv> 40"
abbreviation (input) IT32_LB_I :: riscvIType32 where "IT32_LB_I \<equiv> 41"
abbreviation (input) IT32_LBU_I :: riscvIType32 where "IT32_LBU_I \<equiv> 42"
abbreviation (input) IT32_LH_I :: riscvIType32 where "IT32_LH_I \<equiv> 43"
abbreviation (input) IT32_LHU_I :: riscvIType32 where "IT32_LHU_I \<equiv> 44"
abbreviation (input) IT32_LW_I :: riscvIType32 where "IT32_LW_I \<equiv> 45"
abbreviation (input) IT32_LWU_I :: riscvIType32 where "IT32_LWU_I \<equiv> 46"
abbreviation (input) IT32_LD_I :: riscvIType32 where "IT32_LD_I \<equiv> 47"
abbreviation (input) IT32_SB_I :: riscvIType32 where "IT32_SB_I \<equiv> 48"
abbreviation (input) IT32_SH_I :: riscvIType32 where "IT32_SH_I \<equiv> 49"
abbreviation (input) IT32_SW_I :: riscvIType32 where "IT32_SW_I \<equiv> 50"
abbreviation (input) IT32_SD_I :: riscvIType32 where "IT32_SD_I \<equiv> 51"
abbreviation (input) IT32_CSRRC_I :: riscvIType32 where "IT32_CSRRC_I \<equiv> 52"
abbreviation (input) IT32_CSRRS_I :: riscvIType32 where "IT32_CSRRS_I \<equiv> 53"
abbreviation (input) IT32_CSRRW_I :: riscvIType32 where "IT32_CSRRW_I \<equiv> 54"
abbreviation (input) IT32_CSRR_I :: riscvIType32 where "IT32_CSRR_I \<equiv> 55"
abbreviation (input) IT32_CSRC_I :: riscvIType32 where "IT32_CSRC_I \<equiv> 56"
abbreviation (input) IT32_CSRS_I :: riscvIType32 where "IT32_CSRS_I \<equiv> 57"
abbreviation (input) IT32_CSRW_I :: riscvIType32 where "IT32_CSRW_I \<equiv> 58"
abbreviation (input) IT32_RDX1_I :: riscvIType32 where "IT32_RDX1_I \<equiv> 59"
abbreviation (input) IT32_RDX2_I :: riscvIType32 where "IT32_RDX2_I \<equiv> 60"
abbreviation (input) IT32_CSRRCI_I :: riscvIType32 where "IT32_CSRRCI_I \<equiv> 61"
abbreviation (input) IT32_CSRRSI_I :: riscvIType32 where "IT32_CSRRSI_I \<equiv> 62"
abbreviation (input) IT32_CSRRWI_I :: riscvIType32 where "IT32_CSRRWI_I \<equiv> 63"
abbreviation (input) IT32_CSRCI_I :: riscvIType32 where "IT32_CSRCI_I \<equiv> 64"
abbreviation (input) IT32_CSRSI_I :: riscvIType32 where "IT32_CSRSI_I \<equiv> 65"
abbreviation (input) IT32_CSRWI_I :: riscvIType32 where "IT32_CSRWI_I \<equiv> 66"
abbreviation (input) IT32_EBREAK_I :: riscvIType32 where "IT32_EBREAK_I \<equiv> 67"
abbreviation (input) IT32_ECALL_I :: riscvIType32 where "IT32_ECALL_I \<equiv> 68"
abbreviation (input) IT32_FENCEI_I :: riscvIType32 where "IT32_FENCEI_I \<equiv> 69"
abbreviation (input) IT32_MRET_I :: riscvIType32 where "IT32_MRET_I \<equiv> 70"
abbreviation (input) IT32_SRET_I :: riscvIType32 where "IT32_SRET_I \<equiv> 71"
abbreviation (input) IT32_URET_I :: riscvIType32 where "IT32_URET_I \<equiv> 72"
abbreviation (input) IT32_WFI_I :: riscvIType32 where "IT32_WFI_I \<equiv> 73"
abbreviation (input) IT32_FENCE_I :: riscvIType32 where "IT32_FENCE_I \<equiv> 74"
abbreviation (input) IT32_FENCE_VMA_R :: riscvIType32 where "IT32_FENCE_VMA_R \<equiv> 75"
abbreviation (input) IT32_AUIPC_U :: riscvIType32 where "IT32_AUIPC_U \<equiv> 76"
abbreviation (input) IT32_LUI_U :: riscvIType32 where "IT32_LUI_U \<equiv> 77"
abbreviation (input) IT32_BEQ_B :: riscvIType32 where "IT32_BEQ_B \<equiv> 78"
abbreviation (input) IT32_BEQZ_B :: riscvIType32 where "IT32_BEQZ_B \<equiv> 79"
abbreviation (input) IT32_BGE_B :: riscvIType32 where "IT32_BGE_B \<equiv> 80"
abbreviation (input) IT32_BGEZ_B :: riscvIType32 where "IT32_BGEZ_B \<equiv> 81"
abbreviation (input) IT32_BLEZ_B :: riscvIType32 where "IT32_BLEZ_B \<equiv> 82"
abbreviation (input) IT32_BGEU_B :: riscvIType32 where "IT32_BGEU_B \<equiv> 83"
abbreviation (input) IT32_BLT_B :: riscvIType32 where "IT32_BLT_B \<equiv> 84"
abbreviation (input) IT32_BLTZ_B :: riscvIType32 where "IT32_BLTZ_B \<equiv> 85"
abbreviation (input) IT32_BGTZ_B :: riscvIType32 where "IT32_BGTZ_B \<equiv> 86"
abbreviation (input) IT32_BLTU_B :: riscvIType32 where "IT32_BLTU_B \<equiv> 87"
abbreviation (input) IT32_BNE_B :: riscvIType32 where "IT32_BNE_B \<equiv> 88"
abbreviation (input) IT32_BNEZ_B :: riscvIType32 where "IT32_BNEZ_B \<equiv> 89"
abbreviation (input) IT32_J_J :: riscvIType32 where "IT32_J_J \<equiv> 90"
abbreviation (input) IT32_JAL_J :: riscvIType32 where "IT32_JAL_J \<equiv> 91"
abbreviation (input) IT32_AMOADD_R :: riscvIType32 where "IT32_AMOADD_R \<equiv> 92"
abbreviation (input) IT32_AMOAND_R :: riscvIType32 where "IT32_AMOAND_R \<equiv> 93"
abbreviation (input) IT32_AMOMAX_R :: riscvIType32 where "IT32_AMOMAX_R \<equiv> 94"
abbreviation (input) IT32_AMOMAXU_R :: riscvIType32 where "IT32_AMOMAXU_R \<equiv> 95"
abbreviation (input) IT32_AMOMIN_R :: riscvIType32 where "IT32_AMOMIN_R \<equiv> 96"
abbreviation (input) IT32_AMOMINU_R :: riscvIType32 where "IT32_AMOMINU_R \<equiv> 97"
abbreviation (input) IT32_AMOOR_R :: riscvIType32 where "IT32_AMOOR_R \<equiv> 98"
abbreviation (input) IT32_AMOSWAP_R :: riscvIType32 where "IT32_AMOSWAP_R \<equiv> 99"
abbreviation (input) IT32_AMOXOR_R :: riscvIType32 where "IT32_AMOXOR_R \<equiv> 100"
abbreviation (input) IT32_LR_R :: riscvIType32 where "IT32_LR_R \<equiv> 101"
abbreviation (input) IT32_SC_R :: riscvIType32 where "IT32_SC_R \<equiv> 102"
abbreviation (input) IT32_FADD_R :: riscvIType32 where "IT32_FADD_R \<equiv> 103"
abbreviation (input) IT32_FCLASS_R :: riscvIType32 where "IT32_FCLASS_R \<equiv> 104"
abbreviation (input) IT32_FCVT_F_X_R :: riscvIType32 where "IT32_FCVT_F_X_R \<equiv> 105"
abbreviation (input) IT32_FCVT_X_F_R :: riscvIType32 where "IT32_FCVT_X_F_R \<equiv> 106"
abbreviation (input) IT32_FCVT_D_S_R :: riscvIType32 where "IT32_FCVT_D_S_R \<equiv> 107"
abbreviation (input) IT32_FCVT_S_D_R :: riscvIType32 where "IT32_FCVT_S_D_R \<equiv> 108"
abbreviation (input) IT32_FDIV_R :: riscvIType32 where "IT32_FDIV_R \<equiv> 109"
abbreviation (input) IT32_FEQ_R :: riscvIType32 where "IT32_FEQ_R \<equiv> 110"
abbreviation (input) IT32_FLE_R :: riscvIType32 where "IT32_FLE_R \<equiv> 111"
abbreviation (input) IT32_FLT_R :: riscvIType32 where "IT32_FLT_R \<equiv> 112"
abbreviation (input) IT32_FMAX_R :: riscvIType32 where "IT32_FMAX_R \<equiv> 113"
abbreviation (input) IT32_FMIN_R :: riscvIType32 where "IT32_FMIN_R \<equiv> 114"
abbreviation (input) IT32_FMUL_R :: riscvIType32 where "IT32_FMUL_R \<equiv> 115"
abbreviation (input) IT32_FMVFX_R :: riscvIType32 where "IT32_FMVFX_R \<equiv> 116"
abbreviation (input) IT32_FMVXF_R :: riscvIType32 where "IT32_FMVXF_R \<equiv> 117"
abbreviation (input) IT32_FSGNJ_R :: riscvIType32 where "IT32_FSGNJ_R \<equiv> 118"
abbreviation (input) IT32_FSGNJN_R :: riscvIType32 where "IT32_FSGNJN_R \<equiv> 119"
abbreviation (input) IT32_FSGNJX_R :: riscvIType32 where "IT32_FSGNJX_R \<equiv> 120"
abbreviation (input) IT32_FSQRT_R :: riscvIType32 where "IT32_FSQRT_R \<equiv> 121"
abbreviation (input) IT32_FSUB_R :: riscvIType32 where "IT32_FSUB_R \<equiv> 122"
abbreviation (input) IT32_FMADD_R4 :: riscvIType32 where "IT32_FMADD_R4 \<equiv> 123"
abbreviation (input) IT32_FMSUB_R4 :: riscvIType32 where "IT32_FMSUB_R4 \<equiv> 124"
abbreviation (input) IT32_FNMADD_R4 :: riscvIType32 where "IT32_FNMADD_R4 \<equiv> 125"
abbreviation (input) IT32_FNMSUB_R4 :: riscvIType32 where "IT32_FNMSUB_R4 \<equiv> 126"
abbreviation (input) IT32_FL_I :: riscvIType32 where "IT32_FL_I \<equiv> 127"
abbreviation (input) IT32_FS_I :: riscvIType32 where "IT32_FS_I \<equiv> 128"
abbreviation (input) IT32_FRSR_I :: riscvIType32 where "IT32_FRSR_I \<equiv> 129"
abbreviation (input) IT32_FRFLAGS_I :: riscvIType32 where "IT32_FRFLAGS_I \<equiv> 130"
abbreviation (input) IT32_FRRM_I :: riscvIType32 where "IT32_FRRM_I \<equiv> 131"
abbreviation (input) IT32_FSSR_I :: riscvIType32 where "IT32_FSSR_I \<equiv> 132"
abbreviation (input) IT32_FSFLAGS_I :: riscvIType32 where "IT32_FSFLAGS_I \<equiv> 133"
abbreviation (input) IT32_FSRM_I :: riscvIType32 where "IT32_FSRM_I \<equiv> 134"
abbreviation (input) IT32_CUSTOM1 :: riscvIType32 where "IT32_CUSTOM1 \<equiv> 135"
abbreviation (input) IT32_CUSTOM2 :: riscvIType32 where "IT32_CUSTOM2 \<equiv> 136"
abbreviation (input) IT32_CUSTOM3 :: riscvIType32 where "IT32_CUSTOM3 \<equiv> 137"
abbreviation (input) IT32_CUSTOM4 :: riscvIType32 where "IT32_CUSTOM4 \<equiv> 138"
abbreviation (input) IT32_LAST :: riscvIType32 where "IT32_LAST \<equiv> 139"

definition riscvIType32E :: "riscvIType32 list" where
  "riscvIType32E =
     [IT32_ADD_R, IT32_AND_R, IT32_OR_R, IT32_NEG_R, IT32_SGTZ_R, IT32_SLL_R, IT32_SLT_R,
      IT32_SLTU_R, IT32_SLTZ_R, IT32_SNEZ_R, IT32_SRA_R, IT32_SRL_R, IT32_SUB_R, IT32_XOR_R,
      IT32_DIV_R, IT32_DIVU_R, IT32_MUL_R, IT32_MULH_R, IT32_MULHSU_R, IT32_MULHU_R, IT32_REM_R,
      IT32_REMU_R, IT32_ADDI_I, IT32_ANDI_I, IT32_JR_I, IT32_JR0_I, IT32_JALR_I, IT32_JALR0_I,
      IT32_MV_I, IT32_NOP_I, IT32_NOT_I, IT32_ORI_I, IT32_RET_I, IT32_SEQZ_I, IT32_SEXTW_I,
      IT32_SLLI_I, IT32_SLTI_I, IT32_SLTIU_I, IT32_SRAI_I, IT32_SRLI_I, IT32_XORI_I, IT32_LB_I,
      IT32_LBU_I, IT32_LH_I, IT32_LHU_I, IT32_LW_I, IT32_LWU_I, IT32_LD_I, IT32_SB_I, IT32_SH_I,
      IT32_SW_I, IT32_SD_I, IT32_CSRRC_I, IT32_CSRRS_I, IT32_CSRRW_I, IT32_CSRR_I, IT32_CSRC_I,
      IT32_CSRS_I, IT32_CSRW_I, IT32_RDX1_I, IT32_RDX2_I, IT32_CSRRCI_I, IT32_CSRRSI_I,
      IT32_CSRRWI_I, IT32_CSRCI_I, IT32_CSRSI_I, IT32_CSRWI_I, IT32_EBREAK_I, IT32_ECALL_I,
      IT32_FENCEI_I, IT32_MRET_I, IT32_SRET_I, IT32_URET_I, IT32_WFI_I, IT32_FENCE_I,
      IT32_FENCE_VMA_R, IT32_AUIPC_U, IT32_LUI_U, IT32_BEQ_B, IT32_BEQZ_B, IT32_BGE_B,
      IT32_BGEZ_B, IT32_BLEZ_B, IT32_BGEU_B, IT32_BLT_B, IT32_BLTZ_B, IT32_BGTZ_B, IT32_BLTU_B,
      IT32_BNE_B, IT32_BNEZ_B, IT32_J_J, IT32_JAL_J, IT32_AMOADD_R, IT32_AMOAND_R, IT32_AMOMAX_R,
      IT32_AMOMAXU_R, IT32_AMOMIN_R, IT32_AMOMINU_R, IT32_AMOOR_R, IT32_AMOSWAP_R, IT32_AMOXOR_R,
      IT32_LR_R, IT32_SC_R, IT32_FADD_R, IT32_FCLASS_R, IT32_FCVT_F_X_R, IT32_FCVT_X_F_R,
      IT32_FCVT_D_S_R, IT32_FCVT_S_D_R, IT32_FDIV_R, IT32_FEQ_R, IT32_FLE_R, IT32_FLT_R,
      IT32_FMAX_R, IT32_FMIN_R, IT32_FMUL_R, IT32_FMVFX_R, IT32_FMVXF_R, IT32_FSGNJ_R,
      IT32_FSGNJN_R, IT32_FSGNJX_R, IT32_FSQRT_R, IT32_FSUB_R, IT32_FMADD_R4, IT32_FMSUB_R4,
      IT32_FNMADD_R4, IT32_FNMSUB_R4, IT32_FL_I, IT32_FS_I, IT32_FRSR_I, IT32_FRFLAGS_I,
      IT32_FRRM_I, IT32_FSSR_I, IT32_FSFLAGS_I, IT32_FSRM_I, IT32_CUSTOM1, IT32_CUSTOM2,
      IT32_CUSTOM3, IT32_CUSTOM4, IT32_LAST]"

lemma riscvIType32E_consecutive: "riscvIType32E = [0..<Suc IT32_LAST]"
  by (simp add: riscvIType32E_def upt_conv_Cons)

type_synonym riscvIType16 = nat

abbreviation (input) IT16_ADD_R :: riscvIType16 where "IT16_ADD_R \<equiv> 0"
abbreviation (input) IT16_ADDW_R :: riscvIType16 where "IT16_ADDW_R \<equiv> 1"
abbreviation (input) IT16_AND_R :: riscvIType16 where "IT16_AND_R \<equiv> 2"
abbreviation (input) IT16_MV_R :: riscvIType16 where "IT16_MV_R \<equiv> 3"
abbreviation (input) IT16_OR_R :: riscvIType16 where "IT16_OR_R \<equiv> 4"
abbreviation (input) IT16_SUB_R :: riscvIType16 where "IT16_SUB_R \<equiv> 5"
abbreviation (input) IT16_SUBW_R :: riscvIType16 where "IT16_SUBW_R \<equiv> 6"
abbreviation (input) IT16_XOR_R :: riscvIType16 where "IT16_XOR_R \<equiv> 7"
abbreviation (input) IT16_ADDI_I :: riscvIType16 where "IT16_ADDI_I \<equiv> 8"
abbreviation (input) IT16_ADDI16SP_I :: riscvIType16 where "IT16_ADDI16SP_I \<equiv> 9"
abbreviation (input) IT16_ADDI4SPN_I :: riscvIType16 where "IT16_ADDI4SPN_I \<equiv> 10"
abbreviation (input) IT16_ADDIW_I :: riscvIType16 where "IT16_ADDIW_I \<equiv> 11"
abbreviation (input) IT16_ANDI_I :: riscvIType16 where "IT16_ANDI_I \<equiv> 12"
abbreviation (input) IT16_SLLI_I :: riscvIType16 where "IT16_SLLI_I \<equiv> 13"
abbreviation (input) IT16_SRAI_I :: riscvIType16 where "IT16_SRAI_I \<equiv> 14"
abbreviation (input) IT16_SRLI_I :: riscvIType16 where "IT16_SRLI_I \<equiv> 15"
abbreviation (input) IT16_LI_I :: riscvIType16 where "IT16_LI_I \<equiv> 16"
abbreviation (input) IT16_LUI_I :: riscvIType16 where "IT16_LUI_I \<equiv> 17"
abbreviation (input) IT16_JR_I :: riscvIType16 where "IT16_JR_I \<equiv> 18"
abbreviation (input) IT16_JALR_I :: riscvIType16 where "IT16_JALR_I \<equiv> 19"
abbreviation (input) IT16_LD_I :: riscvIType16 where "IT16_LD_I \<equiv> 20"
abbreviation (input) IT16_LDSP_I :: riscvIType16 where "IT16_LDSP_I \<equiv> 21"
abbreviation (input) IT16_LW_I :: riscvIType16 where "IT16_LW_I \<equiv> 22"
abbreviation (input) IT16_LWSP_I :: riscvIType16 where "IT16_LWSP_I \<equiv> 23"
abbreviation (input) IT16_SD_I :: riscvIType16 where "IT16_SD_I \<equiv> 24"
abbreviation (input) IT16_SDSP_I :: riscvIType16 where "IT16_SDSP_I \<equiv> 25"
abbreviation (input) IT16_SW_I :: riscvIType16 where "IT16_SW_I \<equiv> 26"
abbreviation (input) IT16_SWSP_I :: riscvIType16 where "IT16_SWSP_I \<equiv> 27"
abbreviation (input) IT16_EBREAK_I :: riscvIType16 where "IT16_EBREAK_I \<equiv> 28"
abbreviation (input) IT16_BEQZ_B :: riscvIType16 where "IT16_BEQZ_B \<equiv> 29"
abbreviation (input) IT16_BNEZ_B :: riscvIType16 where "IT16_BNEZ_B \<equiv> 30"
abbreviation (input) IT16_J_J :: riscvIType16 where "IT16_J_J \<equiv> 31"
abbreviation (input) IT16_JAL_J :: riscvIType16 where "IT16_JAL_J \<equiv> 32"
abbreviation (input) IT16_FLD_I :: riscvIType16 where "IT16_FLD_I \<equiv> 33"
abbreviation (input) IT16_FLDSP_I :: riscvIType16 where "IT16_FLDSP_I \<equiv> 34"
abbreviation (input) IT16_FLW_I :: riscvIType16 where "IT16_FLW_I \<equiv> 35"
abbreviation (input) IT16_FLWSP_I :: riscvIType16 where "IT16_FLWSP_I \<equiv> 36"
abbreviation (input) IT16_FSD_I :: riscvIType16 where "IT16_FSD_I \<equiv> 37"
abbreviation (input) IT16_FSDSP_I :: riscvIType16 where "IT16_FSDSP_I \<equiv> 38"
abbreviation (input) IT16_FSW_I :: riscvIType16 where "IT16_FSW_I \<equiv> 39"
abbreviation (input) IT16_FSWSP_I :: riscvIType16 where "IT16_FSWSP_I \<equiv> 40"
abbreviation (input) IT16_UD1 :: riscvIType16 where "IT16_UD1 \<equiv> 41"
abbreviation (input) IT16_RES1 :: riscvIType16 where "IT16_RES1 \<equiv> 42"
abbreviation (input) IT16_RES2 :: riscvIType16 where "IT16_RES2 \<equiv> 43"
abbreviation (input) IT16_RES3 :: riscvIType16 where "IT16_RES3 \<equiv> 44"
abbreviation (input) IT16_RES4 :: riscvIType16 where "IT16_RES4 \<equiv> 45"
abbreviation (input) IT16_RES5 :: riscvIType16 where "IT16_RES5 \<equiv> 46"
abbreviation (input) IT16_RES6 :: riscvIType16 where "IT16_RES6 \<equiv> 47"
abbreviation (input) IT16_LAST :: riscvIType16 where "IT16_LAST \<equiv> 48"

definition riscvIType16E :: "riscvIType16 list" where
  "riscvIType16E =
     [IT16_ADD_R, IT16_ADDW_R, IT16_AND_R, IT16_MV_R, IT16_OR_R, IT16_SUB_R, IT16_SUBW_R,
      IT16_XOR_R, IT16_ADDI_I, IT16_ADDI16SP_I, IT16_ADDI4SPN_I, IT16_ADDIW_I, IT16_ANDI_I,
      IT16_SLLI_I, IT16_SRAI_I, IT16_SRLI_I, IT16_LI_I, IT16_LUI_I, IT16_JR_I, IT16_JALR_I,
      IT16_LD_I, IT16_LDSP_I, IT16_LW_I, IT16_LWSP_I, IT16_SD_I, IT16_SDSP_I, IT16_SW_I,
      IT16_SWSP_I, IT16_EBREAK_I, IT16_BEQZ_B, IT16_BNEZ_B, IT16_J_J, IT16_JAL_J, IT16_FLD_I,
      IT16_FLDSP_I, IT16_FLW_I, IT16_FLWSP_I, IT16_FSD_I, IT16_FSDSP_I, IT16_FSW_I, IT16_FSWSP_I,
      IT16_UD1, IT16_RES1, IT16_RES2, IT16_RES3, IT16_RES4, IT16_RES5, IT16_RES6, IT16_LAST]"

lemma riscvIType16E_consecutive: "riscvIType16E = [0..<Suc IT16_LAST]"
  by (simp add: riscvIType16E_def upt_conv_Cons)

text \<open>The architecture requirements the tables use (\<^verbatim>\<open>riscvVariant.h\<close>).\<close>

abbreviation (input) RVANY :: riscvArchitecture where "RVANY \<equiv> ISA_XLEN_32 OR ISA_XLEN_64"
abbreviation (input) RV64 :: riscvArchitecture where "RV64 \<equiv> ISA_XLEN_64"
abbreviation (input) RV32C :: riscvArchitecture where "RV32C \<equiv> ISA_XLEN_32 OR ISA_C"
abbreviation (input) RV64C :: riscvArchitecture where "RV64C \<equiv> ISA_XLEN_64 OR ISA_C"
abbreviation (input) RV32CF :: riscvArchitecture where
  "RV32CF \<equiv> (ISA_XLEN_32 OR ISA_F) OR (ISA_XLEN_32 OR ISA_C)"
abbreviation (input) RVANYM :: riscvArchitecture where "RVANYM \<equiv> RVANY OR ISA_M"
abbreviation (input) RVANYA :: riscvArchitecture where "RVANYA \<equiv> RVANY OR ISA_A"
abbreviation (input) RVANYC :: riscvArchitecture where "RVANYC \<equiv> RVANY OR ISA_C"
abbreviation (input) RVANYN :: riscvArchitecture where "RVANYN \<equiv> RVANY OR ISA_N"
abbreviation (input) RVANYCD :: riscvArchitecture where
  "RVANYCD \<equiv> (RVANY OR ISA_C) OR (RVANY OR ISA_D)"

definition attrsArray32 :: "(nat \<times> opAttrs) list" where
  "attrsArray32 =
     [ATTR32_ADD IT32_ADD_R RV_IT_ADD_R RVANY ''add''
        ''|0000000|.....|.....|000|.....|011.011|'',
      ATTR32_ADD IT32_AND_R RV_IT_AND_R RVANY ''and''
        ''|0000000|.....|.....|111|.....|0110011|'',
      ATTR32_NEG IT32_NEG_R RV_IT_SUB_R RVANY ''neg''
        ''|0100000|.....|00000|000|.....|011.011|'',
      ATTR32_ADD IT32_OR_R RV_IT_OR_R RVANY ''or''
        ''|0000000|.....|.....|110|.....|0110011|'',
      ATTR32_NEG IT32_SGTZ_R RV_IT_SLT_R RVANY ''sgtz''
        ''|0000000|.....|00000|010|.....|0110011|'',
      ATTR32_ADD IT32_SLL_R RV_IT_SLL_R RVANY ''sll''
        ''|0000000|.....|.....|001|.....|011.011|'',
      ATTR32_ADD IT32_SLT_R RV_IT_SLT_R RVANY ''slt''
        ''|0000000|.....|.....|010|.....|0110011|'',
      ATTR32_ADD IT32_SLTU_R RV_IT_SLTU_R RVANY ''sltu''
        ''|0000000|.....|.....|011|.....|0110011|'',
      ATTR32_SLTZ IT32_SLTZ_R RV_IT_SLT_R RVANY ''sltz''
        ''|0000000|00000|.....|010|.....|0110011|'',
      ATTR32_NEG IT32_SNEZ_R RV_IT_SLTU_R RVANY ''snez''
        ''|0000000|.....|00000|011|.....|0110011|'',
      ATTR32_ADD IT32_SRA_R RV_IT_SRA_R RVANY ''sra''
        ''|0100000|.....|.....|101|.....|011.011|'',
      ATTR32_ADD IT32_SRL_R RV_IT_SRL_R RVANY ''srl''
        ''|0000000|.....|.....|101|.....|011.011|'',
      ATTR32_ADD IT32_SUB_R RV_IT_SUB_R RVANY ''sub''
        ''|0100000|.....|.....|000|.....|011.011|'',
      ATTR32_ADD IT32_XOR_R RV_IT_XOR_R RVANY ''xor''
        ''|0000000|.....|.....|100|.....|0110011|'',
      ATTR32_ADD IT32_DIV_R RV_IT_DIV_R RVANYM ''div''
        ''|0000001|.....|.....|100|.....|011.011|'',
      ATTR32_ADD IT32_DIVU_R RV_IT_DIVU_R RVANYM ''divu''
        ''|0000001|.....|.....|101|.....|011.011|'',
      ATTR32_ADD IT32_MUL_R RV_IT_MUL_R RVANYM ''mul''
        ''|0000001|.....|.....|000|.....|011.011|'',
      ATTR32_ADD IT32_MULH_R RV_IT_MULH_R RVANYM ''mulh''
        ''|0000001|.....|.....|001|.....|0110011|'',
      ATTR32_ADD IT32_MULHSU_R RV_IT_MULHSU_R RVANYM ''mulhsu''
        ''|0000001|.....|.....|010|.....|0110011|'',
      ATTR32_ADD IT32_MULHU_R RV_IT_MULHU_R RVANYM ''mulhu''
        ''|0000001|.....|.....|011|.....|0110011|'',
      ATTR32_ADD IT32_REM_R RV_IT_REM_R RVANYM ''rem''
        ''|0000001|.....|.....|110|.....|011.011|'',
      ATTR32_ADD IT32_REMU_R RV_IT_REMU_R RVANYM ''remu''
        ''|0000001|.....|.....|111|.....|011.011|'',
      ATTR32_ADDI IT32_ADDI_I RV_IT_ADDI_I RVANY ''addi''
        ''|............|.....|000|.....|001.011|'',
      ATTR32_ADDI IT32_ANDI_I RV_IT_ANDI_I RVANY ''andi''
        ''|............|.....|111|.....|0010011|'',
      ATTR32_JR IT32_JR_I RV_IT_JALR_I RVANY ''jr''
        ''|............|.....|000|00000|1100111|'',
      ATTR32_JR0 IT32_JR0_I RV_IT_JALR_I RVANY ''jr''
        ''|000000000000|.....|000|00000|1100111|'',
      ATTR32_JALR IT32_JALR_I RV_IT_JALR_I RVANY ''jalr''
        ''|............|.....|000|.....|1100111|'',
      ATTR32_NOT IT32_JALR0_I RV_IT_JALR_I RVANY ''jalr''
        ''|000000000000|.....|000|.....|1100111|'',
      ATTR32_NOT IT32_MV_I RV_IT_MV_R RVANY ''mv''
        ''|000000000000|.....|000|.....|0010011|'',
      ATTR32_NOPI IT32_NOP_I RV_IT_ADDI_I RVANY ''nop''
        ''|000000000000|00000|000|00000|0010011|'',
      ATTR32_NOT IT32_NOT_I RV_IT_XORI_I RVANY ''not''
        ''|111111111111|.....|100|.....|0010011|'',
      ATTR32_ADDI IT32_ORI_I RV_IT_ORI_I RVANY ''ori''
        ''|............|.....|110|.....|0010011|'',
      ATTR32_NOPI IT32_RET_I RV_IT_JALR_I RVANY ''ret''
        ''|000000000000|00001|000|00000|1100111|'',
      ATTR32_NOT IT32_SEQZ_I RV_IT_SLTIU_I RVANY ''seqz''
        ''|000000000001|.....|011|.....|0010011|'',
      ATTR32_NOT IT32_SEXTW_I RV_IT_ADDI_I RVANY ''sext.''
        ''|000000000000|.....|000|.....|0011011|'',
      ATTR32_SLLI IT32_SLLI_I RV_IT_SLLI_I RVANY ''slli''
        ''|000000......|.....|001|.....|001.011|'',
      ATTR32_ADDI IT32_SLTI_I RV_IT_SLTI_I RVANY ''slti''
        ''|............|.....|010|.....|0010011|'',
      ATTR32_ADDI IT32_SLTIU_I RV_IT_SLTIU_I RVANY ''sltiu''
        ''|............|.....|011|.....|0010011|'',
      ATTR32_SLLI IT32_SRAI_I RV_IT_SRAI_I RVANY ''srai''
        ''|010000......|.....|101|.....|001.011|'',
      ATTR32_SLLI IT32_SRLI_I RV_IT_SRLI_I RVANY ''srli''
        ''|000000......|.....|101|.....|001.011|'',
      ATTR32_ADDI IT32_XORI_I RV_IT_XORI_I RVANY ''xori''
        ''|............|.....|100|.....|0010011|'',
      ATTR32_LB IT32_LB_I RV_IT_L_I RVANY ''l''
        ''|............|.....|000|.....|0000011|'',
      ATTR32_LB IT32_LBU_I RV_IT_L_I RVANY ''l''
        ''|............|.....|100|.....|0000011|'',
      ATTR32_LB IT32_LH_I RV_IT_L_I RVANY ''l''
        ''|............|.....|001|.....|0000011|'',
      ATTR32_LB IT32_LHU_I RV_IT_L_I RVANY ''l''
        ''|............|.....|101|.....|0000011|'',
      ATTR32_LB IT32_LW_I RV_IT_L_I RVANY ''l''
        ''|............|.....|010|.....|0000011|'',
      ATTR32_LB IT32_LWU_I RV_IT_L_I RV64 ''l''
        ''|............|.....|110|.....|0000011|'',
      ATTR32_LB IT32_LD_I RV_IT_L_I RV64 ''l''
        ''|............|.....|011|.....|0000011|'',
      ATTR32_SB IT32_SB_I RV_IT_S_I RVANY ''s''
        ''|.......|.....|.....|000|.....|0100011|'',
      ATTR32_SB IT32_SH_I RV_IT_S_I RVANY ''s''
        ''|.......|.....|.....|001|.....|0100011|'',
      ATTR32_SB IT32_SW_I RV_IT_S_I RVANY ''s''
        ''|.......|.....|.....|010|.....|0100011|'',
      ATTR32_SB IT32_SD_I RV_IT_S_I RV64 ''s''
        ''|.......|.....|.....|011|.....|0100011|'',
      ATTR32_CSRRC IT32_CSRRC_I RV_IT_CSRR_I RVANY ''csrrc''
        ''|............|.....|011|.....|1110011|'',
      ATTR32_CSRRC IT32_CSRRS_I RV_IT_CSRR_I RVANY ''csrrs''
        ''|............|.....|010|.....|1110011|'',
      ATTR32_CSRRC IT32_CSRRW_I RV_IT_CSRR_I RVANY ''csrrw''
        ''|............|.....|001|.....|1110011|'',
      ATTR32_CSRR IT32_CSRR_I RV_IT_CSRR_I RVANY ''csrr''
        ''|............|00000|010|.....|1110011|'',
      ATTR32_CSRC IT32_CSRC_I RV_IT_CSRR_I RVANY ''csrc''
        ''|............|.....|011|00000|1110011|'',
      ATTR32_CSRC IT32_CSRS_I RV_IT_CSRR_I RVANY ''csrs''
        ''|............|.....|010|00000|1110011|'',
      ATTR32_CSRC IT32_CSRW_I RV_IT_CSRR_I RVANY ''csrw''
        ''|............|.....|001|00000|1110011|'',
      ATTR32_RDX1 IT32_RDX1_I RV_IT_CSRR_I RVANY ''rd''
        ''|1100.000000.|00000|010|.....|1110011|'',
      ATTR32_RDX1 IT32_RDX2_I RV_IT_CSRR_I RVANY ''rd''
        ''|1100.0000010|00000|010|.....|1110011|'',
      ATTR32_CSRRCI IT32_CSRRCI_I RV_IT_CSRRI_I RVANY ''csrrci''
        ''|............|.....|111|.....|1110011|'',
      ATTR32_CSRRCI IT32_CSRRSI_I RV_IT_CSRRI_I RVANY ''csrrsi''
        ''|............|.....|110|.....|1110011|'',
      ATTR32_CSRRCI IT32_CSRRWI_I RV_IT_CSRRI_I RVANY ''csrrwi''
        ''|............|.....|101|.....|1110011|'',
      ATTR32_CSRCI IT32_CSRCI_I RV_IT_CSRRI_I RVANY ''csrci''
        ''|............|.....|111|00000|1110011|'',
      ATTR32_CSRCI IT32_CSRSI_I RV_IT_CSRRI_I RVANY ''csrsi''
        ''|............|.....|110|00000|1110011|'',
      ATTR32_CSRCI IT32_CSRWI_I RV_IT_CSRRI_I RVANY ''csrwi''
        ''|............|.....|101|00000|1110011|'',
      ATTR32_NOP IT32_EBREAK_I RV_IT_EBREAK_I RVANY ''ebreak''
        ''|000000000001|00000|000|00000|1110011|'',
      ATTR32_NOP IT32_ECALL_I RV_IT_ECALL_I RVANY ''ecall''
        ''|000000000000|00000|000|00000|1110011|'',
      ATTR32_NOP IT32_FENCEI_I RV_IT_FENCEI_I RVANY ''fence.i''
        ''|000000000000|00000|001|00000|0001111|'',
      ATTR32_NOP IT32_MRET_I RV_IT_MRET_I RVANY ''mret''
        ''|001100000010|00000|000|00000|1110011|'',
      ATTR32_NOP IT32_SRET_I RV_IT_SRET_I RVANY ''sret''
        ''|000100000010|00000|000|00000|1110011|'',
      ATTR32_NOP IT32_URET_I RV_IT_URET_I RVANYN ''uret''
        ''|000000000010|00000|000|00000|1110011|'',
      ATTR32_NOP IT32_WFI_I RV_IT_WFI_I RVANY ''wfi''
        ''|000100000101|00000|000|00000|1110011|'',
      ATTR32_FENCE IT32_FENCE_I RV_IT_FENCE_I RVANY ''fence''
        ''|0000|....|....|0000000000000|0001111|'',
      ATTR32_FENCE_VMA IT32_FENCE_VMA_R RV_IT_FENCE_VMA_R RVANY ''sfence.vma''
        ''|0001001|.....|.....|000|00000|1110011|'',
      ATTR32_AUIPC IT32_AUIPC_U RV_IT_AUIPC_U RVANY ''auipc''
        ''|....................|.....|0010111|'',
      ATTR32_AUIPC IT32_LUI_U RV_IT_MV_C RVANY ''lui''
        ''|....................|.....|0110111|'',
      ATTR32_BEQ IT32_BEQ_B RV_IT_BEQ_B RVANY ''beq''
        ''|.|......|.....|.....|000|....|.|1100011|'',
      ATTR32_BEQZ IT32_BEQZ_B RV_IT_BEQ_B RVANY ''beqz''
        ''|.|......|00000|.....|000|....|.|1100011|'',
      ATTR32_BEQ IT32_BGE_B RV_IT_BGE_B RVANY ''bge''
        ''|.|......|.....|.....|101|....|.|1100011|'',
      ATTR32_BEQZ IT32_BGEZ_B RV_IT_BGE_B RVANY ''bgez''
        ''|.|......|00000|.....|101|....|.|1100011|'',
      ATTR32_BGTZ IT32_BLEZ_B RV_IT_BGE_B RVANY ''blez''
        ''|.|......|.....|00000|101|....|.|1100011|'',
      ATTR32_BEQ IT32_BGEU_B RV_IT_BGEU_B RVANY ''bgeu''
        ''|.|......|.....|.....|111|....|.|1100011|'',
      ATTR32_BEQ IT32_BLT_B RV_IT_BLT_B RVANY ''blt''
        ''|.|......|.....|.....|100|....|.|1100011|'',
      ATTR32_BEQZ IT32_BLTZ_B RV_IT_BLT_B RVANY ''bltz''
        ''|.|......|00000|.....|100|....|.|1100011|'',
      ATTR32_BGTZ IT32_BGTZ_B RV_IT_BLT_B RVANY ''bgtz''
        ''|.|......|.....|00000|100|....|.|1100011|'',
      ATTR32_BEQ IT32_BLTU_B RV_IT_BLTU_B RVANY ''bltu''
        ''|.|......|.....|.....|110|....|.|1100011|'',
      ATTR32_BEQ IT32_BNE_B RV_IT_BNE_B RVANY ''bne''
        ''|.|......|.....|.....|001|....|.|1100011|'',
      ATTR32_BEQZ IT32_BNEZ_B RV_IT_BNE_B RVANY ''bnez''
        ''|.|......|00000|.....|001|....|.|1100011|'',
      ATTR32_J IT32_J_J RV_IT_JAL_J RVANY ''j''
        ''|.|..........|.|........|00000|1101111|'',
      ATTR32_JAL IT32_JAL_J RV_IT_JAL_J RVANY ''jal''
        ''|.|..........|.|........|.....|1101111|'',
      ATTR32_AMOADD IT32_AMOADD_R RV_IT_AMOADD_R RVANYA ''amoadd''
        ''|00000..|.....|.....|01.|.....|0101111|'',
      ATTR32_AMOADD IT32_AMOAND_R RV_IT_AMOAND_R RVANYA ''amoand''
        ''|01100..|.....|.....|01.|.....|0101111|'',
      ATTR32_AMOADD IT32_AMOMAX_R RV_IT_AMOMAX_R RVANYA ''amomax''
        ''|10100..|.....|.....|01.|.....|0101111|'',
      ATTR32_AMOADD IT32_AMOMAXU_R RV_IT_AMOMAXU_R RVANYA ''amomaxu''
        ''|11100..|.....|.....|01.|.....|0101111|'',
      ATTR32_AMOADD IT32_AMOMIN_R RV_IT_AMOMIN_R RVANYA ''amomin''
        ''|10000..|.....|.....|01.|.....|0101111|'',
      ATTR32_AMOADD IT32_AMOMINU_R RV_IT_AMOMINU_R RVANYA ''amominu''
        ''|11000..|.....|.....|01.|.....|0101111|'',
      ATTR32_AMOADD IT32_AMOOR_R RV_IT_AMOOR_R RVANYA ''amoor''
        ''|01000..|.....|.....|01.|.....|0101111|'',
      ATTR32_AMOADD IT32_AMOSWAP_R RV_IT_AMOSWAP_R RVANYA ''amoswap''
        ''|00001..|.....|.....|01.|.....|0101111|'',
      ATTR32_AMOADD IT32_AMOXOR_R RV_IT_AMOXOR_R RVANYA ''amoxor''
        ''|00100..|.....|.....|01.|.....|0101111|'',
      ATTR32_LR IT32_LR_R RV_IT_LR_R RVANYA ''lr''
        ''|00010..|00000|.....|01.|.....|0101111|'',
      ATTR32_AMOADD IT32_SC_R RV_IT_SC_R RVANYA ''sc''
        ''|00011..|.....|.....|01.|.....|0101111|'',
      ATTR32_FADD IT32_FADD_R RV_IT_FADD_R RVANY ''fadd''
        ''|000000.|.....|.....|...|.....|1010011|'',
      ATTR32_FCLASS IT32_FCLASS_R RV_IT_FCLASS_R RVANY ''fclass''
        ''|111000.|00000|.....|001|.....|1010011|'',
      ATTR32_FCVT IT32_FCVT_F_X_R RV_IT_FCVT_R RVANY ''fcvt''
        ''|110100.|000..|.....|...|.....|1010011|'' RS_F_11_7 RS_XWL_19_15,
      ATTR32_FCVT IT32_FCVT_X_F_R RV_IT_FCVT_R RVANY ''fcvt''
        ''|110000.|000..|.....|...|.....|1010011|'' RS_XWL_11_7 RS_F_19_15,
      ATTR32_FCVT IT32_FCVT_D_S_R RV_IT_FCVT_R RVANY ''fcvt''
        ''|0100001|00000|.....|...|.....|1010011|'' RS_F_11_7 RS_S_19_15,
      ATTR32_FCVT IT32_FCVT_S_D_R RV_IT_FCVT_R RVANY ''fcvt''
        ''|0100000|00001|.....|...|.....|1010011|'' RS_F_11_7 RS_D_19_15,
      ATTR32_FADD IT32_FDIV_R RV_IT_FDIV_R RVANY ''fdiv''
        ''|000110.|.....|.....|...|.....|1010011|'',
      ATTR32_FEQ IT32_FEQ_R RV_IT_FEQ_R RVANY ''feq''
        ''|101000.|.....|.....|010|.....|1010011|'',
      ATTR32_FEQ IT32_FLE_R RV_IT_FLE_R RVANY ''fle''
        ''|101000.|.....|.....|000|.....|1010011|'',
      ATTR32_FEQ IT32_FLT_R RV_IT_FLT_R RVANY ''flt''
        ''|101000.|.....|.....|001|.....|1010011|'',
      ATTR32_FMAX IT32_FMAX_R RV_IT_FMAX_R RVANY ''fmax''
        ''|001010.|.....|.....|001|.....|1010011|'',
      ATTR32_FMAX IT32_FMIN_R RV_IT_FMIN_R RVANY ''fmin''
        ''|001010.|.....|.....|000|.....|1010011|'',
      ATTR32_FADD IT32_FMUL_R RV_IT_FMUL_R RVANY ''fmul''
        ''|000100.|.....|.....|...|.....|1010011|'',
      ATTR32_FMAX IT32_FSGNJ_R RV_IT_FSGNJ_R RVANY ''fsgnj''
        ''|001000.|.....|.....|000|.....|1010011|'',
      ATTR32_FMAX IT32_FSGNJN_R RV_IT_FSGNJN_R RVANY ''fsgnjn''
        ''|001000.|.....|.....|001|.....|1010011|'',
      ATTR32_FMAX IT32_FSGNJX_R RV_IT_FSGNJX_R RVANY ''fsgnjx''
        ''|001000.|.....|.....|010|.....|1010011|'',
      ATTR32_FMVFX IT32_FMVFX_R RV_IT_MV_R RVANY ''fmv''
        ''|111100.|00000|.....|000|.....|1010011|'',
      ATTR32_FMVXF IT32_FMVXF_R RV_IT_MV_R RVANY ''fmv''
        ''|111000.|00000|.....|000|.....|1010011|'',
      ATTR32_FSQRT IT32_FSQRT_R RV_IT_FSQRT_R RVANY ''fsqrt''
        ''|010110.|00000|.....|...|.....|1010011|'',
      ATTR32_FADD IT32_FSUB_R RV_IT_FSUB_R RVANY ''fsub''
        ''|000010.|.....|.....|...|.....|1010011|'',
      ATTR32_FMADD IT32_FMADD_R4 RV_IT_FMADD_R4 RVANY ''fmadd''
        ''|.....|0.|.....|.....|...|.....|1000011|'',
      ATTR32_FMADD IT32_FMSUB_R4 RV_IT_FMSUB_R4 RVANY ''fmsub''
        ''|.....|0.|.....|.....|...|.....|1000111|'',
      ATTR32_FMADD IT32_FNMADD_R4 RV_IT_FNMADD_R4 RVANY ''fnmadd''
        ''|.....|0.|.....|.....|...|.....|1001111|'',
      ATTR32_FMADD IT32_FNMSUB_R4 RV_IT_FNMSUB_R4 RVANY ''fnmsub''
        ''|.....|0.|.....|.....|...|.....|1001011|'',
      ATTR32_FL IT32_FL_I RV_IT_L_I RVANY ''fl''
        ''|............|.....|01.|.....|0000111|'',
      ATTR32_FS IT32_FS_I RV_IT_S_I RVANY ''fs''
        ''|............|.....|01.|.....|0100111|'',
      ATTR32_FRSR IT32_FRSR_I RV_IT_CSRR_I RVANY ''frsr''
        ''|000000000011|00000|010|.....|1110011|'',
      ATTR32_FRSR IT32_FRFLAGS_I RV_IT_CSRR_I RVANY ''frflags''
        ''|000000000001|00000|010|.....|1110011|'',
      ATTR32_FRSR IT32_FRRM_I RV_IT_CSRR_I RVANY ''frrm''
        ''|000000000010|00000|010|.....|1110011|'',
      ATTR32_FSSR IT32_FSSR_I RV_IT_CSRR_I RVANY ''fssr''
        ''|000000000011|.....|001|.....|1110011|'',
      ATTR32_FSSR IT32_FSFLAGS_I RV_IT_CSRR_I RVANY ''fsflags''
        ''|000000000001|.....|001|.....|1110011|'',
      ATTR32_FSSR IT32_FSRM_I RV_IT_CSRR_I RVANY ''fsrm''
        ''|000000000010|.....|001|.....|1110011|'',
      ATTR32_CUSTOM IT32_CUSTOM1 RV_IT_CUSTOM RVANY ''custom1''
        ''|............|.....|...|.....|0001011|'',
      ATTR32_CUSTOM IT32_CUSTOM2 RV_IT_CUSTOM RVANY ''custom2''
        ''|............|.....|...|.....|0101011|'',
      ATTR32_CUSTOM IT32_CUSTOM3 RV_IT_CUSTOM RVANY ''custom3''
        ''|............|.....|...|.....|1011011|'',
      ATTR32_CUSTOM IT32_CUSTOM4 RV_IT_CUSTOM RVANY ''custom4''
        ''|............|.....|...|.....|1111011|'',
      ATTR32_LAST IT32_LAST RV_IT_LAST ''undef'']"

definition attrsArray16 :: "(nat \<times> opAttrs) list" where
  "attrsArray16 =
     [ATTR16_ADD IT16_ADD_R RV_IT_ADD_R RVANYC ''add''
        ''|100|1|.....|.....|10|'',
      ATTR16_ADDW IT16_ADDW_R RV_IT_ADD_R RV64C ''add''
        ''|100111|...|01|...|01|'',
      ATTR16_AND IT16_AND_R RV_IT_AND_R RVANYC ''and''
        ''|100011|...|11|...|01|'',
      ATTR16_MV IT16_MV_R RV_IT_MV_R RVANYC ''mv''
        ''|100|0|.....|.....|10|'',
      ATTR16_AND IT16_OR_R RV_IT_OR_R RVANYC ''or''
        ''|100011|...|10|...|01|'',
      ATTR16_AND IT16_SUB_R RV_IT_SUB_R RVANYC ''sub''
        ''|100011|...|00|...|01|'',
      ATTR16_ADDW IT16_SUBW_R RV_IT_SUB_R RV64C ''sub''
        ''|100111|...|00|...|01|'',
      ATTR16_AND IT16_XOR_R RV_IT_XOR_R RVANYC ''xor''
        ''|100011|...|01|...|01|'',
      ATTR16_ADDI IT16_ADDI_I RV_IT_ADDI_I RVANYC ''addi''
        ''|000|.|.....|.....|01|'',
      ATTR16_ADDI16SP IT16_ADDI16SP_I RV_IT_ADDI_I RVANYC ''addi''
        ''|011|.|00010|.....|01|'',
      ATTR16_ADDI4SPN IT16_ADDI4SPN_I RV_IT_ADDI_I RVANYC ''addi''
        ''|000|........|...|00|'',
      ATTR16_ADDIW IT16_ADDIW_I RV_IT_ADDI_I RV64C ''addi''
        ''|001|.|.....|.....|01|'',
      ATTR16_ANDI IT16_ANDI_I RV_IT_ANDI_I RVANYC ''andi''
        ''|100|.|10...|.....|01|'',
      ATTR16_SLLI IT16_SLLI_I RV_IT_SLLI_I RVANYC ''slli''
        ''|000|.|.....|.....|10|'',
      ATTR16_SRAI IT16_SRAI_I RV_IT_SRAI_I RVANYC ''srai''
        ''|100|.|01...|.....|01|'',
      ATTR16_SRAI IT16_SRLI_I RV_IT_SRLI_I RVANYC ''srli''
        ''|100|.|00...|.....|01|'',
      ATTR16_LI IT16_LI_I RV_IT_ADDI_I RVANYC ''li''
        ''|010|.|.....|.....|01|'',
      ATTR16_LUI IT16_LUI_I RV_IT_ADDI_I RVANYC ''lui''
        ''|011|.|.....|.....|01|'',
      ATTR16_JR IT16_JR_I RV_IT_JALR_I RVANYC ''jr''
        ''|100|0|.....|00000|10|'',
      ATTR16_JALR IT16_JALR_I RV_IT_JALR_I RVANYC ''jalr''
        ''|100|1|.....|00000|10|'',
      ATTR16_LD IT16_LD_I RV_IT_L_I RV64C ''l''
        ''|011|...|...|..|...|00|'',
      ATTR16_LDSP IT16_LDSP_I RV_IT_L_I RV64C ''l''
        ''|011|.|.....|.....|10|'',
      ATTR16_LW IT16_LW_I RV_IT_L_I RVANYC ''l''
        ''|010|...|...|..|...|00|'',
      ATTR16_LWSP IT16_LWSP_I RV_IT_L_I RVANYC ''l''
        ''|010|.|.....|.....|10|'',
      ATTR16_LD IT16_SD_I RV_IT_S_I RV64C ''s''
        ''|111|...|...|..|...|00|'',
      ATTR16_SDSP IT16_SDSP_I RV_IT_S_I RV64C ''s''
        ''|111|.|.....|.....|10|'',
      ATTR16_LW IT16_SW_I RV_IT_S_I RVANYC ''s''
        ''|110|...|...|..|...|00|'',
      ATTR16_SWSP IT16_SWSP_I RV_IT_S_I RVANYC ''s''
        ''|110|.|.....|.....|10|'',
      ATTR16_NOP IT16_EBREAK_I RV_IT_EBREAK_I RVANYC ''ebreak''
        ''|100|1|00000|00000|10|'',
      ATTR16_BEQZ IT16_BEQZ_B RV_IT_BEQ_B RVANYC ''beqz''
        ''|110|...|...|.....|01|'',
      ATTR16_BEQZ IT16_BNEZ_B RV_IT_BNE_B RVANYC ''bnez''
        ''|111|...|...|.....|01|'',
      ATTR16_J IT16_J_J RV_IT_JAL_J RVANYC ''j''
        ''|101|...........|01|'',
      ATTR16_JAL IT16_JAL_J RV_IT_JAL_J RV32C ''jal''
        ''|001|...........|01|'',
      ATTR16_FLD IT16_FLD_I RV_IT_L_I RVANYCD ''fl''
        ''|001|...|...|..|...|00|'',
      ATTR16_FLDSP IT16_FLDSP_I RV_IT_L_I RVANYCD ''fl''
        ''|001|.|.....|.....|10|'',
      ATTR16_FLW IT16_FLW_I RV_IT_L_I RV32CF ''fl''
        ''|011|...|...|..|...|00|'',
      ATTR16_FLWSP IT16_FLWSP_I RV_IT_L_I RV32CF ''fl''
        ''|011|.|.....|.....|10|'',
      ATTR16_FLD IT16_FSD_I RV_IT_S_I RVANYCD ''fs''
        ''|101|...|...|..|...|00|'',
      ATTR16_FSDSP IT16_FSDSP_I RV_IT_S_I RVANYCD ''fs''
        ''|101|......|.....|10|'',
      ATTR16_FLW IT16_FSW_I RV_IT_S_I RV32CF ''fs''
        ''|111|...|...|..|...|00|'',
      ATTR16_FSWSP IT16_FSWSP_I RV_IT_S_I RV32CF ''fs''
        ''|111|......|.....|10|'',
      ATTR16_NOP IT16_UD1 RV_IT_LAST RVANYC ''illegal''
        ''|000|0|00000|00000|00|'',
      ATTR16_NOP IT16_RES1 RV_IT_LAST RVANYC ''res''
        ''|000|00000000|...|00|'',
      ATTR16_NOP IT16_RES2 RV_IT_LAST RVANYC ''res''
        ''|011|0|.....|00000|01|'',
      ATTR16_NOP IT16_RES3 RV_IT_LAST RVANYC ''res''
        ''|100|0|00000|00000|10|'',
      ATTR16_NOP IT16_RES4 RV_IT_LAST RV64C ''res''
        ''|001|.|00000|.....|01|'',
      ATTR16_NOP IT16_RES5 RV_IT_LAST RVANYC ''res''
        ''|010|.|00000|.....|10|'',
      ATTR16_NOP IT16_RES6 RV_IT_LAST RV64C ''res''
        ''|011|.|00000|.....|10|'',
      ATTR16_LAST IT16_LAST RV_IT_LAST ''undef'']"

section \<open>Classification\<close>

definition getXLenBits :: "riscv \<Rightarrow> nat option" where
  "getXLenBits s = riscvGetXlenMode s"

definition getXLenArch :: "nat \<Rightarrow> riscvArchitecture" where
  "getXLenArch xlen = (if xlen = 32 then ISA_XLEN_32 else ISA_XLEN_64)"

definition createDecodeTable32 :: vmidTable where
  "createDecodeTable32 =
     fold (\<lambda>i table. let entry = attrs_at attrsArray32 i in
             vmidNewEntryFmtBin table (a_opcode entry) i (a_pattern entry) (a_priDelta entry))
       [0..<IT32_LAST] (vmidNewDecodeTable 32 IT32_LAST)"

definition getInstructionType32 :: "vmidDecoder \<Rightarrow> riscvInstrInfo \<Rightarrow> riscvIType32" where
  "getInstructionType32 D info = D createDecodeTable32 (i_instruction info)"

definition createDecodeTable16 :: "bool \<Rightarrow> vmidTable" where
  "createDecodeTable16 is64BitMode =
     (let XLENarch = (if is64BitMode then ISA_XLEN_64 else ISA_XLEN_32) in
      fold (\<lambda>i table. let entry = attrs_at attrsArray16 i in
             if has (a_arch entry) XLENarch
             then vmidNewEntryFmtBin table (a_opcode entry) i (a_pattern entry) (a_priDelta entry)
             else table)
        [0..<IT16_LAST] (vmidNewDecodeTable 16 IT16_LAST))"

definition getInstructionType16 :: "vmidDecoder \<Rightarrow> nat \<Rightarrow> riscvInstrInfo \<Rightarrow> riscvIType16" where
  "getInstructionType16 D xlen info =
     D (createDecodeTable16 (xlen = 64)) (i_instruction info)"

section \<open>Field extraction macros\<close>

definition UBITS :: "nat \<Rightarrow> uns32 \<Rightarrow> uns32" where
  "UBITS n x = x AND (push_bit n 1 - 1)"

definition SBITS :: "nat \<Rightarrow> uns32 \<Rightarrow> uns32" where
  "SBITS n x = signed_drop_bit (32 - n) (push_bit (32 - n) x)"

definition U_2 :: "uns32 \<Rightarrow> uns32" where [field_macros]: "U_2 i = UBITS 1 (drop_bit 2 i)"
definition U_3 :: "uns32 \<Rightarrow> uns32" where [field_macros]: "U_3 i = UBITS 1 (drop_bit 3 i)"
definition U_3_2 :: "uns32 \<Rightarrow> uns32" where [field_macros]: "U_3_2 i = UBITS 2 (drop_bit 2 i)"
definition U_4_2 :: "uns32 \<Rightarrow> uns32" where [field_macros]: "U_4_2 i = UBITS 3 (drop_bit 2 i)"
definition U_4_3 :: "uns32 \<Rightarrow> uns32" where [field_macros]: "U_4_3 i = UBITS 2 (drop_bit 3 i)"
definition U_5 :: "uns32 \<Rightarrow> uns32" where [field_macros]: "U_5 i = UBITS 1 (drop_bit 5 i)"
definition U_5_3 :: "uns32 \<Rightarrow> uns32" where [field_macros]: "U_5_3 i = UBITS 3 (drop_bit 3 i)"
definition U_6 :: "uns32 \<Rightarrow> uns32" where [field_macros]: "U_6 i = UBITS 1 (drop_bit 6 i)"
definition U_6_2 :: "uns32 \<Rightarrow> uns32" where [field_macros]: "U_6_2 i = UBITS 5 (drop_bit 2 i)"
definition U_6_4 :: "uns32 \<Rightarrow> uns32" where [field_macros]: "U_6_4 i = UBITS 3 (drop_bit 4 i)"
definition U_6_5 :: "uns32 \<Rightarrow> uns32" where [field_macros]: "U_6_5 i = UBITS 2 (drop_bit 5 i)"
definition U_7 :: "uns32 \<Rightarrow> uns32" where [field_macros]: "U_7 i = UBITS 1 (drop_bit 7 i)"
definition U_8 :: "uns32 \<Rightarrow> uns32" where [field_macros]: "U_8 i = UBITS 1 (drop_bit 8 i)"
definition U_8_7 :: "uns32 \<Rightarrow> uns32" where [field_macros]: "U_8_7 i = UBITS 2 (drop_bit 7 i)"
definition U_9_7 :: "uns32 \<Rightarrow> uns32" where [field_macros]: "U_9_7 i = UBITS 3 (drop_bit 7 i)"
definition U_10_7 :: "uns32 \<Rightarrow> uns32" where [field_macros]: "U_10_7 i = UBITS 4 (drop_bit 7 i)"
definition U_10_9 :: "uns32 \<Rightarrow> uns32" where [field_macros]: "U_10_9 i = UBITS 2 (drop_bit 9 i)"
definition U_11 :: "uns32 \<Rightarrow> uns32" where [field_macros]: "U_11 i = UBITS 1 (drop_bit 11 i)"
definition U_11_7 :: "uns32 \<Rightarrow> uns32" where [field_macros]: "U_11_7 i = UBITS 5 (drop_bit 7 i)"
definition U_11_8 :: "uns32 \<Rightarrow> uns32" where [field_macros]: "U_11_8 i = UBITS 4 (drop_bit 8 i)"
definition U_11_10 :: "uns32 \<Rightarrow> uns32" where [field_macros]: "U_11_10 i = UBITS 2 (drop_bit 10 i)"
definition U_12 :: "uns32 \<Rightarrow> uns32" where [field_macros]: "U_12 i = UBITS 1 (drop_bit 12 i)"
definition U_12_9 :: "uns32 \<Rightarrow> uns32" where [field_macros]: "U_12_9 i = UBITS 4 (drop_bit 9 i)"
definition U_12_10 :: "uns32 \<Rightarrow> uns32" where [field_macros]: "U_12_10 i = UBITS 3 (drop_bit 10 i)"
definition U_12_11 :: "uns32 \<Rightarrow> uns32" where [field_macros]: "U_12_11 i = UBITS 2 (drop_bit 11 i)"
definition U_13_12 :: "uns32 \<Rightarrow> uns32" where [field_macros]: "U_13_12 i = UBITS 2 (drop_bit 12 i)"
definition U_14 :: "uns32 \<Rightarrow> uns32" where [field_macros]: "U_14 i = UBITS 1 (drop_bit 14 i)"
definition U_14_12 :: "uns32 \<Rightarrow> uns32" where [field_macros]: "U_14_12 i = UBITS 3 (drop_bit 12 i)"
definition U_19_12 :: "uns32 \<Rightarrow> uns32" where [field_macros]: "U_19_12 i = UBITS 8 (drop_bit 12 i)"
definition U_19_15 :: "uns32 \<Rightarrow> uns32" where [field_macros]: "U_19_15 i = UBITS 5 (drop_bit 15 i)"
definition U_20 :: "uns32 \<Rightarrow> uns32" where [field_macros]: "U_20 i = UBITS 1 (drop_bit 20 i)"
definition U_21 :: "uns32 \<Rightarrow> uns32" where [field_macros]: "U_21 i = UBITS 1 (drop_bit 21 i)"
definition U_23_20 :: "uns32 \<Rightarrow> uns32" where [field_macros]: "U_23_20 i = UBITS 4 (drop_bit 20 i)"
definition U_24_20 :: "uns32 \<Rightarrow> uns32" where [field_macros]: "U_24_20 i = UBITS 5 (drop_bit 20 i)"
definition U_25 :: "uns32 \<Rightarrow> uns32" where [field_macros]: "U_25 i = UBITS 1 (drop_bit 25 i)"
definition U_25_20 :: "uns32 \<Rightarrow> uns32" where [field_macros]: "U_25_20 i = UBITS 6 (drop_bit 20 i)"
definition U_26_25 :: "uns32 \<Rightarrow> uns32" where [field_macros]: "U_26_25 i = UBITS 2 (drop_bit 25 i)"
definition U_27_24 :: "uns32 \<Rightarrow> uns32" where [field_macros]: "U_27_24 i = UBITS 4 (drop_bit 24 i)"
definition U_30_21 :: "uns32 \<Rightarrow> uns32" where [field_macros]: "U_30_21 i = UBITS 10 (drop_bit 21 i)"
definition U_30_25 :: "uns32 \<Rightarrow> uns32" where [field_macros]: "U_30_25 i = UBITS 6 (drop_bit 25 i)"
definition U_31_20 :: "uns32 \<Rightarrow> uns32" where [field_macros]: "U_31_20 i = UBITS 12 (drop_bit 20 i)"
definition U_31_27 :: "uns32 \<Rightarrow> uns32" where [field_macros]: "U_31_27 i = UBITS 5 (drop_bit 27 i)"
definition S_12 :: "uns32 \<Rightarrow> uns32" where [field_macros]: "S_12 i = SBITS 1 (drop_bit 12 i)"
definition S_31_12 :: "uns32 \<Rightarrow> uns32" where [field_macros]: "S_31_12 i = SBITS 20 (drop_bit 12 i)"
definition S_31_20 :: "uns32 \<Rightarrow> uns32" where [field_macros]: "S_31_20 i = SBITS 12 (drop_bit 20 i)"
definition S_31_25 :: "uns32 \<Rightarrow> uns32" where [field_macros]: "S_31_25 i = SBITS 7 (drop_bit 25 i)"
definition S_31 :: "uns32 \<Rightarrow> uns32" where [field_macros]: "S_31 i = SBITS 1 (drop_bit 31 i)"

section \<open>Instruction interpretation\<close>

text \<open>Each function of the source that reads the current XLEN takes it as an argument here;
  \<open>interpretInstruction\<close> reads it once, where \<^verbatim>\<open>getXWidth\<close> first does. A function that updates
  \<^verbatim>\<open>info\<close> returns it beside its result.\<close>

definition forceWidth32 :: "riscvInstrInfo \<Rightarrow> riscvRegDesc \<times> riscvInstrInfo" where
  "forceWidth32 info =
     (RV_RD_32, info\<lparr>i_arch := i_arch info AND NOT ISA_XLEN_32, i_explicitW := True\<rparr>)"

fun getXWidth :: "nat \<Rightarrow> riscvInstrInfo \<Rightarrow> wxSpec \<Rightarrow> riscvRegDesc \<times> riscvInstrInfo" where
  "getXWidth xlen info WX_NA = ((if xlen = 32 then RV_RD_32 else RV_RD_64), info)"
| "getXWidth xlen info WX_3 =
     (if U_3 (i_instruction info) = 0 then ((if xlen = 32 then RV_RD_32 else RV_RD_64), info)
      else forceWidth32 info)"
| "getXWidth xlen info WX_12 =
     ((if U_12 (i_instruction info) \<noteq> 0 then RV_RD_64 else RV_RD_32), info\<lparr>i_explicitType := True\<rparr>)"
| "getXWidth xlen info WX_25 =
     ((if U_25 (i_instruction info) \<noteq> 0 then RV_RD_64 else RV_RD_32), info)"
| "getXWidth xlen info WX_21_U_20 =
     ((if U_21 (i_instruction info) \<noteq> 0 then RV_RD_64 else RV_RD_32) +
      (if U_20 (i_instruction info) \<noteq> 0 then RV_RD_U else 0), info\<lparr>i_explicitType := True\<rparr>)"
| "getXWidth xlen info WX_W1 = forceWidth32 info"

fun getFWidth :: "riscvInstrInfo \<Rightarrow> wfSpec \<Rightarrow> riscvRegDesc \<times> riscvInstrInfo" where
  "getFWidth info WF_NA = (RV_RD_NA, info)"
| "getFWidth info WF_25 =
     ((if U_25 (i_instruction info) \<noteq> 0 then RV_RD_64 else RV_RD_32), info\<lparr>i_explicitType := True\<rparr>)"
| "getFWidth info WF_MEM = ((if i_memBits info = 64 then RV_RD_64 else RV_RD_32), info)"

fun getCSR :: "riscvInstrInfo \<Rightarrow> csrSpec \<Rightarrow> uns32" where
  "getCSR info CSRS_NA = 0"
| "getCSR info CSRS_31_20 = U_31_20 (i_instruction info)"

fun getCSRUpdate :: "riscvInstrInfo \<Rightarrow> csrUpdateSpec \<Rightarrow> riscvCSRUDesc" where
  "getCSRUpdate info CSRUS_NA = RV_CSR_NA"
| "getCSRUpdate info CSRUS_13_12 = csru_of (U_13_12 (i_instruction info))"

definition validateShift :: "nat \<Rightarrow> uns32 \<Rightarrow> riscvRegDesc \<Rightarrow> riscvInstrInfo \<Rightarrow> riscvInstrInfo" where
  "validateShift xlen shift wX info =
     (if of_nat xlen \<le> shift then info\<lparr>i_arch := i_arch info AND NOT (getXLenArch xlen)\<rparr>
      else if getRBits wX \<le> shift then info\<lparr>i_type := RV_IT_LAST\<rparr> else info)"

fun getConstantValue :: "uns64 \<Rightarrow> uns32 \<Rightarrow> constSpec \<Rightarrow> uns64" where
  "getConstantValue thisPC instr CS_NA = 0"
| "getConstantValue thisPC instr CS_U_19_15 = ucast (U_19_15 instr)"
| "getConstantValue thisPC instr CS_S_31_20 = scast (S_31_20 instr)"
| "getConstantValue thisPC instr CS_S_31_25_11_7 =
     scast (push_bit 5 (S_31_25 instr)) +
     ucast (U_11_7 instr)"
| "getConstantValue thisPC instr CS_SHAMT_25_20 = ucast (U_25_20 instr)"
| "getConstantValue thisPC instr CS_AUIPC = scast (push_bit 12 (S_31_12 instr))"
| "getConstantValue thisPC instr CS_J =
     scast (push_bit 20 (S_31 instr)) + ucast (push_bit 12 (U_19_12 instr)) +
     ucast (push_bit 11 (U_20 instr)) + ucast (push_bit 1 (U_30_21 instr)) + thisPC"
| "getConstantValue thisPC instr CS_B =
     scast (push_bit 12 (S_31 instr)) + ucast (push_bit 11 (U_7 instr)) +
     ucast (push_bit 5 (U_30_25 instr)) + ucast (push_bit 1 (U_11_8 instr)) + thisPC"
| "getConstantValue thisPC instr CS_C_ADDI =
     scast (push_bit 5 (S_12 instr)) +
     ucast (U_6_2 instr)"
| "getConstantValue thisPC instr CS_C_SLLI =
     ucast (push_bit 5 (U_12 instr)) +
     ucast (U_6_2 instr)"
| "getConstantValue thisPC instr CS_C_ADDI16SP =
     scast (push_bit 9 (S_12 instr)) + ucast (push_bit 7 (U_4_3 instr)) +
     ucast (push_bit 6 (U_5 instr)) + ucast (push_bit 5 (U_2 instr)) + ucast (push_bit 4 (U_6 instr))"
| "getConstantValue thisPC instr CS_C_ADDI4SPN =
     ucast (push_bit 6 (U_10_7 instr)) + ucast (push_bit 4 (U_12_11 instr)) +
     ucast (push_bit 3 (U_5 instr)) + ucast (push_bit 2 (U_6 instr))"
| "getConstantValue thisPC instr CS_C_LUI =
     scast (push_bit 17 (S_12 instr)) +
     ucast (push_bit 12 (U_6_2 instr))"
| "getConstantValue thisPC instr CS_C_LW =
     ucast (push_bit 6 (U_5 instr)) +
     ucast (push_bit 3 (U_12_10 instr)) + ucast (push_bit 2 (U_6 instr))"
| "getConstantValue thisPC instr CS_C_LD =
     ucast (push_bit 6 (U_6_5 instr)) +
     ucast (push_bit 3 (U_12_10 instr))"
| "getConstantValue thisPC instr CS_C_LWSP =
     ucast (push_bit 6 (U_3_2 instr)) +
     ucast (push_bit 5 (U_12 instr)) + ucast (push_bit 2 (U_6_4 instr))"
| "getConstantValue thisPC instr CS_C_LDSP =
     ucast (push_bit 6 (U_4_2 instr)) +
     ucast (push_bit 5 (U_12 instr)) + ucast (push_bit 3 (U_6_5 instr))"
| "getConstantValue thisPC instr CS_C_SWSP =
     ucast (push_bit 6 (U_8_7 instr)) +
     ucast (push_bit 2 (U_12_9 instr))"
| "getConstantValue thisPC instr CS_C_SDSP =
     ucast (push_bit 6 (U_9_7 instr)) +
     ucast (push_bit 3 (U_12_10 instr))"
| "getConstantValue thisPC instr CS_C_B =
     scast (push_bit 8 (S_12 instr)) + ucast (push_bit 6 (U_6_5 instr)) + ucast (push_bit 5 (U_2 instr)) +
     ucast (push_bit 3 (U_11_10 instr)) + ucast (push_bit 1 (U_4_3 instr)) + thisPC"
| "getConstantValue thisPC instr CS_C_J =
     scast (push_bit 11 (S_12 instr)) + ucast (push_bit 10 (U_8 instr)) + ucast (push_bit 8 (U_10_9 instr)) + ucast (push_bit 7 (U_6 instr)) +
     ucast (push_bit 6 (U_7 instr)) + ucast (push_bit 5 (U_2 instr)) + ucast (push_bit 4 (U_11 instr)) + ucast (push_bit 1 (U_5_3 instr)) + thisPC"


definition getConstant ::
    "nat \<Rightarrow> riscvInstrInfo \<Rightarrow> constSpec \<Rightarrow> riscvRegDesc \<Rightarrow> uns64 \<times> riscvInstrInfo" where
  "getConstant xlen info c wX =
     (let result = getConstantValue (i_thisPC info) (i_instruction info) c in
      (result, if c = CS_SHAMT_25_20 \<or> c = CS_C_SLLI
               then validateShift xlen (ucast result) wX info else info))"

fun getRegisterSpec :: "uns32 \<Rightarrow> rSpec \<Rightarrow> riscvRegDesc" where
  "getRegisterSpec instr R_NA = RV_RD_NA"
| "getRegisterSpec instr RS_X_ZERO = RV_RD_X OR 0"
| "getRegisterSpec instr RS_X_LR = RV_RD_X OR 1"
| "getRegisterSpec instr RS_X_SP = RV_RD_X OR 2"
| "getRegisterSpec instr RS_X_4_2_P8 = RV_RD_X OR (U_4_2 instr + 8)"
| "getRegisterSpec instr RS_X_6_2 = RV_RD_X OR U_6_2 instr"
| "getRegisterSpec instr RS_X_11_7 = RV_RD_X OR U_11_7 instr"
| "getRegisterSpec instr RS_X_19_15 = RV_RD_X OR U_19_15 instr"
| "getRegisterSpec instr RS_X_24_20 = RV_RD_X OR U_24_20 instr"
| "getRegisterSpec instr RS_X_9_7_P8 = RV_RD_X OR (U_9_7 instr + 8)"
| "getRegisterSpec instr RS_XWL_11_7 = RV_RD_X OR U_11_7 instr OR RV_RD_WL"
| "getRegisterSpec instr RS_XWL_19_15 = RV_RD_X OR U_19_15 instr OR RV_RD_WL"
| "getRegisterSpec instr RS_XX_11_7 = RV_RD_X OR U_11_7 instr OR RV_RD_FX"
| "getRegisterSpec instr RS_XX_19_15 = RV_RD_X OR U_19_15 instr OR RV_RD_FX"
| "getRegisterSpec instr RS_F_4_2_P8 = RV_RD_F OR (U_4_2 instr + 8)"
| "getRegisterSpec instr RS_F_6_2 = RV_RD_F OR U_6_2 instr"
| "getRegisterSpec instr RS_F_11_7 = RV_RD_F OR U_11_7 instr"
| "getRegisterSpec instr RS_F_19_15 = RV_RD_F OR U_19_15 instr"
| "getRegisterSpec instr RS_F_24_20 = RV_RD_F OR U_24_20 instr"
| "getRegisterSpec instr RS_F_31_27 = RV_RD_F OR U_31_27 instr"
| "getRegisterSpec instr RS_S_19_15 = RV_RD_F OR U_19_15 instr OR RV_RD_32"
| "getRegisterSpec instr RS_D_19_15 = RV_RD_F OR U_19_15 instr OR RV_RD_64"

definition getRegister ::
    "nat \<Rightarrow> rSpec \<Rightarrow> riscvRegDesc \<Rightarrow> riscvRegDesc \<Rightarrow> bool \<Rightarrow> riscvInstrInfo \<Rightarrow>
      riscvRegDesc \<times> riscvInstrInfo" where
  "getRegister xlen r wX wF xQuiet info =
     (let result = getRegisterSpec (i_instruction info) r;
          result =
            (if result \<noteq> 0 \<and> getRBits result = 0
             then let result = (if xQuiet \<and> isXReg result \<and> \<not> isXWLReg result
                                then result OR RV_RD_Q else result)
                  in result OR (if isXReg result then wX else wF)
             else result);
          info = (if isXReg result \<and> of_nat xlen < getRBits result
                  then info\<lparr>i_arch := i_arch info AND NOT (getXLenArch xlen)\<rparr> else info)
      in (result, info))"

fun getAQRL :: "riscvInstrInfo \<Rightarrow> aqrlSpec \<Rightarrow> riscvAQRLDesc" where
  "getAQRL info AQRL_NA = RV_AQRL_NA"
| "getAQRL info AQRL_26_25 = aqrl_of (U_26_25 (i_instruction info))"

fun getFence :: "riscvInstrInfo \<Rightarrow> fenceSpec \<Rightarrow> riscvFenceDesc" where
  "getFence info FENCES_NA = RV_FENCE_NA"
| "getFence info FENCES_23_20 = U_23_20 (i_instruction info)"
| "getFence info FENCES_27_24 = U_27_24 (i_instruction info)"

fun getMemBits :: "riscvInstrInfo \<Rightarrow> memBitsSpec \<Rightarrow> uns32" where
  "getMemBits info MBS_NA = 0"
| "getMemBits info MBS_12 = push_bit (unat (U_12 (i_instruction info))) 32"
| "getMemBits info MBS_13_12 = push_bit (unat (U_13_12 (i_instruction info))) 8"
| "getMemBits info MBS_W = 32"
| "getMemBits info MBS_D = 64"

fun getUnsExt :: "riscvInstrInfo \<Rightarrow> unsExtSpec \<Rightarrow> bool" where
  "getUnsExt info USX_NA = False"
| "getUnsExt info USX_14 = (U_14 (i_instruction info) \<noteq> 0)"

fun getRM :: "riscvInstrInfo \<Rightarrow> rmSpec \<Rightarrow> riscvRMDesc" where
  "getRM info RM_NA = RV_RM_NA"
| "getRM info RM_14_12 =
     [RV_RM_RTE, RV_RM_RTZ, RV_RM_RDN, RV_RM_RUP,
      RV_RM_RMM, RV_RM_BAD5, RV_RM_BAD6, RV_RM_CURRENT] ! unat (U_14_12 (i_instruction info))"

definition fixFPPseudoInstructions :: "riscvInstrInfo \<Rightarrow> riscvInstrInfo" where
  "fixFPPseudoInstructions info =
     (if i_r info ! 1 = i_r info ! 2 then
        if i_type info = RV_IT_FSGNJX_R
        then info\<lparr>i_type := RV_IT_FABS_R, i_opcode := ''fabs'', i_format := FMT_R1_R2\<rparr>
        else if i_type info = RV_IT_FSGNJ_R
        then info\<lparr>i_type := RV_IT_FMV_R, i_opcode := ''fmv'', i_format := FMT_R1_R2\<rparr>
        else if i_type info = RV_IT_FSGNJN_R
        then info\<lparr>i_type := RV_IT_FNEG_R, i_opcode := ''fneg'', i_format := FMT_R1_R2\<rparr>
        else info
      else info)"

definition interpretInstruction ::
    "riscv \<Rightarrow> riscvInstrInfo \<Rightarrow> opAttrs \<Rightarrow> riscvInstrInfo option" where
  "interpretInstruction s info attrs =
     map_option (\<lambda>xlen.
       let info = info\<lparr>i_type := a_type attrs, i_opcode := a_opcode attrs,
                       i_format := a_format attrs, i_arch := a_arch attrs,
                       i_explicitType := False, i_explicitW := False,
                       i_csrInOp := a_csrInOp attrs\<rparr>;
           info = info\<lparr>i_memBits := getMemBits info (a_memBits attrs)\<rparr>;
           (wX, info) = getXWidth xlen info (a_wX attrs);
           (wF, info) = getFWidth info (a_wF attrs);
           info = info\<lparr>i_unsExt := getUnsExt info (a_unsExt attrs)\<rparr>;
           info = info\<lparr>i_csr := getCSR info (a_csr attrs)\<rparr>;
           info = info\<lparr>i_csrUpdate := getCSRUpdate info (a_csrUpdate attrs)\<rparr>;
           (c, info) = getConstant xlen info (a_cs attrs) wX;
           info = info\<lparr>i_c := c\<rparr>;
           (r0, info) = getRegister xlen (a_r1 attrs) wX wF (a_xQuiet attrs) info;
           (r1, info) = getRegister xlen (a_r2 attrs) wX wF (a_xQuiet attrs) info;
           (r2, info) = getRegister xlen (a_r3 attrs) wX wF (a_xQuiet attrs) info;
           (r3, info) = getRegister xlen (a_r4 attrs) wX wF (a_xQuiet attrs) info;
           info = info\<lparr>i_r := [r0, r1, r2, r3]\<rparr>;
           info = info\<lparr>i_aqrl := getAQRL info (a_aqrl attrs)\<rparr>;
           info = info\<lparr>i_pred := getFence info (a_pred attrs)\<rparr>;
           info = info\<lparr>i_succ := getFence info (a_succ attrs)\<rparr>;
           info = info\<lparr>i_rm := getRM info (a_rm attrs)\<rparr>
       in fixFPPseudoInstructions info) (getXLenBits s)"

definition decode32 :: "vmidDecoder \<Rightarrow> riscv \<Rightarrow> riscvInstrInfo \<Rightarrow> riscvInstrInfo option" where
  "decode32 D s info =
     interpretInstruction s info (attrs_at attrsArray32 (getInstructionType32 D info))"

definition decode16 :: "vmidDecoder \<Rightarrow> riscv \<Rightarrow> riscvInstrInfo \<Rightarrow> riscvInstrInfo option" where
  "decode16 D s info =
     Option.bind (getXLenBits s) (\<lambda>xlen.
       interpretInstruction s info (attrs_at attrsArray16 (getInstructionType16 D xlen info)))"

text \<open>The members of \<^verbatim>\<open>info\<close> before the call are the caller's; every one is written.\<close>

definition riscvDecode ::
    "vmidDecoder \<Rightarrow> vmirt \<Rightarrow> riscv \<Rightarrow> uns64 \<Rightarrow> riscvInstrInfo \<Rightarrow> riscvInstrInfo option" where
  "riscvDecode D V s thisPC info =
     (let info = info\<lparr>i_type := RV_IT_LAST, i_thisPC := thisPC\<rparr>;
          info = info\<lparr>i_instruction := riscvGetInstruction V s (i_thisPC info)\<rparr>;
          info = info\<lparr>i_bytes := if is4ByteInstruction (i_instruction info) then 4 else 2\<rparr>
      in if i_bytes info = 4 then decode32 D s info else decode16 D s info)"

end
