(* ===== verification/RiscvDecodeTable.thy ===== *)
theory RiscvDecodeTable
  imports RiscvDecode
begin

text \<open>
  The decode tables as data. Each entry is summarised by its key (identifier, generic type,
  priority, bits); the keys of the two attribute arrays are evaluated once, and what a
  conforming table lookup returns is read off them. No two keys of the same priority have a
  common instruction, so the tables determine the classification: a lookup that keeps its
  promise and the reference lookup \<open>vmid_ref\<close> agree on every instruction.
\<close>

section \<open>Keys\<close>

type_synonym patKey = "nat \<times> riscvIType \<times> nat \<times> patBit list"

definition attr_key :: "nat \<times> opAttrs \<Rightarrow> patKey" where
  "attr_key x =
     (case pat_bits (a_pattern (snd x)) of bs \<Rightarrow>
       (fst x, a_type (snd x), bits_fixed bs + a_priDelta (snd x), bs))"

fun key_matches :: "uns32 \<Rightarrow> patKey \<Rightarrow> bool" where
  "key_matches i (k, ty, p, bs) = bits_match bs 0 i"

fun key_priority :: "patKey \<Rightarrow> nat" where
  "key_priority (k, ty, p, bs) = p"

definition keys32 :: "patKey list" where
  "keys32 =
     [(0, 2, 16, [B1,B1,B0,BX,B1,B1,B0,BX,BX,BX,BX,BX,B0,B0,B0,BX,BX,BX,BX,BX,BX,BX,BX,BX,BX,B0,B0,B0,B0,B0,B0,B0]),
      (1, 3, 17, [B1,B1,B0,B0,B1,B1,B0,BX,BX,BX,BX,BX,B1,B1,B1,BX,BX,BX,BX,BX,BX,BX,BX,BX,BX,B0,B0,B0,B0,B0,B0,B0]),
      (3, 10, 21, [B1,B1,B0,BX,B1,B1,B0,BX,BX,BX,BX,BX,B0,B0,B0,B0,B0,B0,B0,B0,BX,BX,BX,BX,BX,B0,B0,B0,B0,B0,B1,B0]),
      (2, 4, 17, [B1,B1,B0,B0,B1,B1,B0,BX,BX,BX,BX,BX,B0,B1,B1,BX,BX,BX,BX,BX,BX,BX,BX,BX,BX,B0,B0,B0,B0,B0,B0,B0]),
      (4, 6, 22, [B1,B1,B0,B0,B1,B1,B0,BX,BX,BX,BX,BX,B0,B1,B0,B0,B0,B0,B0,B0,BX,BX,BX,BX,BX,B0,B0,B0,B0,B0,B0,B0]),
      (5, 5, 16, [B1,B1,B0,BX,B1,B1,B0,BX,BX,BX,BX,BX,B1,B0,B0,BX,BX,BX,BX,BX,BX,BX,BX,BX,BX,B0,B0,B0,B0,B0,B0,B0]),
      (6, 6, 17, [B1,B1,B0,B0,B1,B1,B0,BX,BX,BX,BX,BX,B0,B1,B0,BX,BX,BX,BX,BX,BX,BX,BX,BX,BX,B0,B0,B0,B0,B0,B0,B0]),
      (7, 7, 17, [B1,B1,B0,B0,B1,B1,B0,BX,BX,BX,BX,BX,B1,B1,B0,BX,BX,BX,BX,BX,BX,BX,BX,BX,BX,B0,B0,B0,B0,B0,B0,B0]),
      (8, 6, 23, [B1,B1,B0,B0,B1,B1,B0,BX,BX,BX,BX,BX,B0,B1,B0,BX,BX,BX,BX,BX,B0,B0,B0,B0,B0,B0,B0,B0,B0,B0,B0,B0]),
      (9, 7, 22, [B1,B1,B0,B0,B1,B1,B0,BX,BX,BX,BX,BX,B1,B1,B0,B0,B0,B0,B0,B0,BX,BX,BX,BX,BX,B0,B0,B0,B0,B0,B0,B0]),
      (10, 8, 16, [B1,B1,B0,BX,B1,B1,B0,BX,BX,BX,BX,BX,B1,B0,B1,BX,BX,BX,BX,BX,BX,BX,BX,BX,BX,B0,B0,B0,B0,B0,B1,B0]),
      (11, 9, 16, [B1,B1,B0,BX,B1,B1,B0,BX,BX,BX,BX,BX,B1,B0,B1,BX,BX,BX,BX,BX,BX,BX,BX,BX,BX,B0,B0,B0,B0,B0,B0,B0]),
      (12, 10, 16, [B1,B1,B0,BX,B1,B1,B0,BX,BX,BX,BX,BX,B0,B0,B0,BX,BX,BX,BX,BX,BX,BX,BX,BX,BX,B0,B0,B0,B0,B0,B1,B0]),
      (13, 11, 17, [B1,B1,B0,B0,B1,B1,B0,BX,BX,BX,BX,BX,B0,B0,B1,BX,BX,BX,BX,BX,BX,BX,BX,BX,BX,B0,B0,B0,B0,B0,B0,B0]),
      (14, 12, 16, [B1,B1,B0,BX,B1,B1,B0,BX,BX,BX,BX,BX,B0,B0,B1,BX,BX,BX,BX,BX,BX,BX,BX,BX,BX,B1,B0,B0,B0,B0,B0,B0]),
      (15, 13, 16, [B1,B1,B0,BX,B1,B1,B0,BX,BX,BX,BX,BX,B1,B0,B1,BX,BX,BX,BX,BX,BX,BX,BX,BX,BX,B1,B0,B0,B0,B0,B0,B0]),
      (16, 14, 16, [B1,B1,B0,BX,B1,B1,B0,BX,BX,BX,BX,BX,B0,B0,B0,BX,BX,BX,BX,BX,BX,BX,BX,BX,BX,B1,B0,B0,B0,B0,B0,B0]),
      (17, 15, 17, [B1,B1,B0,B0,B1,B1,B0,BX,BX,BX,BX,BX,B1,B0,B0,BX,BX,BX,BX,BX,BX,BX,BX,BX,BX,B1,B0,B0,B0,B0,B0,B0]),
      (18, 16, 17, [B1,B1,B0,B0,B1,B1,B0,BX,BX,BX,BX,BX,B0,B1,B0,BX,BX,BX,BX,BX,BX,BX,BX,BX,BX,B1,B0,B0,B0,B0,B0,B0]),
      (19, 17, 17, [B1,B1,B0,B0,B1,B1,B0,BX,BX,BX,BX,BX,B1,B1,B0,BX,BX,BX,BX,BX,BX,BX,BX,BX,BX,B1,B0,B0,B0,B0,B0,B0]),
      (20, 18, 16, [B1,B1,B0,BX,B1,B1,B0,BX,BX,BX,BX,BX,B0,B1,B1,BX,BX,BX,BX,BX,BX,BX,BX,BX,BX,B1,B0,B0,B0,B0,B0,B0]),
      (21, 19, 16, [B1,B1,B0,BX,B1,B1,B0,BX,BX,BX,BX,BX,B1,B1,B1,BX,BX,BX,BX,BX,BX,BX,BX,BX,BX,B1,B0,B0,B0,B0,B0,B0]),
      (22, 20, 9, [B1,B1,B0,BX,B1,B0,B0,BX,BX,BX,BX,BX,B0,B0,B0,BX,BX,BX,BX,BX,BX,BX,BX,BX,BX,BX,BX,BX,BX,BX,BX,BX]),
      (23, 21, 10, [B1,B1,B0,B0,B1,B0,B0,BX,BX,BX,BX,BX,B1,B1,B1,BX,BX,BX,BX,BX,BX,BX,BX,BX,BX,BX,BX,BX,BX,BX,BX,BX]),
      (24, 22, 15, [B1,B1,B1,B0,B0,B1,B1,B0,B0,B0,B0,B0,B0,B0,B0,BX,BX,BX,BX,BX,BX,BX,BX,BX,BX,BX,BX,BX,BX,BX,BX,BX]),
      (25, 22, 27, [B1,B1,B1,B0,B0,B1,B1,B0,B0,B0,B0,B0,B0,B0,B0,BX,BX,BX,BX,BX,B0,B0,B0,B0,B0,B0,B0,B0,B0,B0,B0,B0]),
      (26, 22, 10, [B1,B1,B1,B0,B0,B1,B1,BX,BX,BX,BX,BX,B0,B0,B0,BX,BX,BX,BX,BX,BX,BX,BX,BX,BX,BX,BX,BX,BX,BX,BX,BX]),
      (27, 22, 22, [B1,B1,B1,B0,B0,B1,B1,BX,BX,BX,BX,BX,B0,B0,B0,BX,BX,BX,BX,BX,B0,B0,B0,B0,B0,B0,B0,B0,B0,B0,B0,B0]),
      (28, 0, 22, [B1,B1,B0,B0,B1,B0,B0,BX,BX,BX,BX,BX,B0,B0,B0,BX,BX,BX,BX,BX,B0,B0,B0,B0,B0,B0,B0,B0,B0,B0,B0,B0]),
      (29, 20, 32, [B1,B1,B0,B0,B1,B0,B0,B0,B0,B0,B0,B0,B0,B0,B0,B0,B0,B0,B0,B0,B0,B0,B0,B0,B0,B0,B0,B0,B0,B0,B0,B0]),
      (30, 29, 22, [B1,B1,B0,B0,B1,B0,B0,BX,BX,BX,BX,BX,B0,B0,B1,BX,BX,BX,BX,BX,B1,B1,B1,B1,B1,B1,B1,B1,B1,B1,B1,B1]),
      (31, 23, 10, [B1,B1,B0,B0,B1,B0,B0,BX,BX,BX,BX,BX,B0,B1,B1,BX,BX,BX,BX,BX,BX,BX,BX,BX,BX,BX,BX,BX,BX,BX,BX,BX]),
      (32, 22, 32, [B1,B1,B1,B0,B0,B1,B1,B0,B0,B0,B0,B0,B0,B0,B0,B1,B0,B0,B0,B0,B0,B0,B0,B0,B0,B0,B0,B0,B0,B0,B0,B0]),
      (33, 25, 22, [B1,B1,B0,B0,B1,B0,B0,BX,BX,BX,BX,BX,B1,B1,B0,BX,BX,BX,BX,BX,B1,B0,B0,B0,B0,B0,B0,B0,B0,B0,B0,B0]),
      (34, 20, 22, [B1,B1,B0,B1,B1,B0,B0,BX,BX,BX,BX,BX,B0,B0,B0,BX,BX,BX,BX,BX,B0,B0,B0,B0,B0,B0,B0,B0,B0,B0,B0,B0]),
      (35, 26, 15, [B1,B1,B0,BX,B1,B0,B0,BX,BX,BX,BX,BX,B1,B0,B0,BX,BX,BX,BX,BX,BX,BX,BX,BX,BX,BX,B0,B0,B0,B0,B0,B0]),
      (36, 24, 10, [B1,B1,B0,B0,B1,B0,B0,BX,BX,BX,BX,BX,B0,B1,B0,BX,BX,BX,BX,BX,BX,BX,BX,BX,BX,BX,BX,BX,BX,BX,BX,BX]),
      (37, 25, 10, [B1,B1,B0,B0,B1,B0,B0,BX,BX,BX,BX,BX,B1,B1,B0,BX,BX,BX,BX,BX,BX,BX,BX,BX,BX,BX,BX,BX,BX,BX,BX,BX]),
      (38, 27, 15, [B1,B1,B0,BX,B1,B0,B0,BX,BX,BX,BX,BX,B1,B0,B1,BX,BX,BX,BX,BX,BX,BX,BX,BX,BX,BX,B0,B0,B0,B0,B1,B0]),
      (39, 28, 15, [B1,B1,B0,BX,B1,B0,B0,BX,BX,BX,BX,BX,B1,B0,B1,BX,BX,BX,BX,BX,BX,BX,BX,BX,BX,BX,B0,B0,B0,B0,B0,B0]),
      (40, 29, 10, [B1,B1,B0,B0,B1,B0,B0,BX,BX,BX,BX,BX,B0,B0,B1,BX,BX,BX,BX,BX,BX,BX,BX,BX,BX,BX,BX,BX,BX,BX,BX,BX]),
      (41, 30, 10, [B1,B1,B0,B0,B0,B0,B0,BX,BX,BX,BX,BX,B0,B0,B0,BX,BX,BX,BX,BX,BX,BX,BX,BX,BX,BX,BX,BX,BX,BX,BX,BX]),
      (42, 30, 10, [B1,B1,B0,B0,B0,B0,B0,BX,BX,BX,BX,BX,B0,B0,B1,BX,BX,BX,BX,BX,BX,BX,BX,BX,BX,BX,BX,BX,BX,BX,BX,BX]),
      (43, 30, 10, [B1,B1,B0,B0,B0,B0,B0,BX,BX,BX,BX,BX,B1,B0,B0,BX,BX,BX,BX,BX,BX,BX,BX,BX,BX,BX,BX,BX,BX,BX,BX,BX]),
      (44, 30, 10, [B1,B1,B0,B0,B0,B0,B0,BX,BX,BX,BX,BX,B1,B0,B1,BX,BX,BX,BX,BX,BX,BX,BX,BX,BX,BX,BX,BX,BX,BX,BX,BX]),
      (45, 30, 10, [B1,B1,B0,B0,B0,B0,B0,BX,BX,BX,BX,BX,B0,B1,B0,BX,BX,BX,BX,BX,BX,BX,BX,BX,BX,BX,BX,BX,BX,BX,BX,BX]),
      (46, 30, 10, [B1,B1,B0,B0,B0,B0,B0,BX,BX,BX,BX,BX,B0,B1,B1,BX,BX,BX,BX,BX,BX,BX,BX,BX,BX,BX,BX,BX,BX,BX,BX,BX]),
      (47, 30, 10, [B1,B1,B0,B0,B0,B0,B0,BX,BX,BX,BX,BX,B1,B1,B0,BX,BX,BX,BX,BX,BX,BX,BX,BX,BX,BX,BX,BX,BX,BX,BX,BX]),
      (48, 31, 10, [B1,B1,B0,B0,B0,B1,B0,BX,BX,BX,BX,BX,B0,B0,B0,BX,BX,BX,BX,BX,BX,BX,BX,BX,BX,BX,BX,BX,BX,BX,BX,BX]),
      (49, 31, 10, [B1,B1,B0,B0,B0,B1,B0,BX,BX,BX,BX,BX,B1,B0,B0,BX,BX,BX,BX,BX,BX,BX,BX,BX,BX,BX,BX,BX,BX,BX,BX,BX]),
      (50, 31, 10, [B1,B1,B0,B0,B0,B1,B0,BX,BX,BX,BX,BX,B0,B1,B0,BX,BX,BX,BX,BX,BX,BX,BX,BX,BX,BX,BX,BX,BX,BX,BX,BX]),
      (51, 31, 10, [B1,B1,B0,B0,B0,B1,B0,BX,BX,BX,BX,BX,B1,B1,B0,BX,BX,BX,BX,BX,BX,BX,BX,BX,BX,BX,BX,BX,BX,BX,BX,BX]),
      (52, 32, 10, [B1,B1,B0,B0,B1,B1,B1,BX,BX,BX,BX,BX,B1,B1,B0,BX,BX,BX,BX,BX,BX,BX,BX,BX,BX,BX,BX,BX,BX,BX,BX,BX]),
      (53, 32, 10, [B1,B1,B0,B0,B1,B1,B1,BX,BX,BX,BX,BX,B0,B1,B0,BX,BX,BX,BX,BX,BX,BX,BX,BX,BX,BX,BX,BX,BX,BX,BX,BX]),
      (54, 32, 10, [B1,B1,B0,B0,B1,B1,B1,BX,BX,BX,BX,BX,B1,B0,B0,BX,BX,BX,BX,BX,BX,BX,BX,BX,BX,BX,BX,BX,BX,BX,BX,BX]),
      (55, 32, 16, [B1,B1,B0,B0,B1,B1,B1,BX,BX,BX,BX,BX,B0,B1,B0,B0,B0,B0,B0,B0,BX,BX,BX,BX,BX,BX,BX,BX,BX,BX,BX,BX]),
      (56, 32, 15, [B1,B1,B0,B0,B1,B1,B1,B0,B0,B0,B0,B0,B1,B1,B0,BX,BX,BX,BX,BX,BX,BX,BX,BX,BX,BX,BX,BX,BX,BX,BX,BX]),
      (57, 32, 15, [B1,B1,B0,B0,B1,B1,B1,B0,B0,B0,B0,B0,B0,B1,B0,BX,BX,BX,BX,BX,BX,BX,BX,BX,BX,BX,BX,BX,BX,BX,BX,BX]),
      (58, 32, 15, [B1,B1,B0,B0,B1,B1,B1,B0,B0,B0,B0,B0,B1,B0,B0,BX,BX,BX,BX,BX,BX,BX,BX,BX,BX,BX,BX,BX,BX,BX,BX,BX]),
      (59, 32, 25, [B1,B1,B0,B0,B1,B1,B1,BX,BX,BX,BX,BX,B0,B1,B0,B0,B0,B0,B0,B0,BX,B0,B0,B0,B0,B0,B0,BX,B0,B0,B1,B1]),
      (60, 32, 26, [B1,B1,B0,B0,B1,B1,B1,BX,BX,BX,BX,BX,B0,B1,B0,B0,B0,B0,B0,B0,B0,B1,B0,B0,B0,B0,B0,BX,B0,B0,B1,B1]),
      (61, 33, 10, [B1,B1,B0,B0,B1,B1,B1,BX,BX,BX,BX,BX,B1,B1,B1,BX,BX,BX,BX,BX,BX,BX,BX,BX,BX,BX,BX,BX,BX,BX,BX,BX]),
      (62, 33, 10, [B1,B1,B0,B0,B1,B1,B1,BX,BX,BX,BX,BX,B0,B1,B1,BX,BX,BX,BX,BX,BX,BX,BX,BX,BX,BX,BX,BX,BX,BX,BX,BX]),
      (63, 33, 10, [B1,B1,B0,B0,B1,B1,B1,BX,BX,BX,BX,BX,B1,B0,B1,BX,BX,BX,BX,BX,BX,BX,BX,BX,BX,BX,BX,BX,BX,BX,BX,BX]),
      (64, 33, 15, [B1,B1,B0,B0,B1,B1,B1,B0,B0,B0,B0,B0,B1,B1,B1,BX,BX,BX,BX,BX,BX,BX,BX,BX,BX,BX,BX,BX,BX,BX,BX,BX]),
      (65, 33, 15, [B1,B1,B0,B0,B1,B1,B1,B0,B0,B0,B0,B0,B0,B1,B1,BX,BX,BX,BX,BX,BX,BX,BX,BX,BX,BX,BX,BX,BX,BX,BX,BX]),
      (66, 33, 15, [B1,B1,B0,B0,B1,B1,B1,B0,B0,B0,B0,B0,B1,B0,B1,BX,BX,BX,BX,BX,BX,BX,BX,BX,BX,BX,BX,BX,BX,BX,BX,BX]),
      (67, 34, 32, [B1,B1,B0,B0,B1,B1,B1,B0,B0,B0,B0,B0,B0,B0,B0,B0,B0,B0,B0,B0,B1,B0,B0,B0,B0,B0,B0,B0,B0,B0,B0,B0]),
      (68, 35, 32, [B1,B1,B0,B0,B1,B1,B1,B0,B0,B0,B0,B0,B0,B0,B0,B0,B0,B0,B0,B0,B0,B0,B0,B0,B0,B0,B0,B0,B0,B0,B0,B0]),
      (69, 36, 32, [B1,B1,B1,B1,B0,B0,B0,B0,B0,B0,B0,B0,B1,B0,B0,B0,B0,B0,B0,B0,B0,B0,B0,B0,B0,B0,B0,B0,B0,B0,B0,B0]),
      (70, 37, 32, [B1,B1,B0,B0,B1,B1,B1,B0,B0,B0,B0,B0,B0,B0,B0,B0,B0,B0,B0,B0,B0,B1,B0,B0,B0,B0,B0,B0,B1,B1,B0,B0]),
      (71, 38, 32, [B1,B1,B0,B0,B1,B1,B1,B0,B0,B0,B0,B0,B0,B0,B0,B0,B0,B0,B0,B0,B0,B1,B0,B0,B0,B0,B0,B0,B1,B0,B0,B0]),
      (72, 39, 32, [B1,B1,B0,B0,B1,B1,B1,B0,B0,B0,B0,B0,B0,B0,B0,B0,B0,B0,B0,B0,B0,B1,B0,B0,B0,B0,B0,B0,B0,B0,B0,B0]),
      (73, 40, 32, [B1,B1,B0,B0,B1,B1,B1,B0,B0,B0,B0,B0,B0,B0,B0,B0,B0,B0,B0,B0,B1,B0,B1,B0,B0,B0,B0,B0,B1,B0,B0,B0]),
      (74, 41, 24, [B1,B1,B1,B1,B0,B0,B0,B0,B0,B0,B0,B0,B0,B0,B0,B0,B0,B0,B0,B0,BX,BX,BX,BX,BX,BX,BX,BX,B0,B0,B0,B0]),
      (75, 42, 22, [B1,B1,B0,B0,B1,B1,B1,B0,B0,B0,B0,B0,B0,B0,B0,BX,BX,BX,BX,BX,BX,BX,BX,BX,BX,B1,B0,B0,B1,B0,B0,B0]),
      (76, 43, 7, [B1,B1,B1,B0,B1,B0,B0,BX,BX,BX,BX,BX,BX,BX,BX,BX,BX,BX,BX,BX,BX,BX,BX,BX,BX,BX,BX,BX,BX,BX,BX,BX]),
      (77, 1, 7, [B1,B1,B1,B0,B1,B1,B0,BX,BX,BX,BX,BX,BX,BX,BX,BX,BX,BX,BX,BX,BX,BX,BX,BX,BX,BX,BX,BX,BX,BX,BX,BX]),
      (78, 45, 10, [B1,B1,B0,B0,B0,B1,B1,BX,BX,BX,BX,BX,B0,B0,B0,BX,BX,BX,BX,BX,BX,BX,BX,BX,BX,BX,BX,BX,BX,BX,BX,BX]),
      (79, 45, 15, [B1,B1,B0,B0,B0,B1,B1,BX,BX,BX,BX,BX,B0,B0,B0,BX,BX,BX,BX,BX,B0,B0,B0,B0,B0,BX,BX,BX,BX,BX,BX,BX]),
      (80, 46, 10, [B1,B1,B0,B0,B0,B1,B1,BX,BX,BX,BX,BX,B1,B0,B1,BX,BX,BX,BX,BX,BX,BX,BX,BX,BX,BX,BX,BX,BX,BX,BX,BX]),
      (81, 46, 15, [B1,B1,B0,B0,B0,B1,B1,BX,BX,BX,BX,BX,B1,B0,B1,BX,BX,BX,BX,BX,B0,B0,B0,B0,B0,BX,BX,BX,BX,BX,BX,BX]),
      (82, 46, 16, [B1,B1,B0,B0,B0,B1,B1,BX,BX,BX,BX,BX,B1,B0,B1,B0,B0,B0,B0,B0,BX,BX,BX,BX,BX,BX,BX,BX,BX,BX,BX,BX]),
      (83, 47, 10, [B1,B1,B0,B0,B0,B1,B1,BX,BX,BX,BX,BX,B1,B1,B1,BX,BX,BX,BX,BX,BX,BX,BX,BX,BX,BX,BX,BX,BX,BX,BX,BX]),
      (84, 48, 10, [B1,B1,B0,B0,B0,B1,B1,BX,BX,BX,BX,BX,B0,B0,B1,BX,BX,BX,BX,BX,BX,BX,BX,BX,BX,BX,BX,BX,BX,BX,BX,BX]),
      (85, 48, 15, [B1,B1,B0,B0,B0,B1,B1,BX,BX,BX,BX,BX,B0,B0,B1,BX,BX,BX,BX,BX,B0,B0,B0,B0,B0,BX,BX,BX,BX,BX,BX,BX]),
      (86, 48, 16, [B1,B1,B0,B0,B0,B1,B1,BX,BX,BX,BX,BX,B0,B0,B1,B0,B0,B0,B0,B0,BX,BX,BX,BX,BX,BX,BX,BX,BX,BX,BX,BX]),
      (87, 49, 10, [B1,B1,B0,B0,B0,B1,B1,BX,BX,BX,BX,BX,B0,B1,B1,BX,BX,BX,BX,BX,BX,BX,BX,BX,BX,BX,BX,BX,BX,BX,BX,BX]),
      (88, 50, 10, [B1,B1,B0,B0,B0,B1,B1,BX,BX,BX,BX,BX,B1,B0,B0,BX,BX,BX,BX,BX,BX,BX,BX,BX,BX,BX,BX,BX,BX,BX,BX,BX]),
      (89, 50, 15, [B1,B1,B0,B0,B0,B1,B1,BX,BX,BX,BX,BX,B1,B0,B0,BX,BX,BX,BX,BX,B0,B0,B0,B0,B0,BX,BX,BX,BX,BX,BX,BX]),
      (90, 51, 12, [B1,B1,B1,B1,B0,B1,B1,B0,B0,B0,B0,B0,BX,BX,BX,BX,BX,BX,BX,BX,BX,BX,BX,BX,BX,BX,BX,BX,BX,BX,BX,BX]),
      (91, 51, 7, [B1,B1,B1,B1,B0,B1,B1,BX,BX,BX,BX,BX,BX,BX,BX,BX,BX,BX,BX,BX,BX,BX,BX,BX,BX,BX,BX,BX,BX,BX,BX,BX]),
      (92, 52, 14, [B1,B1,B1,B1,B0,B1,B0,BX,BX,BX,BX,BX,BX,B1,B0,BX,BX,BX,BX,BX,BX,BX,BX,BX,BX,BX,BX,B0,B0,B0,B0,B0]),
      (93, 53, 14, [B1,B1,B1,B1,B0,B1,B0,BX,BX,BX,BX,BX,BX,B1,B0,BX,BX,BX,BX,BX,BX,BX,BX,BX,BX,BX,BX,B0,B0,B1,B1,B0]),
      (94, 54, 14, [B1,B1,B1,B1,B0,B1,B0,BX,BX,BX,BX,BX,BX,B1,B0,BX,BX,BX,BX,BX,BX,BX,BX,BX,BX,BX,BX,B0,B0,B1,B0,B1]),
      (95, 55, 14, [B1,B1,B1,B1,B0,B1,B0,BX,BX,BX,BX,BX,BX,B1,B0,BX,BX,BX,BX,BX,BX,BX,BX,BX,BX,BX,BX,B0,B0,B1,B1,B1]),
      (96, 56, 14, [B1,B1,B1,B1,B0,B1,B0,BX,BX,BX,BX,BX,BX,B1,B0,BX,BX,BX,BX,BX,BX,BX,BX,BX,BX,BX,BX,B0,B0,B0,B0,B1]),
      (97, 57, 14, [B1,B1,B1,B1,B0,B1,B0,BX,BX,BX,BX,BX,BX,B1,B0,BX,BX,BX,BX,BX,BX,BX,BX,BX,BX,BX,BX,B0,B0,B0,B1,B1]),
      (98, 58, 14, [B1,B1,B1,B1,B0,B1,B0,BX,BX,BX,BX,BX,BX,B1,B0,BX,BX,BX,BX,BX,BX,BX,BX,BX,BX,BX,BX,B0,B0,B0,B1,B0]),
      (99, 59, 14, [B1,B1,B1,B1,B0,B1,B0,BX,BX,BX,BX,BX,BX,B1,B0,BX,BX,BX,BX,BX,BX,BX,BX,BX,BX,BX,BX,B1,B0,B0,B0,B0]),
      (100, 60, 14, [B1,B1,B1,B1,B0,B1,B0,BX,BX,BX,BX,BX,BX,B1,B0,BX,BX,BX,BX,BX,BX,BX,BX,BX,BX,BX,BX,B0,B0,B1,B0,B0]),
      (101, 61, 19, [B1,B1,B1,B1,B0,B1,B0,BX,BX,BX,BX,BX,BX,B1,B0,BX,BX,BX,BX,BX,B0,B0,B0,B0,B0,BX,BX,B0,B1,B0,B0,B0]),
      (102, 62, 14, [B1,B1,B1,B1,B0,B1,B0,BX,BX,BX,BX,BX,BX,B1,B0,BX,BX,BX,BX,BX,BX,BX,BX,BX,BX,BX,BX,B1,B1,B0,B0,B0]),
      (103, 65, 13, [B1,B1,B0,B0,B1,B0,B1,BX,BX,BX,BX,BX,BX,BX,BX,BX,BX,BX,BX,BX,BX,BX,BX,BX,BX,BX,B0,B0,B0,B0,B0,B0]),
      (104, 66, 21, [B1,B1,B0,B0,B1,B0,B1,BX,BX,BX,BX,BX,B1,B0,B0,BX,BX,BX,BX,BX,B0,B0,B0,B0,B0,BX,B0,B0,B0,B1,B1,B1]),
      (105, 67, 16, [B1,B1,B0,B0,B1,B0,B1,BX,BX,BX,BX,BX,BX,BX,BX,BX,BX,BX,BX,BX,BX,BX,B0,B0,B0,BX,B0,B0,B1,B0,B1,B1]),
      (106, 67, 16, [B1,B1,B0,B0,B1,B0,B1,BX,BX,BX,BX,BX,BX,BX,BX,BX,BX,BX,BX,BX,BX,BX,B0,B0,B0,BX,B0,B0,B0,B0,B1,B1]),
      (107, 67, 19, [B1,B1,B0,B0,B1,B0,B1,BX,BX,BX,BX,BX,BX,BX,BX,BX,BX,BX,BX,BX,B0,B0,B0,B0,B0,B1,B0,B0,B0,B0,B1,B0]),
      (108, 67, 19, [B1,B1,B0,B0,B1,B0,B1,BX,BX,BX,BX,BX,BX,BX,BX,BX,BX,BX,BX,BX,B1,B0,B0,B0,B0,B0,B0,B0,B0,B0,B1,B0]),
      (109, 68, 13, [B1,B1,B0,B0,B1,B0,B1,BX,BX,BX,BX,BX,BX,BX,BX,BX,BX,BX,BX,BX,BX,BX,BX,BX,BX,BX,B0,B1,B1,B0,B0,B0]),
      (110, 69, 16, [B1,B1,B0,B0,B1,B0,B1,BX,BX,BX,BX,BX,B0,B1,B0,BX,BX,BX,BX,BX,BX,BX,BX,BX,BX,BX,B0,B0,B0,B1,B0,B1]),
      (111, 70, 16, [B1,B1,B0,B0,B1,B0,B1,BX,BX,BX,BX,BX,B0,B0,B0,BX,BX,BX,BX,BX,BX,BX,BX,BX,BX,BX,B0,B0,B0,B1,B0,B1]),
      (112, 71, 16, [B1,B1,B0,B0,B1,B0,B1,BX,BX,BX,BX,BX,B1,B0,B0,BX,BX,BX,BX,BX,BX,BX,BX,BX,BX,BX,B0,B0,B0,B1,B0,B1]),
      (113, 72, 16, [B1,B1,B0,B0,B1,B0,B1,BX,BX,BX,BX,BX,B1,B0,B0,BX,BX,BX,BX,BX,BX,BX,BX,BX,BX,BX,B0,B1,B0,B1,B0,B0]),
      (114, 73, 16, [B1,B1,B0,B0,B1,B0,B1,BX,BX,BX,BX,BX,B0,B0,B0,BX,BX,BX,BX,BX,BX,BX,BX,BX,BX,BX,B0,B1,B0,B1,B0,B0]),
      (115, 74, 13, [B1,B1,B0,B0,B1,B0,B1,BX,BX,BX,BX,BX,BX,BX,BX,BX,BX,BX,BX,BX,BX,BX,BX,BX,BX,BX,B0,B0,B1,B0,B0,B0]),
      (118, 76, 16, [B1,B1,B0,B0,B1,B0,B1,BX,BX,BX,BX,BX,B0,B0,B0,BX,BX,BX,BX,BX,BX,BX,BX,BX,BX,BX,B0,B0,B0,B1,B0,B0]),
      (119, 77, 16, [B1,B1,B0,B0,B1,B0,B1,BX,BX,BX,BX,BX,B1,B0,B0,BX,BX,BX,BX,BX,BX,BX,BX,BX,BX,BX,B0,B0,B0,B1,B0,B0]),
      (120, 78, 16, [B1,B1,B0,B0,B1,B0,B1,BX,BX,BX,BX,BX,B0,B1,B0,BX,BX,BX,BX,BX,BX,BX,BX,BX,BX,BX,B0,B0,B0,B1,B0,B0]),
      (116, 0, 21, [B1,B1,B0,B0,B1,B0,B1,BX,BX,BX,BX,BX,B0,B0,B0,BX,BX,BX,BX,BX,B0,B0,B0,B0,B0,BX,B0,B0,B1,B1,B1,B1]),
      (117, 0, 21, [B1,B1,B0,B0,B1,B0,B1,BX,BX,BX,BX,BX,B0,B0,B0,BX,BX,BX,BX,BX,B0,B0,B0,B0,B0,BX,B0,B0,B0,B1,B1,B1]),
      (121, 79, 18, [B1,B1,B0,B0,B1,B0,B1,BX,BX,BX,BX,BX,BX,BX,BX,BX,BX,BX,BX,BX,B0,B0,B0,B0,B0,BX,B0,B1,B1,B0,B1,B0]),
      (122, 80, 13, [B1,B1,B0,B0,B1,B0,B1,BX,BX,BX,BX,BX,BX,BX,BX,BX,BX,BX,BX,BX,BX,BX,BX,BX,BX,BX,B0,B1,B0,B0,B0,B0]),
      (123, 81, 8, [B1,B1,B0,B0,B0,B0,B1,BX,BX,BX,BX,BX,BX,BX,BX,BX,BX,BX,BX,BX,BX,BX,BX,BX,BX,BX,B0,BX,BX,BX,BX,BX]),
      (124, 82, 8, [B1,B1,B1,B0,B0,B0,B1,BX,BX,BX,BX,BX,BX,BX,BX,BX,BX,BX,BX,BX,BX,BX,BX,BX,BX,BX,B0,BX,BX,BX,BX,BX]),
      (125, 83, 8, [B1,B1,B1,B1,B0,B0,B1,BX,BX,BX,BX,BX,BX,BX,BX,BX,BX,BX,BX,BX,BX,BX,BX,BX,BX,BX,B0,BX,BX,BX,BX,BX]),
      (126, 84, 8, [B1,B1,B0,B1,B0,B0,B1,BX,BX,BX,BX,BX,BX,BX,BX,BX,BX,BX,BX,BX,BX,BX,BX,BX,BX,BX,B0,BX,BX,BX,BX,BX]),
      (127, 30, 9, [B1,B1,B1,B0,B0,B0,B0,BX,BX,BX,BX,BX,BX,B1,B0,BX,BX,BX,BX,BX,BX,BX,BX,BX,BX,BX,BX,BX,BX,BX,BX,BX]),
      (128, 31, 9, [B1,B1,B1,B0,B0,B1,B0,BX,BX,BX,BX,BX,BX,B1,B0,BX,BX,BX,BX,BX,BX,BX,BX,BX,BX,BX,BX,BX,BX,BX,BX,BX]),
      (129, 32, 27, [B1,B1,B0,B0,B1,B1,B1,BX,BX,BX,BX,BX,B0,B1,B0,B0,B0,B0,B0,B0,B1,B1,B0,B0,B0,B0,B0,B0,B0,B0,B0,B0]),
      (130, 32, 27, [B1,B1,B0,B0,B1,B1,B1,BX,BX,BX,BX,BX,B0,B1,B0,B0,B0,B0,B0,B0,B1,B0,B0,B0,B0,B0,B0,B0,B0,B0,B0,B0]),
      (131, 32, 27, [B1,B1,B0,B0,B1,B1,B1,BX,BX,BX,BX,BX,B0,B1,B0,B0,B0,B0,B0,B0,B0,B1,B0,B0,B0,B0,B0,B0,B0,B0,B0,B0]),
      (132, 32, 22, [B1,B1,B0,B0,B1,B1,B1,BX,BX,BX,BX,BX,B1,B0,B0,BX,BX,BX,BX,BX,B1,B1,B0,B0,B0,B0,B0,B0,B0,B0,B0,B0]),
      (133, 32, 22, [B1,B1,B0,B0,B1,B1,B1,BX,BX,BX,BX,BX,B1,B0,B0,BX,BX,BX,BX,BX,B1,B0,B0,B0,B0,B0,B0,B0,B0,B0,B0,B0]),
      (134, 32, 22, [B1,B1,B0,B0,B1,B1,B1,BX,BX,BX,BX,BX,B1,B0,B0,BX,BX,BX,BX,BX,B0,B1,B0,B0,B0,B0,B0,B0,B0,B0,B0,B0]),
      (135, 85, 7, [B1,B1,B0,B1,B0,B0,B0,BX,BX,BX,BX,BX,BX,BX,BX,BX,BX,BX,BX,BX,BX,BX,BX,BX,BX,BX,BX,BX,BX,BX,BX,BX]),
      (136, 85, 7, [B1,B1,B0,B1,B0,B1,B0,BX,BX,BX,BX,BX,BX,BX,BX,BX,BX,BX,BX,BX,BX,BX,BX,BX,BX,BX,BX,BX,BX,BX,BX,BX]),
      (137, 85, 7, [B1,B1,B0,B1,B1,B0,B1,BX,BX,BX,BX,BX,BX,BX,BX,BX,BX,BX,BX,BX,BX,BX,BX,BX,BX,BX,BX,BX,BX,BX,BX,BX]),
      (138, 85, 7, [B1,B1,B0,B1,B1,B1,B1,BX,BX,BX,BX,BX,BX,BX,BX,BX,BX,BX,BX,BX,BX,BX,BX,BX,BX,BX,BX,BX,BX,BX,BX,BX])]"

definition keys16 :: "patKey list" where
  "keys16 =
     [(0, 2, 6, [B0,B1,BX,BX,BX,BX,BX,BX,BX,BX,BX,BX,B1,B0,B0,B1]),
      (1, 2, 10, [B1,B0,BX,BX,BX,B1,B0,BX,BX,BX,B1,B1,B1,B0,B0,B1]),
      (2, 3, 10, [B1,B0,BX,BX,BX,B1,B1,BX,BX,BX,B1,B1,B0,B0,B0,B1]),
      (3, 0, 6, [B0,B1,BX,BX,BX,BX,BX,BX,BX,BX,BX,BX,B0,B0,B0,B1]),
      (4, 4, 10, [B1,B0,BX,BX,BX,B0,B1,BX,BX,BX,B1,B1,B0,B0,B0,B1]),
      (5, 10, 10, [B1,B0,BX,BX,BX,B0,B0,BX,BX,BX,B1,B1,B0,B0,B0,B1]),
      (6, 10, 10, [B1,B0,BX,BX,BX,B0,B0,BX,BX,BX,B1,B1,B1,B0,B0,B1]),
      (7, 11, 10, [B1,B0,BX,BX,BX,B1,B0,BX,BX,BX,B1,B1,B0,B0,B0,B1]),
      (8, 20, 5, [B1,B0,BX,BX,BX,BX,BX,BX,BX,BX,BX,BX,BX,B0,B0,B0]),
      (9, 20, 10, [B1,B0,BX,BX,BX,BX,BX,B0,B1,B0,B0,B0,BX,B1,B1,B0]),
      (10, 20, 5, [B0,B0,BX,BX,BX,BX,BX,BX,BX,BX,BX,BX,BX,B0,B0,B0]),
      (11, 20, 5, [B1,B0,BX,BX,BX,BX,BX,BX,BX,BX,BX,BX,BX,B1,B0,B0]),
      (12, 21, 7, [B1,B0,BX,BX,BX,BX,BX,BX,BX,BX,B0,B1,BX,B0,B0,B1]),
      (13, 26, 5, [B0,B1,BX,BX,BX,BX,BX,BX,BX,BX,BX,BX,BX,B0,B0,B0]),
      (14, 27, 7, [B1,B0,BX,BX,BX,BX,BX,BX,BX,BX,B1,B0,BX,B0,B0,B1]),
      (15, 28, 7, [B1,B0,BX,BX,BX,BX,BX,BX,BX,BX,B0,B0,BX,B0,B0,B1]),
      (16, 20, 5, [B1,B0,BX,BX,BX,BX,BX,BX,BX,BX,BX,BX,BX,B0,B1,B0]),
      (17, 20, 5, [B1,B0,BX,BX,BX,BX,BX,BX,BX,BX,BX,BX,BX,B1,B1,B0]),
      (18, 22, 11, [B0,B1,B0,B0,B0,B0,B0,BX,BX,BX,BX,BX,B0,B0,B0,B1]),
      (19, 22, 11, [B0,B1,B0,B0,B0,B0,B0,BX,BX,BX,BX,BX,B1,B0,B0,B1]),
      (20, 30, 5, [B0,B0,BX,BX,BX,BX,BX,BX,BX,BX,BX,BX,BX,B1,B1,B0]),
      (21, 30, 5, [B0,B1,BX,BX,BX,BX,BX,BX,BX,BX,BX,BX,BX,B1,B1,B0]),
      (22, 30, 5, [B0,B0,BX,BX,BX,BX,BX,BX,BX,BX,BX,BX,BX,B0,B1,B0]),
      (23, 30, 5, [B0,B1,BX,BX,BX,BX,BX,BX,BX,BX,BX,BX,BX,B0,B1,B0]),
      (24, 31, 5, [B0,B0,BX,BX,BX,BX,BX,BX,BX,BX,BX,BX,BX,B1,B1,B1]),
      (25, 31, 5, [B0,B1,BX,BX,BX,BX,BX,BX,BX,BX,BX,BX,BX,B1,B1,B1]),
      (26, 31, 5, [B0,B0,BX,BX,BX,BX,BX,BX,BX,BX,BX,BX,BX,B0,B1,B1]),
      (27, 31, 5, [B0,B1,BX,BX,BX,BX,BX,BX,BX,BX,BX,BX,BX,B0,B1,B1]),
      (28, 34, 16, [B0,B1,B0,B0,B0,B0,B0,B0,B0,B0,B0,B0,B1,B0,B0,B1]),
      (29, 45, 5, [B1,B0,BX,BX,BX,BX,BX,BX,BX,BX,BX,BX,BX,B0,B1,B1]),
      (30, 50, 5, [B1,B0,BX,BX,BX,BX,BX,BX,BX,BX,BX,BX,BX,B1,B1,B1]),
      (31, 51, 5, [B1,B0,BX,BX,BX,BX,BX,BX,BX,BX,BX,BX,BX,B1,B0,B1]),
      (32, 51, 5, [B1,B0,BX,BX,BX,BX,BX,BX,BX,BX,BX,BX,BX,B1,B0,B0]),
      (33, 30, 5, [B0,B0,BX,BX,BX,BX,BX,BX,BX,BX,BX,BX,BX,B1,B0,B0]),
      (34, 30, 5, [B0,B1,BX,BX,BX,BX,BX,BX,BX,BX,BX,BX,BX,B1,B0,B0]),
      (35, 30, 5, [B0,B0,BX,BX,BX,BX,BX,BX,BX,BX,BX,BX,BX,B1,B1,B0]),
      (36, 30, 5, [B0,B1,BX,BX,BX,BX,BX,BX,BX,BX,BX,BX,BX,B1,B1,B0]),
      (37, 31, 5, [B0,B0,BX,BX,BX,BX,BX,BX,BX,BX,BX,BX,BX,B1,B0,B1]),
      (38, 31, 5, [B0,B1,BX,BX,BX,BX,BX,BX,BX,BX,BX,BX,BX,B1,B0,B1]),
      (39, 31, 5, [B0,B0,BX,BX,BX,BX,BX,BX,BX,BX,BX,BX,BX,B1,B1,B1]),
      (40, 31, 5, [B0,B1,BX,BX,BX,BX,BX,BX,BX,BX,BX,BX,BX,B1,B1,B1]),
      (41, 86, 16, [B0,B0,B0,B0,B0,B0,B0,B0,B0,B0,B0,B0,B0,B0,B0,B0]),
      (42, 86, 13, [B0,B0,BX,BX,BX,B0,B0,B0,B0,B0,B0,B0,B0,B0,B0,B0]),
      (43, 86, 11, [B1,B0,B0,B0,B0,B0,B0,BX,BX,BX,BX,BX,B0,B1,B1,B0]),
      (44, 86, 16, [B0,B1,B0,B0,B0,B0,B0,B0,B0,B0,B0,B0,B0,B0,B0,B1]),
      (45, 86, 10, [B1,B0,BX,BX,BX,BX,BX,B0,B0,B0,B0,B0,BX,B1,B0,B0]),
      (46, 86, 10, [B0,B1,BX,BX,BX,BX,BX,B0,B0,B0,B0,B0,BX,B0,B1,B0]),
      (47, 86, 10, [B0,B1,BX,BX,BX,BX,BX,B0,B0,B0,B0,B0,BX,B1,B1,B0])]"

lemma pat_scan_chars:
  "pat_scan (CHR ''0'' # cs) acc = pat_scan cs (B0 # acc)"
  "pat_scan (CHR ''1'' # cs) acc = pat_scan cs (B1 # acc)"
  "pat_scan (CHR ''.'' # cs) acc = pat_scan cs (BX # acc)"
  "pat_scan (CHR ''|'' # cs) acc = pat_scan cs acc"
  by simp_all

declare pat_scan.simps(2) [simp del]

lemma opAttrs_zero_sel [simp]:
  "a_pattern opAttrs_zero = ''''" "a_priDelta opAttrs_zero = 0" "a_type opAttrs_zero = RV_IT_MV_R"
  "a_arch opAttrs_zero = 0"
  by (simp_all add: opAttrs_zero_def)

lemmas key_eval = attr_key_def pat_bits_def pat_scan_chars attr_defs

lemma attr_keys32: "map attr_key attrsArray32 = keys32 @ [(IT32_LAST, RV_IT_LAST, 0, [])]"
  by (simp add: attrsArray32_def keys32_def key_eval)

lemma attr_keys16: "map attr_key attrsArray16 = keys16 @ [(IT16_LAST, RV_IT_LAST, 0, [])]"
  by (simp add: attrsArray16_def keys16_def key_eval)

text \<open>The compressed instructions of one XLEN only.\<close>

definition only32 :: "nat set" where
  "only32 = {32, 35, 36, 39, 40}"

definition only64 :: "nat set" where
  "only64 = {1, 6, 11, 20, 21, 24, 25, 45, 47}"

lemma attr_arch16:
  "map (\<lambda>x. (fst x, has (a_arch (snd x)) ISA_XLEN_32, has (a_arch (snd x)) ISA_XLEN_64)) attrsArray16 =
   map (\<lambda>k. (fst k, fst k \<notin> only64, fst k \<notin> only32)) keys16 @ [(IT16_LAST, False, False)]"
  by (simp add: attrsArray16_def keys16_def only32_def only64_def attr_defs has_def)

section \<open>Tables and their keys\<close>

fun untyped :: "patKey \<Rightarrow> nat \<times> nat \<times> patBit list" where
  "untyped (k, ty, p, bs) = (k, p, bs)"

definition entry_key :: "vmidEntry \<Rightarrow> nat \<times> nat \<times> patBit list" where
  "entry_key e = (ve_id e, entry_priority e, pat_bits (ve_pattern e))"

definition table_keys :: "vmidTable \<Rightarrow> patKey list \<Rightarrow> bool" where
  "table_keys t ks \<longleftrightarrow> entry_key ` set (vt_entries t) = untyped ` set ks"

definition mk_entry :: "nat \<times> opAttrs \<Rightarrow> vmidEntry" where
  "mk_entry x = \<lparr>ve_name = a_opcode (snd x), ve_id = fst x, ve_pattern = a_pattern (snd x),
     ve_priDelta = a_priDelta (snd x)\<rparr>"

lemma entry_key_mk_entry: "entry_key (mk_entry x) = untyped (attr_key x)"
  by (simp add: entry_key_def mk_entry_def attr_key_def entry_priority_def)

lemma fst_attr_key [simp]: "fst (attr_key x) = fst x"
  by (simp add: attr_key_def)

lemma attrs_at_member:
  "distinct (map fst xs) \<Longrightarrow> (i, a) \<in> set xs \<Longrightarrow> attrs_at xs i = a"
  by (simp add: attrs_at_def)

text \<open>The loop of the two table constructors.\<close>

lemma vt_entries_fold:
  "vt_entries (fold (\<lambda>i t. if P i then vmidNewEntryFmtBin t (a_opcode (f i)) i (a_pattern (f i))
      (a_priDelta (f i)) else t) xs t) =
   vt_entries t @ map (\<lambda>i. mk_entry (i, f i)) (filter P xs)"
  by (induction xs arbitrary: t) (simp_all add: vmidNewEntryFmtBin_def mk_entry_def)

lemma map_fst_keys: "map attr_key xs = ks \<Longrightarrow> map fst xs = map fst ks"
  by (metis (mono_tags, lifting) comp_apply fst_attr_key list.map_comp map_eq_conv)

lemma distinct_attrs [simp]: "distinct (map fst attrsArray32)" "distinct (map fst attrsArray16)"
  by (simp_all add: map_fst_keys [OF attr_keys32] map_fst_keys [OF attr_keys16]
      keys32_def keys16_def)

lemma set_eq_below:
  assumes "distinct xs" and "list_all (\<lambda>x. x < length xs) xs"
  shows "set xs = {..<length xs}"
  using assms by (intro card_subset_eq) (auto simp: list_all_iff distinct_card)

lemma index_attrs:
  "set (map fst attrsArray32) = {..<Suc IT32_LAST}" "set (map fst attrsArray16) = {..<Suc IT16_LAST}"
proof -
  have "length (map fst attrsArray32) = Suc IT32_LAST"
       "list_all (\<lambda>x. x < Suc IT32_LAST) (map fst attrsArray32)"
       "length (map fst attrsArray16) = Suc IT16_LAST"
       "list_all (\<lambda>x. x < Suc IT16_LAST) (map fst attrsArray16)"
    by (simp_all only: map_fst_keys [OF attr_keys32] map_fst_keys [OF attr_keys16])
       (simp_all add: keys32_def keys16_def)
  then show "set (map fst attrsArray32) = {..<Suc IT32_LAST}"
            "set (map fst attrsArray16) = {..<Suc IT16_LAST}"
    using set_eq_below [OF distinct_attrs(1)] set_eq_below [OF distinct_attrs(2)] by auto
qed

lemma attrs_at_index:
  assumes "distinct (map fst xs)"
  shows "(\<lambda>i. mk_entry (i, attrs_at xs i)) ` {i \<in> set (map fst xs). P i (attrs_at xs i)} =
    mk_entry ` {x \<in> set xs. P (fst x) (snd x)}"
  using assms by (force simp: attrs_at_member image_iff)

lemma table_keys_fold:
  assumes dist: "distinct (map fst xs)" and idx: "set (map fst xs) = {..<Suc n}"
    and ks: "map attr_key xs = ks @ [kl]" and kl: "fst kl = n"
    and below: "list_all (\<lambda>k. fst k < n) ks"
    and PQ: "\<And>x. x \<in> set xs \<Longrightarrow> fst x < n \<Longrightarrow> P (snd x) = Q (fst x)"
  shows "table_keys (fold (\<lambda>i t. if P (attrs_at xs i) then vmidNewEntryFmtBin t
      (a_opcode (attrs_at xs i)) i (a_pattern (attrs_at xs i)) (a_priDelta (attrs_at xs i)) else t)
      [0..<n] (vmidNewDecodeTable b n)) (filter (\<lambda>k. Q (fst k)) ks)" (is "table_keys ?t _")
proof -
  have "set (vt_entries ?t) =
      (\<lambda>i. mk_entry (i, attrs_at xs i)) ` {i \<in> set (map fst xs). i < n \<and> P (attrs_at xs i)}"
    unfolding vt_entries_fold [where P = "\<lambda>i. P (attrs_at xs i)"] idx
    by (auto simp: vmidNewDecodeTable_def)
  also have "\<dots> = mk_entry ` {x \<in> set xs. fst x < n \<and> P (snd x)}"
    by (rule attrs_at_index [OF dist, where P = "\<lambda>i a. i < n \<and> P a"])
  finally have "entry_key ` set (vt_entries ?t) =
      untyped ` attr_key ` {x \<in> set xs. fst x < n \<and> P (snd x)}"
    by (simp add: image_image entry_key_mk_entry)
  also have "attr_key ` {x \<in> set xs. fst x < n \<and> P (snd x)} =
      {k \<in> set (map attr_key xs). fst k < n \<and> Q (fst k)}"
    using PQ by auto
  also have "\<dots> = set (filter (\<lambda>k. Q (fst k)) ks)"
    using below kl by (auto simp: ks list_all_iff)
  finally show ?thesis by (simp add: table_keys_def)
qed

lemma keys_below:
  "list_all (\<lambda>k. fst k < IT32_LAST) keys32" "list_all (\<lambda>k. fst k < IT16_LAST) keys16"
  by (simp_all add: keys32_def keys16_def)

lemma table_keys32: "table_keys createDecodeTable32 keys32"
  using table_keys_fold [OF distinct_attrs(1) index_attrs(1) attr_keys32 _ keys_below(1),
      of "\<lambda>_. True" "\<lambda>_. True" 32]
  by (simp add: createDecodeTable32_def Let_def)

definition keys16_of :: "bool \<Rightarrow> patKey list" where
  "keys16_of is64 = filter (\<lambda>k. fst k \<notin> (if is64 then only32 else only64)) keys16"

lemma table_keys16: "table_keys (createDecodeTable16 is64) (keys16_of is64)"
proof -
  have "has (a_arch (snd x)) (if is64 then ISA_XLEN_64 else ISA_XLEN_32) \<longleftrightarrow>
      fst x \<notin> (if is64 then only32 else only64)" if "x \<in> set attrsArray16" "fst x < IT16_LAST" for x
  proof -
    have "(fst x, has (a_arch (snd x)) ISA_XLEN_32, has (a_arch (snd x)) ISA_XLEN_64) \<in>
        set (map (\<lambda>k. (fst k, fst k \<notin> only64, fst k \<notin> only32)) keys16 @ [(IT16_LAST, False, False)])"
      unfolding attr_arch16 [symmetric] using that(1) by (auto simp: image_iff)
    with that(2) show ?thesis by auto
  qed
  then show ?thesis
    unfolding createDecodeTable16_def keys16_of_def Let_def
    by (intro table_keys_fold [OF distinct_attrs(2) index_attrs(2) attr_keys16 _ keys_below(2)]) simp_all
qed

lemma vt_default_tables [simp]:
  "vt_default createDecodeTable32 = IT32_LAST" "vt_default (createDecodeTable16 is64) = IT16_LAST"
proof -
  have "vt_default (fold (\<lambda>i t. if P i then vmidNewEntryFmtBin t (f i) i (g i) (h i) else t) xs t) =
      vt_default t" for P :: "nat \<Rightarrow> bool" and f g h xs t
    by (induction xs arbitrary: t) (simp_all add: vmidNewEntryFmtBin_def)
  note loop = this [where t = "vmidNewDecodeTable b n" for b n]
  show "vt_default createDecodeTable32 = IT32_LAST"
    using loop [of "\<lambda>_. True"] by (simp add: createDecodeTable32_def Let_def vmidNewDecodeTable_def)
  show "vt_default (createDecodeTable16 is64) = IT16_LAST"
    unfolding createDecodeTable16_def Let_def by (subst loop) (simp add: vmidNewDecodeTable_def)
qed

section \<open>A conforming lookup\<close>

lemma entry_key_facts:
  assumes "entry_key e = untyped k"
  shows "entry_matches i e \<longleftrightarrow> key_matches i k" "ve_id e = fst k" "entry_priority e = key_priority k"
  using assms by (cases k; simp add: entry_key_def entry_matches_def)+

lemma table_keys_to:
  "table_keys t ks \<Longrightarrow> e \<in> set (vt_entries t) \<Longrightarrow> \<exists>k\<in>set ks. entry_key e = untyped k"
  unfolding table_keys_def by blast

lemma table_keys_from:
  "table_keys t ks \<Longrightarrow> k \<in> set ks \<Longrightarrow> \<exists>e\<in>set (vt_entries t). entry_key e = untyped k"
  unfolding table_keys_def by (metis image_iff)

text \<open>What the decoder relies on of \<^verbatim>\<open>vmidDecode\<close>, and what follows for a table with known keys.\<close>

locale vmid_lookup =
  fixes D :: vmidDecoder
  assumes conforming: "vmid_ok D"
begin

lemma lookup_hit:
  assumes "table_keys t ks" and "k \<in> set ks" and "key_matches i k"
  obtains k' where "k' \<in> set ks" "key_matches i k'" "D t i = fst k'"
    "\<And>k''. k'' \<in> set ks \<Longrightarrow> key_matches i k'' \<Longrightarrow> key_priority k'' \<le> key_priority k'"
proof -
  note key = entry_key_facts and to_key = table_keys_to [OF assms(1)]
    and from_key = table_keys_from [OF assms(1)]
  have "\<exists>e\<in>set (vt_entries t). entry_matches i e"
    using from_key [OF assms(2)] key(1) assms(3) by blast
  then obtain e where e: "e \<in> set (vt_entries t)" "entry_matches i e" "D t i = ve_id e"
      "\<And>e'. e' \<in> set (vt_entries t) \<Longrightarrow> entry_matches i e' \<Longrightarrow> entry_priority e' \<le> entry_priority e"
    using conforming unfolding vmid_ok_def by metis
  obtain k' where k': "k' \<in> set ks" "entry_key e = untyped k'" using to_key [OF e(1)] by blast
  show ?thesis
  proof (rule that [of k'])
    show "k' \<in> set ks" "key_matches i k'" "D t i = fst k'" using k' e key by auto
    fix k'' assume "k'' \<in> set ks" "key_matches i k''"
    with from_key [of k''] e(4) key k'(2) show "key_priority k'' \<le> key_priority k'" by metis
  qed
qed

lemma lookup_miss:
  assumes "table_keys t ks" and "\<And>k. k \<in> set ks \<Longrightarrow> \<not> key_matches i k"
  shows "D t i = vt_default t"
proof -
  have "\<not> entry_matches i e" if "e \<in> set (vt_entries t)" for e
    using table_keys_to [OF assms(1) that] assms(2) entry_key_facts(1) by blast
  then show ?thesis
    using conforming [unfolded vmid_ok_def, THEN spec, THEN spec, of t i] by (auto split: if_splits)
qed

end

section \<open>No instruction is ambiguous\<close>

text \<open>The keys are compared bit by bit from bit 0, as in a trie: the keys that admit a value of the
  bit go on together, and no two of the same priority may be left in the end.\<close>

type_synonym prioBits = "nat \<times> patBit list"

fun side :: "bool \<Rightarrow> prioBits list \<Rightarrow> prioBits list" where
  "side b [] = []"
| "side b ((p, []) # ks) = side b ks"
| "side b ((p, B0 # cs) # ks) = (if b then side b ks else (p, cs) # side b ks)"
| "side b ((p, B1 # cs) # ks) = (if b then (p, cs) # side b ks else side b ks)"
| "side b ((p, BX # cs) # ks) = (p, cs) # side b ks"

fun all_free :: "prioBits list \<Rightarrow> bool" where
  "all_free [] = True"
| "all_free ((p, BX # cs) # ks) = all_free ks"
| "all_free ((p, cs) # ks) = False"

fun trie :: "nat \<Rightarrow> prioBits list \<Rightarrow> bool" where
  "trie 0 ks = distinct (map fst ks)"
| "trie (Suc n) [] = True"
| "trie (Suc n) [k] = True"
| "trie (Suc n) (k # k' # ks) =
     (if all_free (k # k' # ks) then trie n (side False (k # k' # ks))
      else if trie n (side False (k # k' # ks)) then trie n (side True (k # k' # ks)) else False)"

lemma side_match:
  "list_all (\<lambda>k. length (snd k) = Suc n) ks \<Longrightarrow>
   map fst (filter (\<lambda>(p, bs). bits_match bs j i) ks) =
   map fst (filter (\<lambda>(p, bs). bits_match bs (Suc j) i) (side (bit i j) ks))"
  by (induction "bit i j" ks rule: side.induct) auto

lemma side_length:
  "list_all (\<lambda>k. length (snd k) = Suc n) ks \<Longrightarrow> list_all (\<lambda>k. length (snd k) = n) (side b ks)"
  by (induction b ks rule: side.induct) auto

lemma all_free_side: "all_free ks \<Longrightarrow> side b ks = side c ks"
  by (induction ks rule: all_free.induct) auto

lemma trie_distinct:
  "trie n ks \<Longrightarrow> list_all (\<lambda>k. length (snd k) = n) ks \<Longrightarrow>
   distinct (map fst (filter (\<lambda>(p, bs). bits_match bs j i) ks))"
proof (induction n ks arbitrary: j rule: trie.induct)
  case (1 ks)
  then show ?case by (simp add: distinct_map_filter)
next
  case (3 n k)
  then show ?case by simp
next
  case (4 n k k' ks)
  let ?ks = "k # k' # ks"
  have "trie n (side (bit i j) ?ks)"
    using 4(4) all_free_side [of ?ks False True] by (cases "bit i j") (auto split: if_splits)
  then have "distinct (map fst (filter (\<lambda>(p, bs). bits_match bs (Suc j) i) (side (bit i j) ?ks)))"
    using 4 side_length [OF 4(5)] all_free_side [of ?ks False True]
    by (cases "bit i j"; cases "all_free ?ks") (simp_all split: if_splits)
  with side_match [OF 4(5), of j i] show ?case by (simp only:)
qed simp

definition unambiguous :: "nat \<Rightarrow> patKey list \<Rightarrow> bool" where
  "unambiguous n ks \<longleftrightarrow> list_all (\<lambda>(k, ty, p, bs). length bs = n) ks \<and>
     trie n (map (\<lambda>(k, ty, p, bs). (p, bs)) ks)"

lemma unambiguous_unique:
  assumes "unambiguous n ks" and "k \<in> set ks" "k' \<in> set ks" and "key_matches i k" "key_matches i k'"
    and "key_priority k = key_priority k'"
  shows "k = k'"
proof -
  have "distinct (map key_priority (filter (key_matches i) ks))"
  proof -
    have "list_all (\<lambda>k. length (snd k) = n) (map (\<lambda>(k, ty, p, bs). (p, bs)) ks)"
      using assms(1) by (auto simp: unambiguous_def list_all_iff)
    from trie_distinct [OF _ this, of 0 i] assms(1)
    have "distinct (map fst (filter (\<lambda>(p, bs). bits_match bs 0 i) (map (\<lambda>(k, ty, p, bs). (p, bs)) ks)))"
      by (simp add: unambiguous_def)
    also have "map fst (filter (\<lambda>(p, bs). bits_match bs 0 i) (map (\<lambda>(k, ty, p, bs). (p, bs)) ks)) =
        map key_priority (filter (key_matches i) ks)"
      by (induction ks) auto
    finally show ?thesis .
  qed
  then have "inj_on key_priority (set (filter (key_matches i) ks))" by (simp add: distinct_map)
  with assms show ?thesis by (auto dest: inj_onD)
qed

lemma unambiguous_keys32: "unambiguous 32 keys32"
  by code_simp

lemma unambiguous_keys16_of: "unambiguous 16 (keys16_of is64)"
proof -
  have "unambiguous 16 (keys16_of True)" by code_simp
  moreover have "unambiguous 16 (keys16_of False)" by code_simp
  ultimately show ?thesis by (cases is64) simp_all
qed

lemma lookup_determined:
  assumes "vmid_ok D" and "vmid_ok D'" and t: "table_keys t ks" and u: "unambiguous n ks"
  shows "D t i = D' t i"
proof (cases "\<exists>k\<in>set ks. key_matches i k")
  case True
  then obtain k0 where k0: "k0 \<in> set ks" "key_matches i k0" by blast
  obtain k where k: "k \<in> set ks" "key_matches i k" "D t i = fst k"
      "\<And>k''. k'' \<in> set ks \<Longrightarrow> key_matches i k'' \<Longrightarrow> key_priority k'' \<le> key_priority k"
    using vmid_lookup.lookup_hit [of D, unfolded vmid_lookup_def, OF assms(1) t k0] by blast
  obtain k' where k': "k' \<in> set ks" "key_matches i k'" "D' t i = fst k'"
      "\<And>k''. k'' \<in> set ks \<Longrightarrow> key_matches i k'' \<Longrightarrow> key_priority k'' \<le> key_priority k'"
    using vmid_lookup.lookup_hit [of D', unfolded vmid_lookup_def, OF assms(2) t k0] by blast
  have "k = k'"
    using unambiguous_unique [OF u k(1) k'(1) k(2) k'(2)] k(4) [OF k'(1,2)] k'(4) [OF k(1,2)]
    by (simp add: antisym)
  with k k' show ?thesis by simp
next
  case False
  then show ?thesis
    using vmid_lookup.lookup_miss [of D, unfolded vmid_lookup_def, OF assms(1) t]
      vmid_lookup.lookup_miss [of D', unfolded vmid_lookup_def, OF assms(2) t] by auto
qed

section \<open>The reference lookup\<close>

text \<open>The first entry of highest priority among those that match.\<close>

fun best_entry :: "uns32 \<Rightarrow> vmidEntry list \<Rightarrow> vmidEntry option" where
  "best_entry i [] = None"
| "best_entry i (e # es) =
     (case best_entry i es of
        None \<Rightarrow> if entry_matches i e then Some e else None
      | Some e' \<Rightarrow> if entry_matches i e \<and> entry_priority e' \<le> entry_priority e then Some e else Some e')"

definition vmid_ref :: vmidDecoder where
  "vmid_ref t i = (case best_entry i (vt_entries t) of None \<Rightarrow> vt_default t | Some e \<Rightarrow> ve_id e)"

lemma best_entry_None: "best_entry i es = None \<longleftrightarrow> (\<forall>e\<in>set es. \<not> entry_matches i e)"
  by (induction es) (auto split: option.splits)

lemma best_entry_Some:
  "best_entry i es = Some e \<Longrightarrow> e \<in> set es \<and> entry_matches i e \<and>
     (\<forall>e'\<in>set es. entry_matches i e' \<longrightarrow> entry_priority e' \<le> entry_priority e)"
proof (induction es arbitrary: e)
  case (Cons x es)
  show ?case
  proof (cases "best_entry i es")
    case None
    with Cons.prems show ?thesis by (auto simp: best_entry_None split: if_splits)
  next
    case (Some b)
    from Cons.IH [OF this] Cons.prems Some show ?thesis
      by (auto split: if_splits intro: order_trans)
  qed
qed simp

lemma vmid_ok_ref: "vmid_ok vmid_ref"
proof -
  have "if \<exists>e\<in>set (vt_entries t). entry_matches i e
      then \<exists>e\<in>set (vt_entries t). entry_matches i e \<and> vmid_ref t i = ve_id e \<and>
             (\<forall>e'\<in>set (vt_entries t). entry_matches i e' \<longrightarrow> entry_priority e' \<le> entry_priority e)
      else vmid_ref t i = vt_default t" for t i
  proof (cases "best_entry i (vt_entries t)")
    case None
    with best_entry_None [of i "vt_entries t"] show ?thesis by (simp add: vmid_ref_def)
  next
    case (Some e)
    with best_entry_Some [OF Some] show ?thesis by (auto simp: vmid_ref_def)
  qed
  then show ?thesis unfolding vmid_ok_def by blast
qed

interpretation ref: vmid_lookup vmid_ref
  by unfold_locales (rule vmid_ok_ref)

text \<open>Another lookup that keeps the promise: it searches the entries in the opposite order.\<close>

definition vmid_rev :: vmidDecoder where
  "vmid_rev t = vmid_ref (t\<lparr>vt_entries := rev (vt_entries t)\<rparr>)"

lemma vmid_ok_rev: "vmid_ok vmid_rev"
  unfolding vmid_ok_def
proof (intro allI)
  fix t i
  show "if \<exists>e\<in>set (vt_entries t). entry_matches i e
      then \<exists>e\<in>set (vt_entries t). entry_matches i e \<and> vmid_rev t i = ve_id e \<and>
             (\<forall>e'\<in>set (vt_entries t). entry_matches i e' \<longrightarrow> entry_priority e' \<le> entry_priority e)
      else vmid_rev t i = vt_default t"
    using vmid_ok_ref [unfolded vmid_ok_def, THEN spec, of "t\<lparr>vt_entries := rev (vt_entries t)\<rparr>", THEN spec, of i]
    by (simp add: vmid_rev_def cong: if_cong)
qed

text \<open>C14. The decode tables determine the classification of every instruction word: any
  table lookup that keeps the documented promise of the VMID library (the matching entry of
  highest priority, or the default) returns the same instruction type as the reference lookup,
  in the 32-bit table and in the compressed tables of both XLENs, so no word is ambiguous.\<close>

theorem decode_unambiguous:
  assumes "vmid_ok D"
  shows "getInstructionType32 D info = getInstructionType32 vmid_ref info \<and>
    getInstructionType16 D xlen info = getInstructionType16 vmid_ref xlen info"
  unfolding getInstructionType32_def getInstructionType16_def
  by (intro conjI lookup_determined [OF assms vmid_ok_ref table_keys32 unambiguous_keys32]
      lookup_determined [OF assms vmid_ok_ref table_keys16 unambiguous_keys16_of])

text \<open>An instruction word that has not been decoded yet.\<close>

definition fetched :: "uns64 \<Rightarrow> uns32 \<Rightarrow> riscvInstrInfo" where
  "fetched pc i = \<lparr>i_opcode = [], i_format = [], i_thisPC = pc, i_instruction = i, i_bytes = 0,
     i_type = RV_IT_LAST, i_arch = 0, i_explicitType = False, i_explicitW = False, i_unsExt = False,
     i_csrInOp = False, i_memBits = 0, i_c = 0, i_r = [], i_aqrl = RV_AQRL_NA, i_pred = 0, i_succ = 0,
     i_rm = RV_RM_NA, i_csrUpdate = RV_CSR_NA, i_csr = 0\<rparr>"

theorem decode_unambiguous_witness:
  "vmid_ok vmid_rev \<and>
   getInstructionType32 vmid_rev (fetched 0 0x00208463) = getInstructionType32 vmid_ref (fetched 0 0x00208463) \<and>
   getInstructionType16 vmid_rev 32 (fetched 0 1) = getInstructionType16 vmid_ref 32 (fetched 0 1)"
  using decode_unambiguous [OF vmid_ok_rev] vmid_ok_rev by blast

end
