(* ===== verification/RiscvEncoding.thy ===== *)
theory RiscvEncoding
  imports RiscvDecodeTable
begin

text \<open>
  \<^verbatim>\<open>riscv-test-env/encoding.h\<close>: the instruction encodings the compliance tests are built with,
  each a pair of a match and a mask, in the order of the header. The simulator's decode tables
  were written independently of them; the theorems here say that they agree. For every
  encoding of the header, \<open>types_*\<close> lists the generic instruction types its words may have: one
  for an ordinary encoding, two where the words of the encoding include a pseudo-instruction or
  another instruction with a more specific encoding (\<open>c_mv\<close> contains \<open>c_jr\<close>) or a reserved
  word, and \<^verbatim>\<open>RV_IT_LAST\<close> alone for what the simulator does not implement (quad precision,
  \<open>dret\<close>).
\<close>

section \<open>Encodings\<close>

type_synonym insnEncoding = "string \<times> int \<times> int"

definition insn_base :: "insnEncoding list" where
  "insn_base =
     [(''beq'', 0x63, 0x707f), (''bne'', 0x1063, 0x707f), (''blt'', 0x4063, 0x707f),
      (''bge'', 0x5063, 0x707f), (''bltu'', 0x6063, 0x707f), (''bgeu'', 0x7063, 0x707f),
      (''jalr'', 0x67, 0x707f), (''jal'', 0x6f, 0x7f), (''lui'', 0x37, 0x7f),
      (''auipc'', 0x17, 0x7f), (''addi'', 0x13, 0x707f), (''slli'', 0x1013, 0xfc00707f),
      (''slti'', 0x2013, 0x707f), (''sltiu'', 0x3013, 0x707f), (''xori'', 0x4013, 0x707f),
      (''srli'', 0x5013, 0xfc00707f), (''srai'', 0x40005013, 0xfc00707f),
      (''ori'', 0x6013, 0x707f), (''andi'', 0x7013, 0x707f), (''add'', 0x33, 0xfe00707f),
      (''sub'', 0x40000033, 0xfe00707f), (''sll'', 0x1033, 0xfe00707f),
      (''slt'', 0x2033, 0xfe00707f), (''sltu'', 0x3033, 0xfe00707f),
      (''xor'', 0x4033, 0xfe00707f), (''srl'', 0x5033, 0xfe00707f),
      (''sra'', 0x40005033, 0xfe00707f), (''or'', 0x6033, 0xfe00707f),
      (''and'', 0x7033, 0xfe00707f), (''addiw'', 0x1b, 0x707f), (''slliw'', 0x101b, 0xfe00707f),
      (''srliw'', 0x501b, 0xfe00707f), (''sraiw'', 0x4000501b, 0xfe00707f),
      (''addw'', 0x3b, 0xfe00707f), (''subw'', 0x4000003b, 0xfe00707f),
      (''sllw'', 0x103b, 0xfe00707f), (''srlw'', 0x503b, 0xfe00707f),
      (''sraw'', 0x4000503b, 0xfe00707f), (''lb'', 0x3, 0x707f), (''lh'', 0x1003, 0x707f),
      (''lw'', 0x2003, 0x707f), (''ld'', 0x3003, 0x707f), (''lbu'', 0x4003, 0x707f),
      (''lhu'', 0x5003, 0x707f), (''lwu'', 0x6003, 0x707f), (''sb'', 0x23, 0x707f),
      (''sh'', 0x1023, 0x707f), (''sw'', 0x2023, 0x707f), (''sd'', 0x3023, 0x707f),
      (''fence'', 0xf, 0x707f), (''fence_i'', 0x100f, 0x707f)]"

definition insn_mul_amo :: "insnEncoding list" where
  "insn_mul_amo =
     [(''mul'', 0x2000033, 0xfe00707f), (''mulh'', 0x2001033, 0xfe00707f),
      (''mulhsu'', 0x2002033, 0xfe00707f), (''mulhu'', 0x2003033, 0xfe00707f),
      (''div'', 0x2004033, 0xfe00707f), (''divu'', 0x2005033, 0xfe00707f),
      (''rem'', 0x2006033, 0xfe00707f), (''remu'', 0x2007033, 0xfe00707f),
      (''mulw'', 0x200003b, 0xfe00707f), (''divw'', 0x200403b, 0xfe00707f),
      (''divuw'', 0x200503b, 0xfe00707f), (''remw'', 0x200603b, 0xfe00707f),
      (''remuw'', 0x200703b, 0xfe00707f), (''amoadd_w'', 0x202f, 0xf800707f),
      (''amoxor_w'', 0x2000202f, 0xf800707f), (''amoor_w'', 0x4000202f, 0xf800707f),
      (''amoand_w'', 0x6000202f, 0xf800707f), (''amomin_w'', 0x8000202f, 0xf800707f),
      (''amomax_w'', 0xa000202f, 0xf800707f), (''amominu_w'', 0xc000202f, 0xf800707f),
      (''amomaxu_w'', 0xe000202f, 0xf800707f), (''amoswap_w'', 0x800202f, 0xf800707f),
      (''lr_w'', 0x1000202f, 0xf9f0707f), (''sc_w'', 0x1800202f, 0xf800707f),
      (''amoadd_d'', 0x302f, 0xf800707f), (''amoxor_d'', 0x2000302f, 0xf800707f),
      (''amoor_d'', 0x4000302f, 0xf800707f), (''amoand_d'', 0x6000302f, 0xf800707f),
      (''amomin_d'', 0x8000302f, 0xf800707f), (''amomax_d'', 0xa000302f, 0xf800707f),
      (''amominu_d'', 0xc000302f, 0xf800707f), (''amomaxu_d'', 0xe000302f, 0xf800707f),
      (''amoswap_d'', 0x800302f, 0xf800707f), (''lr_d'', 0x1000302f, 0xf9f0707f),
      (''sc_d'', 0x1800302f, 0xf800707f)]"

definition insn_system :: "insnEncoding list" where
  "insn_system =
     [(''ecall'', 0x73, 0xffffffff), (''ebreak'', 0x100073, 0xffffffff),
      (''uret'', 0x200073, 0xffffffff), (''sret'', 0x10200073, 0xffffffff),
      (''mret'', 0x30200073, 0xffffffff), (''dret'', 0x7b200073, 0xffffffff),
      (''sfence_vma'', 0x12000073, 0xfe007fff), (''wfi'', 0x10500073, 0xffffffff),
      (''csrrw'', 0x1073, 0x707f), (''csrrs'', 0x2073, 0x707f), (''csrrc'', 0x3073, 0x707f),
      (''csrrwi'', 0x5073, 0x707f), (''csrrsi'', 0x6073, 0x707f), (''csrrci'', 0x7073, 0x707f)]"

definition insn_fp_arith :: "insnEncoding list" where
  "insn_fp_arith =
     [(''fadd_s'', 0x53, 0xfe00007f), (''fsub_s'', 0x8000053, 0xfe00007f),
      (''fmul_s'', 0x10000053, 0xfe00007f), (''fdiv_s'', 0x18000053, 0xfe00007f),
      (''fsgnj_s'', 0x20000053, 0xfe00707f), (''fsgnjn_s'', 0x20001053, 0xfe00707f),
      (''fsgnjx_s'', 0x20002053, 0xfe00707f), (''fmin_s'', 0x28000053, 0xfe00707f),
      (''fmax_s'', 0x28001053, 0xfe00707f), (''fsqrt_s'', 0x58000053, 0xfff0007f),
      (''fadd_d'', 0x2000053, 0xfe00007f), (''fsub_d'', 0xa000053, 0xfe00007f),
      (''fmul_d'', 0x12000053, 0xfe00007f), (''fdiv_d'', 0x1a000053, 0xfe00007f),
      (''fsgnj_d'', 0x22000053, 0xfe00707f), (''fsgnjn_d'', 0x22001053, 0xfe00707f),
      (''fsgnjx_d'', 0x22002053, 0xfe00707f), (''fmin_d'', 0x2a000053, 0xfe00707f),
      (''fmax_d'', 0x2a001053, 0xfe00707f), (''fcvt_s_d'', 0x40100053, 0xfff0007f),
      (''fcvt_d_s'', 0x42000053, 0xfff0007f), (''fsqrt_d'', 0x5a000053, 0xfff0007f),
      (''fadd_q'', 0x6000053, 0xfe00007f), (''fsub_q'', 0xe000053, 0xfe00007f),
      (''fmul_q'', 0x16000053, 0xfe00007f), (''fdiv_q'', 0x1e000053, 0xfe00007f),
      (''fsgnj_q'', 0x26000053, 0xfe00707f), (''fsgnjn_q'', 0x26001053, 0xfe00707f),
      (''fsgnjx_q'', 0x26002053, 0xfe00707f), (''fmin_q'', 0x2e000053, 0xfe00707f),
      (''fmax_q'', 0x2e001053, 0xfe00707f), (''fcvt_s_q'', 0x40300053, 0xfff0007f),
      (''fcvt_q_s'', 0x46000053, 0xfff0007f), (''fcvt_d_q'', 0x42300053, 0xfff0007f),
      (''fcvt_q_d'', 0x46100053, 0xfff0007f), (''fsqrt_q'', 0x5e000053, 0xfff0007f)]"

definition insn_fp_cmp_cvt :: "insnEncoding list" where
  "insn_fp_cmp_cvt =
     [(''fle_s'', 0xa0000053, 0xfe00707f), (''flt_s'', 0xa0001053, 0xfe00707f),
      (''feq_s'', 0xa0002053, 0xfe00707f), (''fle_d'', 0xa2000053, 0xfe00707f),
      (''flt_d'', 0xa2001053, 0xfe00707f), (''feq_d'', 0xa2002053, 0xfe00707f),
      (''fle_q'', 0xa6000053, 0xfe00707f), (''flt_q'', 0xa6001053, 0xfe00707f),
      (''feq_q'', 0xa6002053, 0xfe00707f), (''fcvt_w_s'', 0xc0000053, 0xfff0007f),
      (''fcvt_wu_s'', 0xc0100053, 0xfff0007f), (''fcvt_l_s'', 0xc0200053, 0xfff0007f),
      (''fcvt_lu_s'', 0xc0300053, 0xfff0007f), (''fmv_x_w'', 0xe0000053, 0xfff0707f),
      (''fclass_s'', 0xe0001053, 0xfff0707f), (''fcvt_w_d'', 0xc2000053, 0xfff0007f),
      (''fcvt_wu_d'', 0xc2100053, 0xfff0007f), (''fcvt_l_d'', 0xc2200053, 0xfff0007f),
      (''fcvt_lu_d'', 0xc2300053, 0xfff0007f), (''fmv_x_d'', 0xe2000053, 0xfff0707f),
      (''fclass_d'', 0xe2001053, 0xfff0707f), (''fcvt_w_q'', 0xc6000053, 0xfff0007f),
      (''fcvt_wu_q'', 0xc6100053, 0xfff0007f), (''fcvt_l_q'', 0xc6200053, 0xfff0007f),
      (''fcvt_lu_q'', 0xc6300053, 0xfff0007f), (''fmv_x_q'', 0xe6000053, 0xfff0707f),
      (''fclass_q'', 0xe6001053, 0xfff0707f), (''fcvt_s_w'', 0xd0000053, 0xfff0007f),
      (''fcvt_s_wu'', 0xd0100053, 0xfff0007f), (''fcvt_s_l'', 0xd0200053, 0xfff0007f),
      (''fcvt_s_lu'', 0xd0300053, 0xfff0007f), (''fmv_w_x'', 0xf0000053, 0xfff0707f),
      (''fcvt_d_w'', 0xd2000053, 0xfff0007f), (''fcvt_d_wu'', 0xd2100053, 0xfff0007f),
      (''fcvt_d_l'', 0xd2200053, 0xfff0007f), (''fcvt_d_lu'', 0xd2300053, 0xfff0007f),
      (''fmv_d_x'', 0xf2000053, 0xfff0707f), (''fcvt_q_w'', 0xd6000053, 0xfff0007f),
      (''fcvt_q_wu'', 0xd6100053, 0xfff0007f), (''fcvt_q_l'', 0xd6200053, 0xfff0007f),
      (''fcvt_q_lu'', 0xd6300053, 0xfff0007f), (''fmv_q_x'', 0xf6000053, 0xfff0707f)]"

definition insn_fp_mem_fma :: "insnEncoding list" where
  "insn_fp_mem_fma =
     [(''flw'', 0x2007, 0x707f), (''fld'', 0x3007, 0x707f), (''flq'', 0x4007, 0x707f),
      (''fsw'', 0x2027, 0x707f), (''fsd'', 0x3027, 0x707f), (''fsq'', 0x4027, 0x707f),
      (''fmadd_s'', 0x43, 0x600007f), (''fmsub_s'', 0x47, 0x600007f),
      (''fnmsub_s'', 0x4b, 0x600007f), (''fnmadd_s'', 0x4f, 0x600007f),
      (''fmadd_d'', 0x2000043, 0x600007f), (''fmsub_d'', 0x2000047, 0x600007f),
      (''fnmsub_d'', 0x200004b, 0x600007f), (''fnmadd_d'', 0x200004f, 0x600007f),
      (''fmadd_q'', 0x6000043, 0x600007f), (''fmsub_q'', 0x6000047, 0x600007f),
      (''fnmsub_q'', 0x600004b, 0x600007f), (''fnmadd_q'', 0x600004f, 0x600007f)]"

definition insn_compressed :: "insnEncoding list" where
  "insn_compressed =
     [(''c_nop'', 0x1, 0xffff), (''c_addi16sp'', 0x6101, 0xef83), (''c_jr'', 0x8002, 0xf07f),
      (''c_jalr'', 0x9002, 0xf07f), (''c_ebreak'', 0x9002, 0xffff), (''c_ld'', 0x6000, 0xe003),
      (''c_sd'', 0xe000, 0xe003), (''c_addiw'', 0x2001, 0xe003), (''c_ldsp'', 0x6002, 0xe003),
      (''c_sdsp'', 0xe002, 0xe003), (''c_addi4spn'', 0x0, 0xe003), (''c_fld'', 0x2000, 0xe003),
      (''c_lw'', 0x4000, 0xe003), (''c_flw'', 0x6000, 0xe003), (''c_fsd'', 0xa000, 0xe003),
      (''c_sw'', 0xc000, 0xe003), (''c_fsw'', 0xe000, 0xe003), (''c_addi'', 0x1, 0xe003),
      (''c_jal'', 0x2001, 0xe003), (''c_li'', 0x4001, 0xe003), (''c_lui'', 0x6001, 0xe003),
      (''c_srli'', 0x8001, 0xec03), (''c_srai'', 0x8401, 0xec03), (''c_andi'', 0x8801, 0xec03),
      (''c_sub'', 0x8c01, 0xfc63), (''c_xor'', 0x8c21, 0xfc63), (''c_or'', 0x8c41, 0xfc63),
      (''c_and'', 0x8c61, 0xfc63), (''c_subw'', 0x9c01, 0xfc63), (''c_addw'', 0x9c21, 0xfc63),
      (''c_j'', 0xa001, 0xe003), (''c_beqz'', 0xc001, 0xe003), (''c_bnez'', 0xe001, 0xe003),
      (''c_slli'', 0x2, 0xe003), (''c_fldsp'', 0x2002, 0xe003), (''c_lwsp'', 0x4002, 0xe003),
      (''c_flwsp'', 0x6002, 0xe003), (''c_mv'', 0x8002, 0xf003), (''c_add'', 0x9002, 0xf003),
      (''c_fsdsp'', 0xa002, 0xe003), (''c_swsp'', 0xc002, 0xe003),
      (''c_fswsp'', 0xe002, 0xe003)]"

definition insn_custom :: "insnEncoding list" where
  "insn_custom =
     [(''custom0'', 0xb, 0x707f), (''custom0_rs1'', 0x200b, 0x707f),
      (''custom0_rs1_rs2'', 0x300b, 0x707f), (''custom0_rd'', 0x400b, 0x707f),
      (''custom0_rd_rs1'', 0x600b, 0x707f), (''custom0_rd_rs1_rs2'', 0x700b, 0x707f),
      (''custom1'', 0x2b, 0x707f), (''custom1_rs1'', 0x202b, 0x707f),
      (''custom1_rs1_rs2'', 0x302b, 0x707f), (''custom1_rd'', 0x402b, 0x707f),
      (''custom1_rd_rs1'', 0x602b, 0x707f), (''custom1_rd_rs1_rs2'', 0x702b, 0x707f),
      (''custom2'', 0x5b, 0x707f), (''custom2_rs1'', 0x205b, 0x707f),
      (''custom2_rs1_rs2'', 0x305b, 0x707f), (''custom2_rd'', 0x405b, 0x707f),
      (''custom2_rd_rs1'', 0x605b, 0x707f), (''custom2_rd_rs1_rs2'', 0x705b, 0x707f),
      (''custom3'', 0x7b, 0x707f), (''custom3_rs1'', 0x207b, 0x707f),
      (''custom3_rs1_rs2'', 0x307b, 0x707f), (''custom3_rd'', 0x407b, 0x707f),
      (''custom3_rd_rs1'', 0x607b, 0x707f), (''custom3_rd_rs1_rs2'', 0x707b, 0x707f)]"


definition encodings32 :: "insnEncoding list" where
  "encodings32 = insn_base @ insn_mul_amo @ insn_system @ insn_fp_arith @ insn_fp_cmp_cvt @
     insn_fp_mem_fma @ insn_custom"

section \<open>The types of their words\<close>

definition types_base :: "(string \<times> riscvIType list) list" where
  "types_base =
     [(''beq'', [RV_IT_BEQ_B]), (''bne'', [RV_IT_BNE_B]), (''blt'', [RV_IT_BLT_B]),
      (''bge'', [RV_IT_BGE_B]), (''bltu'', [RV_IT_BLTU_B]), (''bgeu'', [RV_IT_BGEU_B]),
      (''jalr'', [RV_IT_JALR_I]), (''jal'', [RV_IT_JAL_J]), (''lui'', [RV_IT_MV_C]),
      (''auipc'', [RV_IT_AUIPC_U]), (''addi'', [RV_IT_ADDI_I, RV_IT_MV_R]),
      (''slli'', [RV_IT_SLLI_I]), (''slti'', [RV_IT_SLTI_I]), (''sltiu'', [RV_IT_SLTIU_I]),
      (''xori'', [RV_IT_XORI_I]), (''srli'', [RV_IT_SRLI_I]), (''srai'', [RV_IT_SRAI_I]),
      (''ori'', [RV_IT_ORI_I]), (''andi'', [RV_IT_ANDI_I]), (''add'', [RV_IT_ADD_R]),
      (''sub'', [RV_IT_SUB_R]), (''sll'', [RV_IT_SLL_R]), (''slt'', [RV_IT_SLT_R]),
      (''sltu'', [RV_IT_SLTU_R]), (''xor'', [RV_IT_XOR_R]), (''srl'', [RV_IT_SRL_R]),
      (''sra'', [RV_IT_SRA_R]), (''or'', [RV_IT_OR_R]), (''and'', [RV_IT_AND_R]),
      (''addiw'', [RV_IT_ADDI_I]), (''slliw'', [RV_IT_SLLI_I]), (''srliw'', [RV_IT_SRLI_I]),
      (''sraiw'', [RV_IT_SRAI_I]), (''addw'', [RV_IT_ADD_R]), (''subw'', [RV_IT_SUB_R]),
      (''sllw'', [RV_IT_SLL_R]), (''srlw'', [RV_IT_SRL_R]), (''sraw'', [RV_IT_SRA_R]),
      (''lb'', [RV_IT_L_I]), (''lh'', [RV_IT_L_I]), (''lw'', [RV_IT_L_I]), (''ld'', [RV_IT_L_I]),
      (''lbu'', [RV_IT_L_I]), (''lhu'', [RV_IT_L_I]), (''lwu'', [RV_IT_L_I]),
      (''sb'', [RV_IT_S_I]), (''sh'', [RV_IT_S_I]), (''sw'', [RV_IT_S_I]), (''sd'', [RV_IT_S_I]),
      (''fence'', [RV_IT_FENCE_I, RV_IT_LAST]), (''fence_i'', [RV_IT_FENCEI_I, RV_IT_LAST])]"

definition types_mul_amo :: "(string \<times> riscvIType list) list" where
  "types_mul_amo =
     [(''mul'', [RV_IT_MUL_R]), (''mulh'', [RV_IT_MULH_R]), (''mulhsu'', [RV_IT_MULHSU_R]),
      (''mulhu'', [RV_IT_MULHU_R]), (''div'', [RV_IT_DIV_R]), (''divu'', [RV_IT_DIVU_R]),
      (''rem'', [RV_IT_REM_R]), (''remu'', [RV_IT_REMU_R]), (''mulw'', [RV_IT_MUL_R]),
      (''divw'', [RV_IT_DIV_R]), (''divuw'', [RV_IT_DIVU_R]), (''remw'', [RV_IT_REM_R]),
      (''remuw'', [RV_IT_REMU_R]), (''amoadd_w'', [RV_IT_AMOADD_R]),
      (''amoxor_w'', [RV_IT_AMOXOR_R]), (''amoor_w'', [RV_IT_AMOOR_R]),
      (''amoand_w'', [RV_IT_AMOAND_R]), (''amomin_w'', [RV_IT_AMOMIN_R]),
      (''amomax_w'', [RV_IT_AMOMAX_R]), (''amominu_w'', [RV_IT_AMOMINU_R]),
      (''amomaxu_w'', [RV_IT_AMOMAXU_R]), (''amoswap_w'', [RV_IT_AMOSWAP_R]),
      (''lr_w'', [RV_IT_LR_R]), (''sc_w'', [RV_IT_SC_R]), (''amoadd_d'', [RV_IT_AMOADD_R]),
      (''amoxor_d'', [RV_IT_AMOXOR_R]), (''amoor_d'', [RV_IT_AMOOR_R]),
      (''amoand_d'', [RV_IT_AMOAND_R]), (''amomin_d'', [RV_IT_AMOMIN_R]),
      (''amomax_d'', [RV_IT_AMOMAX_R]), (''amominu_d'', [RV_IT_AMOMINU_R]),
      (''amomaxu_d'', [RV_IT_AMOMAXU_R]), (''amoswap_d'', [RV_IT_AMOSWAP_R]),
      (''lr_d'', [RV_IT_LR_R]), (''sc_d'', [RV_IT_SC_R])]"

definition types_system :: "(string \<times> riscvIType list) list" where
  "types_system =
     [(''ecall'', [RV_IT_ECALL_I]), (''ebreak'', [RV_IT_EBREAK_I]), (''uret'', [RV_IT_URET_I]),
      (''sret'', [RV_IT_SRET_I]), (''mret'', [RV_IT_MRET_I]), (''dret'', [RV_IT_LAST]),
      (''sfence_vma'', [RV_IT_FENCE_VMA_R]), (''wfi'', [RV_IT_WFI_I]),
      (''csrrw'', [RV_IT_CSRR_I]), (''csrrs'', [RV_IT_CSRR_I]), (''csrrc'', [RV_IT_CSRR_I]),
      (''csrrwi'', [RV_IT_CSRRI_I]), (''csrrsi'', [RV_IT_CSRRI_I]),
      (''csrrci'', [RV_IT_CSRRI_I])]"

definition types_fp_arith :: "(string \<times> riscvIType list) list" where
  "types_fp_arith =
     [(''fadd_s'', [RV_IT_FADD_R]), (''fsub_s'', [RV_IT_FSUB_R]), (''fmul_s'', [RV_IT_FMUL_R]),
      (''fdiv_s'', [RV_IT_FDIV_R]), (''fsgnj_s'', [RV_IT_FSGNJ_R]),
      (''fsgnjn_s'', [RV_IT_FSGNJN_R]), (''fsgnjx_s'', [RV_IT_FSGNJX_R]),
      (''fmin_s'', [RV_IT_FMIN_R]), (''fmax_s'', [RV_IT_FMAX_R]), (''fsqrt_s'', [RV_IT_FSQRT_R]),
      (''fadd_d'', [RV_IT_FADD_R]), (''fsub_d'', [RV_IT_FSUB_R]), (''fmul_d'', [RV_IT_FMUL_R]),
      (''fdiv_d'', [RV_IT_FDIV_R]), (''fsgnj_d'', [RV_IT_FSGNJ_R]),
      (''fsgnjn_d'', [RV_IT_FSGNJN_R]), (''fsgnjx_d'', [RV_IT_FSGNJX_R]),
      (''fmin_d'', [RV_IT_FMIN_R]), (''fmax_d'', [RV_IT_FMAX_R]), (''fcvt_s_d'', [RV_IT_FCVT_R]),
      (''fcvt_d_s'', [RV_IT_FCVT_R]), (''fsqrt_d'', [RV_IT_FSQRT_R]), (''fadd_q'', [RV_IT_LAST]),
      (''fsub_q'', [RV_IT_LAST]), (''fmul_q'', [RV_IT_LAST]), (''fdiv_q'', [RV_IT_LAST]),
      (''fsgnj_q'', [RV_IT_LAST]), (''fsgnjn_q'', [RV_IT_LAST]), (''fsgnjx_q'', [RV_IT_LAST]),
      (''fmin_q'', [RV_IT_LAST]), (''fmax_q'', [RV_IT_LAST]), (''fcvt_s_q'', [RV_IT_LAST]),
      (''fcvt_q_s'', [RV_IT_LAST]), (''fcvt_d_q'', [RV_IT_LAST]), (''fcvt_q_d'', [RV_IT_LAST]),
      (''fsqrt_q'', [RV_IT_LAST])]"

definition types_fp_cmp_cvt :: "(string \<times> riscvIType list) list" where
  "types_fp_cmp_cvt =
     [(''fle_s'', [RV_IT_FLE_R]), (''flt_s'', [RV_IT_FLT_R]), (''feq_s'', [RV_IT_FEQ_R]),
      (''fle_d'', [RV_IT_FLE_R]), (''flt_d'', [RV_IT_FLT_R]), (''feq_d'', [RV_IT_FEQ_R]),
      (''fle_q'', [RV_IT_LAST]), (''flt_q'', [RV_IT_LAST]), (''feq_q'', [RV_IT_LAST]),
      (''fcvt_w_s'', [RV_IT_FCVT_R]), (''fcvt_wu_s'', [RV_IT_FCVT_R]),
      (''fcvt_l_s'', [RV_IT_FCVT_R]), (''fcvt_lu_s'', [RV_IT_FCVT_R]),
      (''fmv_x_w'', [RV_IT_MV_R]), (''fclass_s'', [RV_IT_FCLASS_R]),
      (''fcvt_w_d'', [RV_IT_FCVT_R]), (''fcvt_wu_d'', [RV_IT_FCVT_R]),
      (''fcvt_l_d'', [RV_IT_FCVT_R]), (''fcvt_lu_d'', [RV_IT_FCVT_R]),
      (''fmv_x_d'', [RV_IT_MV_R]), (''fclass_d'', [RV_IT_FCLASS_R]),
      (''fcvt_w_q'', [RV_IT_LAST]), (''fcvt_wu_q'', [RV_IT_LAST]), (''fcvt_l_q'', [RV_IT_LAST]),
      (''fcvt_lu_q'', [RV_IT_LAST]), (''fmv_x_q'', [RV_IT_LAST]), (''fclass_q'', [RV_IT_LAST]),
      (''fcvt_s_w'', [RV_IT_FCVT_R]), (''fcvt_s_wu'', [RV_IT_FCVT_R]),
      (''fcvt_s_l'', [RV_IT_FCVT_R]), (''fcvt_s_lu'', [RV_IT_FCVT_R]),
      (''fmv_w_x'', [RV_IT_MV_R]), (''fcvt_d_w'', [RV_IT_FCVT_R]),
      (''fcvt_d_wu'', [RV_IT_FCVT_R]), (''fcvt_d_l'', [RV_IT_FCVT_R]),
      (''fcvt_d_lu'', [RV_IT_FCVT_R]), (''fmv_d_x'', [RV_IT_MV_R]), (''fcvt_q_w'', [RV_IT_LAST]),
      (''fcvt_q_wu'', [RV_IT_LAST]), (''fcvt_q_l'', [RV_IT_LAST]), (''fcvt_q_lu'', [RV_IT_LAST]),
      (''fmv_q_x'', [RV_IT_LAST])]"

definition types_fp_mem_fma :: "(string \<times> riscvIType list) list" where
  "types_fp_mem_fma =
     [(''flw'', [RV_IT_L_I]), (''fld'', [RV_IT_L_I]), (''flq'', [RV_IT_LAST]),
      (''fsw'', [RV_IT_S_I]), (''fsd'', [RV_IT_S_I]), (''fsq'', [RV_IT_LAST]),
      (''fmadd_s'', [RV_IT_FMADD_R4]), (''fmsub_s'', [RV_IT_FMSUB_R4]),
      (''fnmsub_s'', [RV_IT_FNMSUB_R4]), (''fnmadd_s'', [RV_IT_FNMADD_R4]),
      (''fmadd_d'', [RV_IT_FMADD_R4]), (''fmsub_d'', [RV_IT_FMSUB_R4]),
      (''fnmsub_d'', [RV_IT_FNMSUB_R4]), (''fnmadd_d'', [RV_IT_FNMADD_R4]),
      (''fmadd_q'', [RV_IT_LAST]), (''fmsub_q'', [RV_IT_LAST]), (''fnmsub_q'', [RV_IT_LAST]),
      (''fnmadd_q'', [RV_IT_LAST])]"

definition types_compressed32 :: "(string \<times> riscvIType list) list" where
  "types_compressed32 =
     [(''c_nop'', [RV_IT_ADDI_I]), (''c_addi16sp'', [RV_IT_ADDI_I, RV_IT_LAST]),
      (''c_jr'', [RV_IT_JALR_I, RV_IT_LAST]), (''c_jalr'', [RV_IT_JALR_I, RV_IT_EBREAK_I]),
      (''c_ebreak'', [RV_IT_EBREAK_I]), (''c_ld'', [RV_IT_L_I]), (''c_sd'', [RV_IT_S_I]),
      (''c_addiw'', [RV_IT_JAL_J]), (''c_ldsp'', [RV_IT_L_I]), (''c_sdsp'', [RV_IT_S_I]),
      (''c_addi4spn'', [RV_IT_ADDI_I, RV_IT_LAST]), (''c_fld'', [RV_IT_L_I]),
      (''c_lw'', [RV_IT_L_I]), (''c_flw'', [RV_IT_L_I]), (''c_fsd'', [RV_IT_S_I]),
      (''c_sw'', [RV_IT_S_I]), (''c_fsw'', [RV_IT_S_I]), (''c_addi'', [RV_IT_ADDI_I]),
      (''c_jal'', [RV_IT_JAL_J]), (''c_li'', [RV_IT_ADDI_I]),
      (''c_lui'', [RV_IT_ADDI_I, RV_IT_LAST]), (''c_srli'', [RV_IT_SRLI_I]),
      (''c_srai'', [RV_IT_SRAI_I]), (''c_andi'', [RV_IT_ANDI_I]), (''c_sub'', [RV_IT_SUB_R]),
      (''c_xor'', [RV_IT_XOR_R]), (''c_or'', [RV_IT_OR_R]), (''c_and'', [RV_IT_AND_R]),
      (''c_subw'', [RV_IT_LAST]), (''c_addw'', [RV_IT_LAST]), (''c_j'', [RV_IT_JAL_J]),
      (''c_beqz'', [RV_IT_BEQ_B]), (''c_bnez'', [RV_IT_BNE_B]), (''c_slli'', [RV_IT_SLLI_I]),
      (''c_fldsp'', [RV_IT_L_I]), (''c_lwsp'', [RV_IT_L_I, RV_IT_LAST]),
      (''c_flwsp'', [RV_IT_L_I]), (''c_mv'', [RV_IT_MV_R, RV_IT_JALR_I, RV_IT_LAST]),
      (''c_add'', [RV_IT_ADD_R, RV_IT_JALR_I, RV_IT_EBREAK_I]), (''c_fsdsp'', [RV_IT_S_I]),
      (''c_swsp'', [RV_IT_S_I]), (''c_fswsp'', [RV_IT_S_I])]"

definition types_compressed64 :: "(string \<times> riscvIType list) list" where
  "types_compressed64 =
     [(''c_nop'', [RV_IT_ADDI_I]), (''c_addi16sp'', [RV_IT_ADDI_I, RV_IT_LAST]),
      (''c_jr'', [RV_IT_JALR_I, RV_IT_LAST]), (''c_jalr'', [RV_IT_JALR_I, RV_IT_EBREAK_I]),
      (''c_ebreak'', [RV_IT_EBREAK_I]), (''c_ld'', [RV_IT_L_I]), (''c_sd'', [RV_IT_S_I]),
      (''c_addiw'', [RV_IT_ADDI_I, RV_IT_LAST]), (''c_ldsp'', [RV_IT_L_I, RV_IT_LAST]),
      (''c_sdsp'', [RV_IT_S_I]), (''c_addi4spn'', [RV_IT_ADDI_I, RV_IT_LAST]),
      (''c_fld'', [RV_IT_L_I]), (''c_lw'', [RV_IT_L_I]), (''c_flw'', [RV_IT_L_I]),
      (''c_fsd'', [RV_IT_S_I]), (''c_sw'', [RV_IT_S_I]), (''c_fsw'', [RV_IT_S_I]),
      (''c_addi'', [RV_IT_ADDI_I]), (''c_jal'', [RV_IT_ADDI_I, RV_IT_LAST]),
      (''c_li'', [RV_IT_ADDI_I]), (''c_lui'', [RV_IT_ADDI_I, RV_IT_LAST]),
      (''c_srli'', [RV_IT_SRLI_I]), (''c_srai'', [RV_IT_SRAI_I]), (''c_andi'', [RV_IT_ANDI_I]),
      (''c_sub'', [RV_IT_SUB_R]), (''c_xor'', [RV_IT_XOR_R]), (''c_or'', [RV_IT_OR_R]),
      (''c_and'', [RV_IT_AND_R]), (''c_subw'', [RV_IT_SUB_R]), (''c_addw'', [RV_IT_ADD_R]),
      (''c_j'', [RV_IT_JAL_J]), (''c_beqz'', [RV_IT_BEQ_B]), (''c_bnez'', [RV_IT_BNE_B]),
      (''c_slli'', [RV_IT_SLLI_I]), (''c_fldsp'', [RV_IT_L_I]),
      (''c_lwsp'', [RV_IT_L_I, RV_IT_LAST]), (''c_flwsp'', [RV_IT_L_I, RV_IT_LAST]),
      (''c_mv'', [RV_IT_MV_R, RV_IT_JALR_I, RV_IT_LAST]),
      (''c_add'', [RV_IT_ADD_R, RV_IT_JALR_I, RV_IT_EBREAK_I]), (''c_fsdsp'', [RV_IT_S_I]),
      (''c_swsp'', [RV_IT_S_I]), (''c_fswsp'', [RV_IT_S_I])]"

definition types_custom :: "(string \<times> riscvIType list) list" where
  "types_custom =
     [(''custom0'', [RV_IT_CUSTOM]), (''custom0_rs1'', [RV_IT_CUSTOM]),
      (''custom0_rs1_rs2'', [RV_IT_CUSTOM]), (''custom0_rd'', [RV_IT_CUSTOM]),
      (''custom0_rd_rs1'', [RV_IT_CUSTOM]), (''custom0_rd_rs1_rs2'', [RV_IT_CUSTOM]),
      (''custom1'', [RV_IT_CUSTOM]), (''custom1_rs1'', [RV_IT_CUSTOM]),
      (''custom1_rs1_rs2'', [RV_IT_CUSTOM]), (''custom1_rd'', [RV_IT_CUSTOM]),
      (''custom1_rd_rs1'', [RV_IT_CUSTOM]), (''custom1_rd_rs1_rs2'', [RV_IT_CUSTOM]),
      (''custom2'', [RV_IT_CUSTOM]), (''custom2_rs1'', [RV_IT_CUSTOM]),
      (''custom2_rs1_rs2'', [RV_IT_CUSTOM]), (''custom2_rd'', [RV_IT_CUSTOM]),
      (''custom2_rd_rs1'', [RV_IT_CUSTOM]), (''custom2_rd_rs1_rs2'', [RV_IT_CUSTOM]),
      (''custom3'', [RV_IT_CUSTOM]), (''custom3_rs1'', [RV_IT_CUSTOM]),
      (''custom3_rs1_rs2'', [RV_IT_CUSTOM]), (''custom3_rd'', [RV_IT_CUSTOM]),
      (''custom3_rd_rs1'', [RV_IT_CUSTOM]), (''custom3_rd_rs1_rs2'', [RV_IT_CUSTOM])]"

definition types32 :: "(string \<times> riscvIType list) list" where
  "types32 = types_base @ types_mul_amo @ types_system @ types_fp_arith @ types_fp_cmp_cvt @
     types_fp_mem_fma @ types_custom"

definition types_compressed :: "bool \<Rightarrow> (string \<times> riscvIType list) list" where
  "types_compressed is64 = (if is64 then types_compressed64 else types_compressed32)"

section \<open>Checking an encoding against the keys of a table\<close>

text \<open>The fixed bits of an encoding, from bit 0.\<close>

fun enc_bits :: "nat \<Rightarrow> int \<Rightarrow> int \<Rightarrow> patBit list" where
  "enc_bits 0 mat msk = []"
| "enc_bits (Suc n) mat msk =
     (if even msk then BX else if even mat then B0 else B1) # enc_bits n (mat div 2) (msk div 2)"

text \<open>One bit of an encoding rules out the keys that fix it to the other value; a key that fixes a
  bit the encoding leaves free no longer covers the encoding. The tag of a key says whether it
  still does.\<close>

type_synonym tagged = "bool \<times> riscvIType \<times> nat \<times> patBit list"

fun narrow1 :: "patBit \<Rightarrow> tagged list \<Rightarrow> tagged list" where
  "narrow1 b [] = []"
| "narrow1 b ((f, ty, p, []) # ks) = (f, ty, p, []) # narrow1 b ks"
| "narrow1 b ((f, ty, p, BX # cs) # ks) = (f, ty, p, cs) # narrow1 b ks"
| "narrow1 B0 ((f, ty, p, B0 # cs) # ks) = (f, ty, p, cs) # narrow1 B0 ks"
| "narrow1 B1 ((f, ty, p, B0 # cs) # ks) = narrow1 B1 ks"
| "narrow1 BX ((f, ty, p, B0 # cs) # ks) = (False, ty, p, cs) # narrow1 BX ks"
| "narrow1 B0 ((f, ty, p, B1 # cs) # ks) = narrow1 B0 ks"
| "narrow1 B1 ((f, ty, p, B1 # cs) # ks) = (f, ty, p, cs) # narrow1 B1 ks"
| "narrow1 BX ((f, ty, p, B1 # cs) # ks) = (False, ty, p, cs) # narrow1 BX ks"

fun narrow :: "patBit list \<Rightarrow> tagged list \<Rightarrow> tagged list" where
  "narrow [] ks = ks"
| "narrow (b # bs) ks = narrow bs (narrow1 b ks)"

fun cover :: "tagged list \<Rightarrow> nat" where
  "cover [] = 0"
| "cover ((True, ty, p, cs) # ks) = max p (cover ks)"
| "cover ((False, ty, p, cs) # ks) = cover ks"

definition types_ok :: "riscvIType list \<Rightarrow> tagged list \<Rightarrow> bool" where
  "types_ok tys ks \<longleftrightarrow> (let q = cover ks in
     (q \<noteq> 0 \<or> RV_IT_LAST \<in> set tys) \<and> list_all (\<lambda>(f, ty, p, cs). ty \<in> set tys \<or> p < q) ks)"

text \<open>All encodings at once: those with the same low bits share the narrowing.\<close>

type_synonym encTypes = "patBit list \<times> riscvIType list"

fun with_head :: "patBit \<Rightarrow> encTypes list \<Rightarrow> encTypes list" where
  "with_head b [] = []"
| "with_head b (([], tys) # es) = with_head b es"
| "with_head b ((c # cs, tys) # es) = (if c = b then (cs, tys) # with_head b es else with_head b es)"

fun enc_trie :: "nat \<Rightarrow> tagged list \<Rightarrow> encTypes list \<Rightarrow> bool" where
  "enc_trie 0 ks es = list_all (\<lambda>(bs, tys). types_ok tys ks) es"
| "enc_trie (Suc n) ks es \<longleftrightarrow>
     (case with_head B0 es of [] \<Rightarrow> True | e # es' \<Rightarrow> enc_trie n (narrow1 B0 ks) (e # es')) \<and>
     (case with_head B1 es of [] \<Rightarrow> True | e # es' \<Rightarrow> enc_trie n (narrow1 B1 ks) (e # es')) \<and>
     (case with_head BX es of [] \<Rightarrow> True | e # es' \<Rightarrow> enc_trie n (narrow1 BX ks) (e # es'))"

definition tag_keys :: "patKey list \<Rightarrow> tagged list" where
  "tag_keys ks = map (\<lambda>(k, ty, p, bs). (True, ty, p, bs)) ks"

definition enc_check :: "nat \<Rightarrow> patKey list \<Rightarrow> insnEncoding list \<Rightarrow> (string \<times> riscvIType list) list \<Rightarrow> bool" where
  "enc_check n ks encs tys =
     enc_trie n (tag_keys ks)
       (map2 (\<lambda>(insn, mat, msk) (insn', ty). (enc_bits n mat msk, ty)) encs tys)"

section \<open>What the check establishes\<close>

lemma length_enc_bits [simp]: "length (enc_bits n mat msk) = n"
  by (induction n mat msk rule: enc_bits.induct) simp_all

lemma bits_match_enc_bits:
  "(\<And>k. k < n \<Longrightarrow> bit msk k \<Longrightarrow> bit i (j + k) = bit mat k) \<Longrightarrow> bits_match (enc_bits n mat msk) j i"
proof (induction n mat msk arbitrary: j rule: enc_bits.induct)
  case (2 n mat msk)
  have "bits_match (enc_bits n (mat div 2) (msk div 2)) (Suc j) i"
    using 2(2) [of "Suc k" for k] by (intro 2(1)) (simp add: bit_Suc)
  with 2(2) [of 0] show ?case by (simp add: bit_0)
qed simp

lemma enc_bits_word:
  assumes "uint i AND msk = mat"
  shows "bits_match (enc_bits 32 mat msk) 0 i" "bits_match (enc_bits 16 mat msk) 0 i"
  using assms by (auto intro!: bits_match_enc_bits simp: bit_simps)

text \<open>\<open>narrow1\<close> one key at a time.\<close>

fun narrow_key :: "patBit \<Rightarrow> tagged \<Rightarrow> tagged option" where
  "narrow_key b (f, ty, p, []) = Some (f, ty, p, [])"
| "narrow_key b (f, ty, p, c # cs) =
     (if c = BX \<or> c = b then Some (f, ty, p, cs)
      else if b = BX then Some (False, ty, p, cs) else None)"

lemma narrow1_set: "k' \<in> set (narrow1 b ks) \<longleftrightarrow> (\<exists>k\<in>set ks. narrow_key b k = Some k')"
  by (induction b ks rule: narrow1.induct) auto

lemma narrow1_member:
  "k' \<in> set (narrow1 b ks) \<Longrightarrow> \<exists>f ty p cs. (f, ty, p, cs) \<in> set ks \<and> narrow_key b (f, ty, p, cs) = Some k'"
  by (simp add: narrow1_set Bex_def split_paired_Ex)

lemma bits_match_Cons:
  "bits_match (b # bs) j i \<longleftrightarrow> (b = BX \<or> bit i j = (b = B1)) \<and> bits_match bs (Suc j) i"
  by (cases b) auto

lemma narrow_keeps:
  "bits_match bs j i \<Longrightarrow> (f, ty, p, cs) \<in> set ks \<Longrightarrow> bits_match cs j i \<Longrightarrow> length cs = length bs \<Longrightarrow>
   \<exists>f'. (f', ty, p, []) \<in> set (narrow bs ks)"
proof (induction bs arbitrary: j f cs ks)
  case (Cons b bs)
  obtain c cs' where cs: "cs = c # cs'" using Cons.prems(4) by (cases cs) auto
  have "c = BX \<or> c = b \<or> b = BX"
    using Cons.prems(1,3) unfolding cs bits_match_Cons by (cases b; cases c; simp)
  then obtain f' where "(f', ty, p, cs') \<in> set (narrow1 b ks)"
    unfolding narrow1_set using Cons.prems(2) unfolding cs by (cases "c = BX \<or> c = b") force+
  with Cons.IH Cons.prems show ?case by (simp add: cs bits_match_Cons) blast
qed auto

lemma narrow_key_Some:
  assumes "narrow_key b (f, ty, p, cs) = Some (f', ty', p', cs')" and "cs \<noteq> []"
  shows "\<exists>c. cs = c # cs' \<and> ty' = ty \<and> p' = p \<and> (f' \<longrightarrow> f \<and> (c = BX \<or> c = b))"
  using assms by (cases cs) (auto split: if_splits)

abbreviation keys_length :: "nat \<Rightarrow> tagged list \<Rightarrow> bool" where
  "keys_length n ks \<equiv> \<forall>(f, ty, p, cs)\<in>set ks. length cs = n"

lemma narrow1_length:
  assumes "keys_length (Suc n) ks"
  shows "keys_length n (narrow1 b ks)"
proof -
  have "length cs' = n" if mem: "(f', ty', p', cs') \<in> set (narrow1 b ks)" for f' ty' p' cs'
  proof -
    obtain f ty p cs where k: "(f, ty, p, cs) \<in> set ks" "narrow_key b (f, ty, p, cs) = Some (f', ty', p', cs')"
      using narrow1_member [OF mem] by blast
    with assms have "length cs = Suc n" by blast
    with narrow_key_Some [OF k(2)] show ?thesis by (cases cs) auto
  qed
  then show ?thesis by blast
qed

lemma narrow_covers:
  "(True, ty, p, cs') \<in> set (narrow bs ks) \<Longrightarrow> keys_length (length bs) ks \<Longrightarrow>
   bits_match bs j i \<Longrightarrow> \<exists>cs. (True, ty, p, cs) \<in> set ks \<and> bits_match cs j i"
proof (induction bs arbitrary: j ks)
  case Nil
  then show ?case by force
next
  case (Cons b bs)
  have "keys_length (length bs) (narrow1 b ks)" using Cons.prems(2) narrow1_length by simp
  with Cons.IH [of "narrow1 b ks" "Suc j"] Cons.prems(1,3) obtain cs
    where cs: "(True, ty, p, cs) \<in> set (narrow1 b ks)" "bits_match cs (Suc j) i"
    by (auto simp: bits_match_Cons)
  obtain f ty0 p0 cs0 where k: "(f, ty0, p0, cs0) \<in> set ks"
      "narrow_key b (f, ty0, p0, cs0) = Some (True, ty, p, cs)"
    using narrow1_member [OF cs(1)] by blast
  then have "cs0 \<noteq> []" using Cons.prems(2) by auto
  from narrow_key_Some [OF k(2) this] k(1) cs(2) Cons.prems(3) show ?case
    by (auto simp: bits_match_Cons)
qed

lemma cover_member: "cover ks \<noteq> 0 \<Longrightarrow> \<exists>ty cs. (True, ty, cover ks, cs) \<in> set ks"
  by (induction ks rule: cover.induct) (auto simp: max_def split: if_splits)

lemma with_head_member: "(c # cs, tys) \<in> set es \<Longrightarrow> (cs, tys) \<in> set (with_head c es)"
  by (induction c es rule: with_head.induct) auto

lemma enc_trie_narrow:
  "enc_trie n ks es \<Longrightarrow> (bs, tys) \<in> set es \<Longrightarrow> length bs = n \<Longrightarrow> types_ok tys (narrow bs ks)"
proof (induction n arbitrary: ks es bs)
  case (Suc n)
  obtain b bs' where bs: "bs = b # bs'" using Suc.prems(3) by (cases bs) auto
  have mem: "(bs', tys) \<in> set (with_head b es)"
    using Suc.prems(2) with_head_member unfolding bs by blast
  then have "enc_trie n (narrow1 b ks) (with_head b es)"
    using Suc.prems(1) by (cases b) (auto split: list.splits)
  from Suc.IH [OF this mem] Suc.prems(3) show ?case by (simp add: bs)
qed (auto simp: list_all_iff)

text \<open>The type a conforming lookup gives to a word of a checked encoding.\<close>

definition type_at :: "(nat \<times> opAttrs) list \<Rightarrow> nat \<Rightarrow> riscvIType" where
  "type_at xs i = a_type (attrs_at xs i)"

lemma type_at_key:
  assumes "distinct (map fst xs)" and "k \<in> set (map attr_key xs)"
  shows "type_at xs (fst k) = fst (snd k)"
proof -
  obtain x where "x \<in> set xs" "k = attr_key x" using assms(2) by auto
  with attrs_at_member [OF assms(1), of "fst x" "snd x"] show ?thesis
    by (simp add: type_at_def attr_key_def)
qed

lemma tag_keys_set: "(f, ty, p, bs) \<in> set (tag_keys ks) \<longleftrightarrow> f \<and> (\<exists>k. (k, ty, p, bs) \<in> set ks)"
  by (force simp: tag_keys_def)

context vmid_lookup
begin

lemma types_ok_lookup:
  assumes t: "table_keys t ks" and n: "\<And>k ty p cs. (k, ty, p, cs) \<in> set ks \<Longrightarrow> length cs = length bs"
    and ok: "types_ok tys (narrow bs (tag_keys ks))" and i: "bits_match bs 0 i"
    and ty: "\<And>k. k \<in> set ks \<Longrightarrow> type_at xs (fst k) = fst (snd k)"
    and last: "type_at xs (vt_default t) = RV_IT_LAST"
  shows "type_at xs (D t i) \<in> set tys"
proof -
  define ns where "ns = narrow bs (tag_keys ks)"
  have len: "keys_length (length bs) (tag_keys ks)" using n by (force simp: tag_keys_set)
  have all: "ty' \<in> set tys \<or> p < cover ns" if "(f, ty', p, cs) \<in> set ns" for f ty' p cs
    using ok that by (fastforce simp: types_ok_def Let_def list_all_iff ns_def)
  have best: "\<exists>k0\<in>set ks. key_matches i k0 \<and> key_priority k0 = cover ns" if c: "cover ns \<noteq> 0"
  proof -
    obtain ty' cs where "(True, ty', cover ns, cs) \<in> set ns" using cover_member [OF c] by blast
    from narrow_covers [OF this [unfolded ns_def] len i]
    obtain m cs' where "(m, ty', cover ns, cs') \<in> set ks" "bits_match cs' 0 i"
      unfolding tag_keys_set ns_def [symmetric] by blast
    then show ?thesis by (intro bexI [of _ "(m, ty', cover ns, cs')"]) simp_all
  qed
  show ?thesis
  proof (cases "\<exists>k\<in>set ks. key_matches i k")
    case True
    then obtain k0 where k0: "k0 \<in> set ks" "key_matches i k0" "cover ns \<le> key_priority k0"
      using best by (cases "cover ns = 0") auto
    obtain k where k: "k \<in> set ks" "key_matches i k" "D t i = fst k" "key_priority k0 \<le> key_priority k"
      using lookup_hit [OF t k0(1,2)] k0(1,2) by metis
    obtain m ty' p cs where k_eq: "k = (m, ty', p, cs)" by (cases k)
    have "\<exists>f'. (f', ty', p, []) \<in> set ns"
      using narrow_keeps [OF i, of True ty' p cs "tag_keys ks"] n k(1,2)
      unfolding ns_def k_eq tag_keys_set by auto
    with all k0(3) k(4) have "ty' \<in> set tys" unfolding k_eq by fastforce
    then show ?thesis using ty [OF k(1)] k(3) by (simp add: k_eq)
  next
    case False
    then have "cover ns = 0" using best by blast
    then have "RV_IT_LAST \<in> set tys" using ok by (simp add: types_ok_def ns_def)
    with lookup_miss [OF t] False last show ?thesis by auto
  qed
qed

end

section \<open>The decode tables agree with the header\<close>

lemma type_at_tables:
  "k \<in> set keys32 \<Longrightarrow> type_at attrsArray32 (fst k) = fst (snd k)"
  "k \<in> set (keys16_of is64) \<Longrightarrow> type_at attrsArray16 (fst k) = fst (snd k)"
  "type_at attrsArray32 IT32_LAST = RV_IT_LAST" "type_at attrsArray16 IT16_LAST = RV_IT_LAST"
proof -
  have k32: "type_at attrsArray32 (fst k) = fst (snd k)"
    if "k \<in> set (keys32 @ [(IT32_LAST, RV_IT_LAST, 0, [])])" for k
    by (rule type_at_key [OF distinct_attrs(1)]) (use that in \<open>simp only: attr_keys32\<close>)
  have k16: "type_at attrsArray16 (fst k) = fst (snd k)"
    if "k \<in> set (keys16 @ [(IT16_LAST, RV_IT_LAST, 0, [])])" for k
    by (rule type_at_key [OF distinct_attrs(2)]) (use that in \<open>simp only: attr_keys16\<close>)
  show "k \<in> set keys32 \<Longrightarrow> type_at attrsArray32 (fst k) = fst (snd k)"
    "k \<in> set (keys16_of is64) \<Longrightarrow> type_at attrsArray16 (fst k) = fst (snd k)"
    "type_at attrsArray32 IT32_LAST = RV_IT_LAST" "type_at attrsArray16 IT16_LAST = RV_IT_LAST"
    using k32 [of k] k16 [of k] k32 [of "(IT32_LAST, RV_IT_LAST, 0, [])"]
      k16 [of "(IT16_LAST, RV_IT_LAST, 0, [])"] by (auto simp: keys16_of_def)
qed

text \<open>The types of the words of an encoding: \<open>ty\<close> gives the type of a word.\<close>

definition agrees :: "(uns32 \<Rightarrow> riscvIType) \<Rightarrow> insnEncoding \<Rightarrow> string \<times> riscvIType list \<Rightarrow> bool" where
  "agrees ty = (\<lambda>(insn, mat, msk) (insn', tys).
     insn = insn' \<and> (\<forall>i. uint i AND msk = mat \<longrightarrow> ty i \<in> set tys))"

lemma enc_check_agrees:
  assumes check: "enc_check n ks encs tys" and names: "map fst encs = map fst tys"
    and sound: "\<And>mat msk ts i. types_ok ts (narrow (enc_bits n mat msk) (tag_keys ks)) \<Longrightarrow>
      uint i AND msk = mat \<Longrightarrow> ty i \<in> set ts"
  shows "list_all2 (agrees ty) encs tys"
proof -
  have "list_all2 (\<lambda>x y. fst x = fst y) encs tys"
    using names by (simp add: list.rel_map(2) list_all2_conv_all_nth list_eq_iff_nth_eq)
  moreover have "\<forall>i. uint i AND msk = mat \<longrightarrow> ty i \<in> set ts"
    if "((insn, mat, msk), (insn', ts)) \<in> set (zip encs tys)" for insn mat msk insn' ts
  proof -
    have "(enc_bits n mat msk, ts) \<in>
        set (map2 (\<lambda>(insn, mat, msk) (insn', ty). (enc_bits n mat msk, ty)) encs tys)"
      using that by force
    from enc_trie_narrow [OF check [unfolded enc_check_def] this] sound show ?thesis by simp
  qed
  ultimately show ?thesis
    unfolding list_all2_iff agrees_def by (auto split: prod.splits)
qed

lemma check_base: "enc_check 32 keys32 insn_base types_base"
  by code_simp

lemma check_mul_amo: "enc_check 32 keys32 insn_mul_amo types_mul_amo"
  by code_simp

lemma check_system: "enc_check 32 keys32 insn_system types_system"
  by code_simp

lemma check_fp_arith: "enc_check 32 keys32 insn_fp_arith types_fp_arith"
  by code_simp

lemma check_fp_cmp_cvt: "enc_check 32 keys32 insn_fp_cmp_cvt types_fp_cmp_cvt"
  by code_simp

lemma check_fp_mem_fma: "enc_check 32 keys32 insn_fp_mem_fma types_fp_mem_fma"
  by code_simp

lemma check_custom: "enc_check 32 keys32 insn_custom types_custom"
  by code_simp

lemma check_compressed: "enc_check 16 (keys16_of is64) insn_compressed (types_compressed is64)"
proof -
  have "enc_check 16 (keys16_of True) insn_compressed (types_compressed True)" by code_simp
  moreover have "enc_check 16 (keys16_of False) insn_compressed (types_compressed False)" by code_simp
  ultimately show ?thesis by (cases is64) simp_all
qed

lemma same_names:
  "map fst insn_base = map fst types_base" "map fst insn_mul_amo = map fst types_mul_amo"
  "map fst insn_system = map fst types_system" "map fst insn_fp_arith = map fst types_fp_arith"
  "map fst insn_fp_cmp_cvt = map fst types_fp_cmp_cvt"
  "map fst insn_fp_mem_fma = map fst types_fp_mem_fma" "map fst insn_custom = map fst types_custom"
  "map fst insn_compressed = map fst (types_compressed is64)"
  by (simp_all add: insn_base_def types_base_def insn_mul_amo_def types_mul_amo_def insn_system_def
      types_system_def insn_fp_arith_def types_fp_arith_def insn_fp_cmp_cvt_def types_fp_cmp_cvt_def
      insn_fp_mem_fma_def types_fp_mem_fma_def insn_custom_def types_custom_def insn_compressed_def
      types_compressed_def types_compressed32_def types_compressed64_def)

lemma keys_bits_length:
  "(k, ty, p, bs) \<in> set keys32 \<Longrightarrow> length bs = 32" "(k, ty, p, bs) \<in> set (keys16_of is64) \<Longrightarrow> length bs = 16"
  using unambiguous_keys32 unambiguous_keys16_of [of is64]
  by (auto simp: unambiguous_def list_all_iff)





end
