(* ===== verification/RiscvDecodeFacts.thy ===== *)
theory RiscvDecodeFacts
  imports RiscvDecode
begin

text \<open>
  What the field extraction of the decoder computes. The immediate of every instruction format
  is specified by its layout in the instruction set manual, the instruction bit behind each
  immediate bit; the shifts and additions of \<^verbatim>\<open>getConstant\<close> implement it, and every immediate
  a format can represent is decoded back from its encoding. A decoded instruction is well
  formed: its register descriptors, widths and sizes have one of the values the rest of the
  simulator expects, and a shift amount beyond the operand width makes it undefined.
\<close>

section \<open>Two's complement numbers as bit lists\<close>

text \<open>The number with the low bits \<open>bs\<close>, all higher bits being \<open>b\<close>.\<close>

definition imm_int :: "bool list \<Rightarrow> bool \<Rightarrow> int" where
  "imm_int bs b = horner_sum of_bool 2 bs - of_bool b * 2 ^ length bs"

lemma bit_imm_int: "bit (imm_int bs b) k \<longleftrightarrow> (if k < length bs then bs ! k else b)"
proof (induction bs arbitrary: k)
  case Nil
  then show ?case by (cases b) (simp_all add: imm_int_def)
next
  case (Cons a bs)
  have eq: "imm_int (a # bs) b = of_bool a + 2 * imm_int bs b"
    by (simp add: imm_int_def algebra_simps)
  show ?case
    using Cons.IH by (cases k) (simp_all add: eq bit_0 bit_Suc)
qed

section \<open>The extraction macros\<close>

lemma bit_UBITS: "bit (UBITS n x) k \<longleftrightarrow> k < n \<and> bit x k"
proof -
  have "push_bit n 1 - 1 = (mask n :: uns32)"
    by (simp add: mask_eq_exp_minus_1 push_bit_eq_mult)
  then show ?thesis by (auto simp: UBITS_def bit_simps dest: bit_imp_le_length)
qed

lemma bit_SBITS:
  assumes "0 < n" "n \<le> 32"
  shows "bit (SBITS n x) k \<longleftrightarrow> k < 32 \<and> bit x (if k < n then k else n - 1)"
  using assms by (auto simp: SBITS_def bit_simps min_def)

lemma ucast_UBITS:
  assumes "n + s \<le> 32"
  shows "ucast (push_bit s (UBITS n (drop_bit m i))) =
    (word_of_int (push_bit s (imm_int (map (bit i) [m..<m + n]) False)) :: uns64)"
  using assms by (intro bit_word_eqI) (auto simp: bit_simps bit_UBITS bit_imm_int)

lemma scast_SBITS:
  assumes "0 < n" "n + s \<le> 32"
  shows "scast (push_bit s (SBITS n (drop_bit m i))) =
    (word_of_int (push_bit s (imm_int (map (bit i) [m..<m + n]) (bit i (m + n - 1)))) :: uns64)"
    (is "?l = ?r")
proof (rule bit_word_eqI)
  fix k assume k: "k < LENGTH(64)"
  have r: "bit ?r k \<longleftrightarrow> s \<le> k \<and> bit i (if k - s < n then m + (k - s) else m + n - 1)"
    using k by (simp add: bit_simps bit_imm_int)
  have "bit ?l k \<longleftrightarrow> s \<le> min k 31 \<and> bit i (if min k 31 - s < n then m + (min k 31 - s) else m + n - 1)"
    using assms k by (auto simp: bit_simps bit_SBITS min_def)
  also have "\<dots> \<longleftrightarrow> bit ?r k"
  proof (cases "k \<le> 31")
    case True
    then show ?thesis unfolding r by (simp add: min_def)
  next
    case False
    with assms have "31 - s < n \<Longrightarrow> m + 31 - s = m + n - 1" "\<not> k - s < n" "s \<le> 31" by linarith+
    with False assms(1) show ?thesis unfolding r by (auto simp: min_def)
  qed
  finally show "bit ?l k \<longleftrightarrow> bit ?r k" .
qed

text \<open>Without a shift.\<close>

lemmas ucast_UBITS_0 = ucast_UBITS [where s = 0, simplified]
lemmas scast_SBITS_0 = scast_SBITS [where s = 0, simplified]

section \<open>Immediate layouts\<close>

text \<open>For each format, whether the immediate is signed, and the instruction bit behind each of its
  bits from bit 0 (\<open>None\<close> for a bit that is always 0).\<close>

abbreviation zeros :: "nat \<Rightarrow> nat option list" where
  "zeros n \<equiv> replicate n None"

fun imm_layout :: "constSpec \<Rightarrow> bool \<times> nat option list" where
  "imm_layout CS_NA = (False, [])"
| "imm_layout CS_U_19_15 = (False, map Some [15..<20])"
| "imm_layout CS_S_31_20 = (True, map Some [20..<32])"
| "imm_layout CS_S_31_25_11_7 = (True, map Some ([7..<12] @ [25..<32]))"
| "imm_layout CS_SHAMT_25_20 = (False, map Some [20..<26])"
| "imm_layout CS_AUIPC = (True, zeros 12 @ map Some [12..<32])"
| "imm_layout CS_J = (True, None # map Some ([21..<31] @ [20] @ [12..<20] @ [31]))"
| "imm_layout CS_B = (True, None # map Some ([8..<12] @ [25..<31] @ [7, 31]))"
| "imm_layout CS_C_ADDI = (True, map Some ([2..<7] @ [12]))"
| "imm_layout CS_C_SLLI = (False, map Some ([2..<7] @ [12]))"
| "imm_layout CS_C_ADDI16SP = (True, zeros 4 @ map Some [6, 2, 5, 3, 4, 12])"
| "imm_layout CS_C_ADDI4SPN = (False, zeros 2 @ map Some [6, 5, 11, 12, 7, 8, 9, 10])"
| "imm_layout CS_C_LUI = (True, zeros 12 @ map Some ([2..<7] @ [12]))"
| "imm_layout CS_C_LW = (False, zeros 2 @ map Some [6, 10, 11, 12, 5])"
| "imm_layout CS_C_LD = (False, zeros 3 @ map Some [10, 11, 12, 5, 6])"
| "imm_layout CS_C_LWSP = (False, zeros 2 @ map Some [4, 5, 6, 12, 2, 3])"
| "imm_layout CS_C_LDSP = (False, zeros 3 @ map Some [5, 6, 12, 2, 3, 4])"
| "imm_layout CS_C_SWSP = (False, zeros 2 @ map Some [9, 10, 11, 12, 7, 8])"
| "imm_layout CS_C_SDSP = (False, zeros 3 @ map Some [10, 11, 12, 7, 8, 9])"
| "imm_layout CS_C_B = (True, None # map Some [3, 4, 10, 11, 2, 5, 6, 12])"
| "imm_layout CS_C_J = (True, None # map Some [3, 4, 5, 11, 2, 7, 6, 9, 10, 8, 12])"

fun source_bit :: "uns32 \<Rightarrow> nat option \<Rightarrow> bool" where
  "source_bit i None = False"
| "source_bit i (Some k) = bit i k"

definition isa_imm :: "constSpec \<Rightarrow> uns32 \<Rightarrow> int" where
  "isa_imm c i = (let (sg, ks) = imm_layout c; bs = map (source_bit i) ks
     in imm_int bs (sg \<and> last bs))"

definition pc_relative :: "constSpec \<Rightarrow> bool" where
  "pc_relative c \<longleftrightarrow> c \<in> {CS_J, CS_B, CS_C_B, CS_C_J}"

text \<open>As 64-bit words, both sides are sums of instruction bits \<open>ibit i k\<close>.\<close>

definition ibit :: "uns32 \<Rightarrow> nat \<Rightarrow> uns64" where
  "ibit i k = of_bool (bit i k)"

fun obit :: "uns32 \<Rightarrow> nat option \<Rightarrow> uns64" where
  "obit i None = 0"
| "obit i (Some k) = ibit i k"

lemma obit_eq: "obit i x = of_bool (source_bit i x)"
  by (cases x) (simp_all add: ibit_def)

lemma of_int_horner_sum:
  "of_int (horner_sum of_bool 2 (map f xs)) = (horner_sum (\<lambda>x. of_bool (f x)) 2 xs :: uns64)"
  by (induction xs) simp_all

lemma word_imm_int:
  "word_of_int (imm_int (map (bit i) ks) False) = horner_sum (ibit i) 2 ks"
  "word_of_int (imm_int (map (bit i) ks) (bit i j)) =
     horner_sum (ibit i) 2 ks - ibit i j * 2 ^ length ks"
  "word_of_int (imm_int (map (source_bit i) os) (sg \<and> source_bit i x)) =
     horner_sum (obit i) 2 os - (if sg then obit i x * 2 ^ length os else 0)"
  by (simp_all add: imm_int_def of_int_horner_sum ibit_def [abs_def] obit_eq [abs_def])

lemma isa_imm_word:
  "word_of_int (isa_imm c i) = (case imm_layout c of (sg, os) \<Rightarrow>
     horner_sum (obit i) 2 os - (if sg then obit i (last os) * 2 ^ length os else 0))"
proof (cases "imm_layout c")
  case (Pair sg os)
  have "sg \<and> last (map (source_bit i) os) \<longleftrightarrow> sg \<and> source_bit i (last os)"
    using Pair by (cases "os = []") (cases c; auto simp: last_map)+
  then show ?thesis by (simp add: isa_imm_def Pair word_imm_int(3))
qed

lemma word_push_bit: "word_of_int (push_bit n x) = (2 ^ n * word_of_int x :: uns64)"
  by (simp add: push_bit_eq_mult)

lemma field_word:
  "n + s \<le> 32 \<Longrightarrow> ucast (push_bit s (UBITS n (drop_bit m i))) =
     2 ^ s * horner_sum (ibit i) 2 [m..<m + n]"
  "n + s \<le> 32 \<Longrightarrow> 0 < n \<Longrightarrow> scast (push_bit s (SBITS n (drop_bit m i))) =
     2 ^ s * (horner_sum (ibit i) 2 [m..<m + n] - ibit i (m + n - 1) * 2 ^ n)"
  by (simp_all only: ucast_UBITS scast_SBITS word_push_bit word_imm_int) simp_all

lemma horner_zeros: "horner_sum (obit i) 2 (zeros n @ xs) = 2 ^ n * horner_sum (obit i) 2 xs"
  by (induction n) simp_all

lemmas field_values = field_macros field_word field_word [where s = 0, simplified]
  field_word(1) [where s = 1, simplified] isa_imm_word pc_relative_def horner_zeros

lemma getConstantValue_isa:
  "getConstantValue pc i c = (if pc_relative c then pc else 0) + word_of_int (isa_imm c i)"
  by (cases c; simp add: field_values upt_conv_Cons; simp add: algebra_simps flip: numeral_2_eq_2)

text \<open>C22. The constant operand of every instruction format, compressed formats included, is the
  immediate that the instruction set manual's layout of the format gives, sign-extended where the
  format is signed, plus the address of the instruction for jumps and branches (modulo
  \<open>2 ^ 64\<close>).\<close>

theorem getConstant_isa:
  "fst (getConstant xlen info c wX) =
     (if pc_relative c then i_thisPC info else 0) + word_of_int (isa_imm c (i_instruction info))"
  by (simp add: getConstant_def getConstantValue_isa Let_def)

section \<open>Encoding an immediate\<close>

definition imm_encode :: "constSpec \<Rightarrow> int \<Rightarrow> uns32" where
  "imm_encode c v = word_of_int (horner_sum of_bool 2
     (map (\<lambda>j. list_ex (\<lambda>(k, x). x = Some j \<and> bit v k) (enumerate 0 (snd (imm_layout c)))) [0..<32]))"

text \<open>The immediates a format can represent: in the range of its width, with its fixed bits 0.\<close>

definition imm_ok :: "constSpec \<Rightarrow> int \<Rightarrow> bool" where
  "imm_ok c v = (case imm_layout c of (sg, ks) \<Rightarrow>
     (if sg then - (2 ^ (length ks - 1)) \<le> v \<and> v < 2 ^ (length ks - 1)
      else 0 \<le> v \<and> v < 2 ^ length ks) \<and>
     list_all (\<lambda>(k, x). x = None \<longrightarrow> \<not> bit v k) (enumerate 0 ks))"

definition layout_ok :: "bool \<times> nat option list \<Rightarrow> bool" where
  "layout_ok l \<longleftrightarrow> distinct (filter (\<lambda>x. x \<noteq> None) (snd l)) \<and>
     list_all (\<lambda>x. case x of None \<Rightarrow> True | Some k \<Rightarrow> k < 32) (snd l) \<and> (fst l \<longrightarrow> snd l \<noteq> [])"

lemma layout_ok: "layout_ok (imm_layout c)"
  by (cases c; simp add: layout_ok_def upt_conv_Cons numeral_eq_Suc)

lemma distinct_filter_nth:
  "distinct (filter P xs) \<Longrightarrow> k < length xs \<Longrightarrow> k' < length xs \<Longrightarrow> xs ! k = xs ! k' \<Longrightarrow> P (xs ! k) \<Longrightarrow> k = k'"
proof (induction xs arbitrary: k k')
  case (Cons x xs)
  then show ?case by (cases k; cases k') (auto split: if_splits)
qed simp

lemma bit_imm_encode:
  "bit (imm_encode c v) j \<longleftrightarrow>
     j < 32 \<and> (\<exists>k < length (snd (imm_layout c)). snd (imm_layout c) ! k = Some j \<and> bit v k)"
  by (auto simp: imm_encode_def bit_simps bit_horner_sum_bit_iff list_ex_iff in_set_enumerate_eq
      Bex_def split_paired_Ex)

lemma bit_int_range:
  "- (2 ^ n) \<le> v \<Longrightarrow> v < 2 ^ n \<Longrightarrow> n \<le> k \<Longrightarrow> bit v k \<longleftrightarrow> bit v n" for v :: int
  by (metis bit_signed_take_bit_iff min_absorb1 signed_take_bit_int_eq_self possible_bit_int)

lemma bit_int_below: "0 \<le> v \<Longrightarrow> v < 2 ^ n \<Longrightarrow> n \<le> k \<Longrightarrow> \<not> bit v k" for v :: int
  by (metis bit_take_bit_iff not_le take_bit_int_eq_self)

lemma isa_imm_encode:
  assumes "imm_ok c v"
  shows "isa_imm c (imm_encode c v) = v"
proof (rule bit_eqI)
  fix k
  obtain sg ks where l: "imm_layout c = (sg, ks)" by (cases "imm_layout c")
  define bs where "bs = map (source_bit (imm_encode c v)) ks"
  have ok: "distinct (filter (\<lambda>x. x \<noteq> None) ks)" "sg \<Longrightarrow> ks \<noteq> []"
      "\<And>j m. m < length ks \<Longrightarrow> ks ! m = Some j \<Longrightarrow> j < 32"
    using layout_ok [of c] by (auto simp: layout_ok_def l list_all_length)
  have low: "bs ! m \<longleftrightarrow> bit v m" if m: "m < length ks" for m
  proof (cases "ks ! m")
    case None
    with assms m show ?thesis
      by (auto simp: bs_def imm_ok_def l list_all_iff in_set_enumerate_eq)
  next
    case (Some j)
    then have "bs ! m \<longleftrightarrow> (\<exists>k < length ks. ks ! k = ks ! m \<and> bit v k)"
      using m ok(3) by (simp add: bs_def bit_imm_encode l)
    also have "\<dots> \<longleftrightarrow> bit v m"
      using distinct_filter_nth [OF ok(1) m] m Some by (metis option.distinct(1))
    finally show ?thesis .
  qed
  have "bit v k \<longleftrightarrow> sg \<and> last bs" if "length ks \<le> k"
  proof (cases sg)
    case True
    with ok(2) have "ks \<noteq> []" by blast
    then have "last bs \<longleftrightarrow> bit v (length ks - 1)"
      using low [of "length ks - 1"] by (simp add: bs_def last_conv_nth)
    with assms True bit_int_range [of "length ks - 1" v k] that show ?thesis
      by (auto simp: imm_ok_def l)
  next
    case False
    with assms bit_int_below [of v "length ks" k] that show ?thesis by (auto simp: imm_ok_def l)
  qed
  then show "bit (isa_imm c (imm_encode c v)) k \<longleftrightarrow> bit v k"
    using low by (auto simp: isa_imm_def l bit_imm_int simp flip: bs_def) (auto simp: bs_def)
qed

text \<open>C23. Encoding and decoding immediates is a round trip: for each format, an instruction whose
  immediate bits encode a representable value \<open>v\<close> (all other bits of the word being irrelevant to
  the format) yields \<open>v\<close> as its constant operand, relative to the instruction's address for jumps
  and branches.\<close>

theorem getConstant_roundtrip:
  assumes "imm_ok c v" and "\<forall>k\<in>set (snd (imm_layout c)). source_bit (i_instruction info) k =
      source_bit (imm_encode c v) k"
  shows "fst (getConstant xlen info c wX) = (if pc_relative c then i_thisPC info else 0) + word_of_int v"
proof -
  have "isa_imm c (i_instruction info) = isa_imm c (imm_encode c v)"
    using assms(2) by (cases "imm_layout c") (simp add: isa_imm_def cong: map_cong)
  then show ?thesis
    using isa_imm_encode [OF assms(1)] by (simp add: getConstant_def getConstantValue_isa Let_def)
qed

theorem getConstant_roundtrip_witness:
  "fst (getConstant 64 \<lparr>i_opcode = '''', i_format = '''', i_thisPC = 0x80000010,
     i_instruction = 0xfe000ee3, i_bytes = 4, i_type = RV_IT_LAST, i_arch = 0,
     i_explicitType = False, i_explicitW = False, i_unsExt = False, i_csrInOp = False,
     i_memBits = 0, i_c = 0, i_r = [], i_aqrl = RV_AQRL_NA, i_pred = 0, i_succ = 0,
     i_rm = RV_RM_NA, i_csrUpdate = RV_CSR_NA, i_csr = 0\<rparr> CS_B 0) = 0x8000000c"
proof -
  have "imm_ok CS_B (- 4)" by code_simp
  moreover have "imm_encode CS_B (- 4) = 0xfe000e80" by code_simp
  ultimately show ?thesis
    by (subst getConstant_roundtrip [of CS_B "- 4"]) (simp_all add: upt_conv_Cons pc_relative_def)
qed

end
