(* ===== verification/RiscvDecodeInfo.thy ===== *)
theory RiscvDecodeInfo
  imports RiscvDecodeTable RiscvDecodeFacts
begin

text \<open>
  Well-formedness of a decoded instruction. The table entries name registers only where the
  instruction has them and give every floating-point register a width; the register
  descriptors, sizes and indices that \<^verbatim>\<open>riscvDecode\<close> extracts are therefore always among the
  values the translator and the disassembler expect. A shift amount that is too large for the
  register width, or a register wider than XLEN, makes the instruction undefined for the current
  architecture.
\<close>

section \<open>Well-formed table entries\<close>

definition attr_regs :: "opAttrs \<Rightarrow> rSpec list" where
  "attr_regs a = [a_r1 a, a_r2 a, a_r3 a, a_r4 a]"

definition F_specs :: "rSpec list" where
  "F_specs = [RS_F_4_2_P8, RS_F_6_2, RS_F_11_7, RS_F_19_15, RS_F_24_20, RS_F_31_27]"

text \<open>The operand index that a format character refers to.\<close>

definition fmt_reg :: "char \<Rightarrow> nat option" where
  "fmt_reg c = (if c = EMIT_R1 then Some 0 else if c = EMIT_R2 then Some 1
     else if c = EMIT_R3 then Some 2 else if c = EMIT_R4 then Some 3 else None)"

definition fmt_ok :: "opAttrs \<Rightarrow> bool" where
  "fmt_ok a = list_all (\<lambda>c. case fmt_reg c of None \<Rightarrow> True | Some k \<Rightarrow> attr_regs a ! k \<noteq> R_NA) (a_format a)"

definition sgnj_types :: "riscvIType set" where
  "sgnj_types = {RV_IT_FSGNJ_R, RV_IT_FSGNJN_R, RV_IT_FSGNJX_R}"

definition attrs_ok :: "opAttrs \<Rightarrow> bool" where
  "attrs_ok a \<longleftrightarrow> (a_wF a = WF_NA \<longrightarrow> list_all (\<lambda>r. r \<notin> set F_specs) (attr_regs a)) \<and> fmt_ok a \<and>
     (a_type a \<in> sgnj_types \<longrightarrow> a_r1 a \<noteq> R_NA \<and> a_r2 a \<noteq> R_NA) \<and>
     length (a_format a) \<le> 7 \<and> length (a_opcode a) \<le> 10"

lemma opAttrs_zero_rest [simp]:
  "a_r1 opAttrs_zero = R_NA" "a_r2 opAttrs_zero = R_NA" "a_r3 opAttrs_zero = R_NA"
  "a_r4 opAttrs_zero = R_NA" "a_wF opAttrs_zero = WF_NA" "a_format opAttrs_zero = ''''"
  "a_opcode opAttrs_zero = ''''" "a_wX opAttrs_zero = WX_NA" "a_cs opAttrs_zero = CS_NA"
  by (simp_all add: opAttrs_zero_def)

lemmas attrs_eval = attrs_ok_def attr_regs_def F_specs_def fmt_ok_def fmt_reg_def attr_defs

lemma attrs_ok_zero: "attrs_ok opAttrs_zero"
  by (simp add: attrs_eval sgnj_types_def)

lemma attrs_ok_macros16:
  "attrs_ok (snd (ATTR16_NOP k g ar op p)) \<longleftrightarrow> g \<notin> sgnj_types \<and> length op \<le> 10"
  "attrs_ok (snd (ATTR16_ADD k g ar op p)) \<longleftrightarrow> length op \<le> 10"
  "attrs_ok (snd (ATTR16_AND k g ar op p)) \<longleftrightarrow> length op \<le> 10"
  "attrs_ok (snd (ATTR16_ADDW k g ar op p)) \<longleftrightarrow> length op \<le> 10"
  "attrs_ok (snd (ATTR16_MV k g ar op p)) \<longleftrightarrow> length op \<le> 10"
  "attrs_ok (snd (ATTR16_ADDI k g ar op p)) \<longleftrightarrow> length op \<le> 10"
  "attrs_ok (snd (ATTR16_ADDI16SP k g ar op p)) \<longleftrightarrow> length op \<le> 10"
  "attrs_ok (snd (ATTR16_ADDI4SPN k g ar op p)) \<longleftrightarrow> length op \<le> 10"
  "attrs_ok (snd (ATTR16_ADDIW k g ar op p)) \<longleftrightarrow> length op \<le> 10"
  "attrs_ok (snd (ATTR16_ANDI k g ar op p)) \<longleftrightarrow> length op \<le> 10"
  "attrs_ok (snd (ATTR16_SLLI k g ar op p)) \<longleftrightarrow> length op \<le> 10"
  "attrs_ok (snd (ATTR16_SRAI k g ar op p)) \<longleftrightarrow> length op \<le> 10"
  "attrs_ok (snd (ATTR16_BEQZ k g ar op p)) \<longleftrightarrow> length op \<le> 10"
  "attrs_ok (snd (ATTR16_J k g ar op p)) \<longleftrightarrow> g \<notin> sgnj_types \<and> length op \<le> 10"
  "attrs_ok (snd (ATTR16_JAL k g ar op p)) \<longleftrightarrow> g \<notin> sgnj_types \<and> length op \<le> 10"
  "attrs_ok (snd (ATTR16_JR k g ar op p)) \<longleftrightarrow> length op \<le> 10"
  "attrs_ok (snd (ATTR16_JALR k g ar op p)) \<longleftrightarrow> length op \<le> 10"
  "attrs_ok (snd (ATTR16_LI k g ar op p)) \<longleftrightarrow> length op \<le> 10"
  "attrs_ok (snd (ATTR16_LUI k g ar op p)) \<longleftrightarrow> length op \<le> 10"
  "attrs_ok (snd (ATTR16_LD k g ar op p)) \<longleftrightarrow> length op \<le> 10"
  "attrs_ok (snd (ATTR16_LDSP k g ar op p)) \<longleftrightarrow> length op \<le> 10"
  "attrs_ok (snd (ATTR16_SDSP k g ar op p)) \<longleftrightarrow> length op \<le> 10"
  "attrs_ok (snd (ATTR16_LW k g ar op p)) \<longleftrightarrow> length op \<le> 10"
  "attrs_ok (snd (ATTR16_LWSP k g ar op p)) \<longleftrightarrow> length op \<le> 10"
  "attrs_ok (snd (ATTR16_SWSP k g ar op p)) \<longleftrightarrow> length op \<le> 10"
  "attrs_ok (snd (ATTR16_FLD k g ar op p)) \<longleftrightarrow> length op \<le> 10"
  "attrs_ok (snd (ATTR16_FLDSP k g ar op p)) \<longleftrightarrow> length op \<le> 10"
  "attrs_ok (snd (ATTR16_FSDSP k g ar op p)) \<longleftrightarrow> length op \<le> 10"
  "attrs_ok (snd (ATTR16_FLW k g ar op p)) \<longleftrightarrow> length op \<le> 10"
  "attrs_ok (snd (ATTR16_FLWSP k g ar op p)) \<longleftrightarrow> length op \<le> 10"
  "attrs_ok (snd (ATTR16_FSWSP k g ar op p)) \<longleftrightarrow> length op \<le> 10"
  "attrs_ok (snd (ATTR16_LAST k g op)) \<longleftrightarrow> g \<notin> sgnj_types \<and> length op \<le> 10"
  by (simp_all add: attrs_eval)

lemma attrs_ok_macros32:
  "attrs_ok (snd (ATTR32_ADD k g ar op p)) \<longleftrightarrow> length op \<le> 10"
  "attrs_ok (snd (ATTR32_ADDI k g ar op p)) \<longleftrightarrow> length op \<le> 10"
  "attrs_ok (snd (ATTR32_NOPI k g ar op p)) \<longleftrightarrow> length op \<le> 10"
  "attrs_ok (snd (ATTR32_NEG k g ar op p)) \<longleftrightarrow> length op \<le> 10"
  "attrs_ok (snd (ATTR32_SLTZ k g ar op p)) \<longleftrightarrow> length op \<le> 10"
  "attrs_ok (snd (ATTR32_NOP k g ar op p)) \<longleftrightarrow> g \<notin> sgnj_types \<and> length op \<le> 10"
  "attrs_ok (snd (ATTR32_NOT k g ar op p)) \<longleftrightarrow> length op \<le> 10"
  "attrs_ok (snd (ATTR32_LB k g ar op p)) \<longleftrightarrow> length op \<le> 10"
  "attrs_ok (snd (ATTR32_SB k g ar op p)) \<longleftrightarrow> length op \<le> 10"
  "attrs_ok (snd (ATTR32_JR k g ar op p)) \<longleftrightarrow> length op \<le> 10"
  "attrs_ok (snd (ATTR32_JR0 k g ar op p)) \<longleftrightarrow> length op \<le> 10"
  "attrs_ok (snd (ATTR32_JALR k g ar op p)) \<longleftrightarrow> length op \<le> 10"
  "attrs_ok (snd (ATTR32_SLLI k g ar op p)) \<longleftrightarrow> length op \<le> 10"
  "attrs_ok (snd (ATTR32_CSRRC k g ar op p)) \<longleftrightarrow> length op \<le> 10"
  "attrs_ok (snd (ATTR32_CSRR k g ar op p)) \<longleftrightarrow> length op \<le> 10"
  "attrs_ok (snd (ATTR32_CSRC k g ar op p)) \<longleftrightarrow> length op \<le> 10"
  "attrs_ok (snd (ATTR32_CSRRCI k g ar op p)) \<longleftrightarrow> g \<notin> sgnj_types \<and> length op \<le> 10"
  "attrs_ok (snd (ATTR32_CSRCI k g ar op p)) \<longleftrightarrow> g \<notin> sgnj_types \<and> length op \<le> 10"
  "attrs_ok (snd (ATTR32_RDX1 k g ar op p)) \<longleftrightarrow> length op \<le> 10"
  "attrs_ok (snd (ATTR32_FENCE k g ar op p)) \<longleftrightarrow> g \<notin> sgnj_types \<and> length op \<le> 10"
  "attrs_ok (snd (ATTR32_AUIPC k g ar op p)) \<longleftrightarrow> g \<notin> sgnj_types \<and> length op \<le> 10"
  "attrs_ok (snd (ATTR32_BEQ k g ar op p)) \<longleftrightarrow> length op \<le> 10"
  "attrs_ok (snd (ATTR32_BEQZ k g ar op p)) \<longleftrightarrow> length op \<le> 10"
  "attrs_ok (snd (ATTR32_BGTZ k g ar op p)) \<longleftrightarrow> length op \<le> 10"
  "attrs_ok (snd (ATTR32_J k g ar op p)) \<longleftrightarrow> g \<notin> sgnj_types \<and> length op \<le> 10"
  "attrs_ok (snd (ATTR32_JAL k g ar op p)) \<longleftrightarrow> g \<notin> sgnj_types \<and> length op \<le> 10"
  "attrs_ok (snd (ATTR32_AMOADD k g ar op p)) \<longleftrightarrow> length op \<le> 10"
  "attrs_ok (snd (ATTR32_LR k g ar op p)) \<longleftrightarrow> length op \<le> 10"
  "attrs_ok (snd (ATTR32_FENCE_VMA k g ar op p)) \<longleftrightarrow> length op \<le> 10"
  "attrs_ok (snd (ATTR32_FSQRT k g ar op p)) \<longleftrightarrow> length op \<le> 10"
  "attrs_ok (snd (ATTR32_FADD k g ar op p)) \<longleftrightarrow> length op \<le> 10"
  "attrs_ok (snd (ATTR32_FMADD k g ar op p)) \<longleftrightarrow> length op \<le> 10"
  "attrs_ok (snd (ATTR32_FCLASS k g ar op p)) \<longleftrightarrow> length op \<le> 10"
  "attrs_ok (snd (ATTR32_FMAX k g ar op p)) \<longleftrightarrow> length op \<le> 10"
  "attrs_ok (snd (ATTR32_FCVT k g ar op p d s)) \<longleftrightarrow> d \<noteq> R_NA \<and> s \<noteq> R_NA \<and> length op \<le> 10"
  "attrs_ok (snd (ATTR32_FEQ k g ar op p)) \<longleftrightarrow> length op \<le> 10"
  "attrs_ok (snd (ATTR32_FL k g ar op p)) \<longleftrightarrow> length op \<le> 10"
  "attrs_ok (snd (ATTR32_FS k g ar op p)) \<longleftrightarrow> length op \<le> 10"
  "attrs_ok (snd (ATTR32_FMVFX k g ar op p)) \<longleftrightarrow> length op \<le> 10"
  "attrs_ok (snd (ATTR32_FMVXF k g ar op p)) \<longleftrightarrow> length op \<le> 10"
  "attrs_ok (snd (ATTR32_FRSR k g ar op p)) \<longleftrightarrow> length op \<le> 10"
  "attrs_ok (snd (ATTR32_FSSR k g ar op p)) \<longleftrightarrow> length op \<le> 10"
  "attrs_ok (snd (ATTR32_CUSTOM k g ar op p)) \<longleftrightarrow> g \<notin> sgnj_types \<and> length op \<le> 10"
  "attrs_ok (snd (ATTR32_LAST k g op)) \<longleftrightarrow> g \<notin> sgnj_types \<and> length op \<le> 10"
  by (simp_all add: attrs_eval) blast

lemma attrs_ok_16: "list_all (\<lambda>x. attrs_ok (snd x)) attrsArray16"
  by (simp add: attrsArray16_def attrs_ok_macros16 sgnj_types_def)

lemma attrs_ok_32: "list_all (\<lambda>x. attrs_ok (snd x)) attrsArray32"
  by (simp add: attrsArray32_def attrs_ok_macros32 sgnj_types_def)

lemma attrs_ok_at: "attrs_ok (attrs_at attrsArray32 k)" "attrs_ok (attrs_at attrsArray16 k)"
  using attrs_ok_32 attrs_ok_16 attrs_ok_zero
  by (auto simp: attrs_at_def list_all_iff dest: map_of_SomeD split: option.splits)

section \<open>What the interpretation of an instruction writes\<close>

text \<open>The functions that update \<open>info\<close> touch only its architecture, its type and the two flags of
  the disassembler; what they return depends on the instruction word alone.\<close>

lemma getXWidth_frame [frame_simps, simp]:
  "i_instruction (snd (getXWidth xlen info w)) = i_instruction info"
  "i_thisPC (snd (getXWidth xlen info w)) = i_thisPC info"
  "i_bytes (snd (getXWidth xlen info w)) = i_bytes info"
  "i_memBits (snd (getXWidth xlen info w)) = i_memBits info"
  "i_opcode (snd (getXWidth xlen info w)) = i_opcode info"
  "i_format (snd (getXWidth xlen info w)) = i_format info"
  "i_type (snd (getXWidth xlen info w)) = i_type info"
  by (cases w; simp add: forceWidth32_def)+

lemma getFWidth_frame [frame_simps, simp]:
  "i_instruction (snd (getFWidth info w)) = i_instruction info"
  "i_thisPC (snd (getFWidth info w)) = i_thisPC info"
  "i_bytes (snd (getFWidth info w)) = i_bytes info"
  "i_memBits (snd (getFWidth info w)) = i_memBits info"
  "i_opcode (snd (getFWidth info w)) = i_opcode info"
  "i_format (snd (getFWidth info w)) = i_format info"
  "i_type (snd (getFWidth info w)) = i_type info"
  "i_arch (snd (getFWidth info w)) = i_arch info"
  by (cases w; simp)+

lemma validateShift_frame [frame_simps, simp]:
  "i_instruction (validateShift xlen n wX info) = i_instruction info"
  "i_thisPC (validateShift xlen n wX info) = i_thisPC info"
  "i_bytes (validateShift xlen n wX info) = i_bytes info"
  "i_memBits (validateShift xlen n wX info) = i_memBits info"
  "i_opcode (validateShift xlen n wX info) = i_opcode info"
  "i_format (validateShift xlen n wX info) = i_format info"
  "i_csr (validateShift xlen n wX info) = i_csr info"
  by (simp_all add: validateShift_def)

lemma getConstant_frame [frame_simps, simp]:
  "i_instruction (snd (getConstant xlen info c wX)) = i_instruction info"
  "i_thisPC (snd (getConstant xlen info c wX)) = i_thisPC info"
  "i_bytes (snd (getConstant xlen info c wX)) = i_bytes info"
  "i_memBits (snd (getConstant xlen info c wX)) = i_memBits info"
  "i_opcode (snd (getConstant xlen info c wX)) = i_opcode info"
  "i_format (snd (getConstant xlen info c wX)) = i_format info"
  "i_csr (snd (getConstant xlen info c wX)) = i_csr info"
  by (simp_all add: getConstant_def Let_def)

lemma getRegister_frame [frame_simps, simp]:
  "i_instruction (snd (getRegister xlen r wX wF q info)) = i_instruction info"
  "i_thisPC (snd (getRegister xlen r wX wF q info)) = i_thisPC info"
  "i_bytes (snd (getRegister xlen r wX wF q info)) = i_bytes info"
  "i_memBits (snd (getRegister xlen r wX wF q info)) = i_memBits info"
  "i_opcode (snd (getRegister xlen r wX wF q info)) = i_opcode info"
  "i_format (snd (getRegister xlen r wX wF q info)) = i_format info"
  "i_type (snd (getRegister xlen r wX wF q info)) = i_type info"
  "i_csr (snd (getRegister xlen r wX wF q info)) = i_csr info"
  "i_c (snd (getRegister xlen r wX wF q info)) = i_c info"
  by (simp_all add: getRegister_def Let_def)

text \<open>The descriptor of one operand, as a function of the instruction word.\<close>

definition reg_of :: "uns32 \<Rightarrow> rSpec \<Rightarrow> riscvRegDesc \<Rightarrow> riscvRegDesc \<Rightarrow> bool \<Rightarrow> riscvRegDesc" where
  "reg_of instr r wX wF q =
     (let x = getRegisterSpec instr r in
      if x \<noteq> 0 \<and> getRBits x = 0
      then let y = (if q \<and> isXReg x \<and> \<not> isXWLReg x then x OR RV_RD_Q else x)
           in y OR (if isXReg y then wX else wF)
      else x)"

lemma fst_getRegister: "fst (getRegister xlen r wX wF q info) = reg_of (i_instruction info) r wX wF q"
  by (simp add: getRegister_def reg_of_def Let_def)

section \<open>Register descriptors\<close>

text \<open>The flags and the size of a descriptor are those of its parts.\<close>

lemma desc_bits:
  "isXReg x \<longleftrightarrow> bit x 9" "isFReg x \<longleftrightarrow> bit x 10" "isQReg x \<longleftrightarrow> bit x 11" "isWLReg x \<longleftrightarrow> bit x 12"
  "isFXReg x \<longleftrightarrow> bit x 13" "isUReg x \<longleftrightarrow> bit x 14"
  using has_bit(1) [of x 9] has_bit(1) [of x 10] has_bit(1) [of x 11] has_bit(1) [of x 12]
    has_bit(1) [of x 13] has_bit(1) [of x 14]
  by (simp_all add: isXReg_def isFReg_def isQReg_def isWLReg_def isFXReg_def isUReg_def)

lemma bit_getRBits: "bit (getRBits x) k \<longleftrightarrow> 3 \<le> k \<and> k < 7 \<and> bit x (k + 2)"
proof -
  have "(0x1e0 :: uns32) = push_bit 5 (mask 4)" by (simp add: mask_eq_exp_minus_1 push_bit_eq_mult)
  then have "bit (0x1e0 :: uns32) (k + 2) \<longleftrightarrow> 5 \<le> k + 2 \<and> k + 2 < 9"
    by (simp only: bit_push_bit_iff bit_mask_iff) auto
  then show ?thesis by (simp only: getRBits_def bit_drop_bit_eq o_def bit_and_iff add.commute) auto
qed

lemma desc_or [simp]:
  "isXReg (x OR y) \<longleftrightarrow> isXReg x \<or> isXReg y" "isFReg (x OR y) \<longleftrightarrow> isFReg x \<or> isFReg y"
  "isQReg (x OR y) \<longleftrightarrow> isQReg x \<or> isQReg y" "isXWLReg (x OR y) \<longleftrightarrow> isXWLReg x \<or> isXWLReg y"
  "getRBits (x OR y) = getRBits x OR getRBits y"
  by (auto simp: desc_bits isXWLReg_def bit_simps bit_getRBits intro!: bit_word_eqI)

text \<open>Register indices have none of them.\<close>

lemma index_bits:
  assumes "x < (32 :: uns32)" "5 \<le> k"
  shows "\<not> bit x k"
proof -
  have "unat (take_bit 5 x) = unat x"
    using assms(1) by (simp add: unsigned_take_bit_eq take_bit_nat_eq_self word_less_nat_alt)
  then have "take_bit 5 x = x" by (simp only: word_unat_eq_iff)
  with assms(2) show ?thesis by (metis bit_take_bit_iff not_less)
qed

lemma index_desc [simp]:
  assumes "x < 32"
  shows "\<not> isXReg x" "\<not> isFReg x" "\<not> isXWLReg x" "\<not> isQReg x" "getRBits x = 0"
  using index_bits [OF assms]
  by (auto simp: desc_bits isXWLReg_def bit_getRBits intro!: bit_word_eqI)

lemma UBITS_less:
  assumes "n < 32"
  shows "UBITS n x < 2 ^ n"
proof -
  have "take_bit n (UBITS n x) = UBITS n x"
    by (intro bit_word_eqI) (auto simp: bit_simps bit_UBITS)
  then have "unat (UBITS n x) = take_bit n (unat (UBITS n x))" by (metis unsigned_take_bit_eq)
  also have "\<dots> < 2 ^ n" by simp
  also have "2 ^ n = unat (2 ^ n :: uns32)"
    using assms unsigned_of_nat [where 'b = 32 and 'a = nat, of "2 ^ n"] by (simp add: take_bit_nat_eq_self)
  finally show ?thesis by (simp add: word_less_nat_alt)
qed

lemma field_less:
  "U_6_2 i < 32" "U_11_7 i < 32" "U_19_15 i < 32" "U_24_20 i < 32" "U_31_27 i < 32"
  "U_4_2 i < 8" "U_9_7 i < 8" "U_12 i < 2" "U_13_12 i < 4" "U_26_25 i < 4" "U_14_12 i < 8"
  "U_31_20 i < 4096"
  using UBITS_less [of 5] UBITS_less [of 3] UBITS_less [of 1] UBITS_less [of 2] UBITS_less [of 12]
  by (simp_all add: field_macros)

lemma small_plus_8: "x < 8 \<Longrightarrow> x + 8 < 32" for x :: uns32
  by (simp add: word_less_nat_alt unat_word_ariths)

text \<open>The kind of a register specification, and the index that the instruction word gives it.\<close>

fun spec_kind :: "rSpec \<Rightarrow> riscvRegDesc" where
  "spec_kind R_NA = RV_RD_NA"
| "spec_kind RS_XWL_11_7 = RV_RD_X OR RV_RD_WL"
| "spec_kind RS_XWL_19_15 = RV_RD_X OR RV_RD_WL"
| "spec_kind RS_XX_11_7 = RV_RD_X OR RV_RD_FX"
| "spec_kind RS_XX_19_15 = RV_RD_X OR RV_RD_FX"
| "spec_kind RS_S_19_15 = RV_RD_F OR RV_RD_32"
| "spec_kind RS_D_19_15 = RV_RD_F OR RV_RD_64"
| "spec_kind r = (if r \<in> set F_specs then RV_RD_F else RV_RD_X)"

definition spec_index :: "uns32 \<Rightarrow> rSpec \<Rightarrow> uns32" where
  "spec_index i r =
     (if r = R_NA \<or> r = RS_X_ZERO then 0 else if r = RS_X_LR then 1 else if r = RS_X_SP then 2
      else if r \<in> {RS_X_4_2_P8, RS_F_4_2_P8} then U_4_2 i + 8
      else if r \<in> {RS_X_6_2, RS_F_6_2} then U_6_2 i
      else if r = RS_X_9_7_P8 then U_9_7 i + 8
      else if r \<in> {RS_X_11_7, RS_XWL_11_7, RS_XX_11_7, RS_F_11_7} then U_11_7 i
      else if r \<in> {RS_X_24_20, RS_F_24_20} then U_24_20 i
      else if r = RS_F_31_27 then U_31_27 i else U_19_15 i)"

lemma spec_index_less [simp]: "spec_index i r < 32"
  using field_less(1-5) [of i] small_plus_8 [OF field_less(6) [of i]] small_plus_8 [OF field_less(7) [of i]]
  by (simp add: spec_index_def)

lemma getRegisterSpec_kind: "getRegisterSpec i r = spec_kind r OR spec_index i r"
  by (cases r) (simp_all add: F_specs_def spec_index_def or.assoc or.commute or.left_commute)

text \<open>A register operand is an integer or a floating-point register, never both, of 32 or 64 bits.\<close>

definition regdesc_ok :: "riscvRegDesc \<Rightarrow> bool" where
  "regdesc_ok r \<longleftrightarrow> r = RV_RD_NA \<or> (isXReg r \<noteq> isFReg r \<and> getRBits r \<in> {32, 64})"

lemma desc_consts [simp]:
  "isXReg 0x200" "\<not> isFReg 0x200" "getRBits 0x200 = 0" "\<not> isXReg 0x400" "isFReg 0x400" "getRBits 0x400 = 0"
  "isXReg 0x1200" "\<not> isFReg 0x1200" "getRBits 0x1200 = 0" "isXReg 0x2200" "\<not> isFReg 0x2200"
  "getRBits 0x2200 = 0" "\<not> isXReg 0x480" "isFReg 0x480" "getRBits 0x480 = 32" "\<not> isXReg 0x500"
  "isFReg 0x500" "getRBits 0x500 = 64" "\<not> isXReg 0x800" "\<not> isFReg 0x800" "getRBits 0x800 = 0"
  "\<not> isXReg 0x80" "\<not> isFReg 0x80" "getRBits 0x80 = 32" "\<not> isXReg 0x100" "\<not> isFReg 0x100"
  "getRBits 0x100 = 64" "\<not> isXReg 0x4080" "\<not> isFReg 0x4080" "getRBits 0x4080 = 32"
  "\<not> isXReg 0x4100" "\<not> isFReg 0x4100" "getRBits 0x4100 = 64" "\<not> isXReg 0" "\<not> isFReg 0"
  by (simp_all add: isXReg_def isFReg_def has_def getRBits_def)

lemma spec_kind_cases:
  "r = R_NA \<or> spec_kind r \<in> {0x480, 0x500} \<or> spec_kind r = 0x400 \<and> r \<in> set F_specs \<or>
   spec_kind r \<in> {0x200, 0x1200, 0x2200}"
  by (cases r) (simp_all add: F_specs_def)

lemma kind_nonzero: "isXReg x \<Longrightarrow> x \<noteq> 0" "isFReg x \<Longrightarrow> x \<noteq> 0"
  by auto

lemma getRegisterSpec_cases:
  assumes "r \<noteq> R_NA"
  shows "isXReg (getRegisterSpec i r) \<and> \<not> isFReg (getRegisterSpec i r) \<and> getRBits (getRegisterSpec i r) = 0 \<or>
    \<not> isXReg (getRegisterSpec i r) \<and> isFReg (getRegisterSpec i r) \<and>
      (getRBits (getRegisterSpec i r) = 0 \<and> r \<in> set F_specs \<or> getRBits (getRegisterSpec i r) \<in> {32, 64})"
  using spec_kind_cases [of r] assms by (elim disjE insertE conjE) (simp_all add: getRegisterSpec_kind)

text \<open>Adding the quiet flag or a width keeps the kind of a descriptor without a size.\<close>

lemma desc_widths:
  assumes "w \<in> {0x80, 0x100, 0x4080, 0x4100 :: riscvRegDesc}"
  shows "\<not> isXReg w" "\<not> isFReg w" "getRBits w \<in> {32, 64}"
  using assms by auto

lemma reg_of_ok:
  assumes wX: "wX \<in> {0x80, 0x100, 0x4080, 0x4100}"
    and wF: "wF \<in> {0x80, 0x100, 0x4080, 0x4100} \<or> wF = 0 \<and> r \<notin> set F_specs"
  shows "regdesc_ok (reg_of i r wX wF q) \<and> (r \<noteq> R_NA \<longrightarrow> reg_of i r wX wF q \<noteq> RV_RD_NA)"
proof (cases "r = R_NA")
  case False
  define x where "x = getRegisterSpec i r"
  note wX = desc_widths [OF wX]
  from getRegisterSpec_cases [OF False, of i] wF consider
    (X) "isXReg x" "\<not> isFReg x" "getRBits x = 0" |
    (F) "\<not> isXReg x" "isFReg x" "getRBits x = 0" "wF \<in> {0x80, 0x100, 0x4080, 0x4100}" |
    (S) "\<not> isXReg x" "isFReg x" "getRBits x \<in> {32, 64}"
    unfolding x_def [symmetric] by blast
  then show ?thesis
  proof cases
    case X
    have "reg_of i r wX wF q = (if q \<and> \<not> isXWLReg x then x OR RV_RD_Q else x) OR wX"
      using X kind_nonzero(1) [OF X(1)] by (simp add: reg_of_def Let_def x_def)
    with X wX have "isXReg (reg_of i r wX wF q)" "regdesc_ok (reg_of i r wX wF q)" by (simp_all add: regdesc_ok_def)
    then show ?thesis using kind_nonzero by blast
  next
    case F
    have "reg_of i r wX wF q = x OR wF"
      using F kind_nonzero(2) [OF F(2)] by (simp add: reg_of_def Let_def x_def)
    with F desc_widths [OF F(4)] have "isFReg (reg_of i r wX wF q)" "regdesc_ok (reg_of i r wX wF q)"
      by (simp_all add: regdesc_ok_def)
    then show ?thesis using kind_nonzero by blast
  next
    case S
    then have "reg_of i r wX wF q = x" by (auto simp: reg_of_def x_def)
    with S kind_nonzero(2) [OF S(2)] show ?thesis by (simp add: regdesc_ok_def)
  qed
qed (simp add: reg_of_def regdesc_ok_def)

lemma widths:
  "fst (getXWidth xlen info w) \<in> {0x80, 0x100, 0x4080, 0x4100}"
  "fst (getFWidth info w') \<in> {0x80, 0x100, 0x4080, 0x4100} \<or> fst (getFWidth info w') = 0 \<and> w' = WF_NA"
  by (cases w; simp add: forceWidth32_def) (cases w'; simp)

section \<open>Decoded instructions\<close>

definition info_ok :: "riscvInstrInfo \<Rightarrow> bool" where
  "info_ok info \<longleftrightarrow>
     length (i_r info) = 4 \<and> list_all regdesc_ok (i_r info) \<and>
     list_all (\<lambda>c. case fmt_reg c of None \<Rightarrow> True | Some k \<Rightarrow> i_r info ! k \<noteq> RV_RD_NA) (i_format info) \<and>
     length (i_format info) \<le> 7 \<and> length (i_opcode info) \<le> 10 \<and>
     i_memBits info \<in> {0, 8, 16, 32, 64} \<and> i_csr info < 0x1000"

lemma getConstant_type:
  "i_type (snd (getConstant xlen info c wX)) \<in> {i_type info, RV_IT_LAST}"
  by (simp add: getConstant_def Let_def validateShift_def)

lemma getMemBits_range: "getMemBits info m \<in> {0, 8, 16, 32, 64}"
proof -
  let ?i = "i_instruction info"
  have "unat (U_12 ?i) \<in> {0, 1}" "unat (U_13_12 ?i) \<in> {0, 1, 2, 3}"
    using field_less(8,9) [of ?i] by (auto simp: word_less_nat_alt)
  then show ?thesis by (cases m) (auto simp: push_bit_eq_mult)
qed

lemma getCSR_range: "getCSR info c < 0x1000"
  using field_less(12) by (cases c) simp_all

lemma interpretInstruction_cases:
  assumes "getXLenBits s = Some xlen"
  obtains j wX wF where
    "interpretInstruction s info a = Some (fixFPPseudoInstructions j)"
    "i_r j = map (\<lambda>r. reg_of (i_instruction info) r wX wF (a_xQuiet a)) (attr_regs a)"
    "wX \<in> {0x80, 0x100, 0x4080, 0x4100}"
    "wF \<in> {0x80, 0x100, 0x4080, 0x4100} \<or> wF = 0 \<and> a_wF a = WF_NA"
    "i_format j = a_format a" "i_opcode j = a_opcode a" "i_type j \<in> {a_type a, RV_IT_LAST}"
    "i_memBits j \<in> {0, 8, 16, 32, 64}" "i_csr j < 0x1000"
    "i_bytes j = i_bytes info" "i_thisPC j = i_thisPC info" "i_instruction j = i_instruction info"
proof -
  define K where "K x = (i_instruction x, i_thisPC x, i_bytes x, i_memBits x, i_opcode x, i_format x)" for x :: riscvInstrInfo
  define i2 where "i2 = (let x = info\<lparr>i_type := a_type a, i_opcode := a_opcode a, i_format := a_format a,
      i_arch := a_arch a, i_explicitType := False, i_explicitW := False, i_csrInOp := a_csrInOp a\<rparr>
    in x\<lparr>i_memBits := getMemBits x (a_memBits a)\<rparr>)"
  define X where "X = getXWidth xlen i2 (a_wX a)"
  define F where "F = getFWidth (snd X) (a_wF a)"
  define i5 where "i5 = (snd F)\<lparr>i_unsExt := getUnsExt (snd F) (a_unsExt a)\<rparr>"
  define i6 where "i6 = i5\<lparr>i_csr := getCSR i5 (a_csr a)\<rparr>"
  define i7 where "i7 = i6\<lparr>i_csrUpdate := getCSRUpdate i6 (a_csrUpdate a)\<rparr>"
  define C where "C = getConstant xlen i7 (a_cs a) (fst X)"
  define i8 where "i8 = (snd C)\<lparr>i_c := fst C\<rparr>"
  define G where "G r = getRegister xlen r (fst X) (fst F) (a_xQuiet a)" for r
  define i9 where "i9 = snd (G (a_r1 a) i8)"
  define i10 where "i10 = snd (G (a_r2 a) i9)"
  define i11 where "i11 = snd (G (a_r3 a) i10)"
  define i12 where "i12 = (snd (G (a_r4 a) i11))\<lparr>i_r :=
    [fst (G (a_r1 a) i8), fst (G (a_r2 a) i9), fst (G (a_r3 a) i10), fst (G (a_r4 a) i11)]\<rparr>"
  define i13 where "i13 = i12\<lparr>i_aqrl := getAQRL i12 (a_aqrl a)\<rparr>"
  define i14 where "i14 = i13\<lparr>i_pred := getFence i13 (a_pred a)\<rparr>"
  define i15 where "i15 = i14\<lparr>i_succ := getFence i14 (a_succ a)\<rparr>"
  define j where "j = i15\<lparr>i_rm := getRM i15 (a_rm a)\<rparr>"
  note defs = X_def F_def i5_def i6_def i7_def C_def i8_def G_def i9_def i10_def i11_def i12_def
    i13_def i14_def i15_def j_def
  have eq: "interpretInstruction s info a = Some (fixFPPseudoInstructions j)"
    unfolding interpretInstruction_def assms option.map Let_def case_prod_unfold defs i2_def by (rule refl)
  have K2: "K i2 = (i_instruction info, i_thisPC info, i_bytes info, i_memBits i2, a_opcode a, a_format a)"
    "i_memBits i2 \<in> {0, 8, 16, 32, 64}" "i_type i2 = a_type a"
    using getMemBits_range by (simp_all add: K_def i2_def Let_def)
  have K8: "K i8 = K i2"
    by (simp add: K_def i8_def C_def i7_def i6_def i5_def F_def X_def)
  have K12: "K i12 = K i8" "K i9 = K i8" "K i10 = K i8" "K i11 = K i8"
    by (simp_all add: K_def i12_def G_def i11_def i10_def i9_def)
  have Kj: "K j = K i12" "i_r j = i_r i12" "i_type j = i_type i8" "i_csr j = i_csr i8"
    by (simp_all add: K_def j_def i15_def i14_def i13_def i12_def G_def i11_def i10_def i9_def)
  have t8: "i_type i8 \<in> {a_type a, RV_IT_LAST}"
    using getConstant_type [of xlen i7 "a_cs a" "fst X"] K2(3)
    by (simp add: i8_def C_def i7_def i6_def i5_def F_def X_def)
  have c8: "i_csr i8 < 0x1000"
    using getCSR_range [of i5] by (simp add: i8_def C_def i7_def i6_def)
  have r: "i_r j = map (\<lambda>r. reg_of (i_instruction info) r (fst X) (fst F) (a_xQuiet a)) (attr_regs a)"
    using Kj(2) K12 K8 K2 by (simp add: i12_def G_def fst_getRegister attr_regs_def K_def)
  show thesis
    using that [OF eq r] widths(1) [of xlen i2 "a_wX a"] widths(2) [of "snd X" "a_wF a"]
      Kj K12 K8 K2 t8 c8 by (simp add: K_def X_def F_def)
qed

lemma fixFPPseudoInstructions_ok:
  assumes "info_ok j" "i_type j \<in> sgnj_types \<Longrightarrow> i_r j ! 0 \<noteq> RV_RD_NA \<and> i_r j ! 1 \<noteq> RV_RD_NA"
  shows "info_ok (fixFPPseudoInstructions j)"
  using assms by (auto simp: info_ok_def fixFPPseudoInstructions_def sgnj_types_def FMT_R1_R2_def fmt_reg_def)

lemma fixFPPseudoInstructions_frame [simp]:
  "i_bytes (fixFPPseudoInstructions j) = i_bytes j" "i_thisPC (fixFPPseudoInstructions j) = i_thisPC j"
  "i_instruction (fixFPPseudoInstructions j) = i_instruction j"
  by (simp_all add: fixFPPseudoInstructions_def)

lemma interpretInstruction_ok:
  assumes "getXLenBits s = Some xlen" "attrs_ok a"
  shows "\<exists>j. interpretInstruction s info a = Some j \<and> info_ok j \<and> i_bytes j = i_bytes info \<and>
    i_thisPC j = i_thisPC info \<and> i_instruction j = i_instruction info"
proof -
  obtain j wX wF where j: "interpretInstruction s info a = Some (fixFPPseudoInstructions j)"
    "i_r j = map (\<lambda>r. reg_of (i_instruction info) r wX wF (a_xQuiet a)) (attr_regs a)"
    "wX \<in> {0x80, 0x100, 0x4080, 0x4100}"
    "wF \<in> {0x80, 0x100, 0x4080, 0x4100} \<or> wF = 0 \<and> a_wF a = WF_NA"
    "i_format j = a_format a" "i_opcode j = a_opcode a" "i_type j \<in> {a_type a, RV_IT_LAST}"
    "i_memBits j \<in> {0, 8, 16, 32, 64}" "i_csr j < 0x1000"
    "i_bytes j = i_bytes info" "i_thisPC j = i_thisPC info" "i_instruction j = i_instruction info"
    by (rule interpretInstruction_cases [OF assms(1)])
  have reg: "regdesc_ok (reg_of (i_instruction info) r wX wF (a_xQuiet a)) \<and>
      (r \<noteq> R_NA \<longrightarrow> reg_of (i_instruction info) r wX wF (a_xQuiet a) \<noteq> RV_RD_NA)"
    if "r \<in> set (attr_regs a)" for r
    by (rule reg_of_ok [OF j(3)]) (use j(4) that assms(2) in \<open>auto simp: attrs_ok_def list_all_iff\<close>)
  have len: "length (attr_regs a) = 4" by (simp add: attr_regs_def)
  have nz: "i_r j ! k \<noteq> RV_RD_NA" if "k < 4" "attr_regs a ! k \<noteq> R_NA" for k
    using reg [of "attr_regs a ! k"] that len by (simp add: j(2))
  have k4: "fmt_reg c = Some k \<Longrightarrow> k < 4" for c k
    by (auto simp: fmt_reg_def split: if_splits)
  have fmt: "list_all (\<lambda>c. case fmt_reg c of None \<Rightarrow> True | Some k \<Rightarrow> i_r j ! k \<noteq> RV_RD_NA) (i_format j)"
    using assms(2) nz k4 unfolding attrs_ok_def fmt_ok_def j(5)
    by (auto simp: list_all_iff split: option.splits)
  have "info_ok j"
    using fmt assms(2) j(5,6,8,9) reg len
    by (simp add: info_ok_def attrs_ok_def j(2) list_all_iff del: One_nat_def)
  moreover have "i_type j \<in> sgnj_types \<Longrightarrow> i_r j ! 0 \<noteq> RV_RD_NA \<and> i_r j ! 1 \<noteq> RV_RD_NA"
    using nz [of 0] nz [of 1] j(7) assms(2) by (auto simp: attrs_ok_def attr_regs_def sgnj_types_def)
  ultimately have "info_ok (fixFPPseudoInstructions j)" by (rule fixFPPseudoInstructions_ok)
  with j show ?thesis by simp
qed

text \<open>Whatever instruction word is fetched, and whatever entry the decode table reports for it,
  \<^verbatim>\<open>riscvDecode\<close> returns as soon as the current XLEN is known: it yields an instruction at the
  requested address whose length agrees with its two low bits, whose register operands are integer
  or floating-point registers of 32 or 64 bits, whose disassembly format names only operands that
  are present, and whose memory size and CSR number are in range.\<close>

lemma riscvDecode_ok:
  assumes "getXLenBits s \<noteq> None"
  shows "\<exists>info'. riscvDecode D V s thisPC info = Some info' \<and> info_ok info' \<and> i_thisPC info' = thisPC \<and>
    i_instruction info' = riscvGetInstruction V s thisPC \<and>
    i_bytes info' = (if is4ByteInstruction (riscvGetInstruction V s thisPC) then 4 else 2)"
proof -
  obtain xlen where x: "getXLenBits s = Some xlen" using assms by auto
  note ok = interpretInstruction_ok [OF x attrs_ok_at(1)] interpretInstruction_ok [OF x attrs_ok_at(2)]
  show ?thesis
  proof (cases "is4ByteInstruction (riscvGetInstruction V s thisPC)")
    case True
    show ?thesis using ok(1) by (fastforce simp: True riscvDecode_def Let_def decode32_def)
  next
    case False
    show ?thesis using ok(2) by (fastforce simp: False riscvDecode_def Let_def decode16_def x)
  qed
qed

end
