(* ===== verification/RiscvSoftFloat.thy ===== *)
theory RiscvSoftFloat
  imports RiscvAccess
begin

text \<open>
  \<^verbatim>\<open>riscvSoftFloat.c\<close>: the Berkeley SoftFloat routines that the simulator uses for the F and D
  extensions, and the callbacks that set the rounding mode before and collect the flags after
  each operation. Modelled is the 64-bit host (\<^verbatim>\<open>SOFTFLOAT_FAST_INT64\<close>). The types
  \<^verbatim>\<open>uint_fast32_t\<close> and \<^verbatim>\<open>uint_fast64_t\<close> have the width of their name, the least that C
  guarantees, so that a value that does not fit would show as a wrap-around; exponents and shift
  distances are integers. The three thread-local variables of the library are the record
  \<open>softfloat\<close>, which every routine takes and returns.
\<close>

unbundle bit_operations_syntax

section \<open>State, flags and formats\<close>

type_synonym float32_t = uns32
type_synonym float64_t = uns64

record softfloat =
  softfloat_roundingMode :: riscvRMDesc
  softfloat_detectTininess :: nat
  softfloat_exceptionFlags :: uns8

abbreviation (input) softfloat_tininess_beforeRounding :: nat where "softfloat_tininess_beforeRounding \<equiv> 0"
abbreviation (input) softfloat_tininess_afterRounding :: nat where "softfloat_tininess_afterRounding \<equiv> 1"

abbreviation (input) softfloat_round_near_even :: riscvRMDesc where "softfloat_round_near_even \<equiv> RV_RM_RTE"
abbreviation (input) softfloat_round_minMag :: riscvRMDesc where "softfloat_round_minMag \<equiv> RV_RM_RTZ"
abbreviation (input) softfloat_round_min :: riscvRMDesc where "softfloat_round_min \<equiv> RV_RM_RDN"
abbreviation (input) softfloat_round_max :: riscvRMDesc where "softfloat_round_max \<equiv> RV_RM_RUP"
abbreviation (input) softfloat_round_near_maxMag :: riscvRMDesc where "softfloat_round_near_maxMag \<equiv> RV_RM_RMM"

abbreviation (input) softfloat_flag_invalid :: uns8 where "softfloat_flag_invalid \<equiv> 1"
abbreviation (input) softfloat_flag_infinite :: uns8 where "softfloat_flag_infinite \<equiv> 4"
abbreviation (input) softfloat_flag_overflow :: uns8 where "softfloat_flag_overflow \<equiv> 8"
abbreviation (input) softfloat_flag_underflow :: uns8 where "softfloat_flag_underflow \<equiv> 16"
abbreviation (input) softfloat_flag_inexact :: uns8 where "softfloat_flag_inexact \<equiv> 32"

definition softfloat_raiseFlags :: "uns8 \<Rightarrow> softfloat \<Rightarrow> softfloat" where
  "softfloat_raiseFlags flags st = st\<lparr>softfloat_exceptionFlags := softfloat_exceptionFlags st OR flags\<rparr>"

definition signF32UI :: "uns32 \<Rightarrow> bool" where
  "signF32UI a \<longleftrightarrow> drop_bit 31 a \<noteq> 0"

definition expF32UI :: "uns32 \<Rightarrow> int" where
  "expF32UI a = uint (drop_bit 23 a AND 0xFF)"

definition fracF32UI :: "uns32 \<Rightarrow> uns32" where
  "fracF32UI a = a AND 0x007FFFFF"

definition packToF32UI :: "bool \<Rightarrow> int \<Rightarrow> uns32 \<Rightarrow> uns32" where
  "packToF32UI sign exp sig = push_bit 31 (of_bool sign) + push_bit 23 (word_of_int exp) + sig"

definition signF64UI :: "uns64 \<Rightarrow> bool" where
  "signF64UI a \<longleftrightarrow> drop_bit 63 a \<noteq> 0"

definition expF64UI :: "uns64 \<Rightarrow> int" where
  "expF64UI a = uint (drop_bit 52 a AND 0x7FF)"

definition fracF64UI :: "uns64 \<Rightarrow> uns64" where
  "fracF64UI a = a AND 0x000FFFFFFFFFFFFF"

definition packToF64UI :: "bool \<Rightarrow> int \<Rightarrow> uns64 \<Rightarrow> uns64" where
  "packToF64UI sign exp sig = push_bit 63 (of_bool sign) + push_bit 52 (word_of_int exp) + sig"

abbreviation (input) defaultNaNF32UI :: uns32 where "defaultNaNF32UI \<equiv> 0x7FC00000"
abbreviation (input) defaultNaNF64UI :: uns64 where "defaultNaNF64UI \<equiv> 0x7FF8000000000000"

definition softfloat_isSigNaNF32UI :: "uns32 \<Rightarrow> bool" where
  "softfloat_isSigNaNF32UI uiA \<longleftrightarrow> uiA AND 0x7FC00000 = 0x7F800000 \<and> uiA AND 0x003FFFFF \<noteq> 0"

definition softfloat_isSigNaNF64UI :: "uns64 \<Rightarrow> bool" where
  "softfloat_isSigNaNF64UI uiA \<longleftrightarrow>
     uiA AND 0x7FF8000000000000 = 0x7FF0000000000000 \<and> uiA AND 0x0007FFFFFFFFFFFF \<noteq> 0"

definition softfloat_f64UIToCommonNaN :: "uns64 \<Rightarrow> softfloat \<Rightarrow> softfloat" where
  "softfloat_f64UIToCommonNaN uiA st =
     (if uiA AND 0x0008000000000000 = 0 then softfloat_raiseFlags softfloat_flag_invalid st else st)"

definition softfloat_propagateNaNF32UI :: "uns32 \<Rightarrow> uns32 \<Rightarrow> softfloat \<Rightarrow> uns32 \<times> softfloat" where
  "softfloat_propagateNaNF32UI uiA uiB st =
     (defaultNaNF32UI,
      if softfloat_isSigNaNF32UI uiA \<or> softfloat_isSigNaNF32UI uiB
      then softfloat_raiseFlags softfloat_flag_invalid st else st)"

definition softfloat_propagateNaNF64UI :: "uns64 \<Rightarrow> uns64 \<Rightarrow> softfloat \<Rightarrow> uns64 \<times> softfloat" where
  "softfloat_propagateNaNF64UI uiA uiB st =
     (defaultNaNF64UI,
      if softfloat_isSigNaNF64UI uiA \<or> softfloat_isSigNaNF64UI uiB
      then softfloat_raiseFlags softfloat_flag_invalid st else st)"

section \<open>Primitives\<close>

definition softfloat_shortShiftRightJam64 :: "uns64 \<Rightarrow> nat \<Rightarrow> uns64" where
  "softfloat_shortShiftRightJam64 a dist = drop_bit dist a OR of_bool (a AND (push_bit dist 1 - 1) \<noteq> 0)"

definition softfloat_shiftRightJam32 :: "uns32 \<Rightarrow> nat \<Rightarrow> uns32" where
  "softfloat_shiftRightJam32 a dist =
     (if dist < 31 then drop_bit dist a OR of_bool (push_bit (nat (- int dist mod 32)) a \<noteq> 0)
      else of_bool (a \<noteq> 0))"

definition softfloat_shiftRightJam64 :: "uns64 \<Rightarrow> nat \<Rightarrow> uns64" where
  "softfloat_shiftRightJam64 a dist =
     (if dist < 63 then drop_bit dist a OR of_bool (push_bit (nat (- int dist mod 64)) a \<noteq> 0)
      else of_bool (a \<noteq> 0))"

record uint64_extra =
  ue_extra :: uns64
  ue_v :: uns64

definition softfloat_shiftRightJam64Extra :: "uns64 \<Rightarrow> uns64 \<Rightarrow> nat \<Rightarrow> uint64_extra" where
  "softfloat_shiftRightJam64Extra a extra dist =
     (let z = (if dist < 64
               then \<lparr>ue_extra = push_bit (nat (- int dist mod 64)) a, ue_v = drop_bit dist a\<rparr>
               else \<lparr>ue_extra = (if dist = 64 then a else of_bool (a \<noteq> 0)), ue_v = 0\<rparr>)
      in z\<lparr>ue_extra := ue_extra z OR of_bool (extra \<noteq> 0)\<rparr>)"

definition softfloat_countLeadingZeros8 :: "nat list" where
  "softfloat_countLeadingZeros8 =
    [8, 7, 6, 6, 5, 5, 5, 5, 4, 4, 4, 4, 4, 4, 4, 4,
     3, 3, 3, 3, 3, 3, 3, 3, 3, 3, 3, 3, 3, 3, 3, 3,
     2, 2, 2, 2, 2, 2, 2, 2, 2, 2, 2, 2, 2, 2, 2, 2,
     2, 2, 2, 2, 2, 2, 2, 2, 2, 2, 2, 2, 2, 2, 2, 2,
     1, 1, 1, 1, 1, 1, 1, 1, 1, 1, 1, 1, 1, 1, 1, 1,
     1, 1, 1, 1, 1, 1, 1, 1, 1, 1, 1, 1, 1, 1, 1, 1,
     1, 1, 1, 1, 1, 1, 1, 1, 1, 1, 1, 1, 1, 1, 1, 1,
     1, 1, 1, 1, 1, 1, 1, 1, 1, 1, 1, 1, 1, 1, 1, 1,
     0, 0, 0, 0, 0, 0, 0, 0, 0, 0, 0, 0, 0, 0, 0, 0,
     0, 0, 0, 0, 0, 0, 0, 0, 0, 0, 0, 0, 0, 0, 0, 0,
     0, 0, 0, 0, 0, 0, 0, 0, 0, 0, 0, 0, 0, 0, 0, 0,
     0, 0, 0, 0, 0, 0, 0, 0, 0, 0, 0, 0, 0, 0, 0, 0,
     0, 0, 0, 0, 0, 0, 0, 0, 0, 0, 0, 0, 0, 0, 0, 0,
     0, 0, 0, 0, 0, 0, 0, 0, 0, 0, 0, 0, 0, 0, 0, 0,
     0, 0, 0, 0, 0, 0, 0, 0, 0, 0, 0, 0, 0, 0, 0, 0,
     0, 0, 0, 0, 0, 0, 0, 0, 0, 0, 0, 0, 0, 0, 0, 0]"

definition softfloat_countLeadingZeros32 :: "uns32 \<Rightarrow> nat" where
  "softfloat_countLeadingZeros32 a =
     (let (count, a) = (if a < 0x10000 then (16, push_bit 16 a) else (0, a));
          (count, a) = (if a < 0x1000000 then (count + 8, push_bit 8 a) else (count, a))
      in count + softfloat_countLeadingZeros8 ! unat (drop_bit 24 a))"

definition softfloat_countLeadingZeros64 :: "uns64 \<Rightarrow> nat" where
  "softfloat_countLeadingZeros64 a =
     (let a32 = ucast (drop_bit 32 a) :: uns32;
          (count, a32) = (if a32 = 0 then (32, ucast a) else (0, a32));
          (count, a32) = (if a32 < 0x10000 then (count + 16, push_bit 16 a32) else (count, a32));
          (count, a32) = (if a32 < 0x1000000 then (count + 8, push_bit 8 a32) else (count, a32))
      in count + softfloat_countLeadingZeros8 ! unat (drop_bit 24 a32))"

section \<open>Rounding to an integer\<close>

abbreviation (input) ui32_fromPosOverflow :: uns32 where "ui32_fromPosOverflow \<equiv> 0xFFFFFFFF"
abbreviation (input) ui32_fromNegOverflow :: uns32 where "ui32_fromNegOverflow \<equiv> 0"
abbreviation (input) ui32_fromNaN :: uns32 where "ui32_fromNaN \<equiv> 0xFFFFFFFF"
abbreviation (input) i32_fromPosOverflow :: uns32 where "i32_fromPosOverflow \<equiv> 0x7FFFFFFF"
abbreviation (input) i32_fromNegOverflow :: uns32 where "i32_fromNegOverflow \<equiv> - 0x7FFFFFFF - 1"
abbreviation (input) i32_fromNaN :: uns32 where "i32_fromNaN \<equiv> 0x7FFFFFFF"
abbreviation (input) ui64_fromPosOverflow :: uns64 where "ui64_fromPosOverflow \<equiv> 0xFFFFFFFFFFFFFFFF"
abbreviation (input) ui64_fromNegOverflow :: uns64 where "ui64_fromNegOverflow \<equiv> 0"
abbreviation (input) ui64_fromNaN :: uns64 where "ui64_fromNaN \<equiv> 0xFFFFFFFFFFFFFFFF"
abbreviation (input) i64_fromPosOverflow :: uns64 where "i64_fromPosOverflow \<equiv> 0x7FFFFFFFFFFFFFFF"
abbreviation (input) i64_fromNegOverflow :: uns64 where "i64_fromNegOverflow \<equiv> - 0x7FFFFFFFFFFFFFFF - 1"
abbreviation (input) i64_fromNaN :: uns64 where "i64_fromNaN \<equiv> 0x7FFFFFFFFFFFFFFF"

definition softfloat_roundToI32 ::
    "bool \<Rightarrow> uns64 \<Rightarrow> riscvRMDesc \<Rightarrow> bool \<Rightarrow> softfloat \<Rightarrow> uns32 \<times> softfloat" where
  "softfloat_roundToI32 sign sig roundingMode exact st =
     (let invalid = ((if sign then i32_fromNegOverflow else i32_fromPosOverflow),
            softfloat_raiseFlags softfloat_flag_invalid st);
          roundIncrement =
            (if roundingMode \<noteq> softfloat_round_near_maxMag \<and> roundingMode \<noteq> softfloat_round_near_even
             then if (if sign then roundingMode = softfloat_round_min else roundingMode = softfloat_round_max)
                  then 0xFFF else 0
             else 0x800);
          roundBits = sig AND 0xFFF;
          sig = sig + roundIncrement
      in if sig AND 0xFFFFF00000000000 \<noteq> 0 then invalid
         else let sig32 = ucast (drop_bit 12 sig) :: uns32;
                  sig32 = (if roundBits = 0x800 \<and> roundingMode = softfloat_round_near_even
                           then sig32 AND NOT 1 else sig32);
                  z = (if sign then - sig32 else sig32)
              in if z \<noteq> 0 \<and> (sint z < 0) \<noteq> sign then invalid
                 else (z, if roundBits \<noteq> 0 \<and> exact
                          then softfloat_raiseFlags softfloat_flag_inexact st else st))"

definition softfloat_roundToUI32 ::
    "bool \<Rightarrow> uns64 \<Rightarrow> riscvRMDesc \<Rightarrow> bool \<Rightarrow> softfloat \<Rightarrow> uns32 \<times> softfloat" where
  "softfloat_roundToUI32 sign sig roundingMode exact st =
     (let invalid = ((if sign then ui32_fromNegOverflow else ui32_fromPosOverflow),
            softfloat_raiseFlags softfloat_flag_invalid st);
          near = (roundingMode = softfloat_round_near_maxMag \<or> roundingMode = softfloat_round_near_even)
      in if \<not> near \<and> sign \<and> sig = 0 then (0, st)
         else if \<not> near \<and> sign \<and> roundingMode = softfloat_round_min then invalid
         else let roundIncrement =
                    (if near then 0x800
                     else if \<not> sign \<and> roundingMode = softfloat_round_max then 0xFFF else 0);
                  roundBits = sig AND 0xFFF;
                  sig = sig + roundIncrement
              in if sig AND 0xFFFFF00000000000 \<noteq> 0 then invalid
                 else let z = ucast (drop_bit 12 sig) :: uns32;
                          z = (if roundBits = 0x800 \<and> roundingMode = softfloat_round_near_even
                               then z AND NOT 1 else z)
                      in if sign \<and> z \<noteq> 0 then invalid
                         else (z, if roundBits \<noteq> 0 \<and> exact
                                  then softfloat_raiseFlags softfloat_flag_inexact st else st))"

text \<open>The increment that both 64-bit routines reach by a jump; \<open>None\<close> is the jump to
  \<^verbatim>\<open>invalid\<close> when it wraps.\<close>

definition round_increment64 :: "uns64 \<Rightarrow> uns64 \<Rightarrow> riscvRMDesc \<Rightarrow> uns64 option" where
  "round_increment64 sig sigExtra roundingMode =
     (let sig = sig + 1
      in if sig = 0 then None
         else Some (if sigExtra = 0x8000000000000000 \<and> roundingMode = softfloat_round_near_even
                    then sig AND NOT 1 else sig))"

definition softfloat_roundToI64 ::
    "bool \<Rightarrow> uns64 \<Rightarrow> uns64 \<Rightarrow> riscvRMDesc \<Rightarrow> bool \<Rightarrow> softfloat \<Rightarrow> uns64 \<times> softfloat" where
  "softfloat_roundToI64 sign sig sigExtra roundingMode exact st =
     (let invalid = ((if sign then i64_fromNegOverflow else i64_fromPosOverflow),
            softfloat_raiseFlags softfloat_flag_invalid st);
          incremented =
            (if roundingMode = softfloat_round_near_maxMag \<or> roundingMode = softfloat_round_near_even
             then if 0x8000000000000000 \<le> sigExtra then round_increment64 sig sigExtra roundingMode
                  else Some sig
             else if sigExtra \<noteq> 0 \<and>
                 (if sign then roundingMode = softfloat_round_min else roundingMode = softfloat_round_max)
             then round_increment64 sig sigExtra roundingMode
             else Some sig)
      in case incremented of
           None \<Rightarrow> invalid
         | Some sig \<Rightarrow>
             let z = (if sign then - sig else sig)
             in if z \<noteq> 0 \<and> (sint z < 0) \<noteq> sign then invalid
                else (z, if sigExtra \<noteq> 0 \<and> exact
                         then softfloat_raiseFlags softfloat_flag_inexact st else st))"

definition softfloat_roundToUI64 ::
    "bool \<Rightarrow> uns64 \<Rightarrow> uns64 \<Rightarrow> riscvRMDesc \<Rightarrow> bool \<Rightarrow> softfloat \<Rightarrow> uns64 \<times> softfloat" where
  "softfloat_roundToUI64 sign sig sigExtra roundingMode exact st =
     (let invalid = ((if sign then ui64_fromNegOverflow else ui64_fromPosOverflow),
            softfloat_raiseFlags softfloat_flag_invalid st);
          near = (roundingMode = softfloat_round_near_maxMag \<or> roundingMode = softfloat_round_near_even)
      in if \<not> near \<and> sign \<and> sig OR sigExtra = 0 then (0, st)
         else if \<not> near \<and> sign \<and> roundingMode = softfloat_round_min then invalid
         else let incremented =
                    (if near
                     then if 0x8000000000000000 \<le> sigExtra then round_increment64 sig sigExtra roundingMode
                          else Some sig
                     else if \<not> sign \<and> roundingMode = softfloat_round_max \<and> sigExtra \<noteq> 0
                     then round_increment64 sig sigExtra roundingMode
                     else Some sig)
              in case incremented of
                   None \<Rightarrow> invalid
                 | Some sig \<Rightarrow>
                     if sign \<and> sig \<noteq> 0 then invalid
                     else (sig, if sigExtra \<noteq> 0 \<and> exact
                                then softfloat_raiseFlags softfloat_flag_inexact st else st))"

section \<open>Conversion of a floating-point number to an integer\<close>

definition f32_to_i32 ::
    "float32_t \<Rightarrow> riscvRMDesc \<Rightarrow> bool \<Rightarrow> softfloat \<Rightarrow> uns32 \<times> softfloat" where
  "f32_to_i32 uiA roundingMode exact st =
     (let sign = signF32UI uiA; exp = expF32UI uiA; sig = fracF32UI uiA;
          sign = (if exp = 0xFF \<and> sig \<noteq> 0 then False else sign);
          sig = (if exp \<noteq> 0 then sig OR 0x00800000 else sig);
          sig64 = push_bit 32 (ucast sig) :: uns64;
          shiftDist = 0xAA - exp;
          sig64 = (if 0 < shiftDist then softfloat_shiftRightJam64 sig64 (nat shiftDist) else sig64)
      in softfloat_roundToI32 sign sig64 roundingMode exact st)"

definition f32_to_ui32 ::
    "float32_t \<Rightarrow> riscvRMDesc \<Rightarrow> bool \<Rightarrow> softfloat \<Rightarrow> uns32 \<times> softfloat" where
  "f32_to_ui32 uiA roundingMode exact st =
     (let sign = signF32UI uiA; exp = expF32UI uiA; sig = fracF32UI uiA;
          sign = (if exp = 0xFF \<and> sig \<noteq> 0 then False else sign);
          sig = (if exp \<noteq> 0 then sig OR 0x00800000 else sig);
          sig64 = push_bit 32 (ucast sig) :: uns64;
          shiftDist = 0xAA - exp;
          sig64 = (if 0 < shiftDist then softfloat_shiftRightJam64 sig64 (nat shiftDist) else sig64)
      in softfloat_roundToUI32 sign sig64 roundingMode exact st)"

definition f32_to_i64 ::
    "float32_t \<Rightarrow> riscvRMDesc \<Rightarrow> bool \<Rightarrow> softfloat \<Rightarrow> uns64 \<times> softfloat" where
  "f32_to_i64 uiA roundingMode exact st =
     (let sign = signF32UI uiA; exp = expF32UI uiA; sig = fracF32UI uiA;
          shiftDist = 0xBE - exp
      in if shiftDist < 0
         then ((if exp = 0xFF \<and> sig \<noteq> 0 then i64_fromNaN
                else if sign then i64_fromNegOverflow else i64_fromPosOverflow),
               softfloat_raiseFlags softfloat_flag_invalid st)
         else let sig = (if exp \<noteq> 0 then sig OR 0x00800000 else sig);
                  sig64 = push_bit 40 (ucast sig) :: uns64;
                  sig64Extra = (if shiftDist \<noteq> 0 then softfloat_shiftRightJam64Extra sig64 0 (nat shiftDist)
                                else \<lparr>ue_extra = 0, ue_v = sig64\<rparr>)
              in softfloat_roundToI64 sign (ue_v sig64Extra) (ue_extra sig64Extra) roundingMode exact st)"

definition f32_to_ui64 ::
    "float32_t \<Rightarrow> riscvRMDesc \<Rightarrow> bool \<Rightarrow> softfloat \<Rightarrow> uns64 \<times> softfloat" where
  "f32_to_ui64 uiA roundingMode exact st =
     (let sign = signF32UI uiA; exp = expF32UI uiA; sig = fracF32UI uiA;
          shiftDist = 0xBE - exp
      in if shiftDist < 0
         then ((if exp = 0xFF \<and> sig \<noteq> 0 then ui64_fromNaN
                else if sign then ui64_fromNegOverflow else ui64_fromPosOverflow),
               softfloat_raiseFlags softfloat_flag_invalid st)
         else let sig = (if exp \<noteq> 0 then sig OR 0x00800000 else sig);
                  sig64 = push_bit 40 (ucast sig) :: uns64;
                  sig64Extra = (if shiftDist \<noteq> 0 then softfloat_shiftRightJam64Extra sig64 0 (nat shiftDist)
                                else \<lparr>ue_extra = 0, ue_v = sig64\<rparr>)
              in softfloat_roundToUI64 sign (ue_v sig64Extra) (ue_extra sig64Extra) roundingMode exact st)"

definition f64_to_i32 ::
    "float64_t \<Rightarrow> riscvRMDesc \<Rightarrow> bool \<Rightarrow> softfloat \<Rightarrow> uns32 \<times> softfloat" where
  "f64_to_i32 uiA roundingMode exact st =
     (let sign = signF64UI uiA; exp = expF64UI uiA; sig = fracF64UI uiA;
          sign = (if exp = 0x7FF \<and> sig \<noteq> 0 then False else sign);
          sig = (if exp \<noteq> 0 then sig OR 0x0010000000000000 else sig);
          shiftDist = 0x427 - exp;
          sig = (if 0 < shiftDist then softfloat_shiftRightJam64 sig (nat shiftDist) else sig)
      in softfloat_roundToI32 sign sig roundingMode exact st)"

definition f64_to_ui32 ::
    "float64_t \<Rightarrow> riscvRMDesc \<Rightarrow> bool \<Rightarrow> softfloat \<Rightarrow> uns32 \<times> softfloat" where
  "f64_to_ui32 uiA roundingMode exact st =
     (let sign = signF64UI uiA; exp = expF64UI uiA; sig = fracF64UI uiA;
          sign = (if exp = 0x7FF \<and> sig \<noteq> 0 then False else sign);
          sig = (if exp \<noteq> 0 then sig OR 0x0010000000000000 else sig);
          shiftDist = 0x427 - exp;
          sig = (if 0 < shiftDist then softfloat_shiftRightJam64 sig (nat shiftDist) else sig)
      in softfloat_roundToUI32 sign sig roundingMode exact st)"

definition f64_to_i64 ::
    "float64_t \<Rightarrow> riscvRMDesc \<Rightarrow> bool \<Rightarrow> softfloat \<Rightarrow> uns64 \<times> softfloat" where
  "f64_to_i64 uiA roundingMode exact st =
     (let sign = signF64UI uiA; exp = expF64UI uiA; sig = fracF64UI uiA;
          sig = (if exp \<noteq> 0 then sig OR 0x0010000000000000 else sig);
          shiftDist = 0x433 - exp
      in if shiftDist \<le> 0 \<and> shiftDist < - 11
         then ((if exp = 0x7FF \<and> fracF64UI uiA \<noteq> 0 then i64_fromNaN
                else if sign then i64_fromNegOverflow else i64_fromPosOverflow),
               softfloat_raiseFlags softfloat_flag_invalid st)
         else let sigExtra = (if shiftDist \<le> 0
                then \<lparr>ue_extra = 0, ue_v = push_bit (nat (- shiftDist)) sig\<rparr>
                else softfloat_shiftRightJam64Extra sig 0 (nat shiftDist))
              in softfloat_roundToI64 sign (ue_v sigExtra) (ue_extra sigExtra) roundingMode exact st)"

definition f64_to_ui64 ::
    "float64_t \<Rightarrow> riscvRMDesc \<Rightarrow> bool \<Rightarrow> softfloat \<Rightarrow> uns64 \<times> softfloat" where
  "f64_to_ui64 uiA roundingMode exact st =
     (let sign = signF64UI uiA; exp = expF64UI uiA; sig = fracF64UI uiA;
          sig = (if exp \<noteq> 0 then sig OR 0x0010000000000000 else sig);
          shiftDist = 0x433 - exp
      in if shiftDist \<le> 0 \<and> shiftDist < - 11
         then ((if exp = 0x7FF \<and> fracF64UI uiA \<noteq> 0 then ui64_fromNaN
                else if sign then ui64_fromNegOverflow else ui64_fromPosOverflow),
               softfloat_raiseFlags softfloat_flag_invalid st)
         else let sigExtra = (if shiftDist \<le> 0
                then \<lparr>ue_extra = 0, ue_v = push_bit (nat (- shiftDist)) sig\<rparr>
                else softfloat_shiftRightJam64Extra sig 0 (nat shiftDist))
              in softfloat_roundToUI64 sign (ue_v sigExtra) (ue_extra sigExtra) roundingMode exact st)"

section \<open>Rounding and packing\<close>

definition softfloat_roundPackToF32 :: "bool \<Rightarrow> int \<Rightarrow> uns32 \<Rightarrow> softfloat \<Rightarrow> float32_t \<times> softfloat" where
  "softfloat_roundPackToF32 sign exp sig st =
     (let roundingMode = softfloat_roundingMode st;
          roundNearEven = (roundingMode = softfloat_round_near_even);
          roundIncrement =
            (if \<not> roundNearEven \<and> roundingMode \<noteq> softfloat_round_near_maxMag
             then if roundingMode = (if sign then softfloat_round_min else softfloat_round_max) then 0x7F else 0
             else 0x40);
          roundBits = sig AND 0x7F
      in if 0xFD \<le> exp mod 2 ^ 32 \<and> \<not> exp < 0 \<and> (0xFD < exp \<or> 0x80000000 \<le> sig + roundIncrement)
         then (packToF32UI sign 0xFF 0 - of_bool (roundIncrement = 0),
               softfloat_raiseFlags (softfloat_flag_overflow OR softfloat_flag_inexact) st)
         else
           let (exp, sig, roundBits, st) =
                 (if 0xFD \<le> exp mod 2 ^ 32 \<and> exp < 0
                  then let isTiny = (softfloat_detectTininess st = softfloat_tininess_beforeRounding \<or>
                              exp < - 1 \<or> sig + roundIncrement < 0x80000000);
                           sig = softfloat_shiftRightJam32 sig (nat (- exp));
                           roundBits = sig AND 0x7F
                       in (0, sig, roundBits,
                           if isTiny \<and> roundBits \<noteq> 0
                           then softfloat_raiseFlags softfloat_flag_underflow st else st)
                  else (exp, sig, roundBits, st));
               sig = drop_bit 7 (sig + roundIncrement);
               st = (if roundBits \<noteq> 0 then softfloat_raiseFlags softfloat_flag_inexact st else st);
               sig = sig AND NOT (of_bool (roundBits XOR 0x40 = 0 \<and> roundNearEven));
               exp = (if sig = 0 then 0 else exp)
           in (packToF32UI sign exp sig, st))"

definition softfloat_roundPackToF64 :: "bool \<Rightarrow> int \<Rightarrow> uns64 \<Rightarrow> softfloat \<Rightarrow> float64_t \<times> softfloat" where
  "softfloat_roundPackToF64 sign exp sig st =
     (let roundingMode = softfloat_roundingMode st;
          roundNearEven = (roundingMode = softfloat_round_near_even);
          roundIncrement =
            (if \<not> roundNearEven \<and> roundingMode \<noteq> softfloat_round_near_maxMag
             then if roundingMode = (if sign then softfloat_round_min else softfloat_round_max) then 0x3FF else 0
             else 0x200);
          roundBits = sig AND 0x3FF
      in if 0x7FD \<le> exp mod 2 ^ 16 \<and> \<not> exp < 0 \<and> (0x7FD < exp \<or> 0x8000000000000000 \<le> sig + roundIncrement)
         then (packToF64UI sign 0x7FF 0 - of_bool (roundIncrement = 0),
               softfloat_raiseFlags (softfloat_flag_overflow OR softfloat_flag_inexact) st)
         else
           let (exp, sig, roundBits, st) =
                 (if 0x7FD \<le> exp mod 2 ^ 16 \<and> exp < 0
                  then let isTiny = (softfloat_detectTininess st = softfloat_tininess_beforeRounding \<or>
                              exp < - 1 \<or> sig + roundIncrement < 0x8000000000000000);
                           sig = softfloat_shiftRightJam64 sig (nat (- exp));
                           roundBits = sig AND 0x3FF
                       in (0, sig, roundBits,
                           if isTiny \<and> roundBits \<noteq> 0
                           then softfloat_raiseFlags softfloat_flag_underflow st else st)
                  else (exp, sig, roundBits, st));
               sig = drop_bit 10 (sig + roundIncrement);
               st = (if roundBits \<noteq> 0 then softfloat_raiseFlags softfloat_flag_inexact st else st);
               sig = sig AND NOT (of_bool (roundBits XOR 0x200 = 0 \<and> roundNearEven));
               exp = (if sig = 0 then 0 else exp)
           in (packToF64UI sign exp sig, st))"

definition softfloat_normRoundPackToF32 :: "bool \<Rightarrow> int \<Rightarrow> uns32 \<Rightarrow> softfloat \<Rightarrow> float32_t \<times> softfloat" where
  "softfloat_normRoundPackToF32 sign exp sig st =
     (let shiftDist = int (softfloat_countLeadingZeros32 sig) - 1;
          exp = exp - shiftDist
      in if 7 \<le> shiftDist \<and> exp mod 2 ^ 32 < 0xFD
         then (packToF32UI sign (if sig \<noteq> 0 then exp else 0) (push_bit (nat (shiftDist - 7)) sig), st)
         else softfloat_roundPackToF32 sign exp (push_bit (nat shiftDist) sig) st)"

definition softfloat_normRoundPackToF64 :: "bool \<Rightarrow> int \<Rightarrow> uns64 \<Rightarrow> softfloat \<Rightarrow> float64_t \<times> softfloat" where
  "softfloat_normRoundPackToF64 sign exp sig st =
     (let shiftDist = int (softfloat_countLeadingZeros64 sig) - 1;
          exp = exp - shiftDist
      in if 10 \<le> shiftDist \<and> exp mod 2 ^ 32 < 0x7FD
         then (packToF64UI sign (if sig \<noteq> 0 then exp else 0) (push_bit (nat (shiftDist - 10)) sig), st)
         else softfloat_roundPackToF64 sign exp (push_bit (nat shiftDist) sig) st)"

section \<open>Conversion to a floating-point number\<close>

definition f64_to_f32 :: "float64_t \<Rightarrow> softfloat \<Rightarrow> float32_t \<times> softfloat" where
  "f64_to_f32 uiA st =
     (let sign = signF64UI uiA; exp = expF64UI uiA; frac = fracF64UI uiA
      in if exp = 0x7FF
         then if frac \<noteq> 0 then (defaultNaNF32UI, softfloat_f64UIToCommonNaN uiA st)
              else (packToF32UI sign 0xFF 0, st)
         else let frac32 = ucast (softfloat_shortShiftRightJam64 frac 22) :: uns32
              in if exp = 0 \<and> frac32 = 0 then (packToF32UI sign 0 0, st)
                 else softfloat_roundPackToF32 sign (exp - 0x381) (frac32 OR 0x40000000) st)"

definition i32_to_f32 :: "uns32 \<Rightarrow> softfloat \<Rightarrow> float32_t \<times> softfloat" where
  "i32_to_f32 a st =
     (let sign = sint a < 0
      in if a AND 0x7FFFFFFF = 0 then ((if sign then packToF32UI True 0x9E 0 else 0), st)
         else let absA = (if sign then - a else a)
              in softfloat_normRoundPackToF32 sign 0x9C absA st)"

definition ui32_to_f32 :: "uns32 \<Rightarrow> softfloat \<Rightarrow> float32_t \<times> softfloat" where
  "ui32_to_f32 a st =
     (if a = 0 then (0, st)
      else if a AND 0x80000000 \<noteq> 0
      then softfloat_roundPackToF32 False 0x9D (drop_bit 1 a OR (a AND 1)) st
      else softfloat_normRoundPackToF32 False 0x9C a st)"

definition i64_to_f32 :: "uns64 \<Rightarrow> softfloat \<Rightarrow> float32_t \<times> softfloat" where
  "i64_to_f32 a st =
     (let sign = sint a < 0;
          absA = (if sign then - a else a);
          shiftDist = int (softfloat_countLeadingZeros64 absA) - 40
      in if 0 \<le> shiftDist
         then ((if a \<noteq> 0 then packToF32UI sign (0x95 - shiftDist) (push_bit (nat shiftDist) (ucast absA)) else 0), st)
         else let shiftDist = shiftDist + 7;
                  sig = (if shiftDist < 0 then ucast (softfloat_shortShiftRightJam64 absA (nat (- shiftDist)))
                         else push_bit (nat shiftDist) (ucast absA)) :: uns32
              in softfloat_roundPackToF32 sign (0x9C - shiftDist) sig st)"

definition ui64_to_f32 :: "uns64 \<Rightarrow> softfloat \<Rightarrow> float32_t \<times> softfloat" where
  "ui64_to_f32 a st =
     (let shiftDist = int (softfloat_countLeadingZeros64 a) - 40
      in if 0 \<le> shiftDist
         then ((if a \<noteq> 0 then packToF32UI False (0x95 - shiftDist) (push_bit (nat shiftDist) (ucast a)) else 0), st)
         else let shiftDist = shiftDist + 7;
                  sig = (if shiftDist < 0 then ucast (softfloat_shortShiftRightJam64 a (nat (- shiftDist)))
                         else push_bit (nat shiftDist) (ucast a)) :: uns32
              in softfloat_roundPackToF32 False (0x9C - shiftDist) sig st)"

definition i64_to_f64 :: "uns64 \<Rightarrow> softfloat \<Rightarrow> float64_t \<times> softfloat" where
  "i64_to_f64 a st =
     (let sign = sint a < 0
      in if a AND 0x7FFFFFFFFFFFFFFF = 0 then ((if sign then packToF64UI True 0x43E 0 else 0), st)
         else let absA = (if sign then - a else a)
              in softfloat_normRoundPackToF64 sign 0x43C absA st)"

definition ui64_to_f64 :: "uns64 \<Rightarrow> softfloat \<Rightarrow> float64_t \<times> softfloat" where
  "ui64_to_f64 a st =
     (if a = 0 then (0, st)
      else if a AND 0x8000000000000000 \<noteq> 0
      then softfloat_roundPackToF64 False 0x43D (softfloat_shortShiftRightJam64 a 1) st
      else softfloat_normRoundPackToF64 False 0x43C a st)"

section \<open>Addition, subtraction and multiplication\<close>

definition softfloat_addMagsF32 :: "uns32 \<Rightarrow> uns32 \<Rightarrow> softfloat \<Rightarrow> float32_t \<times> softfloat" where
  "softfloat_addMagsF32 uiA uiB st =
     (let expA = expF32UI uiA; sigA = fracF32UI uiA; expB = expF32UI uiB; sigB = fracF32UI uiB;
          expDiff = expA - expB; signZ = signF32UI uiA
      in if expDiff = 0
         then if expA = 0 then (uiA + sigB, st)
              else if expA = 0xFF
              then if sigA OR sigB \<noteq> 0 then softfloat_propagateNaNF32UI uiA uiB st else (uiA, st)
              else let expZ = expA; sigZ = 0x01000000 + sigA + sigB
                   in if sigZ AND 1 = 0 \<and> expZ < 0xFE then (packToF32UI signZ expZ (drop_bit 1 sigZ), st)
                      else softfloat_roundPackToF32 signZ expZ (push_bit 6 sigZ) st
         else
           let sigA = push_bit 6 sigA; sigB = push_bit 6 sigB
           in if expDiff < 0 \<and> expB = 0xFF
              then if sigB \<noteq> 0 then softfloat_propagateNaNF32UI uiA uiB st else (packToF32UI signZ 0xFF 0, st)
              else if \<not> expDiff < 0 \<and> expA = 0xFF
              then if sigA \<noteq> 0 then softfloat_propagateNaNF32UI uiA uiB st else (uiA, st)
              else let (expZ, sigA, sigB) =
                         (if expDiff < 0
                          then (expB, softfloat_shiftRightJam32 (sigA + (if expA \<noteq> 0 then 0x20000000 else sigA))
                                        (nat (- expDiff)), sigB)
                          else (expA, sigA, softfloat_shiftRightJam32 (sigB + (if expB \<noteq> 0 then 0x20000000 else sigB))
                                        (nat expDiff)));
                       sigZ = 0x20000000 + sigA + sigB;
                       (expZ, sigZ) = (if sigZ < 0x40000000 then (expZ - 1, push_bit 1 sigZ) else (expZ, sigZ))
                   in softfloat_roundPackToF32 signZ expZ sigZ st)"

definition softfloat_subMagsF32 :: "uns32 \<Rightarrow> uns32 \<Rightarrow> softfloat \<Rightarrow> float32_t \<times> softfloat" where
  "softfloat_subMagsF32 uiA uiB st =
     (let expA = expF32UI uiA; sigA = fracF32UI uiA; expB = expF32UI uiB; sigB = fracF32UI uiB;
          expDiff = expA - expB; signZ = signF32UI uiA
      in if expDiff = 0
         then if expA = 0xFF
              then if sigA OR sigB \<noteq> 0 then softfloat_propagateNaNF32UI uiA uiB st
                   else (defaultNaNF32UI, softfloat_raiseFlags softfloat_flag_invalid st)
              else let sigDiff = uint sigA - uint sigB
                   in if sigDiff = 0
                      then (packToF32UI (softfloat_roundingMode st = softfloat_round_min) 0 0, st)
                      else let expA = (if expA \<noteq> 0 then expA - 1 else expA);
                               (signZ, sigDiff) = (if sigDiff < 0 then (\<not> signZ, - sigDiff) else (signZ, sigDiff));
                               shiftDist = int (softfloat_countLeadingZeros32 (word_of_int sigDiff)) - 8;
                               expZ = expA - shiftDist;
                               (shiftDist, expZ) = (if expZ < 0 then (expA, 0) else (shiftDist, expZ))
                           in (packToF32UI signZ expZ (push_bit (nat shiftDist) (word_of_int sigDiff)), st)
         else
           let sigA = push_bit 7 sigA; sigB = push_bit 7 sigB
           in if expDiff < 0
              then if expB = 0xFF
                   then if sigB \<noteq> 0 then softfloat_propagateNaNF32UI uiA uiB st
                        else (packToF32UI (\<not> signZ) 0xFF 0, st)
                   else let expZ = expB - 1; sigX = sigB OR 0x40000000;
                            sigY = sigA + (if expA \<noteq> 0 then 0x40000000 else sigA)
                        in softfloat_normRoundPackToF32 (\<not> signZ) expZ
                             (sigX - softfloat_shiftRightJam32 sigY (nat (- expDiff))) st
              else if expA = 0xFF
                   then if sigA \<noteq> 0 then softfloat_propagateNaNF32UI uiA uiB st else (uiA, st)
                   else let expZ = expA - 1; sigX = sigA OR 0x40000000;
                            sigY = sigB + (if expB \<noteq> 0 then 0x40000000 else sigB)
                        in softfloat_normRoundPackToF32 signZ expZ
                             (sigX - softfloat_shiftRightJam32 sigY (nat expDiff)) st)"

definition f32_add :: "float32_t \<Rightarrow> float32_t \<Rightarrow> softfloat \<Rightarrow> float32_t \<times> softfloat" where
  "f32_add uiA uiB st =
     (if signF32UI (uiA XOR uiB) then softfloat_subMagsF32 uiA uiB st else softfloat_addMagsF32 uiA uiB st)"

definition f32_sub :: "float32_t \<Rightarrow> float32_t \<Rightarrow> softfloat \<Rightarrow> float32_t \<times> softfloat" where
  "f32_sub uiA uiB st =
     (if signF32UI (uiA XOR uiB) then softfloat_addMagsF32 uiA uiB st else softfloat_subMagsF32 uiA uiB st)"

record exp16_sig32 =
  es_exp :: int
  es_sig :: uns32

definition softfloat_normSubnormalF32Sig :: "uns32 \<Rightarrow> exp16_sig32" where
  "softfloat_normSubnormalF32Sig sig =
     (let shiftDist = int (softfloat_countLeadingZeros32 sig) - 8
      in \<lparr>es_exp = 1 - shiftDist, es_sig = push_bit (nat shiftDist) sig\<rparr>)"

definition f32_mul :: "float32_t \<Rightarrow> float32_t \<Rightarrow> softfloat \<Rightarrow> float32_t \<times> softfloat" where
  "f32_mul uiA uiB st =
     (let signA = signF32UI uiA; expA = expF32UI uiA; sigA = fracF32UI uiA;
          signB = signF32UI uiB; expB = expF32UI uiB; sigB = fracF32UI uiB;
          signZ = (signA \<noteq> signB);
          infArg = (\<lambda>magBits :: bool. if \<not> magBits then (defaultNaNF32UI, softfloat_raiseFlags softfloat_flag_invalid st)
                              else (packToF32UI signZ 0xFF 0, st))
      in if expA = 0xFF
         then if sigA \<noteq> 0 \<or> expB = 0xFF \<and> sigB \<noteq> 0 then softfloat_propagateNaNF32UI uiA uiB st
              else infArg (expB \<noteq> 0 \<or> sigB \<noteq> 0)
         else if expB = 0xFF
         then if sigB \<noteq> 0 then softfloat_propagateNaNF32UI uiA uiB st
              else infArg (expA \<noteq> 0 \<or> sigA \<noteq> 0)
         else if expA = 0 \<and> sigA = 0 \<or> expB = 0 \<and> sigB = 0 then (packToF32UI signZ 0 0, st)
         else let normA = (if expA = 0 then softfloat_normSubnormalF32Sig sigA
                           else \<lparr>es_exp = expA, es_sig = sigA\<rparr>);
                  normB = (if expB = 0 then softfloat_normSubnormalF32Sig sigB
                           else \<lparr>es_exp = expB, es_sig = sigB\<rparr>);
                  expZ = es_exp normA + es_exp normB - 0x7F;
                  sigA = push_bit 7 (es_sig normA OR 0x00800000);
                  sigB = push_bit 8 (es_sig normB OR 0x00800000);
                  sigZ = ucast (softfloat_shortShiftRightJam64 (ucast sigA * ucast sigB) 32) :: uns32;
                  (expZ, sigZ) = (if sigZ < 0x40000000 then (expZ - 1, push_bit 1 sigZ) else (expZ, sigZ))
              in softfloat_roundPackToF32 signZ expZ sigZ st)"

section \<open>Callbacks of the simulator\<close>

text \<open>The rounding modes of the VMI interface.\<close>

datatype vmiFPRC = vmi_FPR_NEAREST | vmi_FPR_ZERO | vmi_FPR_NEG_INF | vmi_FPR_POS_INF | vmi_FPR_AWAY | vmi_FPR_CURRENT

text \<open>\<open>None\<close> is a read past the end of \<^verbatim>\<open>mapRM\<close>, for a reserved mode in \<^verbatim>\<open>fcsr\<close>.\<close>

definition beforeFPInt :: "riscv \<Rightarrow> riscvRMDesc \<Rightarrow> softfloat \<Rightarrow> softfloat option" where
  "beforeFPInt s rm st =
     (let mapRM = [RV_RM_RTE, RV_RM_RTZ, RV_RM_RDN, RV_RM_RUP, RV_RM_RMM];
          frm = unat (RD_CSR_FIELD s fcsr fcsr_frm);
          rm = (if rm = RV_RM_CURRENT then if frm < length mapRM then Some (mapRM ! frm) else None else Some rm)
      in map_option (\<lambda>rm. st\<lparr>softfloat_roundingMode := rm, softfloat_exceptionFlags := 0\<rparr>) rm)"

definition beforeFP :: "riscv \<Rightarrow> softfloat \<Rightarrow> softfloat option" where
  "beforeFP s st = beforeFPInt s (fpActiveRM s) st"

fun mapRC :: "vmiFPRC \<Rightarrow> riscvRMDesc" where
  "mapRC vmi_FPR_NEAREST = RV_RM_RTE"
| "mapRC vmi_FPR_ZERO = RV_RM_RTZ"
| "mapRC vmi_FPR_NEG_INF = RV_RM_RDN"
| "mapRC vmi_FPR_POS_INF = RV_RM_RUP"
| "mapRC vmi_FPR_AWAY = RV_RM_RMM"
| "mapRC vmi_FPR_CURRENT = RV_RM_CURRENT"

definition beforeFPCVT :: "riscv \<Rightarrow> vmiFPRC \<Rightarrow> softfloat \<Rightarrow> softfloat option" where
  "beforeFPCVT s rc st = beforeFPInt s (mapRC rc) st"

definition afterFP :: "uns8 \<Rightarrow> softfloat \<Rightarrow> uns8" where
  "afterFP setFlags st = setFlags OR softfloat_exceptionFlags st"

text \<open>An operation between the two hooks: its result, the flags of the caller and the final state.\<close>

definition fp_hooks :: "(softfloat \<Rightarrow> 'a \<times> softfloat) \<Rightarrow> uns8 \<Rightarrow> softfloat option \<Rightarrow> ('a \<times> uns8 \<times> softfloat) option" where
  "fp_hooks f setFlags before =
     map_option (\<lambda>st. let (result, st) = f st in (result, afterFP setFlags st, st)) before"

definition riscvFADD32 :: "riscv \<Rightarrow> uns32 \<Rightarrow> uns32 \<Rightarrow> uns8 \<Rightarrow> softfloat \<Rightarrow> (uns32 \<times> uns8 \<times> softfloat) option" where
  "riscvFADD32 s a b setFlags st = fp_hooks (f32_add a b) setFlags (beforeFP s st)"

definition riscvFSUB32 :: "riscv \<Rightarrow> uns32 \<Rightarrow> uns32 \<Rightarrow> uns8 \<Rightarrow> softfloat \<Rightarrow> (uns32 \<times> uns8 \<times> softfloat) option" where
  "riscvFSUB32 s a b setFlags st = fp_hooks (f32_sub a b) setFlags (beforeFP s st)"

definition riscvFMUL32 :: "riscv \<Rightarrow> uns32 \<Rightarrow> uns32 \<Rightarrow> uns8 \<Rightarrow> softfloat \<Rightarrow> (uns32 \<times> uns8 \<times> softfloat) option" where
  "riscvFMUL32 s a b setFlags st = fp_hooks (f32_mul a b) setFlags (beforeFP s st)"

definition riscvFCVTF32F64 :: "riscv \<Rightarrow> uns64 \<Rightarrow> vmiFPRC \<Rightarrow> uns8 \<Rightarrow> softfloat \<Rightarrow> (uns32 \<times> uns8 \<times> softfloat) option" where
  "riscvFCVTF32F64 s a rc setFlags st = fp_hooks (f64_to_f32 a) setFlags (beforeFPCVT s rc st)"

definition riscvFCVTF32I32 :: "riscv \<Rightarrow> uns32 \<Rightarrow> vmiFPRC \<Rightarrow> uns8 \<Rightarrow> softfloat \<Rightarrow> (uns32 \<times> uns8 \<times> softfloat) option" where
  "riscvFCVTF32I32 s a rc setFlags st = fp_hooks (i32_to_f32 a) setFlags (beforeFPCVT s rc st)"

definition riscvFCVTF32I64 :: "riscv \<Rightarrow> uns64 \<Rightarrow> vmiFPRC \<Rightarrow> uns8 \<Rightarrow> softfloat \<Rightarrow> (uns32 \<times> uns8 \<times> softfloat) option" where
  "riscvFCVTF32I64 s a rc setFlags st = fp_hooks (i64_to_f32 a) setFlags (beforeFPCVT s rc st)"

definition riscvFCVTF32U32 :: "riscv \<Rightarrow> uns32 \<Rightarrow> vmiFPRC \<Rightarrow> uns8 \<Rightarrow> softfloat \<Rightarrow> (uns32 \<times> uns8 \<times> softfloat) option" where
  "riscvFCVTF32U32 s a rc setFlags st = fp_hooks (ui32_to_f32 a) setFlags (beforeFPCVT s rc st)"

definition riscvFCVTF32U64 :: "riscv \<Rightarrow> uns64 \<Rightarrow> vmiFPRC \<Rightarrow> uns8 \<Rightarrow> softfloat \<Rightarrow> (uns32 \<times> uns8 \<times> softfloat) option" where
  "riscvFCVTF32U64 s a rc setFlags st = fp_hooks (ui64_to_f32 a) setFlags (beforeFPCVT s rc st)"

definition riscvFCVTF64I64 :: "riscv \<Rightarrow> uns64 \<Rightarrow> vmiFPRC \<Rightarrow> uns8 \<Rightarrow> softfloat \<Rightarrow> (uns64 \<times> uns8 \<times> softfloat) option" where
  "riscvFCVTF64I64 s a rc setFlags st = fp_hooks (i64_to_f64 a) setFlags (beforeFPCVT s rc st)"

definition riscvFCVTF64U64 :: "riscv \<Rightarrow> uns64 \<Rightarrow> vmiFPRC \<Rightarrow> uns8 \<Rightarrow> softfloat \<Rightarrow> (uns64 \<times> uns8 \<times> softfloat) option" where
  "riscvFCVTF64U64 s a rc setFlags st = fp_hooks (ui64_to_f64 a) setFlags (beforeFPCVT s rc st)"

definition riscvFCVTI32F32 :: "riscv \<Rightarrow> uns32 \<Rightarrow> vmiFPRC \<Rightarrow> uns8 \<Rightarrow> softfloat \<Rightarrow> (uns32 \<times> uns8 \<times> softfloat) option" where
  "riscvFCVTI32F32 s a rc setFlags st =
     fp_hooks (\<lambda>st. f32_to_i32 a (softfloat_roundingMode st) True st) setFlags (beforeFPCVT s rc st)"

definition riscvFCVTI64F32 :: "riscv \<Rightarrow> uns32 \<Rightarrow> vmiFPRC \<Rightarrow> uns8 \<Rightarrow> softfloat \<Rightarrow> (uns64 \<times> uns8 \<times> softfloat) option" where
  "riscvFCVTI64F32 s a rc setFlags st =
     fp_hooks (\<lambda>st. f32_to_i64 a (softfloat_roundingMode st) True st) setFlags (beforeFPCVT s rc st)"

definition riscvFCVTU32F32 :: "riscv \<Rightarrow> uns32 \<Rightarrow> vmiFPRC \<Rightarrow> uns8 \<Rightarrow> softfloat \<Rightarrow> (uns32 \<times> uns8 \<times> softfloat) option" where
  "riscvFCVTU32F32 s a rc setFlags st =
     fp_hooks (\<lambda>st. f32_to_ui32 a (softfloat_roundingMode st) True st) setFlags (beforeFPCVT s rc st)"

definition riscvFCVTU64F32 :: "riscv \<Rightarrow> uns32 \<Rightarrow> vmiFPRC \<Rightarrow> uns8 \<Rightarrow> softfloat \<Rightarrow> (uns64 \<times> uns8 \<times> softfloat) option" where
  "riscvFCVTU64F32 s a rc setFlags st =
     fp_hooks (\<lambda>st. f32_to_ui64 a (softfloat_roundingMode st) True st) setFlags (beforeFPCVT s rc st)"

definition riscvFCVTI32F64 :: "riscv \<Rightarrow> uns64 \<Rightarrow> vmiFPRC \<Rightarrow> uns8 \<Rightarrow> softfloat \<Rightarrow> (uns32 \<times> uns8 \<times> softfloat) option" where
  "riscvFCVTI32F64 s a rc setFlags st =
     fp_hooks (\<lambda>st. f64_to_i32 a (softfloat_roundingMode st) True st) setFlags (beforeFPCVT s rc st)"

definition riscvFCVTI64F64 :: "riscv \<Rightarrow> uns64 \<Rightarrow> vmiFPRC \<Rightarrow> uns8 \<Rightarrow> softfloat \<Rightarrow> (uns64 \<times> uns8 \<times> softfloat) option" where
  "riscvFCVTI64F64 s a rc setFlags st =
     fp_hooks (\<lambda>st. f64_to_i64 a (softfloat_roundingMode st) True st) setFlags (beforeFPCVT s rc st)"

definition riscvFCVTU32F64 :: "riscv \<Rightarrow> uns64 \<Rightarrow> vmiFPRC \<Rightarrow> uns8 \<Rightarrow> softfloat \<Rightarrow> (uns32 \<times> uns8 \<times> softfloat) option" where
  "riscvFCVTU32F64 s a rc setFlags st =
     fp_hooks (\<lambda>st. f64_to_ui32 a (softfloat_roundingMode st) True st) setFlags (beforeFPCVT s rc st)"

definition riscvFCVTU64F64 :: "riscv \<Rightarrow> uns64 \<Rightarrow> vmiFPRC \<Rightarrow> uns8 \<Rightarrow> softfloat \<Rightarrow> (uns64 \<times> uns8 \<times> softfloat) option" where
  "riscvFCVTU64F64 s a rc setFlags st =
     fp_hooks (\<lambda>st. f64_to_ui64 a (softfloat_roundingMode st) True st) setFlags (beforeFPCVT s rc st)"

end
