(* ===== verification/RiscvSoftFloatRound.thy ===== *)
theory RiscvSoftFloatRound
  imports Complex_Main RiscvSoftFloat
begin

text \<open>
  Rounding of real numbers to integers in the five modes of the F extension, and the sticky bit:
  a significand from which bits were shifted out rounds as the exact value does, because no
  rounding decision looks below an even boundary.
\<close>

section \<open>Rounding modes\<close>

definition rm_ok :: "riscvRMDesc \<Rightarrow> bool" where
  "rm_ok m \<longleftrightarrow> m \<in> {RV_RM_RTE, RV_RM_RTZ, RV_RM_RDN, RV_RM_RUP, RV_RM_RMM}"

text \<open>The integer to which a mode rounds a real number: to nearest, ties to even or away from
  zero, towards zero, down or up.\<close>

fun fp_round :: "riscvRMDesc \<Rightarrow> real \<Rightarrow> int" where
  "fp_round RV_RM_RTE x =
     (if x - \<lfloor>x\<rfloor> < 1 / 2 \<or> x - \<lfloor>x\<rfloor> = 1 / 2 \<and> even \<lfloor>x\<rfloor> then \<lfloor>x\<rfloor> else \<lfloor>x\<rfloor> + 1)"
| "fp_round RV_RM_RMM x = (if 0 \<le> x then \<lfloor>x + 1 / 2\<rfloor> else \<lceil>x - 1 / 2\<rceil>)"
| "fp_round RV_RM_RTZ x = (if 0 \<le> x then \<lfloor>x\<rfloor> else \<lceil>x\<rceil>)"
| "fp_round RV_RM_RDN x = \<lfloor>x\<rfloor>"
| "fp_round RV_RM_RUP x = \<lceil>x\<rceil>"
| "fp_round _ x = undefined"

text \<open>The same on a magnitude in units of \<open>2 ^ - k\<close>, as the routines compute it.\<close>

definition round_up :: "riscvRMDesc \<Rightarrow> bool \<Rightarrow> int \<Rightarrow> nat \<Rightarrow> bool" where
  "round_up m sign J k \<longleftrightarrow>
     (let q = J div 2 ^ k; r = J mod 2 ^ k; h = 2 ^ (k - 1) in
      m = RV_RM_RTE \<and> (h < r \<or> h = r \<and> odd q) \<or> m = RV_RM_RMM \<and> h \<le> r \<or>
      m = RV_RM_RDN \<and> sign \<and> 0 < r \<or> m = RV_RM_RUP \<and> \<not> sign \<and> 0 < r)"

definition round_mag :: "riscvRMDesc \<Rightarrow> bool \<Rightarrow> int \<Rightarrow> nat \<Rightarrow> int" where
  "round_mag m sign J k = J div 2 ^ k + of_bool (round_up m sign J k)"

section \<open>Sticky bits\<close>

text \<open>\<open>J\<close> may stand for the real number \<open>X\<close> wherever only multiples of \<open>u\<close> matter.\<close>

definition sticky :: "int \<Rightarrow> real \<Rightarrow> int \<Rightarrow> bool" where
  "sticky u X J \<longleftrightarrow> (\<forall>t. u dvd t \<longrightarrow> (X < of_int t \<longleftrightarrow> J < t) \<and> (X = of_int t \<longleftrightarrow> J = t))"

lemma sticky_dvd:
  assumes "sticky u X J" "u dvd t"
  shows "X < of_int t \<longleftrightarrow> J < t" "X = of_int t \<longleftrightarrow> J = t" "of_int t \<le> X \<longleftrightarrow> t \<le> J" "of_int t < X \<longleftrightarrow> t < J"
proof -
  have "(X < of_int t \<longleftrightarrow> J < t) \<and> (X = of_int t \<longleftrightarrow> J = t)"
    using assms unfolding sticky_def by blast
  then show "X < of_int t \<longleftrightarrow> J < t" "X = of_int t \<longleftrightarrow> J = t" "of_int t \<le> X \<longleftrightarrow> t \<le> J" "of_int t < X \<longleftrightarrow> t < J"
    by linarith+
qed

lemma sticky_mono: "sticky u X J \<Longrightarrow> u dvd v \<Longrightarrow> sticky v X J"
  unfolding sticky_def using dvd_trans by blast

lemma sticky_int: "sticky u (of_int J) J"
  by (simp add: sticky_def)

lemma sticky_small:
  assumes "0 < X" "X < of_int u" "0 < J" "J < u"
  shows "sticky u X J"
  unfolding sticky_def
proof (intro allI impI)
  fix t :: int
  assume "u dvd t"
  then obtain k where t: "t = u * k" ..
  have u: "0 < u" using assms by simp
  have "t \<le> 0 \<or> u \<le> t"
  proof (cases "k \<le> 0")
    case True
    then show ?thesis using u by (simp add: t mult_nonneg_nonpos)
  next
    case False
    then have "u * 1 \<le> u * k" using u by (intro mult_left_mono) auto
    then show ?thesis by (simp add: t)
  qed
  then have "t \<le> 0 \<and> of_int t \<le> (0 :: real) \<or> u \<le> t \<and> of_int u \<le> (of_int t :: real)" by simp
  with assms show "(X < of_int t \<longleftrightarrow> J < t) \<and> (X = of_int t \<longleftrightarrow> J = t)" by auto
qed

definition jam :: "nat \<Rightarrow> nat \<Rightarrow> nat" where
  "jam n d = n div 2 ^ d OR of_bool (n mod 2 ^ d \<noteq> 0)"

lemma sticky_jam: "sticky 2 (real n / 2 ^ d) (int (jam n d))"
proof (cases "n mod 2 ^ d = 0")
  case True
  then have "real n / 2 ^ d = of_int (int (n div 2 ^ d))"
    by (metis mod_0_imp_dvd of_int_of_nat_eq of_nat_power of_nat_numeral real_of_nat_div)
  with True sticky_int [of 2 "int (n div 2 ^ d)"] show ?thesis by (simp add: jam_def)
next
  case False
  define q where "q = n div 2 ^ d"
  have n: "n = q * 2 ^ d + n mod 2 ^ d" unfolding q_def by (rule div_mod_decomp)
  have X: "real q < real n / 2 ^ d" "real n / 2 ^ d < real q + 1"
  proof -
    have "real q * 2 ^ d < real n"
      using False n by (metis gr0I less_add_same_cancel1 of_nat_less_iff of_nat_mult of_nat_numeral of_nat_power)
    then show "real q < real n / 2 ^ d" by (simp add: field_simps)
    have "n mod 2 ^ d < 2 ^ d" by simp
    with n have "n < q * 2 ^ d + 2 ^ d" by linarith
    then have "real n < real (q * 2 ^ d + 2 ^ d)" by (simp only: of_nat_less_iff)
    then have "real n < (real q + 1) * 2 ^ d" by (simp add: algebra_simps)
    then show "real n / 2 ^ d < real q + 1" by (simp add: field_simps)
  qed
  have J: "jam n d = (if even q then q + 1 else q)"
    using False by (simp add: jam_def q_def [symmetric] or_one_eq del: One_nat_def)
  show ?thesis
    unfolding sticky_def J
  proof (intro allI impI)
    fix t :: int
    assume "even t"
    have "real n / 2 ^ d < of_int t \<longleftrightarrow> int q < t" using X by linarith
    moreover have "real n / 2 ^ d \<noteq> of_int t"
    proof
      assume "real n / 2 ^ d = of_int t"
      with X have "int q < t" "t < int q + 1" by linarith+
      then show False by simp
    qed
    moreover have "int (if even q then q + 1 else q) < t \<longleftrightarrow> int q < t" "int (if even q then q + 1 else q) \<noteq> t"
      using \<open>even t\<close> by (auto elim!: evenE) presburger+
    ultimately show "(real n / 2 ^ d < of_int t \<longleftrightarrow> int (if even q then q + 1 else q) < t) \<and>
      (real n / 2 ^ d = of_int t \<longleftrightarrow> int (if even q then q + 1 else q) = t)" by blast
  qed
qed


text \<open>The jamming shifts of the library, as functions on natural numbers.\<close>

lemma unat_or_of_bool: "unat (x OR of_bool b) = unat x OR of_bool b" for x :: "'a::len word"
  by (simp add: unsigned_or_eq)

lemma unat_drop_bit: "unat (drop_bit n x) = unat x div 2 ^ n" for x :: "'a::len word"
  unfolding unsigned_drop_bit_eq using unsigned_less [of x] by (simp add: take_bit_nat_eq_self drop_bit_eq_div)

lemma unat_take_bit: "unat (take_bit n x) = unat x mod 2 ^ n" for x :: "'a::len word"
  unfolding unsigned_take_bit_eq by (rule take_bit_eq_mod)

lemma and_mask_word: "x AND (push_bit n 1 - 1) = take_bit n x" for x :: "'a::len word"
  by (simp add: take_bit_eq_mask mask_eq_exp_minus_1 push_bit_eq_mult)

lemma unat_lost: "unat x mod 2 ^ n = 0 \<longleftrightarrow> take_bit n x = 0" for x :: "'a::len word"
  by (simp add: unsigned_eq_0_iff flip: unat_take_bit)

lemma unat_shortShiftRightJam64: "unat (softfloat_shortShiftRightJam64 a d) = jam (unat a) d"
  by (simp only: softfloat_shortShiftRightJam64_def jam_def and_mask_word unat_or_of_bool unat_drop_bit unat_lost)

text \<open>Shifting left by the complement keeps exactly the bits that are shifted out.\<close>

lemma push_bit_lost:
  fixes a :: "'a::len word"
  assumes "d < LENGTH('a)"
  shows "push_bit (LENGTH('a) - d) a \<noteq> 0 \<longleftrightarrow> take_bit d a \<noteq> 0"
proof -
  have "push_bit (LENGTH('a) - d) a = 0 \<longleftrightarrow> (\<forall>i<d. \<not> bit a i)"
  proof
    assume 0: "push_bit (LENGTH('a) - d) a = 0"
    show "\<forall>i<d. \<not> bit a i"
    proof (intro allI impI)
      fix i assume "i < d"
      have "\<not> bit (push_bit (LENGTH('a) - d) a) (i + (LENGTH('a) - d))" by (simp add: 0)
      with \<open>i < d\<close> assms show "\<not> bit a i" by (simp add: bit_simps)
    qed
  next
    assume "\<forall>i<d. \<not> bit a i"
    with assms show "push_bit (LENGTH('a) - d) a = 0" by (auto intro!: bit_word_eqI simp: bit_simps)
  qed
  also have "\<dots> \<longleftrightarrow> take_bit d a = 0" using assms by (fastforce simp: bit_eq_iff bit_simps)
  finally show ?thesis by simp
qed

lemma unat_shiftRightJam64:
  assumes "0 < d"
  shows "unat (softfloat_shiftRightJam64 a d) = jam (unat a) d"
proof (cases "d < 63")
  case True
  with assms have "nat (- int d mod 64) = 64 - d" by (simp add: mod_minus_eq nat_diff_distrib zmod_zminus1_eq_if)
  with True push_bit_lost [of d a] show ?thesis
    by (simp add: softfloat_shiftRightJam64_def jam_def unat_or_of_bool unat_drop_bit unat_lost)
next
  case False
  have "unat a < 2 * 2 ^ 63" using unsigned_less [of a] by simp
  also have "2 ^ 63 \<le> (2 ^ d :: nat)" using False by (intro power_increasing) simp_all
  finally have a: "unat a < 2 * 2 ^ d" by simp
  show ?thesis
  proof (cases "unat a < 2 ^ d")
    case True
    with False show ?thesis by (simp add: softfloat_shiftRightJam64_def jam_def unsigned_eq_0_iff)
  next
    case F: False
    then have "unat a div 2 ^ d = 1" using a by (simp add: div_nat_eqI)
    with F False show ?thesis by (auto simp: softfloat_shiftRightJam64_def jam_def)
  qed
qed

definition ext_val :: "uint64_extra \<Rightarrow> int" where
  "ext_val e = int (unat (ue_v e)) * 2 ^ 64 + int (unat (ue_extra e))"

lemma sticky_shiftRightJam64Extra:
  assumes "0 < d"
  shows "sticky (2 ^ 63) (real (unat a) * 2 ^ 64 / 2 ^ d) (ext_val (softfloat_shiftRightJam64Extra a 0 d))"
proof -
  consider "d < 64" | "d = 64" | "64 < d" by linarith
  then show ?thesis
  proof cases
    case 1
    have p: "(2 :: nat) ^ 64 = 2 ^ d * 2 ^ (64 - d)" using 1 by (simp flip: power_add)
    have "nat (- int d mod 64) = 64 - d" using assms 1 by (simp add: mod_minus_eq nat_diff_distrib zmod_zminus1_eq_if)
    then have "ue_extra (softfloat_shiftRightJam64Extra a 0 d) = push_bit (64 - d) a"
      "ue_v (softfloat_shiftRightJam64Extra a 0 d) = drop_bit d a"
      using 1 by (simp_all add: softfloat_shiftRightJam64Extra_def Let_def)
    moreover have "unat a * 2 ^ (64 - d) mod 2 ^ 64 = unat a mod 2 ^ d * 2 ^ (64 - d)"
      unfolding p by (rule mod_mult_mult2)
    then have "unat (push_bit (64 - d) a) = unat a mod 2 ^ d * 2 ^ (64 - d)"
      unfolding unsigned_push_bit_eq by (simp add: take_bit_eq_mod push_bit_eq_mult)
    ultimately have "ext_val (softfloat_shiftRightJam64Extra a 0 d) =
        int (unat a div 2 ^ d * 2 ^ 64 + unat a mod 2 ^ d * 2 ^ (64 - d))"
      by (simp add: ext_val_def unat_drop_bit)
    also have "unat a div 2 ^ d * 2 ^ 64 + unat a mod 2 ^ d * 2 ^ (64 - d) =
        (unat a div 2 ^ d * 2 ^ d + unat a mod 2 ^ d) * 2 ^ (64 - d)"
      unfolding p by (simp only: distrib_right mult.assoc)
    also have "\<dots> = unat a * 2 ^ (64 - d)" by (simp only: div_mult_mod_eq)
    finally have J: "ext_val (softfloat_shiftRightJam64Extra a 0 d) = int (unat a * 2 ^ (64 - d))" .
    have "real (unat a) * 2 ^ 64 / 2 ^ d = real (unat a) * 2 ^ (64 - d)"
      using 1 by (simp add: power_diff)
    also have "\<dots> = of_int (int (unat a * 2 ^ (64 - d)))" by simp
    finally show ?thesis unfolding J by (metis sticky_int)
  next
    case 2
    then show ?thesis using sticky_int [of "2 ^ 63" "int (unat a)"]
      by (simp add: softfloat_shiftRightJam64Extra_def ext_val_def)
  next
    case 3
    then have J: "ext_val (softfloat_shiftRightJam64Extra a 0 d) = of_bool (a \<noteq> 0)"
      by (simp add: softfloat_shiftRightJam64Extra_def ext_val_def)
    have "unat a < 2 ^ 64" using unsigned_less [of a] by simp
    then have "real (unat a) < real (2 ^ 64)" by (simp only: of_nat_less_iff)
    then have "real (unat a) < 2 ^ 64" by simp
    moreover have "(2 :: real) ^ 65 \<le> 2 ^ d" using 3 by (intro power_increasing) auto
    ultimately have "real (unat a) * 2 ^ 64 < 2 ^ 63 * 2 ^ d" by simp
    then have X: "real (unat a) * 2 ^ 64 / 2 ^ d < 2 ^ 63" by (simp add: field_simps)
    show ?thesis
    proof (cases "a = 0")
      case True
      then show ?thesis unfolding J using sticky_int [of "2 ^ 63" 0] by simp
    next
      case False
      then have "0 < unat a" by (simp add: unat_gt_0)
      then have "0 < real (unat a)" by (simp only: of_nat_0_less_iff)
      then have "0 < real (unat a) * 2 ^ 64 / 2 ^ d" by simp
      with X show ?thesis unfolding J using False by (intro sticky_small) simp_all
    qed
  qed
qed

section \<open>Rounding with a sticky bit\<close>

lemma sticky_parts:
  assumes "sticky (2 ^ (k - 1)) X J" "1 \<le> k"
  defines "q \<equiv> J div 2 ^ k" and "r \<equiv> J mod 2 ^ k" and "h \<equiv> 2 ^ (k - 1) :: int"
  shows "of_int q \<le> X / 2 ^ k" "X / 2 ^ k < of_int q + 1" "X / 2 ^ k = of_int q \<longleftrightarrow> r = 0"
    "X / 2 ^ k - of_int q < 1 / 2 \<longleftrightarrow> r < h" "X / 2 ^ k - of_int q = 1 / 2 \<longleftrightarrow> r = h" "0 \<le> r" "0 < h"
proof -
  have h: "(2 :: int) ^ k = 2 * h"
    using assms(2) unfolding h_def by (cases k) simp_all
  have hr: "(2 :: real) ^ k = 2 * of_int h"
    using arg_cong [OF h, of "of_int :: int \<Rightarrow> real"] by simp
  have J: "J = 2 * h * q + r" "0 \<le> r" "r < 2 * h"
    unfolding q_def r_def h [symmetric] by simp_all
  show "0 < h" "0 \<le> r" using J by (simp_all add: h_def)
  note s = sticky_dvd [OF assms(1), folded h_def]
  have 0: "2 * of_int h * of_int q \<le> X" using s(3) [of "2 * h * q"] J by simp
  have 1: "X < 2 * of_int h * of_int q + 2 * of_int h" using s(1) [of "2 * h * q + 2 * h"] J by simp
  have 2: "X = 2 * of_int h * of_int q \<longleftrightarrow> r = 0" using s(2) [of "2 * h * q"] J by simp
  have 3: "X < 2 * of_int h * of_int q + of_int h \<longleftrightarrow> r < h" using s(1) [of "2 * h * q + h"] J by simp
  have 4: "X = 2 * of_int h * of_int q + of_int h \<longleftrightarrow> r = h" using s(2) [of "2 * h * q + h"] J by simp
  have pos: "0 < (of_int h :: real)" by (simp add: h_def)
  show "of_int q \<le> X / 2 ^ k" "X / 2 ^ k < of_int q + 1" "X / 2 ^ k = of_int q \<longleftrightarrow> r = 0"
    unfolding hr using 0 1 2 pos by (simp_all add: field_simps)
  show "X / 2 ^ k - of_int q < 1 / 2 \<longleftrightarrow> r < h" "X / 2 ^ k - of_int q = 1 / 2 \<longleftrightarrow> r = h"
    unfolding hr 3 [symmetric] 4 [symmetric] using pos by (auto simp: field_simps)
qed

lemma fp_round_sticky:
  assumes "rm_ok m" "sticky (2 ^ (k - 1)) X J" "0 \<le> X" "1 \<le> k"
  shows "fp_round m (if sign then - (X / 2 ^ k) else X / 2 ^ k) = (if sign then - 1 else 1) * round_mag m sign J k"
proof -
  define y where "y = X / 2 ^ k"
  define q where "q = J div 2 ^ k"
  define r where "r = J mod 2 ^ k"
  define h where "h = (2 :: int) ^ (k - 1)"
  note p = sticky_parts [OF assms(2,4), folded y_def q_def r_def h_def]
  have fl: "\<lfloor>y\<rfloor> = q" using p(1,2) by (simp add: floor_unique)
  have ce: "\<lceil>y\<rceil> = q + of_bool (0 < r)" using p(1-3,6) by (auto intro!: ceiling_unique)
  have near: "\<lfloor>y + 1 / 2\<rfloor> = q + of_bool (h \<le> r)"
    using p(1,2,4) by (cases "r < h") (auto intro!: floor_unique simp: not_less)
  have neg: "\<lfloor>- y\<rfloor> = - \<lceil>y\<rceil>" "\<lceil>- y\<rceil> = - \<lfloor>y\<rfloor>" "\<lceil>- y - 1 / 2\<rceil> = - \<lfloor>y + 1 / 2\<rfloor>"
    using ceiling_minus [of "y + 1 / 2"] by (simp_all add: floor_minus ceiling_minus)
  have frac: "- y - of_int \<lfloor>- y\<rfloor> = (if r = 0 then 0 else 1 - (y - of_int q))"
    using p(3,6) by (auto simp: neg ce)
  have y: "0 \<le> y" using assms(3) by (simp add: y_def)
  then have y0: "0 \<le> y" "0 \<le> - y \<longleftrightarrow> y = 0" by auto
  have "y = 0 \<Longrightarrow> q = 0 \<and> r = 0" using fl p(3) by auto
  note facts = this y0 fl ce near neg p
  have up: "round_up m' s J k \<longleftrightarrow>
      m' = RV_RM_RTE \<and> (h < r \<or> h = r \<and> odd q) \<or> m' = RV_RM_RMM \<and> h \<le> r \<or>
      m' = RV_RM_RDN \<and> s \<and> 0 < r \<or> m' = RV_RM_RUP \<and> \<not> s \<and> 0 < r" for m' s
    by (simp only: round_up_def Let_def q_def r_def h_def)
  have "fp_round m (if sign then - y else y) = (if sign then - 1 else 1) * (q + of_bool (round_up m sign J k))"
  proof (cases m)
    case RV_RM_RTE
    show ?thesis
    proof (cases sign)
      case True
      have "- y - of_int \<lfloor>- y\<rfloor> < 1 / 2 \<longleftrightarrow> r = 0 \<or> h < r" "- y - of_int \<lfloor>- y\<rfloor> = 1 / 2 \<longleftrightarrow> r = h"
        unfolding frac using p(4-7) by auto
      with True RV_RM_RTE p(6,7) show ?thesis
        by (auto simp: neg ce up)
    next
      case False
      with RV_RM_RTE p(4,5) fl show ?thesis
        by (auto simp: up)
    qed
  qed (use assms(1) facts in \<open>auto simp: rm_ok_def up\<close>)
  then show ?thesis by (simp only: y_def q_def round_mag_def)
qed

lemma Ints_sticky:
  assumes "sticky (2 ^ (k - 1)) X J" "1 \<le> k"
  shows "X / 2 ^ k \<in> \<int> \<longleftrightarrow> J mod 2 ^ k = 0"
proof -
  note p = sticky_parts [OF assms]
  show ?thesis
  proof
    assume "X / 2 ^ k \<in> \<int>"
    then obtain z where "X / 2 ^ k = of_int z" by (elim Ints_cases)
    moreover then have "z = J div 2 ^ k" using p(1,2) by linarith
    ultimately show "J mod 2 ^ k = 0" using p(3) by simp
  qed (use p(3) in simp)
qed

end
