(* ===== verification/RiscvSoftFloatInt.thy ===== *)
theory RiscvSoftFloatInt
  imports RiscvSoftFloatRound
begin

text \<open>
  Conversion of floating-point numbers to integers: each routine returns the value rounded to an
  integer in the given mode, saturates and raises the invalid flag when that integer does not fit,
  and raises the inexact flag exactly when the value was not an integer.
\<close>

section \<open>Words and integers\<close>

lemma raiseFlags_0 [simp]: "softfloat_raiseFlags 0 st = st"
  by (simp add: softfloat_raiseFlags_def)

lemma uint_take_bit: "uint (take_bit n x) = uint x mod 2 ^ n" for x :: "'a::len word"
  unfolding unsigned_take_bit_eq by (rule take_bit_eq_mod)

lemma uint_drop_bit: "uint (drop_bit n x) = uint x div 2 ^ n" for x :: "'a::len word"
  unfolding unsigned_drop_bit_eq by (simp only: take_bit_int_eq_self [OF uint_ge_0 uint_lt2p] drop_bit_eq_div)

lemma uint_clear_bit0: "uint (x AND NOT 1) = uint x - uint x mod 2" for x :: "'a::len word"
proof -
  have "uint (x AND NOT 1) + uint (x AND 1) = uint (x AND NOT 1) OR uint (x AND 1)"
    by (rule disjunctive_add_eq_or) (auto simp: bit_eq_iff bit_simps)
  also have "\<dots> = uint ((x AND NOT 1) OR (x AND 1))" by (simp only: unsigned_or_eq)
  also have "(x AND NOT 1) OR (x AND 1) = x" by (auto intro!: bit_word_eqI simp: bit_simps)
  finally have "uint (x AND NOT 1) + uint (x AND 1) = uint x" .
  moreover have "uint (x AND 1) = uint x mod 2"
    using uint_take_bit [of 1 x] by (simp add: take_bit_eq_mask)
  ultimately show ?thesis by simp
qed

lemma sint_neg_iff: "sint x < 0 \<longleftrightarrow> 2 ^ (LENGTH('a) - 1) \<le> uint x" for x :: "'a::len word"
proof -
  have "uint x < 2 * 2 ^ (LENGTH('a) - 1)" using uint_lt2p [of x] by (cases "LENGTH('a)") simp_all
  then have "uint x div 2 ^ (LENGTH('a) - 1) = of_bool (2 ^ (LENGTH('a) - 1) \<le> uint x)"
    using int_div_pos_eq [of "uint x" "2 ^ (LENGTH('a) - 1)" 1 "uint x - 2 ^ (LENGTH('a) - 1)"]
    by (auto simp: div_pos_pos_trivial)
  moreover have "sint x < 0 \<longleftrightarrow> bit (uint x) (LENGTH('a) - 1)"
    by (simp only: sint_uint signed_take_bit_negative_iff One_nat_def)
  ultimately show ?thesis by (simp add: bit_iff_odd)
qed

lemma uint_minus: "uint (- x) = (if x = 0 then 0 else 2 ^ LENGTH('a) - uint x)" for x :: "'a::len word"
  using uint_lt2p [of x] by (simp add: uint_word_ariths zmod_zminus1_eq_if unsigned_eq_0_iff)

section \<open>Rounding a magnitude\<close>

text \<open>What a conversion to integers between \<open>lo\<close> and \<open>hi\<close> returns for a real number, and the
  flags it raises.\<close>

definition cvt_int :: "int \<Rightarrow> int \<Rightarrow> bool \<Rightarrow> riscvRMDesc \<Rightarrow> real \<Rightarrow> int \<times> uns8" where
  "cvt_int lo hi exact m x =
     (let z = fp_round m x in
      if z < lo then (lo, softfloat_flag_invalid)
      else if hi < z then (hi, softfloat_flag_invalid)
      else (z, if exact \<and> x \<notin> \<int> then softfloat_flag_inexact else 0))"

abbreviation (input) signed_real :: "bool \<Rightarrow> real \<Rightarrow> real" where
  "signed_real sign x \<equiv> if sign then - x else x"

lemma signed_real_Ints: "signed_real sign x \<in> \<int> \<longleftrightarrow> x \<in> \<int>"
  by (simp add: minus_in_Ints_iff)

text \<open>Adding the increment of a mode and dropping the fraction rounds, up to a tie.\<close>

definition round_inc :: "riscvRMDesc \<Rightarrow> bool \<Rightarrow> nat \<Rightarrow> int" where
  "round_inc m sign k =
     (if m = RV_RM_RTE \<or> m = RV_RM_RMM then 2 ^ (k - 1)
      else if sign \<and> m = RV_RM_RDN \<or> \<not> sign \<and> m = RV_RM_RUP then 2 ^ k - 1 else 0)"

lemma round_inc_range: "0 \<le> round_inc m sign k" "1 \<le> k \<Longrightarrow> round_inc m sign k < 2 ^ k"
  by (auto simp: round_inc_def intro!: power_strict_increasing)

lemma round_mag_inc:
  fixes J :: int and sign :: bool
  assumes "rm_ok m" "1 \<le> k"
  defines "w \<equiv> (J + round_inc m sign k) div 2 ^ k"
  shows "round_mag m sign J k = (if m = RV_RM_RTE \<and> J mod 2 ^ k = 2 ^ (k - 1) then w - w mod 2 else w)"
proof -
  define q where "q = J div 2 ^ k"
  define r where "r = J mod 2 ^ k"
  define h where "h = (2 :: int) ^ (k - 1)"
  have h: "(2 :: int) ^ k = 2 * h" using assms(2) unfolding h_def by (cases k) simp_all
  have J: "J = 2 * h * q + r" "0 \<le> r" "r < 2 * h" "0 < h"
    unfolding q_def r_def h [symmetric] by (simp_all add: h_def)
  have inc: "0 \<le> round_inc m sign k" "round_inc m sign k < 2 * h"
    using round_inc_range(1) [of m sign k] round_inc_range(2) [of k m sign] assms(2) by (simp_all add: h)
  have w: "w = q + of_bool (2 * h \<le> r + round_inc m sign k)"
    unfolding w_def h using J inc
    by (intro int_div_pos_eq [where r = "r + round_inc m sign k -
        (if 2 * h \<le> r + round_inc m sign k then 2 * h else 0)"]) (auto simp: algebra_simps)
  have up: "round_up m sign J k \<longleftrightarrow>
      m = RV_RM_RTE \<and> (h < r \<or> h = r \<and> odd q) \<or> m = RV_RM_RMM \<and> h \<le> r \<or>
      m = RV_RM_RDN \<and> sign \<and> 0 < r \<or> m = RV_RM_RUP \<and> \<not> sign \<and> 0 < r"
    by (simp only: round_up_def Let_def q_def r_def h_def)
  have inc_eq: "round_inc m' s k = (if m' = RV_RM_RTE \<or> m' = RV_RM_RMM then h
      else if s \<and> m' = RV_RM_RDN \<or> \<not> s \<and> m' = RV_RM_RUP then 2 * h - 1 else 0)" for m' s
    unfolding round_inc_def h by (simp only: h_def)
  have parity: "(q + 1) mod 2 = of_bool (even q)" by (simp add: mod2_eq_if)
  show ?thesis
    unfolding round_mag_def up w q_def [symmetric] r_def [symmetric] h_def [symmetric]
    using assms(1) J(2-4) parity
    by (auto simp: rm_ok_def inc_eq)
qed

lemma round_mag_nonneg: "0 \<le> J \<Longrightarrow> 0 \<le> round_mag m sign J k"
  by (simp add: round_mag_def pos_imp_zdiv_nonneg_iff)

lemma int_le_div_iff:
  fixes a b c :: int
  assumes "0 < c"
  shows "b \<le> a div c \<longleftrightarrow> b * c \<le> a"
proof
  assume "b \<le> a div c"
  then have "b * c \<le> a div c * c" using assms by (intro mult_right_mono) simp_all
  also have "\<dots> \<le> a" using assms div_mult_mod_eq [of a c] pos_mod_sign [of c a] by linarith
  finally show "b * c \<le> a" .
next
  assume "b * c \<le> a"
  then have "b * c div c \<le> a div c" using assms by (rule zdiv_mono1)
  then show "b \<le> a div c" using assms by simp
qed

lemma round_mag_ge:
  assumes "rm_ok m" "1 \<le> k" "even b"
  shows "b \<le> round_mag m sign J k \<longleftrightarrow> b * 2 ^ k \<le> J + round_inc m sign k"
proof -
  define w where "w = (J + round_inc m sign k) div 2 ^ k"
  have "b \<le> w - w mod 2 \<longleftrightarrow> b \<le> w" using assms(3) by presburger
  then have "b \<le> round_mag m sign J k \<longleftrightarrow> b \<le> w"
    using round_mag_inc [OF assms(1,2), of sign J] unfolding w_def [symmetric] by (simp split: if_splits)
  also have "\<dots> \<longleftrightarrow> b * 2 ^ k \<le> J + round_inc m sign k"
    unfolding w_def by (simp add: int_le_div_iff)
  finally show ?thesis .
qed

lemma high_bits_44: "x AND 0xFFFFF00000000000 \<noteq> 0 \<longleftrightarrow> 2 ^ 44 \<le> uint x" for x :: uns64
proof -
  have m: "(0xFFFFF00000000000 :: uns64) = NOT (mask 44)" by (simp add: mask_eq_exp_minus_1 not_eq_complement)
  have "x AND NOT (mask 44) = 0 \<longleftrightarrow> take_bit 44 x = x"
    by (auto simp: bit_eq_iff bit_simps)
  also have "\<dots> \<longleftrightarrow> uint x mod 2 ^ 44 = uint x" by (simp only: word_uint_eq_iff uint_take_bit)
  also have "\<dots> \<longleftrightarrow> uint x < 2 ^ 44"
    using pos_mod_bound [of "2 ^ 44" "uint x"] by (auto simp: mod_pos_pos_trivial)
  finally show ?thesis unfolding m by auto
qed

lemma uint_add_int:
  fixes x :: "'a::len word"
  assumes "0 \<le> i" "uint x + i < 2 ^ LENGTH('a)"
  shows "uint (x + word_of_int i) = uint x + i"
  using assms by (simp add: uint_word_ariths uint_word_of_int mod_simps)

lemma round_bits12:
  "uint (sig AND 0xFFF) = uint sig mod 2 ^ 12" "sig AND 0xFFF = 0x800 \<longleftrightarrow> uint sig mod 2 ^ 12 = 2 ^ 11"
  "sig AND 0xFFF = 0 \<longleftrightarrow> uint sig mod 2 ^ 12 = 0" for sig :: uns64
proof -
  show 1: "uint (sig AND 0xFFF) = uint sig mod 2 ^ 12"
    using uint_take_bit [of 12 sig] by (simp add: take_bit_eq_mask mask_eq_exp_minus_1)
  show "sig AND 0xFFF = 0x800 \<longleftrightarrow> uint sig mod 2 ^ 12 = 2 ^ 11" "sig AND 0xFFF = 0 \<longleftrightarrow> uint sig mod 2 ^ 12 = 0"
    unfolding 1 [symmetric] by (simp_all add: word_uint_eq_iff)
qed

text \<open>The rounded 32-bit magnitude.\<close>

lemma uint_round32:
  fixes sig :: uns64
  assumes "rm_ok m" "uint sig + round_inc m sign 12 < 2 ^ 44"
  defines "w \<equiv> ucast (drop_bit 12 (sig + word_of_int (round_inc m sign 12))) :: uns32"
  shows "uint (if sig AND 0xFFF = 0x800 \<and> m = RV_RM_RTE then w AND NOT 1 else w) = round_mag m sign (uint sig) 12"
proof -
  have "uint (sig + word_of_int (round_inc m sign 12)) = uint sig + round_inc m sign 12"
    using assms(2) round_inc_range(1) by (intro uint_add_int) simp_all
  then have "uint (drop_bit 12 (sig + word_of_int (round_inc m sign 12))) = (uint sig + round_inc m sign 12) div 2 ^ 12"
    by (simp only: uint_drop_bit)
  moreover have "(uint sig + round_inc m sign 12) div 2 ^ 12 < 2 ^ 32" "0 \<le> (uint sig + round_inc m sign 12) div 2 ^ 12"
    using assms(2) round_inc_range(1) [of m sign 12] by (auto simp: pos_imp_zdiv_nonneg_iff)
  ultimately have w: "uint w = (uint sig + round_inc m sign 12) div 2 ^ 12"
    by (simp add: w_def unsigned_ucast_eq take_bit_int_eq_self)
  show ?thesis
    using round_mag_inc [OF assms(1), of 12 sign "uint sig"] unfolding w [symmetric]
    by (auto simp: round_bits12(2) uint_clear_bit0 [simplified])
qed

lemma round_mag_down_pos: "0 < J \<Longrightarrow> 0 < round_mag RV_RM_RDN True J k"
proof (cases "J div 2 ^ k = 0")
  case True
  assume "0 < J"
  moreover have "J mod 2 ^ k = J" using True div_mult_mod_eq [of J "2 ^ k"] by simp
  ultimately show ?thesis by (simp add: round_mag_def round_up_def Let_def True)
next
  case False
  assume "0 < J"
  then have "0 \<le> J div 2 ^ k" by (simp add: pos_imp_zdiv_nonneg_iff)
  with False show ?thesis by (simp add: round_mag_def)
qed

text \<open>The value returned when it fits, and otherwise the bound and the invalid flag.\<close>

definition cvt_ret :: "int \<times> uns8 \<Rightarrow> softfloat \<Rightarrow> 'a::len word \<times> softfloat" where
  "cvt_ret r st = (word_of_int (fst r), softfloat_raiseFlags (snd r) st)"

lemma round32_parts:
  fixes sig :: uns64 and sign :: bool
  assumes "rm_ok m" "sticky (2 ^ 11) X (uint sig)" "0 \<le> X" "uint sig < 2 ^ 63"
  defines "M \<equiv> round_mag m sign (uint sig) 12" and "inc \<equiv> word_of_int (round_inc m sign 12)"
  defines "w \<equiv> (let w = ucast (drop_bit 12 (sig + inc)) :: uns32 in
    if sig AND 0xFFF = 0x800 \<and> m = RV_RM_RTE then w AND NOT 1 else w)"
  shows "0 \<le> M" "fp_round m (signed_real sign (X / 2 ^ 12)) = (if sign then - M else M)"
    "signed_real sign (X / 2 ^ 12) \<in> \<int> \<longleftrightarrow> sig AND 0xFFF = 0"
    "sig + inc AND 0xFFFFF00000000000 \<noteq> 0 \<longleftrightarrow> 2 ^ 32 \<le> M" "M < 2 ^ 32 \<Longrightarrow> uint w = M"
proof -
  show "0 \<le> M" unfolding M_def by (rule round_mag_nonneg) simp
  show "fp_round m (signed_real sign (X / 2 ^ 12)) = (if sign then - M else M)"
    using fp_round_sticky [OF assms(1), of 12 X "uint sig" sign] assms(2,3) by (simp add: M_def)
  show "signed_real sign (X / 2 ^ 12) \<in> \<int> \<longleftrightarrow> sig AND 0xFFF = 0"
    using Ints_sticky [of 12 X "uint sig"] assms(2) by (simp add: signed_real_Ints round_bits12(3))
  have S: "uint (sig + inc) = uint sig + round_inc m sign 12"
    unfolding inc_def using assms(4) round_inc_range(1) [of m sign 12] round_inc_range(2) [of 12 m sign]
    by (intro uint_add_int) simp_all
  show big: "sig + inc AND 0xFFFFF00000000000 \<noteq> 0 \<longleftrightarrow> 2 ^ 32 \<le> M"
    unfolding high_bits_44 S M_def using round_mag_ge [OF assms(1), of 12 "2 ^ 32" sign "uint sig"] by simp
  show "M < 2 ^ 32 \<Longrightarrow> uint w = M"
    using uint_round32 [OF assms(1), of sig sign] big
    unfolding high_bits_44 S by (simp add: w_def Let_def M_def inc_def)
qed

lemma roundToI32_cvt:
  assumes "rm_ok m" "sticky (2 ^ 11) X (uint sig)" "0 \<le> X" "uint sig < 2 ^ 63"
  shows "softfloat_roundToI32 sign sig m exact st =
    cvt_ret (cvt_int (- (2 ^ 31)) (2 ^ 31 - 1) exact m (signed_real sign (X / 2 ^ 12))) st"
proof -
  define M where "M = round_mag m sign (uint sig) 12"
  define inc :: uns64 where "inc = word_of_int (round_inc m sign 12)"
  define w :: uns32 where "w = (let w = ucast (drop_bit 12 (sig + inc)) in
    if sig AND 0xFFF = 0x800 \<and> m = RV_RM_RTE then w AND NOT 1 else w)"
  define z where "z = (if sign then - w else w)"
  note parts = round32_parts [OF assms, of sign, folded M_def inc_def, folded w_def]
  note M0 = parts(1) and r = parts(2) and i = parts(3) and big = parts(4) and w = parts(5)
  have inc: "(if m \<noteq> RV_RM_RMM \<and> m \<noteq> RV_RM_RTE
      then if if sign then m = RV_RM_RDN else m = RV_RM_RUP then 0xFFF else 0 else 0x800) = inc"
    by (auto simp: inc_def round_inc_def)
  have z: "M < 2 ^ 32 \<Longrightarrow> z \<noteq> 0 \<and> (sint z < 0) \<noteq> sign \<longleftrightarrow> (if sign then 2 ^ 31 < M else 2 ^ 31 \<le> M)"
    using w M0 by (auto simp: z_def sint_neg_iff uint_minus word_uint_eq_iff [of w])
  have zM: "M < 2 ^ 32 \<Longrightarrow> z = word_of_int (if sign then - M else M)"
    using w by (auto simp: z_def)
  have code: "softfloat_roundToI32 sign sig m exact st =
      (if 2 ^ 32 \<le> M \<or> z \<noteq> 0 \<and> (sint z < 0) \<noteq> sign
       then ((if sign then i32_fromNegOverflow else i32_fromPosOverflow), softfloat_raiseFlags softfloat_flag_invalid st)
       else (z, if sig AND 0xFFF \<noteq> 0 \<and> exact then softfloat_raiseFlags softfloat_flag_inexact st else st))"
    unfolding softfloat_roundToI32_def Let_def inc big by (simp add: z_def w_def Let_def)
  show ?thesis
    unfolding code cvt_int_def cvt_ret_def Let_def r i using M0 z zM by (cases sign) auto
qed

lemma roundToUI32_cvt:
  assumes "rm_ok m" "sticky (2 ^ 11) X (uint sig)" "0 \<le> X" "uint sig < 2 ^ 63"
  shows "softfloat_roundToUI32 sign sig m exact st =
    cvt_ret (cvt_int 0 (2 ^ 32 - 1) exact m (signed_real sign (X / 2 ^ 12))) st"
proof -
  define M where "M = round_mag m sign (uint sig) 12"
  define inc :: uns64 where "inc = word_of_int (round_inc m sign 12)"
  define w :: uns32 where "w = (let w = ucast (drop_bit 12 (sig + inc)) in
    if sig AND 0xFFF = 0x800 \<and> m = RV_RM_RTE then w AND NOT 1 else w)"
  note parts = round32_parts [OF assms, of sign, folded M_def inc_def, folded w_def]
  note M0 = parts(1) and r = parts(2) and i = parts(3) and big = parts(4) and w = parts(5)
  have w0: "M < 2 ^ 32 \<Longrightarrow> w \<noteq> 0 \<longleftrightarrow> 0 < M" "M < 2 ^ 32 \<Longrightarrow> w = word_of_int M"
    using w M0 by (auto simp: word_uint_eq_iff [of w] order_less_le)
  have Z: "sig = 0 \<Longrightarrow> M = 0 \<and> sig AND 0xFFF = 0"
    by (simp add: M_def round_mag_def round_up_def)
  have D: "0 < M" if "sig \<noteq> 0" "sign" "m = RV_RM_RDN"
  proof -
    have "0 < uint sig" using that(1) uint_ge_0 [of sig] by (simp add: order_less_le word_uint_eq_iff)
    then show ?thesis using that by (simp add: M_def round_mag_down_pos)
  qed
  have near: "(if m = RV_RM_RMM \<or> m = RV_RM_RTE then 0x800 else if \<not> sign \<and> m = RV_RM_RUP then 0xFFF else 0) = inc"
    if "\<not> (sign \<and> m = RV_RM_RDN)"
    using that by (auto simp: inc_def round_inc_def)
  have code: "softfloat_roundToUI32 sign sig m exact st =
      (if m \<noteq> RV_RM_RMM \<and> m \<noteq> RV_RM_RTE \<and> sign \<and> sig = 0 then (0, st)
       else if sign \<and> m = RV_RM_RDN \<or> 2 ^ 32 \<le> M \<or> sign \<and> w \<noteq> 0
       then ((if sign then ui32_fromNegOverflow else ui32_fromPosOverflow), softfloat_raiseFlags softfloat_flag_invalid st)
       else (w, if sig AND 0xFFF \<noteq> 0 \<and> exact then softfloat_raiseFlags softfloat_flag_inexact st else st))"
  proof (cases "sign \<and> m = RV_RM_RDN")
    case True
    then show ?thesis by (simp add: softfloat_roundToUI32_def Let_def)
  next
    case False
    then show ?thesis unfolding softfloat_roundToUI32_def Let_def near [OF False] big by (auto simp: w_def Let_def)
  qed
  show ?thesis
    unfolding code cvt_int_def cvt_ret_def Let_def r i using M0 w0 Z D by (cases sign) auto
qed

section \<open>64-bit results\<close>

definition increment64 :: "riscvRMDesc \<Rightarrow> bool \<Rightarrow> uns64 \<Rightarrow> uns64 \<Rightarrow> uns64 option" where
  "increment64 m sign sig sigExtra =
     (if m = RV_RM_RMM \<or> m = RV_RM_RTE
      then if 0x8000000000000000 \<le> sigExtra then round_increment64 sig sigExtra m else Some sig
      else if sigExtra \<noteq> 0 \<and> (if sign then m = RV_RM_RDN else m = RV_RM_RUP)
      then round_increment64 sig sigExtra m
      else Some sig)"

lemma increment64_mag:
  fixes sig sigExtra :: uns64 and sign :: bool
  assumes "rm_ok m"
  defines "M \<equiv> round_mag m sign (uint sig * 2 ^ 64 + uint sigExtra) 64"
  shows "increment64 m sign sig sigExtra = (if M < 2 ^ 64 then Some (word_of_int M) else None)"
proof -
  have qr: "(uint sig * 2 ^ 64 + uint sigExtra) div 2 ^ 64 = uint sig"
    "(uint sig * 2 ^ 64 + uint sigExtra) mod 2 ^ 64 = uint sigExtra"
    using uint_lt2p [of sigExtra] by (simp_all add: div_pos_pos_trivial mod_pos_pos_trivial)
  have M: "M = uint sig + of_bool (m = RV_RM_RTE \<and> (2 ^ 63 < uint sigExtra \<or> 2 ^ 63 = uint sigExtra \<and> odd (uint sig)) \<or>
      m = RV_RM_RMM \<and> 2 ^ 63 \<le> uint sigExtra \<or> m = RV_RM_RDN \<and> sign \<and> 0 < uint sigExtra \<or>
      m = RV_RM_RUP \<and> \<not> sign \<and> 0 < uint sigExtra)"
    unfolding M_def round_mag_def round_up_def Let_def qr by simp
  have ex: "sigExtra = 0x8000000000000000 \<longleftrightarrow> uint sigExtra = 2 ^ 63" "0x8000000000000000 \<le> sigExtra \<longleftrightarrow> 2 ^ 63 \<le> uint sigExtra"
    "sigExtra \<noteq> 0 \<longleftrightarrow> 0 < uint sigExtra"
    using uint_ge_0 [of sigExtra] by (auto simp: word_uint_eq_iff word_le_def order_less_le)
  have s: "uint sig < 2 ^ 64" using uint_lt2p [of sig] by simp
  have n0: "uint sig + 1 \<noteq> 0" using uint_ge_0 [of sig] by linarith
  have one: "sig + 1 = 0 \<longleftrightarrow> uint sig = 2 ^ 64 - 1"
    using s n0 by (cases "uint sig = 2 ^ 64 - 1") (auto simp: word_uint_eq_iff uint_word_ariths)
  have clear: "uint sig \<noteq> 2 ^ 64 - 1 \<Longrightarrow> (sig + 1) AND NOT 1 = word_of_int (uint sig + of_bool (odd (uint sig)))"
  proof -
    assume "uint sig \<noteq> 2 ^ 64 - 1"
    then have "uint (sig + 1) = uint sig + 1" using s by (simp add: uint_word_ariths)
    then have "uint ((sig + 1) AND NOT 1) = uint sig + 1 - (uint sig + 1) mod 2" by (simp only: uint_clear_bit0)
    also have "\<dots> = uint sig + of_bool (odd (uint sig))" by (simp add: mod2_eq_if)
    finally show ?thesis by (metis word_of_int_uint)
  qed
  have odd_max: "uint sig = 2 ^ 64 - 1 \<Longrightarrow> odd (uint sig)" by simp
  show ?thesis
    unfolding increment64_def round_increment64_def Let_def ex one M
    using assms(1) clear odd_max s by (auto simp: rm_ok_def)
qed

lemma round64_parts:
  fixes sig sigExtra :: uns64 and sign :: bool
  assumes "rm_ok m" "sticky (2 ^ 63) X (uint sig * 2 ^ 64 + uint sigExtra)" "0 \<le> X"
  defines "M \<equiv> round_mag m sign (uint sig * 2 ^ 64 + uint sigExtra) 64"
  shows "0 \<le> M" "fp_round m (signed_real sign (X / 2 ^ 64)) = (if sign then - M else M)"
    "signed_real sign (X / 2 ^ 64) \<in> \<int> \<longleftrightarrow> sigExtra = 0"
proof -
  show "0 \<le> M" unfolding M_def by (rule round_mag_nonneg) simp
  show "fp_round m (signed_real sign (X / 2 ^ 64)) = (if sign then - M else M)"
    using fp_round_sticky [OF assms(1), of 64 X "uint sig * 2 ^ 64 + uint sigExtra" sign] assms(2,3)
    by (simp add: M_def)
  have "(uint sig * 2 ^ 64 + uint sigExtra) mod 2 ^ 64 = uint sigExtra"
    using uint_lt2p [of sigExtra] by simp
  then show "signed_real sign (X / 2 ^ 64) \<in> \<int> \<longleftrightarrow> sigExtra = 0"
    using Ints_sticky [of 64 X "uint sig * 2 ^ 64 + uint sigExtra"] assms(2)
    by (simp add: signed_real_Ints word_uint_eq_iff [of sigExtra])
qed

lemma roundToI64_cvt:
  assumes "rm_ok m" "sticky (2 ^ 63) X (uint sig * 2 ^ 64 + uint sigExtra)" "0 \<le> X"
  shows "softfloat_roundToI64 sign sig sigExtra m exact st =
    cvt_ret (cvt_int (- (2 ^ 63)) (2 ^ 63 - 1) exact m (signed_real sign (X / 2 ^ 64))) st"
proof -
  define M where "M = round_mag m sign (uint sig * 2 ^ 64 + uint sigExtra) 64"
  define w :: uns64 where "w = word_of_int M"
  define z where "z = (if sign then - w else w)"
  note parts = round64_parts [OF assms, of sign, folded M_def]
  have inc: "increment64 m sign sig sigExtra = (if M < 2 ^ 64 then Some w else None)"
    using increment64_mag [OF assms(1)] by (simp add: M_def w_def)
  have w: "M < 2 ^ 64 \<Longrightarrow> uint w = M"
    using parts(1) by (simp add: w_def uint_word_of_int)
  have z: "M < 2 ^ 64 \<Longrightarrow> z \<noteq> 0 \<and> (sint z < 0) \<noteq> sign \<longleftrightarrow> (if sign then 2 ^ 63 < M else 2 ^ 63 \<le> M)"
    using w parts(1) by (auto simp: z_def sint_neg_iff uint_minus word_uint_eq_iff [of w])
  have zM: "z = word_of_int (if sign then - M else M)" by (simp add: z_def w_def)
  have code: "softfloat_roundToI64 sign sig sigExtra m exact st =
      (if 2 ^ 64 \<le> M \<or> z \<noteq> 0 \<and> (sint z < 0) \<noteq> sign
       then ((if sign then i64_fromNegOverflow else i64_fromPosOverflow), softfloat_raiseFlags softfloat_flag_invalid st)
       else (z, if sigExtra \<noteq> 0 \<and> exact then softfloat_raiseFlags softfloat_flag_inexact st else st))"
    unfolding softfloat_roundToI64_def increment64_def [symmetric] Let_def inc by (simp add: z_def)
  show ?thesis
    unfolding code cvt_int_def cvt_ret_def Let_def parts(2,3) using parts(1) z zM by (cases sign) auto
qed

lemma roundToUI64_cvt:
  assumes "rm_ok m" "sticky (2 ^ 63) X (uint sig * 2 ^ 64 + uint sigExtra)" "0 \<le> X"
  shows "softfloat_roundToUI64 sign sig sigExtra m exact st =
    cvt_ret (cvt_int 0 (2 ^ 64 - 1) exact m (signed_real sign (X / 2 ^ 64))) st"
proof -
  define M where "M = round_mag m sign (uint sig * 2 ^ 64 + uint sigExtra) 64"
  define w :: uns64 where "w = word_of_int M"
  note parts = round64_parts [OF assms, of sign, folded M_def]
  have inc: "increment64 m sign sig sigExtra = (if M < 2 ^ 64 then Some w else None)"
    using increment64_mag [OF assms(1)] by (simp add: M_def w_def)
  have w0: "M < 2 ^ 64 \<Longrightarrow> w \<noteq> 0 \<longleftrightarrow> 0 < M"
    using parts(1) by (auto simp: w_def word_uint_eq_iff uint_word_of_int order_less_le)
  have Z: "sig OR sigExtra = 0 \<longleftrightarrow> uint sig * 2 ^ 64 + uint sigExtra = 0"
    using uint_ge_0 [of sig] uint_ge_0 [of sigExtra]
    unfolding or_eq_0_iff by (simp add: word_uint_eq_iff add_nonneg_eq_0_iff)
  have M0: "uint sig * 2 ^ 64 + uint sigExtra = 0 \<Longrightarrow> M = 0 \<and> sigExtra = 0"
    using uint_ge_0 [of sig] uint_ge_0 [of sigExtra]
    by (simp add: M_def round_mag_def round_up_def add_nonneg_eq_0_iff word_uint_eq_iff)
  have D: "0 < M" if "uint sig * 2 ^ 64 + uint sigExtra \<noteq> 0" "sign" "m = RV_RM_RDN"
  proof -
    have "0 \<le> uint sig * 2 ^ 64 + uint sigExtra" by simp
    then have "0 < uint sig * 2 ^ 64 + uint sigExtra" using that(1) by linarith
    then show ?thesis using that by (simp only: M_def round_mag_down_pos)
  qed
  have near: "(if m = RV_RM_RMM \<or> m = RV_RM_RTE
      then if 0x8000000000000000 \<le> sigExtra then round_increment64 sig sigExtra m else Some sig
      else if \<not> sign \<and> m = RV_RM_RUP \<and> sigExtra \<noteq> 0 then round_increment64 sig sigExtra m
      else Some sig) = increment64 m sign sig sigExtra" if "\<not> (sign \<and> m = RV_RM_RDN)"
    using that by (auto simp: increment64_def)
  have code: "softfloat_roundToUI64 sign sig sigExtra m exact st =
      (if m \<noteq> RV_RM_RMM \<and> m \<noteq> RV_RM_RTE \<and> sign \<and> sig OR sigExtra = 0 then (0, st)
       else if sign \<and> m = RV_RM_RDN \<or> 2 ^ 64 \<le> M \<or> sign \<and> w \<noteq> 0
       then ((if sign then ui64_fromNegOverflow else ui64_fromPosOverflow), softfloat_raiseFlags softfloat_flag_invalid st)
       else (w, if sigExtra \<noteq> 0 \<and> exact then softfloat_raiseFlags softfloat_flag_inexact st else st))"
  proof (cases "sign \<and> m = RV_RM_RDN")
    case True
    then show ?thesis by (simp add: softfloat_roundToUI64_def Let_def)
  next
    case False
    then show ?thesis unfolding softfloat_roundToUI64_def Let_def near [OF False] inc by auto
  qed
  show ?thesis
    unfolding code Z cvt_int_def cvt_ret_def Let_def parts(2,3) using parts(1) w0 M0 D
    by (cases sign) (auto simp: w_def)
qed

end
