(* ===== verification/RiscvSoftFloatCvt.thy ===== *)
theory RiscvSoftFloatCvt
  imports RiscvSoftFloatInt
begin

text \<open>
  The values of single and double precision numbers, and the conversions of these values to the
  four integer types.
\<close>

section \<open>The value of a floating-point number\<close>

datatype fpval = FNaN | FInf bool | FFin real

definition f32_sig :: "float32_t \<Rightarrow> nat" where
  "f32_sig a = unat (fracF32UI a) + (if expF32UI a = 0 then 0 else 2 ^ 23)"

definition f32_mag :: "float32_t \<Rightarrow> real" where
  "f32_mag a = real (f32_sig a) * 2 ^ nat (max 1 (expF32UI a)) / 2 ^ 150"

definition f32_val :: "float32_t \<Rightarrow> fpval" where
  "f32_val a =
     (if expF32UI a = 0xFF then if fracF32UI a \<noteq> 0 then FNaN else FInf (signF32UI a)
      else FFin (signed_real (signF32UI a) (f32_mag a)))"

definition f64_sig :: "float64_t \<Rightarrow> nat" where
  "f64_sig a = unat (fracF64UI a) + (if expF64UI a = 0 then 0 else 2 ^ 52)"

definition f64_mag :: "float64_t \<Rightarrow> real" where
  "f64_mag a = real (f64_sig a) * 2 ^ nat (max 1 (expF64UI a)) / 2 ^ 1075"

definition f64_val :: "float64_t \<Rightarrow> fpval" where
  "f64_val a =
     (if expF64UI a = 0x7FF then if fracF64UI a \<noteq> 0 then FNaN else FInf (signF64UI a)
      else FFin (signed_real (signF64UI a) (f64_mag a)))"

text \<open>What a conversion to integers between \<open>lo\<close> and \<open>hi\<close> returns, and the flags it raises.\<close>

fun cvt_fp :: "int \<Rightarrow> int \<Rightarrow> bool \<Rightarrow> riscvRMDesc \<Rightarrow> fpval \<Rightarrow> int \<times> uns8" where
  "cvt_fp lo hi exact m FNaN = (hi, softfloat_flag_invalid)"
| "cvt_fp lo hi exact m (FInf sign) = ((if sign then lo else hi), softfloat_flag_invalid)"
| "cvt_fp lo hi exact m (FFin x) = cvt_int lo hi exact m x"

section \<open>Fields\<close>

lemma f32_fields:
  "0 \<le> expF32UI a" "expF32UI a \<le> 0xFF" "unat (fracF32UI a) < 2 ^ 23"
proof -
  have "uint (drop_bit 23 a AND 0xFF) = uint (drop_bit 23 a) mod 2 ^ 8"
    using uint_take_bit [of 8 "drop_bit 23 a"] by (simp add: take_bit_eq_mask mask_eq_exp_minus_1)
  then show "0 \<le> expF32UI a" "expF32UI a \<le> 0xFF" by (simp_all add: expF32UI_def)
  have "unat (a AND 0x007FFFFF) = unat a mod 2 ^ 23"
    using unat_take_bit [of 23 a] by (simp add: take_bit_eq_mask mask_eq_exp_minus_1)
  then show "unat (fracF32UI a) < 2 ^ 23" by (simp add: fracF32UI_def)
qed

lemma f64_fields:
  "0 \<le> expF64UI a" "expF64UI a \<le> 0x7FF" "unat (fracF64UI a) < 2 ^ 52"
proof -
  have "uint (drop_bit 52 a AND 0x7FF) = uint (drop_bit 52 a) mod 2 ^ 11"
    using uint_take_bit [of 11 "drop_bit 52 a"] by (simp add: take_bit_eq_mask mask_eq_exp_minus_1)
  then show "0 \<le> expF64UI a" "expF64UI a \<le> 0x7FF" by (simp_all add: expF64UI_def)
  have "unat (a AND 0x000FFFFFFFFFFFFF) = unat a mod 2 ^ 52"
    using unat_take_bit [of 52 a] by (simp add: take_bit_eq_mask mask_eq_exp_minus_1)
  then show "unat (fracF64UI a) < 2 ^ 52" by (simp add: fracF64UI_def)
qed

text \<open>Setting the hidden bit above a fraction adds it.\<close>

lemma unat_or_bit:
  fixes x :: "'a::len word"
  assumes "unat x < 2 ^ n" "n < LENGTH('a)"
  shows "unat (x OR 2 ^ n) = unat x + 2 ^ n"
proof -
  have "x AND 2 ^ n = 0"
  proof -
    have "take_bit n x = x" using assms(1) by (simp add: word_unat_eq_iff unat_take_bit)
    then have "\<not> bit x n" by (metis bit_take_bit_iff less_irrefl)
    then show ?thesis by (auto intro!: bit_word_eqI simp: bit_simps bit_exp_iff)
  qed
  then have "x OR 2 ^ n = x + 2 ^ n" by (simp add: disjunctive_add_eq_or)
  moreover have "unat x + 2 ^ n < 2 ^ LENGTH('a)"
  proof -
    have "unat x + 2 ^ n < 2 ^ Suc n" using assms(1) by simp
    also have "\<dots> \<le> 2 ^ LENGTH('a)" using assms(2) by (intro power_increasing) simp_all
    finally show ?thesis .
  qed
  moreover have "unat (2 ^ n :: 'a word) = 2 ^ n"
    using assms(2) unsigned_of_nat [where 'b = 'a and 'a = nat, of "2 ^ n"] by (simp add: take_bit_nat_eq_self)
  ultimately show ?thesis by (simp add: unat_word_ariths)
qed

lemma unat_f32_sig:
  "unat (if expF32UI a \<noteq> 0 then fracF32UI a OR 0x00800000 else fracF32UI a) = f32_sig a"
  using unat_or_bit [OF f32_fields(3) [of a]] by (simp add: f32_sig_def)

lemma unat_f64_sig:
  "unat (if expF64UI a \<noteq> 0 then fracF64UI a OR 0x0010000000000000 else fracF64UI a) = f64_sig a"
  using unat_or_bit [OF f64_fields(3) [of a]] by (simp add: f64_sig_def)

lemma f32_sig_range: "f32_sig a < 2 ^ 24" "expF32UI a \<noteq> 0 \<Longrightarrow> 2 ^ 23 \<le> f32_sig a" "expF32UI a = 0 \<Longrightarrow> f32_sig a < 2 ^ 23"
  using f32_fields(3) [of a] by (simp_all add: f32_sig_def)

lemma f64_sig_range: "f64_sig a < 2 ^ 53" "expF64UI a \<noteq> 0 \<Longrightarrow> 2 ^ 52 \<le> f64_sig a" "expF64UI a = 0 \<Longrightarrow> f64_sig a < 2 ^ 52"
  using f64_fields(3) [of a] by (simp_all add: f64_sig_def)

section \<open>Values out of range\<close>

lemma fp_round_bounds:
  assumes "rm_ok m"
  shows "of_int n \<le> x \<Longrightarrow> n \<le> fp_round m x" "x \<le> of_int n \<Longrightarrow> fp_round m x \<le> n"
proof -
  show "n \<le> fp_round m x" if "of_int n \<le> x"
  proof -
    have a: "n \<le> \<lfloor>x\<rfloor>" using that by (simp add: le_floor_iff)
    then have b: "n \<le> \<lfloor>x\<rfloor> + 1" by linarith
    have c: "n \<le> \<lfloor>x + 1 / 2\<rfloor>" "n \<le> \<lceil>x\<rceil>" "x < 0 \<Longrightarrow> n \<le> \<lceil>x - 1 / 2\<rceil>"
      using that by (simp_all add: le_floor_iff le_ceiling_iff)
    show ?thesis using assms by (auto simp: rm_ok_def a b c)
  qed
  show "fp_round m x \<le> n" if "x \<le> of_int n"
  proof -
    have "\<lfloor>x\<rfloor> < n" if "of_int \<lfloor>x\<rfloor> < x" using that \<open>x \<le> of_int n\<close> by linarith
    moreover have "of_int \<lfloor>x\<rfloor> < x" if "x - of_int \<lfloor>x\<rfloor> \<ge> 1 / 2" using that by linarith
    ultimately show ?thesis using assms that by (fastforce simp: rm_ok_def floor_le_iff ceiling_le_iff)
  qed
qed

lemma cvt_int_big:
  assumes "rm_ok m" "lo \<le> hi"
  shows "of_int hi + 1 \<le> x \<Longrightarrow> cvt_int lo hi exact m x = (hi, softfloat_flag_invalid)"
    "x \<le> of_int lo - 1 \<Longrightarrow> cvt_int lo hi exact m x = (lo, softfloat_flag_invalid)"
  using fp_round_bounds(1) [OF assms(1), of "hi + 1" x] fp_round_bounds(2) [OF assms(1), of x "lo - 1"] assms(2)
  by (auto simp: cvt_int_def Let_def)

section \<open>Shifted significands\<close>

lemma uint_unat:
  fixes x :: "'a::len word"
  shows "uint x < 2 ^ k \<longleftrightarrow> unat x < 2 ^ k" "2 ^ k \<le> uint x \<longleftrightarrow> 2 ^ k \<le> unat x" "uint x = int n \<longleftrightarrow> unat x = n"
proof -
  have u: "uint x = int (unat x)" by simp
  show "uint x < 2 ^ k \<longleftrightarrow> unat x < 2 ^ k" "2 ^ k \<le> uint x \<longleftrightarrow> 2 ^ k \<le> unat x" "uint x = int n \<longleftrightarrow> unat x = n"
    unfolding u by (simp_all only: of_nat_eq_iff flip: of_nat_less_iff [where 'a = int] of_nat_le_iff [where 'a = int])
      (simp_all only: of_nat_power of_nat_numeral)
qed

lemma jam_le: "jam n d \<le> n + 1"
proof -
  have "jam n d \<le> n div 2 ^ d + 1" unfolding jam_def by (simp add: or_one_eq del: One_nat_def)
  also have "\<dots> \<le> n + 1" by simp
  finally show ?thesis .
qed

lemma jam_far: "n < 2 ^ d \<Longrightarrow> jam n d = of_bool (n \<noteq> 0)"
  by (simp add: jam_def)

text \<open>A subnormal number is so small that only its sticky bit is left, whatever the distance.\<close>

lemma sticky_tiny:
  assumes "X = 0 \<longleftrightarrow> n = 0" "0 \<le> X" "X < of_int u" "1 < u"
  shows "sticky u X (of_bool (n \<noteq> 0))"
proof (cases "n = 0")
  case True
  then show ?thesis using assms(1) sticky_int [of u 0] by simp
next
  case False
  with assms have "0 < X" by auto
  with False assms show ?thesis by (simp add: sticky_small)
qed

lemma power_shift: "e \<le> d \<Longrightarrow> x / 2 ^ (d - e) = x * 2 ^ e / 2 ^ d" for x :: real
  by (simp add: power_diff)

lemma nat_power_real: "n < 2 ^ p \<Longrightarrow> real n < 2 ^ p"
  by (metis of_nat_less_iff of_nat_numeral of_nat_power)

lemma sticky_jam_value:
  assumes "n < 2 ^ p" "p < c" "e < c + s"
  shows "sticky (2 ^ 11) (real n * 2 ^ max 1 e / 2 ^ c) (int (jam (n * 2 ^ s) (c + s - e)))"
proof (cases "e = 0")
  case True
  have "n * 2 ^ s < 2 ^ c * 2 ^ s"
    using assms(1,2) by (simp add: less_le_trans [OF _ power_increasing])
  then have J: "int (jam (n * 2 ^ s) (c + s - e)) = of_bool (n \<noteq> 0)"
    using True by (simp add: jam_far power_add)
  have "real n < 2 ^ c" using assms(1,2) nat_power_real by (meson less_imp_le_nat less_le_trans one_le_numeral power_increasing)
  then have "real n * 2 / 2 ^ c < 2" by (simp add: field_simps)
  then show ?thesis unfolding J using True by (intro sticky_tiny) simp_all
next
  case False
  then have "real n * 2 ^ max 1 e / 2 ^ c = real n * 2 ^ s * 2 ^ e / 2 ^ (c + s)"
    by (simp add: max_def power_add)
  also have "\<dots> = real (n * 2 ^ s) / 2 ^ (c + s - e)" using assms(3) by (simp add: power_shift)
  finally show ?thesis using sticky_jam [of "n * 2 ^ s" "c + s - e"] by (auto intro: sticky_mono)
qed

lemma sticky_ext_value:
  fixes w :: uns64
  assumes "n < 2 ^ p" "p + 2 \<le> c" "64 < c + s" "e < c + s" "unat w = n * 2 ^ s"
  shows "sticky (2 ^ 63) (real n * 2 ^ max 1 e / 2 ^ c * 2 ^ 64)
    (ext_val (softfloat_shiftRightJam64Extra w 0 (c + s - e)))"
proof (cases "e = 0")
  case True
  have J: "ext_val (softfloat_shiftRightJam64Extra w 0 (c + s - e)) = of_bool (n \<noteq> 0)"
    using True assms(3,5) by (simp add: softfloat_shiftRightJam64Extra_def ext_val_def word_unat_eq_iff [of w])
  have "real n < 2 ^ p" using assms(1) by (rule nat_power_real)
  then have "real n * 2 ^ 2 < 2 ^ (p + 2)" by (simp add: power_add)
  also have "\<dots> \<le> 2 ^ c" using assms(2) by (intro power_increasing) simp_all
  finally have "real n * 2 / 2 ^ c * 2 ^ 64 < 2 ^ 63" by (simp add: field_simps)
  then show ?thesis unfolding J using True by (intro sticky_tiny) simp_all
next
  case False
  then have "real n * 2 ^ max 1 e / 2 ^ c * 2 ^ 64 = real n * 2 ^ s * 2 ^ 64 * 2 ^ e / 2 ^ (c + s)"
    by (simp add: max_def power_add)
  also have "\<dots> = real (unat w) * 2 ^ 64 / 2 ^ (c + s - e)" using assms(4,5) by (simp add: power_shift)
  finally show ?thesis using sticky_shiftRightJam64Extra [of "c + s - e" w] assms(4) by simp
qed

section \<open>Conversion to 32 bits\<close>

text \<open>What the two routines that round to 32 bits promise: the integer nearest in the given mode to
  a magnitude in units of \<open>2 ^ - 12\<close> that may be sticky, or the bound it exceeds.\<close>

locale round_routine32 =
  fixes R :: "bool \<Rightarrow> uns64 \<Rightarrow> riscvRMDesc \<Rightarrow> bool \<Rightarrow> softfloat \<Rightarrow> uns32 \<times> softfloat"
    and lo hi :: int
  assumes R_cvt: "\<And>m X sig sign exact st. rm_ok m \<Longrightarrow> sticky (2 ^ 11) X (uint sig) \<Longrightarrow> 0 \<le> X \<Longrightarrow> uint sig < 2 ^ 63 \<Longrightarrow>
      R sign sig m exact st = cvt_ret (cvt_int lo hi exact m (signed_real sign (X / 2 ^ 12))) st"
    and bounds: "lo \<le> hi" "- (2 ^ 40) < lo" "hi < 2 ^ 40"
begin

lemma cvt_large:
  assumes "rm_ok m" "2 ^ 40 \<le> x"
  shows "cvt_int lo hi exact m (signed_real sign x) = ((if sign then lo else hi), softfloat_flag_invalid)"
proof -
  have "of_int (hi + 1) \<le> (of_int (2 ^ 40) :: real)" "of_int (- (2 ^ 40)) \<le> (of_int (lo - 1) :: real)"
    using bounds(2,3) by (simp_all only: of_int_le_iff)
  then have "of_int hi + 1 \<le> x" "- x \<le> of_int lo - 1" using assms(2) by simp_all
  with cvt_int_big [OF assms(1) bounds(1)] show ?thesis by simp
qed

lemma R_large:
  assumes "rm_ok m" "2 ^ 52 \<le> uint sig" "uint sig < 2 ^ 63"
  shows "R sign sig m exact st = cvt_ret ((if sign then lo else hi), softfloat_flag_invalid) st"
proof -
  have "of_int (2 ^ 52) \<le> (of_int (uint sig) :: real)" using assms(2) by (simp only: of_int_le_iff)
  then have "2 ^ 40 \<le> (of_int (uint sig) / 2 ^ 12 :: real)" by simp
  then show ?thesis
    unfolding R_cvt [OF assms(1) sticky_int uint_ge_0 [THEN of_int_0_le_iff [THEN iffD2]] assms(3)]
    by (simp add: cvt_large assms(1) del: of_int_uint)
qed

lemma convert:
  assumes "rm_ok m" "uint sig < 2 ^ 63" "0 \<le> mag"
    and "\<not> big \<Longrightarrow> sticky (2 ^ 11) (mag * 2 ^ 12) (uint sig)"
    and "big \<Longrightarrow> 2 ^ 52 \<le> uint sig \<and> 2 ^ 40 \<le> mag"
  shows "R sign sig m exact st = cvt_ret (cvt_int lo hi exact m (signed_real sign mag)) st"
proof (cases big)
  case True
  with assms(5) have "2 ^ 52 \<le> uint sig" "2 ^ 40 \<le> mag" by simp_all
  then show ?thesis by (simp only: R_large [OF assms(1) _ assms(2)] cvt_large [OF assms(1)])
next
  case False
  from R_cvt [OF assms(1) assms(4) [OF this] _ assms(2)] assms(3) show ?thesis by simp
qed

end

interpretation I32: round_routine32 softfloat_roundToI32 "- (2 ^ 31)" "2 ^ 31 - 1"
  by unfold_locales (simp_all add: roundToI32_cvt)

interpretation UI32: round_routine32 softfloat_roundToUI32 0 "2 ^ 32 - 1"
  by unfold_locales (simp_all add: roundToUI32_cvt)

lemma unat_ucast_push:
  fixes x :: uns32
  assumes "unat x < 2 ^ p" "p + k \<le> 64"
  shows "unat (push_bit k (ucast x) :: uns64) = unat x * 2 ^ k"
proof -
  have "unat x * 2 ^ k < 2 ^ p * 2 ^ k" using assms(1) by simp
  also have "\<dots> \<le> 2 ^ 64" unfolding power_add [symmetric] using assms(2) by (intro power_increasing) simp_all
  finally have "unat x * 2 ^ k < 2 ^ 64" .
  moreover have "unat (ucast x :: uns64) = unat x"
    using unsigned_less [where 'a = nat, of x] by (simp add: unsigned_ucast_eq take_bit_nat_eq_self)
  ultimately show ?thesis
    unfolding unsigned_push_bit_eq by (simp add: take_bit_nat_eq_self push_bit_eq_mult)
qed

lemma unat_shiftRightJam64_int:
  assumes "0 < d"
  shows "unat (softfloat_shiftRightJam64 x (nat d)) = jam (unat x) (nat d)"
  using assms by (intro unat_shiftRightJam64) simp

lemma f32_mag_nonneg: "0 \<le> f32_mag a"
  by (simp add: f32_mag_def)

lemma f64_mag_nonneg: "0 \<le> f64_mag a"
  by (simp add: f64_mag_def)

lemma f32_mag_ge:
  assumes "0 < k" "int k \<le> expF32UI a"
  shows "2 ^ 23 * 2 ^ k / 2 ^ 150 \<le> f32_mag a"
proof -
  have "2 ^ 23 \<le> f32_sig a" using assms by (intro f32_sig_range(2)) simp
  then have "real (2 ^ 23) \<le> real (f32_sig a)" by (simp only: of_nat_le_iff)
  moreover have "(2 :: real) ^ k \<le> 2 ^ nat (max 1 (expF32UI a))" using assms by (intro power_increasing) simp_all
  ultimately have "2 ^ 23 * 2 ^ k \<le> real (f32_sig a) * 2 ^ nat (max 1 (expF32UI a))"
    by (intro mult_mono) simp_all
  then show ?thesis unfolding f32_mag_def by (intro divide_right_mono) simp_all
qed

lemma f64_mag_ge:
  assumes "0 < k" "int k \<le> expF64UI a"
  shows "2 ^ 52 * 2 ^ k / 2 ^ 1075 \<le> f64_mag a"
proof -
  have "2 ^ 52 \<le> f64_sig a" using assms by (intro f64_sig_range(2)) simp
  then have "real (2 ^ 52) \<le> real (f64_sig a)" by (simp only: of_nat_le_iff)
  moreover have "(2 :: real) ^ k \<le> 2 ^ nat (max 1 (expF64UI a))" using assms by (intro power_increasing) simp_all
  ultimately have "2 ^ 52 * 2 ^ k \<le> real (f64_sig a) * 2 ^ nat (max 1 (expF64UI a))"
    by (intro mult_mono) simp_all
  then show ?thesis unfolding f64_mag_def by (intro divide_right_mono) simp_all
qed

lemma f32_mag_big: "0xAA \<le> expF32UI a \<Longrightarrow> 2 ^ 40 \<le> f32_mag a"
  using f32_mag_ge [of 170 a] by simp

lemma f64_mag_big: "0x427 \<le> expF64UI a \<Longrightarrow> 2 ^ 40 \<le> f64_mag a"
  using f64_mag_ge [of 1063 a] by simp

text \<open>The significand that the conversions from single precision pass on.\<close>

definition f32_shifted :: "float32_t \<Rightarrow> uns64" where
  "f32_shifted a =
     (let sig64 = push_bit 32 (ucast (if expF32UI a \<noteq> 0 then fracF32UI a OR 0x00800000 else fracF32UI a));
          shiftDist = 0xAA - expF32UI a
      in if 0 < shiftDist then softfloat_shiftRightJam64 sig64 (nat shiftDist) else sig64)"

lemma f32_shifted_props:
  "uint (f32_shifted a) < 2 ^ 63"
  "\<not> 0xAA \<le> expF32UI a \<Longrightarrow> sticky (2 ^ 11) (f32_mag a * 2 ^ 12) (uint (f32_shifted a))"
  "0xAA \<le> expF32UI a \<Longrightarrow> 2 ^ 52 \<le> uint (f32_shifted a)"
proof -
  define x :: uns64 where "x = push_bit 32 (ucast (if expF32UI a \<noteq> 0 then fracF32UI a OR 0x00800000 else fracF32UI a))"
  have x: "unat x = f32_sig a * 2 ^ 32"
    unfolding x_def unat_f32_sig [of a, symmetric]
    by (rule unat_ucast_push [where p = 24]) (unfold unat_f32_sig, rule f32_sig_range(1), simp)
  have sh: "unat (f32_shifted a) = (if expF32UI a < 0xAA then jam (f32_sig a * 2 ^ 32) (nat (0xAA - expF32UI a)) else f32_sig a * 2 ^ 32)"
    unfolding f32_shifted_def Let_def x_def [symmetric] using unat_shiftRightJam64_int [of "0xAA - expF32UI a" x] x by simp
  have "unat (f32_shifted a) \<le> f32_sig a * 2 ^ 32 + 1"
    unfolding sh using jam_le by simp
  also have "\<dots> < 2 ^ 63" using f32_sig_range(1) [of a] by simp
  finally show "uint (f32_shifted a) < 2 ^ 63" by (simp only: uint_unat(1))
  show "2 ^ 52 \<le> uint (f32_shifted a)" if "0xAA \<le> expF32UI a"
    unfolding uint_unat(2) sh using that f32_sig_range(2) [of a] by simp
  show "sticky (2 ^ 11) (f32_mag a * 2 ^ 12) (uint (f32_shifted a))" if "\<not> 0xAA \<le> expF32UI a"
  proof -
    have e: "nat (max 1 (expF32UI a)) = max 1 (nat (expF32UI a))" "nat (0xAA - expF32UI a) = 138 + 32 - nat (expF32UI a)"
      using that f32_fields(1) [of a] by (simp_all add: nat_diff_distrib max_def le_nat_iff)
    have "f32_mag a * 2 ^ 12 = real (f32_sig a) * 2 ^ max 1 (nat (expF32UI a)) / 2 ^ 138"
      by (simp add: f32_mag_def e)
    moreover have "uint (f32_shifted a) = int (jam (f32_sig a * 2 ^ 32) (138 + 32 - nat (expF32UI a)))"
      unfolding uint_unat(3) sh e(2) using that by simp
    ultimately show ?thesis
      by (simp only:) (rule sticky_jam_value [OF f32_sig_range(1)]; use that in simp)
  qed
qed

definition f64_shifted :: "float64_t \<Rightarrow> uns64" where
  "f64_shifted a =
     (let sig = (if expF64UI a \<noteq> 0 then fracF64UI a OR 0x0010000000000000 else fracF64UI a);
          shiftDist = 0x427 - expF64UI a
      in if 0 < shiftDist then softfloat_shiftRightJam64 sig (nat shiftDist) else sig)"

lemma f64_shifted_props:
  "uint (f64_shifted a) < 2 ^ 63"
  "\<not> 0x427 \<le> expF64UI a \<Longrightarrow> sticky (2 ^ 11) (f64_mag a * 2 ^ 12) (uint (f64_shifted a))"
  "0x427 \<le> expF64UI a \<Longrightarrow> 2 ^ 52 \<le> uint (f64_shifted a)"
proof -
  have sh: "unat (f64_shifted a) = (if expF64UI a < 0x427 then jam (f64_sig a) (nat (0x427 - expF64UI a)) else f64_sig a)"
    unfolding f64_shifted_def Let_def using unat_shiftRightJam64_int [of "0x427 - expF64UI a"] unat_f64_sig [of a]
    by (auto split: if_splits)
  have "unat (f64_shifted a) \<le> f64_sig a + 1"
    unfolding sh using jam_le by simp
  also have "\<dots> < 2 ^ 63" using f64_sig_range(1) [of a] by simp
  finally show "uint (f64_shifted a) < 2 ^ 63" by (simp only: uint_unat(1))
  show "2 ^ 52 \<le> uint (f64_shifted a)" if "0x427 \<le> expF64UI a"
    unfolding uint_unat(2) sh using that f64_sig_range(2) [of a] by simp
  show "sticky (2 ^ 11) (f64_mag a * 2 ^ 12) (uint (f64_shifted a))" if "\<not> 0x427 \<le> expF64UI a"
  proof -
    have e: "nat (max 1 (expF64UI a)) = max 1 (nat (expF64UI a))" "nat (0x427 - expF64UI a) = 0x427 + 0 - nat (expF64UI a)"
      using that f64_fields(1) [of a] by (simp_all add: nat_diff_distrib max_def le_nat_iff)
    have "f64_mag a * 2 ^ 12 = real (f64_sig a) * 2 ^ max 1 (nat (expF64UI a)) / 2 ^ 0x427"
      by (simp add: f64_mag_def e)
    moreover have "uint (f64_shifted a) = int (jam (f64_sig a * 2 ^ 0) (0x427 + 0 - nat (expF64UI a)))"
      unfolding uint_unat(3) sh e(2) using that by simp
    ultimately show ?thesis
      by (simp only:) (rule sticky_jam_value [OF f64_sig_range(1)]; use that in simp)
  qed
qed

text \<open>Both formats, through either routine.\<close>

context round_routine32
begin

lemma convert_f32:
  assumes "rm_ok m"
  shows "R (if expF32UI a = 0xFF \<and> fracF32UI a \<noteq> 0 then False else signF32UI a) (f32_shifted a) m exact st =
    cvt_ret (cvt_fp lo hi exact m (f32_val a)) st"
proof (cases "expF32UI a = 0xFF")
  case True
  then show ?thesis
    using R_large [OF assms f32_shifted_props(3,1)] by (simp add: f32_val_def)
next
  case False
  then show ?thesis
    using convert [OF assms f32_shifted_props(1) f32_mag_nonneg f32_shifted_props(2)]
      f32_shifted_props(3) f32_mag_big by (simp add: f32_val_def)
qed

lemma convert_f64:
  assumes "rm_ok m"
  shows "R (if expF64UI a = 0x7FF \<and> fracF64UI a \<noteq> 0 then False else signF64UI a) (f64_shifted a) m exact st =
    cvt_ret (cvt_fp lo hi exact m (f64_val a)) st"
proof (cases "expF64UI a = 0x7FF")
  case True
  then show ?thesis
    using R_large [OF assms f64_shifted_props(3,1)] by (simp add: f64_val_def)
next
  case False
  then show ?thesis
    using convert [OF assms f64_shifted_props(1) f64_mag_nonneg f64_shifted_props(2)]
      f64_shifted_props(3) f64_mag_big by (simp add: f64_val_def)
qed

end

lemma to_32_correct:
  assumes "rm_ok m"
  shows "f32_to_i32 a m exact st = cvt_ret (cvt_fp (- (2 ^ 31)) (2 ^ 31 - 1) exact m (f32_val a)) st"
    "f32_to_ui32 a m exact st = cvt_ret (cvt_fp 0 (2 ^ 32 - 1) exact m (f32_val a)) st"
    "f64_to_i32 b m exact st = cvt_ret (cvt_fp (- (2 ^ 31)) (2 ^ 31 - 1) exact m (f64_val b)) st"
    "f64_to_ui32 b m exact st = cvt_ret (cvt_fp 0 (2 ^ 32 - 1) exact m (f64_val b)) st"
  using I32.convert_f32 [OF assms, of a exact st] UI32.convert_f32 [OF assms, of a exact st]
    I32.convert_f64 [OF assms, of b exact st] UI32.convert_f64 [OF assms, of b exact st]
  by (simp_all only: f32_to_i32_def f32_to_ui32_def f64_to_i32_def f64_to_ui32_def f32_shifted_def f64_shifted_def Let_def)

section \<open>Conversion to 64 bits\<close>

text \<open>The promise of the routines that round to 64 bits; the magnitude is in units of \<open>2 ^ - 64\<close>.\<close>

locale round_routine64 =
  fixes R :: "bool \<Rightarrow> uns64 \<Rightarrow> uns64 \<Rightarrow> riscvRMDesc \<Rightarrow> bool \<Rightarrow> softfloat \<Rightarrow> uns64 \<times> softfloat"
    and lo hi :: int
  assumes R_cvt: "\<And>m X sig sigExtra sign exact st. rm_ok m \<Longrightarrow> sticky (2 ^ 63) X (uint sig * 2 ^ 64 + uint sigExtra) \<Longrightarrow> 0 \<le> X \<Longrightarrow>
      R sign sig sigExtra m exact st = cvt_ret (cvt_int lo hi exact m (signed_real sign (X / 2 ^ 64))) st"
    and bounds: "lo \<le> hi" "- (2 ^ 64) < lo" "hi < 2 ^ 64"
begin

lemma cvt_large:
  assumes "rm_ok m" "2 ^ 64 \<le> x"
  shows "cvt_int lo hi exact m (signed_real sign x) = ((if sign then lo else hi), softfloat_flag_invalid)"
proof -
  have "of_int (hi + 1) \<le> (of_int (2 ^ 64) :: real)" "of_int (- (2 ^ 64)) \<le> (of_int (lo - 1) :: real)"
    using bounds(2,3) by (simp_all only: of_int_le_iff)
  then have "of_int hi + 1 \<le> x" "- x \<le> of_int lo - 1" using assms(2) by simp_all
  with cvt_int_big [OF assms(1) bounds(1)] show ?thesis by simp
qed

lemma convert:
  assumes "rm_ok m" "0 \<le> mag" "sticky (2 ^ 63) (mag * 2 ^ 64) (ext_val e)"
  shows "R sign (ue_v e) (ue_extra e) m exact st = cvt_ret (cvt_int lo hi exact m (signed_real sign mag)) st"
  using R_cvt [OF assms(1), of "mag * 2 ^ 64" "ue_v e" "ue_extra e" sign exact st] assms(2,3)
  by (simp add: ext_val_def)

end

interpretation I64: round_routine64 softfloat_roundToI64 "- (2 ^ 63)" "2 ^ 63 - 1"
  by unfold_locales (simp_all add: roundToI64_cvt)

interpretation UI64: round_routine64 softfloat_roundToUI64 0 "2 ^ 64 - 1"
  by unfold_locales (simp_all add: roundToUI64_cvt)

text \<open>The fixed-point numbers that the conversions pass on.\<close>

definition f32_extended :: "float32_t \<Rightarrow> uint64_extra" where
  "f32_extended a =
     (let sig64 = push_bit 40 (ucast (if expF32UI a \<noteq> 0 then fracF32UI a OR 0x00800000 else fracF32UI a));
          shiftDist = 0xBE - expF32UI a
      in if shiftDist \<noteq> 0 then softfloat_shiftRightJam64Extra sig64 0 (nat shiftDist)
         else \<lparr>ue_extra = 0, ue_v = sig64\<rparr>)"

definition f64_extended :: "float64_t \<Rightarrow> uint64_extra" where
  "f64_extended a =
     (let sig = (if expF64UI a \<noteq> 0 then fracF64UI a OR 0x0010000000000000 else fracF64UI a);
          shiftDist = 0x433 - expF64UI a
      in if shiftDist \<le> 0 then \<lparr>ue_extra = 0, ue_v = push_bit (nat (- shiftDist)) sig\<rparr>
         else softfloat_shiftRightJam64Extra sig 0 (nat shiftDist))"

lemma f32_extended_sticky:
  assumes "expF32UI a \<le> 0xBE"
  shows "sticky (2 ^ 63) (f32_mag a * 2 ^ 64) (ext_val (f32_extended a))"
proof -
  define x :: uns64 where "x = push_bit 40 (ucast (if expF32UI a \<noteq> 0 then fracF32UI a OR 0x00800000 else fracF32UI a))"
  define e where "e = nat (expF32UI a)"
  have x: "unat x = f32_sig a * 2 ^ 40"
    unfolding x_def unat_f32_sig [of a, symmetric]
    by (rule unat_ucast_push [where p = 24]) (unfold unat_f32_sig, rule f32_sig_range(1), simp)
  have e: "nat (max 1 (expF32UI a)) = max 1 e" "nat (0xBE - expF32UI a) = 150 + 40 - e" "expF32UI a = int e" "e \<le> 0xBE"
    using assms f32_fields(1) [of a] by (simp_all add: e_def nat_diff_distrib max_def le_nat_iff)
  have mag: "f32_mag a * 2 ^ 64 = real (f32_sig a) * 2 ^ max 1 e / 2 ^ 150 * 2 ^ 64"
    by (simp add: f32_mag_def e(1))
  show ?thesis
  proof (cases "e = 0xBE")
    case True
    have "ext_val (f32_extended a) = int (unat x) * 2 ^ 64"
      unfolding f32_extended_def Let_def x_def [symmetric] using True e(3) by (simp add: ext_val_def)
    also have "\<dots> = int (f32_sig a * 2 ^ 104)" unfolding x by simp
    finally have J: "ext_val (f32_extended a) = int (f32_sig a * 2 ^ 104)" .
    have "f32_mag a * 2 ^ 64 = of_int (int (f32_sig a * 2 ^ 104))" unfolding mag True by simp
    then show ?thesis unfolding J by (simp only: sticky_int)
  next
    case False
    then have "f32_extended a = softfloat_shiftRightJam64Extra x 0 (150 + 40 - e)"
      unfolding f32_extended_def Let_def x_def [symmetric] e(2) using e(3) by simp
    then show ?thesis unfolding mag
      by (simp only:) (rule sticky_ext_value [OF f32_sig_range(1)]; use False e(4) x in simp)
  qed
qed

lemma f64_extended_sticky:
  assumes "expF64UI a \<le> 0x43E"
  shows "sticky (2 ^ 63) (f64_mag a * 2 ^ 64) (ext_val (f64_extended a))"
proof -
  define x :: uns64 where "x = (if expF64UI a \<noteq> 0 then fracF64UI a OR 0x0010000000000000 else fracF64UI a)"
  define e where "e = nat (expF64UI a)"
  have x: "unat x = f64_sig a * 2 ^ 0" unfolding x_def unat_f64_sig by simp
  have e: "nat (max 1 (expF64UI a)) = max 1 e" "expF64UI a = int e" "e \<le> 0x43E"
    using assms f64_fields(1) [of a] by (simp_all add: e_def max_def le_nat_iff)
  have mag: "f64_mag a * 2 ^ 64 = real (f64_sig a) * 2 ^ max 1 e / 2 ^ 0x433 * 2 ^ 64"
    by (simp add: f64_mag_def e(1))
  show ?thesis
  proof (cases "0x433 \<le> e")
    case True
    define d where "d = e - 0x433"
    have d: "d \<le> 11" "e = 0x433 + d" using True e(3) by (simp_all add: d_def)
    have "unat x < 2 ^ 53" using f64_sig_range(1) [of a] x by simp
    then have "unat x * 2 ^ d < 2 ^ 53 * 2 ^ d" by simp
    also have "\<dots> \<le> 2 ^ 64" unfolding power_add [symmetric] using d(1) by (intro power_increasing) simp_all
    finally have "unat (push_bit d x) = unat x * 2 ^ d"
      unfolding unsigned_push_bit_eq by (simp add: take_bit_nat_eq_self push_bit_eq_mult)
    moreover have "f64_extended a = \<lparr>ue_extra = 0, ue_v = push_bit d x\<rparr>"
      unfolding f64_extended_def Let_def x_def [symmetric] using d(2) e(2) by simp
    ultimately have J: "ext_val (f64_extended a) = int (f64_sig a * 2 ^ d * 2 ^ 64)"
      using x by (simp add: ext_val_def)
    have "f64_mag a * 2 ^ 64 = of_int (int (f64_sig a * 2 ^ d * 2 ^ 64))" unfolding mag d(2) by (simp add: power_add)
    then show ?thesis unfolding J by (simp only: sticky_int)
  next
    case False
    then have "f64_extended a = softfloat_shiftRightJam64Extra x 0 (0x433 + 0 - e)"
      unfolding f64_extended_def Let_def x_def [symmetric] using e(2) by (simp add: nat_diff_distrib)
    then show ?thesis unfolding mag
      by (simp only:) (rule sticky_ext_value [OF f64_sig_range(1)]; use False x in simp)
  qed
qed

context round_routine64
begin

lemma convert_f32:
  assumes "rm_ok m"
  shows "(if expF32UI a \<le> 0xBE then R (signF32UI a) (ue_v (f32_extended a)) (ue_extra (f32_extended a)) m exact st
      else cvt_ret ((if expF32UI a = 0xFF \<and> fracF32UI a \<noteq> 0 then hi else if signF32UI a then lo else hi),
        softfloat_flag_invalid) st) = cvt_ret (cvt_fp lo hi exact m (f32_val a)) st"
proof (cases "expF32UI a \<le> 0xBE")
  case True
  then have "expF32UI a \<noteq> 0xFF" by simp
  with True convert [OF assms f32_mag_nonneg f32_extended_sticky [OF True]] show ?thesis
    by (simp add: f32_val_def)
next
  case False
  then have "2 ^ 64 \<le> f32_mag a" using f32_mag_ge [of 191 a] by simp
  with False cvt_large [OF assms this] show ?thesis by (simp add: f32_val_def)
qed

lemma convert_f64:
  assumes "rm_ok m"
  shows "(if expF64UI a \<le> 0x43E then R (signF64UI a) (ue_v (f64_extended a)) (ue_extra (f64_extended a)) m exact st
      else cvt_ret ((if expF64UI a = 0x7FF \<and> fracF64UI a \<noteq> 0 then hi else if signF64UI a then lo else hi),
        softfloat_flag_invalid) st) = cvt_ret (cvt_fp lo hi exact m (f64_val a)) st"
proof (cases "expF64UI a \<le> 0x43E")
  case True
  then have "expF64UI a \<noteq> 0x7FF" by simp
  with True convert [OF assms f64_mag_nonneg f64_extended_sticky [OF True]] show ?thesis
    by (simp add: f64_val_def)
next
  case False
  then have "2 ^ 64 \<le> f64_mag a" using f64_mag_ge [of 1087 a] by simp
  with False cvt_large [OF assms this] show ?thesis by (simp add: f64_val_def)
qed

end

lemma to_64_correct:
  assumes "rm_ok m"
  shows "f32_to_i64 a m exact st = cvt_ret (cvt_fp (- (2 ^ 63)) (2 ^ 63 - 1) exact m (f32_val a)) st"
    "f32_to_ui64 a m exact st = cvt_ret (cvt_fp 0 (2 ^ 64 - 1) exact m (f32_val a)) st"
    "f64_to_i64 b m exact st = cvt_ret (cvt_fp (- (2 ^ 63)) (2 ^ 63 - 1) exact m (f64_val b)) st"
    "f64_to_ui64 b m exact st = cvt_ret (cvt_fp 0 (2 ^ 64 - 1) exact m (f64_val b)) st"
  subgoal unfolding I64.convert_f32 [OF assms, symmetric]
    by (simp add: f32_to_i64_def f32_extended_def Let_def cvt_ret_def)
  subgoal unfolding UI64.convert_f32 [OF assms, symmetric]
    by (simp add: f32_to_ui64_def f32_extended_def Let_def cvt_ret_def)
  subgoal unfolding I64.convert_f64 [OF assms, symmetric]
    by (simp add: f64_to_i64_def f64_extended_def Let_def cvt_ret_def)
  subgoal unfolding UI64.convert_f64 [OF assms, symmetric]
    by (simp add: f64_to_ui64_def f64_extended_def Let_def cvt_ret_def)
  done

section \<open>The conversion callbacks\<close>

lemma beforeFPInt_Some:
  assumes "beforeFPInt s rm st = Some st'" "rm = RV_RM_CURRENT \<or> rm_ok rm"
  shows "rm_ok (softfloat_roundingMode st') \<and> softfloat_exceptionFlags st' = 0 \<and>
    softfloat_detectTininess st' = softfloat_detectTininess st"
proof -
  have "rm_ok ([RV_RM_RTE, RV_RM_RTZ, RV_RM_RDN, RV_RM_RUP, RV_RM_RMM] ! n)" if "n < 5" for n
    using nth_mem [of n "[RV_RM_RTE, RV_RM_RTZ, RV_RM_RDN, RV_RM_RUP, RV_RM_RMM]"] that by (simp add: rm_ok_def)
  then show ?thesis using assms by (auto simp: beforeFPInt_def Let_def split: if_splits)
qed

lemma beforeFPCVT_Some:
  assumes "beforeFPCVT s rc st = Some st'"
  shows "rm_ok (softfloat_roundingMode st') \<and> softfloat_exceptionFlags st' = 0 \<and>
    softfloat_detectTininess st' = softfloat_detectTininess st"
  using assms unfolding beforeFPCVT_def by (rule beforeFPInt_Some) (cases rc; simp add: rm_ok_def)

text \<open>The integer register and the accrued flags after a conversion.\<close>

definition fcvt_int :: "int \<Rightarrow> int \<Rightarrow> riscvRMDesc \<Rightarrow> fpval \<Rightarrow> uns8 \<Rightarrow> 'a::len word \<times> uns8" where
  "fcvt_int lo hi m x setFlags = (let (z, flags) = cvt_fp lo hi True m x in (word_of_int z, setFlags OR flags))"

lemma fp_hooks_cvt:
  assumes "f st' = cvt_ret (cvt_fp lo hi True m x) st'" "softfloat_exceptionFlags st' = 0"
  shows "map_option (\<lambda>(r, flags, _). (r, flags)) (fp_hooks f setFlags (Some st')) = Some (fcvt_int lo hi m x setFlags)"
  using assms by (simp add: fp_hooks_def fcvt_int_def cvt_ret_def afterFP_def softfloat_raiseFlags_def split: prod.splits)

lemmas riscvFCVT_int_defs = riscvFCVTI32F32_def riscvFCVTU32F32_def riscvFCVTI32F64_def riscvFCVTU32F64_def
  riscvFCVTI64F32_def riscvFCVTU64F32_def riscvFCVTI64F64_def riscvFCVTU64F64_def

definition softfloat_example :: softfloat where
  "softfloat_example =
     \<lparr>softfloat_roundingMode = RV_RM_RTZ, softfloat_detectTininess = softfloat_tininess_afterRounding, softfloat_exceptionFlags = 0\<rparr>"

lemma beforeFPCVT_example:
  "beforeFPCVT (riscv_zero riscvConfig_zero) vmi_FPR_NEAREST softfloat_example = Some (softfloat_example\<lparr>softfloat_roundingMode := RV_RM_RTE\<rparr>)"
  by (simp add: beforeFPCVT_def beforeFPInt_def softfloat_example_def)

lemma f32_val_example: "f32_val 0x3FC00000 = FFin (3 / 2)"
  by (simp add: f32_val_def f32_mag_def f32_sig_def expF32UI_def fracF32UI_def signF32UI_def)

text \<open>C20. The four conversions from single and double precision to 32-bit integers return the value of
  the operand rounded to an integer in the mode of the instruction or, when that is dynamic, of
  \<^verbatim>\<open>frm\<close>. An integer that does not fit becomes the nearest bound with the invalid flag, a NaN becomes the
  upper bound with the invalid flag, and the inexact flag is raised exactly when the operand is in range
  and no integer; flags accrue to those already set.\<close>

theorem riscvFCVT_to_32:
  assumes "beforeFPCVT s rc st = Some st'"
  shows "map_option (\<lambda>(r, flags, _). (r, flags)) (riscvFCVTI32F32 s a rc setFlags st) =
      Some (fcvt_int (- (2 ^ 31)) (2 ^ 31 - 1) (softfloat_roundingMode st') (f32_val a) setFlags)
    \<and> map_option (\<lambda>(r, flags, _). (r, flags)) (riscvFCVTU32F32 s a rc setFlags st) =
      Some (fcvt_int 0 (2 ^ 32 - 1) (softfloat_roundingMode st') (f32_val a) setFlags)
    \<and> map_option (\<lambda>(r, flags, _). (r, flags)) (riscvFCVTI32F64 s b rc setFlags st) =
      Some (fcvt_int (- (2 ^ 31)) (2 ^ 31 - 1) (softfloat_roundingMode st') (f64_val b) setFlags)
    \<and> map_option (\<lambda>(r, flags, _). (r, flags)) (riscvFCVTU32F64 s b rc setFlags st) =
      Some (fcvt_int 0 (2 ^ 32 - 1) (softfloat_roundingMode st') (f64_val b) setFlags)"
  using beforeFPCVT_Some [OF assms] unfolding riscvFCVT_int_defs assms
  by (intro conjI) (simp_all only: fp_hooks_cvt to_32_correct)

theorem riscvFCVT_to_32_witness:
  "map_option (\<lambda>(r, flags, _). (r, flags)) (riscvFCVTI32F32 (riscv_zero riscvConfig_zero) 0x3FC00000 vmi_FPR_NEAREST 1 softfloat_example) = Some (2, 33)"
  using riscvFCVT_to_32 [OF beforeFPCVT_example, of "0x3FC00000" 1]
  by (simp add: fcvt_int_def f32_val_example cvt_int_def)

text \<open>C21. The four conversions to 64-bit integers, in the same way.\<close>

theorem riscvFCVT_to_64:
  assumes "beforeFPCVT s rc st = Some st'"
  shows "map_option (\<lambda>(r, flags, _). (r, flags)) (riscvFCVTI64F32 s a rc setFlags st) =
      Some (fcvt_int (- (2 ^ 63)) (2 ^ 63 - 1) (softfloat_roundingMode st') (f32_val a) setFlags)
    \<and> map_option (\<lambda>(r, flags, _). (r, flags)) (riscvFCVTU64F32 s a rc setFlags st) =
      Some (fcvt_int 0 (2 ^ 64 - 1) (softfloat_roundingMode st') (f32_val a) setFlags)
    \<and> map_option (\<lambda>(r, flags, _). (r, flags)) (riscvFCVTI64F64 s b rc setFlags st) =
      Some (fcvt_int (- (2 ^ 63)) (2 ^ 63 - 1) (softfloat_roundingMode st') (f64_val b) setFlags)
    \<and> map_option (\<lambda>(r, flags, _). (r, flags)) (riscvFCVTU64F64 s b rc setFlags st) =
      Some (fcvt_int 0 (2 ^ 64 - 1) (softfloat_roundingMode st') (f64_val b) setFlags)"
  using beforeFPCVT_Some [OF assms] unfolding riscvFCVT_int_defs assms
  by (intro conjI) (simp_all only: fp_hooks_cvt to_64_correct)

theorem riscvFCVT_to_64_witness:
  "map_option (\<lambda>(r, flags, _). (r, flags)) (riscvFCVTU64F32 (riscv_zero riscvConfig_zero) 0x3FC00000 vmi_FPR_NEAREST 1 softfloat_example) = Some (2, 33)"
  using riscvFCVT_to_64 [OF beforeFPCVT_example, of "0x3FC00000" 1]
  by (simp add: fcvt_int_def f32_val_example cvt_int_def)

end
