(* ===== verification/RiscvSoftFloatPack.thy ===== *)
theory RiscvSoftFloatPack
  imports RiscvSoftFloatCvt
begin

text \<open>
  Rounding a real number to a floating-point format, and the routines that round and pack a
  significand: the result is the number of the format that the rounding mode selects, with the
  overflow, underflow and inexact flags of the standard, tininess being detected after rounding.
\<close>

section \<open>Rounding to a format\<close>

text \<open>A format has \<open>p\<close> bits of precision and the smallest quantum \<open>2 powi emin\<close>. The quantum of a
  number is that of the numbers of the format next to it.\<close>

definition fp_exponent :: "real \<Rightarrow> int" where
  "fp_exponent x = \<lfloor>log 2 \<bar>x\<bar>\<rfloor>"

definition fp_quantum :: "nat \<Rightarrow> int \<Rightarrow> real \<Rightarrow> int" where
  "fp_quantum p emin x = max (fp_exponent x - (int p - 1)) emin"

definition round_to :: "riscvRMDesc \<Rightarrow> int \<Rightarrow> real \<Rightarrow> real" where
  "round_to m q x = of_int (fp_round m (x / 2 powi q)) * 2 powi q"

text \<open>A number is tiny if it rounds below the smallest normal number when the exponent is not bounded.\<close>

definition fp_tiny :: "nat \<Rightarrow> int \<Rightarrow> riscvRMDesc \<Rightarrow> real \<Rightarrow> bool" where
  "fp_tiny p emin m x \<longleftrightarrow> \<bar>round_to m (fp_exponent x - (int p - 1)) x\<bar> < 2 powi (emin + int p - 1)"

definition rounds_away :: "riscvRMDesc \<Rightarrow> bool \<Rightarrow> bool" where
  "rounds_away m sign \<longleftrightarrow> m = RV_RM_RTE \<or> m = RV_RM_RMM \<or> m = RV_RM_RUP \<and> \<not> sign \<or> m = RV_RM_RDN \<and> sign"

text \<open>The value and the flags of the correctly rounded result for a number of the given sign and
  magnitude; \<open>2 powi emax\<close> is the least power of two that is too large.\<close>

definition fp_result :: "nat \<Rightarrow> int \<Rightarrow> int \<Rightarrow> riscvRMDesc \<Rightarrow> bool \<Rightarrow> real \<Rightarrow> fpval \<times> uns8" where
  "fp_result p emin emax m sign y =
     (let x = signed_real sign y;
          z = round_to m (fp_quantum p emin x) x
      in if 2 powi emax \<le> \<bar>z\<bar>
         then ((if rounds_away m sign then FInf sign
                else FFin (signed_real sign (2 powi emax - 2 powi (emax - int p)))),
               softfloat_flag_overflow OR softfloat_flag_inexact)
         else (FFin z,
               if z = x then 0
               else if fp_tiny p emin m x then softfloat_flag_underflow OR softfloat_flag_inexact
               else softfloat_flag_inexact))"

lemma fp_exponent_eq:
  assumes "2 powi n \<le> y" "y < 2 powi (n + 1)"
  shows "fp_exponent (signed_real sign y) = n"
proof -
  have "0 < (2 :: real) powi n" by simp
  with assms(1) have "0 < y" by linarith
  then have "\<lfloor>log 2 y\<rfloor> = n"
    using assms powr_real_of_int' [of 2 "n + 1"] by (subst floor_log_eq_powr_iff) (simp_all add: powr_real_of_int')
  with \<open>0 < y\<close> show ?thesis by (simp add: fp_exponent_def)
qed

lemma sticky_jam_trans:
  assumes "sticky u X (int n)" "2 dvd u"
  shows "sticky u (X / 2 ^ d) (int (jam n d))"
  unfolding sticky_def
proof (intro allI impI)
  fix t :: int
  assume "u dvd t"
  then have "u dvd t * 2 ^ d" "2 dvd t" using assms(2) by (simp_all add: dvd_trans)
  note 1 = sticky_dvd [OF assms(1) this(1)] and 2 = sticky_dvd [OF sticky_jam \<open>2 dvd t\<close>, of n d]
  have "X / 2 ^ d < of_int t \<longleftrightarrow> X < of_int (t * 2 ^ d)" "X / 2 ^ d = of_int t \<longleftrightarrow> X = of_int (t * 2 ^ d)"
    "real n / 2 ^ d < of_int t \<longleftrightarrow> int n < t * 2 ^ d" "real n / 2 ^ d = of_int t \<longleftrightarrow> int n = t * 2 ^ d"
    by (simp_all add: field_simps) (simp_all flip: of_int_less_iff [where 'a = real] of_int_eq_iff [where 'a = real])
  with 1 2 show "(X / 2 ^ d < of_int t \<longleftrightarrow> int (jam n d) < t) \<and> (X / 2 ^ d = of_int t \<longleftrightarrow> int (jam n d) = t)"
    by simp
qed

lemma fp_round_exact_iff:
  assumes "rm_ok m"
  shows "of_int (fp_round m x) = x \<longleftrightarrow> x \<in> \<int>"
proof
  assume "x \<in> \<int>"
  then obtain n where "x = of_int n" by (elim Ints_cases)
  then show "of_int (fp_round m x) = x" using fp_round_bounds(1) [OF assms, of n x] fp_round_bounds(2) [OF assms, of x n]
    by (simp add: antisym)
qed (metis Ints_of_int)

lemma round_to_exact_iff: "rm_ok m \<Longrightarrow> round_to m q x = x \<longleftrightarrow> x / 2 powi q \<in> \<int>"
  using fp_round_exact_iff [of m "x / 2 powi q"] by (simp add: round_to_def field_simps)

lemma signed_real_divide: "signed_real sign x / c = signed_real sign (x / c)"
  by simp

text \<open>Rounding a normalized significand with \<open>p + k\<close> bits to \<open>p\<close> bits.\<close>

lemma round_mag_normal:
  assumes "rm_ok m" "2 \<le> k" "sticky (2 ^ (k - 1)) X J" "2 ^ (p + k - 1) \<le> X" "X < 2 ^ (p + k)" "1 \<le> p"
  shows "2 ^ (p - 1) \<le> round_mag m sign J k" "round_mag m sign J k \<le> 2 ^ p"
    "fp_round m (signed_real sign (X / 2 ^ k)) = (if sign then - 1 else 1) * round_mag m sign J k"
proof -
  have X0: "0 \<le> X" using assms(4) by (meson order_trans zero_le_numeral zero_le_power)
  show r: "fp_round m (signed_real sign (X / 2 ^ k)) = (if sign then - 1 else 1) * round_mag m sign J k"
    using fp_round_sticky [OF assms(1) assms(3) X0] assms(2) by simp
  have "p + k - 1 = (p - 1) + k" using assms(6) by simp
  then have "2 ^ (p - 1) \<le> X / 2 ^ k" "X / 2 ^ k \<le> 2 ^ p"
    using assms(4,5) by (simp_all add: power_add field_simps)
  then have "of_int (2 ^ (p - 1)) \<le> X / 2 ^ k" "X / 2 ^ k \<le> of_int (2 ^ p)" by simp_all
  then have "sign \<Longrightarrow> fp_round m (- (X / 2 ^ k)) \<le> - (2 ^ (p - 1))" "sign \<Longrightarrow> - (2 ^ p) \<le> fp_round m (- (X / 2 ^ k))"
    "2 ^ (p - 1) \<le> fp_round m (X / 2 ^ k)" "fp_round m (X / 2 ^ k) \<le> 2 ^ p"
    by (intro fp_round_bounds [OF assms(1)]; simp)+
  with r show "2 ^ (p - 1) \<le> round_mag m sign J k" "round_mag m sign J k \<le> 2 ^ p" by (cases sign; simp)+
qed

lemma fp_parts:
  fixes J :: nat and exp emin :: int and sign :: bool
  assumes "rm_ok m" "2 \<le> k" "1 \<le> p" "sticky (2 ^ (k - 1)) X (int J)" "2 ^ (p + k - 1) \<le> X" "X < 2 ^ (p + k)"
    and y: "y = X * 2 powi (exp + emin - int k)"
  defines "J' \<equiv> if exp < 0 then jam J (nat (- exp)) else J"
  defines "q \<equiv> max exp 0 + emin" and "N \<equiv> round_mag m sign (int J') k"
  shows "fp_quantum p emin (signed_real sign y) = q"
    "round_to m q (signed_real sign y) = signed_real sign (of_int N * 2 powi q)"
    "round_to m q (signed_real sign y) = signed_real sign y \<longleftrightarrow> J' mod 2 ^ k = 0"
    "exp < 0 \<Longrightarrow> fp_tiny p emin m (signed_real sign y) \<longleftrightarrow> exp < - 1 \<or> round_mag m sign (int J) k < 2 ^ p"
    "0 \<le> N" "N \<le> 2 ^ p" "0 \<le> exp \<Longrightarrow> 2 ^ (p - 1) \<le> N"
    "0 \<le> exp \<Longrightarrow> \<not> fp_tiny p emin m (signed_real sign y)"
proof -
  note normal = round_mag_normal [OF assms(1,2,4-6,3), of sign]
  have p2: "(2 :: real) ^ (p + k - 1) = 2 powi (int p + int k - 1)" "(2 :: real) ^ (p + k) = 2 powi (int p + int k)"
    using assms(3) by (simp_all flip: power_int_of_nat add: of_nat_diff)
  have "2 powi (exp + emin + int p - 1) = 2 powi (int p + int k - 1) * (2 powi (exp + emin - int k) :: real)"
    "2 powi (exp + emin + int p - 1 + 1) = 2 powi (int p + int k) * (2 powi (exp + emin - int k) :: real)"
    by (simp_all flip: power_int_add add: algebra_simps)
  then have "2 powi (exp + emin + int p - 1) \<le> y" "y < 2 powi (exp + emin + int p - 1 + 1)"
    unfolding y using assms(5,6) p2 by simp_all
  then have ex: "fp_exponent (signed_real sign y) = exp + emin + int p - 1" by (rule fp_exponent_eq)
  then show "fp_quantum p emin (signed_real sign y) = q"
    by (auto simp: fp_quantum_def q_def)
  define X' where "X' = (if exp < 0 then X / 2 ^ nat (- exp) else X)"
  have X0: "0 \<le> X" using assms(5) by (meson order_trans zero_le_numeral zero_le_power)
  have st': "sticky (2 ^ (k - 1)) X' (int J')"
    using assms(2,4) by (auto simp: X'_def J'_def intro!: sticky_jam_trans)
  have yq: "y / 2 powi q = X' / 2 ^ k"
  proof (cases "exp < 0")
    case True
    have "(2 :: real) powi (exp + emin - int k) = 2 powi emin / (2 ^ nat (- exp) * 2 ^ k)"
    proof -
      have "exp + emin - int k = emin - int (nat (- exp) + k)" using True by simp
      moreover have "(2 :: real) powi (emin - int d) = 2 powi emin / 2 ^ d" for d by (simp add: power_int_diff)
      ultimately show ?thesis by (simp only: power_add)
    qed
    then show ?thesis using True by (simp add: y q_def X'_def)
  next
    case False
    then show ?thesis by (simp add: y q_def X'_def power_int_diff)
  qed
  have N: "fp_round m (signed_real sign y / 2 powi q) = (if sign then - 1 else 1) * N"
    unfolding signed_real_divide yq N_def
    using fp_round_sticky [OF assms(1) st'] X0 assms(2) by (simp add: X'_def)
  then show "round_to m q (signed_real sign y) = signed_real sign (of_int N * 2 powi q)"
    by (simp add: round_to_def)
  show "round_to m q (signed_real sign y) = signed_real sign y \<longleftrightarrow> J' mod 2 ^ k = 0"
    unfolding round_to_exact_iff [OF assms(1)] signed_real_divide signed_real_Ints yq
    using Ints_sticky [OF st'] assms(2) of_nat_eq_0_iff [of "J' mod 2 ^ k", where 'a = int] by (simp add: zmod_int)
  show N0: "0 \<le> N" unfolding N_def by (rule round_mag_nonneg) simp
  show N1: "2 ^ (p - 1) \<le> N" if "0 \<le> exp" using that normal(1) by (simp add: N_def J'_def)
  show "\<not> fp_tiny p emin m (signed_real sign y)" if "0 \<le> exp"
  proof -
    have "\<bar>round_to m q (signed_real sign y)\<bar> = of_int N * 2 powi q"
      unfolding round_to_def N using N0 by (cases sign) (simp_all add: abs_mult)
    moreover have "(2 :: real) powi (emin + int p - 1) \<le> of_int N * 2 powi q"
    proof -
      have "(2 :: real) powi (emin + int p - 1) = 2 ^ (p - 1) * 2 powi emin"
        using assms(3) by (simp add: power_int_add power_int_diff power_diff)
      also have "\<dots> \<le> of_int N * 2 powi q"
      proof (rule mult_mono)
        show "(2 :: real) ^ (p - 1) \<le> of_int N" using N1 [OF that] by (metis of_int_le_iff of_int_numeral of_int_power)
        show "(2 :: real) powi emin \<le> 2 powi q" using that by (intro power_int_increasing) (simp_all add: q_def)
      qed (use N0 in simp_all)
      finally show ?thesis .
    qed
    moreover have "fp_exponent (signed_real sign y) - (int p - 1) = q" using that unfolding ex by (simp add: q_def)
    ultimately show ?thesis unfolding fp_tiny_def by simp
  qed
  have "X' / 2 ^ k \<le> of_int (2 ^ p)"
  proof -
    have "X' \<le> X" using X0 by (simp add: X'_def divide_le_eq mult_le_cancel_left1)
    then show ?thesis using assms(6) by (simp add: power_add field_simps)
  qed
  then have "fp_round m (X' / 2 ^ k) \<le> 2 ^ p" "- (2 ^ p) \<le> fp_round m (- (X' / 2 ^ k))"
    by (intro fp_round_bounds [OF assms(1)]; simp)+
  with N show "N \<le> 2 ^ p" unfolding signed_real_divide yq by (cases sign) simp_all
  show "fp_tiny p emin m (signed_real sign y) \<longleftrightarrow> exp < - 1 \<or> round_mag m sign (int J) k < 2 ^ p" if "exp < 0"
  proof -
    define M where "M = round_mag m sign (int J) k"
    have "y / 2 powi (exp + emin) = X / 2 ^ k" by (simp add: y power_int_diff)
    then have "\<bar>round_to m (exp + emin) (signed_real sign y)\<bar> = of_int M * 2 powi (exp + emin)"
      unfolding round_to_def signed_real_divide using normal M_def round_mag_nonneg [of "int J" m sign k]
      by (cases sign) (simp_all add: abs_mult)
    then have "fp_tiny p emin m (signed_real sign y) \<longleftrightarrow> of_int M * 2 powi exp * 2 powi emin < (2 :: real) powi (emin + int p - 1)"
      unfolding fp_tiny_def ex by (simp add: power_int_add mult.assoc algebra_simps)
    also have "(2 :: real) powi (emin + int p - 1) = 2 ^ (p - 1) * 2 powi emin"
      using assms(3) by (simp add: power_int_add power_int_diff power_diff)
    also have "of_int M * 2 powi exp * 2 powi emin < (2 :: real) ^ (p - 1) * 2 powi emin \<longleftrightarrow> of_int M * 2 powi exp < (2 :: real) ^ (p - 1)" by simp
    also have "\<dots> \<longleftrightarrow> exp < - 1 \<or> M < 2 ^ p"
    proof (cases "exp = - 1")
      case True
      have "of_int M < (2 :: real) ^ p \<longleftrightarrow> M < 2 ^ p" by (metis of_int_less_iff of_int_numeral of_int_power)
      moreover have "(2 :: real) ^ p = 2 * 2 ^ (p - 1)" using assms(3) by (cases p) simp_all
      ultimately show ?thesis using True by (simp add: power_int_minus mult.commute)
    next
      case False
      have "of_int M \<le> (2 :: real) ^ p" using normal(2) unfolding M_def by (metis of_int_le_iff of_int_numeral of_int_power)
      moreover have "(2 :: real) powi exp \<le> 2 powi (- 2)" using False that by (intro power_int_increasing) simp_all
      ultimately have "of_int M * 2 powi exp \<le> 2 ^ p * (2 :: real) powi (- 2)" by (intro mult_mono) simp_all
      also have "\<dots> < 2 ^ (p - 1)" using assms(3) by (cases p) (simp_all add: power_int_minus)
      finally show ?thesis using False that by simp
    qed
    finally show ?thesis unfolding M_def .
  qed
qed

text \<open>The correctly rounded result in terms of the rounded significand: \<open>emax - emin - p\<close> is the largest
  exponent field that a significand may have.\<close>

lemma fp_result_parts:
  fixes J :: nat and exp emin emax :: int and sign :: bool
  assumes "rm_ok m" "2 \<le> k" "1 \<le> p" "sticky (2 ^ (k - 1)) X (int J)" "2 ^ (p + k - 1) \<le> X" "X < 2 ^ (p + k)"
    and y: "y = X * 2 powi (exp + emin - int k)" and e: "0 < emax - emin - int p"
  defines "J' \<equiv> if exp < 0 then jam J (nat (- exp)) else J"
  defines "q \<equiv> max exp 0 + emin" and "N \<equiv> round_mag m sign (int J') k"
  shows "fp_result p emin emax m sign y =
    (if emax - emin - int p < exp \<or> exp = emax - emin - int p \<and> 2 ^ p \<le> N
     then ((if rounds_away m sign then FInf sign else FFin (signed_real sign (2 powi emax - 2 powi (emax - int p)))),
           softfloat_flag_overflow OR softfloat_flag_inexact)
     else (FFin (signed_real sign (of_int N * 2 powi q)),
           if J' mod 2 ^ k = 0 then 0
           else if exp < 0 \<and> (exp < - 1 \<or> round_mag m sign (int J) k < 2 ^ p)
           then softfloat_flag_underflow OR softfloat_flag_inexact else softfloat_flag_inexact))"
proof -
  note parts = fp_parts [OF assms(1-6) y, of sign, folded J'_def, folded q_def, folded N_def]
  have abs: "\<bar>signed_real sign (of_int N * 2 powi q)\<bar> = of_int N * 2 powi q"
    using parts(5) by (cases sign) (simp_all add: abs_mult)
  have split: "(2 :: real) powi emax = 2 powi (emax - q) * 2 powi q" by (simp flip: power_int_add)
  have "2 powi emax \<le> of_int N * (2 :: real) powi q \<longleftrightarrow> 2 powi (emax - q) \<le> (of_int N :: real)"
    unfolding split by simp
  also have "\<dots> \<longleftrightarrow> emax - emin - int p < exp \<or> exp = emax - emin - int p \<and> 2 ^ p \<le> N"
  proof -
    have N: "of_int N \<le> (2 :: real) powi int p" "0 \<le> exp \<Longrightarrow> (2 :: real) powi int (p - 1) \<le> of_int N"
      "(2 :: real) powi int p \<le> of_int N \<longleftrightarrow> 2 ^ p \<le> N"
      using parts(6,7) by (simp_all add: power_int_of_nat)
    consider "emax - emin - int p < exp" | "exp = emax - emin - int p" | "exp < emax - emin - int p" by linarith
    then show ?thesis
    proof cases
      case 1
      then have "(2 :: real) powi (emax - q) \<le> 2 powi int (p - 1)"
        using e assms(3) by (intro power_int_increasing) (simp_all add: q_def)
      also have "\<dots> \<le> of_int N" using 1 e by (intro N(2)) simp
      finally show ?thesis using 1 by blast
    next
      case 2
      then have "emax - q = int p" using e by (simp add: q_def)
      with 2 N(3) show ?thesis by simp
    next
      case 3
      then have "(2 :: real) powi int p < 2 powi (emax - q)"
        using e by (intro power_int_strict_increasing) (simp_all add: q_def max_def)
      with N(1) have "of_int N < (2 :: real) powi (emax - q)" by (rule le_less_trans)
      with 3 show ?thesis by simp
    qed
  qed
  finally have ov: "2 powi emax \<le> of_int N * (2 :: real) powi q \<longleftrightarrow>
    emax - emin - int p < exp \<or> exp = emax - emin - int p \<and> 2 ^ p \<le> N" .
  have tiny: "fp_tiny p emin m (signed_real sign y) \<longleftrightarrow> exp < 0 \<and> (exp < - 1 \<or> round_mag m sign (int J) k < 2 ^ p)"
    using parts(4,8) by (cases "exp < 0") auto
  show ?thesis
    unfolding fp_result_def Let_def parts(1,2) abs ov parts(3) [unfolded parts(2)] tiny by simp
qed

section \<open>Packing\<close>

lemma f32_fields_of:
  assumes "unat r = (if sign then 2 ^ 31 else 0) + T" "T < 2 ^ 31"
  shows "signF32UI r = sign" "expF32UI r = int (T div 2 ^ 23)" "unat (fracF32UI r) = T mod 2 ^ 23"
proof -
  have "drop_bit 31 r = 0 \<longleftrightarrow> unat r div 2 ^ 31 = 0" by (simp add: word_unat_eq_iff unat_drop_bit)
  then show "signF32UI r = sign" using assms by (simp add: signF32UI_def)
  have "unat (drop_bit 23 r AND 0xFF) = unat r div 2 ^ 23 mod 2 ^ 8"
    using unat_take_bit [of 8 "drop_bit 23 r"] by (simp add: take_bit_eq_mask mask_eq_exp_minus_1 unat_drop_bit)
  also have "unat r div 2 ^ 23 = (if sign then 2 ^ 8 else 0) + T div 2 ^ 23"
    unfolding assms(1) using div_plus_div_distrib_dvd_left [of "2 ^ 23" "2 ^ 31" T] by simp
  also have "\<dots> mod 2 ^ 8 = T div 2 ^ 23" using assms(2) by (simp add: less_mult_imp_div_less)
  finally show "expF32UI r = int (T div 2 ^ 23)" by (simp only: expF32UI_def uint_unat(3))
  have "unat (r AND 0x007FFFFF) = unat r mod 2 ^ 23"
    using unat_take_bit [of 23 r] by (simp add: take_bit_eq_mask mask_eq_exp_minus_1)
  also have "\<dots> = T mod 2 ^ 23" unfolding assms(1) using mod_mult_self4 [of "2 ^ 23" "2 ^ 8" T] by simp
  finally show "unat (fracF32UI r) = T mod 2 ^ 23" by (simp add: fracF32UI_def)
qed

text \<open>Adding a significand that still has its hidden bit to an exponent field carries into the field.\<close>

lemma pack_parts:
  fixes N e f :: nat
  assumes "N \<le> 2 ^ Suc f" "e = 0 \<or> 2 ^ f \<le> N"
  defines "T \<equiv> e * 2 ^ f + N"
  shows "real (T mod 2 ^ f + (if T div 2 ^ f = 0 then 0 else 2 ^ f)) * 2 ^ (max 1 (T div 2 ^ f)) = real N * 2 ^ (e + 1)"
proof -
  consider "N < 2 ^ f" "e = 0" | "2 ^ f \<le> N" "N < 2 ^ Suc f" | "N = 2 ^ Suc f" using assms(1,2) by linarith
  then show ?thesis
  proof cases
    case 1
    then show ?thesis by (simp add: T_def)
  next
    case 2
    then have t: "T = (N - 2 ^ f) + (e + 1) * 2 ^ f" "N - 2 ^ f < 2 ^ f" by (simp_all add: T_def)
    have "T div 2 ^ f = e + 1" unfolding t(1) using t(2) by (subst div_mult_self1) simp_all
    moreover have "T mod 2 ^ f = N - 2 ^ f" unfolding t(1) using t(2) by (simp only: mod_mult_self1 mod_less)
    ultimately show ?thesis using 2 by (simp add: of_nat_diff)
  next
    case 3
    then have "T = (e + 2) * 2 ^ f" by (simp add: T_def)
    then have "T div 2 ^ f = e + 2" "T mod 2 ^ f = 0" by simp_all
    with 3 show ?thesis by (simp add: max_def)
  qed
qed

lemma unat_packToF32UI:
  fixes exp :: int
  assumes "0 \<le> exp" "nat exp * 2 ^ 23 + unat sig < 2 ^ 31"
  shows "unat (packToF32UI sign exp sig) = (if sign then 2 ^ 31 else 0) + (nat exp * 2 ^ 23 + unat sig)"
proof -
  have "packToF32UI sign exp sig = of_nat ((if sign then 2 ^ 31 else 0) + (nat exp * 2 ^ 23 + unat sig))"
    using assms(1) by (cases sign) (simp_all add: packToF32UI_def push_bit_eq_mult of_nat_nat)
  then show ?thesis using assms(2)
    by (simp only: unsigned_of_nat) (cases sign; simp add: take_bit_nat_eq_self)
qed

lemma f32_val_pack:
  fixes exp :: int
  assumes "0 \<le> exp" "uint sig = N" "N \<le> 2 ^ 24" "exp = 0 \<or> 2 ^ 23 \<le> N" "exp * 2 ^ 23 + N < 255 * 2 ^ 23"
  shows "f32_val (packToF32UI sign exp sig) = FFin (signed_real sign (of_int N * 2 powi (exp - 149)))"
    "signF32UI (packToF32UI sign exp sig) = sign"
proof -
  define e where "e = nat exp"
  have e: "exp = int e" using assms(1) by (simp add: e_def)
  define n where "n = unat sig"
  have N: "N = int n" using assms(2) by (simp add: n_def)
  have n: "n \<le> 2 ^ Suc 23" "e = 0 \<or> 2 ^ 23 \<le> n" "e * 2 ^ 23 + n < 255 * 2 ^ 23"
    using assms(3-5) unfolding N e by simp_all
  define T where "T = e * 2 ^ 23 + n"
  have r: "unat (packToF32UI sign exp sig) = (if sign then 2 ^ 31 else 0) + T"
    using assms(1) n(3) unfolding T_def e_def n_def by (intro unat_packToF32UI) simp_all
  have T: "T < 2 ^ 31" "T div 2 ^ 23 < 255" using n(3) by (simp_all add: T_def less_mult_imp_div_less)
  note fields = f32_fields_of [OF r T(1)]
  show "signF32UI (packToF32UI sign exp sig) = sign" by (rule fields)
  have "f32_mag (packToF32UI sign exp sig) = real n * 2 ^ (e + 1) / 2 ^ 150"
    using pack_parts [OF n(1,2), folded T_def] nat_int [of "max 1 (T div 2 ^ 23)"] unfolding f32_mag_def f32_sig_def fields
    by (simp add: of_nat_max)
  also have "\<dots> = of_int N * 2 powi (exp - 149)" by (simp add: N e power_int_diff)
  finally have mag: "f32_mag (packToF32UI sign exp sig) = of_int N * 2 powi (exp - 149)" .
  show "f32_val (packToF32UI sign exp sig) = FFin (signed_real sign (of_int N * 2 powi (exp - 149)))"
    unfolding f32_val_def fields mag using T(2) by simp
qed

section \<open>Rounding a significand\<close>

lemma uint_round_sig:
  fixes sig inc :: "'a::len word"
  assumes "rm_ok m" "1 \<le> k" "k < LENGTH('a)" "uint inc = round_inc m sign k" "uint sig + 2 ^ k \<le> 2 ^ LENGTH('a)"
  shows "uint (sig + inc) = uint sig + round_inc m sign k"
    "uint (drop_bit k (sig + inc) AND NOT (of_bool (take_bit k sig XOR 2 ^ (k - 1) = 0 \<and> m = RV_RM_RTE))) =
      round_mag m sign (uint sig) k"
proof -
  show add: "uint (sig + inc) = uint sig + round_inc m sign k"
    using round_inc_range(1) [of m sign k] round_inc_range(2) [of k m sign] assms by (simp add: uint_word_ariths)
  have "take_bit k sig XOR 2 ^ (k - 1) = 0 \<longleftrightarrow> take_bit k sig = 2 ^ (k - 1)" by (metis xor.left_neutral xor_self_eq xor.assoc xor.right_neutral)
  also have "\<dots> \<longleftrightarrow> uint sig mod 2 ^ k = 2 ^ (k - 1)"
    using assms(3) unsigned_of_nat [where 'b = 'a and 'a = int, of "2 ^ (k - 1)"]
    by (simp add: word_uint_eq_iff uint_take_bit take_bit_nat_eq_self)
  finally have tie: "take_bit k sig XOR 2 ^ (k - 1) = 0 \<longleftrightarrow> uint sig mod 2 ^ k = 2 ^ (k - 1)" .
  show "uint (drop_bit k (sig + inc) AND NOT (of_bool (take_bit k sig XOR 2 ^ (k - 1) = 0 \<and> m = RV_RM_RTE))) =
      round_mag m sign (uint sig) k"
    unfolding tie round_mag_inc [OF assms(1,2)] using uint_clear_bit0 [of "drop_bit k (sig + inc)"]
    by (auto simp: uint_drop_bit add)
qed

lemma unat_shiftRightJam32:
  assumes "0 < d"
  shows "unat (softfloat_shiftRightJam32 a d) = jam (unat a) d"
proof (cases "d < 31")
  case True
  with assms have "nat (- int d mod 32) = 32 - d" by (simp add: mod_minus_eq nat_diff_distrib zmod_zminus1_eq_if)
  with True push_bit_lost [of d a] show ?thesis
    by (simp add: softfloat_shiftRightJam32_def jam_def unat_or_of_bool unat_drop_bit unat_lost)
next
  case False
  have "unat a < 2 * 2 ^ 31" using unsigned_less [of a] by simp
  also have "2 ^ 31 \<le> (2 ^ d :: nat)" using False by (intro power_increasing) simp_all
  finally have a: "unat a < 2 * 2 ^ d" by simp
  show ?thesis
  proof (cases "unat a < 2 ^ d")
    case True
    with False show ?thesis by (simp add: softfloat_shiftRightJam32_def jam_def unsigned_eq_0_iff)
  next
    case F: False
    then have "unat a div 2 ^ d = 1" using a by (simp add: div_nat_eqI)
    with F False show ?thesis by (auto simp: softfloat_shiftRightJam32_def jam_def)
  qed
qed

text \<open>A routine returns a given value and raises given flags; the sign is that of the result even when
  the value is zero.\<close>

definition f32_returns :: "softfloat \<Rightarrow> bool \<Rightarrow> fpval \<times> uns8 \<Rightarrow> float32_t \<times> softfloat \<Rightarrow> bool" where
  "f32_returns st sign R out \<longleftrightarrow>
     f32_val (fst out) = fst R \<and> signF32UI (fst out) = sign \<and> snd out = softfloat_raiseFlags (snd R) st"

abbreviation f32_result :: "riscvRMDesc \<Rightarrow> bool \<Rightarrow> real \<Rightarrow> fpval \<times> uns8" where
  "f32_result \<equiv> fp_result 24 (- 149) 128"

lemma raiseFlags_raiseFlags [simp]:
  "softfloat_raiseFlags a (softfloat_raiseFlags b st) = softfloat_raiseFlags (b OR a) st"
  by (simp add: softfloat_raiseFlags_def or.assoc)

lemma f32_max:
  "f32_returns st sign ((if away then FInf sign else FFin (signed_real sign (2 powi 128 - 2 powi 104))), flags)
     (packToF32UI sign 0xFF 0 - of_bool (\<not> away), softfloat_raiseFlags flags st)"
  by (cases sign; cases away) (simp_all add: f32_returns_def packToF32UI_def f32_val_def f32_mag_def f32_sig_def
      expF32UI_def fracF32UI_def signF32UI_def power_int_def)

text \<open>The routine without its nested conditions: the significand \<open>pack_sig32\<close> after the shift of a subnormal
  result, and \<open>pack_round32\<close> after rounding.\<close>

definition pack_inc32 :: "riscvRMDesc \<Rightarrow> bool \<Rightarrow> uns32" where
  "pack_inc32 m sign = (if m \<noteq> RV_RM_RTE \<and> m \<noteq> RV_RM_RMM
     then if m = (if sign then RV_RM_RDN else RV_RM_RUP) then 0x7F else 0 else 0x40)"

definition pack_sig32 :: "int \<Rightarrow> uns32 \<Rightarrow> uns32" where
  "pack_sig32 e sig = (if e < 0 then softfloat_shiftRightJam32 sig (nat (- e)) else sig)"

definition pack_round32 :: "riscvRMDesc \<Rightarrow> bool \<Rightarrow> uns32 \<Rightarrow> uns32" where
  "pack_round32 m sign sig =
     drop_bit 7 (sig + pack_inc32 m sign) AND NOT (of_bool ((sig AND 0x7F) XOR 0x40 = 0 \<and> m = RV_RM_RTE))"

lemma roundPackToF32_code:
  fixes exp :: int and sign :: bool and sig :: uns32 and st :: softfloat
  assumes "softfloat_detectTininess st = softfloat_tininess_afterRounding" "- (2 ^ 31) \<le> exp" "exp < 2 ^ 31"
  defines "m \<equiv> softfloat_roundingMode st"
  defines "inc \<equiv> pack_inc32 m sign" and "sig' \<equiv> pack_sig32 exp sig"
  defines "w \<equiv> pack_round32 m sign sig'"
  shows "softfloat_roundPackToF32 sign exp sig st =
    (if 0xFD < exp \<or> exp = 0xFD \<and> 0x80000000 \<le> sig + inc
     then (packToF32UI sign 0xFF 0 - of_bool (inc = 0), softfloat_raiseFlags (softfloat_flag_overflow OR softfloat_flag_inexact) st)
     else (packToF32UI sign (if w = 0 then 0 else max exp 0) w,
           softfloat_raiseFlags (if sig' AND 0x7F = 0 then 0
             else if exp < 0 \<and> (exp < - 1 \<or> sig + inc < 0x80000000) then softfloat_flag_underflow OR softfloat_flag_inexact
             else softfloat_flag_inexact) st))"
proof -
  have range: "0xFD \<le> exp mod 2 ^ 32 \<and> \<not> exp < 0 \<longleftrightarrow> 0xFD \<le> exp" "0xFD \<le> exp mod 2 ^ 32 \<and> exp < 0 \<longleftrightarrow> exp < 0"
    using assms(2,3) by (auto simp: mod_pos_pos_trivial zmod_trivial_iff) (smt (verit) mod_add_self2 mod_pos_pos_trivial)
  have inc': "(if \<not> m = RV_RM_RTE \<and> m \<noteq> RV_RM_RMM
      then if m = (if sign then RV_RM_RDN else RV_RM_RUP) then 0x7F else 0 else 0x40) = inc"
    by (simp add: inc_def pack_inc32_def)
  have ov: "0xFD \<le> exp mod 2 ^ 32 \<and> \<not> exp < 0 \<and> (0xFD < exp \<or> 0x80000000 \<le> sig + inc) \<longleftrightarrow>
      0xFD < exp \<or> exp = 0xFD \<and> 0x80000000 \<le> sig + inc" using range(1) by auto
  have w: "w = drop_bit 7 (sig' + inc) AND NOT (of_bool ((sig' AND 0x7F) XOR 0x40 = 0 \<and> m = RV_RM_RTE))"
    by (simp add: w_def pack_round32_def inc_def)
  show ?thesis
  proof (cases "exp < 0")
    case True
    then show ?thesis
      unfolding softfloat_roundPackToF32_def Let_def m_def [symmetric] inc' ov range(2)
      using assms(1) by (simp add: w sig'_def pack_sig32_def)
  next
    case False
    then show ?thesis
      unfolding softfloat_roundPackToF32_def Let_def m_def [symmetric] inc' ov range(2)
      by (simp add: w sig'_def pack_sig32_def)
  qed
qed

lemma roundPackToF32_correct:
  fixes exp :: int and sign :: bool and sig :: uns32 and st :: softfloat
  defines "m \<equiv> softfloat_roundingMode st"
  assumes "rm_ok m" "softfloat_detectTininess st = softfloat_tininess_afterRounding"
    and X: "sticky (2 ^ 6) X (int (unat sig))" "2 ^ 30 \<le> X" "X < 2 ^ 31"
    and exp: "- (2 ^ 31) \<le> exp" "exp < 2 ^ 31" and y: "y = X * 2 powi (exp - 156)"
  shows "f32_returns st sign (f32_result m sign y) (softfloat_roundPackToF32 sign exp sig st)"
proof -
  define inc where "inc = pack_inc32 m sign"
  define sig' where "sig' = pack_sig32 exp sig"
  define rb where "rb = sig' AND 0x7F"
  define w where "w = pack_round32 m sign sig'"
  define tiny where "tiny \<longleftrightarrow> exp < 0 \<and> (exp < - 1 \<or> sig + inc < 0x80000000)"
  note code = roundPackToF32_code [OF assms(3) exp, of sign sig,
      folded m_def, folded inc_def sig'_def, folded w_def rb_def, folded tiny_def]
  define J where "J = unat sig"
  define J' where "J' = (if exp < 0 then jam J (nat (- exp)) else J)"
  note XJ = X(1) [folded J_def]
  have J: "2 ^ 30 \<le> J" "J < 2 ^ 31"
    using sticky_dvd(3) [OF XJ, of "2 ^ 30"] sticky_dvd(1) [OF XJ, of "2 ^ 31"] X(2,3) by simp_all
  have sigJ: "uint sig = int J" by (simp add: uint_unat(3) J_def)
  have sig': "uint sig' = int J'"
    unfolding uint_unat(3) by (simp add: sig'_def pack_sig32_def J'_def J_def unat_shiftRightJam32)
  have J': "J' \<le> 2 ^ 31" using J jam_le [of J "nat (- exp)"] by (simp add: J'_def)
  have inc: "uint inc = round_inc m sign 7" using assms(2) by (auto simp: inc_def pack_inc32_def round_inc_def)
  have rb: "rb = take_bit 7 sig'" by (simp add: rb_def take_bit_eq_mask mask_eq_exp_minus_1)
  have "int J' mod 2 ^ 7 = int (J' mod 2 ^ 7)" by (simp add: zmod_int)
  then have rb0: "rb = 0 \<longleftrightarrow> J' mod 2 ^ 7 = 0"
    unfolding rb word_uint_eq_iff uint_take_bit sig' by simp
  have w: "uint w = round_mag m sign (int J') 7"
    using uint_round_sig(2) [OF assms(2) _ _ inc, of sig'] J' by (simp add: w_def pack_round32_def rb [unfolded rb_def] inc_def sig')
  have add: "uint (sig + inc) = int J + round_inc m sign 7"
    using uint_round_sig(1) [OF assms(2) _ _ inc, of sig] J by (simp add: sigJ)
  have big: "0x80000000 \<le> sig + inc \<longleftrightarrow> 2 ^ 24 \<le> round_mag m sign (int J) 7"
    using round_mag_ge [OF assms(2), of 7 "2 ^ 24" sign "int J"] by (simp add: word_le_def add)
  have away: "inc = 0 \<longleftrightarrow> \<not> rounds_away m sign" using assms(2) by (auto simp: inc_def pack_inc32_def rounds_away_def rm_ok_def)
  define N where "N = round_mag m sign (int J') 7"
  have big': "exp = 0xFD \<and> 0x80000000 \<le> sig + inc \<longleftrightarrow> exp = 0xFD \<and> 2 ^ 24 \<le> N"
    unfolding big N_def by (auto simp: J'_def)
  have tiny_iff: "tiny \<longleftrightarrow> exp < 0 \<and> (exp < - 1 \<or> round_mag m sign (int J) 7 < 2 ^ 24)"
    unfolding tiny_def using big by (metis not_le)
  have result: "f32_result m sign y =
    (if 0xFD < exp \<or> exp = 0xFD \<and> 2 ^ 24 \<le> N
     then ((if rounds_away m sign then FInf sign else FFin (signed_real sign (2 powi 128 - 2 powi 104))),
           softfloat_flag_overflow OR softfloat_flag_inexact)
     else (FFin (signed_real sign (of_int N * 2 powi (max exp 0 - 149))),
           if rb = 0 then 0 else if tiny then softfloat_flag_underflow OR softfloat_flag_inexact else softfloat_flag_inexact))"
    unfolding rb0 tiny_iff N_def J'_def
    using fp_result_parts [of m 7 24 X J y exp "- 149" 128 sign] assms(2) XJ X(2,3) y by (simp del: or_numerals)
  have parts: "N \<le> 2 ^ 24" "0 \<le> exp \<Longrightarrow> 2 ^ 23 \<le> N"
    unfolding N_def J'_def using fp_parts(6,7) [of m 7 24 X J y exp "- 149" sign] assms(2) XJ X(2,3) y by simp_all
  show ?thesis
  proof (cases "0xFD < exp \<or> exp = 0xFD \<and> 2 ^ 24 \<le> N")
    case True
    then show ?thesis by (simp only: result code big' away if_True f32_max)
  next
    case False
    have "f32_val (packToF32UI sign (if w = 0 then 0 else max exp 0) w) =
      FFin (signed_real sign (of_int N * 2 powi (max exp 0 - 149))) \<and>
      signF32UI (packToF32UI sign (if w = 0 then 0 else max exp 0) w) = sign"
    proof (cases "w = 0")
      case True
      with f32_val_pack [of 0 w 0 sign] w [folded N_def] show ?thesis by simp
    next
      case w0: False
      have "max exp 0 * 2 ^ 23 + N < 255 * 2 ^ 23" using False parts(1) by (auto simp: max_def)
      then show ?thesis using f32_val_pack [of "max exp 0" w N sign] w [folded N_def] parts w0 by (auto simp: max_def)
    qed
    with False show ?thesis by (simp only: result code big' f32_returns_def if_False fst_conv snd_conv simp_thms)
  qed
qed

end
