(* ===== verification/RiscvSoftFloatNorm.thy ===== *)
theory RiscvSoftFloatNorm
  imports RiscvSoftFloatPack
begin

text \<open>
  Normalization: the count of leading zeros, and the routines that normalize a significand before
  they round and pack it.
\<close>

lemma sticky_scale:
  assumes "sticky u X J"
  shows "sticky (u * 2 ^ d) (X * 2 ^ d) (J * 2 ^ d)"
  unfolding sticky_def
proof (intro allI impI)
  fix t :: int
  assume "u * 2 ^ d dvd t"
  then obtain k where t: "t = u * k * 2 ^ d" by (metis dvdE mult.assoc mult.commute)
  have "u dvd u * k" by simp
  note s = sticky_dvd(1,2) [OF assms this]
  show "(X * 2 ^ d < of_int t \<longleftrightarrow> J * 2 ^ d < t) \<and> (X * 2 ^ d = of_int t \<longleftrightarrow> J * 2 ^ d = t)"
    unfolding t using s by simp
qed

section \<open>Leading zeros\<close>

text \<open>Shifting a byte left by its entry of the table sets its top bit and loses nothing.\<close>

lemma clz8_table:
  "list_all (\<lambda>i. 2 ^ 7 \<le> i * 2 ^ (softfloat_countLeadingZeros8 ! i) \<and> (i + 1) * 2 ^ (softfloat_countLeadingZeros8 ! i) \<le> 2 ^ 8)
     [1..<256]"
  by code_simp

lemma clz8:
  assumes "1 \<le> i" "i < 256"
  shows "2 ^ 7 \<le> i * 2 ^ (softfloat_countLeadingZeros8 ! i)" "(i + 1) * 2 ^ (softfloat_countLeadingZeros8 ! i) \<le> 2 ^ 8"
  using clz8_table assms by (simp_all add: list_all_iff)

definition normal_shift :: "nat \<Rightarrow> nat \<Rightarrow> nat \<Rightarrow> bool" where
  "normal_shift n a c \<longleftrightarrow> 2 ^ n \<le> 2 * (a * 2 ^ c) \<and> a * 2 ^ c < 2 ^ n"

lemma normal_shift_add: "normal_shift n (a * 2 ^ s) c \<Longrightarrow> normal_shift n a (s + c)"
  by (simp add: normal_shift_def power_add mult.assoc)

lemma clz_top:
  fixes a :: uns32
  assumes "2 ^ 24 \<le> unat a"
  shows "normal_shift 32 (unat a) (softfloat_countLeadingZeros8 ! unat (drop_bit 24 a))"
proof -
  define i where "i = unat (drop_bit 24 a)"
  define c where "c = softfloat_countLeadingZeros8 ! i"
  have i: "i = unat a div 2 ^ 24" by (simp add: i_def unat_drop_bit)
  have "unat a < 2 ^ 32" using unsigned_less [of a] by simp
  then have "1 \<le> i" "i < 256" using assms unfolding i by (simp_all add: less_mult_imp_div_less Suc_le_eq div_greater_zero_iff)
  note t = clz8 [OF this, folded c_def]
  have a: "i * 2 ^ 24 \<le> unat a" "unat a < (i + 1) * 2 ^ 24"
    unfolding i by (simp_all add: dividend_less_div_times)
  have "2 ^ 7 * 2 ^ 24 \<le> i * 2 ^ c * 2 ^ 24" using t(1) by (intro mult_right_mono) simp_all
  also have "\<dots> = i * 2 ^ 24 * 2 ^ c" by simp
  also have "\<dots> \<le> unat a * 2 ^ c" using a(1) by (intro mult_right_mono) simp_all
  finally have lo: "2 ^ 7 * 2 ^ 24 \<le> unat a * 2 ^ c" .
  have "unat a * 2 ^ c < (i + 1) * 2 ^ 24 * 2 ^ c" using a(2) by (intro mult_strict_right_mono) simp_all
  also have "\<dots> = (i + 1) * 2 ^ c * 2 ^ 24" by (simp only: ac_simps)
  also have "\<dots> \<le> 2 ^ 8 * 2 ^ 24" using t(2) by (intro mult_right_mono) simp_all
  finally show ?thesis using lo by (simp add: normal_shift_def i_def c_def)
qed

lemma unat_push_bit:
  fixes x :: "'a::len word"
  assumes "unat x * 2 ^ k < 2 ^ LENGTH('a)"
  shows "unat (push_bit k x) = unat x * 2 ^ k"
  unfolding unsigned_push_bit_eq using assms by (simp add: take_bit_nat_eq_self push_bit_eq_mult)

lemma clz_steps:
  fixes a :: uns32
  assumes "a \<noteq> 0"
  shows "normal_shift 32 (unat a)
    (let (count, a) = (if a < 0x10000 then (16, push_bit 16 a) else (0, a));
         (count, a) = (if a < 0x1000000 then (count + 8, push_bit 8 a) else (count, a))
     in count + softfloat_countLeadingZeros8 ! unat (drop_bit 24 a))"
proof -
  have step: "normal_shift 32 (unat b)
      (let (count, a) = (if b < 0x1000000 then (8, push_bit 8 b) else (0, b))
       in count + softfloat_countLeadingZeros8 ! unat (drop_bit 24 a))" if "2 ^ 16 \<le> unat b" for b :: uns32
  proof (cases "b < 0x1000000")
    case True
    then have "unat (push_bit 8 b) = unat b * 2 ^ 8" by (intro unat_push_bit) (simp add: word_less_nat_alt)
    with True that clz_top [of "push_bit 8 b"] show ?thesis
      by (simp add: normal_shift_def power_add mult.assoc)
  next
    case False
    with clz_top [of b] show ?thesis by (simp add: word_less_nat_alt not_less)
  qed
  have a: "0 < unat a" using assms by (simp add: unat_gt_0)
  show ?thesis
  proof (cases "a < 0x10000")
    case True
    then have p: "unat (push_bit 16 a) = unat a * 2 ^ 16" by (intro unat_push_bit) (simp add: word_less_nat_alt)
    have "normal_shift 32 (unat a) (16 + (let (count, a) = (if push_bit 16 a < 0x1000000 then (8, push_bit 8 (push_bit 16 a)) else (0, push_bit 16 a))
       in count + softfloat_countLeadingZeros8 ! unat (drop_bit 24 a)))"
      by (rule normal_shift_add) (use step [of "push_bit 16 a"] a p in simp)
    with True show ?thesis by (simp add: Let_def split: if_splits)
  next
    case False
    with step [of a] show ?thesis by (simp add: word_less_nat_alt not_less Let_def split: if_splits)
  qed
qed

lemma clz32: "a \<noteq> 0 \<Longrightarrow> normal_shift 32 (unat a) (softfloat_countLeadingZeros32 a)"
  using clz_steps [of a] by (simp add: softfloat_countLeadingZeros32_def)

section \<open>Normalize, round and pack\<close>

text \<open>A significand without bits to round is packed as it is.\<close>

lemma roundPackToF32_exact:
  fixes exp :: int and s :: uns32
  assumes "rm_ok (softfloat_roundingMode st)" "softfloat_detectTininess st = softfloat_tininess_afterRounding"
    and "0 \<le> exp" "exp < 0xFD" "2 ^ 23 \<le> unat s" "unat s < 2 ^ 24"
  shows "softfloat_roundPackToF32 sign exp (push_bit 7 s) st = (packToF32UI sign exp s, st)"
proof -
  have p: "unat (push_bit 7 s) = unat s * 2 ^ 7" using assms(6) by (intro unat_push_bit) simp
  have z: "push_bit 7 s AND 0x7F = 0"
    using take_bit_push_bit [of 7 7 s] by (simp add: take_bit_eq_mask mask_eq_exp_minus_1)
  define m where "m = softfloat_roundingMode st"
  define inc where "inc = pack_inc32 m sign"
  have i: "unat inc < 2 ^ 7" by (simp add: inc_def pack_inc32_def)
  have "unat (push_bit 7 s + inc) = unat s * 2 ^ 7 + unat inc"
    using p i assms(6) by (simp add: unat_word_ariths)
  then have "unat (drop_bit 7 (push_bit 7 s + inc)) = unat s" using i by (simp add: unat_drop_bit)
  then have w: "pack_round32 m sign (push_bit 7 s) = s"
    by (simp add: pack_round32_def z flip: inc_def) (simp add: word_unat_eq_iff)
  have "s \<noteq> 0" using assms(5) by auto
  then show ?thesis using assms(3,4) z w
    by (subst roundPackToF32_code [OF assms(2)]) (simp_all add: pack_sig32_def flip: m_def)
qed

lemma normRoundPackToF32_eq:
  fixes exp :: int and sig :: uns32
  defines "d \<equiv> softfloat_countLeadingZeros32 sig - 1"
  assumes "rm_ok (softfloat_roundingMode st)" "softfloat_detectTininess st = softfloat_tininess_afterRounding"
    and "sig \<noteq> 0" "unat sig < 2 ^ 31" and "- (2 ^ 30) \<le> exp" "exp < 2 ^ 30"
  shows "softfloat_normRoundPackToF32 sign exp sig st = softfloat_roundPackToF32 sign (exp - int d) (push_bit d sig) st"
    "normal_shift 31 (unat sig) d" "unat (push_bit d sig) = unat sig * 2 ^ d" "d < 31"
proof -
  have n: "normal_shift 32 (unat sig) (softfloat_countLeadingZeros32 sig)" using assms(4) by (rule clz32)
  have "softfloat_countLeadingZeros32 sig \<noteq> 0"
  proof
    assume "softfloat_countLeadingZeros32 sig = 0"
    with n assms(5) show False by (simp add: normal_shift_def)
  qed
  then have d: "softfloat_countLeadingZeros32 sig = Suc d" by (simp add: d_def)
  show ns: "normal_shift 31 (unat sig) d" using n by (simp add: d normal_shift_def)
  then show p: "unat (push_bit d sig) = unat sig * 2 ^ d" by (intro unat_push_bit) (simp add: normal_shift_def)
  have "1 \<le> unat sig" using assms(4) by (simp add: Suc_le_eq unat_gt_0)
  then have "2 ^ d \<le> unat sig * 2 ^ d" by simp
  with ns have "2 ^ d < (2 :: nat) ^ 31" unfolding normal_shift_def by linarith
  then show d31: "d < 31" by (rule power_less_imp_less_exp [rotated]) simp
  define e where "e = exp - int d"
  have e: "- (2 ^ 31) \<le> e" "e < 2 ^ 31" using assms(6,7) d31 by (simp_all add: e_def)
  have "e mod 2 ^ 32 < 0xFD \<longleftrightarrow> 0 \<le> e \<and> e < 0xFD"
    using e by (cases "0 \<le> e") (auto simp: mod_pos_pos_trivial zmod_trivial_iff, smt (verit) mod_add_self2 mod_pos_pos_trivial)
  then have code: "softfloat_normRoundPackToF32 sign exp sig st =
      (if 7 \<le> d \<and> 0 \<le> e \<and> e < 0xFD then (packToF32UI sign e (push_bit (d - 7) sig), st)
       else softfloat_roundPackToF32 sign e (push_bit d sig) st)"
    using assms(4) by (simp add: softfloat_normRoundPackToF32_def Let_def d e_def nat_diff_distrib)
  show "softfloat_normRoundPackToF32 sign exp sig st = softfloat_roundPackToF32 sign (exp - int d) (push_bit d sig) st"
  proof (cases "7 \<le> d \<and> 0 \<le> e \<and> e < 0xFD")
    case True
    have s: "push_bit d sig = push_bit 7 (push_bit (d - 7) sig)" using True by (simp add: push_bit_push_bit)
    define a where "a = unat sig * 2 ^ (d - 7)"
    have "unat sig * 2 ^ d = a * 2 ^ 7" unfolding a_def using True power_add [of "2 :: nat" "d - 7" 7] by simp
    with ns have a: "2 ^ 23 \<le> a" "a < 2 ^ 24" by (simp_all add: normal_shift_def)
    then have "unat (push_bit (d - 7) sig) = a" unfolding a_def by (intro unat_push_bit) simp
    with a True have "softfloat_roundPackToF32 sign e (push_bit d sig) st = (packToF32UI sign e (push_bit (d - 7) sig), st)"
      unfolding s by (intro roundPackToF32_exact [OF assms(2,3)]) simp_all
    with True show ?thesis by (simp add: code flip: e_def)
  qed (auto simp: code simp flip: e_def)
qed

text \<open>The significand may be sticky if it needs little normalization.\<close>

lemma normRoundPackToF32_correct:
  fixes exp :: int and sign :: bool and sig :: uns32 and st :: softfloat
  defines "m \<equiv> softfloat_roundingMode st"
  assumes "rm_ok m" "softfloat_detectTininess st = softfloat_tininess_afterRounding"
    and "sig \<noteq> 0" "unat sig < 2 ^ 31" and X: "X = real (unat sig) \<or> sticky 2 X (int (unat sig)) \<and> 2 ^ 27 \<le> unat sig"
    and exp: "- (2 ^ 30) \<le> exp" "exp < 2 ^ 30" and y: "y = X * 2 powi (exp - 156)"
  shows "f32_returns st sign (f32_result m sign y) (softfloat_normRoundPackToF32 sign exp sig st)"
proof -
  define d where "d = softfloat_countLeadingZeros32 sig - 1"
  note norm = normRoundPackToF32_eq [OF assms(2) [unfolded m_def] assms(3-5) exp, folded d_def]
  have J: "2 ^ 30 \<le> unat sig * 2 ^ d" "unat sig * 2 ^ d < 2 ^ 31" using norm(2) by (simp_all add: normal_shift_def)
  have st: "sticky (2 ^ 6) (X * 2 ^ d) (int (unat sig * 2 ^ d))"
    using X
  proof
    assume "X = real (unat sig)"
    then show ?thesis using sticky_int [of "2 ^ 6" "int (unat sig * 2 ^ d)"] by simp
  next
    assume s: "sticky 2 X (int (unat sig)) \<and> 2 ^ 27 \<le> unat sig"
    have "d < 4"
    proof (rule ccontr)
      assume "\<not> d < 4"
      then have "(2 :: nat) ^ 4 \<le> 2 ^ d" by (intro power_increasing) simp_all
      with s have "2 ^ 27 * 2 ^ 4 \<le> unat sig * 2 ^ d" by (intro mult_mono) simp_all
      with J(2) show False by simp
    qed
    have "sticky (2 * 2 ^ d) (X * 2 ^ d) (int (unat sig) * 2 ^ d)" by (rule sticky_scale) (use s in simp)
    moreover have "(2 :: int) * 2 ^ d dvd 2 ^ 6" using \<open>d < 4\<close> le_imp_power_dvd [of "Suc d" 6 "2 :: int"] by simp
    ultimately show ?thesis using sticky_mono by fastforce
  qed
  have "2 ^ 30 \<le> X * 2 ^ d" "X * 2 ^ d < 2 ^ 31"
    using sticky_dvd(3) [OF st, of "2 ^ 30"] sticky_dvd(1) [OF st, of "2 ^ 31"] J
    by (simp_all flip: of_nat_mult of_nat_power) 
  moreover have "y = X * 2 ^ d * 2 powi (exp - int d - 156)" by (simp add: y power_int_diff)
  ultimately show ?thesis unfolding norm(1) m_def
    using assms(2,3) norm(3,4) st exp by (intro roundPackToF32_correct) (simp_all add: m_def)
qed

end
