(* ===== verification/RiscvSoftFloatFrom.thy ===== *)
theory RiscvSoftFloatFrom
  imports RiscvSoftFloatNorm
begin

text \<open>
  Conversion of integers to floating-point numbers: each routine returns the correctly rounded value.
\<close>

section \<open>Integers\<close>

lemma sint_uint_cases: "sint x = (if 2 ^ (LENGTH('a) - 1) \<le> uint x then uint x - 2 ^ LENGTH('a) else uint x)" for x :: "'a::len word"
proof -
  have "sint x = uint x - 2 ^ LENGTH('a) * of_bool (bit (uint x) (LENGTH('a) - 1))"
    using uint_lt2p [of x] take_bit_int_eq_self [OF uint_ge_0 uint_lt2p, of x]
    by (simp add: sint_uint signed_take_bit_eq_take_bit_minus)
  moreover have "bit (uint x) (LENGTH('a) - 1) \<longleftrightarrow> 2 ^ (LENGTH('a) - 1) \<le> uint x"
    using sint_neg_iff [of x] by (simp add: sint_uint signed_take_bit_negative_iff)
  ultimately show ?thesis by simp
qed

lemma uint_abs:
  fixes a :: "'a::len word"
  shows "uint (if sint a < 0 then - a else a) = \<bar>sint a\<bar>"
proof (cases "sint a < 0")
  case True
  then have neg: "2 ^ (LENGTH('a) - 1) \<le> uint a" by (simp add: sint_neg_iff)
  moreover have "(0 :: int) < 2 ^ (LENGTH('a) - 1)" by simp
  ultimately have "0 < uint a" by linarith
  then have "a \<noteq> 0" by auto
  moreover have "sint a = uint a - 2 ^ LENGTH('a)" using sint_uint_cases [of a] neg by simp
  ultimately have "uint (- a) = - sint a" by (simp add: uint_minus)
  with True show ?thesis by simp
next
  case False
  then have "\<not> 2 ^ (LENGTH('a) - 1) \<le> uint a" by (simp add: sint_neg_iff)
  then have "sint a = uint a" using sint_uint_cases [of a] by simp
  with False show ?thesis by simp
qed

lemma nat_power_real_le: "2 ^ p \<le> n \<Longrightarrow> 2 ^ p \<le> real n"
  by (metis of_nat_le_iff of_nat_numeral of_nat_power)

lemma fp_result_0:
  assumes "rm_ok m"
  shows "fp_result p emin emax m sign 0 = (FFin 0, 0)"
proof -
  have "fp_round m 0 = 0" using fp_round_exact_iff [OF assms, of 0] by simp
  then show ?thesis by (simp add: fp_result_def round_to_def Let_def not_le)
qed

lemma f32_returns_0:
  assumes "rm_ok m"
  shows "f32_returns st sign (f32_result m sign 0) (packToF32UI sign 0 0, st)"
  using f32_val_pack [of 0 0 0 sign] by (simp add: fp_result_0 [OF assms] f32_returns_def)

lemma packToF32UI_0 [simp]: "packToF32UI False 0 0 = 0"
  by (simp add: packToF32UI_def)

section \<open>Conversion of 32-bit integers to single precision\<close>

lemma i32_to_f32_correct:
  fixes a :: uns32 and st :: softfloat
  defines "m \<equiv> softfloat_roundingMode st" and "sign \<equiv> sint a < 0"
  assumes ok: "rm_ok m" "softfloat_detectTininess st = softfloat_tininess_afterRounding"
  shows "f32_returns st sign (f32_result m sign (of_int \<bar>sint a\<bar>)) (i32_to_f32 a st)"
proof (cases "a AND 0x7FFFFFFF = 0")
  case True
  then have "unat a mod 2 ^ 31 = 0"
    using unat_lost [of a 31] by (simp add: take_bit_eq_mask mask_eq_exp_minus_1)
  moreover have "unat a < 2 * 2 ^ 31" using unsigned_less [of a] by simp
  ultimately have "unat a = 0 \<or> unat a = 2 ^ 31" by (auto elim!: dvdE simp: mod_eq_0_iff_dvd)
  then consider "a = 0" | "a = 0x80000000" by (auto simp: word_unat_eq_iff)
  then show ?thesis
  proof cases
    case 1
    then show ?thesis using f32_returns_0 [OF ok(1), of st False] by (simp add: i32_to_f32_def sign_def)
  next
    case 2
    have "softfloat_roundPackToF32 True 0x9D (push_bit 7 0x00800000) st = (packToF32UI True 0x9E 0, st)"
      by (subst roundPackToF32_exact) (use ok in \<open>simp_all add: m_def packToF32UI_def\<close>)
    moreover have "f32_returns st True (f32_result m True (2 ^ 31)) (softfloat_roundPackToF32 True 0x9D (push_bit 7 0x00800000) st)"
      unfolding m_def by (rule roundPackToF32_correct [where X = "2 ^ 30"])
        (use ok sticky_int [of 64 "2 ^ 30"] in \<open>simp_all add: m_def power_int_def\<close>)
    ultimately show ?thesis using 2 by (simp add: i32_to_f32_def sign_def)
  qed
next
  case False
  define absA where "absA = (if sint a < 0 then - a else a)"
  have u: "uint absA = \<bar>sint a\<bar>" unfolding absA_def by (rule uint_abs)
  have "a \<noteq> 0" "a \<noteq> 0x80000000" using False by auto
  then have "uint a \<noteq> 0" "uint a \<noteq> 2 ^ 31" by (auto simp: word_uint_eq_iff)
  then have "uint absA \<noteq> 0" "uint absA < 2 ^ 31"
    unfolding u using sint_uint_cases [of a] uint_lt2p [of a] uint_ge_0 [of a] by (auto split: if_splits)
  then have "absA \<noteq> 0" "unat absA < 2 ^ 31" using uint_unat(1) [of absA 31] by auto
  moreover have "real (unat absA) = of_int \<bar>sint a\<bar>" using arg_cong [OF u, of real_of_int] by simp
  ultimately have "f32_returns st sign (f32_result m sign (of_int \<bar>sint a\<bar>)) (softfloat_normRoundPackToF32 sign 0x9C absA st)"
    unfolding m_def using ok by (intro normRoundPackToF32_correct) (auto simp: m_def)
  then show ?thesis using False by (simp add: i32_to_f32_def sign_def absA_def Let_def)
qed

lemma ui32_to_f32_correct:
  fixes a :: uns32 and st :: softfloat
  defines "m \<equiv> softfloat_roundingMode st"
  assumes ok: "rm_ok m" "softfloat_detectTininess st = softfloat_tininess_afterRounding"
  shows "f32_returns st False (f32_result m False (real (unat a))) (ui32_to_f32 a st)"
proof -
  have top: "a AND 0x80000000 \<noteq> 0 \<longleftrightarrow> 2 ^ 31 \<le> unat a"
  proof -
    have "a AND 0x80000000 \<noteq> 0 \<longleftrightarrow> bit a 31"
      using and_exp_eq_0_iff_not_bit [of a 31] by simp
    also have "\<dots> \<longleftrightarrow> bit (unat a) 31" by (simp add: bit_unsigned_iff)
    also have "\<dots> \<longleftrightarrow> odd (unat a div 2 ^ 31)" by (rule bit_iff_odd)
    also have "\<dots> \<longleftrightarrow> 2 ^ 31 \<le> unat a"
    proof -
      have "unat a div 2 ^ 31 < 2" using unsigned_less [where 'a = nat, of a] by (simp add: less_mult_imp_div_less)
      then have "odd (unat a div 2 ^ 31) \<longleftrightarrow> unat a div 2 ^ 31 \<noteq> 0" 
        by (cases "unat a div 2 ^ 31") auto
      then show ?thesis by (simp add: div_eq_0_iff not_less)
    qed
    finally show ?thesis .
  qed
  consider "a = 0" | "2 ^ 31 \<le> unat a" | "a \<noteq> 0" "unat a < 2 ^ 31" by linarith
  then show ?thesis
  proof cases
    case 1
    then show ?thesis using f32_returns_0 [OF ok(1), of st False] by (simp add: ui32_to_f32_def)
  next
    case 2
    define s where "s = drop_bit 1 a OR (a AND 1)"
    have "unat (a AND 1) = unat a mod 2" using unat_take_bit [of 1 a] by (simp add: take_bit_eq_mask)
    then have "a AND 1 = of_bool (unat a mod 2 ^ 1 \<noteq> 0)"
      by (cases "unat a mod 2 = 0") (simp_all add: word_unat_eq_iff)
    then have s: "unat s = jam (unat a) 1" by (simp only: s_def unat_or_of_bool unat_drop_bit jam_def)
    have "2 ^ 31 \<le> real (unat a)" using 2 by (rule nat_power_real_le)
    moreover have "real (unat a) < 2 ^ 32"
      by (rule nat_power_real) (use unsigned_less [where 'a = nat, of a] in simp)
    ultimately have "f32_returns st False (f32_result m False (real (unat a))) (softfloat_roundPackToF32 False 0x9D s st)"
      unfolding m_def using ok sticky_mono [OF sticky_jam [of "unat a" 1], of "2 ^ 6"]
      by (intro roundPackToF32_correct [where X = "real (unat a) / 2"]) (simp_all add: m_def s)
    moreover have "a \<noteq> 0" using 2 by auto
    ultimately show ?thesis using 2 top by (simp add: ui32_to_f32_def s_def)
  next
    case 3
    then have "f32_returns st False (f32_result m False (real (unat a))) (softfloat_normRoundPackToF32 False 0x9C a st)"
      unfolding m_def using ok by (intro normRoundPackToF32_correct) (auto simp: m_def)
    with 3 top show ?thesis by (simp add: ui32_to_f32_def)
  qed
qed

section \<open>Conversion of 64-bit integers to single precision\<close>

lemma normal_shift_high:
  assumes "normal_shift 32 (n div 2 ^ 32) c"
  shows "normal_shift 64 n c"
proof -
  define h where "h = n div 2 ^ 32"
  have n: "h * 2 ^ 32 \<le> n" "n < (h + 1) * 2 ^ 32" unfolding h_def by (simp_all add: dividend_less_div_times)
  have h: "2 ^ 32 \<le> 2 * (h * 2 ^ c)" "h * 2 ^ c < 2 ^ 32" using assms by (simp_all add: normal_shift_def h_def)
  then have "1 \<le> h" by (cases h) simp_all
  then have "2 ^ c \<le> h * 2 ^ c" by simp
  with h(2) have "2 ^ c < (2 :: nat) ^ 32" by linarith
  then have c: "c < 32" by (rule power_less_imp_less_exp [rotated]) simp
  then have p: "(2 :: nat) ^ 32 = 2 ^ (32 - c) * 2 ^ c" by (simp flip: power_add)
  with h(2) have "h * 2 ^ c < 2 ^ (32 - c) * 2 ^ c" by argo
  then have "h + 1 \<le> 2 ^ (32 - c)" by simp
  then have "(h + 1) * 2 ^ c \<le> 2 ^ (32 - c) * 2 ^ c" by (rule mult_right_mono) simp
  then have "(h + 1) * 2 ^ c * 2 ^ 32 \<le> 2 ^ 32 * 2 ^ 32" unfolding p [symmetric] by (rule mult_right_mono) simp
  moreover have "n * 2 ^ c < (h + 1) * 2 ^ 32 * 2 ^ c" using n(2) by simp
  ultimately have hi: "n * 2 ^ c < 2 ^ 32 * 2 ^ 32" by (simp only: ac_simps)
  have "2 ^ 32 * 2 ^ 32 \<le> 2 * (h * 2 ^ c) * 2 ^ 32" using h(1) by (rule mult_right_mono) simp
  also have "\<dots> = 2 * (h * 2 ^ 32 * 2 ^ c)" by (simp only: ac_simps)
  also have "\<dots> \<le> 2 * (n * 2 ^ c)" using n(1) by (intro mult_left_mono mult_right_mono) simp_all
  finally have "2 ^ 32 * 2 ^ 32 \<le> 2 * (n * 2 ^ c)" .
  with hi show ?thesis by (simp add: normal_shift_def)
qed

lemma clz64:
  assumes "a \<noteq> 0"
  shows "normal_shift 64 (unat a) (softfloat_countLeadingZeros64 a)"
proof -
  define hi where "hi = (ucast (drop_bit 32 a) :: uns32)"
  have "unat a < 2 ^ 64" using unsigned_less [where 'a = nat, of a] by simp
  then have "unat a div 2 ^ 32 < 2 ^ 32" by (simp add: less_mult_imp_div_less)
  then have hi: "unat hi = unat a div 2 ^ 32"
    by (simp add: hi_def unsigned_ucast_eq unat_drop_bit take_bit_nat_eq_self)
  define steps where "steps = (\<lambda>a :: uns32.
    (let (count, a) = (if a < 0x10000 then (16, push_bit 16 a) else (0, a));
         (count, a) = (if a < 0x1000000 then (count + 8, push_bit 8 a) else (count, a))
     in count + softfloat_countLeadingZeros8 ! unat (drop_bit 24 a)))"
  have code: "softfloat_countLeadingZeros64 a = (if hi = 0 then 32 + steps (ucast a) else steps hi)"
    unfolding softfloat_countLeadingZeros64_def steps_def Let_def hi_def [symmetric] by (simp split: if_splits)
  have steps: "normal_shift 32 (unat b) (steps b)" if "b \<noteq> 0" for b
    unfolding steps_def using that by (rule clz_steps)
  show ?thesis
  proof (cases "hi = 0")
    case True
    then have "unat a < 2 ^ 32" using hi by (simp add: div_eq_0_iff)
    then have lo: "unat (ucast a :: uns32) = unat a" by (simp add: unsigned_ucast_eq take_bit_nat_eq_self)
    then have "(ucast a :: uns32) \<noteq> 0" using assms by (auto simp: word_unat_eq_iff)
    then have "normal_shift 32 (unat a) (steps (ucast a))" using steps [of "ucast a"] lo by simp
    then show ?thesis using True by (simp add: code normal_shift_def power_add)
  next
    case False
    then show ?thesis using steps [OF False] by (simp add: code hi normal_shift_high)
  qed
qed

text \<open>What the two conversions share, for the magnitude of the integer.\<close>

definition to_f32_mag :: "bool \<Rightarrow> uns64 \<Rightarrow> softfloat \<Rightarrow> float32_t \<times> softfloat" where
  "to_f32_mag sign a st =
     (let shiftDist = int (softfloat_countLeadingZeros64 a) - 40
      in if 0 \<le> shiftDist then (packToF32UI sign (0x95 - shiftDist) (push_bit (nat shiftDist) (ucast a)), st)
         else let shiftDist = shiftDist + 7;
                  sig = (if shiftDist < 0 then ucast (softfloat_shortShiftRightJam64 a (nat (- shiftDist)))
                         else push_bit (nat shiftDist) (ucast a)) :: uns32
              in softfloat_roundPackToF32 sign (0x9C - shiftDist) sig st)"

lemma unat_ucast_small:
  fixes x :: uns64
  shows "unat x < 2 ^ 32 \<Longrightarrow> unat (ucast x :: uns32) = unat x"
  by (simp add: unsigned_ucast_eq take_bit_nat_eq_self)

lemma to_f32_mag_correct:
  fixes a :: uns64 and st :: softfloat
  defines "m \<equiv> softfloat_roundingMode st"
  assumes ok: "rm_ok m" "softfloat_detectTininess st = softfloat_tininess_afterRounding" and "a \<noteq> 0"
  shows "f32_returns st sign (f32_result m sign (real (unat a))) (to_f32_mag sign a st)"
proof -
  define n where "n = unat a"
  define c where "c = softfloat_countLeadingZeros64 a"
  have n: "2 ^ 64 \<le> 2 * (n * 2 ^ c)" "n * 2 ^ c < 2 ^ 64"
    using clz64 [OF assms(4)] by (simp_all add: normal_shift_def n_def c_def)
  have "1 \<le> n" using assms(4) by (simp add: n_def Suc_le_eq unat_gt_0)
  then have "2 ^ c \<le> n * 2 ^ c" by simp
  with n(2) have "2 ^ c < (2 :: nat) ^ 64" by linarith
  then have c: "c < 64" by (rule power_less_imp_less_exp [rotated]) simp
  have shifted: "2 ^ (p - 1) \<le> n * 2 ^ d \<and> n * 2 ^ d < 2 ^ p" if "c = d + (64 - p)" "1 \<le> p" "p \<le> 64" for d p
  proof -
    have e: "n * 2 ^ c = n * 2 ^ d * 2 ^ (64 - p)" "(2 :: nat) ^ 64 = 2 ^ p * 2 ^ (64 - p)" "(2 :: nat) ^ p = 2 * 2 ^ (p - 1)"
      using that by (simp_all add: power_add [symmetric] power_Suc [symmetric] del: power_Suc)
    show ?thesis using n unfolding e by (simp add: mult.assoc [symmetric])
  qed
  have up: "f32_returns st sign (f32_result m sign (real n)) (softfloat_roundPackToF32 sign (0x9C - int d) w st)"
    if w: "unat w = n * 2 ^ d" "c = d + 33" for d w
  proof -
    have "2 ^ 30 \<le> n * 2 ^ d" "n * 2 ^ d < 2 ^ 31" using shifted [of d 31] w(2) by simp_all
    then have "2 ^ 30 \<le> real (n * 2 ^ d)" "real (n * 2 ^ d) < 2 ^ 31" 
      using nat_power_real_le [of 30] nat_power_real [of _ 31] by blast+
    then show ?thesis unfolding m_def using ok w(1) c w(2) sticky_int [of "2 ^ 6" "int (n * 2 ^ d)"]
      by (intro roundPackToF32_correct [where X = "real (n * 2 ^ d)"]) (simp_all add: m_def power_int_minus)
  qed
  consider "40 \<le> c" | "33 \<le> c" "c < 40" | "c < 33" by linarith
  then show ?thesis
  proof cases
    case 1
    define d where "d = c - 40"
    have d: "2 ^ 23 \<le> n * 2 ^ d" "n * 2 ^ d < 2 ^ 24" using shifted [of d 24] 1 by (simp_all add: d_def)
    have "n \<le> n * 2 ^ d" by simp
    from this d(2) have "n < 2 ^ 24" by (rule le_less_trans)
    then have "n < 2 ^ 32" by simp
    then have ua: "unat (ucast a :: uns32) = n" unfolding n_def by (rule unat_ucast_small)
    then have us: "unat (push_bit d (ucast a) :: uns32) = n * 2 ^ d" using d(2) by (subst unat_push_bit) simp_all
    have "to_f32_mag sign a st = softfloat_roundPackToF32 sign (0x95 - int d) (push_bit 7 (push_bit d (ucast a))) st"
      using 1 c d us ok by (subst roundPackToF32_exact) (simp_all add: to_f32_mag_def m_def d_def c_def nat_diff_distrib)
    moreover have "unat (push_bit 7 (push_bit d (ucast a)) :: uns32) = n * 2 ^ (d + 7)"
      using d(2) us by (subst unat_push_bit) (simp_all add: power_add)
    moreover have "c = d + 7 + 33" "0x9C - int (d + 7) = 0x95 - int d" using 1 by (simp_all add: d_def)
    ultimately show ?thesis using up [of "push_bit 7 (push_bit d (ucast a))" "d + 7"] by (simp only: n_def)
  next
    case 2
    define d where "d = c - 33"
    have d7: "d < 7" using 2 by (simp add: d_def)
    have cd: "int (softfloat_countLeadingZeros64 a) = int d + 33" using 2 by (simp add: d_def c_def)
    have d: "n * 2 ^ d < 2 ^ 31" using shifted [of d 31] 2 by (simp_all add: d_def)
    have "n \<le> n * 2 ^ d" by simp
    from this d have "n < 2 ^ 31" by (rule le_less_trans)
    then have "n < 2 ^ 32" by simp
    then have ua: "unat (ucast a :: uns32) = n" unfolding n_def by (rule unat_ucast_small)
    then have w: "unat (push_bit d (ucast a) :: uns32) = n * 2 ^ d" using d by (subst unat_push_bit) simp_all
    have code: "to_f32_mag sign a st = softfloat_roundPackToF32 sign (0x9C - int d) (push_bit d (ucast a)) st"
      unfolding to_f32_mag_def Let_def cd using d7 by simp
    have "c = d + 33" using 2 by (simp add: d_def)
    from up [OF w this] show ?thesis unfolding code n_def .
  next
    case 3
    define d where "d = 33 - c"
    have d0: "0 < d" using 3 by (simp add: d_def)
    have cd: "int (softfloat_countLeadingZeros64 a) = 33 - int d" using 3 by (simp add: d_def c_def)
    define X where "X = real n / 2 ^ d"
    have "real n * 2 ^ c = X * 2 ^ 33" using 3 by (simp add: X_def d_def power_diff)
    moreover have "2 ^ 63 \<le> real (n * 2 ^ c)" "real (n * 2 ^ c) < 2 ^ 64"
      using n nat_power_real_le [of 63 "n * 2 ^ c"] nat_power_real [of "n * 2 ^ c" 64] by simp_all
    ultimately have X: "2 ^ 30 \<le> X" "X < 2 ^ 31" by simp_all
    have J: "jam n d < 2 ^ 31" using sticky_dvd(1) [OF sticky_jam [of n d], of "2 ^ 31"] X(2) by (simp add: X_def)
    then have s: "unat (ucast (softfloat_shortShiftRightJam64 a d) :: uns32) = jam n d"
      by (subst unat_ucast_small) (simp_all add: unat_shortShiftRightJam64 n_def)
    have "f32_returns st sign (f32_result m sign (real n))
        (softfloat_roundPackToF32 sign (0x9C + int d) (ucast (softfloat_shortShiftRightJam64 a d)) st)"
      unfolding m_def
    proof (rule roundPackToF32_correct [where X = X])
      show "sticky (2 ^ 6) X (int (unat (ucast (softfloat_shortShiftRightJam64 a d) :: uns32)))"
        unfolding s X_def by (rule sticky_mono [OF sticky_jam]) simp
      have "d \<le> 33" by (simp add: d_def)
      then show "0x9C + int d < 2 ^ 31" by simp
    qed (use ok X in \<open>simp_all add: m_def X_def\<close>)
    moreover have "to_f32_mag sign a st =
        softfloat_roundPackToF32 sign (0x9C + int d) (ucast (softfloat_shortShiftRightJam64 a d)) st"
      unfolding to_f32_mag_def Let_def cd using d0 by simp
    ultimately show ?thesis by (simp add: n_def)
  qed
qed

lemma i64_to_f32_correct:
  fixes a :: uns64 and st :: softfloat
  defines "m \<equiv> softfloat_roundingMode st" and "sign \<equiv> sint a < 0"
  assumes ok: "rm_ok m" "softfloat_detectTininess st = softfloat_tininess_afterRounding"
  shows "f32_returns st sign (f32_result m sign (of_int \<bar>sint a\<bar>)) (i64_to_f32 a st)"
proof (cases "a = 0")
  case True
  then show ?thesis using f32_returns_0 [OF ok(1), of st False]
    by (simp add: i64_to_f32_def sign_def softfloat_countLeadingZeros64_def softfloat_countLeadingZeros8_def)
next
  case False
  define absA where "absA = (if sint a < 0 then - a else a)"
  have "uint absA = \<bar>sint a\<bar>" unfolding absA_def by (rule uint_abs)
  then have "real (unat absA) = of_int \<bar>sint a\<bar>" by (metis of_int_of_nat_eq uint_nat)
  moreover have "absA \<noteq> 0" using False by (simp add: absA_def)
  moreover have "i64_to_f32 a st = to_f32_mag sign absA st"
    using False by (simp add: i64_to_f32_def to_f32_mag_def sign_def absA_def Let_def)
  ultimately show ?thesis using to_f32_mag_correct [of st absA sign] ok by (simp add: m_def)
qed

lemma ui64_to_f32_correct:
  fixes a :: uns64 and st :: softfloat
  defines "m \<equiv> softfloat_roundingMode st"
  assumes ok: "rm_ok m" "softfloat_detectTininess st = softfloat_tininess_afterRounding"
  shows "f32_returns st False (f32_result m False (real (unat a))) (ui64_to_f32 a st)"
proof (cases "a = 0")
  case True
  then show ?thesis using f32_returns_0 [OF ok(1), of st False]
    by (simp add: ui64_to_f32_def softfloat_countLeadingZeros64_def softfloat_countLeadingZeros8_def)
next
  case False
  then have "ui64_to_f32 a st = to_f32_mag False a st"
    by (simp add: ui64_to_f32_def to_f32_mag_def Let_def)
  with False show ?thesis using to_f32_mag_correct [of st a False] ok by (simp add: m_def)
qed

end
