(* ===== verification/RiscvSoftFloatArith.thy ===== *)
theory RiscvSoftFloatArith
  imports RiscvSoftFloatFrom
begin

text \<open>
  Single-precision multiplication: the correctly rounded product, and the rules of the standard for
  NaNs, infinities and zeros.
\<close>

section \<open>Special operands\<close>

text \<open>A routine gives a value and raises flags; a finite result, which may be zero, has the given sign.\<close>

definition f32_gives :: "softfloat \<Rightarrow> bool \<Rightarrow> fpval \<times> uns8 \<Rightarrow> float32_t \<times> softfloat \<Rightarrow> bool" where
  "f32_gives st sign R out \<longleftrightarrow>
     f32_val (fst out) = fst R \<and> (\<forall>x. fst R = FFin x \<longrightarrow> signF32UI (fst out) = sign) \<and>
     snd out = softfloat_raiseFlags (snd R) st"

lemma f32_returns_gives: "f32_returns st sign R out \<Longrightarrow> f32_gives st sign R out"
  by (simp add: f32_returns_def f32_gives_def)

lemma f32_gives_nan:
  "f32_gives st sign (FNaN, if softfloat_isSigNaNF32UI a \<or> softfloat_isSigNaNF32UI b then softfloat_flag_invalid else 0)
     (softfloat_propagateNaNF32UI a b st)"
  "f32_gives st sign (FNaN, softfloat_flag_invalid) (defaultNaNF32UI, softfloat_raiseFlags softfloat_flag_invalid st)"
  by (simp_all add: f32_gives_def softfloat_propagateNaNF32UI_def f32_val_def expF32UI_def fracF32UI_def)

lemma f32_gives_inf: "f32_gives st sign (FInf sign, 0) (packToF32UI sign 0xFF 0, st)"
  by (cases sign) (simp_all add: f32_gives_def packToF32UI_def f32_val_def expF32UI_def fracF32UI_def signF32UI_def)

lemma f32_mag_0: "f32_mag a = 0 \<longleftrightarrow> expF32UI a = 0 \<and> fracF32UI a = 0"
proof -
  have "f32_mag a = 0 \<longleftrightarrow> f32_sig a = 0" by (simp add: f32_mag_def)
  then show ?thesis by (auto simp: f32_sig_def unsigned_eq_0_iff)
qed

lemma f32_mag_powi: "f32_mag a = real (f32_sig a) * 2 powi (max 1 (expF32UI a) - 150)"
proof -
  have "(2 :: real) powi max 1 (expF32UI a) = 2 ^ nat (max 1 (expF32UI a))" by (simp add: power_int_def)
  then show ?thesis by (simp add: f32_mag_def power_int_diff)
qed

section \<open>Normalized operands\<close>

lemma or_bit_set:
  fixes x :: "'a::len word"
  assumes "2 ^ n \<le> unat x" "unat x < 2 ^ Suc n" "n < LENGTH('a)"
  shows "x OR 2 ^ n = x"
proof -
  have "unat x div 2 ^ n = 1" using assms(1,2) by (intro div_nat_eqI) simp_all
  then have "bit (unat x) n" by (simp add: bit_iff_odd)
  then have "bit x n" using assms(3) by (simp add: bit_unsigned_iff)
  then show ?thesis by (auto intro!: bit_word_eqI simp: bit_simps bit_exp_iff)
qed

lemma unat_ucast_up: "unat (ucast x :: uns64) = unat x" for x :: uns32
  using unsigned_less [where 'a = nat, of x] by (simp add: unsigned_ucast_eq take_bit_nat_eq_self)

definition norm_operand :: "float32_t \<Rightarrow> exp16_sig32" where
  "norm_operand a = (if expF32UI a = 0 then softfloat_normSubnormalF32Sig (fracF32UI a)
     else \<lparr>es_exp = expF32UI a, es_sig = fracF32UI a\<rparr>)"

lemma norm_operand:
  fixes a :: float32_t
  assumes "expF32UI a \<noteq> 0xFF" "f32_mag a \<noteq> 0"
  defines "n \<equiv> unat (es_sig (norm_operand a) OR 0x00800000)" and "e \<equiv> es_exp (norm_operand a)"
  shows "2 ^ 23 \<le> n" "n < 2 ^ 24" "f32_mag a = real n * 2 powi (e - 150)" "- 30 < e" "e < 0xFF"
proof -
  have *: "2 ^ 23 \<le> n \<and> n < 2 ^ 24 \<and> f32_mag a = real n * 2 powi (e - 150) \<and> - 30 < e \<and> e < 0xFF"
  proof (cases "expF32UI a = 0")
    case False
    then have n: "n = f32_sig a" "e = expF32UI a"
      using unat_f32_sig [of a] by (simp_all add: n_def e_def norm_operand_def)
    have "f32_mag a = real n * 2 powi (e - 150)"
      using f32_fields(1) [of a] False by (simp add: n f32_mag_powi max_def)
    then show ?thesis using f32_sig_range(1,2) [of a] f32_fields(1,2) [of a] False assms(1) by (simp add: n)
  next
    case True
    define x where "x = fracF32UI a"
    have x: "x \<noteq> 0" "unat x < 2 ^ 23" using assms(2) True f32_mag_0 [of a] f32_fields(3) [of a] by (simp_all add: x_def)
    define c where "c = softfloat_countLeadingZeros32 x"
    have c: "2 ^ 32 \<le> 2 * (unat x * 2 ^ c)" "unat x * 2 ^ c < 2 ^ 32"
      using clz32 [OF x(1)] by (simp_all add: normal_shift_def c_def)
    have "8 < c"
    proof (rule ccontr)
      assume "\<not> 8 < c"
      then have "(2 :: nat) ^ c \<le> 2 ^ 8" by (intro power_increasing) simp_all
      with x(2) have "unat x * 2 ^ c \<le> (2 ^ 23 - 1) * 2 ^ 8" by (intro mult_mono) simp_all
      with c(1) show False by simp
    qed
    define d where "d = c - 8"
    have cd: "c = d + 8" using \<open>8 < c\<close> by (simp add: d_def)
    have s: "2 ^ 23 \<le> unat x * 2 ^ d" "unat x * 2 ^ d < 2 ^ 24" using c by (simp_all add: cd power_add)
    have "1 \<le> unat x" using x(1) by (simp add: Suc_le_eq unat_gt_0)
    then have "2 ^ d \<le> unat x * 2 ^ d" by simp
    with s(2) have "2 ^ d < (2 :: nat) ^ 24" by linarith
    then have d: "d < 24" by (rule power_less_imp_less_exp [rotated]) simp
    have p: "unat (push_bit d x) = unat x * 2 ^ d" using s(2) by (intro unat_push_bit) simp
    have no: "norm_operand a = \<lparr>es_exp = 1 - int d, es_sig = push_bit d x\<rparr>"
      using True by (simp add: norm_operand_def softfloat_normSubnormalF32Sig_def cd flip: x_def c_def)
    have n: "n = unat x * 2 ^ d" using or_bit_set [of 23 "push_bit d x"] s by (simp add: n_def no p)
    have "f32_mag a = real (unat x) * 2 / 2 ^ 150" using True by (simp add: f32_mag_def f32_sig_def x_def)
    also have "\<dots> = real n * 2 powi (1 - int d - 150)" by (simp add: n power_int_diff)
    finally show ?thesis using s d by (simp add: n e_def no)
  qed
  then show "2 ^ 23 \<le> n" "n < 2 ^ 24" "f32_mag a = real n * 2 powi (e - 150)" "- 30 < e" "e < 0xFF" by blast+
qed

section \<open>Multiplication\<close>

fun fp_mul :: "(bool \<Rightarrow> real \<Rightarrow> fpval \<times> uns8) \<Rightarrow> bool \<Rightarrow> bool \<Rightarrow> fpval \<Rightarrow> fpval \<Rightarrow> fpval \<times> uns8" where
  "fp_mul R snan sign (FFin x) (FFin y) = R sign \<bar>x * y\<bar>"
| "fp_mul R snan sign (FFin x) (FInf _) = (if x = 0 then (FNaN, softfloat_flag_invalid) else (FInf sign, 0))"
| "fp_mul R snan sign (FInf _) (FFin y) = (if y = 0 then (FNaN, softfloat_flag_invalid) else (FInf sign, 0))"
| "fp_mul R snan sign (FInf _) (FInf _) = (FInf sign, 0)"
| "fp_mul R snan sign _ _ = (FNaN, if snan then softfloat_flag_invalid else 0)"

lemma f32_mul_finite:
  fixes a b :: float32_t and st :: softfloat
  defines "m \<equiv> softfloat_roundingMode st" and "sign \<equiv> signF32UI a \<noteq> signF32UI b"
  assumes ok: "rm_ok m" "softfloat_detectTininess st = softfloat_tininess_afterRounding"
    and fin: "expF32UI a \<noteq> 0xFF" "expF32UI b \<noteq> 0xFF" and nz: "f32_mag a \<noteq> 0" "f32_mag b \<noteq> 0"
  shows "f32_returns st sign (f32_result m sign (f32_mag a * f32_mag b)) (f32_mul a b st)"
proof -
  define nA nB eA eB where "nA = unat (es_sig (norm_operand a) OR 0x00800000)"
    and "nB = unat (es_sig (norm_operand b) OR 0x00800000)"
    and "eA = es_exp (norm_operand a)" and "eB = es_exp (norm_operand b)"
  note A = norm_operand [OF fin(1) nz(1), folded nA_def eA_def] and B = norm_operand [OF fin(2) nz(2), folded nB_def eB_def]
  define pA pB where "pA = push_bit 7 (es_sig (norm_operand a) OR 0x00800000)"
    and "pB = push_bit 8 (es_sig (norm_operand b) OR 0x00800000)"
  define Z where "Z = (ucast (softfloat_shortShiftRightJam64 (ucast pA * ucast pB) 32) :: uns32)"
  define J where "J = jam (nA * nB * 2 ^ 15) 32"
  define X where "X = real (nA * nB) / 2 ^ 17"
  have code: "f32_mul a b st = (if Z < 0x40000000
      then softfloat_roundPackToF32 sign (eA + eB - 0x7F - 1) (push_bit 1 Z) st
      else softfloat_roundPackToF32 sign (eA + eB - 0x7F) Z st)"
  proof -
    have c: "(expF32UI a = 0xFF) = False" "(expF32UI b = 0xFF) = False"
      "(expF32UI a = 0 \<and> fracF32UI a = 0 \<or> expF32UI b = 0 \<and> fracF32UI b = 0) = False"
      using fin nz unfolding f32_mag_0 by simp_all
    show ?thesis
      unfolding f32_mul_def Let_def norm_operand_def [symmetric] c if_False eA_def [symmetric] eB_def [symmetric]
        pA_def [symmetric] pB_def [symmetric] Z_def [symmetric] sign_def [symmetric] by simp
  qed
  have J15: "nA * nB * 2 ^ 15 < 2 ^ 63"
  proof -
    have "nA * nB < 2 ^ 24 * 2 ^ 24" using A(2) B(2) by (intro mult_strict_mono) simp_all
    then show ?thesis by simp
  qed
  have "unat pA = nA * 2 ^ 7"
    unfolding pA_def nA_def by (rule unat_push_bit, fold nA_def) (use A(2) in simp)
  moreover have "unat pB = nB * 2 ^ 8"
    unfolding pB_def nB_def by (rule unat_push_bit, fold nB_def) (use B(2) in simp)
  moreover have "nA * 2 ^ 7 * (nB * 2 ^ 8) = nA * nB * 2 ^ 15" by simp
  ultimately have "unat (ucast pA * ucast pB :: uns64) = nA * nB * 2 ^ 15"
    using J15 unat_word_ariths(2) [of "ucast pA :: uns64" "ucast pB"] by (simp only: unat_ucast_up) simp
  then have jam: "unat (softfloat_shortShiftRightJam64 (ucast pA * ucast pB) 32) = J"
    by (simp only: unat_shortShiftRightJam64 J_def)
  have X: "2 ^ 29 \<le> X" "X < 2 ^ 31"
  proof -
    have "2 ^ 23 * 2 ^ 23 \<le> nA * nB" "nA * nB < 2 ^ 24 * 2 ^ 24"
      using A(1,2) B(1,2) by (intro mult_mono mult_strict_mono; simp)+
    then have "2 ^ 46 \<le> real (nA * nB)" "real (nA * nB) < 2 ^ 48"
      using nat_power_real_le [of 46 "nA * nB"] nat_power_real [of "nA * nB" 48] by simp_all
    then show "2 ^ 29 \<le> X" "X < 2 ^ 31" by (simp_all add: X_def)
  qed
  have st: "sticky 2 X (int J)" using sticky_jam [of "nA * nB * 2 ^ 15" 32] by (simp add: J_def X_def)
  have JX: "J < 2 ^ 30 \<longleftrightarrow> X < 2 ^ 30" "J < 2 ^ 31"
    using sticky_dvd(1) [OF st, of "2 ^ 30"] sticky_dvd(1) [OF st, of "2 ^ 31"] X(2) by simp_all
  have Z: "unat Z = J" unfolding Z_def using JX(2) jam by (subst unat_ucast_small) simp_all
  have y: "f32_mag a * f32_mag b = X * 2 powi (eA + eB - 0x7F - 156)"
  proof -
    have "(2 :: real) powi (eA + eB - 0x7F - 156) = 2 powi (eA - 150) * 2 powi (eB - 150) * 2 ^ 17"
      using power_int_add [of "2 :: real" "eA - 150 + (eB - 150)" 17] power_int_add [of "2 :: real" "eA - 150" "eB - 150"] by simp
    then show ?thesis by (simp add: A(3) B(3) X_def)
  qed
  show ?thesis
  proof (cases "X < 2 ^ 30")
    case True
    then have "unat (push_bit 1 Z) = J * 2" using JX by (subst unat_push_bit) (simp_all add: Z)
    moreover have "sticky (2 ^ 6) (X * 2) (int (J * 2))"
      using sticky_mono [OF sticky_scale [OF st, of 1], of "2 ^ 6"] by simp
    ultimately have "f32_returns st sign (f32_result m sign (f32_mag a * f32_mag b))
        (softfloat_roundPackToF32 sign (eA + eB - 0x7F - 1) (push_bit 1 Z) st)"
      unfolding m_def using ok A(4,5) B(4,5) X True
      by (intro roundPackToF32_correct [where X = "X * 2"]) (simp_all add: m_def y power_int_diff)
    then show ?thesis using True JX(1) Z by (simp add: code word_less_nat_alt)
  next
    case False
    have "f32_returns st sign (f32_result m sign (f32_mag a * f32_mag b))
        (softfloat_roundPackToF32 sign (eA + eB - 0x7F) Z st)"
      unfolding m_def using ok A(4,5) B(4,5) X False sticky_mono [OF st, of "2 ^ 6"]
      by (intro roundPackToF32_correct [where X = X]) (simp_all add: m_def y Z)
    then show ?thesis using False JX(1) Z by (simp add: code word_less_nat_alt)
  qed
qed

lemma f32_val_fin: "expF32UI a \<noteq> 0xFF \<Longrightarrow> f32_val a = FFin (signed_real (signF32UI a) (f32_mag a))"
  by (simp add: f32_val_def)

lemma f32_mul_correct:
  fixes a b :: float32_t and st :: softfloat
  defines "m \<equiv> softfloat_roundingMode st" and "sign \<equiv> signF32UI a \<noteq> signF32UI b"
  assumes ok: "rm_ok m" "softfloat_detectTininess st = softfloat_tininess_afterRounding"
  shows "f32_gives st sign (fp_mul (f32_result m) (softfloat_isSigNaNF32UI a \<or> softfloat_isSigNaNF32UI b) sign (f32_val a) (f32_val b))
    (f32_mul a b st)"
proof (cases "expF32UI a \<noteq> 0xFF \<and> expF32UI b \<noteq> 0xFF")
  case True
  have abs: "\<bar>signed_real (signF32UI a) (f32_mag a) * signed_real (signF32UI b) (f32_mag b)\<bar> = f32_mag a * f32_mag b"
    using f32_mag_nonneg by (simp add: abs_mult)
  have "f32_returns st sign (f32_result m sign (f32_mag a * f32_mag b)) (f32_mul a b st)"
  proof (cases "f32_mag a = 0 \<or> f32_mag b = 0")
    case zero: True
    then have "f32_mul a b st = (packToF32UI sign 0 0, st)"
      using True unfolding f32_mag_0 by (simp add: f32_mul_def Let_def sign_def)
    with zero f32_returns_0 [OF ok(1), of st sign] show ?thesis by auto
  next
    case False
    with True f32_mul_finite [of st a b] ok show ?thesis by (simp add: m_def sign_def)
  qed
  moreover have "f32_val a = FFin (signed_real (signF32UI a) (f32_mag a))" "f32_val b = FFin (signed_real (signF32UI b) (f32_mag b))"
    using True by (blast intro: f32_val_fin)+
  ultimately show ?thesis by (simp only: fp_mul.simps abs f32_returns_gives)
next
  case False
  note special = f32_gives_nan(1) [of st sign a b] f32_gives_nan(2) [of st sign] f32_gives_inf [of st sign]
  note code = f32_mul_def [of a b st, unfolded Let_def, folded sign_def]
  have fin: "f32_val x = FFin 0 \<and> f32_mag x = 0 \<or> (\<exists>v. f32_val x = FFin v \<and> v \<noteq> 0) \<and> f32_mag x \<noteq> 0" if "expF32UI x \<noteq> 0xFF" for x
    using f32_val_fin [OF that] by auto
  consider "expF32UI a = 0xFF" "fracF32UI a \<noteq> 0"
    | "expF32UI a = 0xFF" "fracF32UI a = 0" "expF32UI b = 0xFF"
    | "expF32UI a = 0xFF" "fracF32UI a = 0" "expF32UI b \<noteq> 0xFF"
    | "expF32UI a \<noteq> 0xFF" "expF32UI b = 0xFF" "fracF32UI b \<noteq> 0"
    | "expF32UI a \<noteq> 0xFF" "expF32UI b = 0xFF" "fracF32UI b = 0"
    using False by blast
  then show ?thesis
  proof cases
    case 1
    then show ?thesis unfolding code using special(1) by (simp add: f32_val_def)
  next
    case 2
    then show ?thesis unfolding code using special(1,3) by (simp add: f32_val_def [of a] f32_val_def [of b])
  next
    case 3
    then show ?thesis unfolding code using special(2,3) fin [OF 3(3)] f32_mag_0 [of b] by (auto simp: f32_val_def [of a])
  next
    case 4
    then show ?thesis unfolding code using special(1) fin [OF 4(1)] by (auto simp: f32_val_def [of b])
  next
    case 5
    then show ?thesis unfolding code using special(2,3) fin [OF 5(1)] f32_mag_0 [of a] by (auto simp: f32_val_def [of b])
  qed
qed

section \<open>Exact results\<close>

lemma fp_exponent_less:
  assumes "0 < y" "y < 2 powi n"
  shows "fp_exponent (signed_real sign y) < n"
proof -
  have "y < 2 powr of_int n" using assms(2) by (simp add: powr_real_of_int')
  then have "log 2 y < of_int n" using assms(1) by (simp add: log_less_iff)
  then have "\<lfloor>log 2 y\<rfloor> < n" by (simp add: floor_less_iff)
  with assms(1) show ?thesis by (simp add: fp_exponent_def)
qed

lemma f32_result_exact:
  assumes "rm_ok m" "expF32UI r \<noteq> 0xFF"
  shows "f32_result m sign (f32_mag r) = (FFin (signed_real sign (f32_mag r)), 0)"
proof (cases "f32_mag r = 0")
  case True
  then show ?thesis using fp_result_0 [OF assms(1)] by simp
next
  case False
  define y where "y = f32_mag r"
  define E where "E = max 1 (expF32UI r)"
  have E: "1 \<le> E" "E \<le> 254" using f32_fields(2) [of r] assms(2) by (simp_all add: E_def)
  have y: "0 < y" "y = real (f32_sig r) * 2 powi (E - 150)"
    using False f32_mag_nonneg [of r] f32_mag_powi [of r] by (simp_all add: y_def E_def)
  have "real (f32_sig r) < 2 ^ 24" by (rule nat_power_real) (rule f32_sig_range)
  then have "y < 2 ^ 24 * 2 powi (E - 150)" using y(2) by simp
  also have "\<dots> = 2 powi (E - 126)" using power_int_add [of "2 :: real" 24 "E - 150"] by simp
  finally have less: "y < 2 powi (E - 126)" .
  have q: "fp_quantum 24 (- 149) (signed_real sign y) \<le> E - 150" (is "?q \<le> _")
    using fp_exponent_less [OF y(1) less, of sign] E(1) by (simp add: fp_quantum_def)
  have "y / 2 powi ?q = real (f32_sig r) * 2 powi (E - 150 - ?q)" by (simp add: y(2) power_int_diff)
  also have "\<dots> = real (f32_sig r) * 2 ^ nat (E - 150 - ?q)" using q by (simp add: power_int_def)
  also have "\<dots> \<in> \<int>" by simp
  finally have "round_to m ?q (signed_real sign y) = signed_real sign y"
    unfolding round_to_exact_iff [OF assms(1)] signed_real_divide signed_real_Ints .
  moreover have "y < 2 powi 128"
    using less power_int_increasing [of "E - 126" 128 "2 :: real"] E(2) by simp
  ultimately show ?thesis
    using y(1) unfolding fp_result_def y_def [symmetric] Let_def by simp
qed

lemma f32_returns_exact:
  assumes "rm_ok m" "expF32UI r \<noteq> 0xFF" "signF32UI r = sign" "f32_mag r = y"
  shows "f32_returns st sign (f32_result m sign y) (r, st)"
  using assms by (auto simp: f32_returns_def f32_result_exact f32_val_fin)

end
