(* ===== verification/RiscvSoftFloatAdd.thy ===== *)
theory RiscvSoftFloatAdd
  imports RiscvSoftFloatArith
begin

text \<open>
  Single-precision addition and subtraction: the correctly rounded sum and difference of the
  magnitudes, the sign of a zero result, and the rules for NaNs and infinities.
\<close>

section \<open>Aligned significands\<close>

lemma sticky_add: "sticky u X J \<Longrightarrow> u dvd c \<Longrightarrow> sticky u (of_int c + X) (c + J)"
  unfolding sticky_def
proof (intro allI impI)
  fix t :: int
  assume a: "\<forall>t. u dvd t \<longrightarrow> (X < of_int t \<longleftrightarrow> J < t) \<and> (X = of_int t \<longleftrightarrow> J = t)" "u dvd c" "u dvd t"
  then have "u dvd t - c" by simp
  with a(1) have "(X < of_int (t - c) \<longleftrightarrow> J < t - c) \<and> (X = of_int (t - c) \<longleftrightarrow> J = t - c)" by blast
  then show "(of_int c + X < of_int t \<longleftrightarrow> c + J < t) \<and> (of_int c + X = of_int t \<longleftrightarrow> c + J = t)" by auto
qed

lemma sticky_minus: "sticky u X J \<Longrightarrow> u dvd c \<Longrightarrow> sticky u (of_int c - X) (c - J)"
  unfolding sticky_def
proof (intro allI impI)
  fix t :: int
  assume a: "\<forall>t. u dvd t \<longrightarrow> (X < of_int t \<longleftrightarrow> J < t) \<and> (X = of_int t \<longleftrightarrow> J = t)" "u dvd c" "u dvd t"
  then have "u dvd c - t" by simp
  with a(1) have "(X < of_int (c - t) \<longleftrightarrow> J < c - t) \<and> (X = of_int (c - t) \<longleftrightarrow> J = c - t)" by blast
  then show "(of_int c - X < of_int t \<longleftrightarrow> c - J < t) \<and> (of_int c - X = of_int t \<longleftrightarrow> c - J = t)" by auto
qed

lemma unat_plus_small:
  fixes x y :: "'a::len word"
  shows "unat x + unat y < 2 ^ LENGTH('a) \<Longrightarrow> unat (x + y) = unat x + unat y"
  by (simp add: unat_word_ariths)

text \<open>A number is the sum of its fields.\<close>

lemma pack_fields: "packToF32UI (signF32UI a) (expF32UI a) (fracF32UI a) = a"
proof -
  have "unat (drop_bit 23 a AND 0xFF) = unat a div 2 ^ 23 mod 2 ^ 8"
    using unat_take_bit [of 8 "drop_bit 23 a"] by (simp add: take_bit_eq_mask mask_eq_exp_minus_1 unat_drop_bit)
  then have e: "nat (expF32UI a) = unat a div 2 ^ 23 mod 2 ^ 8" by (simp add: expF32UI_def)
  have f: "unat (fracF32UI a) = unat a mod 2 ^ 23"
    using unat_take_bit [of 23 a] by (simp add: take_bit_eq_mask mask_eq_exp_minus_1 fracF32UI_def)
  have "unat a < 2 ^ 32" using unsigned_less [where 'a = nat, of a] by simp
  then have "unat a div 2 ^ 31 < 2" by (simp add: less_mult_imp_div_less)
  moreover have "drop_bit 31 a = 0 \<longleftrightarrow> unat a div 2 ^ 31 = 0" by (simp add: word_unat_eq_iff unat_drop_bit)
  ultimately have s: "(if signF32UI a then 2 ^ 31 else 0) = unat a div 2 ^ 31 * 2 ^ 31"
    by (auto simp: signF32UI_def less_2_cases_iff)
  have split: "unat a = unat a div 2 ^ 31 * 2 ^ 31 + (unat a div 2 ^ 23 mod 2 ^ 8 * 2 ^ 23 + unat a mod 2 ^ 23)"
  proof -
    have "unat a div 2 ^ 31 = unat a div 2 ^ 23 div 2 ^ 8" by (simp flip: div_mult2_eq)
    then have "unat a div 2 ^ 31 * 2 ^ 8 + unat a div 2 ^ 23 mod 2 ^ 8 = unat a div 2 ^ 23" by simp
    then have "(unat a div 2 ^ 31 * 2 ^ 8 + unat a div 2 ^ 23 mod 2 ^ 8) * 2 ^ 23 + unat a mod 2 ^ 23 = unat a"
      by (simp only: div_mult_mod_eq)
    then show ?thesis by (simp add: algebra_simps)
  qed
  have "unat (packToF32UI (signF32UI a) (expF32UI a) (fracF32UI a)) = unat a"
    using f32_fields [of a] split by (subst unat_packToF32UI) (simp_all add: s e f)
  then show ?thesis by (simp add: word_unat_eq_iff)
qed

text \<open>The significand of the operand with the smaller exponent, before and after alignment; \<open>g\<close> is the number of
  guard bits.\<close>

definition align_sig :: "nat \<Rightarrow> float32_t \<Rightarrow> uns32" where
  "align_sig g a = push_bit g (fracF32UI a) + (if expF32UI a \<noteq> 0 then 2 ^ (23 + g) else push_bit g (fracF32UI a))"

lemma align_sig:
  assumes "g \<le> 7"
  shows "unat (align_sig g a) = (if expF32UI a = 0 then 2 else 1) * f32_sig a * 2 ^ g" "unat (align_sig g a) < 2 ^ (24 + g)"
    "f32_mag a = real (unat (align_sig g a)) * 2 powi (expF32UI a - int (150 + g))"
proof -
  have p: "(2 :: nat) ^ g \<le> 2 ^ 7" using assms by (intro power_increasing) simp_all
  have f: "unat (fracF32UI a) < 2 ^ 23" by (rule f32_fields)
  then have f': "unat (fracF32UI a) * 2 ^ g < 2 ^ 23 * 2 ^ g" by simp
  also have "\<dots> \<le> 2 ^ 23 * 2 ^ 7" using p by simp
  finally have fg: "unat (fracF32UI a) * 2 ^ g < 2 ^ 30" by simp
  then have pb: "unat (push_bit g (fracF32UI a)) = unat (fracF32UI a) * 2 ^ g" by (intro unat_push_bit) simp
  have b: "unat (2 ^ (23 + g) :: uns32) = 2 ^ (23 + g)"
    using assms unsigned_of_nat [where 'b = 32 and 'a = nat, of "2 ^ (23 + g)"] by (simp add: take_bit_nat_eq_self)
  have p23: "(2 :: nat) ^ (23 + g) = 2 ^ 23 * 2 ^ g" by (simp add: power_add)
  show u: "unat (align_sig g a) = (if expF32UI a = 0 then 2 else 1) * f32_sig a * 2 ^ g"
  proof (cases "expF32UI a = 0")
    case True
    have "unat (push_bit g (fracF32UI a) + push_bit g (fracF32UI a)) = unat (fracF32UI a) * 2 ^ g + unat (fracF32UI a) * 2 ^ g"
      using fg by (subst unat_plus_small) (simp_all only: pb, simp)
    with True show ?thesis by (simp add: align_sig_def f32_sig_def)
  next
    case False
    have "unat (push_bit g (fracF32UI a) + 2 ^ (23 + g)) = unat (fracF32UI a) * 2 ^ g + 2 ^ 23 * 2 ^ g"
      using fg p by (subst unat_plus_small) (simp_all only: pb b p23, simp)
    with False show ?thesis by (simp add: align_sig_def f32_sig_def distrib_right)
  qed
  show "unat (align_sig g a) < 2 ^ (24 + g)"
    unfolding u using f by (simp add: f32_sig_def power_add)
  show "f32_mag a = real (unat (align_sig g a)) * 2 powi (expF32UI a - int (150 + g))"
    unfolding u f32_mag_powi using f32_fields(1) [of a]
    by (cases "expF32UI a = 0") (simp_all add: power_int_diff power_int_add max_def)
qed

lemma powi_minus_nat: "(2 :: real) powi (e - int d) = 2 powi e / 2 ^ d"
  by (simp add: power_int_diff)

lemma f32_returns_pack:
  fixes exp :: int
  assumes "rm_ok m" "0 \<le> exp" "n \<le> 2 ^ 24" "exp = 0 \<or> 2 ^ 23 \<le> n" "exp * 2 ^ 23 + int n < 255 * 2 ^ 23"
    and "unat sig = n" "y = real n * 2 powi (exp - 149)"
  shows "f32_returns st sign (f32_result m sign y) (packToF32UI sign exp sig, st)"
proof -
  define r where "r = packToF32UI sign exp sig"
  have u: "uint sig = int n" using assms(6) by (simp only: uint_unat(3))
  have v: "f32_val r = FFin (signed_real sign (of_int (int n) * 2 powi (exp - 149)))" "signF32UI r = sign"
    unfolding r_def by (rule f32_val_pack [OF assms(2) u]; use assms in simp)+
  have "expF32UI r \<noteq> 0xFF" using v(1) by (auto simp: f32_val_def split: if_splits)
  moreover then have "f32_mag r = y" using v assms(7) by (simp add: f32_val_def split: if_splits)
  ultimately show ?thesis using f32_returns_exact [OF assms(1), of r sign y st] v(2) by (simp add: r_def)
qed

section \<open>Sum of magnitudes\<close>

lemma addMags_aligned:
  fixes a b :: float32_t and st :: softfloat and sign :: bool
  defines "m \<equiv> softfloat_roundingMode st"
  defines "Z \<equiv> 0x20000000 + push_bit 6 (fracF32UI a) +
      softfloat_shiftRightJam32 (align_sig 6 b) (nat (expF32UI a - expF32UI b))"
  assumes ok: "rm_ok m" "softfloat_detectTininess st = softfloat_tininess_afterRounding"
    and e: "expF32UI b < expF32UI a" "expF32UI a \<noteq> 0xFF"
  shows "f32_returns st sign (f32_result m sign (f32_mag a + f32_mag b))
    (if Z < 0x40000000 then softfloat_roundPackToF32 sign (expF32UI a - 1) (push_bit 1 Z) st
     else softfloat_roundPackToF32 sign (expF32UI a) Z st)"
proof -
  have ea: "0 < expF32UI a" "expF32UI a < 0xFF" using e f32_fields [of a] f32_fields(1) [of b] by linarith+
  define d where "d = nat (expF32UI a - expF32UI b)"
  have d: "1 \<le> d" "expF32UI a - expF32UI b = int d" using e(1) by (simp_all add: d_def)
  define B where "B = unat (align_sig 6 b)"
  have B: "B < 2 ^ 30" using align_sig(2) [of 6 b] by (simp add: B_def)
  define A where "A = f32_sig a * 2 ^ 6"
  have A: "2 ^ 29 \<le> A" "A < 2 ^ 30" using f32_sig_range [of a] ea by (simp_all add: A_def)
  define X where "X = real A + real B / 2 ^ d"
  define J where "J = A + jam B d"
  have st: "sticky 2 X (int J)"
    using sticky_add [OF sticky_jam [of B d], of "int A"] by (simp add: X_def J_def A_def)
  have y: "f32_mag a + f32_mag b = X * 2 powi (expF32UI a - 156)"
  proof -
    have "f32_mag a = real A * 2 powi (expF32UI a - 156)"
      using ea f32_mag_powi [of a] by (simp add: A_def power_int_diff max_def)
    moreover have "f32_mag b = real B / 2 ^ d * 2 powi (expF32UI a - 156)"
    proof -
      have "expF32UI b - 156 = expF32UI a - 156 - int d" using d(2) by simp
      then have "(2 :: real) powi (expF32UI b - 156) = 2 powi (expF32UI a - 156) / 2 ^ d"
        by (simp only: powi_minus_nat)
      then show ?thesis using align_sig(3) [of 6 b] by (simp add: B_def)
    qed
    ultimately show ?thesis by (simp add: X_def distrib_right)
  qed
  have X: "2 ^ 29 \<le> X" "X < 2 ^ 31"
  proof -
    have "real B / 2 ^ d \<le> real B" by (simp add: divide_le_eq mult_le_cancel_left1)
    moreover have "real B < 2 ^ 30" using B by (rule nat_power_real)
    moreover have "2 ^ 29 \<le> real A" "real A < 2 ^ 30" using A nat_power_real_le [of 29 A] nat_power_real [of A 30] by simp_all
    moreover have "0 \<le> real B / 2 ^ d" by simp
    ultimately have "2 ^ 29 \<le> X" "X < 2 ^ 30 + 2 ^ 30" unfolding X_def by linarith+
    then show "2 ^ 29 \<le> X" "X < 2 ^ 31" by simp_all
  qed
  have JX: "J < 2 ^ 30 \<longleftrightarrow> X < 2 ^ 30" "J < 2 ^ 31"
    using sticky_dvd(1) [OF st, of "2 ^ 30"] sticky_dvd(1) [OF st, of "2 ^ 31"] X(2) by simp_all
  have Z: "unat Z = J"
  proof -
    have f: "unat (push_bit 6 (fracF32UI a)) = unat (fracF32UI a) * 2 ^ 6"
      using f32_fields(3) [of a] by (intro unat_push_bit) simp
    have "unat (0x20000000 + push_bit 6 (fracF32UI a)) = A"
      using f32_fields(3) [of a] ea by (subst unat_plus_small) (simp_all add: f A_def f32_sig_def)
    moreover have "unat (softfloat_shiftRightJam32 (align_sig 6 b) d) = jam B d"
      unfolding B_def using d(1) by (intro unat_shiftRightJam32) simp
    ultimately show ?thesis unfolding Z_def d_def [symmetric] J_def
      using JX(2) by (subst unat_plus_small) (simp_all add: J_def)
  qed
  show ?thesis
  proof (cases "X < 2 ^ 30")
    case True
    then have "unat (push_bit 1 Z) = J * 2" using JX by (subst unat_push_bit) (simp_all add: Z)
    moreover have "sticky (2 ^ 6) (X * 2) (int (J * 2))"
      using sticky_mono [OF sticky_scale [OF st, of 1], of "2 ^ 6"] by simp
    ultimately have "f32_returns st sign (f32_result m sign (f32_mag a + f32_mag b))
        (softfloat_roundPackToF32 sign (expF32UI a - 1) (push_bit 1 Z) st)"
      unfolding m_def using ok ea X True
      by (intro roundPackToF32_correct [where X = "X * 2"]) (simp_all add: m_def y power_int_diff)
    then show ?thesis using True JX(1) Z by (simp add: word_less_nat_alt)
  next
    case False
    have "f32_returns st sign (f32_result m sign (f32_mag a + f32_mag b)) (softfloat_roundPackToF32 sign (expF32UI a) Z st)"
      unfolding m_def using ok ea X False sticky_mono [OF st, of "2 ^ 6"]
      by (intro roundPackToF32_correct [where X = X]) (simp_all add: m_def y Z)
    then show ?thesis using False JX(1) Z by (simp add: word_less_nat_alt)
  qed
qed

lemma addMagsF32_finite:
  fixes a b :: float32_t and st :: softfloat
  defines "m \<equiv> softfloat_roundingMode st" and "sign \<equiv> signF32UI a"
  assumes ok: "rm_ok m" "softfloat_detectTininess st = softfloat_tininess_afterRounding"
    and fin: "expF32UI a \<noteq> 0xFF" "expF32UI b \<noteq> 0xFF"
  shows "f32_returns st sign (f32_result m sign (f32_mag a + f32_mag b)) (softfloat_addMagsF32 a b st)"
proof -
  have align: "push_bit 6 (fracF32UI x) + (if expF32UI x \<noteq> 0 then 0x20000000 else push_bit 6 (fracF32UI x)) = align_sig 6 x" for x
    by (simp add: align_sig_def)
  have diff: "expF32UI a - expF32UI b = 0 \<longleftrightarrow> expF32UI a = expF32UI b" "expF32UI a - expF32UI b < 0 \<longleftrightarrow> expF32UI a < expF32UI b"
    "- (expF32UI a - expF32UI b) = expF32UI b - expF32UI a" by simp_all
  note code = softfloat_addMagsF32_def [of a b st, unfolded Let_def, folded sign_def, unfolded align diff]
  consider "expF32UI b < expF32UI a" | "expF32UI a < expF32UI b" | "expF32UI a = expF32UI b" "expF32UI a = 0"
    | "expF32UI a = expF32UI b" "expF32UI a \<noteq> 0" by linarith
  then show ?thesis
  proof cases
    case 1
    show ?thesis using addMags_aligned [OF ok [unfolded m_def] 1 fin(1), of sign] 1 fin
      unfolding code m_def by (simp split: if_splits)
  next
    case 2
    show ?thesis using addMags_aligned [OF ok [unfolded m_def] 2 fin(2), of sign] 2 fin
      unfolding code m_def by (simp add: ac_simps split: if_splits)
  next
    case 3
    define T where "T = fracF32UI a + fracF32UI b"
    have f: "f32_sig a < 2 ^ 23" "f32_sig b < 2 ^ 23" "unat (fracF32UI a) = f32_sig a" "unat (fracF32UI b) = f32_sig b"
      using 3 f32_sig_range(3) [of a] f32_sig_range(3) [of b] by (simp_all add: f32_sig_def)
    then have T: "unat T = f32_sig a + f32_sig b" unfolding T_def by (subst unat_plus_small) simp_all
    have "a + fracF32UI b = packToF32UI sign 0 T"
      using pack_fields [of a] 3(2) by (simp add: packToF32UI_def T_def sign_def)
    moreover have "f32_returns st sign (f32_result m sign (f32_mag a + f32_mag b)) (packToF32UI sign 0 T, st)"
      using ok(1) f(1,2) T 3
      by (intro f32_returns_pack [where n = "f32_sig a + f32_sig b"]) (simp_all add: f32_mag_powi distrib_right)
    ultimately show ?thesis unfolding code using 3 by simp
  next
    case 4
    define e where "e = expF32UI a"
    have e: "expF32UI a = e" "expF32UI b = e" "1 \<le> e" "e \<le> 254"
      using 4 fin f32_fields(1,2) [of a] by (simp_all add: e_def)
    define z where "z = 2 ^ 24 + unat (fracF32UI a) + unat (fracF32UI b)"
    have z: "2 ^ 24 \<le> z" "z < 2 ^ 25" using f32_fields(3) [of a] f32_fields(3) [of b] by (simp_all add: z_def)
    define Z where "Z = 0x01000000 + fracF32UI a + fracF32UI b"
    have "unat (0x01000000 + fracF32UI a) = 2 ^ 24 + unat (fracF32UI a)"
      using f32_fields(3) [of a] by (subst unat_plus_small) simp_all
    then have Z: "unat Z = z" unfolding Z_def z_def
      using f32_fields(3) [of a] f32_fields(3) [of b] by (subst unat_plus_small) simp_all
    have y: "f32_mag a + f32_mag b = real z * 2 powi (e - 150)"
      using e 4(2) unfolding f32_mag_powi by (simp add: z_def f32_sig_def distrib_right max_def)
    have "Z AND 1 = 0 \<longleftrightarrow> even z"
      using unat_lost [of Z 1] by (simp add: Z take_bit_eq_mask even_iff_mod_2_eq_zero)
    then have "softfloat_addMagsF32 a b st =
        (if even z \<and> e < 0xFE then (packToF32UI sign e (drop_bit 1 Z), st) else softfloat_roundPackToF32 sign e (push_bit 6 Z) st)"
      unfolding code e using e by (simp add: Z_def [symmetric])
    moreover have "f32_returns st sign (f32_result m sign (f32_mag a + f32_mag b)) (packToF32UI sign e (drop_bit 1 Z), st)"
      if "even z" "e < 0xFE"
    proof (rule f32_returns_pack [OF ok(1)])
      show "unat (drop_bit 1 Z) = z div 2" by (simp add: unat_drop_bit Z)
      have "real z = 2 * real (z div 2)" using that(1) by (auto elim: evenE)
      then show "f32_mag a + f32_mag b = real (z div 2) * 2 powi (e - 149)" by (simp add: y power_int_diff)
    qed (use e z that in simp_all)
    moreover have "f32_returns st sign (f32_result m sign (f32_mag a + f32_mag b)) (softfloat_roundPackToF32 sign e (push_bit 6 Z) st)"
    proof -
      have "unat (push_bit 6 Z) = z * 2 ^ 6" using z by (subst unat_push_bit) (simp_all add: Z)
      moreover have "2 ^ 24 \<le> real z" "real z < 2 ^ 25" using z nat_power_real_le [of 24 z] nat_power_real [of z 25] by simp_all
      ultimately show ?thesis unfolding m_def using ok e sticky_int [of "2 ^ 6" "int (z * 2 ^ 6)"]
        by (intro roundPackToF32_correct [where X = "real (z * 2 ^ 6)"]) (simp_all add: m_def y power_int_diff)
    qed
    ultimately show ?thesis by simp
  qed
qed

section \<open>Difference of magnitudes\<close>

lemma subMags_aligned:
  fixes a b :: float32_t and st :: softfloat and sign :: bool
  defines "m \<equiv> softfloat_roundingMode st"
  defines "Z \<equiv> (push_bit 7 (fracF32UI a) OR 0x40000000) -
      softfloat_shiftRightJam32 (align_sig 7 b) (nat (expF32UI a - expF32UI b))"
  assumes ok: "rm_ok m" "softfloat_detectTininess st = softfloat_tininess_afterRounding"
    and e: "expF32UI b < expF32UI a" "expF32UI a \<noteq> 0xFF"
  shows "f32_mag b < f32_mag a"
    "f32_returns st sign (f32_result m sign (f32_mag a - f32_mag b)) (softfloat_normRoundPackToF32 sign (expF32UI a - 1) Z st)"
proof -
  have ea: "0 < expF32UI a" "expF32UI a < 0xFF" using e f32_fields [of a] f32_fields(1) [of b] by linarith+
  define d where "d = nat (expF32UI a - expF32UI b)"
  have d: "1 \<le> d" "expF32UI a - expF32UI b = int d" using e(1) by (simp_all add: d_def)
  define B where "B = unat (align_sig 7 b)"
  have B: "B < 2 ^ 31" using align_sig(2) [of 7 b] by (simp add: B_def)
  have evB: "even B" using align_sig(1) [of 7 b] by (simp add: B_def)
  define A where "A = f32_sig a * 2 ^ 7"
  have A: "2 ^ 30 \<le> A" "A < 2 ^ 31" using f32_sig_range [of a] ea by (simp_all add: A_def)
  define X where "X = real A - real B / 2 ^ d"
  define J where "J = A - jam B d"
  have y: "f32_mag a - f32_mag b = X * 2 powi (expF32UI a - 1 - 156)"
  proof -
    have "f32_mag a = real A * 2 powi (expF32UI a - 157)"
      using ea f32_mag_powi [of a] by (simp add: A_def power_int_diff max_def)
    moreover have "f32_mag b = real B / 2 ^ d * 2 powi (expF32UI a - 157)"
    proof -
      have "expF32UI b - 157 = expF32UI a - 157 - int d" using d(2) by simp
      then have "(2 :: real) powi (expF32UI b - 157) = 2 powi (expF32UI a - 157) / 2 ^ d"
        by (simp only: powi_minus_nat)
      then show ?thesis using align_sig(3) [of 7 b] by (simp add: B_def)
    qed
    ultimately show ?thesis by (simp add: X_def left_diff_distrib)
  qed
  have main: "0 < J" "0 < X" "jam B d \<le> A" "X = real J \<or> sticky 2 X (int J) \<and> 2 ^ 27 \<le> J"
  proof -
    have "0 < J \<and> 0 < X \<and> jam B d \<le> A \<and> (X = real J \<or> sticky 2 X (int J) \<and> 2 ^ 27 \<le> J)"
    proof (cases "d = 1")
      case True
      have j: "jam B d = B div 2" using evB True by (simp add: jam_def)
      have "B div 2 < 2 ^ 30" using B by (simp add: less_mult_imp_div_less)
      then have jA: "jam B d < A" using A j by linarith
      have "X = real J" using True evB jA j by (auto elim!: evenE simp: X_def J_def of_nat_diff)
      with jA show ?thesis by (simp add: J_def)
    next
      case False
      then have "(2 :: real) ^ 2 \<le> 2 ^ d" using d(1) by (intro power_increasing) simp_all
      moreover have "real B < 2 ^ 31" using B by (rule nat_power_real)
      ultimately have "real B < 2 ^ 29 * 2 ^ d" by (simp add: less_le_trans)
      then have q: "real B / 2 ^ d < 2 ^ 29" by (simp add: field_simps)
      then have j: "jam B d < 2 ^ 29" using sticky_dvd(1) [OF sticky_jam [of B d], of "2 ^ 29"] by simp
      have "2 ^ 30 \<le> real A" using A(1) by (rule nat_power_real_le)
      with q have "0 < X" by (simp add: X_def)
      moreover have "sticky 2 X (int J)"
        using sticky_minus [OF sticky_jam [of B d], of "int A"] j A by (simp add: X_def J_def A_def of_nat_diff)
      moreover have "2 ^ 27 \<le> J" using j A by (simp add: J_def le_diff_conv2)
      ultimately show ?thesis using j A by auto
    qed
    then show "0 < J" "0 < X" "jam B d \<le> A" "X = real J \<or> sticky 2 X (int J) \<and> 2 ^ 27 \<le> J" by blast+
  qed
  have Z: "unat Z = J"
  proof -
    have f: "unat (push_bit 7 (fracF32UI a)) = unat (fracF32UI a) * 2 ^ 7"
      using f32_fields(3) [of a] by (intro unat_push_bit) simp
    then have "unat (push_bit 7 (fracF32UI a) OR 2 ^ 30) = unat (fracF32UI a) * 2 ^ 7 + 2 ^ 30"
      using f32_fields(3) [of a] by (subst unat_or_bit) simp_all
    then have x: "unat (push_bit 7 (fracF32UI a) OR 0x40000000) = A" using ea by (simp add: A_def f32_sig_def)
    have "unat (softfloat_shiftRightJam32 (align_sig 7 b) d) = jam B d"
      unfolding B_def using d(1) by (intro unat_shiftRightJam32) simp
    with x main(3) show ?thesis unfolding Z_def d_def [symmetric] J_def by (subst unat_sub) (simp_all add: word_le_nat_alt)
  qed
  have "0 < f32_mag a - f32_mag b" unfolding y using main(2) by simp
  then show "f32_mag b < f32_mag a" by simp
  show "f32_returns st sign (f32_result m sign (f32_mag a - f32_mag b)) (softfloat_normRoundPackToF32 sign (expF32UI a - 1) Z st)"
    unfolding m_def
  proof (rule normRoundPackToF32_correct [where X = X])
    show "X = real (unat Z) \<or> sticky 2 X (int (unat Z)) \<and> 2 ^ 27 \<le> unat Z" unfolding Z by (rule main)
    show "Z \<noteq> 0" using main(1) Z by auto
    show "unat Z < 2 ^ 31" unfolding Z J_def using A(2) by linarith
  qed (use ok ea y in \<open>simp_all add: m_def\<close>)
qed

text \<open>Numbers with the same exponent are subtracted exactly.\<close>

lemma subMags_equal:
  fixes a b :: float32_t and D :: nat
  defines "E \<equiv> max 1 (expF32UI a)"
  defines "sd \<equiv> int (softfloat_countLeadingZeros32 (of_nat D)) - 8"
  assumes "rm_ok m" "expF32UI a \<noteq> 0xFF" "0 < D" "D < 2 ^ 23"
  shows "f32_returns st sign (f32_result m sign (real D * 2 powi (E - 150)))
    (case if E - 1 - sd < 0 then (E - 1, 0) else (sd, E - 1 - sd) of
       (shiftDist, expZ) \<Rightarrow> (packToF32UI sign expZ (push_bit (nat shiftDist) (of_nat D)), st))"
proof -
  have E: "1 \<le> E" "E \<le> 254" using f32_fields(2) [of a] assms(4) by (simp_all add: E_def)
  define x where "x = (of_nat D :: uns32)"
  have x: "unat x = D" using assms(6) by (simp add: x_def unsigned_of_nat take_bit_nat_eq_self)
  then have "x \<noteq> 0" using assms(5) by auto
  define c where "c = softfloat_countLeadingZeros32 x"
  have c: "2 ^ 32 \<le> 2 * (D * 2 ^ c)" "D * 2 ^ c < 2 ^ 32"
    using clz32 [OF \<open>x \<noteq> 0\<close>] by (simp_all add: normal_shift_def c_def x)
  have "8 < c"
  proof (rule ccontr)
    assume "\<not> 8 < c"
    then have "(2 :: nat) ^ c \<le> 2 ^ 8" by (intro power_increasing) simp_all
    with assms(6) have "D * 2 ^ c \<le> (2 ^ 23 - 1) * 2 ^ 8" by (intro mult_mono) simp_all
    with c(1) show False by simp
  qed
  define s where "s = c - 8"
  have cs: "c = s + 8" using \<open>8 < c\<close> by (simp add: s_def)
  have s: "2 ^ 23 \<le> D * 2 ^ s" "D * 2 ^ s < 2 ^ 24" using c by (simp_all add: cs power_add)
  have sd: "sd = int s" by (simp add: sd_def cs flip: x_def c_def)
  define t where "t = (if E - 1 - sd < 0 then nat (E - 1) else s)"
  have t: "t \<le> s" "int t \<le> E - 1" "E - 1 - int t = 0 \<or> t = s" using E sd by (auto simp: t_def)
  have "(2 :: nat) ^ t \<le> 2 ^ s" using t(1) by (intro power_increasing) simp_all
  then have "D * 2 ^ t \<le> D * 2 ^ s" by simp
  with s(2) have n: "D * 2 ^ t < 2 ^ 24" by linarith
  have p: "unat (push_bit t x) = D * 2 ^ t" using n by (subst unat_push_bit) (simp_all add: x)
  have "f32_returns st sign (f32_result m sign (real D * 2 powi (E - 150))) (packToF32UI sign (E - 1 - int t) (push_bit t x), st)"
  proof (rule f32_returns_pack [OF assms(3) _ _ _ _ p])
    have "E - 1 - int t - 149 = (E - 150) - int t" by simp
    then show "real D * 2 powi (E - 150) = real (D * 2 ^ t) * 2 powi (E - 1 - int t - 149)"
      by (simp only: powi_minus_nat) simp
    show "(E - 1 - int t) * 2 ^ 23 + int (D * 2 ^ t) < 255 * 2 ^ 23"
    proof -
      have "int (D * 2 ^ t) < int (2 ^ 24)" using n by (simp only: of_nat_less_iff)
      moreover have "(E - 1 - int t) * 2 ^ 23 \<le> 253 * 2 ^ 23" using E by (intro mult_right_mono) simp_all
      ultimately show ?thesis by simp
    qed
  qed (use n t s in auto)
  moreover have "(if E - 1 - sd < 0 then (E - 1, 0) else (sd, E - 1 - sd)) = (int t, E - 1 - int t)"
    using E sd by (simp add: t_def)
  ultimately show ?thesis by (simp add: x_def)
qed

lemma subMagsF32_finite:
  fixes a b :: float32_t and st :: softfloat
  defines "m \<equiv> softfloat_roundingMode st" and "z \<equiv> f32_mag a - f32_mag b"
  defines "sign \<equiv> if z < 0 then \<not> signF32UI a else signF32UI a"
  assumes ok: "rm_ok m" "softfloat_detectTininess st = softfloat_tininess_afterRounding"
    and fin: "expF32UI a \<noteq> 0xFF" "expF32UI b \<noteq> 0xFF"
  shows "if z = 0 then f32_returns st (m = RV_RM_RDN) (f32_result m (m = RV_RM_RDN) 0) (softfloat_subMagsF32 a b st)
    else f32_returns st sign (f32_result m sign \<bar>z\<bar>) (softfloat_subMagsF32 a b st)"
proof -
  have align: "push_bit 7 (fracF32UI x) + (if expF32UI x \<noteq> 0 then 0x40000000 else push_bit 7 (fracF32UI x)) = align_sig 7 x" for x
    by (simp add: align_sig_def)
  have diff: "expF32UI a - expF32UI b = 0 \<longleftrightarrow> expF32UI a = expF32UI b" "expF32UI a - expF32UI b < 0 \<longleftrightarrow> expF32UI a < expF32UI b"
    "- (expF32UI a - expF32UI b) = expF32UI b - expF32UI a" by simp_all
  note code = softfloat_subMagsF32_def [of a b st, unfolded Let_def, unfolded align diff]
  consider "expF32UI b < expF32UI a" | "expF32UI a < expF32UI b" | "expF32UI a = expF32UI b" by linarith
  then show ?thesis
  proof cases
    case 1
    note s = subMags_aligned [OF ok [unfolded m_def] 1 fin(1)]
    have "\<not> z < 0" "z \<noteq> 0" "\<bar>z\<bar> = f32_mag a - f32_mag b" using s(1) by (simp_all add: z_def)
    then show ?thesis using s(2) [of "signF32UI a"] 1 fin unfolding code m_def sign_def by simp
  next
    case 2
    note s = subMags_aligned [OF ok [unfolded m_def] 2 fin(2)]
    have "z < 0" "z \<noteq> 0" "\<bar>z\<bar> = f32_mag b - f32_mag a" using s(1) by (simp_all add: z_def)
    then show ?thesis using s(2) [of "\<not> signF32UI a"] 2 fin unfolding code m_def sign_def by simp
  next
    case 3
    define E where "E = max 1 (expF32UI a)"
    have z: "z = of_int (uint (fracF32UI a) - uint (fracF32UI b)) * 2 powi (E - 150)"
      using 3 unfolding z_def f32_mag_powi by (simp add: f32_sig_def E_def left_diff_distrib distrib_right)
    define v where "v = uint (fracF32UI a) - uint (fracF32UI b)"
    have E1: "(if expF32UI a \<noteq> 0 then expF32UI a - 1 else expF32UI a) = E - 1"
      using f32_fields(1) [of a] by (auto simp: E_def)
    show ?thesis
    proof (cases "v = 0")
      case True
      then have "softfloat_subMagsF32 a b st = (packToF32UI (m = RV_RM_RDN) 0 0, st)"
        unfolding code m_def v_def using 3 fin by simp
      moreover have "z = 0" using True by (simp add: z v_def)
      ultimately show ?thesis using f32_returns_0 [OF ok(1), of st "m = RV_RM_RDN"] by simp
    next
      case False
      define D where "D = nat \<bar>v\<bar>"
      have "uint (fracF32UI a) < 2 ^ 23" "uint (fracF32UI b) < 2 ^ 23"
        using f32_fields(3) [of a] f32_fields(3) [of b] by (simp_all only: uint_unat)
      then have "\<bar>v\<bar> < 2 ^ 23" using uint_ge_0 [of "fracF32UI a"] uint_ge_0 [of "fracF32UI b"] unfolding v_def by linarith
      then have D: "0 < D" "D < 2 ^ 23" using False by (simp_all add: D_def)
      have "\<not> (2 :: real) powi (E - 150) < 0" by (simp add: not_less)
      then have "z < 0 \<longleftrightarrow> v < 0" "z \<noteq> 0" using False by (auto simp: z v_def [symmetric] mult_less_0_iff)
      moreover have "\<bar>z\<bar> = real D * 2 powi (E - 150)" by (simp add: z D_def abs_mult flip: v_def)
      moreover have "softfloat_subMagsF32 a b st =
          (case if E - 1 - (int (softfloat_countLeadingZeros32 (of_nat D)) - 8) < 0 then (E - 1, 0)
             else (int (softfloat_countLeadingZeros32 (of_nat D)) - 8, E - 1 - (int (softfloat_countLeadingZeros32 (of_nat D)) - 8)) of
           (shiftDist, expZ) \<Rightarrow>
             (packToF32UI (if v < 0 then \<not> signF32UI a else signF32UI a) expZ (push_bit (nat shiftDist) (of_nat D)), st))"
      proof -
        have w: "(if v < 0 then (\<not> signF32UI a, - v) else (signF32UI a, v)) =
            ((if v < 0 then \<not> signF32UI a else signF32UI a), int D)" by (simp add: D_def)
        have c: "(expF32UI a = expF32UI b) = True" "(expF32UI a = 0xFF) = False" "(v = 0) = False" using 3 fin False by simp_all
        show ?thesis
          unfolding code v_def [symmetric] E1 c if_True if_False w prod.case of_int_of_nat_eq ..
      qed
      ultimately show ?thesis
        using subMags_equal [OF ok(1) fin(1) D, of st sign, folded E_def] by (simp add: sign_def)
    qed
  qed
qed

section \<open>Addition and subtraction\<close>

text \<open>The sign of a sum: that of its value, or of two zeros of the same sign; otherwise an exact zero is
  negative only when rounding down.\<close>

definition sum_sign :: "riscvRMDesc \<Rightarrow> bool \<Rightarrow> bool \<Rightarrow> real \<Rightarrow> bool" where
  "sum_sign m sa sb z \<longleftrightarrow> (if z \<noteq> 0 then z < 0 else if sa = sb then sa else m = RV_RM_RDN)"

fun fp_add :: "(bool \<Rightarrow> real \<Rightarrow> fpval \<times> uns8) \<Rightarrow> riscvRMDesc \<Rightarrow> bool \<Rightarrow> bool \<Rightarrow> bool \<Rightarrow> fpval \<Rightarrow> fpval \<Rightarrow> fpval \<times> uns8" where
  "fp_add R m snan sa sb (FFin x) (FFin y) = R (sum_sign m sa sb (x + y)) \<bar>x + y\<bar>"
| "fp_add R m snan sa sb (FFin x) (FInf t) = (FInf t, 0)"
| "fp_add R m snan sa sb (FInf s) (FFin y) = (FInf s, 0)"
| "fp_add R m snan sa sb (FInf s) (FInf t) = (if s = t then (FInf s, 0) else (FNaN, softfloat_flag_invalid))"
| "fp_add R m snan sa sb _ _ = (FNaN, if snan then softfloat_flag_invalid else 0)"

fun fp_add_sign :: "riscvRMDesc \<Rightarrow> bool \<Rightarrow> bool \<Rightarrow> fpval \<Rightarrow> fpval \<Rightarrow> bool" where
  "fp_add_sign m sa sb (FFin x) (FFin y) = sum_sign m sa sb (x + y)"
| "fp_add_sign m sa sb _ _ = False"

text \<open>The value of a number with another sign.\<close>

definition f32_as :: "bool \<Rightarrow> float32_t \<Rightarrow> fpval" where
  "f32_as s a = (if expF32UI a = 0xFF then if fracF32UI a \<noteq> 0 then FNaN else FInf s else FFin (signed_real s (f32_mag a)))"

fun fp_neg :: "fpval \<Rightarrow> fpval" where
  "fp_neg FNaN = FNaN"
| "fp_neg (FInf s) = FInf (\<not> s)"
| "fp_neg (FFin x) = FFin (- x)"

lemma f32_as: "f32_as (signF32UI a) a = f32_val a" "f32_as (\<not> signF32UI a) a = fp_neg (f32_val a)"
  by (auto simp: f32_as_def f32_val_def)

lemma f32_as_fin: "expF32UI a \<noteq> 0xFF \<Longrightarrow> f32_as s a = FFin (signed_real s (f32_mag a))"
  by (simp add: f32_as_def)

lemma push_frac_0: "g \<le> 7 \<Longrightarrow> push_bit g (fracF32UI a) = 0 \<longleftrightarrow> fracF32UI a = 0"
proof -
  assume "g \<le> 7"
  then have "(2 :: nat) ^ g \<le> 2 ^ 7" by (intro power_increasing) simp_all
  then have "unat (fracF32UI a) * 2 ^ g \<le> unat (fracF32UI a) * 2 ^ 7" by simp
  also have "\<dots> < 2 ^ 32" using f32_fields(3) [of a] by simp
  finally have "unat (push_bit g (fracF32UI a)) = unat (fracF32UI a) * 2 ^ g" by (intro unat_push_bit) simp
  then show ?thesis by (simp add: word_unat_eq_iff)
qed

lemma f32_gives_self: "expF32UI a = 0xFF \<Longrightarrow> fracF32UI a = 0 \<Longrightarrow> f32_gives st sign (FInf (signF32UI a), 0) (a, st)"
  by (simp add: f32_gives_def f32_val_def)

lemma f32_gives_inf': "f32_gives st sign (FInf s, 0) (packToF32UI s 0xFF 0, st)"
  using f32_gives_inf [of st s] by (simp add: f32_gives_def)

lemma addMagsF32_correct:
  fixes a b :: float32_t and st :: softfloat
  defines "m \<equiv> softfloat_roundingMode st" and "sa \<equiv> signF32UI a"
  assumes ok: "rm_ok m" "softfloat_detectTininess st = softfloat_tininess_afterRounding"
  shows "f32_gives st (fp_add_sign m sa sa (f32_as sa a) (f32_as sa b))
    (fp_add (f32_result m) m (softfloat_isSigNaNF32UI a \<or> softfloat_isSigNaNF32UI b) sa sa (f32_as sa a) (f32_as sa b))
    (softfloat_addMagsF32 a b st)"
proof (cases "expF32UI a \<noteq> 0xFF \<and> expF32UI b \<noteq> 0xFF")
  case True
  have z: "signed_real sa (f32_mag a) + signed_real sa (f32_mag b) = signed_real sa (f32_mag a + f32_mag b)" by simp
  have pos: "0 \<le> f32_mag a + f32_mag b" using f32_mag_nonneg [of a] f32_mag_nonneg [of b] by simp
  then have "sum_sign m sa sa (signed_real sa (f32_mag a + f32_mag b)) = sa" "\<bar>signed_real sa (f32_mag a + f32_mag b)\<bar> = f32_mag a + f32_mag b"
    by (auto simp: sum_sign_def)
  moreover have "f32_returns st sa (f32_result m sa (f32_mag a + f32_mag b)) (softfloat_addMagsF32 a b st)"
    using addMagsF32_finite [of st a b] ok True by (simp add: m_def sa_def)
  moreover have "f32_as sa a = FFin (signed_real sa (f32_mag a))" "f32_as sa b = FFin (signed_real sa (f32_mag b))"
    using True by (blast intro: f32_as_fin)+
  ultimately show ?thesis by (simp only: fp_add.simps fp_add_sign.simps z f32_returns_gives)
next
  case False
  note code = softfloat_addMagsF32_def [of a b st, unfolded Let_def, folded sa_def]
  have top: "expF32UI x \<le> 0xFF" for x by (rule f32_fields)
  consider "expF32UI a = 0xFF" "expF32UI b = 0xFF" | "expF32UI a = 0xFF" "expF32UI b < 0xFF" | "expF32UI a < 0xFF" "expF32UI b = 0xFF"
    using False top [of a] top [of b] by linarith
  then show ?thesis
  proof cases
    case 1
    then show ?thesis unfolding code using f32_gives_nan(1) [of st _ a b] f32_gives_self [of a st, folded sa_def]
      by (auto simp: f32_as_def or_eq_0_iff)
  next
    case 2
    then show ?thesis unfolding code using f32_gives_nan(1) [of st _ a b] f32_gives_self [of a st, folded sa_def]
      by (auto simp: f32_as_def push_frac_0)
  next
    case 3
    then show ?thesis unfolding code using f32_gives_nan(1) [of st _ a b] f32_gives_inf' [of st _ sa]
      by (auto simp: f32_as_def push_frac_0)
  qed
qed

lemma subMagsF32_correct:
  fixes a b :: float32_t and st :: softfloat
  defines "m \<equiv> softfloat_roundingMode st" and "sa \<equiv> signF32UI a"
  assumes ok: "rm_ok m" "softfloat_detectTininess st = softfloat_tininess_afterRounding"
  shows "f32_gives st (fp_add_sign m sa (\<not> sa) (f32_as sa a) (f32_as (\<not> sa) b))
    (fp_add (f32_result m) m (softfloat_isSigNaNF32UI a \<or> softfloat_isSigNaNF32UI b) sa (\<not> sa) (f32_as sa a) (f32_as (\<not> sa) b))
    (softfloat_subMagsF32 a b st)"
proof (cases "expF32UI a \<noteq> 0xFF \<and> expF32UI b \<noteq> 0xFF")
  case True
  define z where "z = f32_mag a - f32_mag b"
  have z: "signed_real sa (f32_mag a) + signed_real (\<not> sa) (f32_mag b) = signed_real sa z" by (simp add: z_def)
  have sg: "sum_sign m sa (\<not> sa) (signed_real sa z) = (if z = 0 then m = RV_RM_RDN else if z < 0 then \<not> sa else sa)"
    by (auto simp: sum_sign_def)
  have "f32_returns st (sum_sign m sa (\<not> sa) (signed_real sa z))
      (f32_result m (sum_sign m sa (\<not> sa) (signed_real sa z)) \<bar>signed_real sa z\<bar>) (softfloat_subMagsF32 a b st)"
    using subMagsF32_finite [of st a b] ok True unfolding sg
    by (auto simp: m_def [symmetric] sa_def [symmetric] z_def [symmetric] split: if_splits)
  moreover have "f32_as sa a = FFin (signed_real sa (f32_mag a))" "f32_as (\<not> sa) b = FFin (signed_real (\<not> sa) (f32_mag b))"
    using True by (blast intro: f32_as_fin)+
  ultimately show ?thesis by (simp only: fp_add.simps fp_add_sign.simps z f32_returns_gives)
next
  case False
  note code = softfloat_subMagsF32_def [of a b st, unfolded Let_def, folded sa_def]
  have top: "expF32UI x \<le> 0xFF" for x by (rule f32_fields)
  consider "expF32UI a = 0xFF" "expF32UI b = 0xFF" | "expF32UI a = 0xFF" "expF32UI b < 0xFF" | "expF32UI a < 0xFF" "expF32UI b = 0xFF"
    using False top [of a] top [of b] by linarith
  then show ?thesis
  proof cases
    case 1
    then show ?thesis unfolding code using f32_gives_nan [of st] by (auto simp: f32_as_def or_eq_0_iff)
  next
    case 2
    then show ?thesis unfolding code using f32_gives_nan(1) [of st _ a b] f32_gives_self [of a st, folded sa_def]
      by (auto simp: f32_as_def push_frac_0)
  next
    case 3
    then show ?thesis unfolding code using f32_gives_nan(1) [of st _ a b] f32_gives_inf' [of st _ "\<not> sa"]
      by (auto simp: f32_as_def push_frac_0)
  qed
qed

lemma signF32UI_xor: "signF32UI (a XOR b) \<longleftrightarrow> signF32UI a \<noteq> signF32UI b"
proof -
  have "signF32UI x \<longleftrightarrow> bit x 31" for x :: uns32
  proof -
    have "unat x div 2 ^ 31 < 2" using unsigned_less [where 'a = nat, of x] by (simp add: less_mult_imp_div_less)
    then have "unat x div 2 ^ 31 \<noteq> 0 \<longleftrightarrow> odd (unat x div 2 ^ 31)" by (cases "unat x div 2 ^ 31") auto
    moreover have "bit x 31 \<longleftrightarrow> odd (unat x div 2 ^ 31)"
      using bit_iff_odd [of "unat x" 31] by (simp add: bit_unsigned_iff)
    ultimately show ?thesis by (simp add: signF32UI_def word_unat_eq_iff unat_drop_bit)
  qed
  then show ?thesis by (simp add: bit_simps)
qed

lemma f32_add_correct:
  fixes a b :: float32_t and st :: softfloat
  defines "m \<equiv> softfloat_roundingMode st" and "snan \<equiv> softfloat_isSigNaNF32UI a \<or> softfloat_isSigNaNF32UI b"
  assumes ok: "rm_ok m" "softfloat_detectTininess st = softfloat_tininess_afterRounding"
  shows "f32_gives st (fp_add_sign m (signF32UI a) (signF32UI b) (f32_val a) (f32_val b))
    (fp_add (f32_result m) m snan (signF32UI a) (signF32UI b) (f32_val a) (f32_val b)) (f32_add a b st)"
proof (cases "signF32UI a = signF32UI b")
  case True
  with addMagsF32_correct [of st a b] ok f32_as(1) [of a] f32_as(1) [of b] show ?thesis
    by (simp add: f32_add_def signF32UI_xor m_def snan_def)
next
  case False
  then have "signF32UI b = (\<not> signF32UI a)" by simp
  with subMagsF32_correct [of st a b] ok f32_as(1) [of a] f32_as(1) [of b] show ?thesis
    by (simp add: f32_add_def signF32UI_xor m_def snan_def)
qed

lemma f32_sub_correct:
  fixes a b :: float32_t and st :: softfloat
  defines "m \<equiv> softfloat_roundingMode st" and "snan \<equiv> softfloat_isSigNaNF32UI a \<or> softfloat_isSigNaNF32UI b"
  assumes ok: "rm_ok m" "softfloat_detectTininess st = softfloat_tininess_afterRounding"
  shows "f32_gives st (fp_add_sign m (signF32UI a) (\<not> signF32UI b) (f32_val a) (fp_neg (f32_val b)))
    (fp_add (f32_result m) m snan (signF32UI a) (\<not> signF32UI b) (f32_val a) (fp_neg (f32_val b))) (f32_sub a b st)"
proof (cases "signF32UI a = signF32UI b")
  case True
  with subMagsF32_correct [of st a b] ok f32_as(1) [of a] f32_as(2) [of b] show ?thesis
    by (simp add: f32_sub_def signF32UI_xor m_def snan_def)
next
  case False
  then have "signF32UI a = (\<not> signF32UI b)" by simp
  with addMagsF32_correct [of st a b] ok f32_as(1) [of a] f32_as(2) [of b] show ?thesis
    by (simp add: f32_sub_def signF32UI_xor m_def snan_def)
qed

end
