(* ===== verification/RiscvSoftFloatNarrow.thy ===== *)
theory RiscvSoftFloatNarrow
  imports RiscvSoftFloatAdd
begin

text \<open>
  Conversion of double to single precision.
\<close>

section \<open>Results below the subnormal numbers\<close>

lemma fp_round_near:
  assumes "rm_ok m"
  shows "\<bar>of_int (fp_round m x)\<bar> \<le> \<bar>x\<bar> + 1"
proof -
  have "of_int \<lfloor>x\<rfloor> \<le> x" "x \<le> of_int \<lceil>x\<rceil>" by simp_all
  from fp_round_bounds(1) [OF assms this(1)] fp_round_bounds(2) [OF assms this(2)]
  have "\<lfloor>x\<rfloor> \<le> fp_round m x" "fp_round m x \<le> \<lceil>x\<rceil>" .
  then have "of_int \<lfloor>x\<rfloor> \<le> (of_int (fp_round m x) :: real)" "of_int (fp_round m x) \<le> (of_int \<lceil>x\<rceil> :: real)"
    by (simp_all only: of_int_le_iff)
  then show ?thesis by linarith
qed

lemma fp_round_tiny:
  assumes "rm_ok m" "0 < t" "t < 1 / 2"
  shows "fp_round m (signed_real sign t) =
    (if m = RV_RM_RDN \<and> sign then - 1 else if m = RV_RM_RUP \<and> \<not> sign then 1 else 0)"
proof -
  have f: "\<lfloor>t\<rfloor> = 0" "\<lceil>t\<rceil> = 1" "\<lfloor>- t\<rfloor> = - 1" "\<lceil>- t\<rceil> = 0" "\<lfloor>t + 1 / 2\<rfloor> = 0" "\<lceil>- t - 1 / 2\<rceil> = 0"
    using assms(2,3) by (auto intro!: floor_unique ceiling_unique)
  show ?thesis using assms by (cases sign) (auto simp: rm_ok_def f)
qed

lemma f32_result_tiny:
  assumes "rm_ok m" "0 < y" "y < 2 powi (- 151)"
  shows "f32_result m sign y =
    (FFin (if m = RV_RM_RDN \<and> sign then - (2 powi (- 149)) else if m = RV_RM_RUP \<and> \<not> sign then 2 powi (- 149) else 0),
     softfloat_flag_underflow OR softfloat_flag_inexact)"
proof -
  define x where "x = signed_real sign y"
  have x: "\<bar>x\<bar> = y" "x \<noteq> 0" using assms(2) by (auto simp: x_def)
  have e: "fp_exponent x < - 151" unfolding x_def by (rule fp_exponent_less [OF assms(2,3)])
  then have q: "fp_quantum 24 (- 149) x = - 149" by (simp add: fp_quantum_def)
  define t where "t = y / 2 powi (- 149)"
  have t: "0 < t" "t < 1 / 2"
    using assms(2,3) by (simp_all add: t_def power_int_minus field_simps)
  have xt: "x / 2 powi (- 149) = signed_real sign t" by (simp add: x_def t_def)
  have z: "round_to m (- 149) x =
      (if m = RV_RM_RDN \<and> sign then - (2 powi (- 149)) else if m = RV_RM_RUP \<and> \<not> sign then 2 powi (- 149) else 0)"
    unfolding round_to_def xt fp_round_tiny [OF assms(1) t] by simp
  have "y < 2 powi (- 149)" using t by (simp add: t_def field_simps)
  then have ne: "round_to m (- 149) x \<noteq> x" unfolding z using assms(2) by (auto simp: x_def)
  have small: "\<not> 2 powi 128 \<le> \<bar>round_to m (- 149) x\<bar>" unfolding z by (auto simp: power_int_minus field_simps)
  have tiny: "fp_tiny 24 (- 149) m x"
  proof -
    define p where "p = (2 :: real) powi (fp_exponent x - 23)"
    have p: "0 < p" by (simp add: p_def)
    have "p \<le> 2 powi fp_exponent x" unfolding p_def by (intro power_int_increasing) simp_all
    also have "\<dots> \<le> y"
    proof -
      have "of_int (fp_exponent x) \<le> log 2 y" by (simp add: fp_exponent_def x(1))
      then show ?thesis using assms(2) by (simp add: le_log_iff powr_real_of_int')
    qed
    finally have py: "p \<le> y" .
    have "\<bar>round_to m (fp_exponent x - 23) x\<bar> = \<bar>of_int (fp_round m (x / p))\<bar> * p"
      using p by (simp add: round_to_def abs_mult flip: p_def)
    also have "\<dots> \<le> (\<bar>x / p\<bar> + 1) * p" using p by (intro mult_right_mono fp_round_near assms(1)) simp_all
    also have "\<dots> = y + p" using p x(1) by (simp add: field_simps)
    also have "\<dots> < 2 powi (- 151) + 2 powi (- 151)" using py assms(3) by linarith
    also have "\<dots> < 2 powi (- 126)" by (simp add: power_int_minus)
    finally show ?thesis by (simp add: fp_tiny_def)
  qed
  show ?thesis unfolding fp_result_def x_def [symmetric] Let_def q using ne small tiny by (simp add: z)
qed

section \<open>Double to single precision\<close>

lemma f64_mag_powi: "f64_mag a = real (f64_sig a) * 2 powi (max 1 (expF64UI a) - 1075)"
proof -
  have "(2 :: real) powi max 1 (expF64UI a) = 2 ^ nat (max 1 (expF64UI a))" by (simp add: power_int_def)
  then show ?thesis by (simp add: f64_mag_def power_int_diff)
qed

lemma f64_to_f32_round:
  fixes a :: float64_t and st :: softfloat
  defines "m \<equiv> softfloat_roundingMode st" and "F \<equiv> real (unat (fracF64UI a))"
  defines "w \<equiv> (ucast (softfloat_shortShiftRightJam64 (fracF64UI a) 22) :: uns32)"
  assumes ok: "rm_ok m" "softfloat_detectTininess st = softfloat_tininess_afterRounding"
  shows "w = 0 \<longleftrightarrow> fracF64UI a = 0"
    "f32_returns st sign (f32_result m sign ((2 ^ 52 + F) * 2 powi (expF64UI a - 1075)))
       (softfloat_roundPackToF32 sign (expF64UI a - 0x381) (w OR 0x40000000) st)"
proof -
  define n where "n = unat (fracF64UI a)"
  have n: "n < 2 ^ 52" unfolding n_def by (rule f64_fields)
  define J where "J = jam n 22"
  have nr: "real n < 2 ^ 52" using n by (rule nat_power_real)
  have st: "sticky 2 (real n / 2 ^ 22) (int J)" unfolding J_def by (rule sticky_jam)
  have J: "J < 2 ^ 30" using sticky_dvd(1) [OF st, of "2 ^ 30"] nr by simp
  have w: "unat w = J" unfolding w_def
    using J by (subst unat_ucast_small) (simp_all add: unat_shortShiftRightJam64 J_def n_def)
  have "J = 0 \<longleftrightarrow> n = 0" using sticky_dvd(2) [OF st, of 0] by simp
  then show "w = 0 \<longleftrightarrow> fracF64UI a = 0" using w by (simp add: word_unat_eq_iff n_def)
  have "unat (w OR 2 ^ 30) = J + 2 ^ 30" using J w by (subst unat_or_bit) simp_all
  then have u: "unat (w OR 0x40000000) = 2 ^ 30 + J" by simp
  have "sticky 2 (of_int (2 ^ 30) + real n / 2 ^ 22) (2 ^ 30 + int J)" by (rule sticky_add [OF st]) simp
  then have st': "sticky (2 ^ 6) (2 ^ 30 + real n / 2 ^ 22) (int (2 ^ 30 + J))" by (simp add: sticky_mono)
  show "f32_returns st sign (f32_result m sign ((2 ^ 52 + F) * 2 powi (expF64UI a - 1075)))
       (softfloat_roundPackToF32 sign (expF64UI a - 0x381) (w OR 0x40000000) st)"
    unfolding m_def
  proof (rule roundPackToF32_correct [where X = "2 ^ 30 + real n / 2 ^ 22"])
    show "sticky (2 ^ 6) (2 ^ 30 + real n / 2 ^ 22) (int (unat (w OR 0x40000000)))" unfolding u by (rule st')
    have "(2 :: real) powi (expF64UI a - 0x381 - 156) = 2 powi (expF64UI a - 1075) * 2 ^ 22"
      using power_int_add [of "2 :: real" "expF64UI a - 1075" 22] by simp
    then show "(2 ^ 52 + F) * 2 powi (expF64UI a - 1075) = (2 ^ 30 + real n / 2 ^ 22) * 2 powi (expF64UI a - 0x381 - 156)"
      by (simp add: F_def n_def field_simps)
  qed (use ok nr f64_fields(1,2) [of a] in \<open>simp_all add: m_def\<close>)
qed

lemma f64_to_f32_finite:
  fixes a :: float64_t and st :: softfloat
  defines "m \<equiv> softfloat_roundingMode st" and "sign \<equiv> signF64UI a"
  assumes ok: "rm_ok m" "softfloat_detectTininess st = softfloat_tininess_afterRounding" and "expF64UI a \<noteq> 0x7FF"
  shows "f32_returns st sign (f32_result m sign (f64_mag a)) (f64_to_f32 a st)"
proof -
  note round = f64_to_f32_round [OF ok [unfolded m_def], where a = a, folded m_def]
  note code = f64_to_f32_def [of a st, unfolded Let_def, folded sign_def]
  define F where "F = unat (fracF64UI a)"
  consider "expF64UI a = 0" "fracF64UI a = 0" | "expF64UI a = 0" "fracF64UI a \<noteq> 0" | "expF64UI a \<noteq> 0" by blast
  then show ?thesis
  proof cases
    case 1
    then have "f64_mag a = 0" by (simp add: f64_mag_def f64_sig_def)
    then show ?thesis using 1 f32_returns_0 [OF ok(1), of st sign] round(1) assms(5) unfolding code by simp
  next
    case 2
    have "0 < F" using 2(2) by (simp add: F_def unat_gt_0)
    moreover have "F < 2 ^ 52" unfolding F_def by (rule f64_fields)
    ultimately have F: "0 < real F" "real F < 2 ^ 52" using nat_power_real by simp_all
    have "f64_mag a = real F * 2 powi (- 1074)" using 2 by (simp add: f64_mag_powi f64_sig_def F_def)
    moreover have "(2 :: real) ^ 52 * 2 powi (- 1074) < 2 powi (- 151)"
      "(2 :: real) ^ 53 * 2 powi (- 1075) < 2 powi (- 151)"
      using power_int_add [of "2 :: real" 52 "- 1074"] power_int_add [of "2 :: real" 53 "- 1075"]
        power_int_strict_increasing [of "- 1022" "- 151" "2 :: real"] by simp_all
    moreover have "real F * 2 powi (- 1074) < 2 ^ 52 * 2 powi (- 1074)"
      "(2 ^ 52 + real F) * 2 powi (- 1075) < 2 ^ 53 * 2 powi (- 1075)"
      using F by (auto intro!: mult_strict_right_mono)
    ultimately have y: "0 < f64_mag a" "f64_mag a < 2 powi (- 151)"
      "0 < (2 ^ 52 + real F) * 2 powi (- 1075)" "(2 ^ 52 + real F) * 2 powi (- 1075) < 2 powi (- 151)"
      using F by (simp_all add: add_pos_pos)
    have "f32_result m sign (f64_mag a) = f32_result m sign ((2 ^ 52 + real F) * 2 powi (- 1075))"
      unfolding f32_result_tiny [OF ok(1) y(1,2)] f32_result_tiny [OF ok(1) y(3,4)] ..
    with round(1) round(2) [of sign] 2 assms(5) show ?thesis unfolding code by (simp add: F_def)
  next
    case 3
    then have "f64_mag a = (2 ^ 52 + real F) * 2 powi (expF64UI a - 1075)"
      using f64_fields(1) [of a] by (simp add: f64_mag_powi f64_sig_def F_def max_def add.commute)
    with round(2) [of sign] 3 assms(5) show ?thesis unfolding code by (simp add: F_def)
  qed
qed

end
