(* ===== verification/RiscvSoftFloatDouble.thy ===== *)
theory RiscvSoftFloatDouble
  imports RiscvSoftFloatFrom
begin

text \<open>
  Rounding, packing and normalization in double precision, and the conversions of 64-bit integers.
\<close>

section \<open>Packing\<close>

lemma f64_fields_of:
  assumes "unat r = (if sign then 2 ^ 63 else 0) + T" "T < 2 ^ 63"
  shows "signF64UI r = sign" "expF64UI r = int (T div 2 ^ 52)" "unat (fracF64UI r) = T mod 2 ^ 52"
proof -
  have "drop_bit 63 r = 0 \<longleftrightarrow> unat r div 2 ^ 63 = 0" by (simp add: word_unat_eq_iff unat_drop_bit)
  then show "signF64UI r = sign" using assms by (simp add: signF64UI_def)
  have "unat (drop_bit 52 r AND 0x7FF) = unat r div 2 ^ 52 mod 2 ^ 11"
    using unat_take_bit [of 11 "drop_bit 52 r"] by (simp add: take_bit_eq_mask mask_eq_exp_minus_1 unat_drop_bit)
  also have "unat r div 2 ^ 52 = (if sign then 2 ^ 11 else 0) + T div 2 ^ 52"
    unfolding assms(1) using div_plus_div_distrib_dvd_left [of "2 ^ 52" "2 ^ 63" T] by simp
  also have "\<dots> mod 2 ^ 11 = T div 2 ^ 52" using assms(2) by (simp add: less_mult_imp_div_less)
  finally show "expF64UI r = int (T div 2 ^ 52)" by (simp only: expF64UI_def uint_unat(3))
  have "unat (r AND 0x000FFFFFFFFFFFFF) = unat r mod 2 ^ 52"
    using unat_take_bit [of 52 r] by (simp add: take_bit_eq_mask mask_eq_exp_minus_1)
  also have "\<dots> = T mod 2 ^ 52" unfolding assms(1) using mod_mult_self4 [of "2 ^ 52" "2 ^ 11" T] by simp
  finally show "unat (fracF64UI r) = T mod 2 ^ 52" by (simp add: fracF64UI_def)
qed

lemma unat_packToF64UI:
  fixes exp :: int
  assumes "0 \<le> exp" "nat exp * 2 ^ 52 + unat sig < 2 ^ 63"
  shows "unat (packToF64UI sign exp sig) = (if sign then 2 ^ 63 else 0) + (nat exp * 2 ^ 52 + unat sig)"
proof -
  have "packToF64UI sign exp sig = of_nat ((if sign then 2 ^ 63 else 0) + (nat exp * 2 ^ 52 + unat sig))"
    using assms(1) by (cases sign) (simp_all add: packToF64UI_def push_bit_eq_mult of_nat_nat)
  then show ?thesis using assms(2)
    by (simp only: unsigned_of_nat) (cases sign; simp add: take_bit_nat_eq_self)
qed

lemma f64_val_pack:
  fixes exp :: int
  assumes "0 \<le> exp" "uint sig = N" "N \<le> 2 ^ 53" "exp = 0 \<or> 2 ^ 52 \<le> N" "exp * 2 ^ 52 + N < 2047 * 2 ^ 52"
  shows "f64_val (packToF64UI sign exp sig) = FFin (signed_real sign (of_int N * 2 powi (exp - 1074)))"
    "signF64UI (packToF64UI sign exp sig) = sign"
proof -
  define e where "e = nat exp"
  have e: "exp = int e" using assms(1) by (simp add: e_def)
  define n where "n = unat sig"
  have N: "N = int n" using assms(2) by (simp add: n_def)
  have n: "n \<le> 2 ^ Suc 52" "e = 0 \<or> 2 ^ 52 \<le> n" "e * 2 ^ 52 + n < 2047 * 2 ^ 52"
    using assms(3-5) unfolding N e by simp_all
  define T where "T = e * 2 ^ 52 + n"
  have r: "unat (packToF64UI sign exp sig) = (if sign then 2 ^ 63 else 0) + T"
    using assms(1) n(3) unfolding T_def e_def n_def by (intro unat_packToF64UI) simp_all
  have T: "T < 2 ^ 63" "T div 2 ^ 52 < 2047" using n(3) by (simp_all add: T_def less_mult_imp_div_less)
  note fields = f64_fields_of [OF r T(1)]
  show "signF64UI (packToF64UI sign exp sig) = sign" by (rule fields)
  have "f64_mag (packToF64UI sign exp sig) = real n * 2 ^ (e + 1) / 2 ^ 1075"
    using pack_parts [OF n(1,2), folded T_def] nat_int [of "max 1 (T div 2 ^ 52)"] unfolding f64_mag_def f64_sig_def fields
    by (simp add: of_nat_max)
  also have "\<dots> = of_int N * 2 powi (exp - 1074)" by (simp add: N e power_int_diff)
  finally have mag: "f64_mag (packToF64UI sign exp sig) = of_int N * 2 powi (exp - 1074)" .
  show "f64_val (packToF64UI sign exp sig) = FFin (signed_real sign (of_int N * 2 powi (exp - 1074)))"
    unfolding f64_val_def fields mag using T(2) by simp
qed

section \<open>Rounding a significand\<close>

definition f64_returns :: "softfloat \<Rightarrow> bool \<Rightarrow> fpval \<times> uns8 \<Rightarrow> float64_t \<times> softfloat \<Rightarrow> bool" where
  "f64_returns st sign R out \<longleftrightarrow>
     f64_val (fst out) = fst R \<and> signF64UI (fst out) = sign \<and> snd out = softfloat_raiseFlags (snd R) st"

abbreviation f64_result :: "riscvRMDesc \<Rightarrow> bool \<Rightarrow> real \<Rightarrow> fpval \<times> uns8" where
  "f64_result \<equiv> fp_result 53 (- 1074) 1024"

lemma f64_max:
  "f64_returns st sign ((if away then FInf sign else FFin (signed_real sign (2 powi 1024 - 2 powi 971))), flags)
     (packToF64UI sign 0x7FF 0 - of_bool (\<not> away), softfloat_raiseFlags flags st)"
  by (cases sign; cases away) (simp_all add: f64_returns_def packToF64UI_def f64_val_def f64_mag_def f64_sig_def
      expF64UI_def fracF64UI_def signF64UI_def power_int_def)

definition pack_inc64 :: "riscvRMDesc \<Rightarrow> bool \<Rightarrow> uns64" where
  "pack_inc64 m sign = (if m \<noteq> RV_RM_RTE \<and> m \<noteq> RV_RM_RMM
     then if m = (if sign then RV_RM_RDN else RV_RM_RUP) then 0x3FF else 0 else 0x200)"

definition pack_sig64 :: "int \<Rightarrow> uns64 \<Rightarrow> uns64" where
  "pack_sig64 e sig = (if e < 0 then softfloat_shiftRightJam64 sig (nat (- e)) else sig)"

definition pack_round64 :: "riscvRMDesc \<Rightarrow> bool \<Rightarrow> uns64 \<Rightarrow> uns64" where
  "pack_round64 m sign sig =
     drop_bit 10 (sig + pack_inc64 m sign) AND NOT (of_bool ((sig AND 0x3FF) XOR 0x200 = 0 \<and> m = RV_RM_RTE))"

lemma roundPackToF64_code:
  fixes exp :: int and sign :: bool and sig :: uns64 and st :: softfloat
  assumes "softfloat_detectTininess st = softfloat_tininess_afterRounding" "- (2 ^ 15) \<le> exp" "exp < 2 ^ 15"
  defines "m \<equiv> softfloat_roundingMode st"
  defines "inc \<equiv> pack_inc64 m sign" and "sig' \<equiv> pack_sig64 exp sig"
  defines "w \<equiv> pack_round64 m sign sig'"
  shows "softfloat_roundPackToF64 sign exp sig st =
    (if 0x7FD < exp \<or> exp = 0x7FD \<and> 0x8000000000000000 \<le> sig + inc
     then (packToF64UI sign 0x7FF 0 - of_bool (inc = 0), softfloat_raiseFlags (softfloat_flag_overflow OR softfloat_flag_inexact) st)
     else (packToF64UI sign (if w = 0 then 0 else max exp 0) w,
           softfloat_raiseFlags (if sig' AND 0x3FF = 0 then 0
             else if exp < 0 \<and> (exp < - 1 \<or> sig + inc < 0x8000000000000000) then softfloat_flag_underflow OR softfloat_flag_inexact
             else softfloat_flag_inexact) st))"
proof -
  have range: "0x7FD \<le> exp mod 2 ^ 16 \<and> \<not> exp < 0 \<longleftrightarrow> 0x7FD \<le> exp" "0x7FD \<le> exp mod 2 ^ 16 \<and> exp < 0 \<longleftrightarrow> exp < 0"
    using assms(2,3) by (auto simp: mod_pos_pos_trivial zmod_trivial_iff) (smt (verit) mod_add_self2 mod_pos_pos_trivial)
  have inc': "(if \<not> m = RV_RM_RTE \<and> m \<noteq> RV_RM_RMM
      then if m = (if sign then RV_RM_RDN else RV_RM_RUP) then 0x3FF else 0 else 0x200) = inc"
    by (simp add: inc_def pack_inc64_def)
  have ov: "0x7FD \<le> exp mod 2 ^ 16 \<and> \<not> exp < 0 \<and> (0x7FD < exp \<or> 0x8000000000000000 \<le> sig + inc) \<longleftrightarrow>
      0x7FD < exp \<or> exp = 0x7FD \<and> 0x8000000000000000 \<le> sig + inc" using range(1) by auto
  have w: "w = drop_bit 10 (sig' + inc) AND NOT (of_bool ((sig' AND 0x3FF) XOR 0x200 = 0 \<and> m = RV_RM_RTE))"
    by (simp add: w_def pack_round64_def inc_def)
  show ?thesis
  proof (cases "exp < 0")
    case True
    then show ?thesis
      unfolding softfloat_roundPackToF64_def Let_def m_def [symmetric] inc' ov range(2)
      using assms(1) by (simp add: w sig'_def pack_sig64_def)
  next
    case False
    then show ?thesis
      unfolding softfloat_roundPackToF64_def Let_def m_def [symmetric] inc' ov range(2)
      by (simp add: w sig'_def pack_sig64_def)
  qed
qed

lemma roundPackToF64_correct:
  fixes exp :: int and sign :: bool and sig :: uns64 and st :: softfloat
  defines "m \<equiv> softfloat_roundingMode st"
  assumes "rm_ok m" "softfloat_detectTininess st = softfloat_tininess_afterRounding"
    and X: "sticky (2 ^ 9) X (int (unat sig))" "2 ^ 62 \<le> X" "X < 2 ^ 63"
    and exp: "- (2 ^ 15) \<le> exp" "exp < 2 ^ 15" and y: "y = X * 2 powi (exp - 1084)"
  shows "f64_returns st sign (f64_result m sign y) (softfloat_roundPackToF64 sign exp sig st)"
proof -
  define inc where "inc = pack_inc64 m sign"
  define sig' where "sig' = pack_sig64 exp sig"
  define rb where "rb = sig' AND 0x3FF"
  define w where "w = pack_round64 m sign sig'"
  define tiny where "tiny \<longleftrightarrow> exp < 0 \<and> (exp < - 1 \<or> sig + inc < 0x8000000000000000)"
  note code = roundPackToF64_code [OF assms(3) exp, of sign sig,
      folded m_def, folded inc_def sig'_def, folded w_def rb_def, folded tiny_def]
  define J where "J = unat sig"
  define J' where "J' = (if exp < 0 then jam J (nat (- exp)) else J)"
  note XJ = X(1) [folded J_def]
  have J: "2 ^ 62 \<le> J" "J < 2 ^ 63"
    using sticky_dvd(3) [OF XJ, of "2 ^ 62"] sticky_dvd(1) [OF XJ, of "2 ^ 63"] X(2,3) by simp_all
  have sigJ: "uint sig = int J" by (simp add: uint_unat(3) J_def)
  have sig': "uint sig' = int J'"
    unfolding uint_unat(3) by (simp add: sig'_def pack_sig64_def J'_def J_def unat_shiftRightJam64)
  have J': "J' \<le> 2 ^ 63" using J jam_le [of J "nat (- exp)"] by (simp add: J'_def)
  have inc: "uint inc = round_inc m sign 10" using assms(2) by (auto simp: inc_def pack_inc64_def round_inc_def)
  have rb: "rb = take_bit 10 sig'" by (simp add: rb_def take_bit_eq_mask mask_eq_exp_minus_1)
  have "int J' mod 2 ^ 10 = int (J' mod 2 ^ 10)" by (simp add: zmod_int)
  then have rb0: "rb = 0 \<longleftrightarrow> J' mod 2 ^ 10 = 0"
    unfolding rb word_uint_eq_iff uint_take_bit sig' by simp
  have w: "uint w = round_mag m sign (int J') 10"
    using uint_round_sig(2) [OF assms(2) _ _ inc, of sig'] J' by (simp add: w_def pack_round64_def rb [unfolded rb_def] inc_def sig')
  have add: "uint (sig + inc) = int J + round_inc m sign 10"
    using uint_round_sig(1) [OF assms(2) _ _ inc, of sig] J by (simp add: sigJ)
  have big: "0x8000000000000000 \<le> sig + inc \<longleftrightarrow> 2 ^ 53 \<le> round_mag m sign (int J) 10"
    using round_mag_ge [OF assms(2), of 10 "2 ^ 53" sign "int J"] by (simp add: word_le_def add)
  have away: "inc = 0 \<longleftrightarrow> \<not> rounds_away m sign" using assms(2) by (auto simp: inc_def pack_inc64_def rounds_away_def rm_ok_def)
  define N where "N = round_mag m sign (int J') 10"
  have big': "exp = 0x7FD \<and> 0x8000000000000000 \<le> sig + inc \<longleftrightarrow> exp = 0x7FD \<and> 2 ^ 53 \<le> N"
    unfolding big N_def by (auto simp: J'_def)
  have tiny_iff: "tiny \<longleftrightarrow> exp < 0 \<and> (exp < - 1 \<or> round_mag m sign (int J) 10 < 2 ^ 53)"
    unfolding tiny_def using big by (metis not_le)
  have result: "f64_result m sign y =
    (if 0x7FD < exp \<or> exp = 0x7FD \<and> 2 ^ 53 \<le> N
     then ((if rounds_away m sign then FInf sign else FFin (signed_real sign (2 powi 1024 - 2 powi 971))),
           softfloat_flag_overflow OR softfloat_flag_inexact)
     else (FFin (signed_real sign (of_int N * 2 powi (max exp 0 - 1074))),
           if rb = 0 then 0 else if tiny then softfloat_flag_underflow OR softfloat_flag_inexact else softfloat_flag_inexact))"
    unfolding rb0 tiny_iff N_def J'_def
    using fp_result_parts [of m 10 53 X J y exp "- 1074" 1024 sign] assms(2) XJ X(2,3) y by (simp del: or_numerals)
  have parts: "N \<le> 2 ^ 53" "0 \<le> exp \<Longrightarrow> 2 ^ 52 \<le> N"
    unfolding N_def J'_def using fp_parts(6,7) [of m 10 53 X J y exp "- 1074" sign] assms(2) XJ X(2,3) y by simp_all
  show ?thesis
  proof (cases "0x7FD < exp \<or> exp = 0x7FD \<and> 2 ^ 53 \<le> N")
    case True
    then show ?thesis by (simp only: result code big' away if_True f64_max)
  next
    case False
    have "f64_val (packToF64UI sign (if w = 0 then 0 else max exp 0) w) =
      FFin (signed_real sign (of_int N * 2 powi (max exp 0 - 1074))) \<and>
      signF64UI (packToF64UI sign (if w = 0 then 0 else max exp 0) w) = sign"
    proof (cases "w = 0")
      case True
      with f64_val_pack [of 0 w 0 sign] w [folded N_def] show ?thesis by simp
    next
      case w0: False
      have "max exp 0 * 2 ^ 52 + N < 2047 * 2 ^ 52" using False parts(1) by (auto simp: max_def)
      then show ?thesis using f64_val_pack [of "max exp 0" w N sign] w [folded N_def] parts w0 by (auto simp: max_def)
    qed
    with False show ?thesis by (simp only: result code big' f64_returns_def if_False fst_conv snd_conv simp_thms)
  qed
qed

section \<open>Normalize, round and pack\<close>

lemma roundPackToF64_exact:
  fixes exp :: int and s :: uns64
  assumes "rm_ok (softfloat_roundingMode st)" "softfloat_detectTininess st = softfloat_tininess_afterRounding"
    and "0 \<le> exp" "exp < 0x7FD" "2 ^ 52 \<le> unat s" "unat s < 2 ^ 53"
  shows "softfloat_roundPackToF64 sign exp (push_bit 10 s) st = (packToF64UI sign exp s, st)"
proof -
  have p: "unat (push_bit 10 s) = unat s * 2 ^ 10" using assms(6) by (intro unat_push_bit) simp
  have z: "push_bit 10 s AND 0x3FF = 0"
    using take_bit_push_bit [of 10 10 s] by (simp add: take_bit_eq_mask mask_eq_exp_minus_1)
  define m where "m = softfloat_roundingMode st"
  define inc where "inc = pack_inc64 m sign"
  have i: "unat inc < 2 ^ 10" by (simp add: inc_def pack_inc64_def)
  have "unat (push_bit 10 s + inc) = unat s * 2 ^ 10 + unat inc"
    using p i assms(6) by (simp add: unat_word_ariths)
  then have "unat (drop_bit 10 (push_bit 10 s + inc)) = unat s" using i by (simp add: unat_drop_bit)
  then have w: "pack_round64 m sign (push_bit 10 s) = s"
    by (simp add: pack_round64_def z flip: inc_def) (simp add: word_unat_eq_iff)
  have "s \<noteq> 0" using assms(5) by auto
  then show ?thesis using assms(3,4) z w
    by (subst roundPackToF64_code [OF assms(2)]) (simp_all add: pack_sig64_def flip: m_def)
qed

lemma normRoundPackToF64_eq:
  fixes exp :: int and sig :: uns64
  defines "d \<equiv> softfloat_countLeadingZeros64 sig - 1"
  assumes "rm_ok (softfloat_roundingMode st)" "softfloat_detectTininess st = softfloat_tininess_afterRounding"
    and "sig \<noteq> 0" "unat sig < 2 ^ 63" and "- (2 ^ 14) \<le> exp" "exp < 2 ^ 14"
  shows "softfloat_normRoundPackToF64 sign exp sig st = softfloat_roundPackToF64 sign (exp - int d) (push_bit d sig) st"
    "normal_shift 63 (unat sig) d" "unat (push_bit d sig) = unat sig * 2 ^ d" "d < 63"
proof -
  have n: "normal_shift 64 (unat sig) (softfloat_countLeadingZeros64 sig)" using assms(4) by (rule clz64)
  have "softfloat_countLeadingZeros64 sig \<noteq> 0"
  proof
    assume "softfloat_countLeadingZeros64 sig = 0"
    with n assms(5) show False by (simp add: normal_shift_def)
  qed
  then have d: "softfloat_countLeadingZeros64 sig = Suc d" by (simp add: d_def)
  show ns: "normal_shift 63 (unat sig) d" using n by (simp add: d normal_shift_def)
  then show p: "unat (push_bit d sig) = unat sig * 2 ^ d" by (intro unat_push_bit) (simp add: normal_shift_def)
  have "1 \<le> unat sig" using assms(4) by (simp add: Suc_le_eq unat_gt_0)
  then have "2 ^ d \<le> unat sig * 2 ^ d" by simp
  with ns have "2 ^ d < (2 :: nat) ^ 63" unfolding normal_shift_def by linarith
  then show d31: "d < 63" by (rule power_less_imp_less_exp [rotated]) simp
  define e where "e = exp - int d"
  have e: "- (2 ^ 15) \<le> e" "e < 2 ^ 15" using assms(6,7) d31 by (simp_all add: e_def)
  have "e mod 2 ^ 32 < 0x7FD \<longleftrightarrow> 0 \<le> e \<and> e < 0x7FD"
    using e by (cases "0 \<le> e") (auto simp: mod_pos_pos_trivial zmod_trivial_iff, smt (verit) mod_add_self2 mod_pos_pos_trivial)
  then have code: "softfloat_normRoundPackToF64 sign exp sig st =
      (if 10 \<le> d \<and> 0 \<le> e \<and> e < 0x7FD then (packToF64UI sign e (push_bit (d - 10) sig), st)
       else softfloat_roundPackToF64 sign e (push_bit d sig) st)"
    using assms(4) by (simp add: softfloat_normRoundPackToF64_def Let_def d e_def nat_diff_distrib)
  show "softfloat_normRoundPackToF64 sign exp sig st = softfloat_roundPackToF64 sign (exp - int d) (push_bit d sig) st"
  proof (cases "10 \<le> d \<and> 0 \<le> e \<and> e < 0x7FD")
    case True
    have s: "push_bit d sig = push_bit 10 (push_bit (d - 10) sig)" using True by (simp add: push_bit_push_bit)
    define a where "a = unat sig * 2 ^ (d - 10)"
    have "unat sig * 2 ^ d = a * 2 ^ 10" unfolding a_def using True power_add [of "2 :: nat" "d - 10" 10] by simp
    with ns have a: "2 ^ 52 \<le> a" "a < 2 ^ 53" by (simp_all add: normal_shift_def)
    then have "unat (push_bit (d - 10) sig) = a" unfolding a_def by (intro unat_push_bit) simp
    with a True have "softfloat_roundPackToF64 sign e (push_bit d sig) st = (packToF64UI sign e (push_bit (d - 10) sig), st)"
      unfolding s by (intro roundPackToF64_exact [OF assms(2,3)]) simp_all
    with True show ?thesis by (simp add: code flip: e_def)
  qed (auto simp: code simp flip: e_def)
qed

lemma normRoundPackToF64_correct:
  fixes exp :: int and sign :: bool and sig :: uns64 and st :: softfloat
  defines "m \<equiv> softfloat_roundingMode st"
  assumes "rm_ok m" "softfloat_detectTininess st = softfloat_tininess_afterRounding"
    and "sig \<noteq> 0" "unat sig < 2 ^ 63" and X: "X = real (unat sig) \<or> sticky 2 X (int (unat sig)) \<and> 2 ^ 59 \<le> unat sig"
    and exp: "- (2 ^ 14) \<le> exp" "exp < 2 ^ 14" and y: "y = X * 2 powi (exp - 1084)"
  shows "f64_returns st sign (f64_result m sign y) (softfloat_normRoundPackToF64 sign exp sig st)"
proof -
  define d where "d = softfloat_countLeadingZeros64 sig - 1"
  note norm = normRoundPackToF64_eq [OF assms(2) [unfolded m_def] assms(3-5) exp, folded d_def]
  have J: "2 ^ 62 \<le> unat sig * 2 ^ d" "unat sig * 2 ^ d < 2 ^ 63" using norm(2) by (simp_all add: normal_shift_def)
  have st: "sticky (2 ^ 9) (X * 2 ^ d) (int (unat sig * 2 ^ d))"
    using X
  proof
    assume "X = real (unat sig)"
    then show ?thesis using sticky_int [of "2 ^ 9" "int (unat sig * 2 ^ d)"] by simp
  next
    assume s: "sticky 2 X (int (unat sig)) \<and> 2 ^ 59 \<le> unat sig"
    have "d < 4"
    proof (rule ccontr)
      assume "\<not> d < 4"
      then have "(2 :: nat) ^ 4 \<le> 2 ^ d" by (intro power_increasing) simp_all
      with s have "2 ^ 59 * 2 ^ 4 \<le> unat sig * 2 ^ d" by (intro mult_mono) simp_all
      with J(2) show False by simp
    qed
    have "sticky (2 * 2 ^ d) (X * 2 ^ d) (int (unat sig) * 2 ^ d)" by (rule sticky_scale) (use s in simp)
    moreover have "(2 :: int) * 2 ^ d dvd 2 ^ 9" using \<open>d < 4\<close> le_imp_power_dvd [of "Suc d" 9 "2 :: int"] by simp
    ultimately show ?thesis using sticky_mono by fastforce
  qed
  have "2 ^ 62 \<le> X * 2 ^ d" "X * 2 ^ d < 2 ^ 63"
    using sticky_dvd(3) [OF st, of "2 ^ 62"] sticky_dvd(1) [OF st, of "2 ^ 63"] J
    by (simp_all flip: of_nat_mult of_nat_power) 
  moreover have "y = X * 2 ^ d * 2 powi (exp - int d - 1084)" by (simp add: y power_int_diff)
  ultimately show ?thesis unfolding norm(1) m_def
    using assms(2,3) norm(3,4) st exp by (intro roundPackToF64_correct) (simp_all add: m_def)
qed

section \<open>Conversion of 64-bit integers to double precision\<close>

lemma f64_returns_0:
  assumes "rm_ok m"
  shows "f64_returns st sign (f64_result m sign 0) (packToF64UI sign 0 0, st)"
  using f64_val_pack [of 0 0 0 sign] by (simp add: fp_result_0 [OF assms] f64_returns_def)

lemma packToF64UI_0 [simp]: "packToF64UI False 0 0 = 0"
  by (simp add: packToF64UI_def)

lemma i64_to_f64_correct:
  fixes a :: uns64 and st :: softfloat
  defines "m \<equiv> softfloat_roundingMode st" and "sign \<equiv> sint a < 0"
  assumes ok: "rm_ok m" "softfloat_detectTininess st = softfloat_tininess_afterRounding"
  shows "f64_returns st sign (f64_result m sign (of_int \<bar>sint a\<bar>)) (i64_to_f64 a st)"
proof (cases "a AND 0x7FFFFFFFFFFFFFFF = 0")
  case True
  then have "unat a mod 2 ^ 63 = 0"
    using unat_lost [of a 63] by (simp add: take_bit_eq_mask mask_eq_exp_minus_1)
  moreover have "unat a < 2 * 2 ^ 63" using unsigned_less [of a] by simp
  ultimately have "unat a = 0 \<or> unat a = 2 ^ 63" by (auto elim!: dvdE simp: mod_eq_0_iff_dvd)
  then consider "a = 0" | "a = 0x8000000000000000" by (auto simp: word_unat_eq_iff)
  then show ?thesis
  proof cases
    case 1
    then show ?thesis using f64_returns_0 [OF ok(1), of st False] by (simp add: i64_to_f64_def sign_def)
  next
    case 2
    have "softfloat_roundPackToF64 True 0x43D (push_bit 10 0x0010000000000000) st = (packToF64UI True 0x43E 0, st)"
      by (subst roundPackToF64_exact) (use ok in \<open>simp_all add: m_def packToF64UI_def\<close>)
    moreover have "f64_returns st True (f64_result m True (2 ^ 63)) (softfloat_roundPackToF64 True 0x43D (push_bit 10 0x0010000000000000) st)"
      unfolding m_def by (rule roundPackToF64_correct [where X = "2 ^ 62"])
        (use ok sticky_int [of 512 "2 ^ 62"] in \<open>simp_all add: m_def power_int_def\<close>)
    ultimately show ?thesis using 2 by (simp add: i64_to_f64_def sign_def)
  qed
next
  case False
  define absA where "absA = (if sint a < 0 then - a else a)"
  have u: "uint absA = \<bar>sint a\<bar>" unfolding absA_def by (rule uint_abs)
  have "a \<noteq> 0" "a \<noteq> 0x8000000000000000" using False by auto
  then have "uint a \<noteq> 0" "uint a \<noteq> 2 ^ 63" by (auto simp: word_uint_eq_iff)
  then have "uint absA \<noteq> 0" "uint absA < 2 ^ 63"
    unfolding u using sint_uint_cases [of a] uint_lt2p [of a] uint_ge_0 [of a] by (auto split: if_splits)
  then have "absA \<noteq> 0" "unat absA < 2 ^ 63" using uint_unat(1) [of absA 63] by auto
  moreover have "real (unat absA) = of_int \<bar>sint a\<bar>" using arg_cong [OF u, of real_of_int] by simp
  ultimately have "f64_returns st sign (f64_result m sign (of_int \<bar>sint a\<bar>)) (softfloat_normRoundPackToF64 sign 0x43C absA st)"
    unfolding m_def using ok by (intro normRoundPackToF64_correct) (auto simp: m_def)
  then show ?thesis using False by (simp add: i64_to_f64_def sign_def absA_def Let_def)
qed

lemma ui64_to_f64_correct:
  fixes a :: uns64 and st :: softfloat
  defines "m \<equiv> softfloat_roundingMode st"
  assumes ok: "rm_ok m" "softfloat_detectTininess st = softfloat_tininess_afterRounding"
  shows "f64_returns st False (f64_result m False (real (unat a))) (ui64_to_f64 a st)"
proof -
  have top: "a AND 0x8000000000000000 \<noteq> 0 \<longleftrightarrow> 2 ^ 63 \<le> unat a"
  proof -
    have "a AND 0x8000000000000000 \<noteq> 0 \<longleftrightarrow> bit a 63"
      using and_exp_eq_0_iff_not_bit [of a 63] by simp
    also have "\<dots> \<longleftrightarrow> bit (unat a) 63" by (simp add: bit_unsigned_iff)
    also have "\<dots> \<longleftrightarrow> odd (unat a div 2 ^ 63)" by (rule bit_iff_odd)
    also have "\<dots> \<longleftrightarrow> 2 ^ 63 \<le> unat a"
    proof -
      have "unat a div 2 ^ 63 < 2" using unsigned_less [where 'a = nat, of a] by (simp add: less_mult_imp_div_less)
      then have "odd (unat a div 2 ^ 63) \<longleftrightarrow> unat a div 2 ^ 63 \<noteq> 0" 
        by (cases "unat a div 2 ^ 63") auto
      then show ?thesis by (simp add: div_eq_0_iff not_less)
    qed
    finally show ?thesis .
  qed
  consider "a = 0" | "2 ^ 63 \<le> unat a" | "a \<noteq> 0" "unat a < 2 ^ 63" by linarith
  then show ?thesis
  proof cases
    case 1
    then show ?thesis using f64_returns_0 [OF ok(1), of st False] by (simp add: ui64_to_f64_def)
  next
    case 2
    define s where "s = softfloat_shortShiftRightJam64 a 1"
    have s: "unat s = jam (unat a) 1" unfolding s_def by (rule unat_shortShiftRightJam64)
    have "2 ^ 63 \<le> real (unat a)" using 2 by (rule nat_power_real_le)
    moreover have "real (unat a) < 2 ^ 64"
      by (rule nat_power_real) (use unsigned_less [where 'a = nat, of a] in simp)
    ultimately have "f64_returns st False (f64_result m False (real (unat a))) (softfloat_roundPackToF64 False 0x43D s st)"
      unfolding m_def using ok sticky_mono [OF sticky_jam [of "unat a" 1], of "2 ^ 9"]
      by (intro roundPackToF64_correct [where X = "real (unat a) / 2"]) (simp_all add: m_def s)
    moreover have "a \<noteq> 0" using 2 by auto
    ultimately show ?thesis using 2 top by (simp add: ui64_to_f64_def s_def)
  next
    case 3
    then have "f64_returns st False (f64_result m False (real (unat a))) (softfloat_normRoundPackToF64 False 0x43C a st)"
      unfolding m_def using ok by (intro normRoundPackToF64_correct) (auto simp: m_def)
    with 3 top show ?thesis by (simp add: ui64_to_f64_def)
  qed
qed

end
