(* ===== verification/RiscvSoftFloatOps.thy ===== *)
theory RiscvSoftFloatOps
  imports RiscvSoftFloatNarrow RiscvSoftFloatDouble
begin

text \<open>
  The callbacks of the simulator with a floating-point result: each returns the correctly rounded
  value of the exact result, and accrues the flags of the standard.
\<close>

section \<open>Outcome of a callback\<close>

definition fp_outcome32 :: "bool \<Rightarrow> fpval \<times> uns8 \<Rightarrow> uns8 \<Rightarrow> (float32_t \<times> uns8 \<times> softfloat) option \<Rightarrow> bool" where
  "fp_outcome32 sign R setFlags out \<longleftrightarrow>
     (\<exists>r st. out = Some (r, setFlags OR snd R, st) \<and> f32_val r = fst R \<and> (\<forall>x. fst R = FFin x \<longrightarrow> signF32UI r = sign))"

definition fp_outcome64 :: "bool \<Rightarrow> fpval \<times> uns8 \<Rightarrow> uns8 \<Rightarrow> (float64_t \<times> uns8 \<times> softfloat) option \<Rightarrow> bool" where
  "fp_outcome64 sign R setFlags out \<longleftrightarrow>
     (\<exists>r st. out = Some (r, setFlags OR snd R, st) \<and> f64_val r = fst R \<and> (\<forall>x. fst R = FFin x \<longrightarrow> signF64UI r = sign))"

lemma fp_hooks_outcome32:
  assumes "f32_gives st sign R (f st)" "softfloat_exceptionFlags st = 0"
  shows "fp_outcome32 sign R setFlags (fp_hooks f setFlags (Some st))"
  using assms by (cases "f st") (simp add: fp_outcome32_def fp_hooks_def f32_gives_def afterFP_def softfloat_raiseFlags_def)

lemma fp_hooks_outcome64:
  assumes "f64_returns st sign R (f st)" "softfloat_exceptionFlags st = 0"
  shows "fp_outcome64 sign R setFlags (fp_hooks f setFlags (Some st))"
  using assms by (cases "f st") (simp add: fp_outcome64_def fp_hooks_def f64_returns_def afterFP_def softfloat_raiseFlags_def)

section \<open>Conversions\<close>

lemmas riscvFCVT_fp_defs = riscvFCVTF32I32_def riscvFCVTF32U32_def riscvFCVTF32I64_def riscvFCVTF32U64_def
  riscvFCVTF64I64_def riscvFCVTF64U64_def

lemmas from_int_correct = i32_to_f32_correct [THEN f32_returns_gives] ui32_to_f32_correct [THEN f32_returns_gives]
  i64_to_f32_correct [THEN f32_returns_gives] ui64_to_f32_correct [THEN f32_returns_gives]
  i64_to_f64_correct ui64_to_f64_correct

text \<open>C18. The conversions of signed and unsigned 32-bit and 64-bit integers to single precision, and of 64-bit
  integers to double precision, return the number that the rounding mode selects next to the integer, with
  the inexact flag exactly when they differ.\<close>

theorem riscvFCVT_from_int:
  assumes "beforeFPCVT s rc st = Some st'" and "softfloat_detectTininess st = softfloat_tininess_afterRounding"
  defines "m \<equiv> softfloat_roundingMode st'"
  shows "fp_outcome32 (sint i < 0) (f32_result m (sint i < 0) (of_int \<bar>sint i\<bar>)) setFlags (riscvFCVTF32I32 s i rc setFlags st)
    \<and> fp_outcome32 False (f32_result m False (real (unat i))) setFlags (riscvFCVTF32U32 s i rc setFlags st)
    \<and> fp_outcome32 (sint j < 0) (f32_result m (sint j < 0) (of_int \<bar>sint j\<bar>)) setFlags (riscvFCVTF32I64 s j rc setFlags st)
    \<and> fp_outcome32 False (f32_result m False (real (unat j))) setFlags (riscvFCVTF32U64 s j rc setFlags st)
    \<and> fp_outcome64 (sint j < 0) (f64_result m (sint j < 0) (of_int \<bar>sint j\<bar>)) setFlags (riscvFCVTF64I64 s j rc setFlags st)
    \<and> fp_outcome64 False (f64_result m False (real (unat j))) setFlags (riscvFCVTF64U64 s j rc setFlags st)"
  using beforeFPCVT_Some [OF assms(1)] assms(2) unfolding riscvFCVT_fp_defs assms(1) m_def
  by (intro conjI fp_hooks_outcome32 fp_hooks_outcome64 from_int_correct) simp_all

lemma f32_result_example:
  "f32_result RV_RM_RTE False (3 / 2) = (FFin (3 / 2), 0)" "f32_result RV_RM_RTE False 3 = (FFin 3, 0)"
  "f32_result RV_RM_RTE False (9 / 4) = (FFin (9 / 4), 0)" "f32_result RV_RM_RTE True 3 = (FFin (- 3), 0)"
  using f32_result_exact [of RV_RM_RTE "0x3FC00000" False] f32_result_exact [of RV_RM_RTE "0x40400000" False]
    f32_result_exact [of RV_RM_RTE "0x40100000" False] f32_result_exact [of RV_RM_RTE "0x40400000" True]
  by (simp_all add: rm_ok_def f32_mag_def f32_sig_def expF32UI_def fracF32UI_def)

theorem riscvFCVT_from_int_witness:
  "fp_outcome32 True (FFin (- 3), 0) 0 (riscvFCVTF32I32 (riscv_zero riscvConfig_zero) (- 3) vmi_FPR_NEAREST 0 softfloat_example)"
  using riscvFCVT_from_int [OF beforeFPCVT_example, of "- 3"] by (simp add: f32_result_example softfloat_example_def)

text \<open>Narrowing keeps infinities and NaNs.\<close>

fun fp_narrow :: "(bool \<Rightarrow> real \<Rightarrow> fpval \<times> uns8) \<Rightarrow> bool \<Rightarrow> bool \<Rightarrow> fpval \<Rightarrow> fpval \<times> uns8" where
  "fp_narrow R snan sign FNaN = (FNaN, if snan then softfloat_flag_invalid else 0)"
| "fp_narrow R snan sign (FInf s) = (FInf s, 0)"
| "fp_narrow R snan sign (FFin x) = R sign \<bar>x\<bar>"

lemma f64_to_f32_correct:
  fixes a :: float64_t and st :: softfloat
  defines "m \<equiv> softfloat_roundingMode st"
  assumes ok: "rm_ok m" "softfloat_detectTininess st = softfloat_tininess_afterRounding"
  shows "f32_gives st (signF64UI a) (fp_narrow (f32_result m) (\<not> bit a 51) (signF64UI a) (f64_val a)) (f64_to_f32 a st)"
proof (cases "expF64UI a = 0x7FF")
  case True
  have "a AND 0x0008000000000000 = 0 \<longleftrightarrow> \<not> bit a 51" using and_exp_eq_0_iff_not_bit [of a 51] by simp
  then have nan: "softfloat_f64UIToCommonNaN a st = softfloat_raiseFlags (if \<not> bit a 51 then softfloat_flag_invalid else 0) st"
    by (simp add: softfloat_f64UIToCommonNaN_def)
  have "f32_val defaultNaNF32UI = FNaN" by (simp add: f32_val_def expF32UI_def fracF32UI_def)
  with True show ?thesis
    using f32_gives_inf' [of st "signF64UI a" "signF64UI a"] by (simp add: f64_to_f32_def f64_val_def nan) (simp add: f32_gives_def)
next
  case False
  moreover have "\<bar>signed_real (signF64UI a) (f64_mag a)\<bar> = f64_mag a" using f64_mag_nonneg by simp
  ultimately show ?thesis using f64_to_f32_finite [of st a] ok f32_returns_gives
    by (auto simp: f64_val_def m_def split: if_splits)
qed

text \<open>C19. The conversion of double to single precision returns the number that the rounding mode selects next to the
  value, with the overflow, underflow and inexact flags of the standard, and keeps infinities and NaNs;
  a signalling NaN raises the invalid flag.\<close>

theorem riscvFCVTF32F64_correct:
  assumes "beforeFPCVT s rc st = Some st'" and "softfloat_detectTininess st = softfloat_tininess_afterRounding"
  shows "fp_outcome32 (signF64UI a) (fp_narrow (f32_result (softfloat_roundingMode st')) (\<not> bit a 51) (signF64UI a) (f64_val a))
    setFlags (riscvFCVTF32F64 s a rc setFlags st)"
  using beforeFPCVT_Some [OF assms(1)] assms(2) unfolding riscvFCVTF32F64_def assms(1)
  by (intro fp_hooks_outcome32 f64_to_f32_correct) simp_all

theorem riscvFCVTF32F64_correct_witness:
  "fp_outcome32 False (FFin (3 / 2), 0) 0
     (riscvFCVTF32F64 (riscv_zero riscvConfig_zero) 0x3FF8000000000000 vmi_FPR_NEAREST 0 softfloat_example)"
proof -
  have "f64_val 0x3FF8000000000000 = FFin (3 / 2)" "\<not> signF64UI 0x3FF8000000000000"
    by (simp_all add: f64_val_def f64_mag_def f64_sig_def expF64UI_def fracF64UI_def signF64UI_def)
  then show ?thesis using riscvFCVTF32F64_correct [OF beforeFPCVT_example, of "0x3FF8000000000000"]
    by (simp add: f32_result_example softfloat_example_def)
qed

section \<open>Arithmetic\<close>

definition fp_hart_example :: riscv where
  "fp_hart_example = (riscv_zero riscvConfig_zero)\<lparr>fpActiveRM := RV_RM_RTE\<rparr>"

lemma beforeFP_example:
  "beforeFP fp_hart_example softfloat_example = Some (softfloat_example\<lparr>softfloat_roundingMode := RV_RM_RTE\<rparr>)"
  "fpActiveRM fp_hart_example = RV_RM_RTE"
  by (simp_all add: beforeFP_def beforeFPInt_def fp_hart_example_def softfloat_example_def)

lemma beforeFP_Some:
  assumes "beforeFP s st = Some st'" "fpActiveRM s = RV_RM_CURRENT \<or> rm_ok (fpActiveRM s)"
  shows "rm_ok (softfloat_roundingMode st') \<and> softfloat_exceptionFlags st' = 0 \<and>
    softfloat_detectTininess st' = softfloat_detectTininess st"
  using assms unfolding beforeFP_def by (rule beforeFPInt_Some)

text \<open>C16. Single-precision addition and subtraction return the number that the rounding mode selects next to the
  exact sum or difference, with the flags of the standard. An exact zero has the sign of the operands when they
  agree, and is otherwise negative only when rounding down. Infinities of opposite sign give an invalid NaN.\<close>

theorem riscvFADD32_FSUB32_correct:
  fixes a b :: float32_t
  assumes "beforeFP s st = Some st'" and "fpActiveRM s = RV_RM_CURRENT \<or> rm_ok (fpActiveRM s)"
    and "softfloat_detectTininess st = softfloat_tininess_afterRounding"
  defines "m \<equiv> softfloat_roundingMode st'" and "snan \<equiv> softfloat_isSigNaNF32UI a \<or> softfloat_isSigNaNF32UI b"
  shows "fp_outcome32 (fp_add_sign m (signF32UI a) (signF32UI b) (f32_val a) (f32_val b))
      (fp_add (f32_result m) m snan (signF32UI a) (signF32UI b) (f32_val a) (f32_val b))
      setFlags (riscvFADD32 s a b setFlags st)
    \<and> fp_outcome32 (fp_add_sign m (signF32UI a) (\<not> signF32UI b) (f32_val a) (fp_neg (f32_val b)))
      (fp_add (f32_result m) m snan (signF32UI a) (\<not> signF32UI b) (f32_val a) (fp_neg (f32_val b)))
      setFlags (riscvFSUB32 s a b setFlags st)"
  using beforeFP_Some [OF assms(1,2)] assms(3) unfolding riscvFADD32_def riscvFSUB32_def assms(1) m_def snan_def
  by (intro conjI fp_hooks_outcome32 f32_add_correct f32_sub_correct) simp_all

theorem riscvFADD32_FSUB32_correct_witness:
  "fp_outcome32 False (FFin 3, 0) 0 (riscvFADD32 fp_hart_example 0x3FC00000 0x3FC00000 0 softfloat_example)"
proof -
  have "\<not> signF32UI 0x3FC00000" by (simp add: signF32UI_def)
  then show ?thesis using riscvFADD32_FSUB32_correct [OF beforeFP_example(1), of "0x3FC00000" "0x3FC00000"]
    by (simp add: beforeFP_example(2) f32_val_example f32_result_example sum_sign_def rm_ok_def) (simp add: softfloat_example_def)
qed

text \<open>C17. Single-precision multiplication returns the number that the rounding mode selects next to the exact
  product, with the flags of the standard; the sign is the product of the signs. A zero times an infinity gives an
  invalid NaN.\<close>

theorem riscvFMUL32_correct:
  assumes "beforeFP s st = Some st'" and "fpActiveRM s = RV_RM_CURRENT \<or> rm_ok (fpActiveRM s)"
    and "softfloat_detectTininess st = softfloat_tininess_afterRounding"
  shows "fp_outcome32 (signF32UI a \<noteq> signF32UI b)
      (fp_mul (f32_result (softfloat_roundingMode st')) (softfloat_isSigNaNF32UI a \<or> softfloat_isSigNaNF32UI b)
        (signF32UI a \<noteq> signF32UI b) (f32_val a) (f32_val b))
      setFlags (riscvFMUL32 s a b setFlags st)"
  using beforeFP_Some [OF assms(1,2)] assms(3) unfolding riscvFMUL32_def assms(1)
  by (intro fp_hooks_outcome32 f32_mul_correct) simp_all

theorem riscvFMUL32_correct_witness:
  "fp_outcome32 False (FFin (9 / 4), 0) 0 (riscvFMUL32 fp_hart_example 0x3FC00000 0x3FC00000 0 softfloat_example)"
proof -
  have "\<not> signF32UI 0x3FC00000" by (simp add: signF32UI_def)
  then show ?thesis using riscvFMUL32_correct [OF beforeFP_example(1), of "0x3FC00000" "0x3FC00000"]
    by (simp add: beforeFP_example(2) f32_val_example f32_result_example rm_ok_def) (simp add: softfloat_example_def)
qed

end
