(* ===== verification/Spec2Isabelle.thy ===== *)
theory Spec2Isabelle
  imports RiscvCSRFacts RiscvEncoding RiscvDecodeInfo RiscvSoftFloatOps
begin

text \<open>
  A model of the RISC-V processor of the OVP simulator, \<^verbatim>\<open>src/riscv-ovpsim/source\<close>, and theorems about it.

  \<^bold>\<open>The program.\<close> The processor model is a C library that a simulator kernel drives through its VMI
  interface. The kernel executes translated code and calls the model back: to fetch (\<^verbatim>\<open>riscvIFetchExcept\<close>),
  on a memory access that no mapping allows (\<^verbatim>\<open>riscvRdPrivExcept\<close>, \<^verbatim>\<open>riscvWrPrivExcept\<close>, which ask
  \<^verbatim>\<open>riscvVMMiss\<close>), and on changes of the net ports. The model keeps its state in \<^verbatim>\<open>struct riscvS\<close> and
  calls the kernel to map memory, to set the program counter, to halt and to restart.

  \<^bold>\<open>State.\<close> \<open>RiscvTypes\<close> has the record \<open>riscv\<close> for \<^verbatim>\<open>struct riscvS\<close> with its registers (\<open>riscvCSRs\<close>),
  write masks (\<open>riscvCSRMasks\<close>), configuration (\<open>riscvConfig\<close>) and TLB. The kernel is not part of the
  repository. Its queries are the record \<open>vmirt\<close> of functions, an argument of the definitions that use
  them; each may depend on the calls so far. The calls that change the kernel's state are appended to
  \<open>calls\<close>, in order, so that a theorem can say what the kernel was asked to do. What the model relies on
  is stated by the locales below.

  \<^bold>\<open>Theories\<close>, each with the part of the code it models:
  \<^item> \<open>RiscvPrelude\<close>: words, bit fields (\<open>getf\<close>, \<open>setf\<close>) and lists, shared by all.
  \<^item> \<open>RiscvTypes\<close>: \<^verbatim>\<open>riscvStructure.h\<close>, \<^verbatim>\<open>riscvConfig.h\<close>, \<^verbatim>\<open>riscvMode.h\<close>, \<^verbatim>\<open>riscvVariant.h\<close>,
    \<^verbatim>\<open>riscvExceptionTypes.h\<close>.
  \<^item> \<open>RiscvAccess\<close>: the register fields of \<^verbatim>\<open>riscvCSR.h\<close> and the access macros \<^verbatim>\<open>RD_CSR\<close>, \<^verbatim>\<open>WR_CSR\<close>,
    \<^verbatim>\<open>RD_CSR_FIELD\<close>, \<^verbatim>\<open>WR_CSR_FIELD\<close>. Registers whose 32-bit and 64-bit layouts share storage are one
    64-bit word; the others (\<open>csr_32_64\<close>) keep one word for each layout, as the C structure does.
  \<^item> \<open>RiscvUtils\<close>: \<^verbatim>\<open>riscvUtils.c\<close>: current architecture, modes, mode switch, exclusive monitor.
  \<^item> \<open>RiscvPMP\<close>: physical memory protection, \<^verbatim>\<open>riscvVM.c\<close>.
  \<^item> \<open>RiscvException\<close>: \<^verbatim>\<open>riscvExceptions.c\<close>: traps, returns, interrupts, WFI, net ports.
  \<^item> \<open>RiscvPTW\<close>: the page table walks Sv32, Sv39 and Sv48 of \<^verbatim>\<open>riscvVM.c\<close>, as one walk with the constants
    of each mode (\<open>svMode\<close>).
  \<^item> \<open>RiscvTLB\<close>: the TLB, the miss handler, fences, save and restore, and domain creation of \<^verbatim>\<open>riscvVM.c\<close>.
  \<^item> \<open>RiscvFetch\<close>: the callbacks for fetches and access exceptions of \<^verbatim>\<open>riscvExceptions.c\<close>.
  \<^item> \<open>RiscvCSR\<close>: \<^verbatim>\<open>riscvCSR.c\<close>, and the reset of \<^verbatim>\<open>riscvExceptions.c\<close>; \<open>RiscvCSRFacts\<close> has the theorems.
  \<^item> \<open>RiscvHart\<close>: the step relation and the invariant of the whole hart.
  \<^item> \<open>RiscvDecodeTypes\<close>, \<open>RiscvDecode\<close>: \<^verbatim>\<open>riscvDecodeTypes.h\<close>, \<^verbatim>\<open>riscvInstructionInfo.h\<close> and \<^verbatim>\<open>riscvDecode.c\<close>:
    the attribute tables, the decode tables built from them and the extraction of operands.
  \<^item> \<open>RiscvDecodeTable\<close>, \<open>RiscvDecodeFacts\<close>, \<open>RiscvDecodeInfo\<close>: theorems about the tables, the constants and the
    result of the decoder.
  \<^item> \<open>RiscvEncoding\<close>: the match and mask constants of \<^verbatim>\<open>riscv-test-env/encoding.h\<close>, and the agreement of the
    decoder with them.
  \<^item> \<open>RiscvSoftFloat\<close>: the parts of \<^verbatim>\<open>riscvSoftFloat.c\<close> for conversions, rounding and packing, single-precision
    addition, subtraction and multiplication, and the callbacks of the simulator.
  \<^item> \<open>RiscvSoftFloatRound\<close>, \<open>RiscvSoftFloatInt\<close>, \<open>RiscvSoftFloatCvt\<close>: rounding of real numbers, sticky bits, the
    values of the formats, and the conversions to integers.
  \<^item> \<open>RiscvSoftFloatPack\<close>, \<open>RiscvSoftFloatNorm\<close>: the correctly rounded result in a format with its flags (\<open>fp_result\<close>,
    tininess detected after rounding, as the code configures it), and that the routines that round, normalize
    and pack return it. \<open>RiscvSoftFloatDouble\<close> has the same for double precision.
  \<^item> \<open>RiscvSoftFloatFrom\<close>, \<open>RiscvSoftFloatArith\<close>, \<open>RiscvSoftFloatAdd\<close>, \<open>RiscvSoftFloatNarrow\<close>: conversion of integers,
    multiplication, addition and subtraction, and conversion of double to single precision.
  \<^item> \<open>RiscvSoftFloatOps\<close>: the theorems about the callbacks of the simulator.

  \<^bold>\<open>What the theorems show.\<close> Memory protection: the kernel's permissions are those that the PMP registers
  give, on demand and after every register write, but for two cases in which they are stale. Translation: a walk
  returns the mapping that the tables define, finds it if there is one, and the TLB, the miss handler and
  the fences keep what was mapped. Traps: the state after an exception, an interrupt and a return, and that
  a return undoes a trap. Registers: which accesses are accepted, what is read after a write, and what reset
  leaves. The hart: an invariant of all states reachable from initialization, from which reset and decoding
  always complete. Decoder: no word is ambiguous, every encoding of the test environment decodes to its
  instruction, and the constants are those of the manual. Floating point: conversions and single-precision
  addition, subtraction and multiplication return the correctly rounded value of the exact result in every
  rounding mode, with the flags of the standard and its rules for zeros, infinities and NaNs.

  \<^bold>\<open>Interfaces.\<close> The locales state what one part relies on and are interpreted on the model: \<open>protect_memory\<close>
  on the memory calls of the kernel that PMP uses, \<open>kernel_halt\<close> on its halt and restart calls, \<open>range_table\<close> and
  \<open>domain_alloc\<close> on its range tables and memory domains, \<open>pt_memory\<close> on a memory that holds page tables, \<open>vmid_lookup\<close> on the decode tables (any lookup that
  returns a matching entry of highest priority; the reference lookup is one), and \<open>round_routine32\<close> and
  \<open>round_routine64\<close> on the routines that round to integers of each width and signedness.

  \<^bold>\<open>Loops.\<close> All loops are total functions: a page table walk recurses on the level, the miss handler on the
  bytes of the access that are not yet mapped, the search for an interrupt and for a PMP region on the index.
  No definition has fuel. Assertions of the code that fail, and reads past the end of an array, are the value \<open>None\<close>.

  \<^bold>\<open>Not modelled.\<close> \<^verbatim>\<open>riscvMorph.c\<close> emits code through the VMI primitives of a just-in-time compiler whose
  semantics is not in the repository. Division, square root, fused multiply-add and double-precision addition,
  subtraction and multiplication of \<^verbatim>\<open>riscvSoftFloat.c\<close>. The disassembler, the debugger's register lists, buses,
  clusters, semihosting, parameters, construction, information and documentation produce text or descriptors
  for the kernel. The example programs and the assembly tests run on the simulator and are not part of it.
\<close>

section \<open>Reachable states of a hart\<close>

text \<open>C3. From initialization on, whatever the hart executes and whatever signals arrive: a hart that waits in
  WFI has no pending interrupt (no wake-up is lost), the translation mode is one that the configuration
  implements, no interrupt outside the delegation mask is delegated, and the XLEN by which every register
  access selects its layout is the one that \<^verbatim>\<open>misa\<close> reports.\<close>

theorem hart_reachable_ok:
  assumes "boot_ok s" and "riscvCSRInit index s = Some t" and "(hart_step V)\<^sup>*\<^sup>* t u"
  shows "(bit (riscv_disable u) 0 \<longrightarrow> getPendingInterrupts u = 0)
    \<and> bit (Sv_modes (configInfo u)) (unat (RD_CSR2_FIELD u satp atp_MODE))
    \<and> RD_CSR u mideleg AND NOT (RD_CSR_MASK u midelegM) = 0
    \<and> RISCV_XLEN_IS_64 u = (\<not> RISCV_XLEN_IS_32 u)
    \<and> RD_CSR2_FIELD u misa isa_MXL = (if RISCV_XLEN_IS_32 u then 1 else 2)"
  using hart_reachable_inv [OF assms] unfolding hart_inv_def wfi_ok_def satp_ok_def deleg_ok_def xlen_ok_def by blast

theorem hart_reachable_ok_witness:
  "\<exists>t. riscvCSRInit 0 boot_example = Some t \<and> hart_step vmirt_example t (riscvWFI t)
    \<and> (bit (riscv_disable (riscvWFI t)) 0 \<longrightarrow> getPendingInterrupts (riscvWFI t) = 0)"
proof -
  obtain t where t: "riscvCSRInit 0 boot_example = Some t"
    using hart_inv_riscvCSRInit [OF boot_example_ok] by blast
  have "hart_step vmirt_example t (riscvWFI t)" by (rule hart_step.wfi)
  with hart_reachable_ok [OF boot_example_ok t r_into_rtranclp [of "hart_step vmirt_example"]] t show ?thesis by blast
qed

text \<open>C28. In every reachable state a Machine mode software, timer or external interrupt is taken to Machine
  mode, whatever the delegation registers have been written with.\<close>

theorem machine_interrupt_target:
  assumes "boot_ok s" and "riscvCSRInit index s = Some t" and "(hart_step V)\<^sup>*\<^sup>* t u"
    and "e \<in> {riscv_E_MSWInterrupt, riscv_E_MTimerInterrupt, riscv_E_MExternalInterrupt}"
  shows "getCurrentMode (riscvTakeException V e tval u) = RISCV_MODE_MACHINE"
  using trap_mode_machine_interrupt [OF hart_reachable_inv [OF assms(1-3)] assms(4)] by simp

theorem machine_interrupt_target_witness:
  "\<exists>t. riscvCSRInit 0 boot_example = Some t
    \<and> getCurrentMode (riscvTakeException vmirt_example riscv_E_MTimerInterrupt 0 t) = RISCV_MODE_MACHINE"
proof -
  obtain t where t: "riscvCSRInit 0 boot_example = Some t"
    using hart_inv_riscvCSRInit [OF boot_example_ok] by blast
  with machine_interrupt_target [OF boot_example_ok t rtranclp.rtrancl_refl, of riscv_E_MTimerInterrupt vmirt_example 0]
  show ?thesis by auto
qed



section \<open>Decoding in a reachable state\<close>

lemma xlen_known: "RISCV_XLEN_IS_64 u = (\<not> RISCV_XLEN_IS_32 u) \<Longrightarrow> getXLenBits u \<noteq> None"
  by (auto simp: getXLenBits_def riscvGetXlenMode_def RISCV_XLEN_IS_64_def RISCV_XLEN_IS_32_def)



end
